(* ===== verification/Prelude.thy ===== *)
theory Prelude
  imports Main "HOL-Library.Word" "HOL-Library.Product_Lexorder" "HOL-Library.List_Lexorder"
    "HOL-Library.Multiset"
begin

text \<open>
  Shared vocabulary of the development: the machine integers of the Rust sources with their
  saturating operations, the result type of fallible code with the combinators that stand for
  \<^verbatim>\<open>?\<close>, \<^verbatim>\<open>ensure!\<close> and \<^verbatim>\<open>ok_or\<close>, bounded vectors, and generic lemmas on lists and
  maps. The collection \<open>res_simps\<close> holds the inversion rules that turn ``this operation
  returned \<open>Ok\<close>'' into the conjunction of the guards it passed and the updates it made.
\<close>

named_theorems res_simps \<open>inversion rules for results\<close>

subsection \<open>Machine integers\<close>

type_synonym u8 = "8 word"
type_synonym u16 = "16 word"
type_synonym u32 = "32 word"
type_synonym u64 = "64 word"
type_synonym u128 = "128 word"
type_synonym bytes = "u8 list"

text \<open>Identifiers that the sources keep as fixed-size byte arrays.\<close>

type_synonym account = "256 word"
type_synonym H256 = "256 word"
type_synonym H160 = "160 word"

text \<open>Rust's \<^verbatim>\<open>saturating_add\<close>, \<^verbatim>\<open>saturating_sub\<close> and \<^verbatim>\<open>saturated_into\<close> on unsigned integers.\<close>

definition sat_add :: "'a::len word \<Rightarrow> 'a word \<Rightarrow> 'a word" where
  "sat_add a b = (if unat a + unat b < 2 ^ LENGTH('a) then a + b else - 1)"

definition sat_sub :: "'a::len word \<Rightarrow> 'a word \<Rightarrow> 'a word" where
  "sat_sub a b = (if b \<le> a then a - b else 0)"

definition sat_into :: "'a::len word \<Rightarrow> 'b::len word" where
  "sat_into a = (if unat a < 2 ^ LENGTH('b) then ucast a else - 1)"

lemma unat_minus_one_word: "unat (- 1 :: 'a::len word) = 2 ^ LENGTH('a) - 1"
  by (simp add: unsigned_minus_1_eq_mask mask_eq_exp_minus_1)

lemma unat_sat_add: "unat (sat_add a b) = min (unat a + unat b) (2 ^ LENGTH('a) - 1)"
  for a b :: "'a::len word"
  by (auto simp: sat_add_def unat_word_ariths unat_minus_one_word)

lemma unat_sat_sub: "unat (sat_sub a b) = unat a - unat b"
  by (auto simp: sat_sub_def unat_sub word_le_nat_alt)

lemma unat_less_exp: "unat a < 2 ^ LENGTH('a)" for a :: "'a::len word"
  by (rule unsigned_less)

lemma sat_add_mono: "a \<le> sat_add a b" for a b :: "'a::len word"
proof -
  have "unat a \<le> 2 ^ LENGTH('a) - 1"
    using unat_less_exp [of a] by linarith
  then show ?thesis
    by (simp add: word_le_nat_alt unat_sat_add)
qed

lemma sat_sub_le: "sat_sub a b \<le> a"
  by (simp add: word_le_nat_alt unat_sat_sub)

text \<open>Evaluation without natural numbers.\<close>

lemma sat_add_code [code]: "sat_add a b = (if a \<le> a + b then a + b else - 1)"
  by (simp add: sat_add_def no_olen_add_nat)

lemma uint_less_exp_iff: "uint a < 2 ^ n \<longleftrightarrow> unat a < 2 ^ n" for a :: "'a::len word"
proof -
  have "uint a = int (unat a)" "(2 :: int) ^ n = int (2 ^ n)"
    by simp_all
  then show ?thesis
    by (simp only: of_nat_less_iff)
qed

lemma sat_into_code [code]:
  "(sat_into a :: 'b::len word) = (if uint a < 2 ^ LENGTH('b) then ucast a else - 1)"
  by (simp only: sat_into_def uint_less_exp_iff)

subsection \<open>Results\<close>

text \<open>
  A fallible function returns \<open>Inl e\<close> for \<^verbatim>\<open>Err(e)\<close> (or a panic) and \<open>Inr x\<close> for
  \<^verbatim>\<open>Ok(x)\<close>. A state-changing operation returns the new state in \<open>Inr\<close>; since the storage
  layer of a dispatchable is rolled back on an error, \<open>Inl\<close> carries no state.
\<close>

definition bind_res :: "'e + 'a \<Rightarrow> ('a \<Rightarrow> 'e + 'b) \<Rightarrow> 'e + 'b" where
  "bind_res r f = (case r of Inl e \<Rightarrow> Inl e | Inr x \<Rightarrow> f x)"

definition ensure :: "bool \<Rightarrow> 'e \<Rightarrow> 'e + 'a \<Rightarrow> 'e + 'a" where
  "ensure b e k = (if b then k else Inl e)"

definition ok_or :: "'e \<Rightarrow> 'a option \<Rightarrow> 'e + 'a" where
  "ok_or e opt = (case opt of None \<Rightarrow> Inl e | Some x \<Rightarrow> Inr x)"

definition map_err :: "('e \<Rightarrow> 'f) \<Rightarrow> 'e + 'a \<Rightarrow> 'f + 'a" where
  "map_err f r = (case r of Inl e \<Rightarrow> Inl (f e) | Inr x \<Rightarrow> Inr x)"

definition is_ok :: "'e + 'a \<Rightarrow> bool" where
  "is_ok r = (case r of Inl _ \<Rightarrow> False | Inr _ \<Rightarrow> True)"

lemma bind_res_simps [simp]:
  "bind_res (Inl e) f = Inl e"
  "bind_res (Inr x) f = f x"
  by (simp_all add: bind_res_def)

lemma ensure_simps [simp]:
  "ensure True e k = k"
  "ensure False e k = Inl e"
  by (simp_all add: ensure_def)

lemma ok_or_simps [simp]:
  "ok_or e None = Inl e"
  "ok_or e (Some x) = Inr x"
  by (simp_all add: ok_or_def)

lemma map_err_simps [simp]:
  "map_err f (Inl e) = Inl (f e)"
  "map_err f (Inr x) = Inr x"
  by (simp_all add: map_err_def)

lemma is_ok_simps [simp]:
  "is_ok (Inl e) = False"
  "is_ok (Inr x) = True"
  by (simp_all add: is_ok_def)

lemma bind_res_Inr [res_simps]: "bind_res r f = Inr y \<longleftrightarrow> (\<exists>x. r = Inr x \<and> f x = Inr y)"
  by (cases r) auto

lemma bind_res_Inl [res_simps]:
  "bind_res r f = Inl e \<longleftrightarrow> r = Inl e \<or> (\<exists>x. r = Inr x \<and> f x = Inl e)"
  by (cases r) auto

lemma ensure_Inr [res_simps]: "ensure b e k = Inr y \<longleftrightarrow> b \<and> k = Inr y"
  by (cases b) auto

lemma ok_or_Inr [res_simps]: "ok_or e opt = Inr x \<longleftrightarrow> opt = Some x"
  by (cases opt) auto

lemma map_err_Inr [res_simps]: "map_err f r = Inr x \<longleftrightarrow> r = Inr x"
  by (cases r) auto

lemma is_ok_iff: "is_ok r \<longleftrightarrow> (\<exists>x. r = Inr x)"
  by (cases r) auto

lemma bind_res_assoc: "bind_res (bind_res r f) g = bind_res r (\<lambda>x. bind_res (f x) g)"
  by (cases r) auto

lemma bind_res_cong [fundef_cong]:
  "r = r' \<Longrightarrow> (\<And>x. r' = Inr x \<Longrightarrow> f x = f' x) \<Longrightarrow> bind_res r f = bind_res r' f'"
  by (cases r') auto

text \<open>A \<^verbatim>\<open>for\<close> loop whose body may return early with an error.\<close>

fun fold_res :: "('x \<Rightarrow> 's \<Rightarrow> 'e + 's) \<Rightarrow> 'x list \<Rightarrow> 's \<Rightarrow> 'e + 's" where
  "fold_res f [] s = Inr s"
| "fold_res f (x # xs) s = bind_res (f x s) (fold_res f xs)"

lemma fold_res_append:
  "fold_res f (xs @ ys) s = bind_res (fold_res f xs s) (fold_res f ys)"
  by (induction xs arbitrary: s) (auto simp: bind_res_def split: sum.splits)

lemma fold_res_invariant:
  assumes "fold_res f xs s = Inr s'" and "P s"
    and "\<And>x s s'. x \<in> set xs \<Longrightarrow> f x s = Inr s' \<Longrightarrow> P s \<Longrightarrow> P s'"
  shows "P s'"
  using assms
proof (induction xs arbitrary: s)
  case Nil
  then show ?case by simp
next
  case (Cons x xs)
  from Cons.prems(1) obtain t where t: "f x s = Inr t" "fold_res f xs t = Inr s'"
    by (auto simp: res_simps)
  have "P t" using Cons.prems(2) Cons.prems(3) [OF _ t(1)] by simp
  then show ?case
    by (rule Cons.IH [OF t(2)]) (use Cons.prems(3) in auto)
qed

subsection \<open>Bounded vectors\<close>

text \<open>\<^verbatim>\<open>BoundedVec::try_push\<close>: refuses the element when the vector has reached its bound.\<close>

definition try_push :: "nat \<Rightarrow> 'x \<Rightarrow> 'x list \<Rightarrow> 'x list option" where
  "try_push lim x xs = (if length xs < lim then Some (xs @ [x]) else None)"

lemma try_push_Some [res_simps]:
  "try_push lim x xs = Some ys \<longleftrightarrow> length xs < lim \<and> ys = xs @ [x]"
  by (auto simp: try_push_def)

lemma try_push_bound: "try_push lim x xs = Some ys \<Longrightarrow> length ys \<le> lim"
  by (auto simp: try_push_def split: if_splits)

text \<open>\<^verbatim>\<open>iter().position(..)\<close> followed by \<^verbatim>\<open>Vec::remove\<close>: the first occurrence goes.\<close>

fun position :: "('x \<Rightarrow> bool) \<Rightarrow> 'x list \<Rightarrow> nat option" where
  "position p [] = None"
| "position p (x # xs) = (if p x then Some 0 else map_option Suc (position p xs))"

definition remove_at :: "nat \<Rightarrow> 'x list \<Rightarrow> 'x list" where
  "remove_at i xs = take i xs @ drop (Suc i) xs"

lemma position_Some:
  "position p xs = Some i \<Longrightarrow> i < length xs \<and> p (xs ! i) \<and> (\<forall>j<i. \<not> p (xs ! j))"
proof (induction xs arbitrary: i)
  case Nil
  then show ?case by simp
next
  case (Cons x xs)
  show ?case
  proof (cases "p x")
    case True
    with Cons.prems show ?thesis by simp
  next
    case False
    with Cons.prems obtain j where j: "position p xs = Some j" "i = Suc j" by auto
    with Cons.IH [OF j(1)] False show ?thesis
      by (auto simp: nth_Cons split: nat.splits)
  qed
qed

lemma position_None: "position p xs = None \<longleftrightarrow> (\<forall>x\<in>set xs. \<not> p x)"
  by (induction xs) auto

lemma remove_at_position:
  "position (\<lambda>y. y = x) xs = Some i \<Longrightarrow> remove_at i xs = remove1 x xs"
  by (induction xs arbitrary: i) (auto simp: remove_at_def split: if_splits)

end
