(* ===== verification/BTree_Map.thy ===== *)
theory BTree_Map
  imports Prelude
begin

text \<open>
  The ordered maps and sets of the Rust standard library, \<^verbatim>\<open>BTreeMap\<close> and \<^verbatim>\<open>BTreeSet\<close>, as
  strictly sorted association lists, so that iteration order is the key order. The locale
  \<open>ordered_dict\<close> is the interface the pallets program against (lookup, insert, remove and the
  well-formedness they keep); the entry API is derived inside it, and the interpretation
  \<open>bt\<close> discharges its laws.
\<close>

subsection \<open>Operations\<close>

type_synonym ('k, 'v) btree = "('k \<times> 'v) list"

fun bt_insert :: "'k::linorder \<Rightarrow> 'v \<Rightarrow> ('k, 'v) btree \<Rightarrow> ('k, 'v) btree" where
  "bt_insert k v [] = [(k, v)]"
| "bt_insert k v ((k', v') # m) =
    (if k < k' then (k, v) # (k', v') # m
     else if k = k' then (k, v) # m
     else (k', v') # bt_insert k v m)"

definition bt_get :: "('k, 'v) btree \<Rightarrow> 'k \<Rightarrow> 'v option" where
  "bt_get m k = map_of m k"

fun bt_remove :: "'k::linorder \<Rightarrow> ('k, 'v) btree \<Rightarrow> ('k, 'v) btree" where
  "bt_remove k [] = []"
| "bt_remove k ((k', v') # m) = (if k = k' then m else (k', v') # bt_remove k m)"

definition bt_wf :: "('k::linorder, 'v) btree \<Rightarrow> bool" where
  "bt_wf m = sorted_wrt (<) (map fst m)"

definition bt_keys :: "('k, 'v) btree \<Rightarrow> 'k list" where
  "bt_keys m = map fst m"

definition bt_values :: "('k, 'v) btree \<Rightarrow> 'v list" where
  "bt_values m = map snd m"

text \<open>\<^verbatim>\<open>map.entry(k).and_modify(f).or_insert(v)\<close>.\<close>

definition bt_entry :: "'k::linorder \<Rightarrow> ('v \<Rightarrow> 'v) \<Rightarrow> 'v \<Rightarrow> ('k, 'v) btree \<Rightarrow> ('k, 'v) btree" where
  "bt_entry k f v m = bt_insert k (case bt_get m k of None \<Rightarrow> v | Some x \<Rightarrow> f x) m"

text \<open>\<^verbatim>\<open>BTreeSet::insert\<close> and \<^verbatim>\<open>BTreeSet::remove\<close>.\<close>

definition bs_insert :: "'k::linorder \<Rightarrow> 'k list \<Rightarrow> 'k list" where
  "bs_insert k xs = map fst (bt_insert k () (map (\<lambda>x. (x, ())) xs))"

definition bs_remove :: "'k \<Rightarrow> 'k list \<Rightarrow> 'k list" where
  "bs_remove k xs = remove1 k xs"

subsection \<open>The interface and its laws\<close>

locale ordered_dict =
  fixes get :: "'m \<Rightarrow> 'k \<Rightarrow> 'v option"
    and ins :: "'k \<Rightarrow> 'v \<Rightarrow> 'm \<Rightarrow> 'm"
    and del :: "'k \<Rightarrow> 'm \<Rightarrow> 'm"
    and emp :: "'m"
    and wf :: "'m \<Rightarrow> bool"
  assumes get_emp: "get emp k = None"
    and wf_emp: "wf emp"
    and wf_ins: "wf m \<Longrightarrow> wf (ins k v m)"
    and wf_del: "wf m \<Longrightarrow> wf (del k m)"
    and get_ins: "get (ins k v m) k' = (if k' = k then Some v else get m k')"
    and get_del: "wf m \<Longrightarrow> get (del k m) k' = (if k' = k then None else get m k')"
begin

lemma get_ins_same [simp]: "get (ins k v m) k = Some v"
  by (simp add: get_ins)

lemma get_ins_other [simp]: "k' \<noteq> k \<Longrightarrow> get (ins k v m) k' = get m k'"
  by (simp add: get_ins)

lemma del_ins_fresh:
  "wf m \<Longrightarrow> get m k = None \<Longrightarrow> get (del k (ins k v m)) = get m"
  by (rule ext) (simp add: get_del wf_ins get_ins)

lemma wf_fold_ins: "wf m \<Longrightarrow> wf (fold (\<lambda>(k, v). ins k v) kvs m)"
  by (induction kvs arbitrary: m) (auto simp: wf_ins)

lemma get_fold_ins:
  "get (fold (\<lambda>(k, v). ins k v) kvs m) k =
    (case map_of (rev kvs) k of None \<Rightarrow> get m k | Some v \<Rightarrow> Some v)"
  by (induction kvs arbitrary: m) (auto simp: get_ins map_add_def split: option.splits)

lemma dom_get_ins: "dom (get (ins k v m)) = insert k (dom (get m))"
  by (auto simp: dom_def get_ins)

end

subsection \<open>The sorted association list satisfies them\<close>

lemma bt_get_Nil [simp]: "bt_get [] k = None"
  by (simp add: bt_get_def)

lemma set_fst_bt_insert: "fst ` set (bt_insert k v m) = insert k (fst ` set m)"
  by (induction k v m rule: bt_insert.induct) auto

lemma set_bt_remove_subset: "set (bt_remove k m) \<subseteq> set m"
  by (induction k m rule: bt_remove.induct) auto

lemma bt_wf_insert [intro]: "bt_wf m \<Longrightarrow> bt_wf (bt_insert k v m)"
proof (induction k v m rule: bt_insert.induct)
  case (1 k v)
  then show ?case by (simp add: bt_wf_def)
next
  case (2 k v k' v' m)
  have "\<forall>x\<in>fst ` set (bt_insert k v m). x = k \<or> x \<in> fst ` set m"
    by (simp add: set_fst_bt_insert)
  with 2 show ?case
    by (fastforce simp: bt_wf_def)
qed

lemma bt_wf_remove [intro]: "bt_wf m \<Longrightarrow> bt_wf (bt_remove k m)"
proof (induction k m rule: bt_remove.induct)
  case (2 k k' v' m)
  then show ?case
    using set_bt_remove_subset [of k m] by (fastforce simp: bt_wf_def)
qed (simp add: bt_wf_def)

lemma bt_get_insert: "bt_get (bt_insert k v m) k' = (if k' = k then Some v else bt_get m k')"
  by (induction k v m rule: bt_insert.induct) (auto simp: bt_get_def)

lemma bt_get_remove:
  "bt_wf m \<Longrightarrow> bt_get (bt_remove k m) k' = (if k' = k then None else bt_get m k')"
proof (induction k m rule: bt_remove.induct)
  case (2 k k'' v' m)
  have "k = k'' \<Longrightarrow> map_of m k = None"
    using 2(2) by (auto simp: bt_wf_def map_of_eq_None_iff)
  with 2 show ?case
    by (auto simp: bt_get_def bt_wf_def)
qed simp

interpretation bt: ordered_dict bt_get bt_insert bt_remove "[]" bt_wf
  by unfold_locales
    (auto simp: bt_get_insert bt_get_remove, simp add: bt_wf_def)

lemma bt_wf_distinct: "bt_wf m \<Longrightarrow> distinct (map fst m)"
  by (simp add: bt_wf_def strict_sorted_iff)

lemma bt_get_in_set: "bt_get m k = Some v \<Longrightarrow> (k, v) \<in> set m"
  by (simp add: bt_get_def map_of_SomeD)

lemma bt_get_iff_in_set: "bt_wf m \<Longrightarrow> bt_get m k = Some v \<longleftrightarrow> (k, v) \<in> set m"
  using bt_wf_distinct [of m] by (simp add: bt_get_def)

lemma bt_wf_entry [intro]: "bt_wf m \<Longrightarrow> bt_wf (bt_entry k f v m)"
  by (auto simp: bt_entry_def)

lemma bt_get_entry:
  "bt_get (bt_entry k f v m) k' =
    (if k' = k then Some (case bt_get m k of None \<Rightarrow> v | Some x \<Rightarrow> f x) else bt_get m k')"
  by (simp add: bt_entry_def bt_get_insert)

lemma bt_get_None_iff: "bt_get m k = None \<longleftrightarrow> k \<notin> fst ` set m"
  by (simp add: bt_get_def map_of_eq_None_iff)

lemma set_bs_insert: "set (bs_insert k xs) = insert k (set xs)"
  using set_fst_bt_insert [of k "()" "map (\<lambda>x. (x, ())) xs"]
  by (simp add: bs_insert_def image_image)

lemma sorted_bs_insert: "sorted_wrt (<) xs \<Longrightarrow> sorted_wrt (<) (bs_insert k xs)"
  using bt_wf_insert [of "map (\<lambda>x. (x, ())) xs" k "()"]
  by (simp add: bs_insert_def bt_wf_def comp_def)

lemma sorted_bs_remove: "sorted_wrt (<) xs \<Longrightarrow> sorted_wrt (<) (bs_remove k xs)"
  unfolding bs_remove_def
  by (induction xs) (auto dest: notin_set_remove1 in_set_takeD set_remove1_subset [THEN subsetD])

lemma set_bs_remove: "sorted_wrt (<) xs \<Longrightarrow> set (bs_remove k xs) = set xs - {k}"
  for xs :: "'k::linorder list"
  by (simp add: bs_remove_def set_remove1_eq strict_sorted_iff)

text \<open>Two well-formed maps with the same lookups are the same map.\<close>

lemma sorted_keys_unique:
  assumes "sorted_wrt (<) xs" "sorted_wrt (<) ys" "set xs = set (ys :: 'k::linorder list)"
  shows "xs = ys"
  using assms by (metis strict_sorted_equal)

lemma bt_ext:
  assumes "bt_wf m" "bt_wf m'" "\<And>k. bt_get m k = bt_get m' k"
  shows "m = m'"
proof -
  have "set m = set m'"
    using assms(3) bt_get_iff_in_set [OF assms(1)] bt_get_iff_in_set [OF assms(2)]
    by auto
  then have "map fst m = map fst m'"
    using assms(1,2) by (intro sorted_keys_unique) (auto simp: bt_wf_def)
  with \<open>set m = set m'\<close> show ?thesis
    using bt_wf_distinct [OF assms(1)] bt_wf_distinct [OF assms(2)]
    by (metis map_of_eqI map_of_inject_set distinct_map inj_on_eq_iff list.inj_map_strong
        map_eq_imp_length_eq nth_equalityI map_inj_on inj_on_Un sup.idem)
qed

end
