(* ===== verification/Assets.thy ===== *)
theory Assets
  imports BTree_Map
begin

text \<open>
  Asset identifiers and trading pairs: \<^verbatim>\<open>primitives/polkadex/src/assets.rs\<close> and the
  \<^verbatim>\<open>TradingPair\<close> part of \<^verbatim>\<open>primitives/orderbook/src/types.rs\<close>. Both are keys of ordered
  maps, so their derived \<^verbatim>\<open>Ord\<close> is an instance of \<^verbatim>\<open>linorder\<close>. The textual forms come with
  the decimal parser and printer of the standard library, and the round trips are proved.
\<close>

subsection \<open>Asset identifiers\<close>

datatype AssetId = Asset u128 | Polkadex

fun asset_id :: "AssetId \<Rightarrow> u128 option" where
  "asset_id (Asset i) = Some i"
| "asset_id Polkadex = None"

definition asset_from_u128 :: "u128 \<Rightarrow> AssetId" where
  "asset_from_u128 x = (if x = 0 then Polkadex else Asset x)"

fun u128_from_asset :: "AssetId \<Rightarrow> u128" where
  "u128_from_asset (Asset i) = i"
| "u128_from_asset Polkadex = 0"

datatype conversion_result = Native | Converted u128

definition get_native :: AssetId where
  "get_native = Polkadex"

definition is_native :: "AssetId \<Rightarrow> bool" where
  "is_native a = (a = get_native)"

fun try_convert :: "AssetId \<Rightarrow> conversion_result" where
  "try_convert Polkadex = Native"
| "try_convert (Asset i) = Converted i"

text \<open>The derived order: every \<open>Asset\<close> is below \<open>Polkadex\<close>.\<close>

instantiation AssetId :: linorder
begin

fun less_AssetId :: "AssetId \<Rightarrow> AssetId \<Rightarrow> bool" where
  "less_AssetId (Asset i) (Asset j) = (i < j)"
| "less_AssetId (Asset i) Polkadex = True"
| "less_AssetId Polkadex _ = False"

definition less_eq_AssetId :: "AssetId \<Rightarrow> AssetId \<Rightarrow> bool" where
  "less_eq_AssetId a b = (a < b \<or> a = b)"

instance
proof
  fix x y z :: AssetId
  show "(x < y) = (x \<le> y \<and> \<not> y \<le> x)"
    by (cases x; cases y) (auto simp: less_eq_AssetId_def)
  show "x \<le> x"
    by (simp add: less_eq_AssetId_def)
  show "x \<le> y \<Longrightarrow> y \<le> z \<Longrightarrow> x \<le> z"
    by (cases x; cases y; cases z) (auto simp: less_eq_AssetId_def)
  show "x \<le> y \<Longrightarrow> y \<le> x \<Longrightarrow> x = y"
    by (cases x; cases y) (auto simp: less_eq_AssetId_def)
  show "x \<le> y \<or> y \<le> x"
    by (cases x; cases y) (auto simp: less_eq_AssetId_def)
qed

end

subsection \<open>Trading pairs\<close>

datatype TradingPair = TradingPair (base: AssetId) (quote: AssetId)

instantiation TradingPair :: linorder
begin

definition less_TradingPair :: "TradingPair \<Rightarrow> TradingPair \<Rightarrow> bool" where
  "less_TradingPair p q = (base p < base q \<or> base p = base q \<and> quote p < quote q)"

definition less_eq_TradingPair :: "TradingPair \<Rightarrow> TradingPair \<Rightarrow> bool" where
  "less_eq_TradingPair p q = (p < q \<or> p = q)"

instance
proof
  fix x y z :: TradingPair
  show "(x < y) = (x \<le> y \<and> \<not> y \<le> x)"
    by (cases x; cases y) (auto simp: less_eq_TradingPair_def less_TradingPair_def)
  show "x \<le> x"
    by (simp add: less_eq_TradingPair_def)
  show "x \<le> y \<Longrightarrow> y \<le> z \<Longrightarrow> x \<le> z"
    by (cases x; cases y; cases z) (auto simp: less_eq_TradingPair_def less_TradingPair_def)
  show "x \<le> y \<Longrightarrow> y \<le> x \<Longrightarrow> x = y"
    by (cases x; cases y) (auto simp: less_eq_TradingPair_def less_TradingPair_def)
  show "x \<le> y \<or> y \<le> x"
    by (cases x; cases y) (auto simp: less_eq_TradingPair_def less_TradingPair_def)
qed

end

definition pair_from :: "AssetId \<Rightarrow> AssetId \<Rightarrow> TradingPair" where
  "pair_from q b = TradingPair b q"

definition is_quote_asset :: "TradingPair \<Rightarrow> AssetId \<Rightarrow> bool" where
  "is_quote_asset p a = (quote p = a)"

definition is_base_asset :: "TradingPair \<Rightarrow> AssetId \<Rightarrow> bool" where
  "is_base_asset p a = (base p = a)"

definition is_part_of :: "TradingPair \<Rightarrow> AssetId \<Rightarrow> bool" where
  "is_part_of p a = (base p = a \<or> quote p = a)"

subsection \<open>Decimal numerals of the standard library\<close>

definition digit_char :: "nat \<Rightarrow> char" where
  "digit_char d = char_of (48 + d)"

definition char_digit :: "char \<Rightarrow> nat option" where
  "char_digit c = (let n = of_char c :: nat in if 48 \<le> n \<and> n \<le> 57 then Some (n - 48) else None)"

text \<open>\<^verbatim>\<open>format!("{id:?}")\<close> of an unsigned integer.\<close>

fun show_nat :: "nat \<Rightarrow> string" where
  "show_nat n = (if n < 10 then [digit_char n] else show_nat (n div 10) @ [digit_char (n mod 10)])"

declare show_nat.simps [simp del]

text \<open>
  \<^verbatim>\<open>str::parse::<u128>()\<close>: a leading plus is accepted, the rest must be a non-empty run of
  digits, and a value that leaves the type at any step is an error.
\<close>

fun parse_digits :: "nat \<Rightarrow> string \<Rightarrow> nat option" where
  "parse_digits acc [] = Some acc"
| "parse_digits acc (c # cs) =
    (case char_digit c of
      None \<Rightarrow> None
    | Some d \<Rightarrow> if acc * 10 + d < 2 ^ 128 then parse_digits (acc * 10 + d) cs else None)"

text \<open>The bound is compared as an integer when the parser is executed.\<close>

lemma parse_digits_code [code]:
  "parse_digits acc [] = Some acc"
  "parse_digits acc (c # cs) =
    (case char_digit c of
      None \<Rightarrow> None
    | Some d \<Rightarrow> if int (acc * 10 + d) < 2 ^ 128 then parse_digits (acc * 10 + d) cs else None)"
proof -
  have "x < 2 ^ 128 \<longleftrightarrow> int x < 2 ^ 128" for x :: nat
    by (metis of_nat_less_iff of_nat_numeral of_nat_power)
  then show "parse_digits acc (c # cs) =
    (case char_digit c of
      None \<Rightarrow> None
    | Some d \<Rightarrow> if int (acc * 10 + d) < 2 ^ 128 then parse_digits (acc * 10 + d) cs else None)"
    by (simp only: parse_digits.simps)
qed simp

definition parse_u128 :: "string \<Rightarrow> u128 option" where
  "parse_u128 s =
    (let ds = (case s of [] \<Rightarrow> [] | c # cs \<Rightarrow> if c = CHR ''+'' then cs else s)
     in if ds = [] then None else map_option word_of_nat (parse_digits 0 ds))"

text \<open>\<^verbatim>\<open>str::split(sep)\<close>: the pieces between separators, never an empty list.\<close>

fun split_on :: "char \<Rightarrow> string \<Rightarrow> string list" where
  "split_on sep [] = [[]]"
| "split_on sep (c # cs) =
    (if c = sep then [] # split_on sep cs
     else (case split_on sep cs of [] \<Rightarrow> [[c]] | w # ws \<Rightarrow> (c # w) # ws))"

subsection \<open>Textual forms\<close>

fun asset_to_string :: "AssetId \<Rightarrow> string" where
  "asset_to_string Polkadex = ''PDEX''"
| "asset_to_string (Asset i) = show_nat (unat i)"

definition asset_try_from :: "string \<Rightarrow> AssetId option" where
  "asset_try_from s = (if s = ''PDEX'' then Some Polkadex else map_option Asset (parse_u128 s))"

definition pair_to_string :: "TradingPair \<Rightarrow> string" where
  "pair_to_string p = asset_to_string (base p) @ ''-'' @ asset_to_string (quote p)"

definition market_id :: "TradingPair \<Rightarrow> string" where
  "market_id p = asset_to_string (base p) @ ''/'' @ asset_to_string (quote p)"

definition pair_asset :: "string \<Rightarrow> string + AssetId" where
  "pair_asset s = (if s = ''PDEX'' then Inr Polkadex
    else bind_res (ok_or ''asset id parse error'' (parse_u128 s)) (\<lambda>i. Inr (Asset i)))"

definition pair_try_from :: "string \<Rightarrow> string + TradingPair" where
  "pair_try_from s =
    (let assets = split_on (CHR ''-'') s in
     ensure (length assets = 2) ''Invalid String''
      (bind_res (pair_asset (assets ! 0)) (\<lambda>base_asset.
       bind_res (pair_asset (assets ! 1)) (\<lambda>quote_asset.
       Inr (pair_from quote_asset base_asset)))))"

subsection \<open>Numerals round trip\<close>

lemma char_digit_digit_char [simp]: "d < 10 \<Longrightarrow> char_digit (digit_char d) = Some d"
  by (simp add: char_digit_def digit_char_def)

lemma parse_digits_append:
  "parse_digits acc (xs @ ys) = Option.bind (parse_digits acc xs) (\<lambda>a. parse_digits a ys)"
  by (induction xs arbitrary: acc) (auto split: option.splits)

lemma parse_digits_show_nat: "n < 2 ^ 128 \<Longrightarrow> parse_digits 0 (show_nat n) = Some n"
proof (induction n rule: show_nat.induct)
  case (1 n)
  show ?case
  proof (cases "n < 10")
    case True
    then show ?thesis by (simp add: show_nat.simps [of n])
  next
    case False
    have "n div 10 < 2 ^ 128"
      using "1.prems" by (rule le_less_trans [OF div_le_dividend])
    with False "1.IH" have "parse_digits 0 (show_nat (n div 10)) = Some (n div 10)"
      by simp
    moreover have "n div 10 * 10 + n mod 10 = n"
      by simp
    ultimately show ?thesis
      using False "1.prems" by (simp add: show_nat.simps [of n] parse_digits_append)
  qed
qed

lemma set_show_nat: "set (show_nat n) \<subseteq> digit_char ` {0..<10}"
proof (induction n rule: show_nat.induct)
  case (1 n)
  then show ?case by (cases "n < 10") (auto simp: show_nat.simps [of n])
qed

lemma show_nat_not_Nil [simp]: "show_nat n \<noteq> []"
  by (simp add: show_nat.simps [of n])

lemma digit_char_neq:
  "d < 10 \<Longrightarrow> digit_char d \<noteq> CHR ''+''"
  "d < 10 \<Longrightarrow> digit_char d \<noteq> CHR ''-''"
  "d < 10 \<Longrightarrow> digit_char d \<noteq> CHR ''P''"
  using char_digit_digit_char [of d] by (auto simp: char_digit_def)

lemma show_nat_avoids: "CHR ''+'' \<notin> set (show_nat n)" "CHR ''-'' \<notin> set (show_nat n)"
    "CHR ''P'' \<notin> set (show_nat n)"
  using set_show_nat [of n] digit_char_neq by force+

lemma show_nat_not_PDEX [simp]: "show_nat n \<noteq> ''PDEX''"
  using show_nat_avoids(3) [of n] by auto

lemma parse_u128_show [simp]: "parse_u128 (show_nat (unat x)) = Some x" for x :: u128
proof -
  have "parse_digits 0 (show_nat (unat x)) = Some (unat x)"
    using unat_less_exp [of x] by (intro parse_digits_show_nat) simp
  moreover have "(case show_nat (unat x) of [] \<Rightarrow> []
      | c # cs \<Rightarrow> if c = CHR ''+'' then cs else show_nat (unat x)) = show_nat (unat x)"
    using show_nat_avoids(1) [of "unat x"] by (auto split: list.splits)
  ultimately show ?thesis by (simp add: parse_u128_def)
qed

lemma split_on_no_sep: "sep \<notin> set w \<Longrightarrow> split_on sep w = [w]"
  by (induction w) auto

lemma split_on_sep: "sep \<notin> set w \<Longrightarrow> split_on sep (w @ sep # v) = w # split_on sep v"
  by (induction w) auto

lemma asset_to_string_no_dash: "CHR ''-'' \<notin> set (asset_to_string a)"
  by (cases a) (auto simp: show_nat_avoids)

lemma pair_asset_to_string [simp]: "pair_asset (asset_to_string a) = Inr a"
  by (cases a) (simp_all add: pair_asset_def)

text \<open>C38: the textual form of a trading pair, \<^verbatim>\<open>base-quote\<close>, is read back by
  \<^verbatim>\<open>TryFrom<String>\<close> as the same pair, so the market named in a signed order payload is the
  market of the order.\<close>

theorem pair_try_from_to_string: "pair_try_from (pair_to_string p) = Inr p"
proof -
  have "split_on (CHR ''-'') (pair_to_string p) = [asset_to_string (base p), asset_to_string (quote p)]"
    by (simp add: pair_to_string_def split_on_sep split_on_no_sep asset_to_string_no_dash)
  then show ?thesis
    by (simp add: pair_try_from_def pair_from_def)
qed

text \<open>Converting an asset to its number and back loses exactly the asset with number zero,
  which becomes the native currency; every number survives the opposite round trip.\<close>

theorem asset_u128_roundtrip:
  "(asset_from_u128 (u128_from_asset a) = a \<longleftrightarrow> a \<noteq> Asset 0) \<and> u128_from_asset (asset_from_u128 n) = n"
  by (cases a) (auto simp: asset_from_u128_def)

end
