(* ===== verification/Decimal_Ops.thy ===== *)
theory Decimal_Ops
  imports Assets Complex_Main
begin

text \<open>
  The interface of the fixed-point type \<^verbatim>\<open>rust_decimal::Decimal\<close>, an external crate. The
  model is generic in the type \<open>'d\<close> of decimals and takes the operations the sources call as a
  record; an operation that panics returns \<open>None\<close> or is named as such. What the sources rely
  on is the predicate \<open>decimal_laws\<close>: with respect to a numeric value, an operation is exact
  whenever the exact result is representable (a mantissa below \<open>2 ^ 96\<close> at a scale of at most
  28), comparisons are numeric, and conversions to integers truncate.
\<close>

subsection \<open>Operations\<close>

datatype ordering = Less | Equal | Greater

record 'd decimal_ops =
  d_zero :: 'd
  d_from :: "u128 \<Rightarrow> 'd option"
  d_lit :: "rat \<Rightarrow> 'd"
  d_from_str :: "string \<Rightarrow> 'd option"
  d_cmp :: "'d \<Rightarrow> 'd \<Rightarrow> ordering"
  d_sat_add :: "'d \<Rightarrow> 'd \<Rightarrow> 'd"
  d_sat_sub :: "'d \<Rightarrow> 'd \<Rightarrow> 'd"
  d_sat_mul :: "'d \<Rightarrow> 'd \<Rightarrow> 'd"
  d_checked_add :: "'d \<Rightarrow> 'd \<Rightarrow> 'd option"
  d_checked_div :: "'d \<Rightarrow> 'd \<Rightarrow> 'd option"
  d_sub :: "'d \<Rightarrow> 'd \<Rightarrow> 'd option"
  d_mul :: "'d \<Rightarrow> 'd \<Rightarrow> 'd option"
  d_div :: "'d \<Rightarrow> 'd \<Rightarrow> 'd option"
  d_rem :: "'d \<Rightarrow> 'd \<Rightarrow> 'd option"
  d_pow :: "'d \<Rightarrow> rat \<Rightarrow> 'd"
  d_to_u128 :: "'d \<Rightarrow> u128 option"
  d_round_to_zero :: "nat \<Rightarrow> 'd \<Rightarrow> 'd"
  d_scale :: "'d \<Rightarrow> nat"

definition d_eq :: "'d decimal_ops \<Rightarrow> 'd \<Rightarrow> 'd \<Rightarrow> bool" where
  "d_eq D a b = (d_cmp D a b = Equal)"

definition d_lt :: "'d decimal_ops \<Rightarrow> 'd \<Rightarrow> 'd \<Rightarrow> bool" where
  "d_lt D a b = (d_cmp D a b = Less)"

definition d_le :: "'d decimal_ops \<Rightarrow> 'd \<Rightarrow> 'd \<Rightarrow> bool" where
  "d_le D a b = (d_cmp D a b \<noteq> Greater)"

definition d_is_zero :: "'d decimal_ops \<Rightarrow> 'd \<Rightarrow> bool" where
  "d_is_zero D a = d_eq D a (d_zero D)"

text \<open>\<^verbatim>\<open>UNIT_BALANCE\<close>: the number of base units of one PDEX.\<close>

definition UNIT_BALANCE :: u128 where
  "UNIT_BALANCE = 1000000000000"

text \<open>
  The conversions between on-chain integers and decimals that recur in the pallet:
  \<^verbatim>\<open>Decimal::from(x).checked_div(Decimal::from(UNIT_BALANCE))\<close>, its panicking variant with
  \<^verbatim>\<open>div\<close>, and \<^verbatim>\<open>d.saturating_mul(Decimal::from(UNIT_BALANCE)).to_u128()\<close>. A result of \<open>None\<close>
  of the outer option is a panic of \<^verbatim>\<open>Decimal::from\<close> (or of the division).
\<close>

definition d_checked_from_units :: "'d decimal_ops \<Rightarrow> u128 \<Rightarrow> 'd option option" where
  "d_checked_from_units D x =
    (case (d_from D x, d_from D UNIT_BALANCE) of
      (Some a, Some u) \<Rightarrow> Some (d_checked_div D a u)
    | _ \<Rightarrow> None)"

definition d_from_units :: "'d decimal_ops \<Rightarrow> u128 \<Rightarrow> 'd option" where
  "d_from_units D x =
    (case (d_from D x, d_from D UNIT_BALANCE) of
      (Some a, Some u) \<Rightarrow> d_div D a u
    | _ \<Rightarrow> None)"

definition d_to_units :: "'d decimal_ops \<Rightarrow> 'd \<Rightarrow> u128 option option" where
  "d_to_units D x =
    (case d_from D UNIT_BALANCE of
      None \<Rightarrow> None
    | Some u \<Rightarrow> Some (d_to_u128 D (d_sat_mul D x u)))"

subsection \<open>Documented behaviour\<close>

definition representable :: "rat \<Rightarrow> bool" where
  "representable q \<longleftrightarrow> (\<exists>m s. s \<le> 28 \<and> \<bar>m\<bar> < (2 :: int) ^ 96 \<and> q = of_int m / 10 ^ s)"

definition cmp_rat :: "rat \<Rightarrow> rat \<Rightarrow> ordering" where
  "cmp_rat a b = (if a < b then Less else if a = b then Equal else Greater)"

definition trunc_rat :: "nat \<Rightarrow> rat \<Rightarrow> rat" where
  "trunc_rat n q = (if 0 \<le> q then of_int \<lfloor>q * 10 ^ n\<rfloor> / 10 ^ n else of_int \<lceil>q * 10 ^ n\<rceil> / 10 ^ n)"

definition decimal_laws :: "'d decimal_ops \<Rightarrow> ('d \<Rightarrow> rat) \<Rightarrow> bool" where
  "decimal_laws D val \<longleftrightarrow>
    val (d_zero D) = 0 \<and>
    (\<forall>n. unat n < 2 ^ 96 \<longrightarrow> (\<exists>x. d_from D n = Some x \<and> val x = of_nat (unat n))) \<and>
    (\<forall>a b. d_cmp D a b = cmp_rat (val a) (val b)) \<and>
    (\<forall>a b. representable (val a + val b) \<longrightarrow> val (d_sat_add D a b) = val a + val b) \<and>
    (\<forall>a b. representable (val a - val b) \<longrightarrow> val (d_sat_sub D a b) = val a - val b) \<and>
    (\<forall>a b. representable (val a * val b) \<longrightarrow> val (d_sat_mul D a b) = val a * val b) \<and>
    (\<forall>a b. representable (val a * val b) \<longrightarrow>
      (\<exists>c. d_mul D a b = Some c \<and> val c = val a * val b)) \<and>
    (\<forall>a b. val b \<noteq> 0 \<and> representable (val a / val b) \<longrightarrow>
      (\<exists>c. d_checked_div D a b = Some c \<and> d_div D a b = Some c \<and> val c = val a / val b)) \<and>
    (\<forall>a. 0 \<le> val a \<and> val a < 2 ^ 128 \<longrightarrow>
      d_to_u128 D a = Some (word_of_nat (nat \<lfloor>val a\<rfloor>))) \<and>
    (\<forall>n a. val (d_round_to_zero D n a) = trunc_rat n (val a)) \<and>
    (\<forall>a b. representable (val a + val b) \<longrightarrow>
      (\<exists>c. d_checked_add D a b = Some c \<and> val c = val a + val b))"

text \<open>A concrete instance on exact rationals: the laws can be met.\<close>

definition rat_decimal :: "rat decimal_ops" where
  "rat_decimal =
    \<lparr> d_zero = 0,
      d_from = (\<lambda>n. Some (of_int (uint n))),
      d_lit = (\<lambda>q. q),
      d_from_str = (\<lambda>s. map_option (\<lambda>n. of_int (uint n)) (parse_u128 s)),
      d_cmp = cmp_rat,
      d_sat_add = (+),
      d_sat_sub = (-),
      d_sat_mul = (*),
      d_checked_add = (\<lambda>a b. Some (a + b)),
      d_checked_div = (\<lambda>a b. if b = 0 then None else Some (a / b)),
      d_sub = (\<lambda>a b. Some (a - b)),
      d_mul = (\<lambda>a b. Some (a * b)),
      d_div = (\<lambda>a b. if b = 0 then None else Some (a / b)),
      d_rem = (\<lambda>a b. if b = 0 then None else Some (a - b * of_int \<lfloor>a / b\<rfloor>)),
      d_pow = (\<lambda>a _. a),
      d_to_u128 = (\<lambda>a. if 0 \<le> a \<and> a < 2 ^ 128 then Some (word_of_int \<lfloor>a\<rfloor>) else None),
      d_round_to_zero = trunc_rat,
      d_scale = (\<lambda>a. length (takeWhile (\<lambda>k. snd (quotient_of (a * 10 ^ k)) \<noteq> 1) [0..<28])) \<rparr>"

lemma rat_decimal_scale: "d_scale rat_decimal a \<le> 28"
  using length_takeWhile_le [of _ "[0..<28]"] by (simp add: rat_decimal_def)

lemma of_nat_unat_int: "of_nat (unat n) = (of_int (uint n) :: rat)" for n :: u128
  by (metis of_int_of_nat_eq uint_nat)

lemma rat_decimal_laws: "decimal_laws rat_decimal (\<lambda>q. q)"
  by (simp add: decimal_laws_def rat_decimal_def of_nat_unat_int)

subsection \<open>Consequences\<close>

lemma decimal_lawsD:
  assumes "decimal_laws D val"
  shows "val (d_zero D) = 0"
    and "unat n < 2 ^ 96 \<Longrightarrow> \<exists>x. d_from D n = Some x \<and> val x = of_nat (unat n)"
    and "d_cmp D a b = cmp_rat (val a) (val b)"
    and "representable (val a + val b) \<Longrightarrow> val (d_sat_add D a b) = val a + val b"
    and "representable (val a - val b) \<Longrightarrow> val (d_sat_sub D a b) = val a - val b"
    and "representable (val a * val b) \<Longrightarrow> val (d_sat_mul D a b) = val a * val b"
    and "representable (val a * val b) \<Longrightarrow> \<exists>c. d_mul D a b = Some c \<and> val c = val a * val b"
    and "val b \<noteq> 0 \<Longrightarrow> representable (val a / val b) \<Longrightarrow>
      \<exists>c. d_checked_div D a b = Some c \<and> d_div D a b = Some c \<and> val c = val a / val b"
    and "0 \<le> val a \<Longrightarrow> val a < 2 ^ 128 \<Longrightarrow> d_to_u128 D a = Some (word_of_nat (nat \<lfloor>val a\<rfloor>))"
    and "val (d_round_to_zero D k a) = trunc_rat k (val a)"
    and "representable (val a + val b) \<Longrightarrow> \<exists>c. d_checked_add D a b = Some c \<and> val c = val a + val b"
  using assms unfolding decimal_laws_def by blast+

lemma d_cmp_laws:
  assumes "decimal_laws D val"
  shows "d_eq D a b \<longleftrightarrow> val a = val b"
    and "d_lt D a b \<longleftrightarrow> val a < val b"
    and "d_le D a b \<longleftrightarrow> val a \<le> val b"
    and "d_is_zero D a \<longleftrightarrow> val a = 0"
  by (auto simp: d_eq_def d_lt_def d_le_def d_is_zero_def cmp_rat_def
      decimal_lawsD(1,3) [OF assms])

text \<open>Every on-chain integer below the mantissa bound is a decimal with twelve places.\<close>

lemma representable_units:
  assumes "n < 2 ^ 96"
  shows "representable (of_nat n / 10 ^ 12)"
proof -
  have "\<bar>int n\<bar> < 2 ^ 96"
    using assms by (metis abs_of_nat of_nat_less_iff of_nat_numeral of_nat_power)
  then show ?thesis
    unfolding representable_def by (intro exI [of _ "int n"] exI [of _ "12 :: nat"]) simp
qed

lemma representable_int: "\<bar>m\<bar> < 2 ^ 96 \<Longrightarrow> representable (of_int m)"
  unfolding representable_def by (intro exI [of _ m] exI [of _ "0 :: nat"]) simp

lemma unat_UNIT_BALANCE: "unat UNIT_BALANCE = 10 ^ 12"
  by (simp add: UNIT_BALANCE_def)

lemma d_checked_from_units_exact:
  assumes D: "decimal_laws D val" and n: "unat n < 2 ^ 96"
  shows "\<exists>x. d_checked_from_units D n = Some (Some x) \<and> d_from_units D n = Some x
    \<and> val x = of_nat (unat n) / 10 ^ 12"
proof -
  obtain a where a: "d_from D n = Some a" "val a = of_nat (unat n)"
    using decimal_lawsD(2) [OF D n] by blast
  obtain u where u: "d_from D UNIT_BALANCE = Some u" "val u = 10 ^ 12"
    using decimal_lawsD(2) [OF D, of UNIT_BALANCE] by (auto simp: unat_UNIT_BALANCE)
  have "representable (val a / val u)"
    using representable_units [OF n] by (simp only: a(2) u(2))
  then obtain x where "d_checked_div D a u = Some x" "d_div D a u = Some x" "val x = val a / val u"
    using decimal_lawsD(8) [OF D, of u a] u(2) by auto
  with a u show ?thesis
    by (simp add: d_checked_from_units_def d_from_units_def)
qed

lemma d_to_units_exact:
  assumes D: "decimal_laws D val" and x: "val x = of_nat n / 10 ^ 12" and n: "n < 2 ^ 96"
  shows "d_to_units D x = Some (Some (word_of_nat n))"
proof -
  obtain u where u: "d_from D UNIT_BALANCE = Some u" "val u = 10 ^ 12"
    using decimal_lawsD(2) [OF D, of UNIT_BALANCE] by (auto simp: unat_UNIT_BALANCE)
  have prod: "val x * val u = of_int (int n)"
    by (simp add: x u(2))
  have "representable (val x * val u)"
    unfolding prod using n by (intro representable_int) (simp add: nat_less_iff)
  then have v: "val (d_sat_mul D x u) = of_int (int n)"
    using decimal_lawsD(6) [OF D] prod by simp
  have "n < 2 ^ 128"
    using n by (rule less_trans) simp
  then have "(of_int (int n) :: rat) < of_nat (2 ^ 128)"
    by (simp only: of_int_of_nat_eq of_nat_less_iff)
  then have "d_to_u128 D (d_sat_mul D x u) = Some (word_of_nat (nat \<lfloor>val (d_sat_mul D x u)\<rfloor>))"
    by (intro decimal_lawsD(9) [OF D]) (simp_all add: v)
  then show ?thesis
    by (simp add: d_to_units_def u(1) v)
qed

end
