(* ===== verification/Orders.thy ===== *)
theory Orders
  imports Decimal_Ops
begin

text \<open>
  Orders, trades and market configurations: \<^verbatim>\<open>primitives/orderbook/src/types.rs\<close>,
  \<^verbatim>\<open>primitives/orderbook/src/ocex.rs\<close> and \<^verbatim>\<open>primitives/polkadex/src/fees.rs\<close>. Signature
  verification, hashing and serialisation belong to external crates; they enter as the record
  \<open>crypto\<close>. Decimals follow \<^verbatim>\<open>Decimal_Ops\<close>.
\<close>

subsection \<open>Data\<close>

datatype OrderSide = Ask | Bid
datatype OrderType = LIMIT | MARKET
datatype OrderStatus = OPEN | CLOSED | CANCELLED

fun get_opposite :: "OrderSide \<Rightarrow> OrderSide" where
  "get_opposite Ask = Bid"
| "get_opposite Bid = Ask"

definition side_try_from :: "string \<Rightarrow> OrderSide option" where
  "side_try_from s = (if s = ''Bid'' then Some Bid else if s = ''Ask'' then Some Ask else None)"

fun side_to_string :: "OrderSide \<Rightarrow> string" where
  "side_to_string Ask = ''Ask''"
| "side_to_string Bid = ''Bid''"

definition type_try_from :: "string \<Rightarrow> OrderType option" where
  "type_try_from s =
    (if s = ''LIMIT'' then Some LIMIT else if s = ''MARKET'' then Some MARKET else None)"

definition status_try_from :: "string \<Rightarrow> OrderStatus option" where
  "status_try_from s =
    (if s = ''OPEN'' then Some OPEN else if s = ''CLOSED'' then Some CLOSED
     else if s = ''CANCELLED'' then Some CANCELLED else None)"

fun status_to_string :: "OrderStatus \<Rightarrow> string" where
  "status_to_string OPEN = ''OPEN''"
| "status_to_string CLOSED = ''CLOSED''"
| "status_to_string CANCELLED = ''CANCELLED''"

record 'd TradingPairConfig =
  base_asset :: AssetId
  quote_asset :: AssetId
  price_tick_size :: 'd
  min_volume :: 'd
  max_volume :: 'd
  qty_step_size :: 'd
  operational_status :: bool
  base_asset_precision :: u8
  quote_asset_precision :: u8

definition default_TradingPairConfig ::
  "'d decimal_ops \<Rightarrow> AssetId \<Rightarrow> AssetId \<Rightarrow> 'd TradingPairConfig" where
  "default_TradingPairConfig D b q =
    \<lparr> base_asset = b, quote_asset = q,
      price_tick_size = d_lit D (1 / 1000000),
      min_volume = d_lit D (1 / 100000000),
      max_volume = d_lit D 1000000,
      qty_step_size = d_lit D (1 / 1000),
      operational_status = True,
      base_asset_precision = 8,
      quote_asset_precision = 8 \<rparr>"

record 'd FeeConfig =
  maker_fraction :: 'd
  taker_fraction :: 'd

definition default_FeeConfig :: "'d decimal_ops \<Rightarrow> 'd FeeConfig" where
  "default_FeeConfig D =
    \<lparr> maker_fraction = d_lit D (1 / 1000), taker_fraction = d_lit D (1 / 1000) \<rparr>"

record 'd Order =
  o_stid :: u64
  o_client_order_id :: H256
  o_avg_filled_price :: 'd
  o_fee :: 'd
  o_filled_quantity :: 'd
  o_status :: OrderStatus
  o_id :: H256
  o_user :: account
  o_main_account :: account
  o_pair :: TradingPair
  o_side :: OrderSide
  o_order_type :: OrderType
  o_qty :: 'd
  o_price :: 'd
  o_quote_order_qty :: 'd
  o_timestamp :: int
  o_overall_unreserved_volume :: 'd
  o_signature :: bytes

record 'd OrderKey =
  k_price :: 'd
  k_timestamp :: int
  k_side :: OrderSide

record 'd Trade =
  t_maker :: "'d Order"
  t_taker :: "'d Order"
  t_price :: 'd
  t_amount :: 'd
  t_time :: int

text \<open>\<^verbatim>\<open>AccountAsset\<close> is a key of ordered maps; its derived order is the order of pairs.\<close>

type_synonym AccountAsset = "account \<times> AssetId"

definition AccountAsset_new :: "account \<Rightarrow> AssetId \<Rightarrow> AccountAsset" where
  "AccountAsset_new m a = (m, a)"

subsection \<open>Signatures\<close>

text \<open>
  \<^verbatim>\<open>OrderPayload\<close>: the fields of an order that its owner signs, amounts in textual form. The
  text of a decimal and the two serialisations (SCALE and JSON) are external.
\<close>

record OrderPayload =
  p_client_order_id :: H256
  p_user :: account
  p_main_account :: account
  p_pair :: string
  p_side :: OrderSide
  p_order_type :: OrderType
  p_quote_order_quantity :: string
  p_qty :: string
  p_price :: string
  p_timestamp :: int

record 'd crypto =
  sig_verify :: "bytes \<Rightarrow> bytes \<Rightarrow> account \<Rightarrow> bool"
  ecdsa_recover :: "bytes \<Rightarrow> H256 \<Rightarrow> bytes option"
  authority_verify :: "H256 \<Rightarrow> bytes \<Rightarrow> bytes \<Rightarrow> bool"
  blake2_256 :: "bytes \<Rightarrow> H256"
  d_to_string :: "'d \<Rightarrow> string"
  parse_f64 :: "string \<Rightarrow> u64 option"
  d_from_f64 :: "u64 \<Rightarrow> 'd option"
  d_round_dp :: "nat \<Rightarrow> 'd \<Rightarrow> 'd"
  h256_bytes :: "H256 \<Rightarrow> bytes"
  enc_order_payload :: "OrderPayload \<Rightarrow> bytes"
  json_order_payload :: "OrderPayload \<Rightarrow> string option"

definition string_bytes :: "string \<Rightarrow> bytes" where
  "string_bytes s = map of_char s"

definition EXT_WRAP_PREFIX :: string where
  "EXT_WRAP_PREFIX = ''<Bytes>''"

definition EXT_WRAP_POSTFIX :: string where
  "EXT_WRAP_POSTFIX = ''</Bytes>''"

definition verify_extension_signature ::
  "'d crypto \<Rightarrow> bytes \<Rightarrow> string \<Rightarrow> account \<Rightarrow> bool" where
  "verify_extension_signature C sig payload acc =
    sig_verify C sig (string_bytes (EXT_WRAP_PREFIX @ payload @ EXT_WRAP_POSTFIX)) acc"

definition order_payload :: "'d crypto \<Rightarrow> 'd Order \<Rightarrow> OrderPayload" where
  "order_payload C ord =
    \<lparr> p_client_order_id = o_client_order_id ord,
      p_user = o_user ord,
      p_main_account = o_main_account ord,
      p_pair = pair_to_string (o_pair ord),
      p_side = o_side ord,
      p_order_type = o_order_type ord,
      p_quote_order_quantity = d_to_string C (o_quote_order_qty ord),
      p_qty = d_to_string C (o_qty ord),
      p_price = d_to_string C (o_price ord),
      p_timestamp = o_timestamp ord \<rparr>"

definition verify_signature :: "'d crypto \<Rightarrow> 'd Order \<Rightarrow> bool" where
  "verify_signature C ord =
    (let payload = order_payload C ord in
     if sig_verify C (o_signature ord) (enc_order_payload C payload) (o_user ord) then True
     else (case json_order_payload C payload of
        Some payload_str \<Rightarrow>
          verify_extension_signature C (o_signature ord) payload_str (o_main_account ord)
      | None \<Rightarrow> False))"

subsection \<open>Market checks\<close>

text \<open>
  The checks short-circuit as \<^verbatim>\<open>&&\<close> does. \<^verbatim>\<open>Decimal::rem\<close> panics on a zero divisor, so a
  check that reaches it returns \<open>None\<close> there.
\<close>

definition and_then :: "bool option \<Rightarrow> bool option \<Rightarrow> bool option" where
  "and_then a b = (case a of None \<Rightarrow> None | Some False \<Rightarrow> Some False | Some True \<Rightarrow> b)"

definition multiple_of :: "'d decimal_ops \<Rightarrow> 'd \<Rightarrow> 'd \<Rightarrow> bool option" where
  "multiple_of D a b = map_option (d_is_zero D) (d_rem D a b)"

definition verify_config :: "'d decimal_ops \<Rightarrow> 'd Order \<Rightarrow> 'd TradingPairConfig \<Rightarrow> bool option" where
  "verify_config D ord config =
    (let is_market_same =
           (base (o_pair ord) = base_asset config \<and> quote (o_pair ord) = quote_asset config);
         volume = d_sat_mul D (o_price ord) (o_qty ord)
     in case o_order_type ord of
        LIMIT \<Rightarrow>
          and_then (Some is_market_same)
          (and_then (Some (d_le D (min_volume config) volume))
          (and_then (Some (d_le D volume (max_volume config)))
          (and_then (multiple_of D (o_price ord) (price_tick_size config))
            (multiple_of D (o_qty ord) (qty_step_size config)))))
      | MARKET \<Rightarrow>
          if o_side ord = Ask
          then and_then (Some is_market_same) (multiple_of D (o_qty ord) (qty_step_size config))
          else
            and_then (Some is_market_same)
            (and_then (Some (d_le D (min_volume config) (o_quote_order_qty ord)))
            (and_then (Some (d_le D (o_quote_order_qty ord) (max_volume config)))
              (multiple_of D (o_quote_order_qty ord) (price_tick_size config)))))"

definition trade_verify ::
  "'d decimal_ops \<Rightarrow> 'd crypto \<Rightarrow> 'd Trade \<Rightarrow> 'd TradingPairConfig \<Rightarrow> bool option" where
  "trade_verify D C t config =
    and_then (Some (verify_signature C (t_maker t)))
    (and_then (Some (verify_signature C (t_taker t)))
    (and_then (verify_config D (t_maker t) config)
      (verify_config D (t_taker t) config)))"

subsection \<open>What a trade moves\<close>

definition trade_user :: "'d Trade \<Rightarrow> bool \<Rightarrow> 'd Order" where
  "trade_user t maker = (if maker then t_maker t else t_taker t)"

definition credit :: "'d decimal_ops \<Rightarrow> 'd Trade \<Rightarrow> bool \<Rightarrow> (AccountAsset \<times> 'd) option" where
  "credit D t maker =
    (let user = trade_user t maker in
     case o_side user of
       Ask \<Rightarrow> map_option (Pair (o_main_account user, quote (o_pair user)))
                (d_mul D (t_price t) (t_amount t))
     | Bid \<Rightarrow> Some ((o_main_account user, base (o_pair user)), t_amount t))"

definition debit :: "'d decimal_ops \<Rightarrow> 'd Trade \<Rightarrow> bool \<Rightarrow> (AccountAsset \<times> 'd) option" where
  "debit D t maker =
    (let user = trade_user t maker in
     case o_side user of
       Ask \<Rightarrow> Some ((o_main_account user, base (o_pair user)), t_amount t)
     | Bid \<Rightarrow> map_option (Pair (o_main_account user, quote (o_pair user)))
                (d_mul D (t_price t) (t_amount t)))"

definition trade_id :: "'d crypto \<Rightarrow> 'd Trade \<Rightarrow> H256" where
  "trade_id C t =
    blake2_256 C (h256_bytes C (o_id (t_maker t)) @ h256_bytes C (o_id (t_taker t)))"

subsection \<open>Book order\<close>

definition order_key :: "'d Order \<Rightarrow> 'd OrderKey" where
  "order_key ord = \<lparr> k_price = o_price ord, k_timestamp = o_timestamp ord, k_side = o_side ord \<rparr>"

text \<open>\<^verbatim>\<open>OrderKey::cmp\<close>; \<open>None\<close> is the failed assertion on opposite sides.\<close>

definition order_key_cmp :: "'d decimal_ops \<Rightarrow> 'd OrderKey \<Rightarrow> 'd OrderKey \<Rightarrow> ordering option" where
  "order_key_cmp D a b =
    (if k_side a \<noteq> k_side b then None
     else if k_side a = Bid then
       Some (case d_cmp D (k_price a) (k_price b) of
           Less \<Rightarrow> Less
         | Equal \<Rightarrow> if k_timestamp a < k_timestamp b then Greater else Less
         | Greater \<Rightarrow> Greater)
     else
       Some (case d_cmp D (k_price a) (k_price b) of
           Less \<Rightarrow> Greater
         | Equal \<Rightarrow> if k_timestamp a < k_timestamp b then Greater else Less
         | Greater \<Rightarrow> Less))"

definition order_cmp :: "'d decimal_ops \<Rightarrow> 'd Order \<Rightarrow> 'd Order \<Rightarrow> ordering option" where
  "order_cmp D a b =
    (if o_side a \<noteq> o_side b then None
     else if o_side a = Bid then
       Some (case d_cmp D (o_price a) (o_price b) of
           Less \<Rightarrow> Less
         | Equal \<Rightarrow> if o_timestamp a < o_timestamp b then Greater else Less
         | Greater \<Rightarrow> Greater)
     else
       Some (case d_cmp D (o_price a) (o_price b) of
           Less \<Rightarrow> Greater
         | Equal \<Rightarrow> if o_timestamp a < o_timestamp b then Greater else Less
         | Greater \<Rightarrow> Less))"

subsection \<open>Fills\<close>

definition rounding_off :: "'d decimal_ops \<Rightarrow> 'd \<Rightarrow> 'd" where
  "rounding_off D a = d_round_to_zero D 9 a"

text \<open>Returns the order with its new fields and the flag the source returns.\<close>

definition update_avg_price_and_filled_qty ::
  "'d decimal_ops \<Rightarrow> 'd Order \<Rightarrow> 'd \<Rightarrow> 'd \<Rightarrow> 'd Order \<times> bool" where
  "update_avg_price_and_filled_qty D ord price amount =
    (let temp = d_sat_mul D (o_avg_filled_price ord) (o_filled_quantity ord);
         temp = d_sat_add D temp (d_sat_mul D amount price);
         ord = ord \<lparr> o_filled_quantity := d_sat_add D (o_filled_quantity ord) amount \<rparr>
     in case d_checked_div D temp (o_filled_quantity ord) of
          Some q \<Rightarrow> (ord \<lparr> o_avg_filled_price := rounding_off D q \<rparr>, True)
        | None \<Rightarrow> (ord, False))"

definition available_volume :: "'d decimal_ops \<Rightarrow> 'd Order \<Rightarrow> 'd option \<Rightarrow> 'd" where
  "available_volume D ord other_price =
    (if d_is_zero D (o_qty ord) then
       rounding_off D (d_sat_sub D (o_quote_order_qty ord)
         (d_sat_mul D (o_avg_filled_price ord) (o_filled_quantity ord)))
     else if o_order_type ord = MARKET then
       rounding_off D (d_sat_mul D (d_sat_sub D (o_qty ord) (o_filled_quantity ord))
         (case other_price of None \<Rightarrow> d_zero D | Some p \<Rightarrow> p))
     else
       rounding_off D (d_sat_mul D (d_sat_sub D (o_qty ord) (o_filled_quantity ord))
         (o_price ord)))"

text \<open>
  \<^verbatim>\<open>TryFrom<OrderDetails> for Order\<close>; the identifier is drawn at random by the caller's
  environment and is an argument here.
\<close>

definition order_try_from ::
  "'d decimal_ops \<Rightarrow> 'd crypto \<Rightarrow> H256 \<Rightarrow> OrderPayload \<Rightarrow> bytes \<Rightarrow> string + 'd Order" where
  "order_try_from D C random_id payload sig =
    bind_res (ok_or ''Qty could not be parsed'' (parse_f64 C (p_qty payload))) (\<lambda>qty.
    bind_res (ok_or ''Price couldn't be parsed'' (parse_f64 C (p_price payload))) (\<lambda>price.
    bind_res (ok_or ''Qty couldn't be converted to decimal'' (d_from_f64 C qty)) (\<lambda>qty.
    bind_res (ok_or ''Price couldn't be converted to decimal'' (d_from_f64 C price)) (\<lambda>price.
    bind_res (ok_or ''Quote order quantity couldn't be parsed''
      (parse_f64 C (p_quote_order_quantity payload))) (\<lambda>qoq.
    bind_res (ok_or ''Quote order quantity couldn't be parsed to decimal'' (d_from_f64 C qoq)) (\<lambda>qoq.
    bind_res (map_err (\<lambda>_. ''Not able to to parse trading pair'') (pair_try_from (p_pair payload)))
      (\<lambda>trading_pair.
    Inr \<lparr> o_stid = 0,
      o_client_order_id = p_client_order_id payload,
      o_avg_filled_price = d_zero D,
      o_fee = d_zero D,
      o_filled_quantity = d_zero D,
      o_status = OPEN,
      o_id = random_id,
      o_user = p_user payload,
      o_main_account = p_main_account payload,
      o_pair = trading_pair,
      o_side = p_side payload,
      o_order_type = p_order_type payload,
      o_qty = d_round_dp C 8 qty,
      o_price = d_round_dp C 8 price,
      o_quote_order_qty = d_round_dp C 8 qoq,
      o_timestamp = p_timestamp payload,
      o_overall_unreserved_volume = d_zero D,
      o_signature = sig \<rparr>)))))))"

subsection \<open>Lemmas\<close>

lemma and_then_True [res_simps]: "and_then a b = Some True \<longleftrightarrow> a = Some True \<and> b = Some True"
  by (auto simp: and_then_def split: option.splits bool.splits)

lemma order_cmp_key: "order_cmp D a b = order_key_cmp D (order_key a) (order_key b)"
  by (simp add: order_cmp_def order_key_cmp_def order_key_def)

text \<open>Acceptance of a trade pins both orders to the market of the configuration.\<close>

lemma verify_config_market:
  "verify_config D ord config = Some True \<Longrightarrow>
    o_pair ord = TradingPair (base_asset config) (quote_asset config)"
  by (cases "o_pair ord")
    (auto simp: verify_config_def Let_def res_simps split: OrderType.splits if_splits)

lemma trade_verify_market:
  assumes "trade_verify D C t config = Some True"
  shows "o_pair (t_maker t) = TradingPair (base_asset config) (quote_asset config)"
    and "o_pair (t_taker t) = TradingPair (base_asset config) (quote_asset config)"
  using assms by (auto simp: trade_verify_def res_simps intro: verify_config_market)

text \<open>The order with priority: a better price, or the same price and an earlier time.\<close>

definition has_priority :: "('d \<Rightarrow> rat) \<Rightarrow> 'd OrderKey \<Rightarrow> 'd OrderKey \<Rightarrow> bool" where
  "has_priority val a b =
    ((if k_side a = Bid then val (k_price b) < val (k_price a)
      else val (k_price a) < val (k_price b)) \<or>
     val (k_price a) = val (k_price b) \<and> k_timestamp a < k_timestamp b)"

lemma order_key_cmp_eq:
  assumes "decimal_laws D val" and "k_side a = k_side b"
  shows "order_key_cmp D a b = Some (if has_priority val a b then Greater else Less)"
  using assms(2)
  by (auto simp: order_key_cmp_def has_priority_def decimal_lawsD(3) [OF assms(1)] cmp_rat_def)

definition sample_order :: "rat Order" where
  "sample_order =
    \<lparr> o_stid = 1, o_client_order_id = 0, o_avg_filled_price = 2, o_fee = 0, o_filled_quantity = 3,
      o_status = OPEN, o_id = 7, o_user = 11, o_main_account = 12,
      o_pair = TradingPair Polkadex (Asset 5), o_side = Bid, o_order_type = LIMIT,
      o_qty = 10, o_price = 4, o_quote_order_qty = 0, o_timestamp = 100,
      o_overall_unreserved_volume = 0, o_signature = [] \<rparr>"

text \<open>C37: in a book side, \<^verbatim>\<open>OrderKey::cmp\<close> ranks by price-time priority: the greater key is the
  one with the better price (higher for bids, lower for asks) or, at equal prices, the earlier
  timestamp; and keys that differ in price or time compare antisymmetrically.\<close>

theorem order_key_cmp_priority:
  assumes "decimal_laws D val" and "k_side a = k_side b"
  shows "(order_key_cmp D a b = Some Greater \<longleftrightarrow> has_priority val a b) \<and>
    (val (k_price a) \<noteq> val (k_price b) \<or> k_timestamp a \<noteq> k_timestamp b \<longrightarrow>
      (order_key_cmp D a b = Some Greater \<longleftrightarrow> order_key_cmp D b a = Some Less))"
proof -
  have "order_key_cmp D a b = Some (if has_priority val a b then Greater else Less)"
    and "order_key_cmp D b a = Some (if has_priority val b a then Greater else Less)"
    by (rule order_key_cmp_eq [OF assms], rule order_key_cmp_eq [OF assms(1) assms(2) [symmetric]])
  then show ?thesis
    using assms(2) by (auto simp: has_priority_def split: if_splits)
qed

theorem order_key_cmp_priority_witness:
  "order_key_cmp rat_decimal \<lparr> k_price = 3, k_timestamp = 7, k_side = Bid \<rparr>
     \<lparr> k_price = 2, k_timestamp = 5, k_side = Bid \<rparr> = Some Greater"
  using order_key_cmp_priority [OF rat_decimal_laws, of "\<lparr> k_price = 3, k_timestamp = 7, k_side = Bid \<rparr>"
     "\<lparr> k_price = 2, k_timestamp = 5, k_side = Bid \<rparr>"]
  by (simp add: has_priority_def)

text \<open>C35: the comparison of orders is not reflexive: an order compared with itself is
  \<^verbatim>\<open>Less\<close>, although it equals itself, so \<^verbatim>\<open>Ord\<close> and \<^verbatim>\<open>Eq\<close> disagree.\<close>

theorem order_cmp_self_less:
  assumes "decimal_laws D val"
  shows "order_cmp D a a = Some Less"
  using order_key_cmp_eq [OF assms, of "order_key a" "order_key a"]
  by (simp add: order_cmp_key has_priority_def)

theorem order_cmp_self_less_witness: "order_cmp rat_decimal sample_order sample_order = Some Less"
  by (rule order_cmp_self_less [OF rat_decimal_laws])

text \<open>A fill updates the average price to the volume-weighted average of the fills, cut to
  nine places, and adds the amount to the filled quantity, whenever the decimals involved are
  representable and the filled quantity does not stay zero.\<close>

theorem update_avg_price_weighted:
  assumes "decimal_laws D val"
    and "representable (val (o_avg_filled_price ord) * val (o_filled_quantity ord))"
    and "representable (val amount * val price)"
    and "representable (val (o_avg_filled_price ord) * val (o_filled_quantity ord)
        + val amount * val price)"
    and "representable (val (o_filled_quantity ord) + val amount)"
    and "val (o_filled_quantity ord) + val amount \<noteq> 0"
    and "representable ((val (o_avg_filled_price ord) * val (o_filled_quantity ord)
        + val amount * val price) / (val (o_filled_quantity ord) + val amount))"
    and "update_avg_price_and_filled_qty D ord price amount = (ord', ok)"
  shows "ok \<and> val (o_filled_quantity ord') = val (o_filled_quantity ord) + val amount
    \<and> val (o_avg_filled_price ord') = trunc_rat 9
      ((val (o_avg_filled_price ord) * val (o_filled_quantity ord) + val amount * val price)
        / (val (o_filled_quantity ord) + val amount))"
proof -
  note laws = decimal_lawsD [OF assms(1)]
  let ?temp = "d_sat_add D (d_sat_mul D (o_avg_filled_price ord) (o_filled_quantity ord))
    (d_sat_mul D amount price)"
  let ?filled = "d_sat_add D (o_filled_quantity ord) amount"
  have temp: "val ?temp = val (o_avg_filled_price ord) * val (o_filled_quantity ord)
      + val amount * val price"
    using assms(2-4) by (simp add: laws(4,6))
  have filled: "val ?filled = val (o_filled_quantity ord) + val amount"
    using assms(5) by (simp add: laws(4))
  have "val ?filled \<noteq> 0" "representable (val ?temp / val ?filled)"
    using assms(6,7) by (simp_all add: temp filled)
  from laws(8) [OF this] obtain q where
    "d_checked_div D ?temp ?filled = Some q" "val q = val ?temp / val ?filled"
    by blast
  with assms(8) temp filled show ?thesis
    by (auto simp: update_avg_price_and_filled_qty_def Let_def rounding_off_def laws(10))
qed

theorem update_avg_price_weighted_witness:
  "o_avg_filled_price (fst (update_avg_price_and_filled_qty rat_decimal sample_order 4 1)) = 5 / 2"
proof -
  have r: "representable (of_int m)" if "\<bar>m\<bar> < 100" for m
    using that by (intro representable_int) simp
  have half: "representable (5 / 2)"
    unfolding representable_def by (intro exI [of _ 25] exI [of _ "1 :: nat"]) simp
  obtain ord' ok where eq: "update_avg_price_and_filled_qty rat_decimal sample_order 4 1 = (ord', ok)"
    by (cases "update_avg_price_and_filled_qty rat_decimal sample_order 4 1")
  have "o_avg_filled_price ord' = trunc_rat 9 (5 / 2)"
    using update_avg_price_weighted [OF rat_decimal_laws _ _ _ _ _ _ eq] half
      r [of 6] r [of 4] r [of 10]
    by (simp add: sample_order_def)
  then show ?thesis
    by (simp add: eq trunc_rat_def)
qed

end
