(* ===== verification/Messages.thy ===== *)
theory Messages
  imports Orders
begin

text \<open>
  The data that the chain, the off-chain worker and the matching engine exchange: ingress and
  egress messages, withdrawals, snapshots, checkpoints, liquidity-mining configurations, user
  action batches (\<^verbatim>\<open>primitives/orderbook/src\<close>, \<^verbatim>\<open>primitives/polkadex/src\<close>).
\<close>

subsection \<open>Withdrawals, auctions, accounts\<close>

text \<open>A location on another chain is carried in encoded form; no modelled code inspects it.\<close>

type_synonym MultiLocation = bytes

datatype WithdrawalDestination = Polkadot MultiLocation "(AssetId \<times> u128) option"

record 'd Withdrawal =
  w_id :: H160
  w_main_account :: account
  w_amount :: 'd
  w_asset :: AssetId
  w_fees :: 'd
  w_stid :: u64
  w_destination :: "WithdrawalDestination option"

record FeeDistribution =
  recipient_address :: account
  auction_duration :: u32
  burn_ration :: u8

record AuctionInfo =
  fee_info :: "(u128, u128) btree"
  highest_bidder :: "account option"
  highest_bid :: u128

definition default_AuctionInfo :: AuctionInfo where
  "default_AuctionInfo = \<lparr> fee_info = [], highest_bidder = None, highest_bid = 0 \<rparr>"

definition ProxyLimit :: nat where
  "ProxyLimit = 3"

record 'd AccountInfo =
  a_main_account :: account
  a_proxies :: "account list"
  a_balances :: "(AssetId, 'd \<times> 'd) btree"
  a_fee_config :: "'d FeeConfig"

definition AccountInfo_new :: "'d decimal_ops \<Rightarrow> account \<Rightarrow> 'd AccountInfo" where
  "AccountInfo_new D main =
    \<lparr> a_main_account = main, a_proxies = [], a_balances = [], a_fee_config = default_FeeConfig D \<rparr>"

definition maker_fee_fraction :: "'d AccountInfo \<Rightarrow> 'd" where
  "maker_fee_fraction a = maker_fraction (a_fee_config a)"

definition taker_fee_fraction :: "'d AccountInfo \<Rightarrow> 'd" where
  "taker_fee_fraction a = taker_fraction (a_fee_config a)"

definition add_proxy :: "account \<Rightarrow> 'd AccountInfo \<Rightarrow> 'd AccountInfo option" where
  "add_proxy proxy a =
    map_option (\<lambda>ps. a \<lparr> a_proxies := ps \<rparr>) (try_push ProxyLimit proxy (a_proxies a))"

definition remove_proxy :: "account \<Rightarrow> 'd AccountInfo \<Rightarrow> 'd AccountInfo" where
  "remove_proxy proxy a = a \<lparr> a_proxies := filter (\<lambda>item. item \<noteq> proxy) (a_proxies a) \<rparr>"

subsection \<open>Liquidity mining configuration\<close>

record LMPConfig =
  lc_epoch :: u16
  lc_index :: u16

record LMPMarketConfigWrapper =
  mw_trading_pair :: TradingPair
  mw_market_weightage :: u128
  mw_min_fees_paid :: u128
  mw_min_maker_volume :: u128
  mw_max_spread :: u128
  mw_min_depth :: u128

record 'd LMPMarketConfig =
  weightage :: 'd
  min_fees_paid :: 'd
  min_maker_volume :: 'd
  max_spread :: 'd
  min_depth :: 'd

record 'd LMPEpochConfig =
  total_liquidity_mining_rewards :: 'd
  total_trading_rewards :: 'd
  epoch_markets :: "(TradingPair, 'd LMPMarketConfig) btree"
  max_accounts_rewarded :: u16
  claim_safety_period :: u32

definition default_LMPEpochConfig :: "'d decimal_ops \<Rightarrow> 'd LMPEpochConfig" where
  "default_LMPEpochConfig D =
    \<lparr> total_liquidity_mining_rewards = d_zero D, total_trading_rewards = d_zero D,
      epoch_markets = [], max_accounts_rewarded = 20, claim_safety_period = 50400 \<rparr>"

definition LMPEpochConfig_verify :: "'d decimal_ops \<Rightarrow> 'd LMPEpochConfig \<Rightarrow> bool" where
  "LMPEpochConfig_verify D c =
    (let total_percent =
       fold (\<lambda>mc acc. d_sat_add D acc (weightage mc)) (bt_values (epoch_markets c)) (d_zero D)
     in d_eq D total_percent (d_lit D 1))"

subsection \<open>Messages between the chain and the engine\<close>

datatype 'd IngressMessages =
    OpenTradingPair "'d TradingPairConfig"
  | UpdateTradingPair "'d TradingPairConfig"
  | RegisterUser account account
  | Deposit H160 account AssetId 'd
  | AddProxy account account
  | RemoveProxy account account
  | CloseTradingPair "'d TradingPairConfig"
  | SetExchangeState bool
  | DirectWithdrawal account AssetId 'd bool
  | UpdateFeeStructure account 'd 'd
  | WithdrawTradingFees
  | AddLiquidity "'d TradingPairConfig" account account 'd 'd 'd
  | RemoveLiquidity "'d TradingPairConfig" account account 'd 'd
  | ForceClosePool "'d TradingPairConfig" account
  | LMPConfigMsg "'d LMPEpochConfig"
  | NewLMPEpoch u16

datatype 'd EgressMessages =
    AddLiquidityResult "'d TradingPairConfig" account account 'd 'd 'd
  | RemoveLiquidityResult "'d TradingPairConfig" account account 'd 'd
  | RemoveLiquidityFailed "'d TradingPairConfig" account account 'd 'd 'd 'd 'd 'd
  | PoolForceClosed "'d TradingPairConfig" account 'd 'd
  | TradingFees "(AssetId, 'd) btree"
  | PriceOracle "(AssetId \<times> AssetId, 'd) btree"

text \<open>
  Equality of ingress messages as their derived order sees it: decimals compare by numeric
  value. The engine's answers are looked up with it.
\<close>

definition config_eq :: "'d decimal_ops \<Rightarrow> 'd TradingPairConfig \<Rightarrow> 'd TradingPairConfig \<Rightarrow> bool" where
  "config_eq D a b =
    (base_asset a = base_asset b \<and> quote_asset a = quote_asset b \<and>
     d_eq D (price_tick_size a) (price_tick_size b) \<and> d_eq D (min_volume a) (min_volume b) \<and>
     d_eq D (max_volume a) (max_volume b) \<and> d_eq D (qty_step_size a) (qty_step_size b) \<and>
     operational_status a = operational_status b \<and>
     base_asset_precision a = base_asset_precision b \<and>
     quote_asset_precision a = quote_asset_precision b)"

definition market_config_eq ::
  "'d decimal_ops \<Rightarrow> 'd LMPMarketConfig \<Rightarrow> 'd LMPMarketConfig \<Rightarrow> bool" where
  "market_config_eq D a b =
    (d_eq D (weightage a) (weightage b) \<and> d_eq D (min_fees_paid a) (min_fees_paid b) \<and>
     d_eq D (min_maker_volume a) (min_maker_volume b) \<and> d_eq D (max_spread a) (max_spread b) \<and>
     d_eq D (min_depth a) (min_depth b))"

definition epoch_config_eq ::
  "'d decimal_ops \<Rightarrow> 'd LMPEpochConfig \<Rightarrow> 'd LMPEpochConfig \<Rightarrow> bool" where
  "epoch_config_eq D a b =
    (d_eq D (total_liquidity_mining_rewards a) (total_liquidity_mining_rewards b) \<and>
     d_eq D (total_trading_rewards a) (total_trading_rewards b) \<and>
     list_all2 (\<lambda>(p, c) (p', c'). p = p' \<and> market_config_eq D c c')
       (epoch_markets a) (epoch_markets b) \<and>
     max_accounts_rewarded a = max_accounts_rewarded b \<and>
     claim_safety_period a = claim_safety_period b)"

definition ingress_eq :: "'d decimal_ops \<Rightarrow> 'd IngressMessages \<Rightarrow> 'd IngressMessages \<Rightarrow> bool" where
  "ingress_eq D m m' =
    (case m of
      OpenTradingPair c \<Rightarrow> (case m' of OpenTradingPair c' \<Rightarrow> config_eq D c c' | _ \<Rightarrow> False)
    | UpdateTradingPair c \<Rightarrow> (case m' of UpdateTradingPair c' \<Rightarrow> config_eq D c c' | _ \<Rightarrow> False)
    | RegisterUser u p \<Rightarrow> (case m' of RegisterUser u' p' \<Rightarrow> (u = u' \<and> p = p') | _ \<Rightarrow> False)
    | Deposit i u a x \<Rightarrow> (case m' of Deposit i' u' a' x' \<Rightarrow> (i = i' \<and> u = u' \<and> a = a' \<and> d_eq D x x') | _ \<Rightarrow> False)
    | AddProxy u p \<Rightarrow> (case m' of AddProxy u' p' \<Rightarrow> (u = u' \<and> p = p') | _ \<Rightarrow> False)
    | RemoveProxy u p \<Rightarrow> (case m' of RemoveProxy u' p' \<Rightarrow> (u = u' \<and> p = p') | _ \<Rightarrow> False)
    | CloseTradingPair c \<Rightarrow> (case m' of CloseTradingPair c' \<Rightarrow> config_eq D c c' | _ \<Rightarrow> False)
    | SetExchangeState b \<Rightarrow> (case m' of SetExchangeState b' \<Rightarrow> (b = b') | _ \<Rightarrow> False)
    | DirectWithdrawal u a x f \<Rightarrow> (case m' of DirectWithdrawal u' a' x' f' \<Rightarrow> (u = u' \<and> a = a' \<and> d_eq D x x' \<and> f = f') | _ \<Rightarrow> False)
    | UpdateFeeStructure u x y \<Rightarrow> (case m' of UpdateFeeStructure u' x' y' \<Rightarrow> (u = u' \<and> d_eq D x x' \<and> d_eq D y y') | _ \<Rightarrow> False)
    | WithdrawTradingFees \<Rightarrow> (case m' of WithdrawTradingFees \<Rightarrow> True | _ \<Rightarrow> False)
    | AddLiquidity c p l s x y \<Rightarrow> (case m' of AddLiquidity c' p' l' s' x' y' \<Rightarrow> (config_eq D c c' \<and> p = p' \<and> l = l' \<and> d_eq D s s' \<and> d_eq D x x' \<and> d_eq D y y') | _ \<Rightarrow> False)
    | RemoveLiquidity c p l x y \<Rightarrow> (case m' of RemoveLiquidity c' p' l' x' y' \<Rightarrow> (config_eq D c c' \<and> p = p' \<and> l = l' \<and> d_eq D x x' \<and> d_eq D y y') | _ \<Rightarrow> False)
    | ForceClosePool c p \<Rightarrow> (case m' of ForceClosePool c' p' \<Rightarrow> (config_eq D c c' \<and> p = p') | _ \<Rightarrow> False)
    | LMPConfigMsg c \<Rightarrow> (case m' of LMPConfigMsg c' \<Rightarrow> epoch_config_eq D c c' | _ \<Rightarrow> False)
    | NewLMPEpoch n \<Rightarrow> (case m' of NewLMPEpoch n' \<Rightarrow> (n = n') | _ \<Rightarrow> False))"

text \<open>\<^verbatim>\<open>BTreeMap<IngressMessages, EgressMessages>\<close> with \<^verbatim>\<open>get\<close>.\<close>

type_synonym 'd engine_messages = "('d IngressMessages \<times> 'd EgressMessages) list"

definition engine_get :: "'d decimal_ops \<Rightarrow> 'd engine_messages \<Rightarrow> 'd IngressMessages \<Rightarrow>
    'd EgressMessages option" where
  "engine_get D em msg = map_option snd (find (\<lambda>(k, _). ingress_eq D k msg) em)"

subsection \<open>User actions\<close>

record WithdrawPayloadCallByUser =
  wp_asset_id :: AssetId
  wp_amount :: string
  wp_timestamp :: int
  wp_destination_network :: "WithdrawalDestination option"

record WithdrawalRequest =
  wr_id :: H160
  wr_signature :: bytes
  wr_payload :: WithdrawPayloadCallByUser
  wr_main :: account
  wr_proxy :: account

datatype 'd UserActions =
    UA_Trade "'d Trade list"
  | UA_Withdraw WithdrawalRequest
  | UA_BlockImport u32 "'d engine_messages" "(AssetId \<times> AssetId, 'd) btree"
  | UA_Reset
  | UA_WithdrawV1 WithdrawalRequest u64
  | UA_OneMinLMPReport TradingPair 'd "(account, 'd) btree"

record 'd UserActionBatch =
  b_actions :: "'d UserActions list"
  b_stid :: u64
  b_snapshot_id :: u64
  b_signature :: bytes

subsection \<open>Snapshots and checkpoints\<close>

type_synonym 'd TradingPairMetricsMap =
  "(TradingPair, (account, 'd \<times> 'd) btree \<times> ('d \<times> 'd)) btree"

record 'd SnapshotSummary =
  s_validator_set_id :: u64
  s_snapshot_id :: u64
  s_state_hash :: H256
  s_state_change_id :: u64
  s_last_processed_blk :: u32
  s_withdrawals :: "'d Withdrawal list"
  s_egress_messages :: "'d EgressMessages list"
  s_trader_metrics :: "'d TradingPairMetricsMap option"

record 'd Fees =
  f_asset :: AssetId
  f_amount :: 'd

text \<open>\<^verbatim>\<open>Fees::amount\<close>; the outer \<open>None\<close> is a panic of \<^verbatim>\<open>Decimal::from\<close>.\<close>

definition fees_amount :: "'d decimal_ops \<Rightarrow> 'd Fees \<Rightarrow> u128 option" where
  "fees_amount D f =
    map_option (\<lambda>r. case r of None \<Rightarrow> 0 | Some x \<Rightarrow> x) (d_to_units D (f_amount f))"

definition get_fees :: "'d SnapshotSummary \<Rightarrow> 'd Fees list" where
  "get_fees s = map (\<lambda>w. \<lparr> f_asset = w_asset w, f_amount = w_fees w \<rparr>) (s_withdrawals s)"

record ValidatorSet =
  vs_set_id :: u64
  vs_validators :: "H256 list"

definition GENESIS_AUTHORITY_SET_ID :: u64 where
  "GENESIS_AUTHORITY_SET_ID = 0"

definition default_ValidatorSet :: ValidatorSet where
  "default_ValidatorSet = \<lparr> vs_set_id = GENESIS_AUTHORITY_SET_ID, vs_validators = [] \<rparr>"

definition ValidatorSet_new :: "H256 list \<Rightarrow> u64 \<Rightarrow> ValidatorSet" where
  "ValidatorSet_new vs i = \<lparr> vs_set_id = i, vs_validators = vs \<rparr>"

definition vs_len :: "ValidatorSet \<Rightarrow> nat" where
  "vs_len v = length (vs_validators v)"

record 'd ObCheckpointRaw =
  cp_snapshot_id :: u64
  cp_balances :: "(AccountAsset, 'd) btree"
  cp_last_processed_block_number :: u32
  cp_state_change_id :: u64

record 'd ObCheckpoint =
  oc_snapshot_id :: u64
  oc_balances :: "(AccountAsset, 'd) btree"
  oc_last_processed_block_number :: u32
  oc_state_change_id :: u64

definition to_checkpoint :: "'d ObCheckpointRaw \<Rightarrow> 'd ObCheckpoint" where
  "to_checkpoint c =
    \<lparr> oc_snapshot_id = cp_snapshot_id c, oc_balances = cp_balances c,
      oc_last_processed_block_number = cp_last_processed_block_number c,
      oc_state_change_id = cp_state_change_id c \<rparr>"

definition to_raw :: "'d ObCheckpoint \<Rightarrow> 'd ObCheckpointRaw" where
  "to_raw c =
    \<lparr> cp_snapshot_id = oc_snapshot_id c, cp_balances = oc_balances c,
      cp_last_processed_block_number = oc_last_processed_block_number c,
      cp_state_change_id = oc_state_change_id c \<rparr>"

record 'd ObRecoveryState =
  rs_snapshot_id :: u64
  rs_account_ids :: "(account, account list) btree"
  rs_balances :: "(AccountAsset, 'd) btree"
  rs_last_processed_block_number :: u32
  rs_state_change_id :: u64
  rs_worker_nonce :: u64

record StateInfo =
  si_last_block :: u32
  si_worker_nonce :: u64
  si_stid :: u64
  si_snapshot_id :: u64

definition default_StateInfo :: StateInfo where
  "default_StateInfo = \<lparr> si_last_block = 0, si_worker_nonce = 0, si_stid = 0, si_snapshot_id = 0 \<rparr>"

subsection \<open>Serialisation\<close>

text \<open>
  The SCALE and JSON forms of the data above come from external crates. They are parameters;
  what the sources rely on (decoding undoes encoding, distinct keys have distinct encodings)
  is stated where it is used.
\<close>

record 'd codec =
  enc_u64 :: "u64 \<Rightarrow> bytes"
  enc_withdraw_payload :: "WithdrawPayloadCallByUser \<Rightarrow> bytes"
  json_withdraw_payload :: "WithdrawPayloadCallByUser \<Rightarrow> string option"
  enc_actions :: "'d UserActions list \<Rightarrow> bytes"
  enc_summary :: "'d SnapshotSummary \<Rightarrow> bytes"
  account_key :: "account \<Rightarrow> bytes"
  enc_balances :: "(AssetId, 'd) btree \<Rightarrow> bytes"
  dec_balances :: "bytes \<Rightarrow> (AssetId, 'd) btree option"
  enc_decimal :: "'d \<Rightarrow> bytes"
  dec_decimal :: "bytes \<Rightarrow> 'd option"
  enc_lmp_config :: "LMPConfig \<Rightarrow> bytes"
  dec_lmp_config :: "bytes \<Rightarrow> LMPConfig option"
  enc_q_scores :: "(u16, 'd) btree \<Rightarrow> bytes"
  dec_q_scores :: "bytes \<Rightarrow> (u16, 'd) btree option"
  enc_state_info :: "StateInfo \<Rightarrow> bytes"
  dec_state_info :: "bytes \<Rightarrow> StateInfo option"
  enc_lmp_key :: "u16 \<Rightarrow> TradingPair \<Rightarrow> string \<Rightarrow> account option \<Rightarrow> bytes"

definition batch_sign_data :: "'d crypto \<Rightarrow> 'd codec \<Rightarrow> 'd UserActionBatch \<Rightarrow> H256" where
  "batch_sign_data C K b =
    blake2_256 C (enc_actions K (b_actions b) @ enc_u64 K (b_stid b) @ enc_u64 K (b_snapshot_id b))"

definition batch_verify :: "'d crypto \<Rightarrow> 'd codec \<Rightarrow> 'd UserActionBatch \<Rightarrow> bytes \<Rightarrow> bool" where
  "batch_verify C K b public_key =
    (case ecdsa_recover C (b_signature b) (batch_sign_data C K b) of
      None \<Rightarrow> False
    | Some recovered \<Rightarrow> recovered = public_key)"

definition request_amount :: "'d decimal_ops \<Rightarrow> WithdrawalRequest \<Rightarrow> 'd option" where
  "request_amount D r = d_from_str D (wp_amount (wr_payload r))"

definition request_asset :: "WithdrawalRequest \<Rightarrow> AssetId" where
  "request_asset r = wp_asset_id (wr_payload r)"

definition request_convert ::
  "'d decimal_ops \<Rightarrow> WithdrawalRequest \<Rightarrow> u64 \<Rightarrow> 'd Withdrawal option" where
  "request_convert D r stid =
    map_option (\<lambda>amount.
      \<lparr> w_id = wr_id r, w_main_account = wr_main r, w_amount = amount,
        w_asset = wp_asset_id (wr_payload r), w_fees = d_zero D, w_stid = stid,
        w_destination = wp_destination_network (wr_payload r) \<rparr>) (request_amount D r)"

text \<open>
  \<^verbatim>\<open>WithdrawalRequest::verify\<close>. Account identifiers of the runtime and of the primitives are the
  same type, so the re-decoding of an encoded account in the source is the identity.
\<close>

definition request_verify :: "'d crypto \<Rightarrow> 'd codec \<Rightarrow> WithdrawalRequest \<Rightarrow> bool" where
  "request_verify C K r =
    (if sig_verify C (wr_signature r) (enc_withdraw_payload K (wr_payload r)) (wr_proxy r) then True
     else (case json_withdraw_payload K (wr_payload r) of
        Some payload_str \<Rightarrow>
          verify_extension_signature C (wr_signature r) payload_str (wr_main r)
      | None \<Rightarrow> False))"

lemma to_raw_to_checkpoint [simp]: "to_raw (to_checkpoint c) = c"
  by (simp add: to_raw_def to_checkpoint_def)

end
