(* ===== verification/Offchain_State.thy ===== *)
theory Offchain_State
  imports Messages
begin

text \<open>
  The off-chain worker's state store, \<^verbatim>\<open>pallets/ocex/src/storage.rs\<close>: the write-back cache
  \<^verbatim>\<open>OffchainState\<close> over a Merkle trie, and the reference-counted node database \<^verbatim>\<open>State\<close> the
  trie writes to. The trie itself is an external crate: a record of operations with the law
  predicate \<open>trie_laws\<close>. The locale \<open>kv_store\<close> is the contract the settlement and
  liquidity-mining code relies on; \<open>os\<close> interprets it on the cache.
\<close>

subsection \<open>Errors\<close>

text \<open>Worker functions return \<^verbatim>\<open>&'static str\<close> errors; a panic aborts the worker.\<close>

datatype ow_error = Msg string | Panic

datatype TrieError =
    InvalidStateRoot
  | IncompleteDatabase
  | ValueAtIncompleteKey
  | DecoderError
  | InvalidHash

fun map_trie_error :: "TrieError \<Rightarrow> ow_error" where
  "map_trie_error InvalidStateRoot = Msg ''Invalid State Root''"
| "map_trie_error IncompleteDatabase = Msg ''Incomplete Database''"
| "map_trie_error ValueAtIncompleteKey = Msg ''ValueAtIncompleteKey''"
| "map_trie_error DecoderError = Msg ''DecoderError''"
| "map_trie_error InvalidHash = Msg ''InvalidHash''"

subsection \<open>The node database\<close>

text \<open>
  The part of the node's persistent off-chain storage that the trie uses: the two optional
  overrides for the null node and the nodes with their reference counts (\<^verbatim>\<open>i32\<close>).
\<close>

record node_db =
  db_hashed_null :: "H256 option"
  db_null_data :: "bytes option"
  db_nodes :: "bytes \<rightharpoonup> bytes \<times> 32 word"

record hasher =
  hash_of :: "bytes \<Rightarrow> H256"
  hash_bytes :: "H256 \<Rightarrow> bytes"

definition KEY_PREFIX :: bytes where
  "KEY_PREFIX = string_bytes ''offchain-ocex::''"

definition hashed_null_node :: "hasher \<Rightarrow> node_db \<Rightarrow> H256" where
  "hashed_null_node H db = (case db_hashed_null db of Some x \<Rightarrow> x | None \<Rightarrow> hash_of H [0])"

definition null_node_data :: "node_db \<Rightarrow> bytes" where
  "null_node_data db = (case db_null_data db of Some x \<Rightarrow> x | None \<Rightarrow> [0])"

definition derive_storage_key :: "bytes \<Rightarrow> bytes" where
  "derive_storage_key key = KEY_PREFIX @ key"

definition db_get :: "node_db \<Rightarrow> bytes \<Rightarrow> (bytes \<times> 32 word) option" where
  "db_get db key = db_nodes db (derive_storage_key key)"

definition db_insert :: "bytes \<Rightarrow> bytes \<times> 32 word \<Rightarrow> node_db \<Rightarrow> node_db" where
  "db_insert key v db = db \<lparr> db_nodes := (db_nodes db)(derive_storage_key key \<mapsto> v) \<rparr>"

type_synonym hprefix = "bytes \<times> u8 option"

definition prefixed_key :: "hasher \<Rightarrow> H256 \<Rightarrow> hprefix \<Rightarrow> bytes" where
  "prefixed_key H key p =
    fst p @ (case snd p of None \<Rightarrow> [] | Some b \<Rightarrow> [b]) @ hash_bytes H key"

definition hashdb_get :: "hasher \<Rightarrow> node_db \<Rightarrow> H256 \<Rightarrow> hprefix \<Rightarrow> bytes option" where
  "hashdb_get H db key p =
    (if key = hashed_null_node H db then Some (null_node_data db)
     else (case db_get db (prefixed_key H key p) of
        Some (d, rc) \<Rightarrow> if 0 <s rc then Some d else None
      | None \<Rightarrow> None))"

definition hashdb_contains :: "hasher \<Rightarrow> node_db \<Rightarrow> H256 \<Rightarrow> hprefix \<Rightarrow> bool" where
  "hashdb_contains H db key p =
    (if key = hashed_null_node H db then True
     else (case db_get db (prefixed_key H key p) of
        Some (d, x) \<Rightarrow> 0 <s x
      | None \<Rightarrow> False))"

definition hashdb_emplace :: "hasher \<Rightarrow> H256 \<Rightarrow> hprefix \<Rightarrow> bytes \<Rightarrow> node_db \<Rightarrow> node_db" where
  "hashdb_emplace H key p v db =
    (if v = null_node_data db then db
     else let key = prefixed_key H key p in
       (case db_get db key of
          Some (old_value, rc) \<Rightarrow>
            db_insert key (if rc \<le>s 0 then v else old_value, rc + 1) db
        | None \<Rightarrow> db_insert key (v, 1) db))"

definition hashdb_insert :: "hasher \<Rightarrow> hprefix \<Rightarrow> bytes \<Rightarrow> node_db \<Rightarrow> H256 \<times> node_db" where
  "hashdb_insert H p v db =
    (if v = null_node_data db then (hashed_null_node H db, db)
     else (hash_of H v, hashdb_emplace H (hash_of H v) p v db))"

definition hashdb_remove :: "hasher \<Rightarrow> H256 \<Rightarrow> hprefix \<Rightarrow> node_db \<Rightarrow> node_db" where
  "hashdb_remove H key p db =
    (if key = hashed_null_node H db then db
     else let key = prefixed_key H key p in
       (case db_get db key of
          Some (v, rc) \<Rightarrow> db_insert key (v, rc - 1) db
        | None \<Rightarrow> db_insert key ([], - 1) db))"

subsection \<open>The trie and the write-back cache\<close>

record 't trie_ops =
  tr_new :: "node_db \<Rightarrow> 't"
  tr_from_existing :: "node_db \<Rightarrow> H256 \<Rightarrow> 't"
  tr_get :: "'t \<Rightarrow> bytes \<Rightarrow> TrieError + bytes option"
  tr_insert :: "bytes \<Rightarrow> bytes \<Rightarrow> 't \<Rightarrow> TrieError + 't"
  tr_remove :: "bytes \<Rightarrow> 't \<Rightarrow> TrieError + 't"
  tr_commit :: "'t \<Rightarrow> 't"
  tr_root :: "'t \<Rightarrow> H256"
  tr_db :: "'t \<Rightarrow> node_db"
  tr_is_empty :: "'t \<Rightarrow> bool"

record 't OffchainState =
  os_cache :: "(bytes, bytes) btree"
  os_trie :: 't
  os_keys_to_remove :: "bytes list"

definition get_state_trie :: "'t trie_ops \<Rightarrow> node_db \<Rightarrow> H256 \<Rightarrow> 't" where
  "get_state_trie T db rt = (if rt = 0 then tr_new T db else tr_from_existing T db rt)"

definition os_load :: "'t trie_ops \<Rightarrow> node_db \<Rightarrow> H256 \<Rightarrow> 't OffchainState" where
  "os_load T db rt =
    \<lparr> os_cache = [], os_trie = get_state_trie T db rt, os_keys_to_remove = [] \<rparr>"

definition os_is_empty :: "'t trie_ops \<Rightarrow> 't OffchainState \<Rightarrow> bool" where
  "os_is_empty T s = (os_cache s = [] \<and> tr_is_empty T (os_trie s))"

definition os_get ::
  "'t trie_ops \<Rightarrow> 't OffchainState \<Rightarrow> bytes \<Rightarrow> ow_error + (bytes option \<times> 't OffchainState)" where
  "os_get T s key =
    (case bt_get (os_cache s) key of
      Some v \<Rightarrow> Inr (Some v, s)
    | None \<Rightarrow>
        (case tr_get T (os_trie s) key of
          Inl err \<Rightarrow> Inl (map_trie_error err)
        | Inr None \<Rightarrow> Inr (None, s)
        | Inr (Some v) \<Rightarrow> Inr (Some v, s \<lparr> os_cache := bt_insert key v (os_cache s) \<rparr>)))"

definition os_insert :: "bytes \<Rightarrow> bytes \<Rightarrow> 't OffchainState \<Rightarrow> 't OffchainState" where
  "os_insert key v s =
    s \<lparr> os_keys_to_remove := bs_remove key (os_keys_to_remove s),
        os_cache := bt_insert key v (os_cache s) \<rparr>"

definition os_remove :: "bytes \<Rightarrow> 't OffchainState \<Rightarrow> 't OffchainState" where
  "os_remove key s =
    s \<lparr> os_cache := bt_remove key (os_cache s),
        os_keys_to_remove := bs_insert key (os_keys_to_remove s) \<rparr>"

definition os_commit :: "'t trie_ops \<Rightarrow> 't OffchainState \<Rightarrow> ow_error + (H256 \<times> 't OffchainState)" where
  "os_commit T s =
    bind_res (map_err map_trie_error
      (fold_res (\<lambda>(k, v) t. tr_insert T k v t) (os_cache s) (os_trie s))) (\<lambda>t.
    bind_res (map_err map_trie_error
      (fold_res (\<lambda>k t. tr_remove T k t) (os_keys_to_remove s) t)) (\<lambda>t.
    let t = tr_commit T t in
    Inr (tr_root T t, \<lparr> os_cache = [], os_trie = t, os_keys_to_remove = [] \<rparr>)))"

subsection \<open>What the trie promises\<close>

text \<open>
  The trie is a map from keys to values: on a trie whose nodes are all in the database
  (\<open>ok\<close>), reads and writes succeed and act on the content \<open>tv\<close>.
\<close>

definition trie_laws :: "'t trie_ops \<Rightarrow> ('t \<Rightarrow> bytes \<Rightarrow> bytes option) \<Rightarrow> ('t \<Rightarrow> bool) \<Rightarrow> bool" where
  "trie_laws T tv ok \<longleftrightarrow>
    (\<forall>t k. ok t \<longrightarrow> tr_get T t k = Inr (tv t k)) \<and>
    (\<forall>t k v. ok t \<longrightarrow> (\<exists>t'. tr_insert T k v t = Inr t' \<and> ok t' \<and> tv t' = (tv t)(k \<mapsto> v))) \<and>
    (\<forall>t k. ok t \<longrightarrow> (\<exists>t'. tr_remove T k t = Inr t' \<and> ok t' \<and> tv t' = (tv t)(k := None))) \<and>
    (\<forall>t. ok t \<longrightarrow> ok (tr_commit T t) \<and> tv (tr_commit T t) = tv t)"

text \<open>What a read of the cached store returns, and what a commit leaves in the trie.\<close>

definition os_view :: "('t \<Rightarrow> bytes \<Rightarrow> bytes option) \<Rightarrow> 't OffchainState \<Rightarrow> bytes \<Rightarrow> bytes option" where
  "os_view tv s k = (case bt_get (os_cache s) k of Some v \<Rightarrow> Some v | None \<Rightarrow> tv (os_trie s) k)"

definition os_pending :: "('t \<Rightarrow> bytes \<Rightarrow> bytes option) \<Rightarrow> 't OffchainState \<Rightarrow> bytes \<Rightarrow> bytes option" where
  "os_pending tv s k = (if k \<in> set (os_keys_to_remove s) then None else os_view tv s k)"

definition os_inv :: "'t trie_ops \<Rightarrow> ('t \<Rightarrow> bytes \<Rightarrow> bytes option) \<Rightarrow> ('t \<Rightarrow> bool) \<Rightarrow>
    't OffchainState \<Rightarrow> bool" where
  "os_inv T tv ok s \<longleftrightarrow>
    trie_laws T tv ok \<and> ok (os_trie s) \<and> bt_wf (os_cache s) \<and>
    sorted_wrt (<) (os_keys_to_remove s)"

subsection \<open>The contract of a key-value store\<close>

locale kv_store =
  fixes get :: "'s \<Rightarrow> 'k \<Rightarrow> 'e + ('v option \<times> 's)"
    and put :: "'k \<Rightarrow> 'v \<Rightarrow> 's \<Rightarrow> 's"
    and view :: "'s \<Rightarrow> 'k \<Rightarrow> 'v option"
    and inv :: "'s \<Rightarrow> bool"
  assumes get_total: "inv s \<Longrightarrow> \<exists>s'. get s k = Inr (view s k, s') \<and> inv s' \<and> view s' = view s"
    and put_view: "inv s \<Longrightarrow> view (put k v s) = (view s)(k \<mapsto> v)"
    and put_inv: "inv s \<Longrightarrow> inv (put k v s)"
begin

lemma getD:
  "get s k = Inr (v, s') \<Longrightarrow> inv s \<Longrightarrow> v = view s k \<and> inv s' \<and> view s' = view s"
  using get_total [of s k] by auto

lemma get_put: "inv s \<Longrightarrow> \<exists>s'. get (put k v s) k = Inr (Some v, s')"
  using get_total [OF put_inv, of s k v k] by (auto simp: put_view)

lemma get_put_other:
  "inv s \<Longrightarrow> k' \<noteq> k \<Longrightarrow> \<exists>s'. get (put k v s) k' = Inr (view s k', s')"
  using get_total [OF put_inv, of s k v k'] by (auto simp: put_view)

text \<open>A read-modify-write of one key.\<close>

lemma rmw_view:
  assumes "inv s" and "get s k = Inr (v, s')"
  shows "inv (put k (f v) s')" and "view (put k (f v) s') = (view s)(k \<mapsto> f (view s k))"
  using getD [OF assms(2,1)] by (auto simp: put_inv put_view)

end

subsection \<open>The cache implements it\<close>

lemma trie_lawsD:
  assumes "trie_laws T tv ok" and "ok t"
  shows "tr_get T t k = Inr (tv t k)"
    and "\<exists>t'. tr_insert T k v t = Inr t' \<and> ok t' \<and> tv t' = (tv t)(k \<mapsto> v)"
    and "\<exists>t'. tr_remove T k t = Inr t' \<and> ok t' \<and> tv t' = (tv t)(k := None)"
    and "ok (tr_commit T t)" and "tv (tr_commit T t) = tv t"
  using assms unfolding trie_laws_def by blast+

lemma os_get_total:
  assumes "os_inv T tv ok s"
  shows "\<exists>s'. os_get T s k = Inr (os_view tv s k, s') \<and> os_inv T tv ok s' \<and>
    os_view tv s' = os_view tv s"
proof -
  from assms have get: "tr_get T (os_trie s) k = Inr (tv (os_trie s) k)"
    by (auto simp: os_inv_def intro: trie_lawsD)
  show ?thesis
  proof (cases "bt_get (os_cache s) k")
    case Some
    with assms show ?thesis by (simp add: os_get_def os_view_def)
  next
    case None
    with get assms show ?thesis
      by (cases "tv (os_trie s) k")
        (auto simp: os_get_def os_view_def os_inv_def bt_get_insert fun_eq_iff split: option.splits)
  qed
qed

lemma os_insert_view: "os_view tv (os_insert k v s) = (os_view tv s)(k \<mapsto> v)"
  by (rule ext) (auto simp: os_view_def os_insert_def bt_get_insert split: option.splits)

lemma os_insert_inv: "os_inv T tv ok s \<Longrightarrow> os_inv T tv ok (os_insert k v s)"
  by (auto simp: os_inv_def os_insert_def intro: sorted_bs_remove)

lemma os_remove_inv: "os_inv T tv ok s \<Longrightarrow> os_inv T tv ok (os_remove k s)"
  by (auto simp: os_inv_def os_remove_def intro: sorted_bs_insert)

interpretation os: kv_store "os_get T" os_insert "os_view tv" "os_inv T tv ok"
  for T :: "'t trie_ops" and tv ok
  by unfold_locales (auto simp: os_get_total os_insert_view os_insert_inv)

subsection \<open>Commit\<close>

lemma trie_insert_all:
  assumes "trie_laws T tv ok" and "ok t"
  shows "\<exists>t'. fold_res (\<lambda>(k, v) t. tr_insert T k v t) kvs t = Inr t' \<and> ok t' \<and>
    tv t' = (tv t) ++ map_of (rev kvs)"
  using assms(2)
proof (induction kvs arbitrary: t)
  case (Cons kv kvs)
  obtain k v where kv: "kv = (k, v)" by force
  obtain t1 where "tr_insert T k v t = Inr t1" "ok t1" "tv t1 = (tv t)(k \<mapsto> v)"
    using trie_lawsD(2) [OF assms(1) Cons.prems] by blast
  note t1 = this
  obtain t' where "fold_res (\<lambda>(k, v) t. tr_insert T k v t) kvs t1 = Inr t'" "ok t'"
      "tv t' = (tv t1) ++ map_of (rev kvs)"
    using Cons.IH [OF t1(2)] by blast
  moreover have "(tv t1) ++ map_of (rev kvs) = tv t ++ map_of (rev (kv # kvs))"
    by (simp add: t1(3) kv)
  ultimately show ?case
    using t1(1) kv by auto
qed simp

lemma trie_remove_all:
  assumes "trie_laws T tv ok" and "ok t"
  shows "\<exists>t'. fold_res (\<lambda>k t. tr_remove T k t) ks t = Inr t' \<and> ok t' \<and>
    tv t' = (\<lambda>k. if k \<in> set ks then None else tv t k)"
  using assms(2)
proof (induction ks arbitrary: t)
  case (Cons k ks)
  obtain t1 where "tr_remove T k t = Inr t1" "ok t1" "tv t1 = (tv t)(k := None)"
    using trie_lawsD(3) [OF assms(1) Cons.prems] by blast
  then show ?case
    using Cons.IH [of t1] by (auto simp: fun_eq_iff)
qed simp

lemma map_of_rev_wf: "bt_wf m \<Longrightarrow> map_of (rev m) = bt_get m"
  by (rule ext) (metis bt_get_def bt_wf_distinct distinct_rev map_of_eqI map_of_eq_Some_iff
      not_Some_eq rev_map set_rev)

lemma os_commit_total:
  assumes "os_inv T tv ok s"
  shows "\<exists>s'. os_commit T s = Inr (tr_root T (os_trie s'), s') \<and> os_inv T tv ok s' \<and>
    os_cache s' = [] \<and> os_keys_to_remove s' = [] \<and>
    tv (os_trie s') = os_pending tv s \<and> os_view tv s' = os_pending tv s"
proof -
  from assms have laws: "trie_laws T tv ok" and ok: "ok (os_trie s)" and wf: "bt_wf (os_cache s)"
    by (auto simp: os_inv_def)
  obtain t1 where t1: "fold_res (\<lambda>(k, v) t. tr_insert T k v t) (os_cache s) (os_trie s) = Inr t1"
      "ok t1" "tv t1 = (tv (os_trie s)) ++ map_of (rev (os_cache s))"
    using trie_insert_all [OF laws ok] by blast
  obtain t2 where t2: "fold_res (\<lambda>k t. tr_remove T k t) (os_keys_to_remove s) t1 = Inr t2"
      "ok t2" "tv t2 = (\<lambda>k. if k \<in> set (os_keys_to_remove s) then None else tv t1 k)"
    using trie_remove_all [OF laws t1(2)] by blast
  have "tv (tr_commit T t2) = os_pending tv s"
    unfolding trie_lawsD(5) [OF laws t2(2)] t2(3) t1(3) map_of_rev_wf [OF wf]
    by (auto simp: os_pending_def os_view_def map_add_def split: option.splits)
  then show ?thesis
    using t1(1) t2(1) trie_lawsD(4) [OF laws t2(2)] laws
    by (auto simp: os_commit_def Let_def os_inv_def os_view_def bt_wf_def fun_eq_iff)
qed

subsection \<open>Properties of the cache\<close>

text \<open>A concrete trie: an association list of its content, always complete.\<close>

definition list_trie :: "(bytes, bytes) btree trie_ops" where
  "list_trie =
    \<lparr> tr_new = (\<lambda>_. []), tr_from_existing = (\<lambda>_ _. []),
      tr_get = (\<lambda>t k. Inr (bt_get t k)),
      tr_insert = (\<lambda>k v t. Inr (bt_insert k v t)),
      tr_remove = (\<lambda>k t. Inr (bt_remove k t)),
      tr_commit = (\<lambda>t. t), tr_root = (\<lambda>t. of_nat (length t)),
      tr_db = (\<lambda>_. \<lparr> db_hashed_null = None, db_null_data = None, db_nodes = Map.empty \<rparr>),
      tr_is_empty = (\<lambda>t. t = []) \<rparr>"

lemma list_trie_laws: "trie_laws list_trie bt_get bt_wf"
  by (auto simp: trie_laws_def list_trie_def bt_get_insert bt_get_remove fun_eq_iff)

definition sample_store :: "(bytes, bytes) btree OffchainState" where
  "sample_store = \<lparr> os_cache = [([1], [10])], os_trie = [([1], [9]), ([2], [20])],
    os_keys_to_remove = [] \<rparr>"

lemma sample_store_inv: "os_inv list_trie bt_get bt_wf sample_store"
  by (simp add: os_inv_def list_trie_laws sample_store_def bt_wf_def)



text \<open>C35: a removed key that the trie still holds is read back with its old value until the next
  commit, although the commit then deletes it: removal is invisible to reads.\<close>

theorem os_get_after_remove_stale:
  assumes "os_inv T tv ok s" and "tv (os_trie s) k = Some v"
  shows "\<exists>s1. os_get T (os_remove k s) k = Inr (Some v, s1) \<and> os_pending tv s1 k = None"
proof -
  have cache: "bt_get (os_cache (os_remove k s)) k = None"
    using assms(1) by (simp add: os_remove_def os_inv_def bt_get_remove)
  have "tr_get T (os_trie (os_remove k s)) k = Inr (Some v)"
    using assms by (auto simp: os_remove_def os_inv_def trie_lawsD(1))
  then show ?thesis
    using cache by (auto simp: os_get_def os_pending_def os_remove_def set_bs_insert)
qed

theorem os_get_after_remove_stale_witness:
  "\<exists>s1. os_get list_trie (os_remove [2] sample_store) [2] = Inr (Some [20], s1) \<and>
     os_pending bt_get s1 [2] = None"
  by (rule os_get_after_remove_stale [OF sample_store_inv]) (simp add: sample_store_def bt_get_def)

subsection \<open>Properties of the node database\<close>

text \<open>The reference count of a node as an integer; an absent node counts zero.\<close>

definition ref_count :: "hasher \<Rightarrow> node_db \<Rightarrow> H256 \<Rightarrow> hprefix \<Rightarrow> int" where
  "ref_count H db key p =
    (case db_get db (prefixed_key H key p) of None \<Rightarrow> 0 | Some (_, rc) \<Rightarrow> sint rc)"

lemma db_get_insert:
  "db_get (db_insert k v db) k' = (if k' = k then Some v else db_get db k')"
  by (auto simp: db_get_def db_insert_def derive_storage_key_def)

lemma null_insert [simp]:
  "null_node_data (db_insert k v db) = null_node_data db"
  "hashed_null_node H (db_insert k v db) = hashed_null_node H db"
  by (simp_all add: null_node_data_def hashed_null_node_def db_insert_def)

lemma hashdb_visible:
  "hashdb_contains H db key p \<longleftrightarrow> hashdb_get H db key p \<noteq> None"
  "key \<noteq> hashed_null_node H db \<Longrightarrow> hashdb_contains H db key p \<longleftrightarrow> 0 < ref_count H db key p"
  by (auto simp: hashdb_contains_def hashdb_get_def ref_count_def word_sless_alt
      split: option.splits)

lemma sint_range: "- (2 ^ 31) \<le> sint rc \<and> sint rc < 2 ^ 31" for rc :: "32 word"
  using sint_greater_eq [of rc] sint_less [of rc] by simp

lemma sint_incr: "sint rc < 2 ^ 31 - 1 \<Longrightarrow> sint (rc + 1) = sint rc + 1" for rc :: "32 word"
  using sint_range [of rc] by (simp add: sint_word_ariths signed_take_bit_int_eq_self)

lemma sint_decr: "- (2 ^ 31) < sint rc \<Longrightarrow> sint (rc - 1) = sint rc - 1" for rc :: "32 word"
  using sint_range [of rc] by (simp add: sint_word_ariths signed_take_bit_int_eq_self)

lemmas hashdb_defs = hashdb_get_def hashdb_emplace_def hashdb_remove_def ref_count_def
  Let_def db_get_insert word_sless_alt word_sle_eq

text \<open>C36: the node database counts references. Emplacing a node adds one to its count and
  removing it subtracts one (away from the \<^verbatim>\<open>i32\<close> bounds); the node is visible exactly while
  its count is positive; a first reference stores the given data and a further one keeps the
  stored data; an emplace undone by a remove leaves what is visible unchanged; and nodes under
  other keys keep their counts.\<close>

theorem hashdb_reference_counting:
  assumes "key \<noteq> hashed_null_node H db" and "v \<noteq> null_node_data db"
    and "\<bar>ref_count H db key p\<bar> < 2 ^ 31 - 1"
  shows "ref_count H (hashdb_emplace H key p v db) key p = ref_count H db key p + 1 \<and>
    ref_count H (hashdb_remove H key p db) key p = ref_count H db key p - 1 \<and>
    (hashdb_contains H db key p \<longleftrightarrow> 0 < ref_count H db key p) \<and>
    (0 \<le> ref_count H db key p \<longrightarrow>
      hashdb_get H (hashdb_emplace H key p v db) key p =
        Some (case hashdb_get H db key p of None \<Rightarrow> v | Some d \<Rightarrow> d)) \<and>
    hashdb_get H (hashdb_remove H key p (hashdb_emplace H key p v db)) key p
      = hashdb_get H db key p \<and>
    (prefixed_key H key' p' \<noteq> prefixed_key H key p \<longrightarrow>
      ref_count H (hashdb_emplace H key p v db) key' p' = ref_count H db key' p' \<and>
      ref_count H (hashdb_remove H key p db) key' p' = ref_count H db key' p')"
proof (intro conjI)
  show "ref_count H (hashdb_emplace H key p v db) key p = ref_count H db key p + 1"
    using assms by (auto simp: hashdb_defs sint_incr split: option.splits)
  show "ref_count H (hashdb_remove H key p db) key p = ref_count H db key p - 1"
    using assms by (auto simp: hashdb_defs sint_decr split: option.splits)
  show "hashdb_contains H db key p \<longleftrightarrow> 0 < ref_count H db key p"
    using assms(1) by (rule hashdb_visible)
  show "0 \<le> ref_count H db key p \<longrightarrow> hashdb_get H (hashdb_emplace H key p v db) key p =
      Some (case hashdb_get H db key p of None \<Rightarrow> v | Some d \<Rightarrow> d)"
    using assms by (auto simp: hashdb_defs sint_incr split: option.splits)
  show "hashdb_get H (hashdb_remove H key p (hashdb_emplace H key p v db)) key p
      = hashdb_get H db key p"
    using assms by (auto simp: hashdb_defs split: option.splits)
  show "prefixed_key H key' p' \<noteq> prefixed_key H key p \<longrightarrow>
      ref_count H (hashdb_emplace H key p v db) key' p' = ref_count H db key' p' \<and>
      ref_count H (hashdb_remove H key p db) key' p' = ref_count H db key' p'"
    by (auto simp: hashdb_defs split: option.splits)
qed

definition sample_hasher :: hasher where
  "sample_hasher = \<lparr> hash_of = (\<lambda>b. of_nat (length b)), hash_bytes = (\<lambda>h. [ucast h]) \<rparr>"

definition sample_db :: node_db where
  "sample_db = \<lparr> db_hashed_null = None, db_null_data = None,
    db_nodes = [derive_storage_key [7] \<mapsto> ([5, 5], 2)] \<rparr>"

theorem hashdb_reference_counting_witness:
  "ref_count sample_hasher (hashdb_emplace sample_hasher 7 ([], None) [5, 5] sample_db) 7 ([], None) = 3"
proof -
  have null: "(7 :: H256) \<noteq> hashed_null_node sample_hasher sample_db"
      "[5, 5] \<noteq> null_node_data sample_db"
    by (simp_all add: hashed_null_node_def sample_hasher_def sample_db_def null_node_data_def)
  have rc: "ref_count sample_hasher sample_db 7 ([], None) = 2"
    by (simp add: ref_count_def db_get_def sample_db_def sample_hasher_def prefixed_key_def)
  show ?thesis
    using hashdb_reference_counting [OF null, of "([], None)"] by (simp add: rc)
qed

end
