(* ===== verification/Sample_Codec.thy ===== *)
theory Sample_Codec
  imports Messages
begin

text \<open>
  What the sources rely on of the serialisation crates, as the predicate \<open>codec_laws\<close>: decoding
  undoes encoding, decoded maps are ordered maps, and distinct keys have distinct encodings. A
  concrete self-delimiting codec shows that the laws can be met; the witnesses of the
  development use it.
\<close>

subsection \<open>Laws\<close>

definition codec_laws :: "'d codec \<Rightarrow> bool" where
  "codec_laws K \<longleftrightarrow>
    (\<forall>m. bt_wf m \<longrightarrow> dec_balances K (enc_balances K m) = Some m) \<and>
    (\<forall>b m. dec_balances K b = Some m \<longrightarrow> bt_wf m) \<and>
    (\<forall>x. dec_decimal K (enc_decimal K x) = Some x) \<and>
    (\<forall>c. dec_lmp_config K (enc_lmp_config K c) = Some c) \<and>
    (\<forall>m. bt_wf m \<longrightarrow> dec_q_scores K (enc_q_scores K m) = Some m) \<and>
    (\<forall>b m. dec_q_scores K b = Some m \<longrightarrow> bt_wf m) \<and>
    (\<forall>i. dec_state_info K (enc_state_info K i) = Some i) \<and>
    inj (account_key K) \<and>
    (\<forall>e p t a e' p' t' a'. enc_lmp_key K e p t a = enc_lmp_key K e' p' t' a' \<longrightarrow>
      e = e' \<and> p = p' \<and> t = t' \<and> a = a')"

lemma codec_lawsD:
  assumes "codec_laws K"
  shows "bt_wf m \<Longrightarrow> dec_balances K (enc_balances K m) = Some m"
    and "dec_balances K b = Some m \<Longrightarrow> bt_wf m"
    and "dec_decimal K (enc_decimal K x) = Some x"
    and "dec_lmp_config K (enc_lmp_config K c) = Some c"
    and "bt_wf q \<Longrightarrow> dec_q_scores K (enc_q_scores K q) = Some q"
    and "dec_q_scores K b = Some q \<Longrightarrow> bt_wf q"
    and "dec_state_info K (enc_state_info K i) = Some i"
    and "account_key K acc = account_key K acc' \<longleftrightarrow> acc = acc'"
    and "enc_lmp_key K e p t a = enc_lmp_key K e' p' t' a' \<longleftrightarrow>
      e = e' \<and> p = p' \<and> t = t' \<and> a = a'"
  using assms unfolding codec_laws_def inj_def by blast+

subsection \<open>A self-delimiting codec\<close>

fun put_nats :: "nat list \<Rightarrow> bytes" where
  "put_nats [] = []"
| "put_nats (n # ns) = replicate n 1 @ 0 # put_nats ns"

fun take_nats :: "nat \<Rightarrow> bytes \<Rightarrow> nat list" where
  "take_nats n [] = []"
| "take_nats n (b # bs) = (if b = 0 then n # take_nats 0 bs else take_nats (Suc n) bs)"

lemma take_nats_replicate: "take_nats k (replicate n 1 @ 0 # bs) = (k + n) # take_nats 0 bs"
  by (induction n arbitrary: k) auto

lemma take_put_nats [simp]: "take_nats 0 (put_nats ns) = ns"
  by (induction ns) (auto simp: take_nats_replicate)

definition int_nats :: "int \<Rightarrow> nat list" where
  "int_nats i = [if i < 0 then 1 else 0, nat \<bar>i\<bar>]"

definition nats_int :: "nat \<Rightarrow> nat \<Rightarrow> int" where
  "nats_int s n = (if s = 1 then - int n else int n)"

definition rat_nats :: "rat \<Rightarrow> nat list" where
  "rat_nats r = (case quotient_of r of (n, d) \<Rightarrow> int_nats n @ int_nats d)"

definition nats_rat :: "nat \<Rightarrow> nat \<Rightarrow> nat \<Rightarrow> nat \<Rightarrow> rat" where
  "nats_rat a b c d = of_int (nats_int a b) / of_int (nats_int c d)"

fun asset_nats :: "AssetId \<Rightarrow> nat list" where
  "asset_nats Polkadex = [0, 0]"
| "asset_nats (Asset i) = [1, unat i]"

definition nats_asset :: "nat \<Rightarrow> nat \<Rightarrow> AssetId" where
  "nats_asset a b = (if a = 0 then Polkadex else Asset (word_of_nat b))"

fun nats_balances :: "nat list \<Rightarrow> (AssetId, rat) btree option" where
  "nats_balances [] = Some []"
| "nats_balances (a # b # c # d # e # f # ns) =
    map_option (Cons (nats_asset a b, nats_rat c d e f)) (nats_balances ns)"
| "nats_balances _ = None"

fun nats_scores :: "nat list \<Rightarrow> (u16, rat) btree option" where
  "nats_scores [] = Some []"
| "nats_scores (a # c # d # e # f # ns) =
    map_option (Cons (word_of_nat a, nats_rat c d e f)) (nats_scores ns)"
| "nats_scores _ = None"

definition checked_map :: "('k::linorder, 'v) btree option \<Rightarrow> ('k, 'v) btree option" where
  "checked_map r = (case r of None \<Rightarrow> None | Some m \<Rightarrow> if bt_wf m then Some m else None)"

definition sample_codec :: "rat codec" where
  "sample_codec =
    \<lparr> enc_u64 = (\<lambda>x. put_nats [unat x]),
      enc_withdraw_payload = (\<lambda>p. put_nats (asset_nats (wp_asset_id p))),
      json_withdraw_payload = (\<lambda>p. Some (wp_amount p)),
      enc_actions = (\<lambda>as. put_nats [length as]),
      enc_summary = (\<lambda>s. put_nats [unat (s_snapshot_id s)]),
      account_key = (\<lambda>a. put_nats [unat a]),
      enc_balances = (\<lambda>m. put_nats (concat (map (\<lambda>(a, x). asset_nats a @ rat_nats x) m))),
      dec_balances = (\<lambda>b. checked_map (nats_balances (take_nats 0 b))),
      enc_decimal = (\<lambda>x. put_nats (rat_nats x)),
      dec_decimal = (\<lambda>b. case take_nats 0 b of
          [c, d, e, f] \<Rightarrow> Some (nats_rat c d e f) | _ \<Rightarrow> None),
      enc_lmp_config = (\<lambda>c. put_nats [unat (lc_epoch c), unat (lc_index c)]),
      dec_lmp_config = (\<lambda>b. case take_nats 0 b of
          [e, i] \<Rightarrow> Some \<lparr> lc_epoch = word_of_nat e, lc_index = word_of_nat i \<rparr> | _ \<Rightarrow> None),
      enc_q_scores = (\<lambda>m. put_nats (concat (map (\<lambda>(i, x). unat i # rat_nats x) m))),
      dec_q_scores = (\<lambda>b. checked_map (nats_scores (take_nats 0 b))),
      enc_state_info = (\<lambda>i. put_nats [unat (si_last_block i), unat (si_worker_nonce i),
          unat (si_stid i), unat (si_snapshot_id i)]),
      dec_state_info = (\<lambda>b. case take_nats 0 b of
          [l, w, st, sn] \<Rightarrow> Some \<lparr> si_last_block = word_of_nat l, si_worker_nonce = word_of_nat w,
            si_stid = word_of_nat st, si_snapshot_id = word_of_nat sn \<rparr> | _ \<Rightarrow> None),
      enc_lmp_key = (\<lambda>e p t a. put_nats (unat e # asset_nats (base p) @ asset_nats (quote p) @
          (case a of None \<Rightarrow> [0, 0] | Some x \<Rightarrow> [1, unat x]) @ map of_char t)) \<rparr>"

lemma nats_int_inverse: "int_nats i = [s, n] \<Longrightarrow> nats_int s n = i"
  by (auto simp: int_nats_def nats_int_def split: if_splits)

lemma rat_nats_inverse: "\<exists>c d e f. rat_nats r = [c, d, e, f] \<and> nats_rat c d e f = r"
proof -
  obtain n d where nd: "quotient_of r = (n, d)" by force
  then have "r = of_int n / of_int d" by (rule quotient_of_div)
  moreover have "nats_int (if i < 0 then 1 else 0) (nat \<bar>i\<bar>) = i" for i
    by (rule nats_int_inverse) (simp add: int_nats_def)
  moreover have "rat_nats r = [if n < 0 then 1 else 0, nat \<bar>n\<bar>, if d < 0 then 1 else 0, nat \<bar>d\<bar>]"
    by (simp only: rat_nats_def nd int_nats_def prod.case append.simps)
  ultimately show ?thesis
    unfolding nats_rat_def by metis
qed

lemma asset_nats_inverse: "\<exists>x y. asset_nats a = [x, y] \<and> nats_asset x y = a"
  by (cases a) (auto simp: nats_asset_def)

lemma nats_balances_concat:
  "nats_balances (concat (map (\<lambda>(a, x). asset_nats a @ rat_nats x) m)) = Some m"
proof (induction m)
  case (Cons ax m)
  obtain a x where ax: "ax = (a, x)" by force
  obtain u v where "asset_nats a = [u, v]" "nats_asset u v = a"
    using asset_nats_inverse by blast
  moreover obtain c d e f where "rat_nats x = [c, d, e, f]" "nats_rat c d e f = x"
    using rat_nats_inverse by blast
  ultimately show ?case using Cons.IH by (simp add: ax)
qed simp

lemma nats_scores_concat:
  "nats_scores (concat (map (\<lambda>(i, x). unat i # rat_nats x) m)) = Some m"
proof (induction m)
  case (Cons ix m)
  obtain i x where ix: "ix = (i, x)" by force
  obtain c d e f where "rat_nats x = [c, d, e, f]" "nats_rat c d e f = x"
    using rat_nats_inverse by blast
  then show ?case using Cons.IH by (simp add: ix)
qed simp

declare put_nats.simps [simp del]

lemma put_nats_inj: "put_nats xs = put_nats ys \<longleftrightarrow> xs = ys"
  by (metis take_put_nats)

lemma asset_nats_inj: "asset_nats a = asset_nats b \<longleftrightarrow> a = b"
  by (cases a; cases b) (auto simp: word_unat_eq_iff)

lemma sample_codec_laws: "codec_laws sample_codec"
  unfolding codec_laws_def
proof (intro conjI allI impI)
  show "dec_decimal sample_codec (enc_decimal sample_codec x) = Some x" for x
    using rat_nats_inverse [of x] by (auto simp: sample_codec_def)
  show "inj (account_key sample_codec)"
    by (simp add: sample_codec_def inj_def put_nats_inj word_unat_eq_iff)
  fix e e' :: u16 and p p' :: TradingPair and t t' :: string and a a' :: "account option"
  assume "enc_lmp_key sample_codec e p t a = enc_lmp_key sample_codec e' p' t' a'"
  then have eq: "unat e # asset_nats (base p) @ asset_nats (quote p) @
      (case a of None \<Rightarrow> [0, 0] | Some x \<Rightarrow> [1, unat x]) @ map of_char t =
    unat e' # asset_nats (base p') @ asset_nats (quote p') @
      (case a' of None \<Rightarrow> [0, 0] | Some x \<Rightarrow> [1, unat x]) @ map of_char t'"
    by (simp add: sample_codec_def put_nats_inj)
  have two: "length (asset_nats c) = 2" for c by (cases c) auto
  have two': "length (case a of None \<Rightarrow> [0, 0] | Some x \<Rightarrow> [1, unat x]) = 2" for a :: "account option"
    by (cases a) auto
  from eq have parts: "e = e'" "base p = base p'" "quote p = quote p'"
      "(case a of None \<Rightarrow> [0, 0] | Some x \<Rightarrow> [1, unat x]) =
        (case a' of None \<Rightarrow> [0, 0] | Some x \<Rightarrow> [1, unat x])"
      "map of_char t = (map of_char t' :: nat list)"
    by (auto simp: append_eq_append_conv two two' asset_nats_inj word_unat_eq_iff)
  from arg_cong [OF parts(5), of "map char_of"] show "t = t'"
    by (simp add: comp_def)
  from parts show "e = e'" "p = p'" "a = a'"
    by (auto simp: TradingPair.expand word_unat_eq_iff split: option.splits)
qed (auto simp: sample_codec_def nats_balances_concat nats_scores_concat checked_map_def
    split: option.splits if_splits)

end
