(* ===== verification/Settlement.thy ===== *)
theory Settlement
  imports Offchain_State Sample_Codec
begin

text \<open>
  Balances and trade settlement in the off-chain state, \<^verbatim>\<open>pallets/ocex/src/settlement.rs\<close>. The
  environment of the worker is a record of its external parts. The locale \<open>ledger\<close> states what
  the trade settlement needs of the balance operations (an addition or a subtraction changes one
  balance, by its amount up to the truncation to nine places); it is interpreted on
  \<open>add_balance\<close> and \<open>sub_balance\<close>.
\<close>

subsection \<open>The worker's environment\<close>

record ('d, 't) worker_env =
  we_dec :: "'d decimal_ops"
  we_crypto :: "'d crypto"
  we_codec :: "'d codec"
  we_trie :: "'t trie_ops"
  we_pot_account :: account

subsection \<open>Balances\<close>

definition decode_balances :: "'d codec \<Rightarrow> bytes option \<Rightarrow> ow_error + (AssetId, 'd) btree" where
  "decode_balances K v =
    (case v of
      None \<Rightarrow> Inr []
    | Some encoded \<Rightarrow>
        ok_or (Msg ''Unable to decode balances for account'') (dec_balances K encoded))"

definition get_balance :: "('d, 't) worker_env \<Rightarrow> 't OffchainState \<Rightarrow> account \<Rightarrow> AssetId \<Rightarrow>
    ow_error + ('d \<times> 't OffchainState)" where
  "get_balance E s acc asset =
    bind_res (os_get (we_trie E) s (account_key (we_codec E) acc)) (\<lambda>(v, s).
    bind_res (decode_balances (we_codec E) v) (\<lambda>balances.
    Inr (case bt_get balances asset of None \<Rightarrow> d_zero (we_dec E) | Some b \<Rightarrow> b, s)))"

definition add_balance :: "('d, 't) worker_env \<Rightarrow> 't OffchainState \<Rightarrow> account \<Rightarrow> AssetId \<Rightarrow> 'd \<Rightarrow>
    ow_error + 't OffchainState" where
  "add_balance E s acc asset balance =
    bind_res (os_get (we_trie E) s (account_key (we_codec E) acc)) (\<lambda>(v, s).
    bind_res (decode_balances (we_codec E) v) (\<lambda>balances.
    let balances = bt_entry asset
          (\<lambda>total. rounding_off (we_dec E) (d_sat_add (we_dec E) total balance)) balance balances
    in Inr (os_insert (account_key (we_codec E) acc) (enc_balances (we_codec E) balances) s)))"

definition sub_balance :: "('d, 't) worker_env \<Rightarrow> 't OffchainState \<Rightarrow> account \<Rightarrow> AssetId \<Rightarrow> 'd \<Rightarrow>
    bool \<Rightarrow> ow_error + ('d \<times> 't OffchainState)" where
  "sub_balance E s acc asset balance is_withdrawal =
    bind_res (os_get (we_trie E) s (account_key (we_codec E) acc)) (\<lambda>(v, s).
    ensure (v \<noteq> None) (Msg ''Account not found in trie'')
    (bind_res (decode_balances (we_codec E) v) (\<lambda>balances.
    bind_res (ok_or (Msg ''NotEnoughBalance: zero balance'') (bt_get balances asset)) (\<lambda>account_balance.
    bind_res
      (if d_lt (we_dec E) account_balance balance then
         if is_withdrawal then
           bind_res (ok_or Panic (d_sub (we_dec E) balance account_balance)) (\<lambda>deviation.
           Inr account_balance)
         else Inl (Msg ''NotEnoughBalance'')
       else Inr balance) (\<lambda>balance.
    let balances = bt_insert asset
          (rounding_off (we_dec E) (d_sat_sub (we_dec E) account_balance balance)) balances
    in Inr (balance,
         os_insert (account_key (we_codec E) acc) (enc_balances (we_codec E) balances) s))))))"

subsection \<open>Trades\<close>

text \<open>
  \<^verbatim>\<open>process_trade\<close>: for the maker and then the taker, credit net of the fee, the fee to the pot
  account, and the debit.
\<close>

definition settle_side :: "('d, 't) worker_env \<Rightarrow> 'd Trade \<Rightarrow> bool \<Rightarrow> 'd \<Rightarrow> 't OffchainState \<Rightarrow>
    ow_error + 't OffchainState" where
  "settle_side E trade maker fraction s =
    bind_res (ok_or Panic (credit (we_dec E) trade maker)) (\<lambda>(credit_to, amount).
    let fees = d_sat_mul (we_dec E) amount fraction;
        amount = d_sat_sub (we_dec E) amount fees in
    bind_res (add_balance E s (fst credit_to) (snd credit_to) amount) (\<lambda>s.
    bind_res (add_balance E s (we_pot_account E) (snd credit_to) fees) (\<lambda>s.
    bind_res (ok_or Panic (debit (we_dec E) trade maker)) (\<lambda>(debit_from, amount).
    bind_res (sub_balance E s (fst debit_from) (snd debit_from) amount False) (\<lambda>(_, s).
    Inr s)))))"

definition process_trade :: "('d, 't) worker_env \<Rightarrow> 't OffchainState \<Rightarrow> 'd Trade \<Rightarrow>
    'd TradingPairConfig \<Rightarrow> 'd FeeConfig \<Rightarrow> 'd FeeConfig \<Rightarrow> ow_error + 't OffchainState" where
  "process_trade E s trade config maker_fees taker_fees =
    bind_res (ok_or Panic (trade_verify (we_dec E) (we_crypto E) trade config)) (\<lambda>verified.
    ensure verified (Msg ''InvalidTrade'')
    (bind_res (settle_side E trade True (maker_fraction maker_fees) s) (\<lambda>s.
     settle_side E trade False (taker_fraction taker_fees) s)))"

subsection \<open>The abstract ledger\<close>

text \<open>Decimal numbers of scale \<open>sc\<close> that are non-negative and below \<open>b\<close> units of that scale.\<close>

definition fixed :: "nat \<Rightarrow> int \<Rightarrow> rat \<Rightarrow> bool" where
  "fixed sc b q \<longleftrightarrow> (\<exists>m. 0 \<le> m \<and> m < b \<and> q = of_int m / 10 ^ sc)"

lemma fixed_representable: "fixed sc b q \<Longrightarrow> sc \<le> 28 \<Longrightarrow> b \<le> 2 ^ 96 \<Longrightarrow> representable q"
  unfolding fixed_def representable_def by (metis abs_of_nonneg order_less_le_trans)

lemma fixed_mono: "fixed sc b q \<Longrightarrow> b \<le> b' \<Longrightarrow> fixed sc b' q"
  unfolding fixed_def by (metis order_less_le_trans)

lemma fixed_nonneg: "fixed sc b q \<Longrightarrow> 0 \<le> q"
  by (auto simp: fixed_def)

lemma fixed_bound_pos: "fixed sc b q \<Longrightarrow> 0 < b"
  by (auto simp: fixed_def)

lemma fixed_zero: "0 < b \<Longrightarrow> fixed sc b 0"
  unfolding fixed_def by (intro exI [of _ 0]) simp

lemma fixed_add:
  assumes "fixed sc b p" "fixed sc c q"
  shows "fixed sc (b + c) (p + q)"
proof -
  from assms obtain m n where "0 \<le> m" "m < b" "p = of_int m / 10 ^ sc"
    "0 \<le> n" "n < c" "q = of_int n / 10 ^ sc"
    unfolding fixed_def by blast
  then show ?thesis
    unfolding fixed_def by (intro exI [of _ "m + n"]) (simp add: add_divide_distrib)
qed

lemma fixed_diff:
  assumes "fixed sc b p" "fixed sc c q" "q \<le> p"
  shows "fixed sc b (p - q)"
proof -
  from assms obtain m n where "0 \<le> m" "m < b" "p = of_int m / 10 ^ sc"
    "0 \<le> n" "n < c" "q = of_int n / 10 ^ sc"
    unfolding fixed_def by blast
  with assms(3) show ?thesis
    unfolding fixed_def
    by (intro exI [of _ "m - n"]) (simp add: diff_divide_distrib divide_le_cancel)
qed

lemma fixed_trunc:
  assumes "fixed sc b q"
  shows "fixed sc b (trunc_rat 9 q) \<and> trunc_rat 9 q \<le> q \<and> q < trunc_rat 9 q + 1 / 10 ^ 9"
proof -
  from assms obtain m where m: "0 \<le> m" "m < b" "q = of_int m / 10 ^ sc"
    unfolding fixed_def by blast
  let ?f = "\<lfloor>q * 10 ^ 9\<rfloor>"
  have t: "trunc_rat 9 q = of_int ?f / 10 ^ 9"
    using m by (simp add: trunc_rat_def)
  have le: "of_int ?f \<le> q * 10 ^ 9" and lt: "q * 10 ^ 9 < of_int ?f + 1"
    by linarith+
  have f0: "0 \<le> ?f"
    using m(1,3) by simp
  have "fixed sc b (of_int ?f / 10 ^ 9)"
  proof (cases "sc \<le> 9")
    case True
    then have p: "(10 :: rat) ^ 9 = 10 ^ sc * 10 ^ (9 - sc)"
      by (simp add: power_add [symmetric])
    have "q * 10 ^ 9 = of_int (m * 10 ^ (9 - sc))"
      unfolding m(3) p by simp
    then have "of_int ?f = q * 10 ^ 9"
      by (metis floor_of_int)
    then have "of_int ?f / 10 ^ 9 = q"
      by (metis nonzero_mult_div_cancel_right power_not_zero zero_neq_numeral)
    then show ?thesis
      by (simp only: assms)
  next
    case False
    then have p: "(10 :: rat) ^ sc = 10 ^ 9 * 10 ^ (sc - 9)"
      by (metis le_add_diff_inverse nat_le_linear power_add)
    have "of_int (?f * 10 ^ (sc - 9)) \<le> (of_int m :: rat)"
      using mult_right_mono [OF le, of "10 ^ (sc - 9)"] by (simp add: m(3) p)
    then have "?f * 10 ^ (sc - 9) \<le> m"
      by (simp only: of_int_le_iff)
    with m(2) f0 show ?thesis
      unfolding fixed_def
      by (intro exI [of _ "?f * 10 ^ (sc - 9)"]) (simp add: p)
  qed
  with le lt show ?thesis
    by (simp add: t field_simps)
qed

text \<open>
  A ledger at level \<open>b\<close>: every balance is a fixed-point number below \<open>b\<close> units. An addition of
  less than \<open>c\<close> units succeeds, raises one balance by the amount and the level by \<open>c\<close>, as long
  as that fits the 96 bits of the decimal type; a subtraction that succeeds lowers
  one balance by the amount, in both cases up to less than \<open>dust\<close> and never in favour of the
  account; all other balances keep their value.
\<close>

definition dust :: rat where
  "dust = 1 / 10 ^ 9"

definition others_kept :: "('k \<Rightarrow> 'a \<Rightarrow> 'q) \<Rightarrow> 'k \<Rightarrow> 'a \<Rightarrow> ('k \<Rightarrow> 'a \<Rightarrow> 'q) \<Rightarrow> bool" where
  "others_kept bal acc asset bal' \<longleftrightarrow>
    (\<forall>acc' asset'. (acc', asset') \<noteq> (acc, asset) \<longrightarrow> bal' acc' asset' = bal acc' asset')"

definition near_below :: "rat \<Rightarrow> rat \<Rightarrow> bool" where
  "near_below x y \<longleftrightarrow> x \<le> y \<and> y < x + dust"

definition total_over :: "('k \<Rightarrow> 'a \<Rightarrow> rat) \<Rightarrow> 'k set \<Rightarrow> 'a \<Rightarrow> rat" where
  "total_over f A asset = (\<Sum>acc\<in>A. f acc asset)"

locale ledger =
  fixes bal :: "'s \<Rightarrow> 'k \<Rightarrow> 'a \<Rightarrow> rat"
    and level :: "int \<Rightarrow> 's \<Rightarrow> bool"
    and amt :: "int \<Rightarrow> 'd \<Rightarrow> bool"
    and val :: "'d \<Rightarrow> rat"
    and add :: "'s \<Rightarrow> 'k \<Rightarrow> 'a \<Rightarrow> 'd \<Rightarrow> 'e + 's"
    and sub :: "'s \<Rightarrow> 'k \<Rightarrow> 'a \<Rightarrow> 'd \<Rightarrow> bool \<Rightarrow> 'e + ('d \<times> 's)"
  assumes add_spec: "level b s \<Longrightarrow> amt c x \<Longrightarrow> b + c \<le> 2 ^ 96 \<Longrightarrow>
      \<exists>s'. add s acc asset x = Inr s' \<and> level (b + c) s' \<and> others_kept (bal s) acc asset (bal s') \<and>
        near_below (bal s' acc asset) (bal s acc asset + val x)"
    and sub_spec: "level b s \<Longrightarrow> amt c x \<Longrightarrow> b \<le> 2 ^ 96 \<Longrightarrow> sub s acc asset x w = Inr (y, s') \<Longrightarrow>
      level b s' \<and> others_kept (bal s) acc asset (bal s') \<and>
        near_below (bal s' acc asset) (bal s acc asset - val y) \<and> (\<not> w \<longrightarrow> y = x)"
    and amt_pos: "amt c x \<Longrightarrow> 0 < c"
begin

lemma total_change:
  assumes "finite A" "acc \<in> A" "others_kept (bal s) acc asset (bal s')"
  shows "total_over (bal s') A a = total_over (bal s) A a + (if a = asset then bal s' acc asset - bal s acc asset else 0)"
proof -
  have rest: "(\<Sum>k\<in>A - {acc}. bal s' k a) = (\<Sum>k\<in>A - {acc}. bal s k a)"
    using assms(3) by (intro sum.cong) (auto simp: others_kept_def)
  have "a \<noteq> asset \<Longrightarrow> bal s' acc a = bal s acc a"
    using assms(3) by (auto simp: others_kept_def)
  then show ?thesis
    using assms(1,2) rest by (auto simp: total_over_def sum.remove [of A acc])
qed

lemma add_total:
  assumes "level b s" "amt c x" "b + c \<le> 2 ^ 96" "finite A" "acc \<in> A"
  shows "\<exists>s'. add s acc asset x = Inr s' \<and> level (b + c) s' \<and>
    near_below (total_over (bal s') A asset) (total_over (bal s) A asset + val x) \<and>
    (\<forall>a. a \<noteq> asset \<longrightarrow> total_over (bal s') A a = total_over (bal s) A a)"
proof -
  obtain s' where s': "add s acc asset x = Inr s'" "level (b + c) s'"
      "others_kept (bal s) acc asset (bal s')" "near_below (bal s' acc asset) (bal s acc asset + val x)"
    using add_spec [OF assms(1-3)] by blast
  then show ?thesis
    using total_change [OF assms(4,5) s'(3)] by (auto simp: near_below_def)
qed

lemma sub_total:
  assumes "level b s" "amt c x" "b \<le> 2 ^ 96" "finite A" "acc \<in> A" "sub s acc asset x w = Inr (y, s')"
  shows "level b s'" and "near_below (total_over (bal s') A asset) (total_over (bal s) A asset - val y)"
    and "a \<noteq> asset \<Longrightarrow> total_over (bal s') A a = total_over (bal s) A a" and "\<not> w \<Longrightarrow> y = x"
  using sub_spec [OF assms(1-3,6)] total_change [OF assms(4,5), of s asset s']
  by (auto simp: near_below_def)

text \<open>One side of a trade: credit, fee, debit.\<close>

lemma settle_total:
  assumes "level b s" "amt c x" "amt c f" "amt c d" "b + 2 * c \<le> 2 ^ 96"
    and "finite A" "{acc, pot, acc'} \<subseteq> A" "asset \<noteq> asset'"
    and "add s acc asset x = Inr s1" "add s1 pot asset f = Inr s2" "sub s2 acc' asset' d False = Inr (y, s3)"
  shows "level (b + 2 * c) s3"
    and "total_over (bal s) A asset + val x + val f - 2 * dust < total_over (bal s3) A asset"
    and "total_over (bal s3) A asset \<le> total_over (bal s) A asset + val x + val f"
    and "total_over (bal s) A asset' - val d - dust < total_over (bal s3) A asset'"
    and "total_over (bal s3) A asset' \<le> total_over (bal s) A asset' - val d"
    and "a \<noteq> asset \<Longrightarrow> a \<noteq> asset' \<Longrightarrow> total_over (bal s3) A a = total_over (bal s) A a"
proof -
  have "0 < c" by (rule amt_pos [OF assms(2)])
  then have b1: "b + c \<le> 2 ^ 96" and b2: "b + c + c \<le> 2 ^ 96" using assms(5) by simp_all
  have l1: "level (b + c) s1" and t1: "near_below (total_over (bal s1) A asset) (total_over (bal s) A asset + val x)"
      "\<And>a. a \<noteq> asset \<Longrightarrow> total_over (bal s1) A a = total_over (bal s) A a"
    using add_total [OF assms(1,2) b1 assms(6), of acc asset] assms(7,9) by auto
  have l2: "level (b + 2 * c) s2" and t2: "near_below (total_over (bal s2) A asset) (total_over (bal s1) A asset + val f)"
      "\<And>a. a \<noteq> asset \<Longrightarrow> total_over (bal s2) A a = total_over (bal s1) A a"
    using add_total [OF l1 assms(3) b2 assms(6), of pot asset] assms(7,10) by (auto simp: algebra_simps)
  note d = sub_total [OF l2 assms(4,5,6) _ assms(11)]
  show "level (b + 2 * c) s3"
    using d(1) assms(7) by simp
  have t3: "near_below (total_over (bal s3) A asset') (total_over (bal s2) A asset' - val d)"
      "\<And>a. a \<noteq> asset' \<Longrightarrow> total_over (bal s3) A a = total_over (bal s2) A a"
    using d(2-4) assms(7) by auto
  show "total_over (bal s) A asset + val x + val f - 2 * dust < total_over (bal s3) A asset"
    "total_over (bal s3) A asset \<le> total_over (bal s) A asset + val x + val f"
    "total_over (bal s) A asset' - val d - dust < total_over (bal s3) A asset'"
    "total_over (bal s3) A asset' \<le> total_over (bal s) A asset' - val d"
    using t1 t2 t3 assms(8) by (auto simp: near_below_def)
  show "a \<noteq> asset \<Longrightarrow> a \<noteq> asset' \<Longrightarrow> total_over (bal s3) A a = total_over (bal s) A a"
    using t1 t2 t3 by simp
qed

end

subsection \<open>The balance operations implement it\<close>

definition balances_of :: "'d codec \<Rightarrow> (bytes \<Rightarrow> bytes option) \<Rightarrow> account \<Rightarrow> (AssetId, 'd) btree option" where
  "balances_of K view acc =
    (case view (account_key K acc) of None \<Rightarrow> Some [] | Some b \<Rightarrow> dec_balances K b)"

definition bal :: "('d, 't) worker_env \<Rightarrow> ('t \<Rightarrow> bytes \<Rightarrow> bytes option) \<Rightarrow> ('d \<Rightarrow> rat) \<Rightarrow>
    't OffchainState \<Rightarrow> account \<Rightarrow> AssetId \<Rightarrow> rat" where
  "bal E tv val s acc asset =
    (case balances_of (we_codec E) (os_view tv s) acc of
      None \<Rightarrow> 0
    | Some m \<Rightarrow> (case bt_get m asset of None \<Rightarrow> 0 | Some x \<Rightarrow> val x))"

definition books :: "('d, 't) worker_env \<Rightarrow> ('t \<Rightarrow> bytes \<Rightarrow> bytes option) \<Rightarrow> ('t \<Rightarrow> bool) \<Rightarrow> ('d \<Rightarrow> rat) \<Rightarrow>
    nat \<Rightarrow> int \<Rightarrow> 't OffchainState \<Rightarrow> bool" where
  "books E tv ok val sc b s \<longleftrightarrow>
    os_inv (we_trie E) tv ok s \<and> codec_laws (we_codec E) \<and> decimal_laws (we_dec E) val \<and> sc \<le> 28 \<and> 0 < b \<and>
    (\<forall>acc. \<exists>m. balances_of (we_codec E) (os_view tv s) acc = Some m \<and>
      (\<forall>asset x. bt_get m asset = Some x \<longrightarrow> fixed sc b (val x)))"

lemma booksD:
  assumes "books E tv ok val sc b s"
  shows "os_inv (we_trie E) tv ok s" "codec_laws (we_codec E)" "decimal_laws (we_dec E) val" "sc \<le> 28" "0 < b"
    and "\<exists>m. balances_of (we_codec E) (os_view tv s) acc = Some m \<and>
      (\<forall>asset x. bt_get m asset = Some x \<longrightarrow> fixed sc b (val x))"
  using assms unfolding books_def by blast+

lemma balances_of_wf:
  "codec_laws K \<Longrightarrow> balances_of K view acc = Some m \<Longrightarrow> bt_wf m"
  by (auto simp: balances_of_def bt_wf_def dest: codec_lawsD(2) split: option.splits)

lemma decode_balances_of:
  "decode_balances K (view (account_key K acc)) = ok_or (Msg ''Unable to decode balances for account'')
    (balances_of K view acc)"
  by (auto simp: decode_balances_def balances_of_def split: option.splits)

lemma books_update:
  assumes books: "books E tv ok val sc b s" and "b \<le> b'"
    and get: "os_get (we_trie E) s (account_key (we_codec E) acc) = Inr (v, s1)"
    and m: "bt_wf m" "\<And>asset x. bt_get m asset = Some x \<Longrightarrow> fixed sc b' (val x)"
  shows "books E tv ok val sc b'
      (os_insert (account_key (we_codec E) acc) (enc_balances (we_codec E) m) s1)"
    and "balances_of (we_codec E) (os_view tv
      (os_insert (account_key (we_codec E) acc) (enc_balances (we_codec E) m) s1)) acc' =
      (if acc' = acc then Some m else balances_of (we_codec E) (os_view tv s) acc')"
proof -
  note d = booksD [OF books]
  let ?s2 = "os_insert (account_key (we_codec E) acc) (enc_balances (we_codec E) m) s1"
  have s1: "os_inv (we_trie E) tv ok s1" "os_view tv s1 = os_view tv s"
    using os.getD [OF get d(1)] by auto
  have view: "os_view tv ?s2 = (os_view tv s)
      (account_key (we_codec E) acc \<mapsto> enc_balances (we_codec E) m)"
    using os.put_view [OF s1(1)] s1(2) by simp
  show bals: "balances_of (we_codec E) (os_view tv ?s2) acc' =
      (if acc' = acc then Some m else balances_of (we_codec E) (os_view tv s) acc')" for acc'
    by (simp add: view balances_of_def codec_lawsD(1) [OF d(2) m(1)] codec_lawsD(8) [OF d(2)])
  show "books E tv ok val sc b' ?s2"
    unfolding books_def
  proof (intro conjI allI)
    fix a
    show "\<exists>m. balances_of (we_codec E) (os_view tv ?s2) a = Some m \<and>
        (\<forall>asset x. bt_get m asset = Some x \<longrightarrow> fixed sc b' (val x))"
      using d(6) [of a] m(2) fixed_mono [OF _ \<open>b \<le> b'\<close>] by (auto simp: bals)
  qed (use d s1 os.put_inv \<open>b \<le> b'\<close> in auto)
qed

lemma get_balance_spec:
  assumes "books E tv ok val sc b s"
  shows "\<exists>x s'. get_balance E s acc asset = Inr (x, s') \<and> val x = bal E tv val s acc asset \<and>
    fixed sc b (val x) \<and> books E tv ok val sc b s' \<and> os_view tv s' = os_view tv s"
proof -
  note d = booksD [OF assms]
  obtain s' where s': "os_get (we_trie E) s (account_key (we_codec E) acc) =
      Inr (os_view tv s (account_key (we_codec E) acc), s')"
      "os_inv (we_trie E) tv ok s'" "os_view tv s' = os_view tv s"
    using os.get_total [OF d(1)] by blast
  obtain m where m: "balances_of (we_codec E) (os_view tv s) acc = Some m"
      "\<And>asset x. bt_get m asset = Some x \<Longrightarrow> fixed sc b (val x)"
    using d(6) by blast
  have "books E tv ok val sc b s'"
    using assms s' by (simp add: books_def)
  then show ?thesis
    using s' m by (auto simp: get_balance_def decode_balances_of bal_def decimal_lawsD(1) [OF d(3)]
        fixed_zero [OF d(5)] split: option.splits)
qed

lemma bal_update:
  assumes "\<And>acc'. balances_of (we_codec E) (os_view tv s') acc' =
      (if acc' = acc then Some (bt_insert asset x m) else balances_of (we_codec E) (os_view tv s) acc')"
    and "balances_of (we_codec E) (os_view tv s) acc = Some m"
  shows "bal E tv val s' acc asset = val x" and "others_kept (bal E tv val s) acc asset (bal E tv val s')"
  using assms by (auto simp: bal_def others_kept_def bt_get_insert)

lemma round_fixed:
  assumes "decimal_laws D val" "fixed sc b (val x)"
  shows "fixed sc b (val (rounding_off D x))" and "near_below (val (rounding_off D x)) (val x)"
  using fixed_trunc [OF assms(2)] decimal_lawsD(10) [OF assms(1)]
  by (auto simp: rounding_off_def near_below_def dust_def)

lemma add_balance_spec:
  assumes books: "books E tv ok val sc b s" and x: "fixed sc c (val x)" and bc: "b + c \<le> 2 ^ 96"
  shows "\<exists>s'. add_balance E s acc asset x = Inr s' \<and> books E tv ok val sc (b + c) s' \<and>
    others_kept (bal E tv val s) acc asset (bal E tv val s') \<and>
    near_below (bal E tv val s' acc asset) (bal E tv val s acc asset + val x)"
proof -
  note d = booksD [OF books]
  obtain s1 where s1: "os_get (we_trie E) s (account_key (we_codec E) acc) =
      Inr (os_view tv s (account_key (we_codec E) acc), s1)"
    using os.get_total [OF d(1)] by blast
  obtain m where m: "balances_of (we_codec E) (os_view tv s) acc = Some m"
      "\<And>asset x. bt_get m asset = Some x \<Longrightarrow> fixed sc b (val x)"
    using d(6) by blast
  define new where "new = (case bt_get m asset of None \<Rightarrow> x
    | Some y \<Rightarrow> rounding_off (we_dec E) (d_sat_add (we_dec E) y x))"
  have c: "0 < c" by (rule fixed_bound_pos [OF x])
  have new: "fixed sc (b + c) (val new) \<and> near_below (val new) (bal E tv val s acc asset + val x)"
  proof (cases "bt_get m asset")
    case None
    then show ?thesis
      using x fixed_mono [OF x, of "b + c"] d(5) m(1) by (simp add: new_def bal_def near_below_def dust_def)
  next
    case (Some y)
    have sum: "fixed sc (b + c) (val y + val x)"
      by (rule fixed_add [OF m(2) [OF Some] x])
    then have "val (d_sat_add (we_dec E) y x) = val y + val x"
      using fixed_representable [OF sum d(4) bc] decimal_lawsD(4) [OF d(3)] by simp
    with sum round_fixed [OF d(3), of sc "b + c" "d_sat_add (we_dec E) y x"] show ?thesis
      using Some m(1) by (simp add: new_def bal_def)
  qed
  let ?s' = "os_insert (account_key (we_codec E) acc) (enc_balances (we_codec E) (bt_insert asset new m)) s1"
  have wf: "bt_wf (bt_insert asset new m)"
    using balances_of_wf [OF d(2) m(1)] by auto
  have fx: "fixed sc (b + c) (val z)" if "bt_get (bt_insert asset new m) a = Some z" for a z
    using that new m(2) [of a z] fixed_mono [of sc b "val z" "b + c"] c
    by (auto simp: bt_get_insert split: if_splits)
  have "b \<le> b + c" using c by simp
  note upd = books_update [OF books this s1 wf fx, simplified]
  have "add_balance E s acc asset x = Inr ?s'"
    by (simp add: add_balance_def s1 decode_balances_of m(1) bt_entry_def new_def)
  then show ?thesis
    using upd(1) new bal_update [OF upd(2) m(1), where val = val] by auto
qed

lemma sub_balance_core:
  assumes books: "books E tv ok val sc b s" and x: "fixed sc c (val x)" and b: "b \<le> 2 ^ 96"
    and sub: "sub_balance E s acc asset x w = Inr (y, s')"
  shows "books E tv ok val sc b s' \<and> others_kept (bal E tv val s) acc asset (bal E tv val s') \<and>
    near_below (bal E tv val s' acc asset) (bal E tv val s acc asset - val y) \<and>
    (if val x \<le> bal E tv val s acc asset then y = x else w \<and> val y = bal E tv val s acc asset)"
proof -
  note d = booksD [OF books]
  obtain s1 where s1: "os_get (we_trie E) s (account_key (we_codec E) acc) =
      Inr (os_view tv s (account_key (we_codec E) acc), s1)"
    using os.get_total [OF d(1)] by blast
  obtain m where m: "balances_of (we_codec E) (os_view tv s) acc = Some m"
      "\<And>asset x. bt_get m asset = Some x \<Longrightarrow> fixed sc b (val x)"
    using d(6) by blast
  from sub obtain z where z: "bt_get m asset = Some z"
    and y: "if d_lt (we_dec E) z x then w \<and> y = z else y = x"
    and s': "s' = os_insert (account_key (we_codec E) acc) (enc_balances (we_codec E)
      (bt_insert asset (rounding_off (we_dec E) (d_sat_sub (we_dec E) z y)) m)) s1"
    by (auto simp: sub_balance_def s1 decode_balances_of m(1) res_simps Let_def split: if_splits)
  have bz: "bal E tv val s acc asset = val z"
    using m(1) z by (simp add: bal_def)
  have yz: "val y \<le> val z" "\<exists>c. fixed sc c (val y)"
    using y x m(2) [OF z] d_cmp_laws(2) [OF d(3)] by (auto split: if_splits)
  then obtain c' where yc: "fixed sc c' (val y)" by blast
  let ?new = "rounding_off (we_dec E) (d_sat_sub (we_dec E) z y)"
  have diff: "fixed sc b (val z - val y)"
    using fixed_diff [OF m(2) [OF z] yc yz(1)] .
  then have "val (d_sat_sub (we_dec E) z y) = val z - val y"
    using fixed_representable [OF diff d(4) b] decimal_lawsD(5) [OF d(3)] by simp
  with diff have new: "fixed sc b (val ?new)" "near_below (val ?new) (val z - val y)"
    using round_fixed [OF d(3), of sc b "d_sat_sub (we_dec E) z y"] by simp_all
  have wf: "bt_wf (bt_insert asset ?new m)"
    using balances_of_wf [OF d(2) m(1)] by auto
  have fx: "fixed sc b (val q)" if "bt_get (bt_insert asset ?new m) a = Some q" for a q
    using that new m(2) [of a q] by (auto simp: bt_get_insert split: if_splits)
  note upd = books_update [OF books order_refl s1 wf fx, folded s', simplified]
  have "val x \<le> bal E tv val s acc asset \<longleftrightarrow> \<not> d_lt (we_dec E) z x"
    using d_cmp_laws(2) [OF d(3)] bz by auto
  then show ?thesis
    using upd(1) new bz y bal_update [OF upd(2) m(1), where val = val] by auto
qed

interpretation books: ledger "bal E tv val" "books E tv ok val sc" "\<lambda>b x. fixed sc b (val x)" val
  "add_balance E" "sub_balance E"
  for E :: "('d, 't) worker_env" and tv ok val sc
proof unfold_locales
  fix b c s x acc asset w y s'
  assume run: "books E tv ok val sc b s" "fixed sc c (val x)" "b \<le> 2 ^ 96" "sub_balance E s acc asset x w = Inr (y, s')"
  show "books E tv ok val sc b s' \<and> others_kept (bal E tv val s) acc asset (bal E tv val s') \<and>
      near_below (bal E tv val s' acc asset) (bal E tv val s acc asset - val y) \<and> (\<not> w \<longrightarrow> y = x)"
    using sub_balance_core [OF run] by (auto split: if_splits)
qed (auto simp: add_balance_spec fixed_bound_pos)

subsection \<open>Settlement of a trade\<close>

definition sold_value :: "('d \<Rightarrow> rat) \<Rightarrow> 'd Trade \<Rightarrow> OrderSide \<Rightarrow> rat" where
  "sold_value val t side =
    (case side of Ask \<Rightarrow> val (t_amount t) | Bid \<Rightarrow> val (t_price t) * val (t_amount t))"

definition side_asset :: "'d TradingPairConfig \<Rightarrow> OrderSide \<Rightarrow> AssetId" where
  "side_asset config side = (case side of Ask \<Rightarrow> base_asset config | Bid \<Rightarrow> quote_asset config)"

text \<open>What one side of a trade adds to the total of an asset: the other side's goods come in, its own go out.\<close>

definition side_delta :: "('d \<Rightarrow> rat) \<Rightarrow> 'd TradingPairConfig \<Rightarrow> 'd Trade \<Rightarrow> OrderSide \<Rightarrow> AssetId \<Rightarrow> rat" where
  "side_delta val config t side a =
    (if a = side_asset config (get_opposite side) then sold_value val t (get_opposite side)
     else if a = side_asset config side then - sold_value val t side else 0)"

lemma side_delta_opposite:
  "base_asset config \<noteq> quote_asset config \<Longrightarrow>
    side_delta val config t side a + side_delta val config t (get_opposite side) a = 0"
  by (cases side) (auto simp: side_delta_def side_asset_def)

lemma credit_debit_spec:
  assumes D: "decimal_laws D val" and pair: "o_pair (trade_user t maker) = TradingPair (base_asset config) (quote_asset config)"
    and rep: "representable (val (t_price t) * val (t_amount t))"
  shows "\<exists>x y. credit D t maker = Some ((o_main_account (trade_user t maker),
        side_asset config (get_opposite (o_side (trade_user t maker)))), x) \<and>
      val x = sold_value val t (get_opposite (o_side (trade_user t maker))) \<and>
      debit D t maker = Some ((o_main_account (trade_user t maker),
        side_asset config (o_side (trade_user t maker))), y) \<and>
      val y = sold_value val t (o_side (trade_user t maker))"
proof -
  obtain c where "d_mul D (t_price t) (t_amount t) = Some c" "val c = val (t_price t) * val (t_amount t)"
    using decimal_lawsD(7) [OF D rep] by blast
  then show ?thesis
    by (cases "o_side (trade_user t maker)")
      (simp_all add: credit_def debit_def Let_def pair side_asset_def sold_value_def)
qed

lemma settle_side_effect:
  assumes books: "books E tv ok val sc b s" and b: "b + 2 * c \<le> 2 ^ 96"
    and pair: "o_pair (trade_user t maker) = TradingPair (base_asset config) (quote_asset config)"
    and neq: "base_asset config \<noteq> quote_asset config"
    and side: "side = o_side (trade_user t maker)"
    and amounts: "fixed sc c (sold_value val t Ask)" "fixed sc c (sold_value val t Bid)"
    and fee: "fixed sc c (sold_value val t (get_opposite side) * val fr)"
      "sold_value val t (get_opposite side) * val fr \<le> sold_value val t (get_opposite side)"
    and A: "finite A" "{o_main_account (trade_user t maker), we_pot_account E} \<subseteq> A"
    and run: "settle_side E t maker fr s = Inr s'"
  shows "books E tv ok val sc (b + 2 * c) s'"
    and "total_over (bal E tv val s') A a \<le> total_over (bal E tv val s) A a + side_delta val config t side a \<and>
      total_over (bal E tv val s) A a + side_delta val config t side a - 2 * dust
        < total_over (bal E tv val s') A a"
proof -
  note d = booksD [OF books]
  have sold: "fixed sc c (sold_value val t sd)" for sd
    using amounts by (cases sd) auto
  have rep: "representable q" if "fixed sc c q" for q
    using fixed_representable [OF that d(4)] b d(5) fixed_bound_pos [OF that] by simp
  obtain x y where xy: "credit (we_dec E) t maker = Some ((o_main_account (trade_user t maker),
        side_asset config (get_opposite side)), x)"
      "val x = sold_value val t (get_opposite side)"
      "debit (we_dec E) t maker = Some ((o_main_account (trade_user t maker), side_asset config side), y)"
      "val y = sold_value val t side"
    using credit_debit_spec [OF d(3) pair] rep [OF amounts(2)] side by (auto simp: sold_value_def)
  let ?fees = "d_sat_mul (we_dec E) x fr"
  let ?net = "d_sat_sub (we_dec E) x ?fees"
  have fees: "val ?fees = val x * val fr"
    using decimal_lawsD(6) [OF d(3)] rep [OF fee(1)] xy(2) by simp
  have net: "fixed sc c (val x - val ?fees)"
    using fixed_diff [OF sold fee] by (simp add: fees xy(2))
  then have net_val: "val ?net = val x - val ?fees"
    using decimal_lawsD(5) [OF d(3)] rep by simp
  obtain s1 s2 where steps:
      "add_balance E s (o_main_account (trade_user t maker)) (side_asset config (get_opposite side)) ?net = Inr s1"
      "add_balance E s1 (we_pot_account E) (side_asset config (get_opposite side)) ?fees = Inr s2"
      "\<exists>z. sub_balance E s2 (o_main_account (trade_user t maker)) (side_asset config side) y False = Inr (z, s')"
    using run by (auto simp: settle_side_def xy(1,3) Let_def res_simps)
  then obtain z where sub: "sub_balance E s2 (o_main_account (trade_user t maker))
      (side_asset config side) y False = Inr (z, s')" by blast
  have assets: "side_asset config (get_opposite side) \<noteq> side_asset config side"
    using neq by (cases side) (auto simp: side_asset_def)
  have lv: "fixed sc c (val ?net)" "fixed sc c (val ?fees)" "fixed sc c (val y)"
    using net net_val fee(1) fees xy sold by auto
  note tot = books.settle_total [OF books lv b A(1) _ assets steps(1,2) sub]
  show "books E tv ok val sc (b + 2 * c) s'"
    using tot(1) A(2) by simp
  show "total_over (bal E tv val s') A a \<le> total_over (bal E tv val s) A a + side_delta val config t side a \<and>
      total_over (bal E tv val s) A a + side_delta val config t side a - 2 * dust
        < total_over (bal E tv val s') A a"
    using tot(2-6) A(2) net_val xy by (auto simp: side_delta_def dust_def)
qed

text \<open>The size conditions under which the arithmetic of a settlement is exact.\<close>

definition trade_in_range :: "('d \<Rightarrow> rat) \<Rightarrow> nat \<Rightarrow> int \<Rightarrow> 'd Trade \<Rightarrow> 'd \<Rightarrow> 'd \<Rightarrow> bool" where
  "trade_in_range val sc b t maker_frac taker_frac \<longleftrightarrow>
    fixed sc b (sold_value val t Ask) \<and> fixed sc b (sold_value val t Bid) \<and>
    (\<forall>side. fixed sc b (sold_value val t side * val maker_frac) \<and>
            fixed sc b (sold_value val t side * val taker_frac)) \<and>
    val maker_frac \<le> 1 \<and> val taker_frac \<le> 1"

lemma process_trade_effect:
  assumes books: "books E tv ok val sc b s" and b: "b + 4 * c \<le> 2 ^ 96"
    and neq: "base_asset config \<noteq> quote_asset config"
    and range: "trade_in_range val sc c t (maker_fraction mf) (taker_fraction tf)"
    and A: "finite A" "{o_main_account (t_maker t), o_main_account (t_taker t), we_pot_account E} \<subseteq> A"
    and run: "process_trade E s t config mf tf = Inr s'"
  shows "books E tv ok val sc (b + 4 * c) s'"
    and "total_over (bal E tv val s') A a \<le> total_over (bal E tv val s) A a
      + side_delta val config t (o_side (t_maker t)) a + side_delta val config t (o_side (t_taker t)) a"
    and "total_over (bal E tv val s) A a
      + side_delta val config t (o_side (t_maker t)) a + side_delta val config t (o_side (t_taker t)) a
      - 4 * dust < total_over (bal E tv val s') A a"
proof -
  obtain s1 where v: "trade_verify (we_dec E) (we_crypto E) t config = Some True"
    and s1: "settle_side E t True (maker_fraction mf) s = Inr s1"
    and s2: "settle_side E t False (taker_fraction tf) s1 = Inr s'"
    using run by (auto simp: process_trade_def res_simps)
  have user: "trade_user t True = t_maker t" "trade_user t False = t_taker t"
    by (simp_all add: trade_user_def)
  have le: "sold_value val t sd * val f \<le> sold_value val t sd" if "val f \<le> 1" for sd f
    using that range fixed_nonneg [of sc c]
    by (cases sd) (auto simp: trade_in_range_def intro!: mult_left_le)
  have "0 < c" using range fixed_bound_pos [of sc c] by (auto simp: trade_in_range_def)
  then have b1: "b + 2 * c \<le> 2 ^ 96" and b2: "b + 2 * c + 2 * c \<le> 2 ^ 96" using b by simp_all
  note m = settle_side_effect(1) [OF books b1 _ neq refl _ _ _ _ A(1) _ s1]
    settle_side_effect(2) [OF books b1 _ neq refl _ _ _ _ A(1) _ s1, where a = a]
  have m': "books E tv ok val sc (b + 2 * c) s1"
      "total_over (bal E tv val s1) A a \<le> total_over (bal E tv val s) A a + side_delta val config t (o_side (t_maker t)) a"
      "total_over (bal E tv val s) A a + side_delta val config t (o_side (t_maker t)) a - 2 * dust
        < total_over (bal E tv val s1) A a"
    using m range A(2) le trade_verify_market [OF v] by (auto simp: user trade_in_range_def)
  note t = settle_side_effect(1) [OF m'(1) b2 _ neq refl _ _ _ _ A(1) _ s2]
    settle_side_effect(2) [OF m'(1) b2 _ neq refl _ _ _ _ A(1) _ s2, where a = a]
  have t': "books E tv ok val sc (b + 4 * c) s'"
      "total_over (bal E tv val s') A a \<le> total_over (bal E tv val s1) A a + side_delta val config t (o_side (t_taker t)) a"
      "total_over (bal E tv val s1) A a + side_delta val config t (o_side (t_taker t)) a - 2 * dust
        < total_over (bal E tv val s') A a"
    using t range A(2) le trade_verify_market [OF v] by (auto simp: user trade_in_range_def algebra_simps)
  show "books E tv ok val sc (b + 4 * c) s'" by (rule t')
  show "total_over (bal E tv val s') A a \<le> total_over (bal E tv val s) A a
      + side_delta val config t (o_side (t_maker t)) a + side_delta val config t (o_side (t_taker t)) a"
    and "total_over (bal E tv val s) A a
      + side_delta val config t (o_side (t_maker t)) a + side_delta val config t (o_side (t_taker t)) a
      - 4 * dust < total_over (bal E tv val s') A a"
    using m' t' by linarith+
qed

subsection \<open>A concrete environment\<close>

definition sample_crypto :: "rat crypto" where
  "sample_crypto = \<lparr> sig_verify = (\<lambda>sig msg acc. sig = [1]), ecdsa_recover = (\<lambda>sig h. Some sig),
    authority_verify = (\<lambda>pk sig msg. sig = msg), blake2_256 = (\<lambda>b. of_nat (length b)),
    d_to_string = (\<lambda>_. ''''), parse_f64 = (\<lambda>_. None), d_from_f64 = (\<lambda>_. None), d_round_dp = (\<lambda>_ x. x),
    h256_bytes = (\<lambda>h. [ucast h]), enc_order_payload = (\<lambda>_. []), json_order_payload = (\<lambda>_. None) \<rparr>"

definition sample_env :: "(rat, (bytes, bytes) btree) worker_env" where
  "sample_env = \<lparr> we_dec = rat_decimal, we_crypto = sample_crypto, we_codec = sample_codec,
    we_trie = list_trie, we_pot_account = 9 \<rparr>"

definition sample_config :: "rat TradingPairConfig" where
  "sample_config = \<lparr> base_asset = Polkadex, quote_asset = Asset 5, price_tick_size = 1, min_volume = 1, max_volume = 100,
    qty_step_size = 1, operational_status = True, base_asset_precision = 0, quote_asset_precision = 0 \<rparr>"

definition sample_fees :: "rat FeeConfig" where
  "sample_fees = \<lparr> maker_fraction = 1/4, taker_fraction = 1/2 \<rparr>"

definition maker_order :: "rat Order" where
  "maker_order = sample_order \<lparr> o_side := Ask, o_main_account := 2, o_price := 3, o_qty := 4, o_signature := [1] \<rparr>"

definition taker_order :: "rat Order" where
  "taker_order = sample_order \<lparr> o_side := Bid, o_main_account := 3, o_price := 3, o_qty := 4, o_signature := [1] \<rparr>"

definition sample_trade :: "rat Trade" where
  "sample_trade = \<lparr> t_maker = maker_order, t_taker = taker_order, t_price = 3, t_amount = 4, t_time = 0 \<rparr>"

definition sample_books :: "(bytes, bytes) btree OffchainState" where
  "sample_books = \<lparr> os_cache = [], os_trie = [(put_nats [2], enc_balances sample_codec [(Polkadex, 10)]),
    (put_nats [3], enc_balances sample_codec [(Asset 5, 20)])], os_keys_to_remove = [] \<rparr>"

lemma fixed_int: "0 \<le> m \<Longrightarrow> m * 100 < b \<Longrightarrow> fixed 2 b (of_int m)"
  unfolding fixed_def by (intro exI [of _ "m * 100"]) simp

lemma sample_books_balances:
  "balances_of sample_codec (os_view bt_get sample_books) acc =
    Some (if acc = 2 then [(Polkadex, 10)] else if acc = 3 then [(Asset 5, 20)] else [])"
proof -
  have key: "account_key sample_codec acc = put_nats [unat acc]"
    by (simp add: sample_codec_def)
  have un: "unat acc = 2 \<longleftrightarrow> acc = 2" "unat acc = 3 \<longleftrightarrow> acc = 3"
    by (simp_all add: word_unat_eq_iff)
  have dec: "dec_balances sample_codec (enc_balances sample_codec [(a, x)]) = Some [(a, x)]" for a x
    by (rule codec_lawsD(1) [OF sample_codec_laws]) (simp add: bt_wf_def)
  show ?thesis
    by (auto simp: balances_of_def os_view_def sample_books_def key bt_get_def put_nats_inj un dec)
qed

lemma sample_books_ok: "books sample_env bt_get bt_wf (\<lambda>q. q) 2 (2 ^ 90) sample_books"
proof -
  have "bt_wf (os_trie sample_books)"
    by (simp add: sample_books_def bt_wf_def put_nats.simps eval_nat_numeral)
  then have "os_inv list_trie bt_get bt_wf sample_books"
    by (simp add: os_inv_def list_trie_laws sample_books_def bt_wf_def)
  then show ?thesis
    using fixed_int [of 10 "2 ^ 90"] fixed_int [of 20 "2 ^ 90"]
    by (auto simp: books_def sample_codec_laws rat_decimal_laws sample_env_def
        sample_books_balances bt_get_def split: if_splits)
qed

subsection \<open>Properties\<close>

text \<open>C24: a subtraction never overdraws. Whatever \<^verbatim>\<open>sub_balance\<close> reports as deducted is at most
  the balance and at most the request (exactly the request unless it is a withdrawal), the
  balance falls by it up to the truncation to nine places, in no case below zero, and no other
  balance changes.\<close>

theorem sub_balance_no_overdraft:
  assumes "books E tv ok val sc b s" and "fixed sc c (val x)" and "b \<le> 2 ^ 96"
    and "sub_balance E s acc asset x w = Inr (y, s')"
  shows "val y \<le> bal E tv val s acc asset \<and> val y \<le> val x \<and> (\<not> w \<longrightarrow> y = x) \<and>
    0 \<le> bal E tv val s' acc asset \<and>
    near_below (bal E tv val s' acc asset) (bal E tv val s acc asset - val y) \<and>
    others_kept (bal E tv val s) acc asset (bal E tv val s')"
proof -
  have core: "books E tv ok val sc b s' \<and> others_kept (bal E tv val s) acc asset (bal E tv val s') \<and>
      near_below (bal E tv val s' acc asset) (bal E tv val s acc asset - val y) \<and>
      (if val x \<le> bal E tv val s acc asset then y = x else w \<and> val y = bal E tv val s acc asset)"
    by (rule sub_balance_core [OF assms])
  have "0 \<le> bal E tv val s' acc asset"
    using booksD(6) [of E tv ok val sc b s' acc] core fixed_nonneg
    by (fastforce simp: bal_def split: option.splits)
  with core show ?thesis
    by (auto split: if_splits)
qed

theorem sub_balance_no_overdraft_witness:
  "\<exists>y s'. sub_balance sample_env sample_books 2 Polkadex 25 True = Inr (y, s') \<and> y \<le> 10"
proof -
  have "is_ok (sub_balance sample_env sample_books 2 Polkadex 25 True)"
    by code_simp
  then obtain y s' where run: "sub_balance sample_env sample_books 2 Polkadex 25 True = Inr (y, s')"
    by (auto simp: is_ok_iff)
  have "bal sample_env bt_get (\<lambda>q. q) sample_books 2 Polkadex = 10"
    by (simp add: bal_def sample_env_def sample_books_balances bt_get_def)
  with sub_balance_no_overdraft [OF sample_books_ok _ _ run] fixed_int [of 25 "2 ^ 90"] run show ?thesis
    by auto
qed

text \<open>C27: settling a trade between opposite sides conserves every asset. Over any set of accounts
  that contains the two parties and the fee pot, the total of an asset never grows, and it
  shrinks by less than four units of the ninth decimal place (the truncation of the balances),
  as long as the amounts fit the decimal type.\<close>

theorem process_trade_conserves:
  assumes "books E tv ok val sc b s" and "b + 4 * c \<le> 2 ^ 96"
    and "base_asset config \<noteq> quote_asset config"
    and "trade_in_range val sc c t (maker_fraction mf) (taker_fraction tf)"
    and "o_side (t_taker t) = get_opposite (o_side (t_maker t))"
    and "finite A" and "{o_main_account (t_maker t), o_main_account (t_taker t), we_pot_account E} \<subseteq> A"
    and "process_trade E s t config mf tf = Inr s'"
  shows "total_over (bal E tv val s') A a \<le> total_over (bal E tv val s) A a \<and>
    total_over (bal E tv val s) A a - 4 * dust < total_over (bal E tv val s') A a"
  using process_trade_effect(2,3) [OF assms(1-4,6-8), of a] side_delta_opposite [OF assms(3), of val t "o_side (t_maker t)" a]
    assms(5) by auto


lemma sample_trade_range:
  "trade_in_range (\<lambda>q. q) 2 (2 ^ 90) \<lparr> t_maker = m, t_taker = t, t_price = 3, t_amount = 4, t_time = 0 \<rparr>
    (maker_fraction sample_fees) (taker_fraction sample_fees)"
  using fixed_int [of 4 "2 ^ 90"] fixed_int [of 12 "2 ^ 90"] fixed_int [of 1 "2 ^ 90"] fixed_int [of 2 "2 ^ 90"]
    fixed_int [of 3 "2 ^ 90"] fixed_int [of 6 "2 ^ 90"]
  by (auto simp: trade_in_range_def sold_value_def sample_fees_def split: OrderSide.splits)

theorem process_trade_conserves_witness:
  "\<exists>s'. process_trade sample_env sample_books sample_trade sample_config sample_fees sample_fees = Inr s' \<and>
    total_over (bal sample_env bt_get (\<lambda>q. q) s') {2, 3, 9} (Asset 5)
      \<le> total_over (bal sample_env bt_get (\<lambda>q. q) sample_books) {2, 3, 9} (Asset 5)"
proof -
  have "is_ok (process_trade sample_env sample_books sample_trade sample_config sample_fees sample_fees)"
    by code_simp
  then obtain s' where run: "process_trade sample_env sample_books sample_trade sample_config
      sample_fees sample_fees = Inr s'"
    by (auto simp: is_ok_iff)
  show ?thesis
    using process_trade_conserves [OF sample_books_ok _ _ _ _ _ _ run, of "2 ^ 90" "{2, 3, 9}" "Asset 5"] run
      sample_trade_range
    by (simp add: sample_config_def sample_trade_def maker_order_def taker_order_def sample_order_def
        sample_env_def)
qed


end
