(* ===== verification/Ocex_Types.thy ===== *)
theory Ocex_Types
  imports Settlement
begin

text \<open>
  The data of the orderbook pallet \<^verbatim>\<open>pallets/ocex/src/lib.rs\<close>: its errors and events, its
  configuration (other pallets and constants as parameters) and its storage items.
\<close>

subsection \<open>Errors and events\<close>

text \<open>The variants of the pallet's \<^verbatim>\<open>Error\<close> that its code returns; the others are never constructed.\<close>

datatype ocex_error =
    FailedToConvertDecimaltoBalance
  | AccountNotRegistered
  | InvalidWithdrawalIndex
  | TradingPairIsNotClosed
  | MainAccountAlreadyRegistered
  | ProxyAlreadyRegistered
  | MainAccountNotFound
  | ProxyLimitExceeded
  | TradingPairAlreadyRegistered
  | BothAssetsCannotBeSame
  | TradingPairNotFound
  | AmountOverflow
  | ProxyNotFound
  | MinimumOneProxyRequired
  | TradingPairNotRegistered
  | TradingPairConfigCannotBeZero
  | AllowlistedTokenLimitReached
  | TokenNotAllowlisted
  | TradingPairConfigUnderflow
  | ExchangeNotOperational
  | AccountIdCannotBeDecoded
  | InvalidMarketWeightage
  | LMPConfigNotFound
  | RewardsNotReady
  | InvalidLMPConfig
  | RewardAlreadyClaimed
  | BaseNotAllowlisted
  | QuoteNotAllowlisted
  | MinVolGreaterThanMaxVolume
  | FeeDistributionConfigNotFound
  | AuctionNotFound
  | WithdrawalFeeBurnFailed
  | TradingFeesBurnFailed
  | IngressQueueFull
  | DepositAmountTooLow
  | TooManyEgressMessages
  | InvalidEgressPoolId

text \<open>
  \<^verbatim>\<open>DispatchError\<close>: an error of this pallet, an error of another pallet (by number), a static
  message, or a panic, which aborts the block.
\<close>

datatype dispatch_error =
    Err ocex_error
  | BadOrigin
  | Corruption
  | Other string
  | External nat
  | Panicked

datatype 'd ocex_event =
    SnapshotProcessed u64
  | MainAccountRegistered account account
  | TradingPairRegistered AssetId AssetId
  | TradingPairUpdated AssetId AssetId
  | DepositSuccessful H160 account AssetId u128
  | ShutdownTradingPair "'d TradingPairConfig"
  | EvOpenTradingPair "'d TradingPairConfig"
  | WithdrawalClaimed u64 account "'d Withdrawal list"
  | NewProxyAdded account account
  | ProxyRemoved account account
  | TokenAllowlisted AssetId
  | AllowlistedTokenRemoved AssetId
  | WithdrawalReady u64 "'d Withdrawal"
  | ExchangeStateUpdated bool
  | WithdrawFromOrderbook account AssetId u128
  | OrderbookOperatorKeyWhitelisted bytes
  | FailedToConsumeAuction
  | FailedToCreateAuction
  | TradingFeesBurned AssetId u128
  | AuctionClosed account u128 u128
  | LMPScoresUpdated u16
  | LMPRewardClaimed u16 TradingPair account u128

datatype 'd OnChainEvent =
    OrderBookWithdrawalClaimed u64 account "'d Withdrawal list"
  | OrderbookWithdrawalProcessed u64 "'d Withdrawal list"

subsection \<open>Configuration\<close>

datatype origin = Root | Signed account | Unsigned | OtherOrigin nat

datatype preservation = Expendable | Protect | Preserve
datatype fortitude = Polite | Force

text \<open>
  The balances and assets pallets, over the opaque state \<open>'w\<close> of the rest of the chain.
  \<open>native_burn_settle\<close> is \<^verbatim>\<open>burn\<close> followed by \<^verbatim>\<open>settle\<close> against an account with
  \<^verbatim>\<open>KeepAlive\<close>; \<open>None\<close> is the \<^verbatim>\<open>Err\<close> of \<^verbatim>\<open>settle\<close>.
\<close>

record 'w currency =
  native_transfer :: "'w \<Rightarrow> account \<Rightarrow> account \<Rightarrow> u128 \<Rightarrow> preservation \<Rightarrow> nat + 'w"
  native_burn_settle :: "'w \<Rightarrow> account \<Rightarrow> u128 \<Rightarrow> 'w option"
  native_reducible :: "'w \<Rightarrow> account \<Rightarrow> u128"
  native_free :: "'w \<Rightarrow> account \<Rightarrow> u128"
  native_unreserve :: "'w \<Rightarrow> account \<Rightarrow> u128 \<Rightarrow> 'w"
  asset_transfer :: "'w \<Rightarrow> u128 \<Rightarrow> account \<Rightarrow> account \<Rightarrow> u128 \<Rightarrow> preservation \<Rightarrow> nat + 'w"
  asset_reducible :: "'w \<Rightarrow> u128 \<Rightarrow> account \<Rightarrow> preservation \<Rightarrow> fortitude \<Rightarrow> u128"
  asset_minimum :: "'w \<Rightarrow> u128 \<Rightarrow> u128"

text \<open>The trait \<^verbatim>\<open>LiquidityMiningCrowdSourcePallet\<close> that the pallet calls back.\<close>

record ('d, 'w) crowd_source =
  cs_new_epoch :: "u16 \<Rightarrow> 'w \<Rightarrow> 'w"
  cs_add_liquidity_success ::
    "TradingPair \<Rightarrow> account \<Rightarrow> account \<Rightarrow> 'd \<Rightarrow> 'd \<Rightarrow> 'd \<Rightarrow> 'w \<Rightarrow> dispatch_error + 'w"
  cs_remove_liquidity_success ::
    "TradingPair \<Rightarrow> account \<Rightarrow> account \<Rightarrow> 'd \<Rightarrow> 'd \<Rightarrow> 'w \<Rightarrow> dispatch_error + 'w"
  cs_remove_liquidity_failed ::
    "TradingPair \<Rightarrow> account \<Rightarrow> account \<Rightarrow> 'd \<Rightarrow> 'd \<Rightarrow> 'd \<Rightarrow> 'd \<Rightarrow> 'd \<Rightarrow> 'd \<Rightarrow> 'w \<Rightarrow> dispatch_error + 'w"
  cs_pool_force_close_success :: "TradingPair \<Rightarrow> account \<Rightarrow> 'd \<Rightarrow> 'd \<Rightarrow> 'w \<Rightarrow> dispatch_error + 'w"
  cs_stop_accepting_lmp_withdrawals :: "u16 \<Rightarrow> 'w \<Rightarrow> 'w"
  cs_is_valid_pool_id :: "account \<Rightarrow> 'w \<Rightarrow> bool"

text \<open>The instance \<^verbatim>\<open>()\<close> of the trait, used when liquidity mining is disabled.\<close>

definition crowd_source_unit :: "('d, 'w) crowd_source" where
  "crowd_source_unit =
    \<lparr> cs_new_epoch = (\<lambda>_ w. w),
      cs_add_liquidity_success = (\<lambda>_ _ _ _ _ _ w. Inr w),
      cs_remove_liquidity_success = (\<lambda>_ _ _ _ _ w. Inr w),
      cs_remove_liquidity_failed = (\<lambda>_ _ _ _ _ _ _ _ _ w. Inr w),
      cs_pool_force_close_success = (\<lambda>_ _ _ _ w. Inr w),
      cs_stop_accepting_lmp_withdrawals = (\<lambda>_ w. w),
      cs_is_valid_pool_id = (\<lambda>_ _. False) \<rparr>"

type_synonym 'w cross_chain =
  "account \<Rightarrow> AssetId \<Rightarrow> u128 \<Rightarrow> MultiLocation \<Rightarrow> AssetId option \<Rightarrow> u128 option \<Rightarrow> H160 \<Rightarrow> 'w \<Rightarrow>
    dispatch_error + 'w"

text \<open>The instance \<^verbatim>\<open>()\<close> of \<^verbatim>\<open>CrossChainWithdraw\<close>.\<close>

definition cross_chain_unit :: "'w cross_chain" where
  "cross_chain_unit = (\<lambda>_ _ _ _ _ _ _ w. Inr w)"

record ('d, 'w) config =
  c_dec :: "'d decimal_ops"
  c_crypto :: "'d crypto"
  c_codec :: "'d codec"
  c_currency :: "'w currency"
  c_crowd_source :: "('d, 'w) crowd_source"
  c_cross_chain :: "'w cross_chain"
  c_pallet_account :: account
  c_pot_account :: account
  c_rewards_account :: account
  c_withdrawal_limit :: u32
  c_ingress_limit :: u32
  c_minimum_deposit :: u128
  c_max_egress :: u32
  c_governance :: "origin \<Rightarrow> bool"
  c_percent :: "u8 \<Rightarrow> nat \<Rightarrow> nat"
  c_blake2_128 :: "u32 \<Rightarrow> 128 word"

text \<open>
  \<open>c_percent p n\<close> is \<^verbatim>\<open>Percent::from_percent(p) * n\<close> and \<open>c_blake2_128 b\<close> the hash of the
  encoded block number. Constants of the pallet:
\<close>

definition DEPOSIT_MAX :: u128 where
  "DEPOSIT_MAX = 1000000000000000000000000000"

definition WITHDRAWAL_MAX :: u128 where
  "WITHDRAWAL_MAX = 1000000000000000000000000000"

definition TRADE_OPERATION_MIN_VALUE :: u128 where
  "TRADE_OPERATION_MIN_VALUE = 10000"

definition AllowlistedTokenLimit :: nat where
  "AllowlistedTokenLimit = 50"

subsection \<open>Storage\<close>

record ('d, 'w) ocex =
  st_allowlisted :: "AssetId list"
  st_accounts :: "account \<rightharpoonup> 'd AccountInfo"
  st_proxies :: "account \<rightharpoonup> account"
  st_trading_pairs :: "AssetId \<times> AssetId \<rightharpoonup> 'd TradingPairConfig"
  st_snapshots :: "u64 \<rightharpoonup> 'd SnapshotSummary"
  st_snapshot_nonce :: u64
  st_exchange_state :: bool
  st_withdrawals :: "u64 \<rightharpoonup> (account, 'd Withdrawal list) btree"
  st_ingress :: "u32 \<rightharpoonup> 'd IngressMessages list"
  st_onchain_events :: "'d OnChainEvent list"
  st_total_assets :: "AssetId \<rightharpoonup> 'd"
  st_authorities :: "u64 \<rightharpoonup> ValidatorSet"
  st_next_authorities :: ValidatorSet
  st_validator_set_id :: u64
  st_operator_key :: "bytes option"
  st_lmp_epoch :: u16
  st_trader_metrics :: "u16 \<times> TradingPair \<times> account \<rightharpoonup> 'd \<times> 'd \<times> bool"
  st_total_scores :: "u16 \<times> TradingPair \<rightharpoonup> 'd \<times> 'd"
  st_finalize_lmp :: "u16 option"
  st_lmp_config :: "u16 \<rightharpoonup> 'd LMPEpochConfig"
  st_expected_lmp_config :: "'d LMPEpochConfig option"
  st_lmp_claim_blk :: "u16 \<rightharpoonup> u32"
  st_price_oracle :: "(AssetId \<times> AssetId, 'd \<times> 'd) btree"
  st_fee_distribution :: "FeeDistribution option"
  st_auction_block :: "u32 option"
  st_auction :: "AuctionInfo option"
  st_now :: u32
  st_events :: "'d ocex_event list"
  st_world :: 'w

end
