(* ===== verification/Ocex_State.thy ===== *)
theory Ocex_State
  imports Ocex_Types
begin

text \<open>
  The operations that the dispatchables of the orderbook pallet share: events, origin checks,
  the bounded queue of ingress messages and asset transfers. A dispatchable returns the new
  state, or an error and no state, since its storage changes are rolled back on an error. The
  locale \<open>block_queue\<close> is the contract of the ingress queue; \<open>currency_laws\<close> states what the
  balances and assets pallets promise.
\<close>

subsection \<open>Events\<close>

definition deposit_event :: "'d ocex_event \<Rightarrow> ('d, 'w) ocex \<Rightarrow> ('d, 'w) ocex" where
  "deposit_event e s = s \<lparr> st_events := st_events s @ [e] \<rparr>"

subsection \<open>Origins\<close>

fun ensure_signed :: "origin \<Rightarrow> dispatch_error + account" where
  "ensure_signed (Signed a) = Inr a"
| "ensure_signed _ = Inl BadOrigin"

definition ensure_governance :: "('d, 'w) config \<Rightarrow> origin \<Rightarrow> dispatch_error + 'a \<Rightarrow> dispatch_error + 'a" where
  "ensure_governance cfg orig k = ensure (c_governance cfg orig) BadOrigin k"

subsection \<open>The ingress queue\<close>

definition ingress_messages :: "('d, 'w) ocex \<Rightarrow> u32 \<Rightarrow> 'd IngressMessages list" where
  "ingress_messages s blk = (case st_ingress s blk of None \<Rightarrow> [] | Some q \<Rightarrow> q)"

text \<open>\<^verbatim>\<open>IngressMessages::try_mutate(current_blk, |m| m.try_push(msg))\<close>.\<close>

definition push_ingress :: "('d, 'w) config \<Rightarrow> 'd IngressMessages \<Rightarrow> ('d, 'w) ocex \<Rightarrow>
    dispatch_error + ('d, 'w) ocex" where
  "push_ingress cfg msg s =
    bind_res (ok_or (Err IngressQueueFull)
      (try_push (unat (c_ingress_limit cfg)) msg (ingress_messages s (st_now s)))) (\<lambda>q.
    Inr (s \<lparr> st_ingress := (st_ingress s)(st_now s \<mapsto> q) \<rparr>))"

subsection \<open>Transfers\<close>

definition transfer_asset :: "('d, 'w) config \<Rightarrow> account \<Rightarrow> account \<Rightarrow> u128 \<Rightarrow> AssetId \<Rightarrow>
    ('d, 'w) ocex \<Rightarrow> dispatch_error + ('d, 'w) ocex" where
  "transfer_asset cfg payer payee amount asset s =
    (case asset of
      Polkadex \<Rightarrow>
        bind_res (map_err External
          (native_transfer (c_currency cfg) (st_world s) payer payee amount Preserve)) (\<lambda>w.
        Inr (s \<lparr> st_world := w \<rparr>))
    | Asset i \<Rightarrow>
        bind_res (map_err External
          (asset_transfer (c_currency cfg) (st_world s) i payer payee amount Expendable)) (\<lambda>w.
        Inr (s \<lparr> st_world := w \<rparr>)))"

definition get_onchain_balance :: "('d, 'w) config \<Rightarrow> AssetId \<Rightarrow> ('d, 'w) ocex \<Rightarrow> 'd option" where
  "get_onchain_balance cfg asset s =
    d_from_units (c_dec cfg)
      (case asset of
        Polkadex \<Rightarrow> native_free (c_currency cfg) (st_world s) (c_pallet_account cfg)
      | Asset i \<Rightarrow> asset_reducible (c_currency cfg) (st_world s) i (c_pallet_account cfg) Expendable Force)"

definition get_system_accounts :: "('d, 'w) config \<Rightarrow> account list" where
  "get_system_accounts cfg = [c_pallet_account cfg, c_pot_account cfg]"

text \<open>
  \<^verbatim>\<open>new_random_id\<close>: four bytes of prefix and the sixteen bytes of the hash of the current block
  number.
\<close>

definition new_random_id :: "('d, 'w) config \<Rightarrow> u32 option \<Rightarrow> ('d, 'w) ocex \<Rightarrow> H160" where
  "new_random_id cfg prefix s =
    push_bit 128 (ucast (case prefix of None \<Rightarrow> 0 | Some p \<Rightarrow> p)) + ucast (c_blake2_128 cfg (st_now s))"

subsection \<open>The contract of the queue\<close>

lemma ingress_messages_update [simp]:
  "ingress_messages (s \<lparr> st_allowlisted := x0 \<rparr>) b = ingress_messages s b"
  "ingress_messages (s \<lparr> st_accounts := x1 \<rparr>) b = ingress_messages s b"
  "ingress_messages (s \<lparr> st_proxies := x2 \<rparr>) b = ingress_messages s b"
  "ingress_messages (s \<lparr> st_trading_pairs := x3 \<rparr>) b = ingress_messages s b"
  "ingress_messages (s \<lparr> st_snapshots := x4 \<rparr>) b = ingress_messages s b"
  "ingress_messages (s \<lparr> st_snapshot_nonce := x5 \<rparr>) b = ingress_messages s b"
  "ingress_messages (s \<lparr> st_exchange_state := x6 \<rparr>) b = ingress_messages s b"
  "ingress_messages (s \<lparr> st_withdrawals := x7 \<rparr>) b = ingress_messages s b"
  "ingress_messages (s \<lparr> st_onchain_events := x9 \<rparr>) b = ingress_messages s b"
  "ingress_messages (s \<lparr> st_total_assets := x10 \<rparr>) b = ingress_messages s b"
  "ingress_messages (s \<lparr> st_authorities := x11 \<rparr>) b = ingress_messages s b"
  "ingress_messages (s \<lparr> st_next_authorities := x12 \<rparr>) b = ingress_messages s b"
  "ingress_messages (s \<lparr> st_validator_set_id := x13 \<rparr>) b = ingress_messages s b"
  "ingress_messages (s \<lparr> st_operator_key := x14 \<rparr>) b = ingress_messages s b"
  "ingress_messages (s \<lparr> st_lmp_epoch := x15 \<rparr>) b = ingress_messages s b"
  "ingress_messages (s \<lparr> st_trader_metrics := x16 \<rparr>) b = ingress_messages s b"
  "ingress_messages (s \<lparr> st_total_scores := x17 \<rparr>) b = ingress_messages s b"
  "ingress_messages (s \<lparr> st_finalize_lmp := x18 \<rparr>) b = ingress_messages s b"
  "ingress_messages (s \<lparr> st_lmp_config := x19 \<rparr>) b = ingress_messages s b"
  "ingress_messages (s \<lparr> st_expected_lmp_config := x20 \<rparr>) b = ingress_messages s b"
  "ingress_messages (s \<lparr> st_lmp_claim_blk := x21 \<rparr>) b = ingress_messages s b"
  "ingress_messages (s \<lparr> st_price_oracle := x22 \<rparr>) b = ingress_messages s b"
  "ingress_messages (s \<lparr> st_fee_distribution := x23 \<rparr>) b = ingress_messages s b"
  "ingress_messages (s \<lparr> st_auction_block := x24 \<rparr>) b = ingress_messages s b"
  "ingress_messages (s \<lparr> st_auction := x25 \<rparr>) b = ingress_messages s b"
  "ingress_messages (s \<lparr> st_now := x26 \<rparr>) b = ingress_messages s b"
  "ingress_messages (s \<lparr> st_events := x27 \<rparr>) b = ingress_messages s b"
  "ingress_messages (s \<lparr> st_world := x28 \<rparr>) b = ingress_messages s b"
  by (simp_all add: ingress_messages_def)

lemma ingress_messages_put [simp]:
  "ingress_messages (s \<lparr> st_ingress := m \<rparr>) b = (case m b of None \<Rightarrow> [] | Some q \<Rightarrow> q)"
  by (simp add: ingress_messages_def)

locale block_queue =
  fixes push :: "'m \<Rightarrow> 's \<Rightarrow> 'e + 's"
    and msgs :: "'s \<Rightarrow> 'b \<Rightarrow> 'm list"
    and blk :: "'s \<Rightarrow> 'b"
    and lim :: nat
  assumes push_ok: "length (msgs s (blk s)) < lim \<Longrightarrow> \<exists>s'. push m s = Inr s'"
    and push_room: "push m s = Inr s' \<Longrightarrow> length (msgs s (blk s)) < lim"
    and push_msgs: "push m s = Inr s' \<Longrightarrow>
      msgs s' b = (if b = blk s then msgs s b @ [m] else msgs s b)"
    and push_blk: "push m s = Inr s' \<Longrightarrow> blk s' = blk s"
begin

lemma push_bounded:
  "push m s = Inr s' \<Longrightarrow> \<forall>b. length (msgs s b) \<le> lim \<Longrightarrow> \<forall>b. length (msgs s' b) \<le> lim"
  using push_room [of m s s'] by (auto simp: push_msgs)

lemma push_full: "length (msgs s (blk s)) \<ge> lim \<Longrightarrow> \<exists>e. push m s = Inl e"
  using push_room [of m s] by (cases "push m s") fastforce+

lemma push_two:
  "push m s = Inr s' \<Longrightarrow> push m' s' = Inr s'' \<Longrightarrow>
    msgs s'' (blk s) = msgs s (blk s) @ [m, m'] \<and> blk s'' = blk s"
  by (auto simp: push_msgs push_blk)

end

lemma push_ingress_Inr [res_simps]:
  "push_ingress cfg m s = Inr s' \<longleftrightarrow>
    length (ingress_messages s (st_now s)) < unat (c_ingress_limit cfg) \<and>
    s' = s \<lparr> st_ingress := (st_ingress s)(st_now s \<mapsto> ingress_messages s (st_now s) @ [m]) \<rparr>"
  by (auto simp: push_ingress_def res_simps)

interpretation ingress: block_queue "push_ingress cfg" ingress_messages st_now
  "unat (c_ingress_limit cfg)" for cfg :: "('d, 'w) config"
  by unfold_locales (auto simp: push_ingress_Inr ingress_messages_def)

definition queue_bounded :: "('d, 'w) config \<Rightarrow> ('d, 'w) ocex \<Rightarrow> bool" where
  "queue_bounded cfg s \<longleftrightarrow> (\<forall>b. length (ingress_messages s b) \<le> unat (c_ingress_limit cfg))"

lemma push_ingress_bounded:
  "push_ingress cfg m s = Inr s' \<Longrightarrow> queue_bounded cfg s \<Longrightarrow> queue_bounded cfg s'"
  unfolding queue_bounded_def by (rule ingress.push_bounded)

lemma queue_bounded_update [simp]:
  "queue_bounded cfg (s \<lparr> st_allowlisted := x0 \<rparr>) = queue_bounded cfg s"
  "queue_bounded cfg (s \<lparr> st_accounts := x1 \<rparr>) = queue_bounded cfg s"
  "queue_bounded cfg (s \<lparr> st_proxies := x2 \<rparr>) = queue_bounded cfg s"
  "queue_bounded cfg (s \<lparr> st_trading_pairs := x3 \<rparr>) = queue_bounded cfg s"
  "queue_bounded cfg (s \<lparr> st_snapshots := x4 \<rparr>) = queue_bounded cfg s"
  "queue_bounded cfg (s \<lparr> st_snapshot_nonce := x5 \<rparr>) = queue_bounded cfg s"
  "queue_bounded cfg (s \<lparr> st_exchange_state := x6 \<rparr>) = queue_bounded cfg s"
  "queue_bounded cfg (s \<lparr> st_withdrawals := x7 \<rparr>) = queue_bounded cfg s"
  "queue_bounded cfg (s \<lparr> st_onchain_events := x9 \<rparr>) = queue_bounded cfg s"
  "queue_bounded cfg (s \<lparr> st_total_assets := x10 \<rparr>) = queue_bounded cfg s"
  "queue_bounded cfg (s \<lparr> st_authorities := x11 \<rparr>) = queue_bounded cfg s"
  "queue_bounded cfg (s \<lparr> st_next_authorities := x12 \<rparr>) = queue_bounded cfg s"
  "queue_bounded cfg (s \<lparr> st_validator_set_id := x13 \<rparr>) = queue_bounded cfg s"
  "queue_bounded cfg (s \<lparr> st_operator_key := x14 \<rparr>) = queue_bounded cfg s"
  "queue_bounded cfg (s \<lparr> st_lmp_epoch := x15 \<rparr>) = queue_bounded cfg s"
  "queue_bounded cfg (s \<lparr> st_trader_metrics := x16 \<rparr>) = queue_bounded cfg s"
  "queue_bounded cfg (s \<lparr> st_total_scores := x17 \<rparr>) = queue_bounded cfg s"
  "queue_bounded cfg (s \<lparr> st_finalize_lmp := x18 \<rparr>) = queue_bounded cfg s"
  "queue_bounded cfg (s \<lparr> st_lmp_config := x19 \<rparr>) = queue_bounded cfg s"
  "queue_bounded cfg (s \<lparr> st_expected_lmp_config := x20 \<rparr>) = queue_bounded cfg s"
  "queue_bounded cfg (s \<lparr> st_lmp_claim_blk := x21 \<rparr>) = queue_bounded cfg s"
  "queue_bounded cfg (s \<lparr> st_price_oracle := x22 \<rparr>) = queue_bounded cfg s"
  "queue_bounded cfg (s \<lparr> st_fee_distribution := x23 \<rparr>) = queue_bounded cfg s"
  "queue_bounded cfg (s \<lparr> st_auction_block := x24 \<rparr>) = queue_bounded cfg s"
  "queue_bounded cfg (s \<lparr> st_auction := x25 \<rparr>) = queue_bounded cfg s"
  "queue_bounded cfg (s \<lparr> st_now := x26 \<rparr>) = queue_bounded cfg s"
  "queue_bounded cfg (s \<lparr> st_events := x27 \<rparr>) = queue_bounded cfg s"
  "queue_bounded cfg (s \<lparr> st_world := x28 \<rparr>) = queue_bounded cfg s"
  by (simp_all add: queue_bounded_def)

lemma queue_bounded_put [simp]:
  "queue_bounded cfg s0 \<Longrightarrow> length (ingress_messages s0 b) < unat (c_ingress_limit cfg) \<Longrightarrow>
    queue_bounded cfg (s \<lparr> st_ingress := (st_ingress s0)(b \<mapsto> ingress_messages s0 b @ [m]) \<rparr>)"
  by (simp add: queue_bounded_def ingress_messages_def [symmetric])

lemma transfer_asset_Inr [res_simps]:
  "transfer_asset cfg p q amt a s = Inr s' \<longleftrightarrow>
    (\<exists>w. s' = s \<lparr> st_world := w \<rparr> \<and>
      (case a of Polkadex \<Rightarrow> native_transfer (c_currency cfg) (st_world s) p q amt Preserve = Inr w
       | Asset i \<Rightarrow> asset_transfer (c_currency cfg) (st_world s) i p q amt Expendable = Inr w))"
  by (auto simp: transfer_asset_def res_simps split: AssetId.splits)

subsection \<open>What the currency pallets promise\<close>

text \<open>
  With respect to the balances \<open>wb\<close> of the rest of the chain: a successful transfer takes at
  least the amount from the payer and gives at least the amount to the payee without creating
  money (a dead account's dust may go with it or be lost), a transfer that keeps the payer
  alive is exact, a burn is exact, and nobody else's balance changes.
\<close>

definition moved :: "('w \<Rightarrow> AssetId \<Rightarrow> account \<Rightarrow> nat) \<Rightarrow> 'w \<Rightarrow> 'w \<Rightarrow> AssetId \<Rightarrow> account \<Rightarrow> account \<Rightarrow> nat \<Rightarrow> bool" where
  "moved wb w w' a p q amt \<longleftrightarrow>
    (p \<noteq> q \<longrightarrow> wb w' a p + amt \<le> wb w a p \<and> wb w a q + amt \<le> wb w' a q \<and>
      wb w' a p + wb w' a q \<le> wb w a p + wb w a q) \<and>
    (p = q \<longrightarrow> wb w' a p \<le> wb w a p) \<and>
    (\<forall>a' r. a' \<noteq> a \<or> r \<noteq> p \<and> r \<noteq> q \<longrightarrow> wb w' a' r = wb w a' r)"

definition moved_exact :: "('w \<Rightarrow> AssetId \<Rightarrow> account \<Rightarrow> nat) \<Rightarrow> 'w \<Rightarrow> 'w \<Rightarrow> AssetId \<Rightarrow> account \<Rightarrow> account \<Rightarrow> nat \<Rightarrow> bool" where
  "moved_exact wb w w' a p q amt \<longleftrightarrow>
    moved wb w w' a p q amt \<and>
    (p \<noteq> q \<longrightarrow> wb w' a p + amt = wb w a p \<and> wb w' a q = wb w a q + amt) \<and>
    (p = q \<longrightarrow> wb w' a p = wb w a p)"

definition currency_laws :: "'w currency \<Rightarrow> ('w \<Rightarrow> AssetId \<Rightarrow> account \<Rightarrow> nat) \<Rightarrow> bool" where
  "currency_laws C wb \<longleftrightarrow>
    (\<forall>w p q amt pr w'. native_transfer C w p q amt pr = Inr w' \<longrightarrow>
      moved wb w w' Polkadex p q (unat amt)) \<and>
    (\<forall>w p q amt w'. native_transfer C w p q amt Preserve = Inr w' \<longrightarrow>
      moved_exact wb w w' Polkadex p q (unat amt)) \<and>
    (\<forall>w i p q amt pr w'. asset_transfer C w i p q amt pr = Inr w' \<longrightarrow>
      moved wb w w' (Asset i) p q (unat amt)) \<and>
    (\<forall>w p amt w'. native_burn_settle C w p amt = Some w' \<longrightarrow>
      wb w' Polkadex p + unat amt = wb w Polkadex p \<and>
      (\<forall>a r. a \<noteq> Polkadex \<or> r \<noteq> p \<longrightarrow> wb w' a r = wb w a r))"

lemma currency_lawsD:
  assumes "currency_laws C wb"
  shows "native_transfer C w p q amt pr = Inr w' \<Longrightarrow> moved wb w w' Polkadex p q (unat amt)"
    and "native_transfer C w p q amt Preserve = Inr w' \<Longrightarrow> moved_exact wb w w' Polkadex p q (unat amt)"
    and "asset_transfer C w i p q amt pr = Inr w' \<Longrightarrow> moved wb w w' (Asset i) p q (unat amt)"
    and "native_burn_settle C w p amt = Some w' \<Longrightarrow> wb w' Polkadex p + unat amt = wb w Polkadex p \<and>
      (\<forall>a r. a \<noteq> Polkadex \<or> r \<noteq> p \<longrightarrow> wb w' a r = wb w a r)"
  using assms by (auto simp: currency_laws_def)

lemma transfer_asset_moved:
  assumes "currency_laws (c_currency cfg) wb" and "transfer_asset cfg p q amt a s = Inr s'"
  shows "moved wb (st_world s) (st_world s') a p q (unat amt)"
    and "s' = s \<lparr> st_world := st_world s' \<rparr>"
  using assms(2) currency_lawsD [OF assms(1)] by (cases a; auto simp: res_simps)+

subsection \<open>A concrete chain\<close>

text \<open>The rest of the chain as a table of balances; transfers fail on insufficient funds.\<close>

type_synonym table = "(AssetId \<times> account, nat) btree"

definition table_get :: "table \<Rightarrow> AssetId \<Rightarrow> account \<Rightarrow> nat" where
  "table_get w a p = (case bt_get w (a, p) of None \<Rightarrow> 0 | Some n \<Rightarrow> n)"

definition table_move :: "table \<Rightarrow> AssetId \<Rightarrow> account \<Rightarrow> account \<Rightarrow> u128 \<Rightarrow> nat + table" where
  "table_move w a p q amt =
    (if unat amt \<le> table_get w a p then
       let w = bt_insert (a, p) (table_get w a p - unat amt) w
       in Inr (bt_insert (a, q) (table_get w a q + unat amt) w)
     else Inl 0)"

definition table_currency :: "table currency" where
  "table_currency =
    \<lparr> native_transfer = (\<lambda>w p q amt _. table_move w Polkadex p q amt),
      native_burn_settle = (\<lambda>w p amt. if unat amt \<le> table_get w Polkadex p
        then Some (bt_insert (Polkadex, p) (table_get w Polkadex p - unat amt) w) else None),
      native_reducible = (\<lambda>w p. word_of_nat (table_get w Polkadex p)),
      native_free = (\<lambda>w p. word_of_nat (table_get w Polkadex p)),
      native_unreserve = (\<lambda>w _ _. w),
      asset_transfer = (\<lambda>w i p q amt _. table_move w (Asset i) p q amt),
      asset_reducible = (\<lambda>w i p _ _. word_of_nat (table_get w (Asset i) p)),
      asset_minimum = (\<lambda>_ _. 1) \<rparr>"

lemma table_get_insert:
  "table_get (bt_insert (a, p) n w) a' p' = (if a' = a \<and> p' = p then n else table_get w a' p')"
  by (auto simp: table_get_def bt_get_insert)

lemma table_move_exact: "table_move w a p q amt = Inr w' \<Longrightarrow> moved_exact table_get w w' a p q (unat amt)"
  by (auto simp: table_move_def moved_exact_def moved_def table_get_insert Let_def split: if_splits)

lemma table_currency_laws: "currency_laws table_currency table_get"
  by (auto simp: currency_laws_def table_currency_def table_get_insert moved_exact_def
      dest!: table_move_exact split: if_splits)

text \<open>The storage before any call: every item at its default.\<close>

definition init_state :: "'w \<Rightarrow> ('d, 'w) ocex" where
  "init_state w =
    \<lparr> st_allowlisted = [], st_accounts = Map.empty, st_proxies = Map.empty,
      st_trading_pairs = Map.empty, st_snapshots = Map.empty, st_snapshot_nonce = 0,
      st_exchange_state = False, st_withdrawals = Map.empty, st_ingress = Map.empty,
      st_onchain_events = [], st_total_assets = Map.empty, st_authorities = Map.empty,
      st_next_authorities = default_ValidatorSet, st_validator_set_id = 0,
      st_operator_key = None, st_lmp_epoch = 0, st_trader_metrics = Map.empty,
      st_total_scores = Map.empty, st_finalize_lmp = None, st_lmp_config = Map.empty,
      st_expected_lmp_config = None, st_lmp_claim_blk = Map.empty, st_price_oracle = [],
      st_fee_distribution = None, st_auction_block = None, st_auction = None,
      st_now = 1, st_events = [], st_world = w \<rparr>"

definition sample_cfg :: "(rat, table) config" where
  "sample_cfg =
    \<lparr> c_dec = rat_decimal, c_crypto = sample_crypto, c_codec = sample_codec,
      c_currency = table_currency, c_crowd_source = crowd_source_unit,
      c_cross_chain = cross_chain_unit,
      c_pallet_account = 100, c_pot_account = 9, c_rewards_account = 102,
      c_withdrawal_limit = 5, c_ingress_limit = 5, c_minimum_deposit = 1,
      c_max_egress = 5, c_governance = (\<lambda>orig. orig = Root),
      c_percent = (\<lambda>p n. (2 * min (unat p) 100 * n + 99) div 200), c_blake2_128 = (\<lambda>b. ucast b) \<rparr>"

text \<open>An open exchange with two listed assets; account 7 owns some of each.\<close>

definition sample_chain :: "(rat, table) ocex" where
  "sample_chain = (init_state [((Asset 5, 7), 9), ((Polkadex, 7), 5)])
    \<lparr> st_exchange_state := True, st_allowlisted := [Asset 5, Polkadex] \<rparr>"

lemma sample_cfg_percent: "c_percent sample_cfg p n \<le> n"
proof -
  have "2 * min (unat p) 100 * n \<le> 200 * n"
    by simp
  then have "(2 * min (unat p) 100 * n + 99) div 200 \<le> (200 * n + 99) div 200"
    by (intro div_le_mono) linarith
  then show ?thesis
    by (simp add: sample_cfg_def)
qed

lemma sample_cfg_laws:
  "decimal_laws (c_dec sample_cfg) (\<lambda>q. q)" "currency_laws (c_currency sample_cfg) table_get"
  by (simp_all add: sample_cfg_def rat_decimal_laws table_currency_laws)

end
