(* ===== verification/Ocex_Accounts.thy ===== *)
theory Ocex_Accounts
  imports Ocex_State
begin

text \<open>
  Accounts, proxies and deposits of the orderbook pallet: \<^verbatim>\<open>register_user\<close>,
  \<^verbatim>\<open>register_main_account\<close>, \<^verbatim>\<open>add_proxy_account\<close>, \<^verbatim>\<open>remove_proxy_account\<close>, \<^verbatim>\<open>do_deposit\<close>,
  \<^verbatim>\<open>deposit\<close> and \<^verbatim>\<open>withdrawal_from_orderbook\<close> of \<^verbatim>\<open>pallets/ocex/src/lib.rs\<close>. The invariant
  \<open>accounts_inv\<close> ties the account table to the reverse map from proxies to main accounts.
\<close>

subsection \<open>Operations\<close>

definition register_user :: "('d, 'w) config \<Rightarrow> account \<Rightarrow> account \<Rightarrow> ('d, 'w) ocex \<Rightarrow>
    dispatch_error + ('d, 'w) ocex" where
  "register_user cfg main proxy s =
    ensure (st_exchange_state s) (Err ExchangeNotOperational)
    (ensure (st_accounts s main = None) (Err MainAccountAlreadyRegistered)
    (ensure (st_proxies s proxy = None) (Err ProxyAlreadyRegistered)
    (bind_res (ok_or (Err ProxyLimitExceeded) (add_proxy proxy (AccountInfo_new (c_dec cfg) main)))
      (\<lambda>info.
    let s = s \<lparr> st_accounts := (st_accounts s)(main \<mapsto> info) \<rparr> in
    bind_res (push_ingress cfg (RegisterUser main proxy) s) (\<lambda>s.
    let s = s \<lparr> st_proxies := (st_proxies s)(proxy \<mapsto> main) \<rparr> in
    Inr (deposit_event (MainAccountRegistered main proxy) s))))))"

definition register_main_account :: "('d, 'w) config \<Rightarrow> origin \<Rightarrow> account \<Rightarrow> ('d, 'w) ocex \<Rightarrow>
    dispatch_error + ('d, 'w) ocex" where
  "register_main_account cfg orig proxy s =
    bind_res (ensure_signed orig) (\<lambda>main. register_user cfg main proxy s)"

definition add_proxy_account :: "('d, 'w) config \<Rightarrow> origin \<Rightarrow> account \<Rightarrow> ('d, 'w) ocex \<Rightarrow>
    dispatch_error + ('d, 'w) ocex" where
  "add_proxy_account cfg orig proxy s =
    bind_res (ensure_signed orig) (\<lambda>main.
    ensure (st_exchange_state s) (Err ExchangeNotOperational)
    (ensure (st_accounts s main \<noteq> None) (Err MainAccountNotFound)
    (ensure (st_proxies s proxy = None) (Err ProxyAlreadyRegistered)
    (case st_accounts s main of
      Some info \<Rightarrow>
        bind_res (ok_or (Err ProxyLimitExceeded) (add_proxy proxy info)) (\<lambda>info.
        bind_res (push_ingress cfg (AddProxy main proxy) s) (\<lambda>s.
        let s = s \<lparr> st_accounts := (st_accounts s)(main \<mapsto> info),
                    st_proxies := (st_proxies s)(proxy \<mapsto> main) \<rparr> in
        Inr (deposit_event (NewProxyAdded main proxy) s)))
    | None \<Rightarrow> Inr s))))"

definition remove_proxy_account :: "('d, 'w) config \<Rightarrow> origin \<Rightarrow> account \<Rightarrow> ('d, 'w) ocex \<Rightarrow>
    dispatch_error + ('d, 'w) ocex" where
  "remove_proxy_account cfg orig proxy s =
    bind_res (ensure_signed orig) (\<lambda>main.
    ensure (st_exchange_state s) (Err ExchangeNotOperational)
    (ensure (st_accounts s main \<noteq> None) (Err MainAccountNotFound)
    (case st_accounts s main of
      Some info \<Rightarrow>
        ensure (length (a_proxies info) > 1) (Err MinimumOneProxyRequired)
        (bind_res (ok_or (Err ProxyNotFound) (position (\<lambda>account. account = proxy) (a_proxies info))) (\<lambda>i.
        bind_res (push_ingress cfg (RemoveProxy main proxy) s) (\<lambda>s.
        let info = info \<lparr> a_proxies := remove_at i (a_proxies info) \<rparr>;
            s = s \<lparr> st_proxies := (st_proxies s)(proxy := None) \<rparr>;
            s = deposit_event (ProxyRemoved main proxy) s in
        Inr (s \<lparr> st_accounts := (st_accounts s)(main \<mapsto> info) \<rparr>))))
    | None \<Rightarrow> Inr s)))"

definition total_assets :: "('d, 'w) config \<Rightarrow> AssetId \<Rightarrow> ('d, 'w) ocex \<Rightarrow> 'd" where
  "total_assets cfg asset s =
    (case st_total_assets s asset of None \<Rightarrow> d_zero (c_dec cfg) | Some t \<Rightarrow> t)"

definition do_deposit :: "('d, 'w) config \<Rightarrow> H160 \<Rightarrow> account \<Rightarrow> AssetId \<Rightarrow> u128 \<Rightarrow> ('d, 'w) ocex \<Rightarrow>
    dispatch_error + ('d, 'w) ocex" where
  "do_deposit cfg i user asset amount s =
    ensure (st_exchange_state s) (Err ExchangeNotOperational)
    (ensure (asset \<in> set (st_allowlisted s)) (Err TokenNotAllowlisted)
    (ensure (amount \<le> DEPOSIT_MAX) (Err AmountOverflow)
    (ensure (c_minimum_deposit cfg \<le> amount) (Err DepositAmountTooLow)
    (bind_res (ok_or Panicked (d_checked_from_units (c_dec cfg) amount)) (\<lambda>quotient_opt.
    bind_res (ok_or (Err FailedToConvertDecimaltoBalance) quotient_opt) (\<lambda>converted.
    bind_res (if st_accounts s user = None then register_user cfg user user s else Inr s) (\<lambda>s.
    bind_res (transfer_asset cfg user (c_pallet_account cfg) amount asset s) (\<lambda>s.
    bind_res (ok_or (Err AmountOverflow) (d_checked_add (c_dec cfg) converted (total_assets cfg asset s)))
      (\<lambda>expected_total.
    let s = s \<lparr> st_total_assets := (st_total_assets s)(asset \<mapsto> expected_total) \<rparr> in
    bind_res (push_ingress cfg (Deposit i user asset converted) s) (\<lambda>s.
    Inr (deposit_event (DepositSuccessful i user asset amount) s)))))))))))"

definition deposit :: "('d, 'w) config \<Rightarrow> origin \<Rightarrow> AssetId \<Rightarrow> u128 \<Rightarrow> ('d, 'w) ocex \<Rightarrow>
    dispatch_error + ('d, 'w) ocex" where
  "deposit cfg orig asset amount s =
    bind_res (ensure_signed orig) (\<lambda>user.
    do_deposit cfg (new_random_id cfg None s) user asset amount s)"

text \<open>The trait \<^verbatim>\<open>OrderbookOperations\<close> of the pallet.\<close>

definition orderbook_operations_deposit ::
  "('d, 'w) config \<Rightarrow> H160 \<Rightarrow> account \<Rightarrow> AssetId \<Rightarrow> u128 \<Rightarrow> ('d, 'w) ocex \<Rightarrow> dispatch_error + ('d, 'w) ocex" where
  "orderbook_operations_deposit cfg i main asset amount s = do_deposit cfg i main asset amount s"

definition withdrawal_from_orderbook :: "('d, 'w) config \<Rightarrow> account \<Rightarrow> account \<Rightarrow> AssetId \<Rightarrow> u128 \<Rightarrow> bool \<Rightarrow>
    ('d, 'w) ocex \<Rightarrow> dispatch_error + ('d, 'w) ocex" where
  "withdrawal_from_orderbook cfg user proxy_account asset amount do_force_withdraw s =
    ensure (st_exchange_state s) (Err ExchangeNotOperational)
    (ensure (asset \<in> set (st_allowlisted s)) (Err TokenNotAllowlisted)
    (ensure (st_accounts s user \<noteq> None) (Err AccountNotRegistered)
    (ensure (amount \<le> WITHDRAWAL_MAX) (Err AmountOverflow)
    (bind_res (ok_or Panicked (d_checked_from_units (c_dec cfg) amount)) (\<lambda>quotient_opt.
    bind_res (ok_or (Err FailedToConvertDecimaltoBalance) quotient_opt) (\<lambda>converted.
    bind_res (push_ingress cfg (DirectWithdrawal proxy_account asset converted do_force_withdraw) s) (\<lambda>s.
    Inr (deposit_event (WithdrawFromOrderbook user asset amount) s))))))))"

subsection \<open>Invariant\<close>

definition account_ok :: "('d, 'w) ocex \<Rightarrow> account \<Rightarrow> 'd AccountInfo \<Rightarrow> bool" where
  "account_ok s main info \<longleftrightarrow>
    a_main_account info = main \<and> a_proxies info \<noteq> [] \<and> length (a_proxies info) \<le> ProxyLimit \<and>
    distinct (a_proxies info) \<and> (\<forall>p\<in>set (a_proxies info). st_proxies s p = Some main)"

definition accounts_inv :: "('d, 'w) ocex \<Rightarrow> bool" where
  "accounts_inv s \<longleftrightarrow>
    (\<forall>main info. st_accounts s main = Some info \<longrightarrow> account_ok s main info) \<and>
    (\<forall>p main. st_proxies s p = Some main \<longrightarrow>
      (\<exists>info. st_accounts s main = Some info \<and> p \<in> set (a_proxies info)))"

lemma accounts_inv_frame:
  "st_accounts s' = st_accounts s \<Longrightarrow> st_proxies s' = st_proxies s \<Longrightarrow> accounts_inv s' = accounts_inv s"
  by (simp add: accounts_inv_def account_ok_def)

lemma accounts_inv_upd [simp]:
  "accounts_inv (s \<lparr> st_allowlisted := x0 \<rparr>) = accounts_inv s"
  "accounts_inv (s \<lparr> st_trading_pairs := x3 \<rparr>) = accounts_inv s"
  "accounts_inv (s \<lparr> st_snapshots := x4 \<rparr>) = accounts_inv s"
  "accounts_inv (s \<lparr> st_snapshot_nonce := x5 \<rparr>) = accounts_inv s"
  "accounts_inv (s \<lparr> st_exchange_state := x6 \<rparr>) = accounts_inv s"
  "accounts_inv (s \<lparr> st_withdrawals := x7 \<rparr>) = accounts_inv s"
  "accounts_inv (s \<lparr> st_ingress := x8 \<rparr>) = accounts_inv s"
  "accounts_inv (s \<lparr> st_onchain_events := x9 \<rparr>) = accounts_inv s"
  "accounts_inv (s \<lparr> st_total_assets := x10 \<rparr>) = accounts_inv s"
  "accounts_inv (s \<lparr> st_authorities := x11 \<rparr>) = accounts_inv s"
  "accounts_inv (s \<lparr> st_next_authorities := x12 \<rparr>) = accounts_inv s"
  "accounts_inv (s \<lparr> st_validator_set_id := x13 \<rparr>) = accounts_inv s"
  "accounts_inv (s \<lparr> st_operator_key := x14 \<rparr>) = accounts_inv s"
  "accounts_inv (s \<lparr> st_lmp_epoch := x15 \<rparr>) = accounts_inv s"
  "accounts_inv (s \<lparr> st_trader_metrics := x16 \<rparr>) = accounts_inv s"
  "accounts_inv (s \<lparr> st_total_scores := x17 \<rparr>) = accounts_inv s"
  "accounts_inv (s \<lparr> st_finalize_lmp := x18 \<rparr>) = accounts_inv s"
  "accounts_inv (s \<lparr> st_lmp_config := x19 \<rparr>) = accounts_inv s"
  "accounts_inv (s \<lparr> st_expected_lmp_config := x20 \<rparr>) = accounts_inv s"
  "accounts_inv (s \<lparr> st_lmp_claim_blk := x21 \<rparr>) = accounts_inv s"
  "accounts_inv (s \<lparr> st_price_oracle := x22 \<rparr>) = accounts_inv s"
  "accounts_inv (s \<lparr> st_fee_distribution := x23 \<rparr>) = accounts_inv s"
  "accounts_inv (s \<lparr> st_auction_block := x24 \<rparr>) = accounts_inv s"
  "accounts_inv (s \<lparr> st_auction := x25 \<rparr>) = accounts_inv s"
  "accounts_inv (s \<lparr> st_now := x26 \<rparr>) = accounts_inv s"
  "accounts_inv (s \<lparr> st_events := x27 \<rparr>) = accounts_inv s"
  "accounts_inv (s \<lparr> st_world := x28 \<rparr>) = accounts_inv s"
  by (simp_all add: accounts_inv_def account_ok_def)

lemma add_proxy_Some [res_simps]:
  "add_proxy p a = Some a' \<longleftrightarrow>
    length (a_proxies a) < ProxyLimit \<and> a' = a \<lparr> a_proxies := a_proxies a @ [p] \<rparr>"
  by (auto simp: add_proxy_def try_push_def)

lemma accounts_invD:
  assumes "accounts_inv s"
  shows "st_accounts s main = Some info \<Longrightarrow> account_ok s main info"
    and "st_proxies s p = Some main \<Longrightarrow> \<exists>info. st_accounts s main = Some info \<and> p \<in> set (a_proxies info)"
  using assms by (auto simp: accounts_inv_def)

lemma account_okD:
  assumes "account_ok s main info"
  shows "a_main_account info = main" "a_proxies info \<noteq> []" "length (a_proxies info) \<le> ProxyLimit"
    "distinct (a_proxies info)"
  using assms by (simp_all add: account_ok_def)

text \<open>One account's proxy list is replaced and the reverse map follows.\<close>

lemma accounts_inv_update:
  assumes inv: "accounts_inv s"
    and acc: "st_accounts s' = (st_accounts s)(main \<mapsto> info)"
    and prox: "\<And>p. st_proxies s' p = (if p \<in> set (a_proxies info) then Some main
      else if st_proxies s p = Some main then None else st_proxies s p)"
    and info: "a_main_account info = main" "a_proxies info \<noteq> []" "length (a_proxies info) \<le> ProxyLimit"
      "distinct (a_proxies info)"
    and free: "\<And>p. p \<in> set (a_proxies info) \<Longrightarrow> st_proxies s p = None \<or> st_proxies s p = Some main"
  shows "accounts_inv s'"
  unfolding accounts_inv_def
proof (intro conjI allI impI)
  fix m i assume mi: "st_accounts s' m = Some i"
  show "account_ok s' m i"
  proof (cases "m = main")
    case True
    with mi info prox acc show ?thesis by (simp add: account_ok_def)
  next
    case False
    with mi acc have "account_ok s m i"
      by (intro accounts_invD [OF inv]) simp
    moreover have "st_proxies s' p = Some m" if "st_proxies s p = Some m" for p
      using that False free [of p] prox [of p] by auto
    ultimately show ?thesis by (simp add: account_ok_def)
  qed
next
  fix p m assume pm: "st_proxies s' p = Some m"
  show "\<exists>i. st_accounts s' m = Some i \<and> p \<in> set (a_proxies i)"
  proof (cases "p \<in> set (a_proxies info)")
    case True
    with pm prox [of p] acc show ?thesis by simp
  next
    case False
    with pm prox [of p] have "st_proxies s p = Some m" "m \<noteq> main"
      by (auto split: if_splits)
    with accounts_invD(2) [OF inv] acc show ?thesis by simp
  qed
qed

lemma register_user_inv:
  assumes "register_user cfg main proxy s = Inr s'" and "accounts_inv s"
  shows "accounts_inv s'"
proof (rule accounts_inv_update [OF assms(2)])
  show "st_accounts s' = (st_accounts s)(main \<mapsto> AccountInfo_new (c_dec cfg) main \<lparr> a_proxies := [proxy] \<rparr>)"
    using assms(1) by (auto simp: register_user_def res_simps Let_def deposit_event_def AccountInfo_new_def)
  have new: "st_accounts s main = None" "st_proxies s proxy = None"
    and s': "st_proxies s' = (st_proxies s)(proxy \<mapsto> main)"
    using assms(1) by (auto simp: register_user_def res_simps Let_def deposit_event_def)
  have "st_proxies s p \<noteq> Some main" for p
    using accounts_invD(2) [OF assms(2), of p main] new(1) by auto
  with new s' show "st_proxies s' p = (if p \<in> set (a_proxies (AccountInfo_new (c_dec cfg) main
        \<lparr> a_proxies := [proxy] \<rparr>)) then Some main
      else if st_proxies s p = Some main then None else st_proxies s p)"
    and "p \<in> set (a_proxies (AccountInfo_new (c_dec cfg) main \<lparr> a_proxies := [proxy] \<rparr>)) \<Longrightarrow>
      st_proxies s p = None \<or> st_proxies s p = Some main" for p
    by auto
qed (simp_all add: AccountInfo_new_def ProxyLimit_def)

lemma proxies_of_main:
  assumes "accounts_inv s" and "st_accounts s main = Some info"
  shows "st_proxies s p = Some main \<longleftrightarrow> p \<in> set (a_proxies info)"
  using accounts_invD(1) [OF assms] accounts_invD(2) [OF assms(1), of p main] assms(2)
  by (auto simp: account_ok_def)

lemma add_proxy_account_inv:
  assumes "add_proxy_account cfg orig proxy s = Inr s'" and "accounts_inv s"
  shows "accounts_inv s'"
proof -
  obtain main info where m: "st_accounts s main = Some info" "st_proxies s proxy = None"
      "length (a_proxies info) < ProxyLimit"
    and s': "st_accounts s' = (st_accounts s)(main \<mapsto> info \<lparr> a_proxies := a_proxies info @ [proxy] \<rparr>)"
      "st_proxies s' = (st_proxies s)(proxy \<mapsto> main)"
    using assms(1) by (auto simp: add_proxy_account_def res_simps Let_def deposit_event_def)
  note own = proxies_of_main [OF assms(2) m(1)]
  have "proxy \<notin> set (a_proxies info)"
    using own [of proxy] m(2) by simp
  then show ?thesis
    by (intro accounts_inv_update [OF assms(2) s'(1)])
      (use account_okD [OF accounts_invD(1) [OF assms(2) m(1)]] m(2,3) own s'(2) in auto)
qed

lemma remove_proxy_account_inv:
  assumes "remove_proxy_account cfg orig proxy s = Inr s'" and "accounts_inv s"
  shows "accounts_inv s'"
proof -
  obtain main info i where m: "st_accounts s main = Some info" "length (a_proxies info) > 1"
      "position (\<lambda>a. a = proxy) (a_proxies info) = Some i"
    and s': "st_accounts s' = (st_accounts s)(main \<mapsto> info \<lparr> a_proxies := remove_at i (a_proxies info) \<rparr>)"
      "st_proxies s' = (st_proxies s)(proxy := None)"
    using assms(1) by (auto simp: remove_proxy_account_def res_simps Let_def deposit_event_def)
  have rem: "remove_at i (a_proxies info) = remove1 proxy (a_proxies info)"
    by (rule remove_at_position [OF m(3)])
  have info: "account_ok s main info"
    by (rule accounts_invD(1) [OF assms(2) m(1)])
  have "proxy \<in> set (a_proxies info)"
    using position_Some [OF m(3)] nth_mem by fastforce
  then have len: "length (remove1 proxy (a_proxies info)) = length (a_proxies info) - 1"
    by (simp add: length_remove1)
  have set: "set (remove1 proxy (a_proxies info)) = set (a_proxies info) - {proxy}"
    using info by (simp add: account_ok_def set_remove1_eq)
  have ne: "remove1 proxy (a_proxies info) \<noteq> []"
    using len m(2) by (cases "remove1 proxy (a_proxies info)") auto
  have prox: "st_proxies s' p = (if p \<in> set (remove1 proxy (a_proxies info)) then Some main
      else if st_proxies s p = Some main then None else st_proxies s p)" for p
    using proxies_of_main [OF assms(2) m(1), of p] \<open>proxy \<in> _\<close> unfolding s'(2) set by simp
  have free: "st_proxies s p = None \<or> st_proxies s p = Some main"
    if "p \<in> set (remove1 proxy (a_proxies info))" for p
    using proxies_of_main [OF assms(2) m(1), of p] that unfolding set by simp
  show ?thesis
    by (rule accounts_inv_update [OF assms(2) s'(1)])
      (use account_okD [OF info] len ne prox free in \<open>simp_all add: rem distinct_remove1\<close>)
qed

lemma do_deposit_cases:
  assumes "do_deposit cfg i user asset amount s = Inr s'"
  obtains x s1 s2 t where
    "st_exchange_state s" "asset \<in> set (st_allowlisted s)" "amount \<le> DEPOSIT_MAX"
    "c_minimum_deposit cfg \<le> amount"
    "d_checked_from_units (c_dec cfg) amount = Some (Some x)"
    "(if st_accounts s user = None then register_user cfg user user s else Inr s) = Inr s1"
    "transfer_asset cfg user (c_pallet_account cfg) amount asset s1 = Inr s2"
    "d_checked_add (c_dec cfg) x (total_assets cfg asset s2) = Some t"
    "length (ingress_messages s2 (st_now s2)) < unat (c_ingress_limit cfg)"
    "s' = deposit_event (DepositSuccessful i user asset amount)
      (s2 \<lparr> st_total_assets := (st_total_assets s2)(asset \<mapsto> t),
        st_ingress := (st_ingress s2)(st_now s2 \<mapsto>
          ingress_messages s2 (st_now s2) @ [Deposit i user asset x]) \<rparr>)"
proof -
  have same: "ingress_messages (s2 \<lparr> st_total_assets := m \<rparr>) b = ingress_messages s2 b" for s2 :: "('a, 'b) ocex" and m b
    by (simp add: ingress_messages_def)
  show ?thesis
    using assms unfolding do_deposit_def Let_def bind_res_Inr ensure_Inr ok_or_Inr push_ingress_Inr
    by (elim exE conjE) (rule that, auto simp: same)
qed

lemma do_deposit_inv:
  assumes "do_deposit cfg i user asset amount s = Inr s'" and "accounts_inv s"
  shows "accounts_inv s'"
  using assms(1)
proof (cases rule: do_deposit_cases)
  case (1 x s1 s2 t)
  have "accounts_inv s1"
    using 1(6) assms(2) register_user_inv by (cases "st_accounts s user") auto
  moreover have "st_accounts s2 = st_accounts s1" "st_proxies s2 = st_proxies s1"
    using 1(7) by (auto simp: transfer_asset_Inr)
  moreover have "st_accounts s' = st_accounts s2" "st_proxies s' = st_proxies s2"
    by (simp_all add: 1(10) deposit_event_def)
  ultimately show ?thesis
    using accounts_inv_frame by metis
qed

subsection \<open>Frames\<close>

text \<open>What each operation may change; everything else is kept.\<close>

lemma register_user_frame:
  "register_user cfg main proxy s = Inr s' \<Longrightarrow>
    s' = s \<lparr> st_accounts := st_accounts s', st_proxies := st_proxies s', st_ingress := st_ingress s',
      st_events := st_events s' \<rparr>"
  by (auto simp: register_user_def res_simps Let_def deposit_event_def)

lemma add_proxy_account_frame:
  "add_proxy_account cfg orig proxy s = Inr s' \<Longrightarrow>
    s' = s \<lparr> st_accounts := st_accounts s', st_proxies := st_proxies s', st_ingress := st_ingress s',
      st_events := st_events s' \<rparr>"
  by (auto simp: add_proxy_account_def res_simps Let_def deposit_event_def)

lemma remove_proxy_account_frame:
  "remove_proxy_account cfg orig proxy s = Inr s' \<Longrightarrow>
    s' = s \<lparr> st_accounts := st_accounts s', st_proxies := st_proxies s', st_ingress := st_ingress s',
      st_events := st_events s' \<rparr>"
  by (auto simp: remove_proxy_account_def res_simps Let_def deposit_event_def)

lemma do_deposit_frame:
  assumes "do_deposit cfg i user asset amount s = Inr s'"
  shows "s' = s \<lparr> st_accounts := st_accounts s', st_proxies := st_proxies s', st_ingress := st_ingress s',
    st_total_assets := st_total_assets s', st_world := st_world s', st_events := st_events s' \<rparr>"
  using assms
proof (cases rule: do_deposit_cases)
  case (1 x s1 s2 t)
  have "\<exists>a p q e. s1 = s \<lparr> st_accounts := a, st_proxies := p, st_ingress := q, st_events := e \<rparr>"
  proof (cases "st_accounts s user")
    case None
    with 1(6) have "register_user cfg user user s = Inr s1" by simp
    then show ?thesis by (intro exI) (rule register_user_frame)
  next
    case (Some info)
    with 1(6) have "s1 = s \<lparr> st_accounts := st_accounts s, st_proxies := st_proxies s,
        st_ingress := st_ingress s, st_events := st_events s \<rparr>" by simp
    then show ?thesis by (intro exI)
  qed
  then obtain a p q e where
    "s1 = s \<lparr> st_accounts := a, st_proxies := p, st_ingress := q, st_events := e \<rparr>" by blast
  moreover obtain w where "s2 = s1 \<lparr> st_world := w \<rparr>"
    using 1(7) by (auto simp: transfer_asset_Inr)
  ultimately show ?thesis
    by (simp add: 1(10) deposit_event_def)
qed

subsection \<open>The queue stays bounded\<close>

lemma register_user_queue:
  assumes "register_user cfg main proxy s = Inr s'"
  shows "length (ingress_messages s (st_now s)) < unat (c_ingress_limit cfg)"
    and "st_ingress s' = (st_ingress s)(st_now s \<mapsto> ingress_messages s (st_now s) @ [RegisterUser main proxy])"
  using assms by (auto simp: register_user_def res_simps Let_def deposit_event_def ingress_messages_def)

lemma register_user_bounded:
  "register_user cfg main proxy s = Inr s' \<Longrightarrow> queue_bounded cfg s \<Longrightarrow> queue_bounded cfg s'"
  by (auto simp: register_user_def res_simps Let_def deposit_event_def)

lemma proxy_accounts_bounded:
  "add_proxy_account cfg orig proxy s = Inr s' \<Longrightarrow> queue_bounded cfg s \<Longrightarrow> queue_bounded cfg s'"
  "remove_proxy_account cfg orig proxy s = Inr s' \<Longrightarrow> queue_bounded cfg s \<Longrightarrow> queue_bounded cfg s'"
  by (auto simp: add_proxy_account_def remove_proxy_account_def res_simps Let_def deposit_event_def)

lemma do_deposit_bounded:
  assumes "do_deposit cfg i user asset amount s = Inr s'" and "queue_bounded cfg s"
  shows "queue_bounded cfg s'"
  using assms(1)
proof (cases rule: do_deposit_cases)
  case (1 x s1 s2 t)
  have "queue_bounded cfg s1"
    using 1(6) assms(2) register_user_bounded by (cases "st_accounts s user") auto
  then have "queue_bounded cfg s2"
    using 1(7) by (auto simp: transfer_asset_Inr)
  then show ?thesis
    using 1(9) by (simp add: 1(10) deposit_event_def)
qed

subsection \<open>Deposits\<close>

lemma DEPOSIT_MAX_fits: "amount \<le> DEPOSIT_MAX \<Longrightarrow> unat amount < 2 ^ 96"
  by (simp add: word_le_nat_alt DEPOSIT_MAX_def)

lemma deposit_converts:
  assumes "decimal_laws (c_dec cfg) val" and "amount \<le> DEPOSIT_MAX"
  shows "\<exists>x. d_checked_from_units (c_dec cfg) amount = Some (Some x) \<and>
    val x = of_nat (unat amount) / 10 ^ 12"
  using d_checked_from_units_exact [OF assms(1) DEPOSIT_MAX_fits [OF assms(2)]] by blast

lemma register_user_no_panic: "register_user cfg main proxy s \<noteq> Inl Panicked"
  by (auto simp: register_user_def ensure_def bind_res_def ok_or_def push_ingress_def Let_def
      split: option.splits sum.splits)

lemma transfer_asset_no_panic: "transfer_asset cfg p q amt a s \<noteq> Inl Panicked"
  by (auto simp: transfer_asset_def bind_res_def map_err_def split: AssetId.splits sum.splits)

text \<open>A deposit never panics: the checks on the amount come before the conversion to a
  decimal, which is defined on every amount they let through.\<close>

theorem do_deposit_no_panic:
  assumes "decimal_laws (c_dec cfg) val"
  shows "do_deposit cfg i user asset amount s \<noteq> Inl Panicked"
proof
  assume panic: "do_deposit cfg i user asset amount s = Inl Panicked"
  show False
  proof (cases "amount \<le> DEPOSIT_MAX")
    case False
    with panic show ?thesis by (auto simp: do_deposit_def ensure_def split: if_splits)
  next
    case True
    then obtain x where "d_checked_from_units (c_dec cfg) amount = Some (Some x)"
      using deposit_converts [OF assms] by blast
    with panic show ?thesis
      by (auto simp: do_deposit_def ensure_def bind_res_Inl ok_or_def Let_def push_ingress_def
          register_user_no_panic transfer_asset_no_panic split: if_splits option.splits)
  qed
qed

theorem do_deposit_no_panic_witness:
  "do_deposit sample_cfg 0 7 Polkadex (- 1) sample_chain \<noteq> Inl Panicked"
  by (rule do_deposit_no_panic [OF sample_cfg_laws(1)])

lemma register_user_account: "register_user cfg main proxy s = Inr s' \<Longrightarrow> st_accounts s' main \<noteq> None"
  by (auto simp: register_user_def res_simps Let_def deposit_event_def)

text \<open>C32: a deposit that succeeds was allowed (exchange open, asset allowlisted, amount between
  the minimum and \<open>10 ^ 27\<close>), moved at least the amount from the user to the pallet's custody
  account and nothing else of that asset, registered the user if needed, and queued, after at
  most that registration, exactly one deposit message whose decimal amount is the deposited
  number of base units over \<open>10 ^ 12\<close>.\<close>

theorem do_deposit_effect:
  assumes "decimal_laws (c_dec cfg) val" and "currency_laws (c_currency cfg) wb"
    and "do_deposit cfg i user asset amount s = Inr s'"
  shows "st_exchange_state s \<and> asset \<in> set (st_allowlisted s) \<and>
    c_minimum_deposit cfg \<le> amount \<and> unat amount \<le> 10 ^ 27 \<and>
    moved wb (st_world s) (st_world s') asset user (c_pallet_account cfg) (unat amount) \<and>
    st_accounts s' user \<noteq> None \<and>
    (\<exists>x. val x = of_nat (unat amount) / 10 ^ 12 \<and>
      ingress_messages s' (st_now s) = ingress_messages s (st_now s) @
        (if st_accounts s user = None then [RegisterUser user user] else []) @
        [Deposit i user asset x])"
  using assms(3)
proof (cases rule: do_deposit_cases)
  case (1 x s1 s2 t)
  have x: "val x = of_nat (unat amount) / 10 ^ 12"
    using deposit_converts [OF assms(1) 1(3)] 1(5) by auto
  have s1: "st_world s1 = st_world s" "st_now s1 = st_now s" "st_accounts s1 user \<noteq> None"
      "ingress_messages s1 (st_now s) = ingress_messages s (st_now s) @
        (if st_accounts s user = None then [RegisterUser user user] else [])"
  proof -
    have "st_world s1 = st_world s \<and> st_now s1 = st_now s \<and> st_accounts s1 user \<noteq> None \<and>
      ingress_messages s1 (st_now s) = ingress_messages s (st_now s) @
        (if st_accounts s user = None then [RegisterUser user user] else [])"
    proof (cases "st_accounts s user")
      case None
      with 1(6) have r: "register_user cfg user user s = Inr s1" by simp
      have "st_world s1 = st_world s" "st_now s1 = st_now s"
        by (subst register_user_frame [OF r], simp)+
      then show ?thesis
        using None register_user_account [OF r] register_user_queue(2) [OF r]
        by (simp add: ingress_messages_def)
    qed (use 1(6) in auto)
    then show "st_world s1 = st_world s" "st_now s1 = st_now s" "st_accounts s1 user \<noteq> None"
      "ingress_messages s1 (st_now s) = ingress_messages s (st_now s) @
        (if st_accounts s user = None then [RegisterUser user user] else [])"
      by auto
  qed
  have s2: "moved wb (st_world s1) (st_world s2) asset user (c_pallet_account cfg) (unat amount)"
      "s2 = s1 \<lparr> st_world := st_world s2 \<rparr>"
    using transfer_asset_moved [OF assms(2) 1(7)] by auto
  have s2': "st_accounts s2 = st_accounts s1" "st_now s2 = st_now s1"
      "ingress_messages s2 b = ingress_messages s1 b" for b
    by (subst s2(2), simp)+
  have "unat amount \<le> 10 ^ 27"
    using 1(3) by (simp add: word_le_nat_alt DEPOSIT_MAX_def)
  then show ?thesis
    using 1(1-4) x s1 s2(1) s2' by (auto simp: 1(10) deposit_event_def)
qed

theorem do_deposit_effect_witness:
  "\<exists>s'. do_deposit sample_cfg 0 7 Polkadex 2 sample_chain = Inr s' \<and>
    (\<exists>x. x = 2 / 10 ^ 12 \<and> ingress_messages s' 1 = [RegisterUser 7 7, Deposit 0 7 Polkadex x])"
proof -
  have "is_ok (do_deposit sample_cfg 0 7 Polkadex 2 sample_chain)"
    by code_simp
  then obtain s' where run: "do_deposit sample_cfg 0 7 Polkadex 2 sample_chain = Inr s'"
    by (auto simp: is_ok_iff)
  have "ingress_messages sample_chain 1 = []" "st_now sample_chain = 1" "st_accounts sample_chain 7 = None"
    by (simp_all add: sample_chain_def init_state_def ingress_messages_def)
  then show ?thesis
    using do_deposit_effect [OF sample_cfg_laws run] run by auto
qed

end
