(* ===== verification/Ocex_Markets.thy ===== *)
theory Ocex_Markets
  imports Ocex_State
begin

text \<open>
  Markets and governance switches of the orderbook pallet: registering, updating, opening and
  closing trading pairs, the token allowlist, the exchange state and the operator key
  (\<^verbatim>\<open>pallets/ocex/src/lib.rs\<close>). The invariant \<open>markets_inv\<close> says that a market is stored under
  its own pair, in one direction only.
\<close>

subsection \<open>Operations\<close>

definition validate_trading_pair_config :: "u128 \<Rightarrow> u128 \<Rightarrow> u128 \<Rightarrow> u128 \<Rightarrow> dispatch_error + unit" where
  "validate_trading_pair_config min_vol max_vol tick step =
    ensure (min_vol > 0 \<and> max_vol > 0 \<and> tick > 0 \<and> step > 0) (Err TradingPairConfigCannotBeZero)
    (ensure (min_vol \<le> DEPOSIT_MAX \<and> max_vol \<le> DEPOSIT_MAX \<and> tick \<le> DEPOSIT_MAX \<and> step \<le> DEPOSIT_MAX)
      (Err AmountOverflow)
    (ensure (min_vol \<ge> TRADE_OPERATION_MIN_VALUE \<and> max_vol > TRADE_OPERATION_MIN_VALUE)
      (Err TradingPairConfigUnderflow)
    (ensure (min_vol < max_vol) (Err MinVolGreaterThanMaxVolume)
    (Inr ()))))"

definition set_pair_status :: "('d, 'w) config \<Rightarrow> bool \<Rightarrow> origin \<Rightarrow> AssetId \<Rightarrow> AssetId \<Rightarrow>
    ('d TradingPairConfig \<Rightarrow> 'd IngressMessages) \<Rightarrow> ('d TradingPairConfig \<Rightarrow> 'd ocex_event) \<Rightarrow>
    ('d, 'w) ocex \<Rightarrow> dispatch_error + ('d, 'w) ocex" where
  "set_pair_status cfg status orig b q msg ev s =
    ensure_governance cfg orig
    (ensure (st_exchange_state s) (Err ExchangeNotOperational)
    (ensure (b \<noteq> q) (Err BothAssetsCannotBeSame)
    (ensure (st_trading_pairs s (b, q) \<noteq> None) (Err TradingPairNotFound)
    (bind_res (ok_or (Err TradingPairNotFound) (st_trading_pairs s (b, q))) (\<lambda>trading_pair.
    let trading_pair = trading_pair \<lparr> operational_status := status \<rparr>;
        s = s \<lparr> st_trading_pairs := (st_trading_pairs s)((b, q) \<mapsto> trading_pair) \<rparr> in
    bind_res (push_ingress cfg (msg trading_pair) s) (\<lambda>s.
    Inr (deposit_event (ev trading_pair) s)))))))"

definition close_trading_pair :: "('d, 'w) config \<Rightarrow> origin \<Rightarrow> AssetId \<Rightarrow> AssetId \<Rightarrow> ('d, 'w) ocex \<Rightarrow>
    dispatch_error + ('d, 'w) ocex" where
  "close_trading_pair cfg orig b q s =
    set_pair_status cfg False orig b q CloseTradingPair ShutdownTradingPair s"

definition open_trading_pair :: "('d, 'w) config \<Rightarrow> origin \<Rightarrow> AssetId \<Rightarrow> AssetId \<Rightarrow> ('d, 'w) ocex \<Rightarrow>
    dispatch_error + ('d, 'w) ocex" where
  "open_trading_pair cfg orig b q s =
    set_pair_status cfg True orig b q OpenTradingPair EvOpenTradingPair s"

text \<open>The four divisions by \<^verbatim>\<open>UNIT_BALANCE\<close>; \<open>None\<close> is a panic, \<open>Some None\<close> a failed division.\<close>

definition pair_decimals :: "'d decimal_ops \<Rightarrow> u128 \<Rightarrow> u128 \<Rightarrow> u128 \<Rightarrow> u128 \<Rightarrow> ('d \<times> 'd \<times> 'd \<times> 'd) option option" where
  "pair_decimals D min_vol max_vol tick step =
    (case (d_checked_from_units D min_vol, d_checked_from_units D max_vol,
        d_checked_from_units D tick, d_checked_from_units D step) of
      (Some mn, Some mx, Some tk, Some st) \<Rightarrow>
        Some (case (mn, mx, tk, st) of
          (Some mn, Some mx, Some tk, Some st) \<Rightarrow> Some (mn, mx, tk, st)
        | _ \<Rightarrow> None)
    | _ \<Rightarrow> None)"

definition register_trading_pair :: "('d, 'w) config \<Rightarrow> origin \<Rightarrow> AssetId \<Rightarrow> AssetId \<Rightarrow> u128 \<Rightarrow> u128 \<Rightarrow> u128 \<Rightarrow> u128 \<Rightarrow>
    ('d, 'w) ocex \<Rightarrow> dispatch_error + ('d, 'w) ocex" where
  "register_trading_pair cfg orig b q min_vol max_vol tick step s =
    ensure_governance cfg orig
    (ensure (st_exchange_state s) (Err ExchangeNotOperational)
    (ensure (b \<noteq> q) (Err BothAssetsCannotBeSame)
    (ensure (st_trading_pairs s (b, q) = None) (Err TradingPairAlreadyRegistered)
    (ensure (st_trading_pairs s (q, b) = None) (Err TradingPairAlreadyRegistered)
    (bind_res (validate_trading_pair_config min_vol max_vol tick step) (\<lambda>_.
    ensure (b \<in> set (st_allowlisted s)) (Err BaseNotAllowlisted)
    (ensure (q \<in> set (st_allowlisted s)) (Err QuoteNotAllowlisted)
    (bind_res (ok_or Panicked (pair_decimals (c_dec cfg) min_vol max_vol tick step)) (\<lambda>ds.
    bind_res (ok_or (Err TradingPairConfigUnderflow) ds) (\<lambda>(mn, mx, tk, st).
    let info = \<lparr> base_asset = b, quote_asset = q, price_tick_size = tk, min_volume = mn,
          max_volume = mx, qty_step_size = st, operational_status = True,
          base_asset_precision = word_of_nat (d_scale (c_dec cfg) st),
          quote_asset_precision = word_of_nat (d_scale (c_dec cfg) tk) \<rparr>;
        s = s \<lparr> st_trading_pairs := (st_trading_pairs s)((b, q) \<mapsto> info) \<rparr> in
    bind_res (push_ingress cfg (OpenTradingPair info) s) (\<lambda>s.
    Inr (deposit_event (TradingPairRegistered b q) s))))))))))))"

definition sat_u8 :: "nat \<Rightarrow> u8" where
  "sat_u8 n = (if n < 256 then word_of_nat n else 255)"

definition update_trading_pair :: "('d, 'w) config \<Rightarrow> origin \<Rightarrow> AssetId \<Rightarrow> AssetId \<Rightarrow> u128 \<Rightarrow> u128 \<Rightarrow> u128 \<Rightarrow> u128 \<Rightarrow>
    ('d, 'w) ocex \<Rightarrow> dispatch_error + ('d, 'w) ocex" where
  "update_trading_pair cfg orig b q min_vol max_vol tick step s =
    ensure_governance cfg orig
    (ensure (st_exchange_state s) (Err ExchangeNotOperational)
    (ensure (b \<noteq> q) (Err BothAssetsCannotBeSame)
    (ensure (st_trading_pairs s (b, q) \<noteq> None) (Err TradingPairNotRegistered)
    (let is_pair_in_operation = (case st_trading_pairs s (b, q) of
           Some c \<Rightarrow> operational_status c | None \<Rightarrow> False) in
    ensure (\<not> is_pair_in_operation) (Err TradingPairIsNotClosed)
    (bind_res (validate_trading_pair_config min_vol max_vol tick step) (\<lambda>_.
    bind_res (ok_or Panicked (pair_decimals (c_dec cfg) min_vol max_vol tick step)) (\<lambda>ds.
    bind_res (ok_or (Err TradingPairConfigUnderflow) ds) (\<lambda>(mn, mx, tk, st).
    let info = \<lparr> base_asset = b, quote_asset = q, price_tick_size = tk, min_volume = mn,
          max_volume = mx, qty_step_size = st, operational_status = True,
          base_asset_precision = sat_u8 (d_scale (c_dec cfg) tk),
          quote_asset_precision = sat_u8 (d_scale (c_dec cfg) st) \<rparr>;
        s = s \<lparr> st_trading_pairs := (st_trading_pairs s)((b, q) \<mapsto> info) \<rparr> in
    bind_res (push_ingress cfg (UpdateTradingPair info) s) (\<lambda>s.
    Inr (deposit_event (TradingPairUpdated b q) s))))))))))"

definition set_exchange_state :: "('d, 'w) config \<Rightarrow> origin \<Rightarrow> bool \<Rightarrow> ('d, 'w) ocex \<Rightarrow>
    dispatch_error + ('d, 'w) ocex" where
  "set_exchange_state cfg orig state s =
    ensure_governance cfg orig
    (let s = s \<lparr> st_exchange_state := state \<rparr> in
    bind_res (push_ingress cfg (SetExchangeState state) s) (\<lambda>s.
    Inr (deposit_event (ExchangeStateUpdated state) s)))"

text \<open>\<^verbatim>\<open>BoundedBTreeSet::try_insert\<close> fails only if the set would grow beyond its bound.\<close>

definition bounded_set_insert :: "nat \<Rightarrow> 'k::linorder \<Rightarrow> 'k list \<Rightarrow> 'k list option" where
  "bounded_set_insert bnd k xs =
    (if length xs < bnd \<or> k \<in> set xs then Some (bs_insert k xs) else None)"

definition allowlist_token :: "('d, 'w) config \<Rightarrow> origin \<Rightarrow> AssetId \<Rightarrow> ('d, 'w) ocex \<Rightarrow>
    dispatch_error + ('d, 'w) ocex" where
  "allowlist_token cfg orig token s =
    ensure_governance cfg orig
    (bind_res (ok_or (Err AllowlistedTokenLimitReached)
      (bounded_set_insert AllowlistedTokenLimit token (st_allowlisted s))) (\<lambda>tokens.
    Inr (deposit_event (TokenAllowlisted token) (s \<lparr> st_allowlisted := tokens \<rparr>))))"

definition remove_allowlisted_token :: "('d, 'w) config \<Rightarrow> origin \<Rightarrow> AssetId \<Rightarrow> ('d, 'w) ocex \<Rightarrow>
    dispatch_error + ('d, 'w) ocex" where
  "remove_allowlisted_token cfg orig token s =
    ensure_governance cfg orig
    (Inr (deposit_event (AllowlistedTokenRemoved token)
      (s \<lparr> st_allowlisted := bs_remove token (st_allowlisted s) \<rparr>)))"

definition whitelist_orderbook_operator :: "('d, 'w) config \<Rightarrow> origin \<Rightarrow> bytes \<Rightarrow> ('d, 'w) ocex \<Rightarrow>
    dispatch_error + ('d, 'w) ocex" where
  "whitelist_orderbook_operator cfg orig operator_public_key s =
    ensure_governance cfg orig
    (Inr (deposit_event (OrderbookOperatorKeyWhitelisted operator_public_key)
      (s \<lparr> st_operator_key := Some operator_public_key \<rparr>)))"

definition set_fee_distribution :: "('d, 'w) config \<Rightarrow> origin \<Rightarrow> FeeDistribution \<Rightarrow> ('d, 'w) ocex \<Rightarrow>
    dispatch_error + ('d, 'w) ocex" where
  "set_fee_distribution cfg orig fee_distribution s =
    ensure_governance cfg orig (Inr (s \<lparr> st_fee_distribution := Some fee_distribution \<rparr>))"

definition get_allowlisted_assets :: "('d, 'w) ocex \<Rightarrow> AssetId list" where
  "get_allowlisted_assets s = st_allowlisted s"

definition is_registered_market :: "TradingPair \<Rightarrow> ('d, 'w) ocex \<Rightarrow> bool" where
  "is_registered_market market s = (st_trading_pairs s (base market, quote market) \<noteq> None)"

subsection \<open>Invariants\<close>

definition markets_inv :: "('d, 'w) ocex \<Rightarrow> bool" where
  "markets_inv s \<longleftrightarrow>
    (\<forall>b q c. st_trading_pairs s (b, q) = Some c \<longrightarrow>
      b \<noteq> q \<and> base_asset c = b \<and> quote_asset c = q \<and> st_trading_pairs s (q, b) = None)"

definition allowlist_inv :: "('d, 'w) ocex \<Rightarrow> bool" where
  "allowlist_inv s \<longleftrightarrow>
    sorted_wrt (<) (st_allowlisted s) \<and> length (st_allowlisted s) \<le> AllowlistedTokenLimit"

lemma markets_inv_upd [simp]:
  "markets_inv (s \<lparr> st_allowlisted := x0 \<rparr>) = markets_inv s"
  "markets_inv (s \<lparr> st_accounts := x1 \<rparr>) = markets_inv s"
  "markets_inv (s \<lparr> st_proxies := x2 \<rparr>) = markets_inv s"
  "markets_inv (s \<lparr> st_snapshots := x4 \<rparr>) = markets_inv s"
  "markets_inv (s \<lparr> st_snapshot_nonce := x5 \<rparr>) = markets_inv s"
  "markets_inv (s \<lparr> st_exchange_state := x6 \<rparr>) = markets_inv s"
  "markets_inv (s \<lparr> st_withdrawals := x7 \<rparr>) = markets_inv s"
  "markets_inv (s \<lparr> st_ingress := x8 \<rparr>) = markets_inv s"
  "markets_inv (s \<lparr> st_onchain_events := x9 \<rparr>) = markets_inv s"
  "markets_inv (s \<lparr> st_total_assets := x10 \<rparr>) = markets_inv s"
  "markets_inv (s \<lparr> st_authorities := x11 \<rparr>) = markets_inv s"
  "markets_inv (s \<lparr> st_next_authorities := x12 \<rparr>) = markets_inv s"
  "markets_inv (s \<lparr> st_validator_set_id := x13 \<rparr>) = markets_inv s"
  "markets_inv (s \<lparr> st_operator_key := x14 \<rparr>) = markets_inv s"
  "markets_inv (s \<lparr> st_lmp_epoch := x15 \<rparr>) = markets_inv s"
  "markets_inv (s \<lparr> st_trader_metrics := x16 \<rparr>) = markets_inv s"
  "markets_inv (s \<lparr> st_total_scores := x17 \<rparr>) = markets_inv s"
  "markets_inv (s \<lparr> st_finalize_lmp := x18 \<rparr>) = markets_inv s"
  "markets_inv (s \<lparr> st_lmp_config := x19 \<rparr>) = markets_inv s"
  "markets_inv (s \<lparr> st_expected_lmp_config := x20 \<rparr>) = markets_inv s"
  "markets_inv (s \<lparr> st_lmp_claim_blk := x21 \<rparr>) = markets_inv s"
  "markets_inv (s \<lparr> st_price_oracle := x22 \<rparr>) = markets_inv s"
  "markets_inv (s \<lparr> st_fee_distribution := x23 \<rparr>) = markets_inv s"
  "markets_inv (s \<lparr> st_auction_block := x24 \<rparr>) = markets_inv s"
  "markets_inv (s \<lparr> st_auction := x25 \<rparr>) = markets_inv s"
  "markets_inv (s \<lparr> st_now := x26 \<rparr>) = markets_inv s"
  "markets_inv (s \<lparr> st_events := x27 \<rparr>) = markets_inv s"
  "markets_inv (s \<lparr> st_world := x28 \<rparr>) = markets_inv s"
  by (simp_all add: markets_inv_def)

lemma allowlist_inv_upd [simp]:
  "allowlist_inv (s \<lparr> st_accounts := x1 \<rparr>) = allowlist_inv s"
  "allowlist_inv (s \<lparr> st_proxies := x2 \<rparr>) = allowlist_inv s"
  "allowlist_inv (s \<lparr> st_trading_pairs := x3 \<rparr>) = allowlist_inv s"
  "allowlist_inv (s \<lparr> st_snapshots := x4 \<rparr>) = allowlist_inv s"
  "allowlist_inv (s \<lparr> st_snapshot_nonce := x5 \<rparr>) = allowlist_inv s"
  "allowlist_inv (s \<lparr> st_exchange_state := x6 \<rparr>) = allowlist_inv s"
  "allowlist_inv (s \<lparr> st_withdrawals := x7 \<rparr>) = allowlist_inv s"
  "allowlist_inv (s \<lparr> st_ingress := x8 \<rparr>) = allowlist_inv s"
  "allowlist_inv (s \<lparr> st_onchain_events := x9 \<rparr>) = allowlist_inv s"
  "allowlist_inv (s \<lparr> st_total_assets := x10 \<rparr>) = allowlist_inv s"
  "allowlist_inv (s \<lparr> st_authorities := x11 \<rparr>) = allowlist_inv s"
  "allowlist_inv (s \<lparr> st_next_authorities := x12 \<rparr>) = allowlist_inv s"
  "allowlist_inv (s \<lparr> st_validator_set_id := x13 \<rparr>) = allowlist_inv s"
  "allowlist_inv (s \<lparr> st_operator_key := x14 \<rparr>) = allowlist_inv s"
  "allowlist_inv (s \<lparr> st_lmp_epoch := x15 \<rparr>) = allowlist_inv s"
  "allowlist_inv (s \<lparr> st_trader_metrics := x16 \<rparr>) = allowlist_inv s"
  "allowlist_inv (s \<lparr> st_total_scores := x17 \<rparr>) = allowlist_inv s"
  "allowlist_inv (s \<lparr> st_finalize_lmp := x18 \<rparr>) = allowlist_inv s"
  "allowlist_inv (s \<lparr> st_lmp_config := x19 \<rparr>) = allowlist_inv s"
  "allowlist_inv (s \<lparr> st_expected_lmp_config := x20 \<rparr>) = allowlist_inv s"
  "allowlist_inv (s \<lparr> st_lmp_claim_blk := x21 \<rparr>) = allowlist_inv s"
  "allowlist_inv (s \<lparr> st_price_oracle := x22 \<rparr>) = allowlist_inv s"
  "allowlist_inv (s \<lparr> st_fee_distribution := x23 \<rparr>) = allowlist_inv s"
  "allowlist_inv (s \<lparr> st_auction_block := x24 \<rparr>) = allowlist_inv s"
  "allowlist_inv (s \<lparr> st_auction := x25 \<rparr>) = allowlist_inv s"
  "allowlist_inv (s \<lparr> st_now := x26 \<rparr>) = allowlist_inv s"
  "allowlist_inv (s \<lparr> st_events := x27 \<rparr>) = allowlist_inv s"
  "allowlist_inv (s \<lparr> st_world := x28 \<rparr>) = allowlist_inv s"
  by (simp_all add: allowlist_inv_def)

lemmas market_defs = set_pair_status_def close_trading_pair_def open_trading_pair_def
  register_trading_pair_def update_trading_pair_def set_exchange_state_def allowlist_token_def
  remove_allowlisted_token_def whitelist_orderbook_operator_def set_fee_distribution_def
  ensure_governance_def Let_def deposit_event_def

lemma markets_inv_put:
  "markets_inv s \<Longrightarrow> b \<noteq> q \<Longrightarrow> base_asset c = b \<Longrightarrow> quote_asset c = q \<Longrightarrow> st_trading_pairs s (q, b) = None \<Longrightarrow>
    markets_inv (s \<lparr> st_trading_pairs := (st_trading_pairs s)((b, q) \<mapsto> c) \<rparr>)"
  by (auto simp: markets_inv_def)

lemma set_pair_status_markets:
  assumes "set_pair_status cfg st orig b q msg ev s = Inr s'" and "markets_inv s"
  shows "markets_inv s'"
proof -
  obtain c i e where c: "st_trading_pairs s (b, q) = Some c" and
    s': "s' = s \<lparr> st_trading_pairs := (st_trading_pairs s)((b, q) \<mapsto> c \<lparr> operational_status := st \<rparr>),
      st_ingress := i, st_events := e \<rparr>"
    using assms(1) by (auto simp: market_defs res_simps)
  have "b \<noteq> q" "base_asset c = b" "quote_asset c = q" "st_trading_pairs s (q, b) = None"
    using assms(2) c by (auto simp: markets_inv_def)
  then show ?thesis
    using assms(2) by (simp add: s' markets_inv_put)
qed

lemma register_trading_pair_markets:
  "register_trading_pair cfg orig b q mn mx tk st s = Inr s' \<Longrightarrow> markets_inv s \<Longrightarrow> markets_inv s'"
  by (auto simp: market_defs res_simps markets_inv_put)

lemma update_trading_pair_markets:
  assumes "update_trading_pair cfg orig b q mn mx tk st s = Inr s'" and "markets_inv s"
  shows "markets_inv s'"
proof -
  obtain c c' i e where c: "st_trading_pairs s (b, q) = Some c" and
    s': "s' = s \<lparr> st_trading_pairs := (st_trading_pairs s)((b, q) \<mapsto> c'), st_ingress := i, st_events := e \<rparr>"
      "base_asset c' = b" "quote_asset c' = q"
    using assms(1) by (auto simp: market_defs res_simps)
  have "b \<noteq> q" "st_trading_pairs s (q, b) = None"
    using assms(2) c by (auto simp: markets_inv_def)
  then show ?thesis
    using assms(2) s'(2,3) by (simp add: s'(1) markets_inv_put)
qed

lemma length_bs_insert_le:
  assumes "sorted_wrt (<) xs" and "length xs < n \<or> k \<in> set xs \<and> length xs \<le> n"
  shows "length (bs_insert k xs) \<le> n"
proof -
  have "length (bs_insert k xs) = card (insert k (set xs))"
    using sorted_bs_insert [OF assms(1), of k]
    by (metis distinct_card set_bs_insert strict_sorted_iff)
  also have "\<dots> \<le> n"
    using assms(2) card_length [of xs] by (auto simp: card_insert_if)
  finally show ?thesis .
qed

lemma allowlist_ops_inv:
  "allowlist_token cfg orig tok s = Inr s' \<Longrightarrow> allowlist_inv s \<Longrightarrow> allowlist_inv s'"
  "remove_allowlisted_token cfg orig tok s = Inr s' \<Longrightarrow> allowlist_inv s \<Longrightarrow> allowlist_inv s'"
  by (auto simp: market_defs res_simps bounded_set_insert_def allowlist_inv_def bs_remove_def
      length_remove1 sorted_bs_insert intro!: length_bs_insert_le split: if_splits
      intro: sorted_bs_remove [unfolded bs_remove_def])

lemma market_ops_bounded:
  assumes "queue_bounded cfg s"
  shows "set_pair_status cfg st orig b q msg ev s = Inr s' \<Longrightarrow> queue_bounded cfg s'"
    and "register_trading_pair cfg orig b q mn mx tk sz s = Inr s' \<Longrightarrow> queue_bounded cfg s'"
    and "update_trading_pair cfg orig b q mn mx tk sz s = Inr s' \<Longrightarrow> queue_bounded cfg s'"
    and "set_exchange_state cfg orig x s = Inr s' \<Longrightarrow> queue_bounded cfg s'"
  using assms by (auto simp: market_defs res_simps)

lemma market_ops_frame:
  "set_pair_status cfg st orig b q msg ev s = Inr s' \<Longrightarrow>
    s' = s \<lparr> st_trading_pairs := st_trading_pairs s', st_ingress := st_ingress s', st_events := st_events s' \<rparr>"
  "register_trading_pair cfg orig b q mn mx tk sz s = Inr s' \<Longrightarrow>
    s' = s \<lparr> st_trading_pairs := st_trading_pairs s', st_ingress := st_ingress s', st_events := st_events s' \<rparr>"
  "update_trading_pair cfg orig b q mn mx tk sz s = Inr s' \<Longrightarrow>
    s' = s \<lparr> st_trading_pairs := st_trading_pairs s', st_ingress := st_ingress s', st_events := st_events s' \<rparr>"
  "set_exchange_state cfg orig x s = Inr s' \<Longrightarrow>
    s' = s \<lparr> st_exchange_state := st_exchange_state s', st_ingress := st_ingress s', st_events := st_events s' \<rparr>"
  "allowlist_token cfg orig tok s = Inr s' \<Longrightarrow>
    s' = s \<lparr> st_allowlisted := st_allowlisted s', st_events := st_events s' \<rparr>"
  "remove_allowlisted_token cfg orig tok s = Inr s' \<Longrightarrow>
    s' = s \<lparr> st_allowlisted := st_allowlisted s', st_events := st_events s' \<rparr>"
  "whitelist_orderbook_operator cfg orig key s = Inr s' \<Longrightarrow>
    s' = s \<lparr> st_operator_key := st_operator_key s', st_events := st_events s' \<rparr>"
  "set_fee_distribution cfg orig fd s = Inr s' \<Longrightarrow>
    s' = s \<lparr> st_fee_distribution := st_fee_distribution s' \<rparr>"
  by (auto simp: market_defs res_simps)

subsection \<open>Properties\<close>

lemma validate_Inr:
  "validate_trading_pair_config mn mx tk st = Inr u \<longleftrightarrow>
    0 < mn \<and> 0 < mx \<and> 0 < tk \<and> 0 < st \<and>
    mn \<le> DEPOSIT_MAX \<and> mx \<le> DEPOSIT_MAX \<and> tk \<le> DEPOSIT_MAX \<and> st \<le> DEPOSIT_MAX \<and>
    TRADE_OPERATION_MIN_VALUE \<le> mn \<and> TRADE_OPERATION_MIN_VALUE < mx \<and> mn < mx"
  by (auto simp: validate_trading_pair_config_def res_simps)

lemma validate_no_panic: "validate_trading_pair_config mn mx tk st \<noteq> Inl Panicked"
  by (auto simp: validate_trading_pair_config_def ensure_def)

lemma units_decimal:
  assumes "decimal_laws D val" and "x \<le> DEPOSIT_MAX"
  shows "\<exists>d. d_checked_from_units D x = Some (Some d) \<and> val d = of_nat (unat x) / 10 ^ 12"
  using d_checked_from_units_exact [OF assms(1), of x] assms(2)
  by (auto simp: word_le_nat_alt DEPOSIT_MAX_def)

lemma pair_decimals_exact:
  assumes "decimal_laws D val" and "validate_trading_pair_config mn mx tk st = Inr u"
  shows "\<exists>a b c d. pair_decimals D mn mx tk st = Some (Some (a, b, c, d)) \<and>
    val a = of_nat (unat mn) / 10 ^ 12 \<and> val b = of_nat (unat mx) / 10 ^ 12 \<and>
    val c = of_nat (unat tk) / 10 ^ 12 \<and> val d = of_nat (unat st) / 10 ^ 12"
proof -
  from assms(2) have le: "mn \<le> DEPOSIT_MAX" "mx \<le> DEPOSIT_MAX" "tk \<le> DEPOSIT_MAX" "st \<le> DEPOSIT_MAX"
    by (auto simp: validate_Inr)
  obtain a b c d where
    "d_checked_from_units D mn = Some (Some a)" "val a = of_nat (unat mn) / 10 ^ 12"
    "d_checked_from_units D mx = Some (Some b)" "val b = of_nat (unat mx) / 10 ^ 12"
    "d_checked_from_units D tk = Some (Some c)" "val c = of_nat (unat tk) / 10 ^ 12"
    "d_checked_from_units D st = Some (Some d)" "val d = of_nat (unat st) / 10 ^ 12"
    using units_decimal [OF assms(1) le(1)] units_decimal [OF assms(1) le(2)]
      units_decimal [OF assms(1) le(3)] units_decimal [OF assms(1) le(4)] by blast
  then show ?thesis
    by (simp add: pair_decimals_def)
qed

text \<open>Registering or updating a market never panics: the validation of the parameters
  bounds every amount before it is converted to a decimal.\<close>

theorem market_config_no_panic:
  assumes "decimal_laws (c_dec cfg) val"
  shows "register_trading_pair cfg orig b q mn mx tk st s \<noteq> Inl Panicked \<and>
    update_trading_pair cfg orig b q mn mx tk st s \<noteq> Inl Panicked"
proof (cases "validate_trading_pair_config mn mx tk st")
  case (Inl e)
  then show ?thesis
    using validate_no_panic [of mn mx tk st]
    by (auto simp: register_trading_pair_def update_trading_pair_def ensure_governance_def ensure_def
        Let_def split: if_splits)
next
  case (Inr u)
  then obtain a b' c d where "pair_decimals (c_dec cfg) mn mx tk st = Some (Some (a, b', c, d))"
    using pair_decimals_exact [OF assms] by blast
  with Inr show ?thesis
    by (auto simp: register_trading_pair_def update_trading_pair_def ensure_governance_def ensure_def
        Let_def bind_res_Inl push_ingress_def ok_or_def split: if_splits option.splits)
qed

theorem market_config_no_panic_witness:
  "register_trading_pair sample_cfg Root Polkadex (Asset 5) (- 1) 0 1 1 sample_chain \<noteq> Inl Panicked \<and>
   update_trading_pair sample_cfg Root Polkadex (Asset 5) (- 1) 0 1 1 sample_chain \<noteq> Inl Panicked"
  by (rule market_config_no_panic [OF sample_cfg_laws(1)])

text \<open>C24: a registered market is new in both directions, lies between listed assets, starts
  operational, carries the given amounts over \<open>10 ^ 12\<close> with a positive minimum volume below
  the maximum, and is announced to the engine as the last message of the block.\<close>

theorem register_trading_pair_effect:
  assumes "decimal_laws (c_dec cfg) val"
    and "register_trading_pair cfg orig b q mn mx tk st s = Inr s'"
  shows "c_governance cfg orig \<and> b \<noteq> q \<and> {b, q} \<subseteq> set (st_allowlisted s) \<and>
    st_trading_pairs s (b, q) = None \<and> st_trading_pairs s (q, b) = None \<and>
    (\<exists>c. st_trading_pairs s' = (st_trading_pairs s)((b, q) \<mapsto> c) \<and> operational_status c \<and>
      base_asset c = b \<and> quote_asset c = q \<and>
      0 < val (min_volume c) \<and> val (min_volume c) < val (max_volume c) \<and>
      val (min_volume c) = of_nat (unat mn) / 10 ^ 12 \<and>
      val (max_volume c) = of_nat (unat mx) / 10 ^ 12 \<and>
      val (price_tick_size c) = of_nat (unat tk) / 10 ^ 12 \<and>
      val (qty_step_size c) = of_nat (unat st) / 10 ^ 12 \<and>
      ingress_messages s' (st_now s) = ingress_messages s (st_now s) @ [OpenTradingPair c])"
proof -
  obtain u where u: "validate_trading_pair_config mn mx tk st = Inr u"
    using assms(2) by (auto simp: market_defs res_simps)
  obtain a b' c d where dec: "pair_decimals (c_dec cfg) mn mx tk st = Some (Some (a, b', c, d))"
    and v: "val a = of_nat (unat mn) / 10 ^ 12" "val b' = of_nat (unat mx) / 10 ^ 12"
      "val c = of_nat (unat tk) / 10 ^ 12" "val d = of_nat (unat st) / 10 ^ 12"
    using pair_decimals_exact [OF assms(1) u] by blast
  have "0 < unat mn" "unat mn < unat mx"
    using u by (auto simp: validate_Inr word_less_nat_alt unat_gt_0)
  then have "0 < (of_nat (unat mn) :: rat)" "(of_nat (unat mn) :: rat) < of_nat (unat mx)"
    by (simp_all only: of_nat_0_less_iff of_nat_less_iff)
  then have "0 < val a" "val a < val b'"
    unfolding v by (simp_all only: divide_strict_right_mono zero_less_power zero_less_numeral
        zero_less_divide_iff simp_thms)
  then show ?thesis
    using assms(2) v by (auto simp: market_defs res_simps dec)
qed

theorem register_trading_pair_effect_witness:
  "\<exists>s'. register_trading_pair sample_cfg Root Polkadex (Asset 5) 10000 20000 1 1 sample_chain = Inr s' \<and>
    (\<exists>c. st_trading_pairs s' (Polkadex, Asset 5) = Some c \<and> min_volume c = 10000 / 10 ^ 12)"
proof -
  have "is_ok (register_trading_pair sample_cfg Root Polkadex (Asset 5) 10000 20000 1 1 sample_chain)"
    by code_simp
  then obtain s' where run:
      "register_trading_pair sample_cfg Root Polkadex (Asset 5) 10000 20000 1 1 sample_chain = Inr s'"
    by (auto simp: is_ok_iff)
  then show ?thesis
    using register_trading_pair_effect [OF sample_cfg_laws(1) run] by fastforce
qed

text \<open>C33: updating a market exchanges the roles of the two precisions. With the same
  parameters, the configuration written by an update has as base precision the scale of the
  price tick and as quote precision the scale of the quantity step, the registered one the
  reverse.\<close>

theorem update_trading_pair_swaps_precision:
  assumes "register_trading_pair cfg orig b q mn mx tk st s1 = Inr s1'"
    and "update_trading_pair cfg orig' b q mn mx tk st s2 = Inr s2'"
    and "\<And>x. d_scale (c_dec cfg) x < 256"
  shows "\<exists>c c'. st_trading_pairs s1' (b, q) = Some c \<and> st_trading_pairs s2' (b, q) = Some c' \<and>
    price_tick_size c' = price_tick_size c \<and> qty_step_size c' = qty_step_size c \<and>
    base_asset_precision c = word_of_nat (d_scale (c_dec cfg) (qty_step_size c)) \<and>
    base_asset_precision c' = quote_asset_precision c \<and>
    quote_asset_precision c' = base_asset_precision c"
  using assms by (auto simp: market_defs res_simps sat_u8_def)

theorem update_trading_pair_swaps_precision_witness:
  "\<exists>s1 s2 c c'. register_trading_pair sample_cfg Root Polkadex (Asset 5) 10000 20000 1 10 sample_chain = Inr s1 \<and>
    update_trading_pair sample_cfg Root Polkadex (Asset 5) 10000 20000 1 10
      (s1 \<lparr> st_trading_pairs := (\<lambda>k. map_option (operational_status_update (\<lambda>_. False)) (st_trading_pairs s1 k)) \<rparr>)
      = Inr s2 \<and>
    st_trading_pairs s1 (Polkadex, Asset 5) = Some c \<and> st_trading_pairs s2 (Polkadex, Asset 5) = Some c' \<and>
    base_asset_precision c = 11 \<and> base_asset_precision c' = 12"
proof -
  let ?r = "register_trading_pair sample_cfg Root Polkadex (Asset 5) 10000 20000 1 10 sample_chain"
  let ?close = "\<lambda>s. s \<lparr> st_trading_pairs := (\<lambda>k. map_option (operational_status_update (\<lambda>_. False)) (st_trading_pairs s k)) \<rparr>"
  let ?u = "\<lambda>s. update_trading_pair sample_cfg Root Polkadex (Asset 5) 10000 20000 1 10 (?close s)"
  have "is_ok (bind_res ?r ?u)"
    by code_simp
  then obtain s1 s2 where r: "?r = Inr s1" and u: "?u s1 = Inr s2"
    by (auto simp: is_ok_iff bind_res_Inr)
  have "case ?r of Inr s \<Rightarrow> map_option (\<lambda>c. (base_asset_precision c, quote_asset_precision c))
      (st_trading_pairs s (Polkadex, Asset 5)) = Some (11, 12) | Inl _ \<Rightarrow> False"
    by code_simp
  then have p: "map_option (\<lambda>c. (base_asset_precision c, quote_asset_precision c))
      (st_trading_pairs s1 (Polkadex, Asset 5)) = Some (11, 12)"
    by (simp add: r)
  have "d_scale (c_dec sample_cfg) x < 256" for x
    using rat_decimal_scale [of x] by (simp add: sample_cfg_def)
  from update_trading_pair_swaps_precision [OF r u this] p r u show ?thesis
    by auto
qed

end
