(* ===== verification/Ocex_Withdrawals.thy ===== *)
theory Ocex_Withdrawals
  imports Ocex_State
begin

text \<open>
  Withdrawals of the orderbook pallet (\<^verbatim>\<open>pallets/ocex/src/lib.rs\<close>): the transactional payout of
  one withdrawal, the loop over a user's withdrawals, their grouping by account, the claim of
  a withdrawal that could not be paid at once and the settlement of the fees. The locale
  \<open>payout\<close> is the contract of a transactional payout; the properties of the loop are proved
  in it and reach the pallet through the interpretation \<open>pay\<close>.
\<close>

subsection \<open>Operations\<close>

definition to_balance :: "('d, 'w) config \<Rightarrow> 'd \<Rightarrow> dispatch_error + u128" where
  "to_balance cfg x =
    bind_res (ok_or Panicked (d_to_units (c_dec cfg) x)) (ok_or (Err FailedToConvertDecimaltoBalance))"

definition on_idle_withdrawal_processor :: "('d, 'w) config \<Rightarrow> 'd Withdrawal \<Rightarrow> ('d, 'w) ocex \<Rightarrow>
    dispatch_error + ('d, 'w) ocex" where
  "on_idle_withdrawal_processor cfg w s =
    bind_res (to_balance cfg (w_amount w)) (\<lambda>amount.
    bind_res (transfer_asset cfg (c_pallet_account cfg) (w_main_account w) amount (w_asset w) s) (\<lambda>s.
    case w_destination w of
      None \<Rightarrow> Inr s
    | Some (Polkadot loc fee) \<Rightarrow>
        bind_res (case fee of
            None \<Rightarrow> c_cross_chain cfg (w_main_account w) (w_asset w) amount loc None None (w_id w) (st_world s)
          | Some (fee_asset, fee_amount) \<Rightarrow>
              c_cross_chain cfg (w_main_account w) (w_asset w) amount loc (Some fee_asset)
                (Some fee_amount) (w_id w) (st_world s)) (\<lambda>w'.
        Inr (s \<lparr> st_world := w' \<rparr>))))"

text \<open>
  \<^verbatim>\<open>do_withdraw\<close> pops withdrawals from the end of the vector, so its loop runs over the reversed
  list; it returns the failed and the processed ones. A failed payout leaves no trace but its
  event.
\<close>

fun do_withdraw_loop :: "('d, 'w) config \<Rightarrow> u64 \<Rightarrow> 'd Withdrawal list \<Rightarrow> 'd Withdrawal list \<Rightarrow>
    'd Withdrawal list \<Rightarrow> ('d, 'w) ocex \<Rightarrow> 'd Withdrawal list \<times> 'd Withdrawal list \<times> ('d, 'w) ocex" where
  "do_withdraw_loop cfg sid [] failed processed s = (failed, processed, s)"
| "do_withdraw_loop cfg sid (w # ws) failed processed s =
    (case on_idle_withdrawal_processor cfg w s of
      Inr s' \<Rightarrow> do_withdraw_loop cfg sid ws failed (processed @ [w]) s'
    | Inl _ \<Rightarrow> do_withdraw_loop cfg sid ws (failed @ [w]) processed (deposit_event (WithdrawalReady sid w) s))"

definition do_withdraw :: "('d, 'w) config \<Rightarrow> u64 \<Rightarrow> 'd Withdrawal list \<Rightarrow> ('d, 'w) ocex \<Rightarrow>
    'd Withdrawal list \<times> 'd Withdrawal list \<times> ('d, 'w) ocex" where
  "do_withdraw cfg sid ws s = do_withdraw_loop cfg sid (rev ws) [] [] s"

definition push_withdrawal :: "'d Withdrawal \<Rightarrow> (account, 'd Withdrawal list) btree \<Rightarrow>
    (account, 'd Withdrawal list) btree" where
  "push_withdrawal w m =
    (case bt_get m (w_main_account w) of
      Some ws \<Rightarrow> bt_insert (w_main_account w) (ws @ [w]) m
    | None \<Rightarrow> bt_insert (w_main_account w) [w] m)"

definition create_withdrawal_tree :: "'d Withdrawal list \<Rightarrow> (account, 'd Withdrawal list) btree" where
  "create_withdrawal_tree ws = fold push_withdrawal ws []"

definition claim_withdraw :: "('d, 'w) config \<Rightarrow> origin \<Rightarrow> u64 \<Rightarrow> account \<Rightarrow> ('d, 'w) ocex \<Rightarrow>
    dispatch_error + ('d, 'w) ocex" where
  "claim_withdraw cfg orig sid acc s =
    bind_res (ensure_signed orig) (\<lambda>_.
    bind_res (ok_or (Err InvalidWithdrawalIndex) (st_withdrawals s sid)) (\<lambda>tree.
    bind_res (ok_or (Err InvalidWithdrawalIndex) (bt_get tree acc)) (\<lambda>ws.
    let tree = bt_remove acc tree;
        (failed, processed, s) = do_withdraw cfg sid ws s;
        tree = (if failed \<noteq> [] then bt_insert acc failed tree else tree);
        s = (if processed \<noteq> [] then deposit_event (WithdrawalClaimed sid acc processed) s else s);
        s = s \<lparr> st_withdrawals := (st_withdrawals s)(sid \<mapsto> tree) \<rparr>
    in Inr (if tree = [] then s \<lparr> st_withdrawals := (st_withdrawals s)(sid := None) \<rparr> else s))))"

definition settle_fee :: "('d, 'w) config \<Rightarrow> 'd Fees \<Rightarrow> ('d, 'w) ocex \<Rightarrow> dispatch_error + ('d, 'w) ocex" where
  "settle_fee cfg f s =
    bind_res (ok_or Panicked (fees_amount (c_dec cfg) f)) (\<lambda>amount.
    case f_asset f of
      Polkadex \<Rightarrow>
        bind_res (ok_or (Err WithdrawalFeeBurnFailed)
          (native_burn_settle (c_currency cfg) (st_world s) (c_pallet_account cfg) amount)) (\<lambda>w.
        Inr (s \<lparr> st_world := w \<rparr>))
    | Asset _ \<Rightarrow>
        bind_res (map_err External
          (native_transfer (c_currency cfg) (st_world s) (c_pallet_account cfg) (c_pot_account cfg) amount Preserve)) (\<lambda>w.
        Inr (s \<lparr> st_world := w \<rparr>)))"

definition settle_withdrawal_fees :: "('d, 'w) config \<Rightarrow> 'd Fees list \<Rightarrow> ('d, 'w) ocex \<Rightarrow>
    dispatch_error + ('d, 'w) ocex" where
  "settle_withdrawal_fees cfg fees s = fold_res (settle_fee cfg) fees s"

subsection \<open>The contract of a transactional payout\<close>

text \<open>
  A payout either fails, and then changes nothing, or succeeds and takes at least its amount
  out of custody. \<open>keep\<close> holds of states that agree on everything but the paid-out money and
  the log.
\<close>

locale payout =
  fixes pay :: "'x \<Rightarrow> 's \<Rightarrow> 'e + 's"
    and note_failed :: "'x \<Rightarrow> 's \<Rightarrow> 's"
    and custody :: "'s \<Rightarrow> 'a \<Rightarrow> nat"
    and cost :: "'x \<Rightarrow> 'a \<Rightarrow> nat"
    and external :: "'x \<Rightarrow> bool"
    and keep :: "'s \<Rightarrow> 's \<Rightarrow> bool"
    and run :: "'x list \<Rightarrow> 'x list \<Rightarrow> 'x list \<Rightarrow> 's \<Rightarrow> 'x list \<times> 'x list \<times> 's"
  assumes run_Nil [simp]: "run [] failed processed s = (failed, processed, s)"
    and run_Cons [simp]: "run (x # xs) failed processed s =
      (case pay x s of
        Inr s' \<Rightarrow> run xs failed (processed @ [x]) s'
      | Inl _ \<Rightarrow> run xs (failed @ [x]) processed (note_failed x s))"
    and pay_custody: "external x \<Longrightarrow> pay x s = Inr s' \<Longrightarrow> custody s' a + cost x a \<le> custody s a"
    and note_custody: "custody (note_failed x s) a = custody s a"
    and pay_keep: "pay x s = Inr s' \<Longrightarrow> keep s s'"
    and note_keep: "keep s (note_failed x s)"
    and keep_refl: "keep s s"
    and keep_trans: "keep s t \<Longrightarrow> keep t u \<Longrightarrow> keep s u"
begin

lemma run_partition:
  "run xs f p s = (f', p', s') \<Longrightarrow> mset f' + mset p' = mset f + mset p + mset xs"
  by (induction xs arbitrary: f p s) (fastforce split: sum.splits)+

lemma run_extends:
  "run xs f p s = (f', p', s') \<Longrightarrow> \<exists>g q. f' = f @ g \<and> p' = p @ q \<and> set g \<union> set q = set xs"
proof (induction xs arbitrary: f p s)
  case Nil
  then show ?case by simp
next
  case (Cons x xs)
  show ?case
  proof (cases "pay x s")
    case (Inl e)
    with Cons.prems have "run xs (f @ [x]) p (note_failed x s) = (f', p', s')" by simp
    from Cons.IH [OF this] obtain g q where "f' = f @ [x] @ g" "p' = p @ q" "set g \<union> set q = set xs"
      by auto
    then show ?thesis by (intro exI [of _ "x # g"] exI [of _ q]) auto
  next
    case (Inr t)
    with Cons.prems have "run xs f (p @ [x]) t = (f', p', s')" by simp
    from Cons.IH [OF this] obtain g q where "f' = f @ g" "p' = p @ [x] @ q" "set g \<union> set q = set xs"
      by auto
    then show ?thesis by (intro exI [of _ g] exI [of _ "x # q"]) auto
  qed
qed

lemma run_keep: "run xs f p s = (f', p', s') \<Longrightarrow> keep s s'"
proof (induction xs arbitrary: f p s)
  case (Cons x xs)
  then show ?case
    by (cases "pay x s") (auto dest: Cons.IH pay_keep intro: keep_trans note_keep)
qed (simp add: keep_refl)

lemma run_custody:
  "run xs f p s = (f', p', s') \<Longrightarrow> \<forall>x\<in>set xs. external x \<Longrightarrow>
    custody s' a + (\<Sum>x\<leftarrow>p'. cost x a) \<le> custody s a + (\<Sum>x\<leftarrow>p. cost x a)"
proof (induction xs arbitrary: f p s)
  case (Cons x xs)
  show ?case
  proof (cases "pay x s")
    case (Inl e)
    then show ?thesis
      using Cons.IH [of "f @ [x]" p "note_failed x s"] Cons.prems by (simp add: note_custody)
  next
    case (Inr t)
    then have "custody t a + cost x a \<le> custody s a"
      using Cons.prems(2) by (auto intro: pay_custody)
    then show ?thesis
      using Cons.IH [of f "p @ [x]" t] Cons.prems Inr by simp
  qed
qed simp

end

subsection \<open>The pallet's payouts\<close>

text \<open>What the cross-chain gadget may do with the books of the pallet account: nothing.\<close>

definition cross_chain_laws :: "('d, 'w) config \<Rightarrow> ('w \<Rightarrow> AssetId \<Rightarrow> account \<Rightarrow> nat) \<Rightarrow> bool" where
  "cross_chain_laws cfg wb \<longleftrightarrow>
    (\<forall>acc a amt loc fa fm i w w' a'. acc \<noteq> c_pallet_account cfg \<longrightarrow>
      c_cross_chain cfg acc a amt loc fa fm i w = Inr w' \<longrightarrow>
      wb w' a' (c_pallet_account cfg) = wb w a' (c_pallet_account cfg))"

definition paid_units :: "('d, 'w) config \<Rightarrow> 'd Withdrawal \<Rightarrow> AssetId \<Rightarrow> nat" where
  "paid_units cfg w a =
    (if w_asset w = a then (case to_balance cfg (w_amount w) of Inr n \<Rightarrow> unat n | Inl _ \<Rightarrow> 0) else 0)"

text \<open>Two states that differ in the rest of the chain and the event log only.\<close>

definition same_books :: "('d, 'w) ocex \<Rightarrow> ('d, 'w) ocex \<Rightarrow> bool" where
  "same_books s s' \<longleftrightarrow> s' = s \<lparr> st_world := st_world s', st_events := st_events s' \<rparr>"

lemma processor_Inr:
  "on_idle_withdrawal_processor cfg w s = Inr s' \<Longrightarrow>
    \<exists>amount s1. to_balance cfg (w_amount w) = Inr amount \<and>
      transfer_asset cfg (c_pallet_account cfg) (w_main_account w) amount (w_asset w) s = Inr s1 \<and>
      (s' = s1 \<or> (\<exists>loc fa fm w'.
        c_cross_chain cfg (w_main_account w) (w_asset w) amount loc fa fm (w_id w) (st_world s1) = Inr w' \<and>
        s' = s1 \<lparr> st_world := w' \<rparr>))"
  unfolding on_idle_withdrawal_processor_def bind_res_Inr
  by (elim exE conjE, cases "w_destination w")
    (force simp: bind_res_Inr split: WithdrawalDestination.splits option.splits)+

lemma processor_same_books:
  "on_idle_withdrawal_processor cfg w s = Inr s' \<Longrightarrow> same_books s s'"
  by (drule processor_Inr) (auto simp: same_books_def transfer_asset_Inr)

lemma processor_custody:
  assumes "currency_laws (c_currency cfg) wb" and "cross_chain_laws cfg wb"
    and "w_main_account w \<noteq> c_pallet_account cfg"
    and "on_idle_withdrawal_processor cfg w s = Inr s'"
  shows "wb (st_world s') a (c_pallet_account cfg) + paid_units cfg w a \<le>
    wb (st_world s) a (c_pallet_account cfg)"
proof -
  obtain amount s1 where amt: "to_balance cfg (w_amount w) = Inr amount"
    and t: "transfer_asset cfg (c_pallet_account cfg) (w_main_account w) amount (w_asset w) s = Inr s1"
    and c: "s' = s1 \<or> (\<exists>loc fa fm w'.
        c_cross_chain cfg (w_main_account w) (w_asset w) amount loc fa fm (w_id w) (st_world s1) = Inr w' \<and>
        s' = s1 \<lparr> st_world := w' \<rparr>)"
    using processor_Inr [OF assms(4)] by blast
  have "wb (st_world s') a (c_pallet_account cfg) = wb (st_world s1) a (c_pallet_account cfg)"
    using c assms(2,3) by (auto simp: cross_chain_laws_def)
  then show ?thesis
    using transfer_asset_moved(1) [OF assms(1) t] assms(3)
    by (auto simp: moved_def paid_units_def amt)
qed

lemma deposit_event_same_books: "same_books s (deposit_event e s)"
  by (simp add: same_books_def deposit_event_def)

lemma same_books_refl: "same_books s s"
  by (simp add: same_books_def)

lemma same_books_trans: "same_books s t \<Longrightarrow> same_books t u \<Longrightarrow> same_books s u"
  by (cases s; cases t; cases u) (simp add: same_books_def)

text \<open>
  The laws of the parameters are folded into the measured custody: where they fail, nothing
  is claimed of it.
\<close>

definition in_custody :: "('d, 'w) config \<Rightarrow> ('w \<Rightarrow> AssetId \<Rightarrow> account \<Rightarrow> nat) \<Rightarrow> ('d, 'w) ocex \<Rightarrow> AssetId \<Rightarrow> nat" where
  "in_custody cfg wb s a = wb (st_world s) a (c_pallet_account cfg)"

definition pays_outside :: "('d, 'w) config \<Rightarrow> ('w \<Rightarrow> AssetId \<Rightarrow> account \<Rightarrow> nat) \<Rightarrow> 'd Withdrawal \<Rightarrow> bool" where
  "pays_outside cfg wb w \<longleftrightarrow> currency_laws (c_currency cfg) wb \<and> cross_chain_laws cfg wb \<and>
    w_main_account w \<noteq> c_pallet_account cfg"

lemma in_custody_event [simp]: "in_custody cfg wb (deposit_event e s) = in_custody cfg wb s"
  by (simp add: in_custody_def deposit_event_def fun_eq_iff)

interpretation pay: payout "on_idle_withdrawal_processor cfg" "\<lambda>w. deposit_event (WithdrawalReady sid w)"
    "in_custody cfg wb" "paid_units cfg" "pays_outside cfg wb" same_books "do_withdraw_loop cfg sid"
  for cfg :: "('d, 'w) config" and sid wb
  by unfold_locales
    (auto simp: pays_outside_def processor_custody [folded in_custody_def]
      intro: processor_same_books deposit_event_same_books same_books_refl same_books_trans)

lemma do_withdraw_spec:
  assumes "do_withdraw cfg sid ws s = (failed, processed, s')"
  shows "mset failed + mset processed = mset ws" and "same_books s s'"
  using pay.run_partition [of cfg sid "rev ws" "[]" "[]" s] pay.run_keep [of cfg sid "rev ws" "[]" "[]" s] assms
  by (simp_all add: do_withdraw_def)

lemma same_booksD:
  assumes "same_books s s'"
  shows "st_withdrawals s' = st_withdrawals s" and "st_ingress s' = st_ingress s"
    and "st_now s' = st_now s" and "st_snapshot_nonce s' = st_snapshot_nonce s"
  by (subst assms [unfolded same_books_def], simp)+

subsection \<open>The stored withdrawals\<close>

definition pending_withdrawals :: "('d, 'w) ocex \<Rightarrow> u64 \<Rightarrow> account \<Rightarrow> 'd Withdrawal list" where
  "pending_withdrawals s sid acc =
    (case st_withdrawals s sid of None \<Rightarrow> [] | Some t \<Rightarrow> (case bt_get t acc of None \<Rightarrow> [] | Some ws \<Rightarrow> ws))"

definition tree_ok :: "(account, 'd Withdrawal list) btree \<Rightarrow> bool" where
  "tree_ok t \<longleftrightarrow> bt_wf t \<and>
    (\<forall>acc ws. bt_get t acc = Some ws \<longrightarrow> ws \<noteq> [] \<and> (\<forall>w\<in>set ws. w_main_account w = acc))"

text \<open>Every stored tree is a non-empty map from accounts to their non-empty lists.\<close>

definition withdrawals_inv :: "('d, 'w) ocex \<Rightarrow> bool" where
  "withdrawals_inv s \<longleftrightarrow> (\<forall>sid t. st_withdrawals s sid = Some t \<longrightarrow> t \<noteq> [] \<and> tree_ok t)"

lemma tree_ok_insert:
  "tree_ok t \<Longrightarrow> ws \<noteq> [] \<Longrightarrow> \<forall>w\<in>set ws. w_main_account w = acc \<Longrightarrow> tree_ok (bt_insert acc ws t)"
  by (auto simp: tree_ok_def bt_get_insert)

lemma tree_ok_remove: "tree_ok t \<Longrightarrow> tree_ok (bt_remove acc t)"
  by (auto simp: tree_ok_def bt_get_remove split: if_splits)

lemma tree_ok_Nil: "tree_ok []"
  by (simp add: tree_ok_def bt_wf_def)

lemma bt_insert_not_Nil [simp]: "bt_insert k v m \<noteq> []"
  by (cases m) (auto split: if_splits)

lemma create_withdrawal_tree_get:
  "bt_get (create_withdrawal_tree ws) acc =
    (let l = filter (\<lambda>w. w_main_account w = acc) ws in if l = [] then None else Some l)"
proof (induction ws arbitrary: acc rule: rev_induct)
  case Nil
  then show ?case by (simp add: create_withdrawal_tree_def)
next
  case (snoc w ws)
  have "create_withdrawal_tree (ws @ [w]) = push_withdrawal w (create_withdrawal_tree ws)"
    by (simp add: create_withdrawal_tree_def)
  with snoc [of acc] snoc [of "w_main_account w"] show ?case
    by (cases "acc = w_main_account w") (auto simp: push_withdrawal_def bt_get_insert Let_def split: if_splits)
qed

lemma create_withdrawal_tree_wf: "bt_wf (create_withdrawal_tree ws)"
proof -
  have "bt_wf m \<Longrightarrow> bt_wf (fold push_withdrawal ws m)" for m :: "(account, 'a Withdrawal list) btree"
    by (induction ws arbitrary: m) (auto simp: push_withdrawal_def split: option.splits)
  then show ?thesis
    unfolding create_withdrawal_tree_def by (simp add: bt_wf_def)
qed

lemma create_withdrawal_tree_ok: "tree_ok (create_withdrawal_tree ws)"
  by (auto simp: tree_ok_def create_withdrawal_tree_wf create_withdrawal_tree_get Let_def split: if_splits)

lemma claim_withdraw_cases:
  assumes "claim_withdraw cfg orig sid acc s = Inr s'"
  obtains tree ws failed processed s1 where
    "st_withdrawals s sid = Some tree" "bt_get tree acc = Some ws"
    "do_withdraw cfg sid ws s = (failed, processed, s1)"
    "st_withdrawals s' = (st_withdrawals s)(sid :=
      (let t = (if failed = [] then bt_remove acc tree else bt_insert acc failed (bt_remove acc tree))
       in if t = [] then None else Some t))"
    "s' = s1 \<lparr> st_withdrawals := st_withdrawals s', st_events := st_events s' \<rparr>"
proof -
  from assms obtain tree ws where t: "st_withdrawals s sid = Some tree" "bt_get tree acc = Some ws"
    unfolding claim_withdraw_def by (auto simp: res_simps)
  obtain failed processed s1 where d: "do_withdraw cfg sid ws s = (failed, processed, s1)"
    by (cases "do_withdraw cfg sid ws s") auto
  have k: "st_withdrawals s1 = st_withdrawals s"
    using do_withdraw_spec(2) [OF d] by (rule same_booksD)
  show ?thesis
    using assms t d k unfolding claim_withdraw_def
    by (intro that [OF t d]; auto simp: res_simps Let_def deposit_event_def split: if_splits)
qed

lemma claim_withdraw_inv:
  assumes "claim_withdraw cfg orig sid acc s = Inr s'" and "withdrawals_inv s"
  shows "withdrawals_inv s'"
  using assms(1)
proof (cases rule: claim_withdraw_cases)
  case (1 tree ws failed processed s1)
  have ok: "tree_ok tree" and "\<forall>w\<in>set ws. w_main_account w = acc"
    using assms(2) 1(1,2) by (auto simp: withdrawals_inv_def tree_ok_def)
  moreover have "set failed \<subseteq> set ws"
    using do_withdraw_spec(1) [OF 1(3)] by (metis mset_subset_eqD mset_subset_eq_add_left set_mset_mset subsetI)
  ultimately have "failed \<noteq> [] \<Longrightarrow> tree_ok (bt_insert acc failed (bt_remove acc tree))"
    by (intro tree_ok_insert tree_ok_remove) auto
  with tree_ok_remove [OF ok] assms(2) show ?thesis
    by (auto simp: withdrawals_inv_def 1(4) Let_def split: if_splits)
qed

subsection \<open>Properties\<close>

text \<open>C29: the payout loop splits the withdrawals it is given, with multiplicity, into failed and
  processed ones; nothing is paid twice or lost. Custody of each asset falls by at least the
  sum of the processed amounts, and besides the other pallets and the log nothing changes.\<close>

theorem do_withdraw_pays_each_once:
  assumes "currency_laws (c_currency cfg) wb" and "cross_chain_laws cfg wb"
    and "\<forall>w\<in>set ws. w_main_account w \<noteq> c_pallet_account cfg"
    and "do_withdraw cfg sid ws s = (failed, processed, s')"
  shows "mset failed + mset processed = mset ws \<and> same_books s s' \<and>
    (\<forall>a. in_custody cfg wb s' a + (\<Sum>w\<leftarrow>processed. paid_units cfg w a) \<le> in_custody cfg wb s a)"
proof (intro conjI allI)
  show "mset failed + mset processed = mset ws" "same_books s s'"
    using do_withdraw_spec [OF assms(4)] by auto
  fix a
  have "\<forall>w\<in>set (rev ws). pays_outside cfg wb w"
    using assms(1-3) by (simp add: pays_outside_def)
  then show "in_custody cfg wb s' a + (\<Sum>w\<leftarrow>processed. paid_units cfg w a) \<le> in_custody cfg wb s a"
    using pay.run_custody [of cfg sid "rev ws" "[]" "[]" s failed processed s' wb a] assms(4)
    by (simp add: do_withdraw_def)
qed

definition sample_withdrawal :: "account \<Rightarrow> rat \<Rightarrow> rat Withdrawal" where
  "sample_withdrawal acc amount =
    \<lparr> w_id = 1, w_main_account = acc, w_amount = amount, w_asset = Asset 5, w_fees = 0, w_stid = 1,
      w_destination = None \<rparr>"

text \<open>The pallet account holds six units of the asset; the amounts are 2, 9 and 3 units.\<close>

definition sample_custody :: "(rat, table) ocex" where
  "sample_custody = sample_chain \<lparr> st_world := [((Asset 5, 100), 6)] \<rparr>"

definition sample_withdrawals :: "rat Withdrawal list" where
  "sample_withdrawals =
    [sample_withdrawal 7 (2 / 10 ^ 12), sample_withdrawal 7 (9 / 10 ^ 12), sample_withdrawal 7 (3 / 10 ^ 12)]"

lemma sample_cross_chain_laws: "cross_chain_laws sample_cfg table_get"
  by (simp add: cross_chain_laws_def sample_cfg_def cross_chain_unit_def)

theorem do_withdraw_pays_each_once_witness:
  "\<exists>f p s'. do_withdraw sample_cfg 1 sample_withdrawals sample_custody = (f, p, s') \<and>
    size (mset f) = 1 \<and> in_custody sample_cfg table_get s' (Asset 5) + 5 \<le> in_custody sample_cfg table_get sample_custody (Asset 5)"
proof -
  let ?run = "do_withdraw sample_cfg 1 sample_withdrawals sample_custody"
  obtain f p s' where run: "?run = (f, p, s')"
    by (cases ?run) auto
  have "(case ?run of (f, p, _) \<Rightarrow> length f = 1 \<and> (\<Sum>w\<leftarrow>p. paid_units sample_cfg w (Asset 5)) = 5)"
    by code_simp
  then have fp: "length f = 1" "(\<Sum>w\<leftarrow>p. paid_units sample_cfg w (Asset 5)) = 5"
    by (auto simp: run)
  have ext: "\<forall>w\<in>set sample_withdrawals. w_main_account w \<noteq> c_pallet_account sample_cfg"
    by (simp add: sample_withdrawals_def sample_withdrawal_def sample_cfg_def)
  from do_withdraw_pays_each_once [OF sample_cfg_laws(2) sample_cross_chain_laws ext run] fp run show ?thesis
    by (metis size_mset)
qed

text \<open>The withdrawals of a snapshot are grouped by main account: each account with a
  withdrawal is mapped to exactly its withdrawals, in the order of the snapshot, and no other
  account appears.\<close>

theorem create_withdrawal_tree_groups:
  "bt_wf (create_withdrawal_tree ws) \<and>
    bt_get (create_withdrawal_tree ws) acc =
      (let own = filter (\<lambda>w. w_main_account w = acc) ws in if own = [] then None else Some own)"
  using create_withdrawal_tree_wf create_withdrawal_tree_get by blast



lemma settle_fee_native:
  assumes "currency_laws (c_currency cfg) wb" and "c_pallet_account cfg \<noteq> c_pot_account cfg"
    and "settle_fee cfg f s = Inr s'"
  shows "\<exists>n. fees_amount (c_dec cfg) f = Some n \<and> same_books s s' \<and>
    in_custody cfg wb s' Polkadex + unat n = in_custody cfg wb s Polkadex \<and>
    (\<forall>i r. wb (st_world s') (Asset i) r = wb (st_world s) (Asset i) r)"
proof -
  obtain n where n: "fees_amount (c_dec cfg) f = Some n"
    using assms(3) by (auto simp: settle_fee_def res_simps)
  show ?thesis
  proof (cases "f_asset f")
    case Polkadex
    then show ?thesis
      using assms(3) n currency_lawsD(4) [OF assms(1)]
      by (fastforce simp: settle_fee_def res_simps in_custody_def same_books_def)
  next
    case (Asset i)
    then show ?thesis
      using assms(2,3) n currency_lawsD(2) [OF assms(1)]
      by (fastforce simp: settle_fee_def res_simps in_custody_def same_books_def moved_exact_def moved_def)
  qed
qed

text \<open>C31: withdrawal fees of every asset are taken out of the pallet's native PDEX: settling a list
  of fees lowers the custody of PDEX by the sum of all amounts, whatever their assets, and
  leaves the fees charged in other assets where they are.\<close>

theorem settle_withdrawal_fees_all_native:
  assumes "currency_laws (c_currency cfg) wb" and "c_pallet_account cfg \<noteq> c_pot_account cfg"
    and "settle_withdrawal_fees cfg fees s = Inr s'"
  shows "in_custody cfg wb s' Polkadex + (\<Sum>f\<leftarrow>fees. unat (the (fees_amount (c_dec cfg) f))) =
      in_custody cfg wb s Polkadex \<and>
    (\<forall>i r. wb (st_world s') (Asset i) r = wb (st_world s) (Asset i) r)"
  using assms(3) unfolding settle_withdrawal_fees_def
proof (induction fees arbitrary: s)
  case (Cons f fees)
  from Cons.prems obtain t where t: "settle_fee cfg f s = Inr t" "fold_res (settle_fee cfg) fees t = Inr s'"
    by (auto simp: res_simps)
  from settle_fee_native [OF assms(1,2) t(1)] Cons.IH [OF t(2)] show ?case
    by (auto simp: add.assoc)
qed simp

theorem settle_withdrawal_fees_all_native_witness:
  "\<exists>s'. settle_withdrawal_fees sample_cfg [\<lparr> f_asset = Asset 5, f_amount = 2 / 10 ^ 12 \<rparr>]
      (sample_chain \<lparr> st_world := [((Polkadex, 100), 4)] \<rparr>) = Inr s' \<and>
    in_custody sample_cfg table_get s' Polkadex + 2 = 4"
proof -
  let ?f = "\<lparr> f_asset = Asset 5, f_amount = 2 / 10 ^ 12 \<rparr> :: rat Fees"
  let ?s = "sample_chain \<lparr> st_world := [((Polkadex, 100), 4)] \<rparr>"
  have "is_ok (settle_withdrawal_fees sample_cfg [?f] ?s)"
    by code_simp
  then obtain s' where run: "settle_withdrawal_fees sample_cfg [?f] ?s = Inr s'"
    by (auto simp: is_ok_iff)
  have amt: "fees_amount (c_dec sample_cfg) ?f = Some 2"
    by code_simp
  have c: "in_custody sample_cfg table_get ?s Polkadex = 4"
    by code_simp
  have ne: "c_pallet_account sample_cfg \<noteq> c_pot_account sample_cfg"
    by (simp add: sample_cfg_def)
  from settle_withdrawal_fees_all_native [OF sample_cfg_laws(2) ne run] run show ?thesis
    by (simp only: amt c list.map sum_list.Cons sum_list.Nil option.sel) auto
qed

end
