(* ===== verification/Ocex_Lmp.thy ===== *)
theory Ocex_Lmp
  imports Ocex_Accounts Ocex_Markets Ocex_Withdrawals
begin

text \<open>
  Liquidity mining in the orderbook pallet: the epochs (\<^verbatim>\<open>pallets/ocex/src/session.rs\<close>), the
  on-chain scores, the claim of rewards and the configuration of an epoch (\<^verbatim>\<open>lib.rs\<close>), and the
  trait \<^verbatim>\<open>LiquidityMining\<close> that the crowd-sourcing pallet calls (\<^verbatim>\<open>lmp.rs\<close>). The invariant
  \<open>lmp_inv\<close> orders the epochs: those open for claims lie before the one being finalised, which
  lies before the current one.
\<close>

subsection \<open>Epochs\<close>

definition EPOCH_LENGTH :: u32 where
  "EPOCH_LENGTH = 201600"

definition should_start_new_epoch :: "u32 \<Rightarrow> bool" where
  "should_start_new_epoch n \<longleftrightarrow> n mod EPOCH_LENGTH = 0"

definition should_stop_accepting_lmp_withdrawals :: "u32 \<Rightarrow> bool" where
  "should_stop_accepting_lmp_withdrawals n \<longleftrightarrow> sat_add n 7200 mod EPOCH_LENGTH = 0"

text \<open>Both messages of a new epoch are queued, or, when they do not fit, neither.\<close>

definition announce_epoch :: "('d, 'w) config \<Rightarrow> u32 \<Rightarrow> u16 \<Rightarrow> 'd LMPEpochConfig \<Rightarrow> ('d, 'w) ocex \<Rightarrow>
    ('d, 'w) ocex" where
  "announce_epoch cfg n epoch config s =
    (case Option.bind (try_push (unat (c_ingress_limit cfg)) (NewLMPEpoch epoch) (ingress_messages s n))
        (try_push (unat (c_ingress_limit cfg)) (LMPConfigMsg config)) of
      Some q \<Rightarrow> s \<lparr> st_ingress := (st_ingress s)(n \<mapsto> q) \<rparr>
    | None \<Rightarrow> s)"

definition start_new_epoch :: "('d, 'w) config \<Rightarrow> u32 \<Rightarrow> ('d, 'w) ocex \<Rightarrow> ('d, 'w) ocex" where
  "start_new_epoch cfg n s =
    (case st_expected_lmp_config s of
      None \<Rightarrow> s
    | Some config \<Rightarrow>
        let current = st_lmp_epoch s;
            s = (if current = 0 \<and> st_lmp_config s current = None
              then s \<lparr> st_lmp_config := (st_lmp_config s)(current \<mapsto> config) \<rparr> else s);
            s = (if st_finalize_lmp s = None then s \<lparr> st_finalize_lmp := Some current \<rparr> else s);
            current = sat_add current 1;
            s = s \<lparr> st_lmp_epoch := current \<rparr>;
            s = s \<lparr> st_lmp_config := (st_lmp_config s)(current \<mapsto> config) \<rparr>;
            s = s \<lparr> st_world := cs_new_epoch (c_crowd_source cfg) current (st_world s) \<rparr>
        in announce_epoch cfg n current config s)"

definition stop_accepting_lmp_withdrawals :: "('d, 'w) config \<Rightarrow> ('d, 'w) ocex \<Rightarrow> ('d, 'w) ocex" where
  "stop_accepting_lmp_withdrawals cfg s =
    s \<lparr> st_world := cs_stop_accepting_lmp_withdrawals (c_crowd_source cfg) (st_lmp_epoch s) (st_world s) \<rparr>"

definition start_new_epoch_lmp :: "('d, 'w) config \<Rightarrow> origin \<Rightarrow> ('d, 'w) ocex \<Rightarrow>
    dispatch_error + ('d, 'w) ocex" where
  "start_new_epoch_lmp cfg orig s =
    ensure (orig = Root) BadOrigin (Inr (start_new_epoch cfg (st_now s) s))"

subsection \<open>Scores\<close>

text \<open>The inner loop over the accounts of a market, with the counter of accounts still rewarded.\<close>

fun insert_metrics :: "u16 \<Rightarrow> TradingPair \<Rightarrow> (account \<times> 'd \<times> 'd) list \<Rightarrow> u16 \<Rightarrow> ('d, 'w) ocex \<Rightarrow>
    u16 \<times> ('d, 'w) ocex" where
  "insert_metrics epoch pair [] counter s = (counter, s)"
| "insert_metrics epoch pair ((main, score, fees_paid) # rest) counter s =
    (let s = s \<lparr> st_trader_metrics := (st_trader_metrics s)((epoch, pair, main) \<mapsto> (score, fees_paid, False)) \<rparr>;
         counter = sat_sub counter 1
     in if counter = 0 then (counter, s) else insert_metrics epoch pair rest counter s)"

fun insert_scores :: "u16 \<Rightarrow> 'd TradingPairMetricsMap \<Rightarrow> u16 \<Rightarrow> ('d, 'w) ocex \<Rightarrow> ('d, 'w) ocex" where
  "insert_scores epoch [] counter s = s"
| "insert_scores epoch ((pair, accounts, totals) # rest) counter s =
    (let (counter, s) = insert_metrics epoch pair accounts counter s
     in insert_scores epoch rest counter
          (s \<lparr> st_total_scores := (st_total_scores s)((epoch, pair) \<mapsto> totals) \<rparr>))"

definition update_lmp_scores :: "'d TradingPairMetricsMap \<Rightarrow> ('d, 'w) ocex \<Rightarrow>
    dispatch_error + ('d, 'w) ocex" where
  "update_lmp_scores metrics s =
    (case st_finalize_lmp s of
      None \<Rightarrow> Inr s
    | Some finalizing \<Rightarrow>
        let s = s \<lparr> st_finalize_lmp := None \<rparr> in
        bind_res (ok_or (Err LMPConfigNotFound) (st_lmp_config s finalizing)) (\<lambda>config.
        let s = insert_scores finalizing metrics (max_accounts_rewarded config) s;
            s = s \<lparr> st_lmp_claim_blk := (st_lmp_claim_blk s)
                  (finalizing \<mapsto> sat_add (st_now s) (claim_safety_period config)) \<rparr>;
            next_epoch = sat_add finalizing 1;
            s = (if next_epoch < st_lmp_epoch s then s \<lparr> st_finalize_lmp := Some next_epoch \<rparr> else s)
        in Inr (deposit_event (LMPScoresUpdated finalizing) s)))"

subsection \<open>Rewards\<close>

definition total_scores :: "('d, 'w) config \<Rightarrow> u16 \<Rightarrow> TradingPair \<Rightarrow> ('d, 'w) ocex \<Rightarrow> 'd \<times> 'd" where
  "total_scores cfg epoch market s =
    (case st_total_scores s (epoch, market) of
      None \<Rightarrow> (d_zero (c_dec cfg), d_zero (c_dec cfg)) | Some t \<Rightarrow> t)"

definition trader_metrics :: "('d, 'w) config \<Rightarrow> u16 \<Rightarrow> TradingPair \<Rightarrow> account \<Rightarrow> ('d, 'w) ocex \<Rightarrow>
    'd \<times> 'd \<times> bool" where
  "trader_metrics cfg epoch market main s =
    (case st_trader_metrics s (epoch, market, main) of
      None \<Rightarrow> (d_zero (c_dec cfg), d_zero (c_dec cfg), False) | Some t \<Rightarrow> t)"

definition div_or_default :: "'d decimal_ops \<Rightarrow> 'd \<Rightarrow> 'd \<Rightarrow> 'd" where
  "div_or_default D a b = (case d_checked_div D a b of None \<Rightarrow> d_zero D | Some q \<Rightarrow> q)"

definition calculate_lmp_rewards :: "('d, 'w) config \<Rightarrow> account \<Rightarrow> u16 \<Rightarrow> TradingPair \<Rightarrow>
    'd LMPEpochConfig \<Rightarrow> ('d, 'w) ocex \<Rightarrow> 'd \<times> 'd \<times> bool" where
  "calculate_lmp_rewards cfg main epoch market config s =
    (let (total_score, total_fees_paid) = total_scores cfg epoch market s;
         (score, fees_paid, is_claimed) = trader_metrics cfg epoch market main s;
         market_making_portion = div_or_default (c_dec cfg) score total_score;
         trading_rewards_portion = div_or_default (c_dec cfg) fees_paid total_fees_paid
     in (d_sat_mul (c_dec cfg) (total_liquidity_mining_rewards config) market_making_portion,
         d_sat_mul (c_dec cfg) (total_trading_rewards config) trading_rewards_portion, is_claimed))"

definition get_lmp_rewards :: "('d, 'w) config \<Rightarrow> account \<Rightarrow> u16 \<Rightarrow> TradingPair \<Rightarrow> ('d, 'w) ocex \<Rightarrow>
    'd \<times> 'd \<times> bool" where
  "get_lmp_rewards cfg main epoch market s =
    (case st_lmp_config s epoch of
      None \<Rightarrow> (d_zero (c_dec cfg), d_zero (c_dec cfg), False)
    | Some config \<Rightarrow>
        let (total_score, total_fees_paid) = total_scores cfg epoch market s;
            (score, fees_paid, is_claimed) = trader_metrics cfg epoch market main s;
            market_making_portion = div_or_default (c_dec cfg) score total_score;
            trading_rewards_portion = div_or_default (c_dec cfg) fees_paid total_fees_paid
        in (d_sat_mul (c_dec cfg) (total_liquidity_mining_rewards config) market_making_portion,
            d_sat_mul (c_dec cfg) (total_trading_rewards config) trading_rewards_portion, is_claimed))"

definition do_claim_lmp_rewards :: "('d, 'w) config \<Rightarrow> account \<Rightarrow> u16 \<Rightarrow> TradingPair \<Rightarrow> ('d, 'w) ocex \<Rightarrow>
    dispatch_error + u128 \<times> ('d, 'w) ocex" where
  "do_claim_lmp_rewards cfg main epoch market s =
    bind_res (ok_or (Err RewardsNotReady) (st_lmp_claim_blk s epoch)) (\<lambda>claim_blk.
    ensure (claim_blk \<le> st_now s) (Err RewardsNotReady)
    (bind_res (ok_or (Err LMPConfigNotFound) (st_lmp_config s epoch)) (\<lambda>config.
    let (mm_rewards, trading_rewards, is_claimed) = calculate_lmp_rewards cfg main epoch market config s in
    ensure (\<not> is_claimed) (Err RewardAlreadyClaimed)
    (bind_res (to_balance cfg (d_sat_add (c_dec cfg) mm_rewards trading_rewards)) (\<lambda>total.
    bind_res (map_err External
      (native_transfer (c_currency cfg) (st_world s) (c_rewards_account cfg) main total Expendable)) (\<lambda>w.
    let s = s \<lparr> st_world := w \<rparr>;
        (score, fees_paid, _) = trader_metrics cfg epoch market main s;
        s = s \<lparr> st_trader_metrics := (st_trader_metrics s)((epoch, market, main) \<mapsto> (score, fees_paid, True)) \<rparr>;
        s = deposit_event (LMPRewardClaimed epoch market main total) s
    in Inr (total, s)))))))"

definition claim_lmp_rewards :: "('d, 'w) config \<Rightarrow> origin \<Rightarrow> u16 \<Rightarrow> TradingPair \<Rightarrow> ('d, 'w) ocex \<Rightarrow>
    dispatch_error + ('d, 'w) ocex" where
  "claim_lmp_rewards cfg orig epoch market s =
    bind_res (ensure_signed orig) (\<lambda>main.
    bind_res (do_claim_lmp_rewards cfg main epoch market s) (\<lambda>(_, s). Inr s))"

subsection \<open>Configuration of an epoch\<close>

definition set_if_some :: "'a option \<Rightarrow> ('a \<Rightarrow> 'e + 'c) \<Rightarrow> 'c \<Rightarrow> 'e + 'c" where
  "set_if_some opt f c = (case opt of None \<Rightarrow> Inr c | Some x \<Rightarrow> f x)"

definition market_config :: "'d decimal_ops \<Rightarrow> LMPMarketConfigWrapper \<Rightarrow> 'd LMPMarketConfig option" where
  "market_config D m =
    (case (d_from_units D (mw_market_weightage m), d_from_units D (mw_min_fees_paid m),
        d_from_units D (mw_min_maker_volume m), d_from_units D (mw_max_spread m), d_from_units D (mw_min_depth m)) of
      (Some w, Some f, Some v, Some sp, Some dp) \<Rightarrow>
        Some \<lparr> weightage = w, min_fees_paid = f, min_maker_volume = v, max_spread = sp, min_depth = dp \<rparr>
    | _ \<Rightarrow> None)"

definition add_market :: "('d, 'w) config \<Rightarrow> ('d, 'w) ocex \<Rightarrow> LMPMarketConfigWrapper \<Rightarrow>
    u128 \<times> 'd LMPEpochConfig \<Rightarrow> dispatch_error + u128 \<times> 'd LMPEpochConfig" where
  "add_market cfg s m = (\<lambda>(total_percent, config).
    ensure (st_trading_pairs s (base (mw_trading_pair m), quote (mw_trading_pair m)) \<noteq> None)
      (Err TradingPairNotRegistered)
    (let total_percent = sat_add total_percent (mw_market_weightage m) in
    bind_res (ok_or Panicked (market_config (c_dec cfg) m)) (\<lambda>mc.
    Inr (total_percent, config \<lparr> epoch_markets := bt_insert (mw_trading_pair m) mc (epoch_markets config) \<rparr>))))"

definition set_lmp_epoch_config :: "('d, 'w) config \<Rightarrow> origin \<Rightarrow> u128 option \<Rightarrow> u128 option \<Rightarrow>
    LMPMarketConfigWrapper list \<Rightarrow> u16 option \<Rightarrow> u32 option \<Rightarrow> ('d, 'w) ocex \<Rightarrow>
    dispatch_error + ('d, 'w) ocex" where
  "set_lmp_epoch_config cfg orig lm_rewards tr_rewards markets max_accounts safety s =
    ensure_governance cfg orig
    (let config = (case st_expected_lmp_config s of
           None \<Rightarrow> default_LMPEpochConfig (c_dec cfg) | Some c \<Rightarrow> c) in
    bind_res (set_if_some lm_rewards (\<lambda>r. bind_res (ok_or Panicked (d_from_units (c_dec cfg) r)) (\<lambda>x.
      Inr (config \<lparr> total_liquidity_mining_rewards := x \<rparr>))) config) (\<lambda>config.
    bind_res (set_if_some tr_rewards (\<lambda>r. bind_res (ok_or Panicked (d_from_units (c_dec cfg) r)) (\<lambda>x.
      Inr (config \<lparr> total_trading_rewards := x \<rparr>))) config) (\<lambda>config.
    bind_res (fold_res (add_market cfg s) markets (0, config)) (\<lambda>(total_percent, config).
    ensure (total_percent = UNIT_BALANCE) (Err InvalidMarketWeightage)
    (let config = (case max_accounts of None \<Rightarrow> config | Some m \<Rightarrow> config \<lparr> max_accounts_rewarded := m \<rparr>);
         config = (case safety of None \<Rightarrow> config | Some p \<Rightarrow> config \<lparr> claim_safety_period := p \<rparr>) in
    ensure (LMPEpochConfig_verify (c_dec cfg) config) (Err InvalidLMPConfig)
    (Inr (s \<lparr> st_expected_lmp_config := Some config \<rparr>)))))))"

subsection \<open>The trait LiquidityMining\<close>

definition register_pool :: "('d, 'w) config \<Rightarrow> account \<Rightarrow> account \<Rightarrow> ('d, 'w) ocex \<Rightarrow>
    dispatch_error + ('d, 'w) ocex" where
  "register_pool cfg pool trading_account s = register_user cfg pool trading_account s"

definition average_price :: "TradingPair \<Rightarrow> ('d, 'w) ocex \<Rightarrow> 'd option" where
  "average_price market s = map_option fst (bt_get (st_price_oracle s) (base market, quote market))"

definition add_liquidity :: "('d, 'w) config \<Rightarrow> TradingPair \<Rightarrow> account \<Rightarrow> account \<Rightarrow> 'd \<Rightarrow> 'd \<Rightarrow> 'd \<Rightarrow>
    ('d, 'w) ocex \<Rightarrow> dispatch_error + ('d, 'w) ocex" where
  "add_liquidity cfg market pool lp total_shares_issued base_amount quote_amount s =
    bind_res (to_balance cfg base_amount) (\<lambda>base_units.
    bind_res (do_deposit cfg (new_random_id cfg None s) pool (base market) base_units s) (\<lambda>s.
    bind_res (to_balance cfg quote_amount) (\<lambda>quote_units.
    bind_res (do_deposit cfg (new_random_id cfg None s) pool (quote market) quote_units s) (\<lambda>s.
    push_ingress cfg (AddLiquidity (default_TradingPairConfig (c_dec cfg) (base market) (quote market)) pool lp
      total_shares_issued base_amount quote_amount) s))))"

text \<open>A message that does not fit is dropped.\<close>

definition push_or_drop :: "('d, 'w) config \<Rightarrow> 'd IngressMessages \<Rightarrow> ('d, 'w) ocex \<Rightarrow> ('d, 'w) ocex" where
  "push_or_drop cfg msg s = (case push_ingress cfg msg s of Inr s' \<Rightarrow> s' | Inl _ \<Rightarrow> s)"

definition remove_liquidity :: "('d, 'w) config \<Rightarrow> TradingPair \<Rightarrow> account \<Rightarrow> account \<Rightarrow> u128 \<Rightarrow> u128 \<Rightarrow>
    ('d, 'w) ocex \<Rightarrow> dispatch_error + ('d, 'w) ocex" where
  "remove_liquidity cfg market pool lp burned_shares total_shares s =
    bind_res (ok_or Panicked (d_from (c_dec cfg) burned_shares)) (\<lambda>burned.
    bind_res (ok_or Panicked (d_from (c_dec cfg) total_shares)) (\<lambda>total.
    Inr (push_or_drop cfg (RemoveLiquidity (default_TradingPairConfig (c_dec cfg) (base market) (quote market))
      pool lp (div_or_default (c_dec cfg) burned total) total) s)))"

definition force_close_pool :: "('d, 'w) config \<Rightarrow> TradingPair \<Rightarrow> account \<Rightarrow> ('d, 'w) ocex \<Rightarrow>
    ('d, 'w) ocex" where
  "force_close_pool cfg market pool s =
    push_or_drop cfg (ForceClosePool (default_TradingPairConfig (c_dec cfg) (base market) (quote market)) pool) s"

definition claim_rewards :: "('d, 'w) config \<Rightarrow> account \<Rightarrow> u16 \<Rightarrow> TradingPair \<Rightarrow> ('d, 'w) ocex \<Rightarrow>
    dispatch_error + u128 \<times> ('d, 'w) ocex" where
  "claim_rewards cfg main epoch market s = do_claim_lmp_rewards cfg main epoch market s"

subsection \<open>The order of the epochs\<close>

text \<open>
  Epoch numbers saturate at the last 16-bit value; up to there: every epoch open for claims
  lies before the epoch being finalised (before the current one, if none is), the epoch being
  finalised lies before the current one, and all epochs up to the current one are configured.
\<close>

definition epochs_ok :: "u16 \<Rightarrow> u16 option \<Rightarrow> (u16 \<rightharpoonup> u32) \<Rightarrow> (u16 \<rightharpoonup> 'd LMPEpochConfig) \<Rightarrow> bool" where
  "epochs_ok current fin claim_blk config \<longleftrightarrow> current = - 1 \<or>
    (\<forall>e. claim_blk e \<noteq> None \<longrightarrow> e < (case fin of None \<Rightarrow> current | Some f \<Rightarrow> f)) \<and>
    (\<forall>f. fin = Some f \<longrightarrow> f < current) \<and>
    (0 < current \<longrightarrow> (\<forall>e. e \<le> current \<longrightarrow> config e \<noteq> None))"

definition lmp_inv :: "('d, 'w) ocex \<Rightarrow> bool" where
  "lmp_inv s \<longleftrightarrow> epochs_ok (st_lmp_epoch s) (st_finalize_lmp s) (st_lmp_claim_blk s) (st_lmp_config s)"

lemma lmp_inv_upd [simp]:
  "lmp_inv (s \<lparr> st_allowlisted := x0 \<rparr>) = lmp_inv s"
  "lmp_inv (s \<lparr> st_accounts := x1 \<rparr>) = lmp_inv s"
  "lmp_inv (s \<lparr> st_proxies := x2 \<rparr>) = lmp_inv s"
  "lmp_inv (s \<lparr> st_trading_pairs := x3 \<rparr>) = lmp_inv s"
  "lmp_inv (s \<lparr> st_snapshots := x4 \<rparr>) = lmp_inv s"
  "lmp_inv (s \<lparr> st_snapshot_nonce := x5 \<rparr>) = lmp_inv s"
  "lmp_inv (s \<lparr> st_exchange_state := x6 \<rparr>) = lmp_inv s"
  "lmp_inv (s \<lparr> st_withdrawals := x7 \<rparr>) = lmp_inv s"
  "lmp_inv (s \<lparr> st_ingress := x8 \<rparr>) = lmp_inv s"
  "lmp_inv (s \<lparr> st_onchain_events := x9 \<rparr>) = lmp_inv s"
  "lmp_inv (s \<lparr> st_total_assets := x10 \<rparr>) = lmp_inv s"
  "lmp_inv (s \<lparr> st_authorities := x11 \<rparr>) = lmp_inv s"
  "lmp_inv (s \<lparr> st_next_authorities := x12 \<rparr>) = lmp_inv s"
  "lmp_inv (s \<lparr> st_validator_set_id := x13 \<rparr>) = lmp_inv s"
  "lmp_inv (s \<lparr> st_operator_key := x14 \<rparr>) = lmp_inv s"
  "lmp_inv (s \<lparr> st_trader_metrics := x15 \<rparr>) = lmp_inv s"
  "lmp_inv (s \<lparr> st_total_scores := x16 \<rparr>) = lmp_inv s"
  "lmp_inv (s \<lparr> st_expected_lmp_config := x17 \<rparr>) = lmp_inv s"
  "lmp_inv (s \<lparr> st_price_oracle := x18 \<rparr>) = lmp_inv s"
  "lmp_inv (s \<lparr> st_fee_distribution := x19 \<rparr>) = lmp_inv s"
  "lmp_inv (s \<lparr> st_auction_block := x20 \<rparr>) = lmp_inv s"
  "lmp_inv (s \<lparr> st_auction := x21 \<rparr>) = lmp_inv s"
  "lmp_inv (s \<lparr> st_now := x22 \<rparr>) = lmp_inv s"
  "lmp_inv (s \<lparr> st_events := x23 \<rparr>) = lmp_inv s"
  "lmp_inv (s \<lparr> st_world := x24 \<rparr>) = lmp_inv s"
  by (simp_all add: lmp_inv_def)

lemma insert_metrics_frame:
  "\<exists>tm. snd (insert_metrics e p ms c s) = s \<lparr> st_trader_metrics := tm \<rparr>"
proof (induction e p ms c s rule: insert_metrics.induct)
  case (1 e p c s)
  show ?case by (intro exI [of _ "st_trader_metrics s"]) simp
next
  case (2 e p main sc fe rest c s)
  then show ?case by (auto simp: Let_def)
qed

lemma finalize_update_swap:
  "s \<lparr> st_finalize_lmp := f, st_trader_metrics := m \<rparr> = s \<lparr> st_trader_metrics := m, st_finalize_lmp := f \<rparr>"
  "s \<lparr> st_finalize_lmp := f, st_total_scores := t \<rparr> = s \<lparr> st_total_scores := t, st_finalize_lmp := f \<rparr>"
  by (rule ocex.equality; simp)+

lemma insert_metrics_finalize:
  "insert_metrics e p ms c (s \<lparr> st_finalize_lmp := f \<rparr>) =
    (let (c', s') = insert_metrics e p ms c s in (c', s' \<lparr> st_finalize_lmp := f \<rparr>))"
  by (induction e p ms c s rule: insert_metrics.induct)
    (simp_all add: Let_def finalize_update_swap split: prod.splits)

lemma insert_scores_finalize:
  "insert_scores e ms c (s \<lparr> st_finalize_lmp := f \<rparr>) = (insert_scores e ms c s) \<lparr> st_finalize_lmp := f \<rparr>"
proof (induction ms arbitrary: c s)
  case (Cons m ms)
  then show ?case
    by (cases m) (simp add: insert_metrics_finalize finalize_update_swap split: prod.splits)
qed simp

lemma insert_scores_frame:
  "\<exists>tm ts. insert_scores e ms c s = s \<lparr> st_trader_metrics := tm, st_total_scores := ts \<rparr>"
proof (induction ms arbitrary: c s)
  case Nil
  show ?case by (intro exI [of _ "st_trader_metrics s"] exI [of _ "st_total_scores s"]) simp
next
  case (Cons m ms)
  obtain p accs t where m: "m = (p, accs, t)" by (cases m) auto
  obtain c1 s1 where i: "insert_metrics e p accs c s = (c1, s1)"
    by (cases "insert_metrics e p accs c s") auto
  then obtain tm where s1: "s1 = s \<lparr> st_trader_metrics := tm \<rparr>"
    using insert_metrics_frame [of e p accs c s] by auto
  from Cons [of c1 "s1 \<lparr> st_total_scores := (st_total_scores s1)((e, p) \<mapsto> t) \<rparr>"] show ?case
    by (auto simp: m i s1)
qed

lemma update_lmp_scores_cases:
  assumes "update_lmp_scores ms s = Inr s'"
  obtains (idle) "st_finalize_lmp s = None" "s' = s"
  | (scored) e config where "st_finalize_lmp s = Some e" "st_lmp_config s e = Some config"
    "s' = s \<lparr> st_trader_metrics := st_trader_metrics (insert_scores e ms (max_accounts_rewarded config) s),
      st_total_scores := st_total_scores (insert_scores e ms (max_accounts_rewarded config) s),
      st_lmp_claim_blk := (st_lmp_claim_blk s)(e \<mapsto> sat_add (st_now s) (claim_safety_period config)),
      st_finalize_lmp := (if sat_add e 1 < st_lmp_epoch s then Some (sat_add e 1) else None),
      st_events := st_events s @ [LMPScoresUpdated e] \<rparr>"
proof (cases "st_finalize_lmp s")
  case None
  then have "s' = s" using assms by (simp add: update_lmp_scores_def)
  with None show ?thesis by (rule idle)
next
  case (Some e)
  then obtain config where c: "st_lmp_config s e = Some config"
    using assms by (auto simp: update_lmp_scores_def res_simps)
  obtain tm ts where i: "insert_scores e ms (max_accounts_rewarded config) s =
      s \<lparr> st_trader_metrics := tm, st_total_scores := ts \<rparr>"
    using insert_scores_frame by blast
  have "s' = s \<lparr> st_trader_metrics := tm, st_total_scores := ts,
      st_lmp_claim_blk := (st_lmp_claim_blk s)(e \<mapsto> sat_add (st_now s) (claim_safety_period config)),
      st_finalize_lmp := (if sat_add e 1 < st_lmp_epoch s then Some (sat_add e 1) else None),
      st_events := st_events s @ [LMPScoresUpdated e] \<rparr>"
    using assms Some c
    by (intro ocex.equality) (auto simp: update_lmp_scores_def Let_def deposit_event_def i insert_scores_finalize
        split: if_splits)
  with i show ?thesis
    by (intro scored [OF Some c]) simp
qed

lemma unat_succ_u16: "cur \<noteq> - 1 \<Longrightarrow> unat (sat_add cur 1) = unat cur + 1" for cur :: u16
proof -
  assume "cur \<noteq> - 1"
  then have "unat cur \<noteq> 65535"
    by (simp add: word_unat_eq_iff unat_minus_one_word)
  moreover have "unat cur < 65536"
    using unsigned_less [of cur] by simp
  ultimately show ?thesis
    by (simp add: unat_sat_add)
qed

lemma succ_u16:
  fixes cur e :: u16
  assumes "cur \<noteq> - 1"
  shows "e < sat_add cur 1 \<longleftrightarrow> e \<le> cur" and "e \<le> sat_add cur 1 \<longleftrightarrow> e \<le> cur \<or> e = sat_add cur 1"
  using unat_succ_u16 [OF assms]
  by (auto simp: word_less_nat_alt word_le_nat_alt word_unat_eq_iff)

lemma epochs_ok_next:
  assumes "epochs_ok cur fin cb cf" and "cur \<noteq> 0 \<or> cf 0 \<noteq> None"
  shows "epochs_ok (sat_add cur 1) (Some (case fin of None \<Rightarrow> cur | Some f \<Rightarrow> f)) cb (cf(sat_add cur 1 \<mapsto> c))"
proof (cases "cur = - 1")
  case True
  then have "sat_add cur 1 = - 1" by (simp add: sat_add_def unat_minus_one_word)
  then show ?thesis by (simp add: epochs_ok_def)
next
  case False
  note [simp] = succ_u16 [OF False]
  have z: "e \<le> cur \<Longrightarrow> \<not> 0 < cur \<Longrightarrow> e = 0" for e
    by (simp add: word_le_nat_alt word_less_nat_alt word_unat_eq_iff)
  show ?thesis
    using assms False unfolding epochs_ok_def
    by (auto simp: word_neq_0_conv split: option.splits dest: z)
qed

lemma epochs_ok_finalized:
  assumes "epochs_ok cur (Some f) cb cf"
  shows "epochs_ok cur (if sat_add f 1 < cur then Some (sat_add f 1) else None) (cb(f \<mapsto> b)) cf"
proof (cases "cur = - 1")
  case False
  with assms have "f < cur" by (simp add: epochs_ok_def)
  then have f: "f \<noteq> - 1" by auto
  have "\<not> sat_add f 1 < cur \<Longrightarrow> e \<le> f \<Longrightarrow> e < cur" for e
    using \<open>f < cur\<close> by simp
  then show ?thesis
    using assms False succ_u16(1) [OF f] \<open>f < cur\<close> by (auto simp: epochs_ok_def less_imp_le)
qed (simp add: epochs_ok_def)

lemma announce_epoch_frame:
  "announce_epoch cfg n e c s = s \<lparr> st_ingress := st_ingress (announce_epoch cfg n e c s) \<rparr>"
  by (simp add: announce_epoch_def split: option.splits)

lemma lmp_inv_announce [simp]: "lmp_inv (announce_epoch cfg n e c s) = lmp_inv s"
  by (simp add: announce_epoch_def split: option.splits)

lemma start_new_epoch_inv:
  assumes "lmp_inv s"
  shows "lmp_inv (start_new_epoch cfg n s)"
proof (cases "st_expected_lmp_config s")
  case (Some c)
  let ?cf = "if st_lmp_epoch s = 0 \<and> st_lmp_config s (st_lmp_epoch s) = None
       then (st_lmp_config s)(st_lmp_epoch s \<mapsto> c) else st_lmp_config s"
  have ok: "epochs_ok (st_lmp_epoch s) (st_finalize_lmp s) (st_lmp_claim_blk s) ?cf"
    using assms by (auto simp: lmp_inv_def epochs_ok_def)
  have "st_lmp_epoch s \<noteq> 0 \<or> ?cf 0 \<noteq> None" by simp
  note next_ok = epochs_ok_next [OF ok this, of c]
  have "st_lmp_epoch (start_new_epoch cfg n s) = sat_add (st_lmp_epoch s) 1"
    "st_finalize_lmp (start_new_epoch cfg n s) =
      Some (case st_finalize_lmp s of None \<Rightarrow> st_lmp_epoch s | Some f \<Rightarrow> f)"
    "st_lmp_claim_blk (start_new_epoch cfg n s) = st_lmp_claim_blk s"
    "st_lmp_config (start_new_epoch cfg n s) = ?cf(sat_add (st_lmp_epoch s) 1 \<mapsto> c)"
    by (auto simp: start_new_epoch_def Let_def announce_epoch_def Some split: option.splits)
  with next_ok show ?thesis
    by (simp only: lmp_inv_def)
qed (use assms in \<open>simp add: start_new_epoch_def\<close>)

lemma update_lmp_scores_inv:
  assumes "update_lmp_scores ms s = Inr s'" and "lmp_inv s"
  shows "lmp_inv s'"
  using assms(1)
proof (cases rule: update_lmp_scores_cases)
  case (scored e config)
  have "epochs_ok (st_lmp_epoch s) (Some e) (st_lmp_claim_blk s) (st_lmp_config s)"
    using assms(2) scored(1) by (simp add: lmp_inv_def)
  from epochs_ok_finalized [OF this, of "sat_add (st_now s) (claim_safety_period config)"] show ?thesis
    unfolding lmp_inv_def scored(3) by simp
qed (use assms(2) in simp)

lemma insert_metrics_other:
  "e' \<noteq> e \<or> p' \<noteq> p \<Longrightarrow>
    st_trader_metrics (snd (insert_metrics e p ms c s)) (e', p', a) = st_trader_metrics s (e', p', a)"
  by (induction e p ms c s rule: insert_metrics.induct) (auto simp: Let_def)

lemma insert_scores_other:
  "e' \<noteq> e \<or> p' \<notin> fst ` set ms \<Longrightarrow>
    st_trader_metrics (insert_scores e ms c s) (e', p', a) = st_trader_metrics s (e', p', a)"
proof (induction ms arbitrary: c s)
  case (Cons m ms)
  obtain p accs t where m: "m = (p, accs, t)" by (cases m) auto
  show ?case
    using Cons insert_metrics_other [of e' e p' p accs c s a]
    by (auto simp: m split: prod.splits)
qed simp

lemma insert_metrics_first:
  assumes "distinct (map fst ms)" and "ms = (main, sc, fe) # rest"
  shows "st_trader_metrics (snd (insert_metrics e p ms c s)) (e, p, main) = Some (sc, fe, False)"
proof -
  have keep: "main \<notin> fst ` set rest \<Longrightarrow>
      st_trader_metrics (snd (insert_metrics e p rest c s)) (e, p, main) = st_trader_metrics s (e, p, main)" for c s
    by (induction e p rest c s rule: insert_metrics.induct) (auto simp: Let_def)
  show ?thesis
    using assms by (auto simp: Let_def keep)
qed

subsection \<open>Properties\<close>

definition claimed :: "('d, 'w) ocex \<Rightarrow> u16 \<Rightarrow> TradingPair \<Rightarrow> account \<Rightarrow> bool" where
  "claimed s epoch market main \<longleftrightarrow>
    (case st_trader_metrics s (epoch, market, main) of Some (_, _, b) \<Rightarrow> b | None \<Rightarrow> False)"

lemma claimed_iff: "claimed s epoch market main \<longleftrightarrow> snd (snd (trader_metrics cfg epoch market main s))"
  by (auto simp: claimed_def trader_metrics_def split: option.splits)

lemma do_claim_Inr:
  assumes "do_claim_lmp_rewards cfg main epoch market s = Inr (reward, s')"
  obtains blk config w where "st_lmp_claim_blk s epoch = Some blk" "blk \<le> st_now s"
    "st_lmp_config s epoch = Some config" "\<not> claimed s epoch market main"
    "to_balance cfg (d_sat_add (c_dec cfg) (fst (calculate_lmp_rewards cfg main epoch market config s))
      (fst (snd (calculate_lmp_rewards cfg main epoch market config s)))) = Inr reward"
    "native_transfer (c_currency cfg) (st_world s) (c_rewards_account cfg) main reward Expendable = Inr w"
    "s' = s \<lparr> st_world := w, st_trader_metrics := (st_trader_metrics s)((epoch, market, main) \<mapsto>
        (fst (trader_metrics cfg epoch market main s), fst (snd (trader_metrics cfg epoch market main s)), True)),
      st_events := st_events s @ [LMPRewardClaimed epoch market main reward] \<rparr>"
proof -
  have tm: "trader_metrics cfg epoch market main (s \<lparr> st_world := w \<rparr>) = trader_metrics cfg epoch market main s" for w
    by (simp add: trader_metrics_def)
  have cl: "snd (snd (calculate_lmp_rewards cfg main epoch market config s)) = claimed s epoch market main" for config
    by (simp add: calculate_lmp_rewards_def claimed_iff [of _ _ _ _ cfg] split: prod.splits)
  obtain blk config where b: "st_lmp_claim_blk s epoch = Some blk" "blk \<le> st_now s"
      "st_lmp_config s epoch = Some config"
    using assms unfolding do_claim_lmp_rewards_def bind_res_Inr ensure_Inr ok_or_Inr by blast
  obtain mm tr cl' where calc: "calculate_lmp_rewards cfg main epoch market config s = (mm, tr, cl')"
    by (cases "calculate_lmp_rewards cfg main epoch market config s") auto
  obtain sc fe cl'' where met: "trader_metrics cfg epoch market main s = (sc, fe, cl'')"
    by (cases "trader_metrics cfg epoch market main s") auto
  from assms have "\<not> cl'" and "\<exists>w. to_balance cfg (d_sat_add (c_dec cfg) mm tr) = Inr reward \<and>
      native_transfer (c_currency cfg) (st_world s) (c_rewards_account cfg) main reward Expendable = Inr w \<and>
      s' = s \<lparr> st_world := w, st_trader_metrics := (st_trader_metrics s)((epoch, market, main) \<mapsto> (sc, fe, True)),
        st_events := st_events s @ [LMPRewardClaimed epoch market main reward] \<rparr>"
    by (auto simp: do_claim_lmp_rewards_def b calc met tm res_simps Let_def deposit_event_def)
  then obtain w where "to_balance cfg (d_sat_add (c_dec cfg) mm tr) = Inr reward"
      "native_transfer (c_currency cfg) (st_world s) (c_rewards_account cfg) main reward Expendable = Inr w"
      "s' = s \<lparr> st_world := w, st_trader_metrics := (st_trader_metrics s)((epoch, market, main) \<mapsto> (sc, fe, True)),
        st_events := st_events s @ [LMPRewardClaimed epoch market main reward] \<rparr>"
    by blast
  with \<open>\<not> cl'\<close> cl [of config] show ?thesis
    by (intro that [OF b]) (simp_all add: calc met)
qed

text \<open>A reward is claimed only after the claim block of its epoch, and only once: a successful
  claim pays at most once the computed reward out of the rewards account, marks exactly this
  trader's entry as claimed, and every later claim fails as long as the mark stands.\<close>

theorem lmp_reward_claimed_once:
  assumes "currency_laws (c_currency cfg) wb"
    and "do_claim_lmp_rewards cfg main epoch market s = Inr (reward, s')"
  shows "(\<exists>blk. st_lmp_claim_blk s epoch = Some blk \<and> blk \<le> st_now s) \<and>
    \<not> claimed s epoch market main \<and> claimed s' epoch market main \<and>
    (\<forall>k. k \<noteq> (epoch, market, main) \<longrightarrow> st_trader_metrics s' k = st_trader_metrics s k) \<and>
    moved wb (st_world s) (st_world s') Polkadex (c_rewards_account cfg) main (unat reward) \<and>
    (\<forall>t. claimed t epoch market main \<longrightarrow> \<not> is_ok (do_claim_lmp_rewards cfg main epoch market t))"
proof -
  have again: "\<not> is_ok (do_claim_lmp_rewards cfg main epoch market t)" if "claimed t epoch market main" for t
    using that by (auto simp: is_ok_iff elim: do_claim_Inr)
  from assms(2) show ?thesis
    by (cases rule: do_claim_Inr)
      (auto simp: claimed_def [of "_ \<lparr> st_world := _, st_trader_metrics := _, st_events := _ \<rparr>"]
        dest: again intro: currency_lawsD(1) [OF assms(1)])
qed

text \<open>An epoch open for claims in which account 7 made half of the score of one market.\<close>

definition sample_epoch_config :: "rat LMPEpochConfig" where
  "sample_epoch_config =
    \<lparr> total_liquidity_mining_rewards = 4 / 10 ^ 12, total_trading_rewards = 2 / 10 ^ 12,
      epoch_markets = [(TradingPair Polkadex (Asset 5),
        \<lparr> weightage = 1, min_fees_paid = 0, min_maker_volume = 0, max_spread = 0, min_depth = 0 \<rparr>)],
      max_accounts_rewarded = 1, claim_safety_period = 0 \<rparr>"

definition sample_metrics :: "rat TradingPairMetricsMap" where
  "sample_metrics =
    [(TradingPair Polkadex (Asset 5), [(7, 1, 1), (8, 1, 1)], (2, 2)),
     (TradingPair Polkadex (Asset 6), [(8, 1, 1)], (1, 1))]"

definition sample_finalizing :: "(rat, table) ocex" where
  "sample_finalizing = (init_state [((Polkadex, 102), 9)])
    \<lparr> st_lmp_epoch := 1, st_lmp_config := [0 \<mapsto> sample_epoch_config, 1 \<mapsto> sample_epoch_config],
      st_finalize_lmp := Some 0 \<rparr>"

definition sample_scored :: "(rat, table) ocex" where
  "sample_scored = (case update_lmp_scores sample_metrics sample_finalizing of Inr s \<Rightarrow> s | Inl _ \<Rightarrow> sample_finalizing)"

theorem lmp_reward_claimed_once_witness:
  "\<exists>s'. do_claim_lmp_rewards sample_cfg 7 0 (TradingPair Polkadex (Asset 5)) sample_scored = Inr (3, s') \<and>
    claimed s' 0 (TradingPair Polkadex (Asset 5)) 7"
proof -
  let ?run = "do_claim_lmp_rewards sample_cfg 7 0 (TradingPair Polkadex (Asset 5)) sample_scored"
  have "(case ?run of Inr (r, _) \<Rightarrow> r = 3 | Inl _ \<Rightarrow> False)"
    by code_simp
  then obtain s' where run: "?run = Inr (3, s')"
    by (auto split: sum.splits)
  from lmp_reward_claimed_once [OF sample_cfg_laws(2) run] run show ?thesis by blast
qed

text \<open>The limit on rewarded accounts is not a limit over all markets: whatever the configured
  maximum, the first account of every market of the snapshot is recorded and can claim.\<close>

theorem update_lmp_scores_first_of_each_market:
  assumes "bt_wf ms" and "update_lmp_scores ms s = Inr s'" and "st_finalize_lmp s = Some e"
    and "(pair, (main, score, fees) # rest, totals) \<in> set ms" and "bt_wf ((main, score, fees) # rest)"
  shows "st_trader_metrics s' (e, pair, main) = Some (score, fees, False)"
proof -
  have "distinct (map fst ms)"
    using assms(1) by (rule bt_wf_distinct)
  then have stored: "st_trader_metrics (insert_scores e ms c t) (e, pair, main) = Some (score, fees, False)"
    for c and t :: "('a, 'b) ocex"
    using assms(4)
  proof (induction ms arbitrary: c t)
    case (Cons m ms)
    show ?case
    proof (cases "m = (pair, (main, score, fees) # rest, totals)")
      case True
      obtain c1 t1 where i: "insert_metrics e pair ((main, score, fees) # rest) c t = (c1, t1)"
        by (cases "insert_metrics e pair ((main, score, fees) # rest) c t") auto
      have "st_trader_metrics t1 (e, pair, main) = Some (score, fees, False)"
        using insert_metrics_first [OF bt_wf_distinct [OF assms(5)] refl, of e pair c t] by (simp only: i snd_conv)
      moreover have "pair \<notin> fst ` set ms"
        using Cons.prems(1) True by simp
      ultimately show ?thesis
        by (simp only: True insert_scores.simps i Let_def case_prod_conv) (simp add: insert_scores_other)
    next
      case False
      with Cons show ?thesis
        by (cases m) (auto split: prod.splits)
    qed
  qed simp
  from assms(2) show ?thesis
    by (cases rule: update_lmp_scores_cases) (use assms(3) stored in auto)
qed

theorem update_lmp_scores_first_of_each_market_witness:
  "\<exists>s'. update_lmp_scores sample_metrics sample_finalizing = Inr s' \<and>
    st_trader_metrics s' (0, TradingPair Polkadex (Asset 6), 8) = Some (1, 1, False)"
proof -
  have "is_ok (update_lmp_scores sample_metrics sample_finalizing)"
    by code_simp
  then obtain s' where run: "update_lmp_scores sample_metrics sample_finalizing = Inr s'"
    by (auto simp: is_ok_iff)
  have wf: "bt_wf sample_metrics" "bt_wf [(8 :: account, 1 :: rat, 1 :: rat)]"
    by code_simp+
  have fin: "st_finalize_lmp sample_finalizing = Some 0"
    by (simp add: sample_finalizing_def)
  have "(TradingPair Polkadex (Asset 6), [(8, 1, 1)], (1, 1)) \<in> set sample_metrics"
    by (simp add: sample_metrics_def)
  from update_lmp_scores_first_of_each_market [OF wf(1) run fin this wf(2)] run show ?thesis
    by blast
qed

lemma add_market_Inr:
  assumes "add_market cfg s m (tp, c) = Inr (tp', c')"
  shows "st_trading_pairs s (base (mw_trading_pair m), quote (mw_trading_pair m)) \<noteq> None"
    and "tp' = sat_add tp (mw_market_weightage m)"
    and "\<exists>mc. c' = c \<lparr> epoch_markets := bt_insert (mw_trading_pair m) mc (epoch_markets c) \<rparr>"
  using assms by (auto simp: add_market_def res_simps Let_def)

text \<open>An accepted epoch configuration names only registered markets, its weights add up to
  one whole unit, the stored configuration passes its own check, and nothing else changes.\<close>

theorem set_lmp_epoch_config_effect:
  assumes "set_lmp_epoch_config cfg orig lm tr markets mx sf s = Inr s'"
  shows "c_governance cfg orig \<and>
    (\<forall>m\<in>set markets. is_registered_market (mw_trading_pair m) s) \<and>
    fold (\<lambda>m t. sat_add t (mw_market_weightage m)) markets 0 = UNIT_BALANCE \<and>
    (\<exists>config. LMPEpochConfig_verify (c_dec cfg) config \<and> s' = s \<lparr> st_expected_lmp_config := Some config \<rparr>)"
proof -
  have loop: "fold_res (add_market cfg s) ms (tp, c) = Inr (tp', c') \<Longrightarrow>
      (\<forall>m\<in>set ms. is_registered_market (mw_trading_pair m) s) \<and>
      fold (\<lambda>m t. sat_add t (mw_market_weightage m)) ms tp = tp'" for ms tp c tp' c'
  proof (induction ms arbitrary: tp c)
    case (Cons m ms)
    then obtain tp1 c1 where m: "add_market cfg s m (tp, c) = Inr (tp1, c1)"
        "fold_res (add_market cfg s) ms (tp1, c1) = Inr (tp', c')"
      by (auto simp: res_simps)
    from add_market_Inr [OF m(1)] Cons.IH [OF m(2)] show ?case
      by (simp add: is_registered_market_def)
  qed simp
  from assms show ?thesis
    unfolding set_lmp_epoch_config_def ensure_governance_def ensure_Inr Let_def bind_res_Inr
    by (auto simp: res_simps dest!: loop split: prod.splits)
qed

theorem set_lmp_epoch_config_effect_witness:
  "\<exists>s'. set_lmp_epoch_config sample_cfg Root (Some 1) None
      [\<lparr> mw_trading_pair = TradingPair Polkadex (Asset 5), mw_market_weightage = 1000000000000,
        mw_min_fees_paid = 0, mw_min_maker_volume = 0, mw_max_spread = 0, mw_min_depth = 0 \<rparr>] (Some 3) None
      (sample_chain \<lparr> st_trading_pairs := [(Polkadex, Asset 5) \<mapsto> sample_config] \<rparr>) = Inr s' \<and>
    (\<exists>config. LMPEpochConfig_verify (c_dec sample_cfg) config \<and> st_expected_lmp_config s' = Some config)"
proof -
  let ?s = "sample_chain \<lparr> st_trading_pairs := [(Polkadex, Asset 5) \<mapsto> sample_config] \<rparr>"
  let ?m = "\<lparr> mw_trading_pair = TradingPair Polkadex (Asset 5), mw_market_weightage = 1000000000000,
        mw_min_fees_paid = 0, mw_min_maker_volume = 0, mw_max_spread = 0, mw_min_depth = 0 \<rparr>"
  let ?run = "set_lmp_epoch_config sample_cfg Root (Some 1) None [?m] (Some 3) None ?s"
  have "is_ok ?run"
    by code_simp
  then obtain s' where run: "?run = Inr s'"
    by (auto simp: is_ok_iff)
  from set_lmp_epoch_config_effect [OF run] run show ?thesis by auto
qed

end
