(* ===== verification/Ocex_Egress.thy ===== *)
theory Ocex_Egress
  imports Ocex_Lmp
begin

text \<open>
  The egress messages of an accepted snapshot, \<^verbatim>\<open>process_egress_msg\<close> of
  \<^verbatim>\<open>pallets/ocex/src/lib.rs\<close>: trading fees are burnt and distributed, the results of liquidity
  operations go to the crowd-sourcing pallet, reported prices enter the running average of
  the price oracle. One function per message, composed by a loop that stops at the first
  error.
\<close>

subsection \<open>Operations\<close>

definition burn_fees :: "('d, 'w) config \<Rightarrow> u128 \<Rightarrow> ('d, 'w) ocex \<Rightarrow> dispatch_error + ('d, 'w) ocex" where
  "burn_fees cfg amount s =
    bind_res (ok_or (Err TradingFeesBurnFailed)
      (native_burn_settle (c_currency cfg) (st_world s) (c_pallet_account cfg) amount)) (\<lambda>w.
    Inr (s \<lparr> st_world := w \<rparr>))"

definition process_fee :: "('d, 'w) config \<Rightarrow> AssetId \<times> 'd \<Rightarrow> ('d, 'w) ocex \<Rightarrow>
    dispatch_error + ('d, 'w) ocex" where
  "process_fee cfg = (\<lambda>(asset, fees) s.
    bind_res (to_balance cfg fees) (\<lambda>fees.
    bind_res (case asset of
        Asset _ \<Rightarrow> transfer_asset cfg (c_pallet_account cfg) (c_pot_account cfg) fees asset s
      | Polkadex \<Rightarrow>
          (case st_fee_distribution s of
            Some distribution \<Rightarrow>
              ensure (fees < native_reducible (c_currency cfg) (st_world s) (c_pallet_account cfg)) (Err AmountOverflow)
              (let fee_to_be_burnt = word_of_nat (c_percent cfg (burn_ration distribution) (unat fees));
                   fee_to_be_distributed = sat_sub fees fee_to_be_burnt in
              bind_res (burn_fees cfg fee_to_be_burnt s) (\<lambda>s.
              transfer_asset cfg (c_pallet_account cfg) (recipient_address distribution)
                fee_to_be_distributed asset s))
          | None \<Rightarrow> burn_fees cfg fees s)) (\<lambda>s.
    Inr (deposit_event (TradingFeesBurned asset fees) s))))"

definition release_to_pool :: "('d, 'w) config \<Rightarrow> 'd TradingPairConfig \<Rightarrow> account \<Rightarrow> 'd \<Rightarrow> 'd \<Rightarrow>
    ('d, 'w) ocex \<Rightarrow> dispatch_error + ('d, 'w) ocex" where
  "release_to_pool cfg market pool base_free quote_free s =
    ensure (cs_is_valid_pool_id (c_crowd_source cfg) pool (st_world s)) (Err InvalidEgressPoolId)
    (bind_res (to_balance cfg base_free) (\<lambda>base_amount.
    bind_res (to_balance cfg quote_free) (\<lambda>quote_amount.
    bind_res (transfer_asset cfg (c_pallet_account cfg) pool base_amount (base_asset market) s) (\<lambda>s.
    transfer_asset cfg (c_pallet_account cfg) pool quote_amount (quote_asset market) s))))"

definition crowd_source_call :: "('w \<Rightarrow> dispatch_error + 'w) \<Rightarrow> ('d, 'w) ocex \<Rightarrow>
    dispatch_error + ('d, 'w) ocex" where
  "crowd_source_call f s = bind_res (f (st_world s)) (\<lambda>w. Inr (s \<lparr> st_world := w \<rparr>))"

definition update_price :: "'d decimal_ops \<Rightarrow> 'd \<Rightarrow> 'd \<times> 'd \<Rightarrow> 'd \<times> 'd" where
  "update_price D price = (\<lambda>(old_price, ticks).
    let sum = d_sat_add D (d_sat_mul D old_price ticks) price;
        ticks = d_sat_add D ticks (d_lit D 1)
    in (case d_checked_div D sum ticks of None \<Rightarrow> old_price | Some p \<Rightarrow> p, ticks))"

definition update_prices :: "'d decimal_ops \<Rightarrow> (AssetId \<times> AssetId, 'd) btree \<Rightarrow>
    (AssetId \<times> AssetId, 'd \<times> 'd) btree \<Rightarrow> (AssetId \<times> AssetId, 'd \<times> 'd) btree" where
  "update_prices D prices oracle =
    fold (\<lambda>(pair, price). bt_entry pair (update_price D price) (price, d_lit D 1)) prices oracle"

fun process_egress :: "('d, 'w) config \<Rightarrow> 'd EgressMessages \<Rightarrow> ('d, 'w) ocex \<Rightarrow>
    dispatch_error + ('d, 'w) ocex" where
  "process_egress cfg (TradingFees fees_map) s = fold_res (process_fee cfg) fees_map s"
| "process_egress cfg (AddLiquidityResult market pool lp shared_issued price total_inventory) s =
    crowd_source_call (cs_add_liquidity_success (c_crowd_source cfg)
      (pair_from (quote_asset market) (base_asset market)) pool lp shared_issued price total_inventory) s"
| "process_egress cfg (RemoveLiquidityResult market pool lp base_free quote_free) s =
    bind_res (release_to_pool cfg market pool base_free quote_free s)
      (crowd_source_call (cs_remove_liquidity_success (c_crowd_source cfg)
        (pair_from (quote_asset market) (base_asset market)) pool lp base_free quote_free))"
| "process_egress cfg (RemoveLiquidityFailed market pool lp burn_frac total_shares base_free quote_free
      base_reserved quote_reserved) s =
    crowd_source_call (cs_remove_liquidity_failed (c_crowd_source cfg)
      (pair_from (quote_asset market) (base_asset market)) pool lp burn_frac total_shares base_free quote_free
      base_reserved quote_reserved) s"
| "process_egress cfg (PoolForceClosed market pool base_freed quote_freed) s =
    bind_res (release_to_pool cfg market pool base_freed quote_freed s)
      (crowd_source_call (cs_pool_force_close_success (c_crowd_source cfg)
        (pair_from (quote_asset market) (base_asset market)) pool base_freed quote_freed))"
| "process_egress cfg (PriceOracle price_map) s =
    Inr (s \<lparr> st_price_oracle := update_prices (c_dec cfg) price_map (st_price_oracle s) \<rparr>)"

definition process_egress_msg :: "('d, 'w) config \<Rightarrow> 'd EgressMessages list \<Rightarrow> ('d, 'w) ocex \<Rightarrow>
    dispatch_error + ('d, 'w) ocex" where
  "process_egress_msg cfg msgs s =
    ensure (length msgs \<le> unat (c_max_egress cfg)) (Err TooManyEgressMessages)
    (fold_res (process_egress cfg) msgs s)"

subsection \<open>Frame\<close>

text \<open>Egress messages change the rest of the chain, the price oracle and the log only.\<close>

definition egress_frame :: "('d, 'w) ocex \<Rightarrow> ('d, 'w) ocex \<Rightarrow> bool" where
  "egress_frame s s' \<longleftrightarrow>
    s' = s \<lparr> st_world := st_world s', st_price_oracle := st_price_oracle s', st_events := st_events s' \<rparr>"

lemma egress_frame_refl: "egress_frame s s"
  by (simp add: egress_frame_def)

lemma egress_frame_trans: "egress_frame s t \<Longrightarrow> egress_frame t u \<Longrightarrow> egress_frame s u"
  by (cases s; cases t; cases u) (simp add: egress_frame_def)

lemma egress_frameI:
  "s' = s \<lparr> st_world := w, st_price_oracle := p, st_events := e \<rparr> \<Longrightarrow> egress_frame s s'"
  by (simp add: egress_frame_def)

lemma transfer_asset_egress: "transfer_asset cfg p q n a s = Inr s' \<Longrightarrow> egress_frame s s'"
  by (auto simp: transfer_asset_Inr egress_frame_def)

lemma burn_fees_egress: "burn_fees cfg n s = Inr s' \<Longrightarrow> egress_frame s s'"
  by (auto simp: burn_fees_def res_simps egress_frame_def)

lemma crowd_source_egress: "crowd_source_call f s = Inr s' \<Longrightarrow> egress_frame s s'"
  by (auto simp: crowd_source_call_def res_simps egress_frame_def)

lemma event_egress: "egress_frame s (deposit_event e s)"
  by (simp add: deposit_event_def egress_frame_def)

lemma process_fee_egress: "process_fee cfg f s = Inr s' \<Longrightarrow> egress_frame s s'"
  unfolding process_fee_def
  by (cases f; cases "fst f"; cases "st_fee_distribution s")
    (auto simp: bind_res_Inr ensure_Inr Let_def
      intro!: egress_frame_trans [OF _ event_egress] intro: egress_frame_trans
      dest!: transfer_asset_egress burn_fees_egress)

lemma release_egress: "release_to_pool cfg m p b q s = Inr s' \<Longrightarrow> egress_frame s s'"
  unfolding release_to_pool_def
  by (auto simp: bind_res_Inr ensure_Inr dest!: transfer_asset_egress intro: egress_frame_trans)

lemma process_egress_frame: "process_egress cfg msg s = Inr s' \<Longrightarrow> egress_frame s s'"
proof (cases msg)
  case (TradingFees fees)
  moreover assume "process_egress cfg msg s = Inr s'"
  ultimately have "fold_res (process_fee cfg) fees s = Inr s'" by simp
  then show ?thesis
    by (rule fold_res_invariant [where P = "egress_frame s"])
      (auto intro: egress_frame_refl egress_frame_trans process_fee_egress)
qed (auto simp: bind_res_Inr egress_frame_def [of s "_ \<lparr> st_price_oracle := _ \<rparr>"]
    dest!: release_egress crowd_source_egress intro: egress_frame_trans)

lemma process_egress_msg_frame: "process_egress_msg cfg msgs s = Inr s' \<Longrightarrow> egress_frame s s'"
  unfolding process_egress_msg_def ensure_Inr
  by (elim conjE, rule fold_res_invariant [where P = "egress_frame s"])
    (auto intro: egress_frame_refl egress_frame_trans process_egress_frame)

subsection \<open>The price oracle\<close>

lemma update_price_exact:
  assumes "decimal_laws D val" and "val (d_lit D 1) = 1"
    and "val avg = total_price / of_nat k" and "val ticks = of_nat k" and "0 < k" and "k + 1 < 2 ^ 96"
    and "representable total_price" and "representable (total_price + val p)"
    and "representable ((total_price + val p) / of_nat (k + 1))"
  shows "\<exists>avg' ticks'. update_price D p (avg, ticks) = (avg', ticks') \<and>
    val avg' = (total_price + val p) / of_nat (k + 1) \<and> val ticks' = of_nat (k + 1)"
proof -
  have prod: "val avg * val ticks = total_price"
    using assms(3-5) by simp
  have "val (d_sat_mul D avg ticks) = total_price"
    using decimal_lawsD(6) [OF assms(1), of avg ticks] assms(7) by (simp add: prod)
  then have sum: "val (d_sat_add D (d_sat_mul D avg ticks) p) = total_price + val p"
    using decimal_lawsD(4) [OF assms(1), of "d_sat_mul D avg ticks" p] assms(8) by simp
  have "\<bar>int (k + 1)\<bar> < 2 ^ 96"
    using assms(6) by (metis abs_of_nat of_nat_less_iff of_nat_numeral of_nat_power)
  then have "representable (of_nat (k + 1))"
    unfolding representable_def by (intro exI [of _ "int (k + 1)"] exI [of _ "0 :: nat"]) simp
  then have ticks: "val (d_sat_add D ticks (d_lit D 1)) = of_nat (k + 1)"
    using decimal_lawsD(4) [OF assms(1), of ticks "d_lit D 1"] assms(2,4) by (simp add: add.commute)
  have nz: "val (d_sat_add D ticks (d_lit D 1)) \<noteq> 0"
    unfolding ticks by (metis Suc_eq_plus1 of_nat_eq_0_iff nat.distinct(1))
  obtain q where "d_checked_div D (d_sat_add D (d_sat_mul D avg ticks) p) (d_sat_add D ticks (d_lit D 1)) = Some q"
      "val q = (total_price + val p) / of_nat (k + 1)"
    using decimal_lawsD(8) [OF assms(1) nz, of "d_sat_add D (d_sat_mul D avg ticks) p"] assms(9)
    unfolding sum ticks by blast
  with ticks show ?thesis
    by (simp add: update_price_def Let_def)
qed

text \<open>The reports of one market, one map each, in the order of the snapshots.\<close>

definition oracle_after :: "'d decimal_ops \<Rightarrow> AssetId \<times> AssetId \<Rightarrow> 'd list \<Rightarrow> (AssetId \<times> AssetId, 'd \<times> 'd) btree" where
  "oracle_after D pair ps = fold (\<lambda>p. update_prices D [(pair, p)]) ps []"

text \<open>The price oracle holds the average of all reported prices of a market and their number,
  as long as the sums and averages of the prefixes are representable decimals.\<close>

theorem price_oracle_running_average:
  assumes "decimal_laws D val" and "val (d_lit D 1) = 1" and "ps \<noteq> []" and "length ps < 2 ^ 96"
    and "\<forall>i\<le>length ps. representable (\<Sum>p\<leftarrow>take i ps. val p) \<and>
      representable ((\<Sum>p\<leftarrow>take i ps. val p) / of_nat i)"
  shows "\<exists>avg n. bt_get (oracle_after D pair ps) pair = Some (avg, n) \<and>
    val avg = (\<Sum>p\<leftarrow>ps. val p) / of_nat (length ps) \<and> val n = of_nat (length ps)"
  using assms(3-5)
proof (induction ps rule: rev_induct)
  case (snoc p ps)
  show ?case
  proof (cases "ps = []")
    case True
    then show ?thesis
      using assms(2) by (simp add: oracle_after_def update_prices_def bt_get_entry)
  next
    case False
    have pre: "\<forall>i\<le>length ps. representable (\<Sum>q\<leftarrow>take i ps. val q) \<and>
        representable ((\<Sum>q\<leftarrow>take i ps. val q) / of_nat i)"
      using snoc.prems(3) by (metis le_SucI length_append_singleton take_append diff_is_0_eq' take0 append_Nil2)
    obtain avg n where ih: "bt_get (oracle_after D pair ps) pair = Some (avg, n)"
        "val avg = (\<Sum>q\<leftarrow>ps. val q) / of_nat (length ps)" "val n = of_nat (length ps)"
      using snoc.IH [OF False _ pre] snoc.prems(2) by auto
    have reps: "representable (\<Sum>q\<leftarrow>ps. val q)" "representable ((\<Sum>q\<leftarrow>ps. val q) + val p)"
        "representable (((\<Sum>q\<leftarrow>ps. val q) + val p) / of_nat (length ps + 1))"
      using pre snoc.prems(3) [rule_format, of "length ps + 1"] by auto
    have "\<exists>avg' n'. update_price D p (avg, n) = (avg', n') \<and>
        val avg' = ((\<Sum>q\<leftarrow>ps. val q) + val p) / of_nat (length ps + 1) \<and> val n' = of_nat (length ps + 1)"
      using False snoc.prems(2) by (intro update_price_exact [OF assms(1,2) ih(2,3)] reps) auto
    then show ?thesis
      using ih(1) by (auto simp: oracle_after_def update_prices_def bt_get_entry)
  qed
qed simp

theorem price_oracle_running_average_witness:
  "\<exists>avg n. bt_get (oracle_after rat_decimal (Polkadex, Asset 5) [2, 4]) (Polkadex, Asset 5) = Some (avg, n) \<and>
    avg = 3 \<and> n = 2"
proof -
  have r: "representable 0" "representable 2" "representable 3" "representable 6"
    using representable_int [of 0] representable_int [of 2] representable_int [of 3] representable_int [of 6] by simp_all
  have "representable (\<Sum>p\<leftarrow>take i [2, 4]. p) \<and> representable ((\<Sum>p\<leftarrow>take i [2, 4]. p) / of_nat i)"
    if "i \<in> {0, 1, 2}" for i
    using that r by (auto simp: numeral_2_eq_2)
  then have "\<forall>i\<le>length [2, 4 :: rat]. representable (\<Sum>p\<leftarrow>take i [2, 4]. p) \<and>
      representable ((\<Sum>p\<leftarrow>take i [2, 4]. p) / of_nat i)"
    by (metis (no_types, lifting) One_nat_def Suc_1 insertCI le_Suc_eq le_zero_eq length_Cons list.size(3))
  then show ?thesis
    using price_oracle_running_average [OF rat_decimal_laws, of "[2, 4]" "(Polkadex, Asset 5)"]
    by (simp add: rat_decimal_def)
qed

subsection \<open>Trading fees\<close>

lemma burn_fees_exact:
  assumes "currency_laws (c_currency cfg) wb" and "burn_fees cfg n s = Inr s'"
  shows "in_custody cfg wb s' Polkadex + unat n = in_custody cfg wb s Polkadex"
    and "a \<noteq> Polkadex \<or> r \<noteq> c_pallet_account cfg \<Longrightarrow> wb (st_world s') a r = wb (st_world s) a r"
  using assms(2) currency_lawsD(4) [OF assms(1)] by (auto simp: burn_fees_def res_simps in_custody_def)

lemma native_transfer_exact:
  assumes "currency_laws (c_currency cfg) wb" and "transfer_asset cfg p q n Polkadex s = Inr s'"
  shows "moved_exact wb (st_world s) (st_world s') Polkadex p q (unat n)"
  using assms(2) currency_lawsD(2) [OF assms(1)] by (auto simp: transfer_asset_Inr)

text \<open>The PDEX trading fees of a snapshot leave the pallet completely: with a fee distribution
  the configured percentage is burnt and exactly the rest arrives at the recipient, without one
  everything is burnt; no other account's PDEX changes.\<close>

theorem trading_fee_split:
  assumes "currency_laws (c_currency cfg) wb" and "\<forall>p n. c_percent cfg p n \<le> n"
    and "process_fee cfg (Polkadex, fees) s = Inr s'" and "to_balance cfg fees = Inr n"
    and "\<forall>d. st_fee_distribution s = Some d \<longrightarrow> recipient_address d \<noteq> c_pallet_account cfg"
  shows "in_custody cfg wb s' Polkadex + unat n = in_custody cfg wb s Polkadex \<and>
    (\<forall>r. r \<noteq> c_pallet_account cfg \<longrightarrow>
      wb (st_world s') Polkadex r = wb (st_world s) Polkadex r +
        (case st_fee_distribution s of
          Some d \<Rightarrow> if r = recipient_address d then unat n - c_percent cfg (burn_ration d) (unat n) else 0
        | None \<Rightarrow> 0))"
proof (cases "st_fee_distribution s")
  case None
  then obtain s1 where "burn_fees cfg n s = Inr s1" "s' = deposit_event (TradingFeesBurned Polkadex n) s1"
    using assms(3,4) by (auto simp: process_fee_def bind_res_Inr)
  with burn_fees_exact [OF assms(1)] None show ?thesis
    by (auto simp: in_custody_def deposit_event_def)
next
  case (Some d)
  let ?b = "c_percent cfg (burn_ration d) (unat n)"
  have lt: "?b < 2 ^ 128"
    using assms(2) [rule_format, of "burn_ration d" "unat n"] unat_less_exp [of n] by simp
  have ub: "unat (word_of_nat ?b :: u128) = ?b"
    using lt by (simp add: unsigned_of_nat take_bit_nat_eq_self)
  obtain s1 s2 where b: "burn_fees cfg (word_of_nat ?b) s = Inr s1"
    and t: "transfer_asset cfg (c_pallet_account cfg) (recipient_address d) (sat_sub n (word_of_nat ?b)) Polkadex s1 = Inr s2"
    and s': "s' = deposit_event (TradingFeesBurned Polkadex n) s2"
    using assms(3,4) Some by (auto simp: process_fee_def bind_res_Inr ensure_Inr Let_def)
  have ne: "c_pallet_account cfg \<noteq> recipient_address d"
    using assms(5) Some by auto
  note burn = burn_fees_exact [OF assms(1) b, unfolded ub]
  have "moved_exact wb (st_world s1) (st_world s2) Polkadex (c_pallet_account cfg) (recipient_address d) (unat n - ?b)"
    using native_transfer_exact [OF assms(1) t] by (simp add: unat_sat_sub ub)
  with ne burn assms(2) [rule_format, of "burn_ration d" "unat n"] show ?thesis
    by (auto simp: s' Some in_custody_def deposit_event_def moved_exact_def moved_def)
qed

theorem trading_fee_split_witness:
  "\<exists>s'. process_fee sample_cfg (Polkadex, 4 / 10 ^ 12)
      (sample_chain \<lparr> st_world := [((Polkadex, 100), 9)], st_fee_distribution := Some \<lparr> recipient_address = 3,
        auction_duration = 1, burn_ration = 50 \<rparr> \<rparr>) = Inr s' \<and>
    in_custody sample_cfg table_get s' Polkadex = 5 \<and> table_get (st_world s') Polkadex 3 = 2"
proof -
  let ?d = "\<lparr> recipient_address = 3, auction_duration = 1, burn_ration = 50 \<rparr>"
  let ?s = "sample_chain \<lparr> st_world := [((Polkadex, 100), 9)], st_fee_distribution := Some ?d \<rparr>"
  let ?run = "process_fee sample_cfg (Polkadex, 4 / 10 ^ 12) ?s"
  have "is_ok ?run" by code_simp
  then obtain s' where run: "?run = Inr s'" by (auto simp: is_ok_iff)
  have bal: "to_balance sample_cfg (4 / 10 ^ 12) = Inr 4" by code_simp
  have pct: "\<forall>p n. c_percent sample_cfg p n \<le> n"
    by (simp add: sample_cfg_percent)
  have rec: "\<forall>d. st_fee_distribution ?s = Some d \<longrightarrow> recipient_address d \<noteq> c_pallet_account sample_cfg"
    by (simp add: sample_cfg_def)
  have ev: "c_percent sample_cfg 50 4 = 2" "in_custody sample_cfg table_get ?s Polkadex = 9"
      "table_get (st_world ?s) Polkadex 3 = 0" "(3 :: account) \<noteq> c_pallet_account sample_cfg"
    by code_simp+
  have "in_custody sample_cfg table_get s' Polkadex + unat (4 :: u128) = in_custody sample_cfg table_get ?s Polkadex"
    "table_get (st_world s') Polkadex 3 = table_get (st_world ?s) Polkadex 3 +
      (unat (4 :: u128) - c_percent sample_cfg 50 (unat (4 :: u128)))"
    using trading_fee_split [OF sample_cfg_laws(2) pct run bal rec] ev(4) by auto
  with run ev show ?thesis by simp
qed

text \<open>Funds are released only to registered pools: an egress message that returns liquidity to
  any other account makes the whole batch of messages fail, and so does a batch larger than
  the configured bound.\<close>

theorem egress_refused:
  assumes "length msgs > unat (c_max_egress cfg) \<or>
    (\<exists>m pool lp b q. (RemoveLiquidityResult m pool lp b q \<in> set msgs \<or> PoolForceClosed m pool b q \<in> set msgs) \<and>
      (\<forall>w. \<not> cs_is_valid_pool_id (c_crowd_source cfg) pool w))"
  shows "\<not> is_ok (process_egress_msg cfg msgs s)"
proof
  assume "is_ok (process_egress_msg cfg msgs s)"
  then obtain s' where len: "length msgs \<le> unat (c_max_egress cfg)"
    and run: "fold_res (process_egress cfg) msgs s = Inr s'"
    by (auto simp: is_ok_iff process_egress_msg_def ensure_Inr)
  have steps: "fold_res (process_egress cfg) ms t = Inr t' \<Longrightarrow> msg \<in> set ms \<Longrightarrow>
      \<exists>u u'. process_egress cfg msg u = Inr u'" for ms t t' msg
    by (induction ms arbitrary: t) (auto simp: bind_res_Inr)
  from assms len obtain m pool lp b q where
      "RemoveLiquidityResult m pool lp b q \<in> set msgs \<or> PoolForceClosed m pool b q \<in> set msgs"
      "\<forall>w. \<not> cs_is_valid_pool_id (c_crowd_source cfg) pool w"
    using leD by blast
  with steps [OF run] show False
    by (force simp: bind_res_Inr release_to_pool_def ensure_Inr)
qed

theorem egress_refused_witness:
  "\<not> is_ok (process_egress_msg sample_cfg [PriceOracle [], PoolForceClosed sample_config 4 0 0] sample_chain)"
  by (rule egress_refused, rule disjI2, intro exI [of _ sample_config] exI [of _ 4] exI [of _ 0])
    (simp add: sample_cfg_def crowd_source_unit_def)

end
