(* ===== verification/Ocex_Snapshot.thy ===== *)
theory Ocex_Snapshot
  imports Ocex_Egress
begin

text \<open>
  Snapshots of the orderbook pallet (\<^verbatim>\<open>pallets/ocex/src/lib.rs\<close>): the validation of the unsigned
  transaction \<^verbatim>\<open>submit_snapshot\<close>, its execution (scores, egress messages, withdrawals, fees, the
  nonce, the pruning of processed ingress messages), the governance calls that set the nonce
  and the rotation of the authority sets.
\<close>

subsection \<open>Authorities\<close>

definition authorities :: "u64 \<Rightarrow> ('d, 'w) ocex \<Rightarrow> ValidatorSet" where
  "authorities i s = (case st_authorities s i of None \<Rightarrow> default_ValidatorSet | Some v \<Rightarrow> v)"

definition validator_set :: "('d, 'w) ocex \<Rightarrow> ValidatorSet" where
  "validator_set s = authorities (st_validator_set_id s) s"

definition on_genesis_session :: "H256 list \<Rightarrow> ('d, 'w) ocex \<Rightarrow> ('d, 'w) ocex" where
  "on_genesis_session keys s =
    s \<lparr> st_authorities := (st_authorities s)
      (GENESIS_AUTHORITY_SET_ID \<mapsto> ValidatorSet_new keys GENESIS_AUTHORITY_SET_ID) \<rparr>"

definition on_new_session :: "H256 list \<Rightarrow> H256 list \<Rightarrow> ('d, 'w) ocex \<Rightarrow> ('d, 'w) ocex" where
  "on_new_session keys queued s =
    (let new_id = st_validator_set_id s + 1;
         s = s \<lparr> st_authorities := (st_authorities s)(new_id \<mapsto> ValidatorSet_new keys new_id) \<rparr>;
         s = s \<lparr> st_next_authorities := ValidatorSet_new queued (new_id + 1) \<rparr>
     in s \<lparr> st_validator_set_id := new_id \<rparr>)"

subsection \<open>Validation\<close>

datatype validity = Valid | Custom nat | InvalidCall

definition THRESHOLD :: u8 where
  "THRESHOLD = 51"

text \<open>\<open>c_percent\<close> multiplies a length by a percentage, as for amounts.\<close>

definition required_signatures :: "('d, 'w) config \<Rightarrow> H256 list \<Rightarrow> nat" where
  "required_signatures cfg auths = max (c_percent cfg THRESHOLD (length auths)) 1"

fun check_signatures :: "('d, 'w) config \<Rightarrow> H256 list \<Rightarrow> bytes \<Rightarrow> u16 list \<Rightarrow> (u16 \<times> bytes) list \<Rightarrow>
    validity" where
  "check_signatures cfg auths msg seen [] = Valid"
| "check_signatures cfg auths msg seen ((index, signature) # rest) =
    (if index \<in> set seen then Custom 16
     else if length auths \<le> unat index then Custom 12
     else if \<not> authority_verify (c_crypto cfg) (auths ! unat index) signature msg then Custom 12
     else check_signatures cfg auths msg (bs_insert index seen) rest)"

definition validate_snapshot :: "('d, 'w) config \<Rightarrow> 'd SnapshotSummary \<Rightarrow> (u16 \<times> bytes) list \<Rightarrow>
    ('d, 'w) ocex \<Rightarrow> validity" where
  "validate_snapshot cfg summary sigs s =
    (if sat_add (st_snapshot_nonce s) 1 \<noteq> s_snapshot_id summary then Custom 10
     else if c_withdrawal_limit cfg < word_of_nat (length (s_withdrawals summary)) then Custom 13
     else
       let active_set_id = st_validator_set_id s in
       if s_validator_set_id summary \<noteq> active_set_id then Custom 14
       else
         let auths = vs_validators (authorities active_set_id s) in
         if auths = [] then Custom 15
         else if length sigs < required_signatures cfg auths then Custom 11
         else check_signatures cfg auths (enc_summary (c_codec cfg) summary) [] sigs)"

subsection \<open>Execution\<close>

text \<open>The loop over the accounts of the withdrawal tree, collecting what could not be paid.\<close>

fun pay_accounts :: "('d, 'w) config \<Rightarrow> u64 \<Rightarrow> (account, 'd Withdrawal list) btree \<Rightarrow>
    (account, 'd Withdrawal list) btree \<Rightarrow> ('d, 'w) ocex \<Rightarrow>
    (account, 'd Withdrawal list) btree \<times> ('d, 'w) ocex" where
  "pay_accounts cfg sid [] failed_map s = (failed_map, s)"
| "pay_accounts cfg sid ((acc, ws) # rest) failed_map s =
    (let (failed, successful, s) = do_withdraw cfg sid ws s;
         failed_map = (if failed \<noteq> [] then bt_insert acc failed failed_map else failed_map);
         s = (if successful \<noteq> [] then deposit_event (WithdrawalClaimed sid acc successful) s else s)
     in pay_accounts cfg sid rest failed_map s)"

definition pay_withdrawals :: "('d, 'w) config \<Rightarrow> 'd SnapshotSummary \<Rightarrow> ('d, 'w) ocex \<Rightarrow>
    dispatch_error + ('d, 'w) ocex" where
  "pay_withdrawals cfg summary s =
    (if s_withdrawals summary = [] then Inr s
     else
       let sid = s_snapshot_id summary;
           (failed_map, s) = pay_accounts cfg sid (create_withdrawal_tree (s_withdrawals summary)) [] s;
           s = (if failed_map \<noteq> [] then s \<lparr> st_withdrawals := (st_withdrawals s)(sid \<mapsto> failed_map) \<rparr> else s)
       in settle_withdrawal_fees cfg (get_fees summary) s)"

definition pruned :: "u32 \<Rightarrow> (u32 \<rightharpoonup> 'm) \<Rightarrow> u32 \<rightharpoonup> 'm" where
  "pruned up_to m = (\<lambda>b. if b \<le> up_to then None else m b)"

definition prune_ingress :: "u32 \<Rightarrow> ('d, 'w) ocex \<Rightarrow> ('d, 'w) ocex" where
  "prune_ingress up_to s = s \<lparr> st_ingress := pruned up_to (st_ingress s) \<rparr>"

definition submit_snapshot :: "('d, 'w) config \<Rightarrow> origin \<Rightarrow> 'd SnapshotSummary \<Rightarrow> (u16 \<times> bytes) list \<Rightarrow>
    ('d, 'w) ocex \<Rightarrow> dispatch_error + ('d, 'w) ocex" where
  "submit_snapshot cfg orig summary sigs s =
    ensure (orig = Unsigned) BadOrigin
    (bind_res (case s_trader_metrics summary of Some metrics \<Rightarrow> update_lmp_scores metrics s | None \<Rightarrow> Inr s) (\<lambda>s.
    bind_res (process_egress_msg cfg (s_egress_messages summary) s) (\<lambda>s.
    bind_res (pay_withdrawals cfg summary s) (\<lambda>s.
    let i = s_snapshot_id summary;
        s = s \<lparr> st_snapshot_nonce := i \<rparr>;
        s = s \<lparr> st_snapshots := (st_snapshots s)(i \<mapsto> summary) \<rparr> in
    bind_res (push_ingress cfg WithdrawTradingFees s) (\<lambda>s.
    let s = prune_ingress (s_last_processed_blk summary) s in
    Inr (deposit_event (SnapshotProcessed i) s))))))"

definition set_snapshot :: "('d, 'w) config \<Rightarrow> origin \<Rightarrow> u64 \<Rightarrow> ('d, 'w) ocex \<Rightarrow>
    dispatch_error + ('d, 'w) ocex" where
  "set_snapshot cfg orig new_snapshot_id s =
    ensure_governance cfg orig (Inr (s \<lparr> st_snapshot_nonce := new_snapshot_id \<rparr>))"

definition force_submit_snapshot :: "origin \<Rightarrow> 'd SnapshotSummary \<Rightarrow> ('d, 'w) ocex \<Rightarrow>
    dispatch_error + ('d, 'w) ocex" where
  "force_submit_snapshot orig summary s =
    ensure (orig = Root) BadOrigin
    (let i = s_snapshot_id summary;
         s = s \<lparr> st_snapshot_nonce := i \<rparr>;
         s = s \<lparr> st_snapshots := (st_snapshots s)(i \<mapsto> summary) \<rparr>
     in Inr (deposit_event (SnapshotProcessed i) s))"

subsection \<open>What a valid snapshot is\<close>

lemma check_signatures_Valid:
  "check_signatures cfg auths msg seen sigs = Valid \<longleftrightarrow>
    distinct (map fst sigs) \<and> fst ` set sigs \<inter> set seen = {} \<and>
    (\<forall>(i, sig)\<in>set sigs. unat i < length auths \<and> authority_verify (c_crypto cfg) (auths ! unat i) sig msg)"
  by (induction cfg auths msg seen sigs rule: check_signatures.induct)
    (auto simp: set_bs_insert split: if_splits)

lemma validate_snapshot_Valid:
  "validate_snapshot cfg summary sigs s = Valid \<longleftrightarrow>
    s_snapshot_id summary = sat_add (st_snapshot_nonce s) 1 \<and>
    word_of_nat (length (s_withdrawals summary)) \<le> c_withdrawal_limit cfg \<and>
    s_validator_set_id summary = st_validator_set_id s \<and>
    (let auths = vs_validators (validator_set s) in
      auths \<noteq> [] \<and> sigs \<noteq> [] \<and> c_percent cfg 51 (length auths) \<le> length sigs \<and> distinct (map fst sigs) \<and>
      (\<forall>(i, sig)\<in>set sigs. unat i < length auths \<and>
        authority_verify (c_crypto cfg) (auths ! unat i) sig (enc_summary (c_codec cfg) summary)))"
  by (auto simp: validate_snapshot_def check_signatures_Valid required_signatures_def THRESHOLD_def
      validator_set_def Let_def Suc_le_eq not_less less_max_iff_disj split: if_splits)

subsection \<open>Payment of the withdrawals\<close>

lemma pay_accounts_same_books: "pay_accounts cfg sid t fm s = (fm', s') \<Longrightarrow> same_books s s'"
proof (induction t arbitrary: fm s)
  case (Cons m t)
  obtain acc ws where m: "m = (acc, ws)" by (cases m)
  obtain f p s1 where d: "do_withdraw cfg sid ws s = (f, p, s1)"
    by (cases "do_withdraw cfg sid ws s") auto
  let ?s2 = "if p \<noteq> [] then deposit_event (WithdrawalClaimed sid acc p) s1 else s1"
  have "same_books s s1"
    by (rule do_withdraw_spec(2) [OF d])
  then have "same_books s ?s2"
    by (auto intro: same_books_trans deposit_event_same_books)
  moreover have "same_books ?s2 s'"
    using Cons.IH Cons.prems by (auto simp: m d Let_def)
  ultimately show ?case
    by (rule same_books_trans)
qed (simp add: same_books_refl)

text \<open>All withdrawals of a tree, in the order of its accounts.\<close>

definition tree_withdrawals :: "(account, 'd Withdrawal list) btree \<Rightarrow> 'd Withdrawal list" where
  "tree_withdrawals t = concat (map snd t)"

lemma tree_withdrawals_Nil [simp]: "tree_withdrawals [] = []"
  by (simp add: tree_withdrawals_def)

lemma mset_tree_insert:
  "bt_wf t \<Longrightarrow> bt_get t acc = None \<Longrightarrow> mset (tree_withdrawals (bt_insert acc ws t)) = mset ws + mset (tree_withdrawals t)"
proof (induction acc ws t rule: bt_insert.induct)
  case (2 acc ws acc' ws' t)
  then show ?case
    by (auto simp: tree_withdrawals_def bt_get_def bt_wf_def)
qed (simp add: tree_withdrawals_def)

lemma mset_tree_update:
  "bt_wf t \<Longrightarrow> bt_get t acc = Some ws \<Longrightarrow>
    mset (tree_withdrawals (bt_insert acc (ws @ [w]) t)) = add_mset w (mset (tree_withdrawals t))"
proof (induction acc ws t rule: bt_insert.induct)
  case (2 acc ws acc' ws' t)
  have "acc < acc' \<Longrightarrow> map_of t acc = None"
    using 2(2) by (fastforce simp: bt_wf_def map_of_eq_None_iff)
  with 2 show ?case
    by (auto simp: tree_withdrawals_def bt_get_def bt_wf_def)
qed (simp add: tree_withdrawals_def)

lemma mset_create_withdrawal_tree: "mset (tree_withdrawals (create_withdrawal_tree ws)) = mset ws"
proof (induction ws rule: rev_induct)
  case (snoc w ws)
  have "create_withdrawal_tree (ws @ [w]) = push_withdrawal w (create_withdrawal_tree ws)"
    by (simp add: create_withdrawal_tree_def)
  with snoc show ?case
    using mset_tree_insert [OF create_withdrawal_tree_wf, of ws "w_main_account w" "[w]"]
      mset_tree_update [OF create_withdrawal_tree_wf, of ws "w_main_account w" _ w]
    by (cases "bt_get (create_withdrawal_tree ws) (w_main_account w)") (auto simp: push_withdrawal_def)
qed (simp add: create_withdrawal_tree_def tree_withdrawals_def)

lemma pay_accounts_partition:
  assumes "pay_accounts cfg sid t fm s = (fm', s')" and "bt_wf t" and "bt_wf fm"
    and "\<forall>a\<in>fst ` set t. bt_get fm a = None"
  shows "bt_wf fm' \<and> (\<exists>paid. mset (tree_withdrawals fm') + mset paid =
    mset (tree_withdrawals fm) + mset (tree_withdrawals t))"
  using assms
proof (induction t arbitrary: fm s)
  case Nil
  then show ?case by (auto simp: tree_withdrawals_def intro: exI [of _ "[]"])
next
  case (Cons m t)
  obtain acc ws where m: "m = (acc, ws)" by (cases m)
  obtain f p s1 where d: "do_withdraw cfg sid ws s = (f, p, s1)"
    by (cases "do_withdraw cfg sid ws s") auto
  define fm1 where "fm1 = (if f \<noteq> [] then bt_insert acc f fm else fm)"
  have wf1: "bt_wf fm1"
    using Cons.prems(3) by (auto simp: fm1_def)
  have "acc \<notin> fst ` set t"
    using Cons.prems(2) by (auto simp: m bt_wf_def)
  then have fresh: "\<forall>a\<in>fst ` set t. bt_get fm1 a = None"
    using Cons.prems(4) by (auto simp: fm1_def m bt_get_insert)
  have run: "pay_accounts cfg sid t fm1
      (if p \<noteq> [] then deposit_event (WithdrawalClaimed sid acc p) s1 else s1) = (fm', s')"
    using Cons.prems(1) by (simp add: m d fm1_def Let_def split: if_splits)
  have wft: "bt_wf t"
    using Cons.prems(2) by (simp add: bt_wf_def)
  obtain paid where "bt_wf fm'" "mset (tree_withdrawals fm') + mset paid =
      mset (tree_withdrawals fm1) + mset (tree_withdrawals t)"
    using Cons.IH [OF run wft wf1 fresh] by blast
  moreover have "mset (tree_withdrawals fm1) + mset p = mset ws + mset (tree_withdrawals fm)"
    using mset_tree_insert [OF Cons.prems(3), of acc f] Cons.prems(4) do_withdraw_spec(1) [OF d]
    by (auto simp: fm1_def m ac_simps)
  ultimately show ?case
    by (intro conjI exI [of _ "paid @ p"]) (auto simp: m tree_withdrawals_def ac_simps)
qed

lemma pay_accounts_tree_ok:
  "pay_accounts cfg sid t fm s = (fm', s') \<Longrightarrow> tree_ok t \<Longrightarrow> tree_ok fm \<Longrightarrow> tree_ok fm'"
proof (induction t arbitrary: fm s)
  case (Cons m t)
  obtain acc ws where m: "m = (acc, ws)" by (cases m)
  obtain f p s1 where d: "do_withdraw cfg sid ws s = (f, p, s1)"
    by (cases "do_withdraw cfg sid ws s") auto
  have "set f \<subseteq> set ws"
    using do_withdraw_spec(1) [OF d] by (metis mset_subset_eqD mset_subset_eq_add_left set_mset_mset subsetI)
  moreover have "bt_get (m # t) acc = Some ws"
    by (simp add: m bt_get_def)
  then have "\<forall>w\<in>set ws. w_main_account w = acc"
    using Cons.prems(2) by (auto simp: tree_ok_def)
  ultimately have fm: "tree_ok (if f \<noteq> [] then bt_insert acc f fm else fm)"
    using Cons.prems(3) by (auto intro: tree_ok_insert)
  have "bt_get t a = Some x \<Longrightarrow> bt_get (m # t) a = Some x" for a x
    using Cons.prems(2) bt_get_in_set [of t a x] by (fastforce simp: m bt_get_def tree_ok_def bt_wf_def)
  then have "tree_ok t"
    using Cons.prems(2) unfolding tree_ok_def by (metis bt_wf_def list.simps(9) sorted_wrt.simps(2))
  then show ?case
    using Cons.IH [OF _ _ fm] Cons.prems(1) by (auto simp: m d Let_def)
qed simp

lemma settle_fee_world: "settle_fee cfg f t = Inr t' \<Longrightarrow> \<exists>w. t' = t \<lparr> st_world := w \<rparr>"
  by (cases "f_asset f") (auto simp: settle_fee_def res_simps)

lemma same_books_world: "same_books s t \<Longrightarrow> same_books s (t \<lparr> st_world := w \<rparr>)"
proof (erule same_books_trans)
  show "same_books t (t \<lparr> st_world := w \<rparr>)"
    unfolding same_books_def by (rule ocex.equality) simp_all
qed

lemma settle_withdrawal_fees_same_books: "settle_withdrawal_fees cfg fees s = Inr s' \<Longrightarrow> same_books s s'"
  unfolding settle_withdrawal_fees_def
  by (erule fold_res_invariant [where P = "same_books s"], rule same_books_refl)
    (blast dest: settle_fee_world intro: same_books_world)

text \<open>The withdrawals of a snapshot that wait to be claimed.\<close>

definition unpaid :: "('d, 'w) ocex \<Rightarrow> u64 \<Rightarrow> 'd Withdrawal list" where
  "unpaid s sid = (case st_withdrawals s sid of None \<Rightarrow> [] | Some t \<Rightarrow> tree_withdrawals t)"

lemma pay_withdrawals_cases:
  assumes "pay_withdrawals cfg summary s = Inr s'"
  obtains (none) "s_withdrawals summary = []" "s' = s"
  | (some) fm s1 where "s_withdrawals summary \<noteq> []"
    "pay_accounts cfg (s_snapshot_id summary) (create_withdrawal_tree (s_withdrawals summary)) [] s = (fm, s1)"
    "s' = s \<lparr> st_withdrawals := (if fm = [] then st_withdrawals s else (st_withdrawals s)(s_snapshot_id summary \<mapsto> fm)),
      st_world := st_world s', st_events := st_events s' \<rparr>"
proof (cases "s_withdrawals summary = []")
  case True
  with assms none show ?thesis by (simp add: pay_withdrawals_def)
next
  case False
  obtain fm s1 where p: "pay_accounts cfg (s_snapshot_id summary) (create_withdrawal_tree (s_withdrawals summary)) [] s = (fm, s1)"
    by (cases "pay_accounts cfg (s_snapshot_id summary) (create_withdrawal_tree (s_withdrawals summary)) [] s")
  have s1: "s1 = s \<lparr> st_world := st_world s1, st_events := st_events s1 \<rparr>"
    using pay_accounts_same_books [OF p] by (simp only: same_books_def)
  define s2 where "s2 = (if fm \<noteq> [] then s1 \<lparr> st_withdrawals := (st_withdrawals s1)(s_snapshot_id summary \<mapsto> fm) \<rparr> else s1)"
  have w1: "st_withdrawals s1 = st_withdrawals s"
    by (rule same_booksD [OF pay_accounts_same_books [OF p]])
  have "settle_withdrawal_fees cfg (get_fees summary) s2 = Inr s'"
    using assms False by (simp add: pay_withdrawals_def p Let_def s2_def split: if_splits)
  then have s': "s' = s2 \<lparr> st_world := st_world s', st_events := st_events s' \<rparr>"
    using settle_withdrawal_fees_same_books by (simp only: same_books_def)
  have s2: "s2 = s1 \<lparr> st_withdrawals := (if fm = [] then st_withdrawals s else (st_withdrawals s)(s_snapshot_id summary \<mapsto> fm)) \<rparr>"
    by (simp add: s2_def w1)
  have "s' = s \<lparr> st_withdrawals := (if fm = [] then st_withdrawals s else (st_withdrawals s)(s_snapshot_id summary \<mapsto> fm)),
      st_world := st_world s', st_events := st_events s' \<rparr>"
    by (subst s', subst s2, subst s1) (rule ocex.equality; simp)
  with some False p show ?thesis by blast
qed

lemma submit_snapshot_cases:
  assumes "submit_snapshot cfg orig summary sigs s = Inr s'"
  obtains s1 s2 s3 where "orig = Unsigned"
    "(case s_trader_metrics summary of Some m \<Rightarrow> update_lmp_scores m s | None \<Rightarrow> Inr s) = Inr s1"
    "process_egress_msg cfg (s_egress_messages summary) s1 = Inr s2"
    "pay_withdrawals cfg summary s2 = Inr s3"
    "length (ingress_messages s3 (st_now s3)) < unat (c_ingress_limit cfg)"
    "s' = s3 \<lparr> st_snapshot_nonce := s_snapshot_id summary,
      st_snapshots := (st_snapshots s3)(s_snapshot_id summary \<mapsto> summary),
      st_ingress := pruned (s_last_processed_blk summary)
        ((st_ingress s3)(st_now s3 \<mapsto> ingress_messages s3 (st_now s3) @ [WithdrawTradingFees])),
      st_events := st_events s3 @ [SnapshotProcessed (s_snapshot_id summary)] \<rparr>"
proof -
  have "\<exists>s1 s2 s3. orig = Unsigned \<and>
    (case s_trader_metrics summary of Some m \<Rightarrow> update_lmp_scores m s | None \<Rightarrow> Inr s) = Inr s1 \<and>
    process_egress_msg cfg (s_egress_messages summary) s1 = Inr s2 \<and>
    pay_withdrawals cfg summary s2 = Inr s3 \<and>
    length (ingress_messages s3 (st_now s3)) < unat (c_ingress_limit cfg) \<and>
    s' = s3 \<lparr> st_snapshot_nonce := s_snapshot_id summary,
      st_snapshots := (st_snapshots s3)(s_snapshot_id summary \<mapsto> summary),
      st_ingress := pruned (s_last_processed_blk summary)
        ((st_ingress s3)(st_now s3 \<mapsto> ingress_messages s3 (st_now s3) @ [WithdrawTradingFees])),
      st_events := st_events s3 @ [SnapshotProcessed (s_snapshot_id summary)] \<rparr>"
    using assms unfolding submit_snapshot_def ensure_Inr bind_res_Inr Let_def push_ingress_Inr
    by (elim exE conjE) (intro exI conjI, assumption+, auto simp: prune_ingress_def deposit_event_def)
  then show ?thesis using that by blast
qed

lemma egress_frameD:
  assumes "egress_frame s s'"
  shows "st_withdrawals s' = st_withdrawals s" and "st_ingress s' = st_ingress s" and "st_now s' = st_now s"
  by (subst assms [unfolded egress_frame_def], simp)+

lemma scores_keep:
  assumes "(case m of Some ms \<Rightarrow> update_lmp_scores ms s | None \<Rightarrow> Inr s) = Inr s'"
  shows "st_withdrawals s' = st_withdrawals s \<and> st_ingress s' = st_ingress s \<and> st_now s' = st_now s"
  using assms by (cases m) (auto elim!: update_lmp_scores_cases)

lemma pay_withdrawals_keep:
  assumes "pay_withdrawals cfg summary s = Inr s'"
  shows "st_ingress s' = st_ingress s \<and> st_now s' = st_now s"
  using assms
proof (cases rule: pay_withdrawals_cases)
  case (some fm s1)
  show ?thesis by (intro conjI; subst some(3), simp)
qed simp

lemma pay_withdrawals_unpaid:
  assumes "pay_withdrawals cfg summary s = Inr s'" and "st_withdrawals s (s_snapshot_id summary) = None"
  shows "(\<exists>paid. mset (unpaid s' (s_snapshot_id summary)) + mset paid = mset (s_withdrawals summary))"
    and "sid \<noteq> s_snapshot_id summary \<Longrightarrow> st_withdrawals s' sid = st_withdrawals s sid"
    and "withdrawals_inv s \<Longrightarrow> withdrawals_inv s'"
proof -
  have "(\<exists>paid. mset (unpaid s' (s_snapshot_id summary)) + mset paid = mset (s_withdrawals summary)) \<and>
    (sid \<noteq> s_snapshot_id summary \<longrightarrow> st_withdrawals s' sid = st_withdrawals s sid) \<and>
    (withdrawals_inv s \<longrightarrow> withdrawals_inv s')"
    using assms(1)
  proof (cases rule: pay_withdrawals_cases)
    case none
    with assms(2) show ?thesis by (simp add: unpaid_def)
  next
    case (some fm s1)
    have w: "st_withdrawals s' = (if fm = [] then st_withdrawals s else (st_withdrawals s)(s_snapshot_id summary \<mapsto> fm))"
      by (subst some(3)) simp
    have u: "unpaid s' (s_snapshot_id summary) = tree_withdrawals fm"
      using assms(2) by (simp add: unpaid_def w tree_withdrawals_def)
    have "bt_wf ([] :: (account, 'a Withdrawal list) btree)" by (simp add: bt_wf_def)
    then obtain paid where "mset (tree_withdrawals fm) + mset paid = mset (s_withdrawals summary)"
      using pay_accounts_partition [OF some(2) create_withdrawal_tree_wf]
      by (auto simp: mset_create_withdrawal_tree)
    moreover have "tree_ok fm"
      by (rule pay_accounts_tree_ok [OF some(2) create_withdrawal_tree_ok tree_ok_Nil])
    ultimately show ?thesis
      unfolding u by (auto simp: w withdrawals_inv_def)
  qed
  then show "(\<exists>paid. mset (unpaid s' (s_snapshot_id summary)) + mset paid = mset (s_withdrawals summary))"
    and "sid \<noteq> s_snapshot_id summary \<Longrightarrow> st_withdrawals s' sid = st_withdrawals s sid"
    and "withdrawals_inv s \<Longrightarrow> withdrawals_inv s'"
    by auto
qed

lemma submit_snapshot_before_pay:
  assumes "(case s_trader_metrics summary of Some m \<Rightarrow> update_lmp_scores m s | None \<Rightarrow> Inr s) = Inr s1"
    and "process_egress_msg cfg (s_egress_messages summary) s1 = Inr s2"
  shows "st_withdrawals s2 = st_withdrawals s" and "st_ingress s2 = st_ingress s" and "st_now s2 = st_now s"
  using scores_keep [OF assms(1)] egress_frameD [OF process_egress_msg_frame [OF assms(2)]] by auto

subsection \<open>Properties\<close>

text \<open>C2: a snapshot passes the validation exactly when it continues the nonce, respects the
  withdrawal limit, names the active authority set, that set is not empty, and it carries at
  least one signature and at least the threshold, all of them valid signatures of the encoded
  summary by distinct members of the active set.\<close>

theorem validate_snapshot_iff:
  "validate_snapshot cfg summary sigs s = Valid \<longleftrightarrow>
    s_snapshot_id summary = sat_add (st_snapshot_nonce s) 1 \<and>
    word_of_nat (length (s_withdrawals summary)) \<le> c_withdrawal_limit cfg \<and>
    s_validator_set_id summary = st_validator_set_id s \<and>
    (let auths = vs_validators (validator_set s) in
      auths \<noteq> [] \<and> sigs \<noteq> [] \<and> c_percent cfg 51 (length auths) \<le> length sigs \<and> distinct (map fst sigs) \<and>
      (\<forall>(i, sig)\<in>set sigs. unat i < length auths \<and>
        authority_verify (c_crypto cfg) (auths ! unat i) sig (enc_summary (c_codec cfg) summary)))"
  by (rule validate_snapshot_Valid)

text \<open>Three authorities; two signatures of the summary of snapshot 1.\<close>

definition sample_authorities :: "(rat, table) ocex" where
  "sample_authorities = on_genesis_session [1, 2, 3] sample_custody"

definition sample_summary :: "rat SnapshotSummary" where
  "sample_summary =
    \<lparr> s_validator_set_id = 0, s_snapshot_id = 1, s_state_hash = 0, s_state_change_id = 1,
      s_last_processed_blk = 0, s_withdrawals = sample_withdrawals, s_egress_messages = [],
      s_trader_metrics = None \<rparr>"

definition sample_sigs :: "(u16 \<times> bytes) list" where
  "sample_sigs = [(0, enc_summary sample_codec sample_summary), (2, enc_summary sample_codec sample_summary)]"

theorem validate_snapshot_iff_witness:
  "validate_snapshot sample_cfg sample_summary sample_sigs sample_authorities = Valid \<and>
   validate_snapshot sample_cfg sample_summary [hd sample_sigs, hd sample_sigs] sample_authorities \<noteq> Valid"
  unfolding validate_snapshot_iff by code_simp



text \<open>C4: a snapshot cannot be replayed: once a snapshot was executed, no snapshot with the same or
  a smaller number passes the validation, unless the number is the largest 64-bit one.\<close>

theorem snapshot_no_replay:
  assumes "submit_snapshot cfg orig summary sigs s = Inr s'" and "s_snapshot_id summary \<noteq> - 1"
    and "s_snapshot_id summary' \<le> s_snapshot_id summary"
  shows "st_snapshot_nonce s' = s_snapshot_id summary \<and> st_snapshots s' (s_snapshot_id summary) = Some summary \<and>
    validate_snapshot cfg summary' sigs' s' \<noteq> Valid"
  using assms(1)
proof (cases rule: submit_snapshot_cases)
  case (1 s1 s2 s3)
  have "unat (s_snapshot_id summary) \<noteq> unat (- 1 :: u64)"
    using assms(2) by (metis word_unat_eq_iff)
  then have "unat (s_snapshot_id summary) < 2 ^ 64 - 1"
    using unat_less_exp [of "s_snapshot_id summary"] by (simp add: unat_minus_one_word)
  then have "s_snapshot_id summary < sat_add (s_snapshot_id summary) 1"
    by (simp add: word_less_nat_alt unat_sat_add)
  with assms(3) have "s_snapshot_id summary' \<noteq> sat_add (s_snapshot_id summary) 1"
    by auto
  then show ?thesis
    by (auto simp: 1(6) validate_snapshot_def)
qed

theorem snapshot_no_replay_witness:
  "\<exists>s'. submit_snapshot sample_cfg Unsigned (sample_summary \<lparr> s_withdrawals := [] \<rparr>) [] sample_authorities = Inr s' \<and>
    validate_snapshot sample_cfg (sample_summary \<lparr> s_withdrawals := [] \<rparr>) sample_sigs s' \<noteq> Valid"
proof -
  let ?sm = "sample_summary \<lparr> s_withdrawals := [] \<rparr>"
  have "is_ok (submit_snapshot sample_cfg Unsigned ?sm [] sample_authorities)" by code_simp
  then obtain s' where run: "submit_snapshot sample_cfg Unsigned ?sm [] sample_authorities = Inr s'"
    by (auto simp: is_ok_iff)
  have "s_snapshot_id ?sm \<noteq> - 1" "s_snapshot_id ?sm \<le> s_snapshot_id ?sm"
    by (simp_all add: sample_summary_def)
  from snapshot_no_replay [OF run this] run show ?thesis by blast
qed

text \<open>C39: executing a snapshot discards exactly the ingress messages of the blocks the engine has
  processed; later blocks keep theirs, and the current one gains the order to withdraw fees.\<close>

theorem submit_snapshot_prunes:
  assumes "submit_snapshot cfg orig summary sigs s = Inr s'"
  shows "ingress_messages s' b =
    (if b \<le> s_last_processed_blk summary then []
     else ingress_messages s b @ (if b = st_now s then [WithdrawTradingFees] else []))"
  using assms
proof (cases rule: submit_snapshot_cases)
  case (1 s1 s2 s3)
  have "st_ingress s3 = st_ingress s" "st_now s3 = st_now s"
    using submit_snapshot_before_pay [OF 1(2,3)] pay_withdrawals_keep [OF 1(4)] by auto
  then show ?thesis
    by (auto simp: 1(6) ingress_messages_def pruned_def)
qed

theorem submit_snapshot_prunes_witness:
  "\<exists>s'. submit_snapshot sample_cfg Unsigned (sample_summary \<lparr> s_withdrawals := [] \<rparr>) [] sample_authorities = Inr s' \<and>
    ingress_messages s' 1 = [WithdrawTradingFees]"
proof -
  let ?sm = "sample_summary \<lparr> s_withdrawals := [] \<rparr>"
  have "is_ok (submit_snapshot sample_cfg Unsigned ?sm [] sample_authorities)" by code_simp
  then obtain s' where run: "submit_snapshot sample_cfg Unsigned ?sm [] sample_authorities = Inr s'"
    by (auto simp: is_ok_iff)
  have "ingress_messages sample_authorities 1 = []" "st_now sample_authorities = 1"
    by (simp_all add: sample_authorities_def on_genesis_session_def sample_custody_def sample_chain_def
        init_state_def ingress_messages_def)
  with submit_snapshot_prunes [OF run, of 1] run show ?thesis
    by (simp add: sample_summary_def)
qed

end
