(* ===== verification/Ocex_Auction.thy ===== *)
theory Ocex_Auction
  imports Ocex_Snapshot
begin

text \<open>
  Fee auctions and the block hook of the orderbook pallet (\<^verbatim>\<open>pallets/ocex/src/lib.rs\<close>). A hook is
  not transactional: \<open>close_auction\<close> returns the state it has reached together with its result,
  so that an error in the middle keeps what was done before it.
\<close>

subsection \<open>Operations\<close>

definition auction_fees :: "('d, 'w) config \<Rightarrow> ('d, 'w) ocex \<Rightarrow> (u128, u128) btree" where
  "auction_fees cfg s =
    fold (\<lambda>asset fees.
      case asset of
        Polkadex \<Rightarrow> fees
      | Asset i \<Rightarrow>
          let bal = asset_reducible (c_currency cfg) (st_world s) i (c_pot_account cfg) Preserve Polite
          in if asset_minimum (c_currency cfg) (st_world s) i < bal then bt_insert i bal fees else fees)
      (st_allowlisted s) []"

definition create_auction :: "('d, 'w) config \<Rightarrow> ('d, 'w) ocex \<Rightarrow> dispatch_error + ('d, 'w) ocex" where
  "create_auction cfg s =
    (let auction_info = default_AuctionInfo \<lparr> fee_info := auction_fees cfg s \<rparr> in
    bind_res (ok_or (Err FeeDistributionConfigNotFound) (st_fee_distribution s)) (\<lambda>fee_config.
    let next_auction_block = sat_add (st_now s) (auction_duration fee_config) in
    Inr (s \<lparr> st_auction_block := Some next_auction_block, st_auction := Some auction_info \<rparr>)))"

text \<open>The transfers of the auctioned fees; the first failure ends the loop.\<close>

fun pay_bidder :: "('d, 'w) config \<Rightarrow> account \<Rightarrow> (u128 \<times> u128) list \<Rightarrow> ('d, 'w) ocex \<Rightarrow>
    (dispatch_error + unit) \<times> ('d, 'w) ocex" where
  "pay_bidder cfg bidder [] s = (Inr (), s)"
| "pay_bidder cfg bidder ((i, fee) # rest) s =
    (case asset_transfer (c_currency cfg) (st_world s) i (c_pot_account cfg) bidder fee Preserve of
      Inl e \<Rightarrow> (Inl (External e), s)
    | Inr w \<Rightarrow> pay_bidder cfg bidder rest (s \<lparr> st_world := w \<rparr>))"

definition settle_bid :: "('d, 'w) config \<Rightarrow> account \<Rightarrow> u128 \<Rightarrow> FeeDistribution \<Rightarrow> ('d, 'w) ocex \<Rightarrow>
    (dispatch_error + unit) \<times> ('d, 'w) ocex" where
  "settle_bid cfg bidder bid fee_config s =
    (let s = s \<lparr> st_world := native_unreserve (c_currency cfg) (st_world s) bidder bid \<rparr>;
         amount_to_be_burnt = word_of_nat (c_percent cfg (burn_ration fee_config) (unat bid));
         transferable_amount = sat_sub bid amount_to_be_burnt in
    case native_transfer (c_currency cfg) (st_world s) bidder (recipient_address fee_config)
        transferable_amount Preserve of
      Inl e \<Rightarrow> (Inl (External e), s)
    | Inr w \<Rightarrow>
        let s = s \<lparr> st_world := w \<rparr> in
        case native_burn_settle (c_currency cfg) (st_world s) bidder amount_to_be_burnt of
          None \<Rightarrow> (Inl (Err TradingFeesBurnFailed), s)
        | Some w \<Rightarrow>
            (Inr (), deposit_event (AuctionClosed bidder amount_to_be_burnt transferable_amount)
              (s \<lparr> st_world := w \<rparr>)))"

definition close_auction :: "('d, 'w) config \<Rightarrow> ('d, 'w) ocex \<Rightarrow> (dispatch_error + unit) \<times> ('d, 'w) ocex" where
  "close_auction cfg s =
    (case st_auction s of
      None \<Rightarrow> (Inl (Err AuctionNotFound), s)
    | Some auction_info \<Rightarrow>
        (case highest_bidder auction_info of
          None \<Rightarrow> (Inr (), s)
        | Some bidder \<Rightarrow>
            (case st_fee_distribution s of
              None \<Rightarrow> (Inl (Err FeeDistributionConfigNotFound), s)
            | Some fee_config \<Rightarrow>
                (case pay_bidder cfg bidder (fee_info auction_info) s of
                  (Inl e, s) \<Rightarrow> (Inl e, s)
                | (Inr _, s) \<Rightarrow> settle_bid cfg bidder (highest_bid auction_info) fee_config s))))"

definition try_create_auction :: "('d, 'w) config \<Rightarrow> ('d, 'w) ocex \<Rightarrow> ('d, 'w) ocex" where
  "try_create_auction cfg s =
    (case create_auction cfg s of Inr s' \<Rightarrow> s' | Inl _ \<Rightarrow> deposit_event FailedToCreateAuction s)"

definition on_initialize :: "('d, 'w) config \<Rightarrow> u32 \<Rightarrow> ('d, 'w) ocex \<Rightarrow> ('d, 'w) ocex" where
  "on_initialize cfg n s =
    (let s = (if should_start_new_epoch n then start_new_epoch cfg n s else s);
         s = (if should_stop_accepting_lmp_withdrawals n then stop_accepting_lmp_withdrawals cfg s else s);
         len = length (st_onchain_events s);
         s = (case st_auction_block s of
             Some auction_block \<Rightarrow>
               if n = auction_block then
                 (let s = (case close_auction cfg s of
                        (Inr _, s) \<Rightarrow> s
                      | (Inl _, s) \<Rightarrow> deposit_event FailedToConsumeAuction s)
                  in try_create_auction cfg s)
               else s
           | None \<Rightarrow> try_create_auction cfg s)
     in if len > 0 then s \<lparr> st_onchain_events := [] \<rparr> else s)"

text \<open>The block number is advanced by the system pallet before the hook runs.\<close>

definition new_block :: "('d, 'w) config \<Rightarrow> ('d, 'w) ocex \<Rightarrow> ('d, 'w) ocex" where
  "new_block cfg s = (let n = st_now s + 1 in on_initialize cfg n (s \<lparr> st_now := n \<rparr>))"

subsection \<open>Invariant\<close>

text \<open>
  No call places a bid: an auction never has a bidder. An auction exists exactly when the
  block of its end is scheduled.
\<close>

definition auction_inv :: "('d, 'w) ocex \<Rightarrow> bool" where
  "auction_inv s \<longleftrightarrow>
    (st_auction s = None \<longleftrightarrow> st_auction_block s = None) \<and>
    (\<forall>a. st_auction s = Some a \<longrightarrow> highest_bidder a = None \<and> bt_wf (fee_info a))"

lemma auction_inv_upd [simp]:
  "auction_inv (s \<lparr> st_allowlisted := x0 \<rparr>) = auction_inv s"
  "auction_inv (s \<lparr> st_accounts := x1 \<rparr>) = auction_inv s"
  "auction_inv (s \<lparr> st_proxies := x2 \<rparr>) = auction_inv s"
  "auction_inv (s \<lparr> st_trading_pairs := x3 \<rparr>) = auction_inv s"
  "auction_inv (s \<lparr> st_snapshots := x4 \<rparr>) = auction_inv s"
  "auction_inv (s \<lparr> st_snapshot_nonce := x5 \<rparr>) = auction_inv s"
  "auction_inv (s \<lparr> st_exchange_state := x6 \<rparr>) = auction_inv s"
  "auction_inv (s \<lparr> st_withdrawals := x7 \<rparr>) = auction_inv s"
  "auction_inv (s \<lparr> st_ingress := x8 \<rparr>) = auction_inv s"
  "auction_inv (s \<lparr> st_onchain_events := x9 \<rparr>) = auction_inv s"
  "auction_inv (s \<lparr> st_total_assets := x10 \<rparr>) = auction_inv s"
  "auction_inv (s \<lparr> st_authorities := x11 \<rparr>) = auction_inv s"
  "auction_inv (s \<lparr> st_next_authorities := x12 \<rparr>) = auction_inv s"
  "auction_inv (s \<lparr> st_validator_set_id := x13 \<rparr>) = auction_inv s"
  "auction_inv (s \<lparr> st_operator_key := x14 \<rparr>) = auction_inv s"
  "auction_inv (s \<lparr> st_lmp_epoch := x15 \<rparr>) = auction_inv s"
  "auction_inv (s \<lparr> st_trader_metrics := x16 \<rparr>) = auction_inv s"
  "auction_inv (s \<lparr> st_total_scores := x17 \<rparr>) = auction_inv s"
  "auction_inv (s \<lparr> st_finalize_lmp := x18 \<rparr>) = auction_inv s"
  "auction_inv (s \<lparr> st_lmp_config := x19 \<rparr>) = auction_inv s"
  "auction_inv (s \<lparr> st_expected_lmp_config := x20 \<rparr>) = auction_inv s"
  "auction_inv (s \<lparr> st_lmp_claim_blk := x21 \<rparr>) = auction_inv s"
  "auction_inv (s \<lparr> st_price_oracle := x22 \<rparr>) = auction_inv s"
  "auction_inv (s \<lparr> st_fee_distribution := x23 \<rparr>) = auction_inv s"
  "auction_inv (s \<lparr> st_now := x24 \<rparr>) = auction_inv s"
  "auction_inv (s \<lparr> st_events := x25 \<rparr>) = auction_inv s"
  "auction_inv (s \<lparr> st_world := x26 \<rparr>) = auction_inv s"
  by (simp_all add: auction_inv_def)

lemma auction_fees_wf: "bt_wf (auction_fees cfg s)"
proof -
  have "bt_wf m \<Longrightarrow> bt_wf (fold (\<lambda>asset fees.
      case asset of
        Polkadex \<Rightarrow> fees
      | Asset i \<Rightarrow>
          let bal = asset_reducible (c_currency cfg) (st_world s) i (c_pot_account cfg) Preserve Polite
          in if asset_minimum (c_currency cfg) (st_world s) i < bal then bt_insert i bal fees else fees) as m)" for m as
    by (induction as arbitrary: m) (auto simp: Let_def split: AssetId.splits)
  then show ?thesis
    by (simp add: auction_fees_def bt_wf_def)
qed

lemma create_auction_Inr:
  "create_auction cfg s = Inr s' \<longleftrightarrow>
    (\<exists>d. st_fee_distribution s = Some d \<and>
      s' = s \<lparr> st_auction_block := Some (sat_add (st_now s) (auction_duration d)),
        st_auction := Some (default_AuctionInfo \<lparr> fee_info := auction_fees cfg s \<rparr>) \<rparr>)"
  by (auto simp: create_auction_def res_simps Let_def)

lemma try_create_auction_inv: "auction_inv s \<Longrightarrow> auction_inv (try_create_auction cfg s)"
  by (auto simp: try_create_auction_def create_auction_Inr deposit_event_def auction_fees_wf
      auction_inv_def [of "_ \<lparr> st_auction_block := _, st_auction := _ \<rparr>"] default_AuctionInfo_def split: sum.splits)

lemma close_auction_idle:
  "auction_inv s \<Longrightarrow> close_auction cfg s = (if st_auction s = None then Inl (Err AuctionNotFound) else Inr (), s)"
  by (auto simp: close_auction_def auction_inv_def split: option.splits)

subsection \<open>The block hook\<close>

definition epoch_hooks :: "('d, 'w) config \<Rightarrow> u32 \<Rightarrow> ('d, 'w) ocex \<Rightarrow> ('d, 'w) ocex" where
  "epoch_hooks cfg n s =
    (let s = (if should_start_new_epoch n then start_new_epoch cfg n s else s)
     in if should_stop_accepting_lmp_withdrawals n then stop_accepting_lmp_withdrawals cfg s else s)"

definition auction_hook :: "('d, 'w) config \<Rightarrow> u32 \<Rightarrow> ('d, 'w) ocex \<Rightarrow> ('d, 'w) ocex" where
  "auction_hook cfg n s =
    (case st_auction_block s of
      Some auction_block \<Rightarrow>
        if n = auction_block then
          (let s = (case close_auction cfg s of
                 (Inr _, s) \<Rightarrow> s
               | (Inl _, s) \<Rightarrow> deposit_event FailedToConsumeAuction s)
           in try_create_auction cfg s)
        else s
    | None \<Rightarrow> try_create_auction cfg s)"

lemma on_initialize_hooks:
  "on_initialize cfg n s =
    (let s1 = epoch_hooks cfg n s; s2 = auction_hook cfg n s1
     in if st_onchain_events s1 \<noteq> [] then s2 \<lparr> st_onchain_events := [] \<rparr> else s2)"
  by (simp add: on_initialize_def epoch_hooks_def auction_hook_def Let_def)

lemma announce_epoch_world: "\<exists>q. announce_epoch cfg n e c s = s \<lparr> st_ingress := q \<rparr>"
proof (cases "Option.bind (try_push (unat (c_ingress_limit cfg)) (NewLMPEpoch e) (ingress_messages s n))
    (try_push (unat (c_ingress_limit cfg)) (LMPConfigMsg c))")
  case None
  then have "announce_epoch cfg n e c s = s \<lparr> st_ingress := st_ingress s \<rparr>"
    by (simp add: announce_epoch_def)
  then show ?thesis by blast
qed (auto simp: announce_epoch_def)

lemma start_new_epoch_frame:
  "\<exists>cf f e w q. start_new_epoch cfg n s = s \<lparr> st_lmp_config := cf, st_finalize_lmp := f, st_lmp_epoch := e,
    st_world := w, st_ingress := q \<rparr>"
proof (cases "st_expected_lmp_config s")
  case None
  then have "start_new_epoch cfg n s = s \<lparr> st_lmp_config := st_lmp_config s, st_finalize_lmp := st_finalize_lmp s,
      st_lmp_epoch := st_lmp_epoch s, st_world := st_world s, st_ingress := st_ingress s \<rparr>"
    by (simp add: start_new_epoch_def)
  then show ?thesis by blast
next
  case (Some c)
  define s1 where "s1 = (if st_lmp_epoch s = 0 \<and> st_lmp_config s (st_lmp_epoch s) = None
      then s \<lparr> st_lmp_config := (st_lmp_config s)(st_lmp_epoch s \<mapsto> c) \<rparr> else s)"
  obtain cf where s1: "s1 = s \<lparr> st_lmp_config := cf \<rparr>"
  proof
    show "s1 = s \<lparr> st_lmp_config := st_lmp_config s1 \<rparr>" by (simp add: s1_def)
  qed
  define s2 where "s2 = (if st_finalize_lmp s1 = None then s1 \<lparr> st_finalize_lmp := Some (st_lmp_epoch s) \<rparr> else s1)"
  obtain f where s2: "s2 = s1 \<lparr> st_finalize_lmp := f \<rparr>"
  proof
    show "s2 = s1 \<lparr> st_finalize_lmp := st_finalize_lmp s2 \<rparr>" by (simp add: s2_def)
  qed
  define s3 where "s3 = s2 \<lparr> st_lmp_epoch := sat_add (st_lmp_epoch s) 1,
      st_lmp_config := (st_lmp_config s2)(sat_add (st_lmp_epoch s) 1 \<mapsto> c),
      st_world := cs_new_epoch (c_crowd_source cfg) (sat_add (st_lmp_epoch s) 1) (st_world s2) \<rparr>"
  obtain q where q: "announce_epoch cfg n (sat_add (st_lmp_epoch s) 1) c s3 = s3 \<lparr> st_ingress := q \<rparr>"
    using announce_epoch_world by blast
  have "start_new_epoch cfg n s = s3 \<lparr> st_ingress := q \<rparr>"
    unfolding q [symmetric] by (simp add: start_new_epoch_def Some Let_def s3_def s2_def s1_def)
  also have "\<dots> = s \<lparr> st_lmp_config := st_lmp_config s3, st_finalize_lmp := f, st_lmp_epoch := sat_add (st_lmp_epoch s) 1,
      st_world := st_world s3, st_ingress := q \<rparr>"
    by (rule ocex.equality) (simp_all add: s3_def s2 s1)
  finally show ?thesis by blast
qed

lemma epoch_hooks_frame:
  "\<exists>cf f e w q. epoch_hooks cfg n s = s \<lparr> st_lmp_config := cf, st_finalize_lmp := f, st_lmp_epoch := e,
    st_world := w, st_ingress := q \<rparr>"
proof -
  define s1 where "s1 = (if should_start_new_epoch n then start_new_epoch cfg n s else s)"
  have "s = s \<lparr> st_lmp_config := st_lmp_config s, st_finalize_lmp := st_finalize_lmp s, st_lmp_epoch := st_lmp_epoch s,
      st_world := st_world s, st_ingress := st_ingress s \<rparr>" by simp
  then have "\<exists>cf f e w q. s1 = s \<lparr> st_lmp_config := cf, st_finalize_lmp := f, st_lmp_epoch := e,
      st_world := w, st_ingress := q \<rparr>"
    unfolding s1_def using start_new_epoch_frame [of cfg n s] by (metis (full_types))
  then obtain cf f e w q where s1: "s1 = s \<lparr> st_lmp_config := cf, st_finalize_lmp := f, st_lmp_epoch := e,
      st_world := w, st_ingress := q \<rparr>" by blast
  have "epoch_hooks cfg n s = s \<lparr> st_lmp_config := cf, st_finalize_lmp := f, st_lmp_epoch := e,
      st_world := (if should_stop_accepting_lmp_withdrawals n
        then cs_stop_accepting_lmp_withdrawals (c_crowd_source cfg) e w else w), st_ingress := q \<rparr>"
    unfolding epoch_hooks_def s1_def [symmetric] Let_def
    by (rule ocex.equality) (simp_all add: s1 stop_accepting_lmp_withdrawals_def)
  then show ?thesis by blast
qed

lemma auction_hook_cases:
  assumes "auction_inv s"
  obtains (waiting) b where "st_auction_block s = Some b" "b \<noteq> n" "auction_hook cfg n s = s"
  | (renewed) d where "st_auction_block s \<in> {None, Some n}" "st_fee_distribution s = Some d"
    "auction_hook cfg n s = s \<lparr> st_auction_block := Some (sat_add (st_now s) (auction_duration d)),
      st_auction := Some (default_AuctionInfo \<lparr> fee_info := auction_fees cfg s \<rparr>) \<rparr>"
  | (failed) "st_auction_block s \<in> {None, Some n}" "st_fee_distribution s = None"
    "auction_hook cfg n s = deposit_event FailedToCreateAuction s"
proof (cases "st_auction_block s \<in> {None, Some n}")
  case False
  then show ?thesis
    using waiting by (auto simp: auction_hook_def split: option.splits)
next
  case True
  have "auction_hook cfg n s = try_create_auction cfg s"
    using True close_auction_idle [OF assms, of cfg] assms
    by (auto simp: auction_hook_def auction_inv_def)
  then show ?thesis
    using True renewed failed
    by (cases "st_fee_distribution s") (auto simp: try_create_auction_def create_auction_def Let_def)
qed

lemma auction_hook_inv:
  assumes "auction_inv s"
  shows "auction_inv (auction_hook cfg n s)"
  using assms
  by (cases rule: auction_hook_cases [OF assms, of n cfg])
    (auto simp: deposit_event_def auction_fees_wf
      auction_inv_def [of "_ \<lparr> st_auction_block := _, st_auction := _ \<rparr>"] default_AuctionInfo_def)

lemma epoch_hooks_auction:
  "auction_inv (epoch_hooks cfg n s) = auction_inv s"
  "st_auction_block (epoch_hooks cfg n s) = st_auction_block s"
  "st_auction (epoch_hooks cfg n s) = st_auction s"
  "st_fee_distribution (epoch_hooks cfg n s) = st_fee_distribution s"
  "st_now (epoch_hooks cfg n s) = st_now s"
  using epoch_hooks_frame [of cfg n s] by auto

lemma on_initialize_auction: "auction_inv s \<Longrightarrow> auction_inv (on_initialize cfg n s)"
  by (simp add: on_initialize_hooks Let_def auction_hook_inv epoch_hooks_auction)

lemma announce_epoch_bounded: "queue_bounded cfg s \<Longrightarrow> queue_bounded cfg (announce_epoch cfg n e c s)"
  by (auto simp: announce_epoch_def queue_bounded_def try_push_def bind_eq_Some_conv ingress_messages_def
      split: option.splits if_splits)

lemma start_new_epoch_bounded: "queue_bounded cfg s \<Longrightarrow> queue_bounded cfg (start_new_epoch cfg n s)"
  by (auto simp: start_new_epoch_def Let_def intro!: announce_epoch_bounded split: option.splits)

lemma epoch_hooks_inv:
  "lmp_inv s \<Longrightarrow> lmp_inv (epoch_hooks cfg n s)"
  "queue_bounded cfg s \<Longrightarrow> queue_bounded cfg (epoch_hooks cfg n s)"
  by (auto simp: epoch_hooks_def Let_def stop_accepting_lmp_withdrawals_def start_new_epoch_inv start_new_epoch_bounded)

lemma auction_hook_frame:
  assumes "auction_inv s"
  shows "\<exists>a b e. auction_hook cfg n s = s \<lparr> st_auction_block := a, st_auction := b, st_events := e \<rparr>"
proof -
  have id: "s = s \<lparr> st_auction_block := st_auction_block s, st_auction := st_auction s, st_events := st_events s \<rparr>"
    by simp
  from assms show ?thesis
  proof (cases rule: auction_hook_cases [of s n cfg])
    case (waiting b)
    with id show ?thesis by metis
  next
    case (renewed d)
    then have "auction_hook cfg n s = s \<lparr> st_auction_block := Some (sat_add (st_now s) (auction_duration d)),
        st_auction := Some (default_AuctionInfo \<lparr> fee_info := auction_fees cfg s \<rparr>), st_events := st_events s \<rparr>"
      by simp
    then show ?thesis by blast
  next
    case failed
    then have "auction_hook cfg n s = s \<lparr> st_auction_block := st_auction_block s, st_auction := st_auction s,
        st_events := st_events s @ [FailedToCreateAuction] \<rparr>"
      by (simp add: deposit_event_def)
    then show ?thesis by blast
  qed
qed

lemma on_initialize_inv:
  assumes "auction_inv s"
  shows "lmp_inv s \<Longrightarrow> lmp_inv (on_initialize cfg n s)"
    and "queue_bounded cfg s \<Longrightarrow> queue_bounded cfg (on_initialize cfg n s)"
    and "accounts_inv (on_initialize cfg n s) = accounts_inv s"
    and "markets_inv (on_initialize cfg n s) = markets_inv s"
    and "allowlist_inv (on_initialize cfg n s) = allowlist_inv s"
    and "st_withdrawals (on_initialize cfg n s) = st_withdrawals s"
    and "st_trader_metrics (on_initialize cfg n s) = st_trader_metrics s"
    and "st_lmp_claim_blk (on_initialize cfg n s) = st_lmp_claim_blk s"
    and "st_snapshot_nonce (on_initialize cfg n s) = st_snapshot_nonce s"
proof -
  let ?s1 = "epoch_hooks cfg n s"
  have inv1: "auction_inv ?s1" using assms by (simp add: epoch_hooks_auction)
  obtain a b e where h: "auction_hook cfg n ?s1 = ?s1 \<lparr> st_auction_block := a, st_auction := b, st_events := e \<rparr>"
    using auction_hook_frame [OF inv1] by blast
  obtain cf f ep w q where s1: "?s1 = s \<lparr> st_lmp_config := cf, st_finalize_lmp := f, st_lmp_epoch := ep,
      st_world := w, st_ingress := q \<rparr>"
    using epoch_hooks_frame [of cfg n s] by blast
  show "lmp_inv s \<Longrightarrow> lmp_inv (on_initialize cfg n s)"
    and "queue_bounded cfg s \<Longrightarrow> queue_bounded cfg (on_initialize cfg n s)"
    using epoch_hooks_inv(1) [of s cfg n] epoch_hooks_inv(2) [of cfg s n] by (simp_all add: on_initialize_hooks Let_def h)
  show "accounts_inv (on_initialize cfg n s) = accounts_inv s"
    "markets_inv (on_initialize cfg n s) = markets_inv s"
    "allowlist_inv (on_initialize cfg n s) = allowlist_inv s"
    "st_withdrawals (on_initialize cfg n s) = st_withdrawals s"
    "st_trader_metrics (on_initialize cfg n s) = st_trader_metrics s"
    "st_lmp_claim_blk (on_initialize cfg n s) = st_lmp_claim_blk s"
    "st_snapshot_nonce (on_initialize cfg n s) = st_snapshot_nonce s"
    by (simp_all add: on_initialize_hooks Let_def h) (simp_all add: s1)
qed

subsection \<open>Properties\<close>

text \<open>C40: the schedule of the fee auctions. At the scheduled block, or when none is scheduled, the
  auction is replaced by a fresh one without bids, ending \<open>auction_duration\<close> blocks later; at any
  other block it is left alone, so an end that lies in the past (as with duration zero) is
  never reached again. Nothing is ever sold: no fees leave the pot account.\<close>

theorem auction_schedule:
  assumes "auction_inv s" and "st_now s = n"
  shows "(st_auction_block s \<in> {None, Some n} \<and> st_fee_distribution s = Some d \<longrightarrow>
      st_auction_block (on_initialize cfg n s) = Some (sat_add n (auction_duration d)) \<and>
      (\<exists>a. st_auction (on_initialize cfg n s) = Some a \<and> highest_bidder a = None \<and> highest_bid a = 0)) \<and>
    (st_auction_block s \<notin> {None, Some n} \<longrightarrow>
      st_auction_block (on_initialize cfg n s) = st_auction_block s \<and>
      st_auction (on_initialize cfg n s) = st_auction s) \<and>
    close_auction cfg s = (if st_auction s = None then Inl (Err AuctionNotFound) else Inr (), s)"
proof -
  let ?s1 = "epoch_hooks cfg n s"
  have inv1: "auction_inv ?s1" using assms by (simp add: epoch_hooks_auction)
  have f: "st_auction_block (on_initialize cfg n s) = st_auction_block (auction_hook cfg n ?s1)"
      "st_auction (on_initialize cfg n s) = st_auction (auction_hook cfg n ?s1)"
    by (simp_all add: on_initialize_hooks Let_def)
  from inv1 have "(st_auction_block s \<in> {None, Some n} \<and> st_fee_distribution s = Some d \<longrightarrow>
      st_auction_block (on_initialize cfg n s) = Some (sat_add n (auction_duration d)) \<and>
      (\<exists>a. st_auction (on_initialize cfg n s) = Some a \<and> highest_bidder a = None \<and> highest_bid a = 0)) \<and>
    (st_auction_block s \<notin> {None, Some n} \<longrightarrow>
      st_auction_block (on_initialize cfg n s) = st_auction_block s \<and>
      st_auction (on_initialize cfg n s) = st_auction s)"
    unfolding f
    by (cases rule: auction_hook_cases [of ?s1 n cfg])
      (use assms(2) in \<open>auto simp: epoch_hooks_auction default_AuctionInfo_def\<close>)
  with close_auction_idle [OF assms(1)] show ?thesis by blast
qed

theorem auction_schedule_witness:
  "st_auction_block (on_initialize sample_cfg 1
      (sample_chain \<lparr> st_fee_distribution := Some \<lparr> recipient_address = 3, auction_duration = 0, burn_ration = 0 \<rparr> \<rparr>))
    = Some 1"
proof -
  let ?d = "\<lparr> recipient_address = 3, auction_duration = 0, burn_ration = 0 \<rparr>"
  let ?s = "sample_chain \<lparr> st_fee_distribution := Some ?d \<rparr>"
  have inv: "auction_inv ?s" "st_now ?s = 1" "st_auction_block ?s = None"
    by (simp_all add: auction_inv_def sample_chain_def init_state_def)
  have "sat_add (1 :: u32) 0 = 1"
    by code_simp
  with auction_schedule [OF inv(1,2), of ?d sample_cfg] inv(3) show ?thesis
    by simp
qed

end
