(* ===== verification/Ocex_System.thy ===== *)
theory Ocex_System
  imports Ocex_Auction
begin

text \<open>
  The orderbook pallet as a transition system: its dispatchable calls as a data type, the
  validated unsigned snapshots, the calls of other pallets through the traits
  \<^verbatim>\<open>LiquidityMining\<close> and \<^verbatim>\<open>OrderbookOperations\<close>, new blocks, new sessions, and arbitrary changes of
  the rest of the chain. The invariants of the components are combined and lifted to every
  reachable state.
\<close>

subsection \<open>Calls\<close>

datatype 'd call =
    Call_register_main_account account
  | Call_add_proxy_account account
  | Call_close_trading_pair AssetId AssetId
  | Call_open_trading_pair AssetId AssetId
  | Call_register_trading_pair AssetId AssetId u128 u128 u128 u128
  | Call_update_trading_pair AssetId AssetId u128 u128 u128 u128
  | Call_deposit AssetId u128
  | Call_remove_proxy_account account
  | Call_set_snapshot u64
  | Call_set_exchange_state bool
  | Call_claim_withdraw u64 account
  | Call_allowlist_token AssetId
  | Call_remove_allowlisted_token AssetId
  | Call_submit_snapshot "'d SnapshotSummary" "(u16 \<times> bytes) list"
  | Call_whitelist_orderbook_operator bytes
  | Call_claim_lmp_rewards u16 TradingPair
  | Call_set_lmp_epoch_config "u128 option" "u128 option" "LMPMarketConfigWrapper list" "u16 option" "u32 option"
  | Call_set_fee_distribution FeeDistribution
  | Call_start_new_epoch_lmp
  | Call_force_submit_snapshot "'d SnapshotSummary"

fun dispatch :: "('d, 'w) config \<Rightarrow> origin \<Rightarrow> 'd call \<Rightarrow> ('d, 'w) ocex \<Rightarrow> dispatch_error + ('d, 'w) ocex" where
  "dispatch cfg orig (Call_register_main_account p) s = register_main_account cfg orig p s"
| "dispatch cfg orig (Call_add_proxy_account p) s = add_proxy_account cfg orig p s"
| "dispatch cfg orig (Call_close_trading_pair b q) s = close_trading_pair cfg orig b q s"
| "dispatch cfg orig (Call_open_trading_pair b q) s = open_trading_pair cfg orig b q s"
| "dispatch cfg orig (Call_register_trading_pair b q mn mx tk st) s = register_trading_pair cfg orig b q mn mx tk st s"
| "dispatch cfg orig (Call_update_trading_pair b q mn mx tk st) s = update_trading_pair cfg orig b q mn mx tk st s"
| "dispatch cfg orig (Call_deposit a n) s = deposit cfg orig a n s"
| "dispatch cfg orig (Call_remove_proxy_account p) s = remove_proxy_account cfg orig p s"
| "dispatch cfg orig (Call_set_snapshot i) s = set_snapshot cfg orig i s"
| "dispatch cfg orig (Call_set_exchange_state b) s = set_exchange_state cfg orig b s"
| "dispatch cfg orig (Call_claim_withdraw i a) s = claim_withdraw cfg orig i a s"
| "dispatch cfg orig (Call_allowlist_token a) s = allowlist_token cfg orig a s"
| "dispatch cfg orig (Call_remove_allowlisted_token a) s = remove_allowlisted_token cfg orig a s"
| "dispatch cfg orig (Call_submit_snapshot sm sigs) s = submit_snapshot cfg orig sm sigs s"
| "dispatch cfg orig (Call_whitelist_orderbook_operator k) s = whitelist_orderbook_operator cfg orig k s"
| "dispatch cfg orig (Call_claim_lmp_rewards e m) s = claim_lmp_rewards cfg orig e m s"
| "dispatch cfg orig (Call_set_lmp_epoch_config lm tr ms mx sf) s = set_lmp_epoch_config cfg orig lm tr ms mx sf s"
| "dispatch cfg orig (Call_set_fee_distribution d) s = set_fee_distribution cfg orig d s"
| "dispatch cfg orig Call_start_new_epoch_lmp s = start_new_epoch_lmp cfg orig s"
| "dispatch cfg orig (Call_force_submit_snapshot sm) s = force_submit_snapshot orig sm s"

text \<open>\<^verbatim>\<open>ValidateUnsigned\<close> of the pallet: the only unsigned call is a snapshot.\<close>

fun validate_unsigned :: "('d, 'w) config \<Rightarrow> 'd call \<Rightarrow> ('d, 'w) ocex \<Rightarrow> validity" where
  "validate_unsigned cfg (Call_submit_snapshot sm sigs) s = validate_snapshot cfg sm sigs s"
| "validate_unsigned cfg _ s = InvalidCall"

subsection \<open>Steps\<close>

inductive step :: "('d, 'w) config \<Rightarrow> ('d, 'w) ocex \<Rightarrow> ('d, 'w) ocex \<Rightarrow> bool" for cfg where
  signed: "orig \<noteq> Unsigned \<Longrightarrow> dispatch cfg orig c s = Inr s' \<Longrightarrow> step cfg s s'"
| unsigned: "validate_unsigned cfg c s = Valid \<Longrightarrow> dispatch cfg Unsigned c s = Inr s' \<Longrightarrow> step cfg s s'"
| register_pool: "register_pool cfg pool acc s = Inr s' \<Longrightarrow> step cfg s s'"
| add_liquidity: "add_liquidity cfg m pool lp sh b q s = Inr s' \<Longrightarrow> step cfg s s'"
| remove_liquidity: "remove_liquidity cfg m pool lp burnt all_shares s = Inr s' \<Longrightarrow> step cfg s s'"
| force_close_pool: "step cfg s (force_close_pool cfg m pool s)"
| claim_rewards: "claim_rewards cfg main e m s = Inr (r, s') \<Longrightarrow> step cfg s s'"
| other_deposit: "orderbook_operations_deposit cfg i main a n s = Inr s' \<Longrightarrow> step cfg s s'"
| withdrawal: "withdrawal_from_orderbook cfg u p a n f s = Inr s' \<Longrightarrow> step cfg s s'"
| block: "step cfg s (new_block cfg s)"
| session: "step cfg s (on_new_session keys queued s)"
| world: "step cfg s (s \<lparr> st_world := w \<rparr>)"

inductive reachable :: "('d, 'w) config \<Rightarrow> ('d, 'w) ocex \<Rightarrow> bool" for cfg where
  genesis: "reachable cfg (on_genesis_session keys (init_state w))"
| next_step: "reachable cfg s \<Longrightarrow> step cfg s s' \<Longrightarrow> reachable cfg s'"

subsection \<open>The combined invariant\<close>

definition ocex_inv :: "('d, 'w) config \<Rightarrow> ('d, 'w) ocex \<Rightarrow> bool" where
  "ocex_inv cfg s \<longleftrightarrow> accounts_inv s \<and> markets_inv s \<and> allowlist_inv s \<and> queue_bounded cfg s \<and>
    withdrawals_inv s \<and> auction_inv s \<and> lmp_inv s"

lemma withdrawals_inv_upd [simp]:
  "withdrawals_inv (s \<lparr> st_allowlisted := x0 \<rparr>) = withdrawals_inv s"
  "withdrawals_inv (s \<lparr> st_accounts := x1 \<rparr>) = withdrawals_inv s"
  "withdrawals_inv (s \<lparr> st_proxies := x2 \<rparr>) = withdrawals_inv s"
  "withdrawals_inv (s \<lparr> st_trading_pairs := x3 \<rparr>) = withdrawals_inv s"
  "withdrawals_inv (s \<lparr> st_snapshots := x4 \<rparr>) = withdrawals_inv s"
  "withdrawals_inv (s \<lparr> st_snapshot_nonce := x5 \<rparr>) = withdrawals_inv s"
  "withdrawals_inv (s \<lparr> st_exchange_state := x6 \<rparr>) = withdrawals_inv s"
  "withdrawals_inv (s \<lparr> st_ingress := x7 \<rparr>) = withdrawals_inv s"
  "withdrawals_inv (s \<lparr> st_onchain_events := x8 \<rparr>) = withdrawals_inv s"
  "withdrawals_inv (s \<lparr> st_total_assets := x9 \<rparr>) = withdrawals_inv s"
  "withdrawals_inv (s \<lparr> st_authorities := x10 \<rparr>) = withdrawals_inv s"
  "withdrawals_inv (s \<lparr> st_next_authorities := x11 \<rparr>) = withdrawals_inv s"
  "withdrawals_inv (s \<lparr> st_validator_set_id := x12 \<rparr>) = withdrawals_inv s"
  "withdrawals_inv (s \<lparr> st_operator_key := x13 \<rparr>) = withdrawals_inv s"
  "withdrawals_inv (s \<lparr> st_lmp_epoch := x14 \<rparr>) = withdrawals_inv s"
  "withdrawals_inv (s \<lparr> st_trader_metrics := x15 \<rparr>) = withdrawals_inv s"
  "withdrawals_inv (s \<lparr> st_total_scores := x16 \<rparr>) = withdrawals_inv s"
  "withdrawals_inv (s \<lparr> st_finalize_lmp := x17 \<rparr>) = withdrawals_inv s"
  "withdrawals_inv (s \<lparr> st_lmp_config := x18 \<rparr>) = withdrawals_inv s"
  "withdrawals_inv (s \<lparr> st_expected_lmp_config := x19 \<rparr>) = withdrawals_inv s"
  "withdrawals_inv (s \<lparr> st_lmp_claim_blk := x20 \<rparr>) = withdrawals_inv s"
  "withdrawals_inv (s \<lparr> st_price_oracle := x21 \<rparr>) = withdrawals_inv s"
  "withdrawals_inv (s \<lparr> st_fee_distribution := x22 \<rparr>) = withdrawals_inv s"
  "withdrawals_inv (s \<lparr> st_auction_block := x23 \<rparr>) = withdrawals_inv s"
  "withdrawals_inv (s \<lparr> st_auction := x24 \<rparr>) = withdrawals_inv s"
  "withdrawals_inv (s \<lparr> st_now := x25 \<rparr>) = withdrawals_inv s"
  "withdrawals_inv (s \<lparr> st_events := x26 \<rparr>) = withdrawals_inv s"
  "withdrawals_inv (s \<lparr> st_world := x27 \<rparr>) = withdrawals_inv s"
  by (simp_all add: withdrawals_inv_def)

named_theorems keeps_inv

lemma ocex_inv_world [keeps_inv]: "ocex_inv cfg s \<Longrightarrow> ocex_inv cfg (s \<lparr> st_world := w \<rparr>)"
  by (simp add: ocex_inv_def)

text \<open>What remains to be shown of an operation, by the part of the storage it writes.\<close>

lemma ocex_inv_accounts:
  assumes "ocex_inv cfg s" and "accounts_inv s'" and "queue_bounded cfg s'"
    and "s' = s \<lparr> st_accounts := a, st_proxies := p, st_ingress := q, st_total_assets := t, st_world := w, st_events := e \<rparr>"
  shows "ocex_inv cfg s'"
  using assms by (simp add: ocex_inv_def)

lemma ocex_inv_accounts':
  assumes "ocex_inv cfg s" and "accounts_inv s'" and "queue_bounded cfg s'"
    and "s' = s \<lparr> st_accounts := a, st_proxies := p, st_ingress := q, st_events := e \<rparr>"
  shows "ocex_inv cfg s'"
  using assms by (simp add: ocex_inv_def)

lemma ocex_inv_markets:
  assumes "ocex_inv cfg s" and "markets_inv s'" and "queue_bounded cfg s'"
    and "s' = s \<lparr> st_trading_pairs := t, st_ingress := q, st_events := e \<rparr>"
  shows "ocex_inv cfg s'"
  using assms by (simp add: ocex_inv_def)

lemma ocex_inv_allowlist:
  assumes "ocex_inv cfg s" and "allowlist_inv s'" and "s' = s \<lparr> st_allowlisted := t, st_events := e \<rparr>"
  shows "ocex_inv cfg s'"
  using assms by (simp add: ocex_inv_def)

lemma ocex_invD:
  assumes "ocex_inv cfg s"
  shows "accounts_inv s" "markets_inv s" "allowlist_inv s" "queue_bounded cfg s" "withdrawals_inv s"
    "auction_inv s" "lmp_inv s"
  using assms by (simp_all add: ocex_inv_def)

lemma account_ops_keep [keeps_inv]:
  assumes "ocex_inv cfg s"
  shows "register_user cfg main proxy s = Inr s' \<Longrightarrow> ocex_inv cfg s'"
    and "add_proxy_account cfg orig proxy s = Inr s' \<Longrightarrow> ocex_inv cfg s'"
    and "remove_proxy_account cfg orig proxy s = Inr s' \<Longrightarrow> ocex_inv cfg s'"
    and "do_deposit cfg i user a n s = Inr s' \<Longrightarrow> ocex_inv cfg s'"
  by (blast intro: ocex_inv_accounts' [OF assms _ _ register_user_frame] ocex_invD [OF assms]
        register_user_inv register_user_bounded,
      blast intro: ocex_inv_accounts' [OF assms _ _ add_proxy_account_frame] ocex_invD [OF assms]
        add_proxy_account_inv proxy_accounts_bounded,
      blast intro: ocex_inv_accounts' [OF assms _ _ remove_proxy_account_frame] ocex_invD [OF assms]
        remove_proxy_account_inv proxy_accounts_bounded,
      blast intro: ocex_inv_accounts [OF assms _ _ do_deposit_frame] ocex_invD [OF assms]
        do_deposit_inv do_deposit_bounded)

lemma push_ingress_keeps [keeps_inv]:
  "push_ingress cfg m s = Inr s' \<Longrightarrow> ocex_inv cfg s \<Longrightarrow> ocex_inv cfg s'"
  by (auto simp: push_ingress_Inr ocex_inv_def)

lemma push_or_drop_keeps [keeps_inv]: "ocex_inv cfg s \<Longrightarrow> ocex_inv cfg (push_or_drop cfg m s)"
  by (auto simp: push_or_drop_def intro: push_ingress_keeps split: sum.splits)

lemma market_ops_keep [keeps_inv]:
  assumes "ocex_inv cfg s"
  shows "set_pair_status cfg st orig b q msg ev s = Inr s' \<Longrightarrow> ocex_inv cfg s'"
    and "register_trading_pair cfg orig b q mn mx tk sz s = Inr s' \<Longrightarrow> ocex_inv cfg s'"
    and "update_trading_pair cfg orig b q mn mx tk sz s = Inr s' \<Longrightarrow> ocex_inv cfg s'"
  by (blast intro: ocex_inv_markets [OF assms _ _ market_ops_frame(1)] ocex_invD [OF assms]
        set_pair_status_markets market_ops_bounded,
      blast intro: ocex_inv_markets [OF assms _ _ market_ops_frame(2)] ocex_invD [OF assms]
        register_trading_pair_markets market_ops_bounded,
      blast intro: ocex_inv_markets [OF assms _ _ market_ops_frame(3)] ocex_invD [OF assms]
        update_trading_pair_markets market_ops_bounded)

lemma allowlist_keeps [keeps_inv]:
  assumes "ocex_inv cfg s"
  shows "allowlist_token cfg orig a s = Inr s' \<Longrightarrow> ocex_inv cfg s'"
    and "remove_allowlisted_token cfg orig a s = Inr s' \<Longrightarrow> ocex_inv cfg s'"
  by (blast intro: ocex_inv_allowlist [OF assms _ market_ops_frame(5)] ocex_invD [OF assms] allowlist_ops_inv,
      blast intro: ocex_inv_allowlist [OF assms _ market_ops_frame(6)] ocex_invD [OF assms] allowlist_ops_inv)

lemma governance_keeps [keeps_inv]:
  assumes "ocex_inv cfg s"
  shows "set_exchange_state cfg orig b s = Inr s' \<Longrightarrow> ocex_inv cfg s'"
    and "whitelist_orderbook_operator cfg orig k s = Inr s' \<Longrightarrow> ocex_inv cfg s'"
    and "set_fee_distribution cfg orig d s = Inr s' \<Longrightarrow> ocex_inv cfg s'"
    and "set_snapshot cfg orig i s = Inr s' \<Longrightarrow> ocex_inv cfg s'"
    and "force_submit_snapshot orig sm s = Inr s' \<Longrightarrow> ocex_inv cfg s'"
    and "start_new_epoch_lmp cfg orig s = Inr s' \<Longrightarrow> ocex_inv cfg s'"
    and "set_lmp_epoch_config cfg orig lm tr ms mx sf s = Inr s' \<Longrightarrow> ocex_inv cfg s'"
proof -
  show "set_exchange_state cfg orig b s = Inr s' \<Longrightarrow> ocex_inv cfg s'"
    "whitelist_orderbook_operator cfg orig k s = Inr s' \<Longrightarrow> ocex_inv cfg s'"
    "set_fee_distribution cfg orig d s = Inr s' \<Longrightarrow> ocex_inv cfg s'"
    using assms by (auto simp: market_defs res_simps ocex_inv_def)
  show "set_snapshot cfg orig i s = Inr s' \<Longrightarrow> ocex_inv cfg s'"
    "force_submit_snapshot orig sm s = Inr s' \<Longrightarrow> ocex_inv cfg s'"
    using assms by (auto simp: set_snapshot_def force_submit_snapshot_def ensure_governance_def res_simps Let_def
        deposit_event_def ocex_inv_def)
  show "set_lmp_epoch_config cfg orig lm tr ms mx sf s = Inr s' \<Longrightarrow> ocex_inv cfg s'"
    using assms by (auto simp: set_lmp_epoch_config_def ensure_governance_def res_simps Let_def
        ocex_inv_def split: prod.splits)
  assume "start_new_epoch_lmp cfg orig s = Inr s'"
  then have s': "s' = start_new_epoch cfg (st_now s) s"
    by (auto simp: start_new_epoch_lmp_def ensure_Inr)
  obtain cf f e w q where fr: "start_new_epoch cfg (st_now s) s =
      s \<lparr> st_lmp_config := cf, st_finalize_lmp := f, st_lmp_epoch := e, st_world := w, st_ingress := q \<rparr>"
    using start_new_epoch_frame [of cfg "st_now s" s] by blast
  have "accounts_inv s' = accounts_inv s" "markets_inv s' = markets_inv s" "allowlist_inv s' = allowlist_inv s"
    "withdrawals_inv s' = withdrawals_inv s" "auction_inv s' = auction_inv s"
    by (simp_all add: s' fr)
  with assms show "ocex_inv cfg s'"
    by (simp add: ocex_inv_def s' start_new_epoch_inv start_new_epoch_bounded)
qed

lemma ocex_inv_withdrawals:
  assumes "ocex_inv cfg s" and "withdrawals_inv s'"
    and "s' = s \<lparr> st_withdrawals := w, st_world := v, st_events := e \<rparr>"
  shows "ocex_inv cfg s'"
  using assms by (simp add: ocex_inv_def)

lemma claim_withdraw_frame:
  assumes "claim_withdraw cfg orig sid acc s = Inr s'"
  shows "\<exists>w v e. s' = s \<lparr> st_withdrawals := w, st_world := v, st_events := e \<rparr>"
  using assms
proof (cases rule: claim_withdraw_cases)
  case (1 tree ws failed processed s1)
  have s1: "s1 = s \<lparr> st_world := st_world s1, st_events := st_events s1 \<rparr>"
    using do_withdraw_spec(2) [OF 1(3)] by (simp only: same_books_def)
  have "s' = s \<lparr> st_withdrawals := st_withdrawals s', st_world := st_world s1, st_events := st_events s' \<rparr>"
    by (subst 1(5), subst s1) (rule ocex.equality; simp)
  then show ?thesis by (intro exI)
qed

lemma claim_withdraw_keeps [keeps_inv]:
  assumes "claim_withdraw cfg orig sid acc s = Inr s'" and "ocex_inv cfg s"
  shows "ocex_inv cfg s'"
  using ocex_inv_withdrawals [OF assms(2) claim_withdraw_inv [OF assms(1)]] claim_withdraw_frame [OF assms(1)]
    ocex_invD(5) [OF assms(2)] by blast

lemma do_claim_keeps [keeps_inv]:
  assumes "do_claim_lmp_rewards cfg main e m s = Inr (r, s')" and "ocex_inv cfg s"
  shows "ocex_inv cfg s'"
  using assms(1) by (rule do_claim_Inr) (use assms(2) in \<open>simp add: ocex_inv_def\<close>)

lemma pool_ops_keep [keeps_inv]:
  assumes "ocex_inv cfg s"
  shows "add_liquidity cfg m pool lp sh b q s = Inr s' \<Longrightarrow> ocex_inv cfg s'"
    and "remove_liquidity cfg m pool lp burnt all_shares s = Inr s' \<Longrightarrow> ocex_inv cfg s'"
    and "ocex_inv cfg (force_close_pool cfg m pool s)"
    and "withdrawal_from_orderbook cfg u p a n f s = Inr s' \<Longrightarrow> ocex_inv cfg s'"
proof -
  show "add_liquidity cfg m pool lp sh b q s = Inr s' \<Longrightarrow> ocex_inv cfg s'"
    using assms unfolding add_liquidity_def bind_res_Inr
    by (elim exE conjE) (blast dest: account_ops_keep(4) push_ingress_keeps)
  show "remove_liquidity cfg m pool lp burnt all_shares s = Inr s' \<Longrightarrow> ocex_inv cfg s'"
    "ocex_inv cfg (force_close_pool cfg m pool s)"
    using assms by (auto simp: remove_liquidity_def force_close_pool_def res_simps push_or_drop_keeps)
  show "withdrawal_from_orderbook cfg u p a n f s = Inr s' \<Longrightarrow> ocex_inv cfg s'"
    using assms by (auto simp: withdrawal_from_orderbook_def res_simps deposit_event_def ocex_inv_def)
qed

lemma new_block_keeps [keeps_inv]:
  assumes "ocex_inv cfg s"
  shows "ocex_inv cfg (new_block cfg s)"
proof -
  let ?s = "s \<lparr> st_now := st_now s + 1 \<rparr>"
  have inv: "ocex_inv cfg ?s"
    using assms by (simp add: ocex_inv_def)
  note hook = on_initialize_inv [OF ocex_invD(6) [OF inv], where cfg = cfg and n = "st_now s + 1"]
  have "withdrawals_inv (on_initialize cfg (st_now s + 1) ?s)"
    using ocex_invD(5) [OF inv] by (simp only: withdrawals_inv_def hook(6))
  then show ?thesis
    using hook ocex_invD [OF inv] on_initialize_auction [OF ocex_invD(6) [OF inv]]
    by (simp add: ocex_inv_def new_block_def Let_def)
qed

lemma on_new_session_keeps [keeps_inv]: "ocex_inv cfg s \<Longrightarrow> ocex_inv cfg (on_new_session ks qs s)"
  by (simp add: ocex_inv_def on_new_session_def Let_def)

lemma pay_withdrawals_inv:
  assumes "pay_withdrawals cfg summary s = Inr s'" and "withdrawals_inv s"
  shows "withdrawals_inv s'"
  using assms(1)
proof (cases rule: pay_withdrawals_cases)
  case (some fm s1)
  have "tree_ok fm"
    by (rule pay_accounts_tree_ok [OF some(2) create_withdrawal_tree_ok tree_ok_Nil])
  moreover have "st_withdrawals s' = (if fm = [] then st_withdrawals s else (st_withdrawals s)(s_snapshot_id summary \<mapsto> fm))"
    by (subst some(3)) simp
  ultimately show ?thesis
    using assms(2) by (auto simp: withdrawals_inv_def)
qed (use assms(2) in simp)

lemma pay_withdrawals_frame:
  assumes "pay_withdrawals cfg summary s = Inr s'"
  shows "\<exists>w v e. s' = s \<lparr> st_withdrawals := w, st_world := v, st_events := e \<rparr>"
  using assms
proof (cases rule: pay_withdrawals_cases)
  case none
  then have "s' = s \<lparr> st_withdrawals := st_withdrawals s, st_world := st_world s, st_events := st_events s \<rparr>" by simp
  then show ?thesis by (intro exI)
next
  case (some fm s1)
  then show ?thesis by (intro exI)
qed

lemma scores_keep_inv:
  assumes "(case m of Some ms \<Rightarrow> update_lmp_scores ms s | None \<Rightarrow> Inr s) = Inr s'" and "ocex_inv cfg s"
  shows "ocex_inv cfg s'"
proof (cases m)
  case (Some ms)
  with assms(1) have run: "update_lmp_scores ms s = Inr s'" by simp
  then show ?thesis
    using assms(2) update_lmp_scores_inv [OF run ocex_invD(7) [OF assms(2)]]
    by (cases rule: update_lmp_scores_cases) (auto simp: ocex_inv_def)
qed (use assms in simp)

lemma egress_keeps [keeps_inv]:
  assumes "egress_frame s s'" and "ocex_inv cfg s"
  shows "ocex_inv cfg s'"
  by (subst assms(1) [unfolded egress_frame_def]) (use assms(2) in \<open>simp add: ocex_inv_def\<close>)

lemma pruned_bounded:
  "queue_bounded cfg s0 \<Longrightarrow> length (ingress_messages s0 b) < unat (c_ingress_limit cfg) \<Longrightarrow>
    queue_bounded cfg (s \<lparr> st_ingress := pruned n ((st_ingress s0)(b \<mapsto> ingress_messages s0 b @ [m])) \<rparr>)"
  by (auto simp: queue_bounded_def ingress_messages_def pruned_def)

lemma submit_snapshot_keeps [keeps_inv]:
  assumes "submit_snapshot cfg orig sm sigs s = Inr s'" and "ocex_inv cfg s"
  shows "ocex_inv cfg s'"
  using assms(1)
proof (cases rule: submit_snapshot_cases)
  case (1 s1 s2 s3)
  have inv2: "ocex_inv cfg s2"
    using scores_keep_inv [OF 1(2) assms(2)] process_egress_msg_frame [OF 1(3)] egress_keeps by blast
  have inv3: "ocex_inv cfg s3"
    using ocex_inv_withdrawals [OF inv2 pay_withdrawals_inv [OF 1(4) ocex_invD(5) [OF inv2]]]
      pay_withdrawals_frame [OF 1(4)] by blast
  then show ?thesis
    using 1(5) by (simp add: 1(6) ocex_inv_def pruned_bounded)
qed

lemma register_keeps [keeps_inv]:
  assumes "ocex_inv cfg s"
  shows "register_main_account cfg orig p s = Inr s' \<Longrightarrow> ocex_inv cfg s'"
    and "register_pool cfg pool acc s = Inr s' \<Longrightarrow> ocex_inv cfg s'"
    and "deposit cfg orig a n s = Inr s' \<Longrightarrow> ocex_inv cfg s'"
    and "orderbook_operations_deposit cfg i main a n s = Inr s' \<Longrightarrow> ocex_inv cfg s'"
  using account_ops_keep [OF assms]
  by (auto simp: register_main_account_def register_pool_def deposit_def orderbook_operations_deposit_def res_simps)

lemma claim_lmp_rewards_keeps [keeps_inv]:
  assumes "ocex_inv cfg s"
  shows "claim_lmp_rewards cfg orig e m s = Inr s' \<Longrightarrow> ocex_inv cfg s'"
    and "claim_rewards cfg main e m s = Inr (r, s') \<Longrightarrow> ocex_inv cfg s'"
  using do_claim_keeps [OF _ assms]
  by (auto simp: claim_lmp_rewards_def claim_rewards_def res_simps split: prod.splits)

lemma dispatch_keeps [keeps_inv]:
  assumes "dispatch cfg orig c s = Inr s'" and "ocex_inv cfg s"
  shows "ocex_inv cfg s'"
  using assms
  by (cases c) (auto simp: close_trading_pair_def open_trading_pair_def
      dest: account_ops_keep market_ops_keep allowlist_keeps governance_keeps register_keeps claim_lmp_rewards_keeps
        claim_withdraw_keeps submit_snapshot_keeps)

lemma step_keeps: "step cfg s s' \<Longrightarrow> ocex_inv cfg s \<Longrightarrow> ocex_inv cfg s'"
  by (induction rule: step.induct) (auto intro: keeps_inv)

lemma genesis_inv: "ocex_inv cfg (on_genesis_session keys (init_state w))"
  by (simp add: ocex_inv_def on_genesis_session_def init_state_def accounts_inv_def markets_inv_def allowlist_inv_def
      queue_bounded_def ingress_messages_def withdrawals_inv_def auction_inv_def lmp_inv_def epochs_ok_def)

lemma reachable_keeps: "reachable cfg s \<Longrightarrow> ocex_inv cfg s"
  by (induction rule: reachable.induct) (auto intro: genesis_inv step_keeps)

subsection \<open>Rewards along an execution\<close>

text \<open>
  \<open>lmp_kept\<close>: the step leaves the scores, the claim blocks and the epoch counter alone. A new epoch
  may also move the counter; only a snapshot writes scores, and only those of the epoch that is
  being finalised, which has no claim block yet.
\<close>

definition lmp_kept :: "('d, 'w) ocex \<Rightarrow> ('d, 'w) ocex \<Rightarrow> bool" where
  "lmp_kept s s' \<longleftrightarrow> st_trader_metrics s' = st_trader_metrics s \<and> st_lmp_claim_blk s' = st_lmp_claim_blk s \<and>
    (st_lmp_epoch s = - 1 \<longrightarrow> st_lmp_epoch s' = - 1)"

definition reward_settled :: "u16 \<Rightarrow> TradingPair \<Rightarrow> account \<Rightarrow> ('d, 'w) ocex \<Rightarrow> bool" where
  "reward_settled e m a s \<longleftrightarrow> st_lmp_epoch s = - 1 \<or> claimed s e m a \<and> st_lmp_claim_blk s e \<noteq> None"

named_theorems keeps_lmp

lemma lmp_kept_refl [keeps_lmp]: "lmp_kept s s"
  by (simp add: lmp_kept_def)

lemma lmp_kept_trans: "lmp_kept s s' \<Longrightarrow> lmp_kept s' s'' \<Longrightarrow> lmp_kept s s''"
  by (simp add: lmp_kept_def)

lemma reward_settled_kept: "lmp_kept s s' \<Longrightarrow> reward_settled e m a s \<Longrightarrow> reward_settled e m a s'"
  by (auto simp: lmp_kept_def reward_settled_def claimed_def)

lemma lmp_kept_frames [keeps_lmp]:
  "s' = s \<lparr> st_accounts := a, st_proxies := p, st_ingress := q, st_total_assets := t, st_world := w, st_events := e \<rparr> \<Longrightarrow> lmp_kept s s'"
  "s' = s \<lparr> st_accounts := a, st_proxies := p, st_ingress := q, st_events := e \<rparr> \<Longrightarrow> lmp_kept s s'"
  "s' = s \<lparr> st_trading_pairs := tp, st_ingress := q, st_events := e \<rparr> \<Longrightarrow> lmp_kept s s'"
  "s' = s \<lparr> st_allowlisted := al, st_events := e \<rparr> \<Longrightarrow> lmp_kept s s'"
  "s' = s \<lparr> st_withdrawals := wd, st_world := w, st_events := e \<rparr> \<Longrightarrow> lmp_kept s s'"
  by (simp_all add: lmp_kept_def)

lemma account_ops_lmp [keeps_lmp]:
  "register_user cfg main proxy s = Inr s' \<Longrightarrow> lmp_kept s s'"
  "add_proxy_account cfg orig proxy s = Inr s' \<Longrightarrow> lmp_kept s s'"
  "remove_proxy_account cfg orig proxy s = Inr s' \<Longrightarrow> lmp_kept s s'"
  "do_deposit cfg i user a n s = Inr s' \<Longrightarrow> lmp_kept s s'"
  "claim_withdraw cfg orig sid acc s = Inr s' \<Longrightarrow> lmp_kept s s'"
  by (blast intro: lmp_kept_frames register_user_frame add_proxy_account_frame remove_proxy_account_frame
      do_deposit_frame dest: claim_withdraw_frame)+

lemma market_ops_lmp [keeps_lmp]:
  "set_pair_status cfg st orig b q msg ev s = Inr s' \<Longrightarrow> lmp_kept s s'"
  "register_trading_pair cfg orig b q mn mx tk sz s = Inr s' \<Longrightarrow> lmp_kept s s'"
  "update_trading_pair cfg orig b q mn mx tk sz s = Inr s' \<Longrightarrow> lmp_kept s s'"
  "allowlist_token cfg orig t s = Inr s' \<Longrightarrow> lmp_kept s s'"
  "remove_allowlisted_token cfg orig t s = Inr s' \<Longrightarrow> lmp_kept s s'"
  by (blast intro: lmp_kept_frames market_ops_frame)+

lemma push_lmp [keeps_lmp]:
  "push_ingress cfg m s = Inr s' \<Longrightarrow> lmp_kept s s'"
  "lmp_kept s (push_or_drop cfg m s)"
  by (auto simp: push_or_drop_def push_ingress_Inr lmp_kept_def split: sum.splits)

lemma sat_add_top: "sat_add (- 1) 1 = (- 1 :: u16)"
  by (simp add: sat_add_def unat_minus_one_word)

lemma announce_epoch_lmp [simp]: "st_lmp_epoch (announce_epoch cfg n e c s) = st_lmp_epoch s"
  using announce_epoch_world [of cfg n e c s] by auto

lemma start_new_epoch_top: "st_lmp_epoch s = - 1 \<Longrightarrow> st_lmp_epoch (start_new_epoch cfg n s) = - 1"
  by (simp add: start_new_epoch_def Let_def sat_add_top split: option.splits)

lemma start_new_epoch_lmp_kept [keeps_lmp]: "lmp_kept s (start_new_epoch cfg n s)"
  using start_new_epoch_frame [of cfg n s] start_new_epoch_top [of s cfg n] by (auto simp: lmp_kept_def)

lemma new_block_lmp:
  assumes "auction_inv s"
  shows "lmp_kept s (new_block cfg s)"
proof -
  let ?n = "st_now s + 1" and ?s = "s \<lparr> st_now := st_now s + 1 \<rparr>"
  have inv: "auction_inv ?s" using assms by simp
  have inv1: "auction_inv (epoch_hooks cfg ?n ?s)" using inv by (simp add: epoch_hooks_auction)
  obtain a b e where h: "auction_hook cfg ?n (epoch_hooks cfg ?n ?s) =
      (epoch_hooks cfg ?n ?s) \<lparr> st_auction_block := a, st_auction := b, st_events := e \<rparr>"
    using auction_hook_frame [OF inv1] by blast
  have "st_lmp_epoch s = - 1 \<Longrightarrow> st_lmp_epoch (epoch_hooks cfg ?n ?s) = - 1"
    by (simp add: epoch_hooks_def Let_def start_new_epoch_top stop_accepting_lmp_withdrawals_def)
  then have "st_lmp_epoch s = - 1 \<Longrightarrow> st_lmp_epoch (on_initialize cfg ?n ?s) = - 1"
    by (simp add: on_initialize_hooks Let_def h)
  then show ?thesis
    using on_initialize_inv(7,8) [OF inv] by (simp add: lmp_kept_def new_block_def Let_def)
qed

lemma pool_ops_lmp [keeps_lmp]:
  "add_liquidity cfg m pool lp sh b q s = Inr s' \<Longrightarrow> lmp_kept s s'"
  "remove_liquidity cfg m pool lp burnt all_shares s = Inr s' \<Longrightarrow> lmp_kept s s'"
  "lmp_kept s (force_close_pool cfg m pool s)"
  "withdrawal_from_orderbook cfg u p a n f s = Inr s' \<Longrightarrow> lmp_kept s s'"
  "register_main_account cfg orig pr s = Inr s' \<Longrightarrow> lmp_kept s s'"
  "register_pool cfg pool acc s = Inr s' \<Longrightarrow> lmp_kept s s'"
  "deposit cfg orig a n s = Inr s' \<Longrightarrow> lmp_kept s s'"
  "orderbook_operations_deposit cfg i main a n s = Inr s' \<Longrightarrow> lmp_kept s s'"
  "lmp_kept s (on_new_session ks qs s)"
  "lmp_kept s (s \<lparr> st_world := w \<rparr>)"
proof -
  show "add_liquidity cfg m pool lp sh b q s = Inr s' \<Longrightarrow> lmp_kept s s'"
    unfolding add_liquidity_def bind_res_Inr
    by (elim exE conjE) (blast intro: lmp_kept_trans dest: account_ops_lmp(4) push_lmp(1))
  show "remove_liquidity cfg m pool lp burnt all_shares s = Inr s' \<Longrightarrow> lmp_kept s s'"
    "lmp_kept s (force_close_pool cfg m pool s)"
    by (auto simp: remove_liquidity_def force_close_pool_def res_simps push_lmp)
qed (auto simp: withdrawal_from_orderbook_def deposit_event_def register_main_account_def register_pool_def deposit_def
    orderbook_operations_deposit_def on_new_session_def Let_def lmp_kept_def res_simps dest: account_ops_lmp [unfolded lmp_kept_def])

lemma governance_lmp [keeps_lmp]:
  "set_exchange_state cfg orig b s = Inr s' \<Longrightarrow> lmp_kept s s'"
  "whitelist_orderbook_operator cfg orig k s = Inr s' \<Longrightarrow> lmp_kept s s'"
  "set_fee_distribution cfg orig d s = Inr s' \<Longrightarrow> lmp_kept s s'"
  "set_snapshot cfg orig i s = Inr s' \<Longrightarrow> lmp_kept s s'"
  "force_submit_snapshot orig sm s = Inr s' \<Longrightarrow> lmp_kept s s'"
  "start_new_epoch_lmp cfg orig s = Inr s' \<Longrightarrow> lmp_kept s s'"
  "set_lmp_epoch_config cfg orig lm tr ms mx sf s = Inr s' \<Longrightarrow> lmp_kept s s'"
proof -
  show "set_exchange_state cfg orig b s = Inr s' \<Longrightarrow> lmp_kept s s'"
    "whitelist_orderbook_operator cfg orig k s = Inr s' \<Longrightarrow> lmp_kept s s'"
    "set_fee_distribution cfg orig d s = Inr s' \<Longrightarrow> lmp_kept s s'"
    by (auto simp: market_defs res_simps lmp_kept_def)
  show "set_snapshot cfg orig i s = Inr s' \<Longrightarrow> lmp_kept s s'"
    "force_submit_snapshot orig sm s = Inr s' \<Longrightarrow> lmp_kept s s'"
    "set_lmp_epoch_config cfg orig lm tr ms mx sf s = Inr s' \<Longrightarrow> lmp_kept s s'"
    by (auto simp: set_snapshot_def force_submit_snapshot_def set_lmp_epoch_config_def ensure_governance_def res_simps
        Let_def deposit_event_def lmp_kept_def split: prod.splits)
qed (auto simp: start_new_epoch_lmp_def ensure_Inr intro: start_new_epoch_lmp_kept)

lemma do_claim_settled:
  assumes "do_claim_lmp_rewards cfg main e' m' s = Inr (r, s')"
  shows "reward_settled e m a s \<Longrightarrow> reward_settled e m a s'" and "reward_settled e' m' main s'"
  using assms by (auto elim!: do_claim_Inr simp: reward_settled_def claimed_def split: option.splits if_splits)

lemma scores_settled:
  assumes "update_lmp_scores ms s = Inr s'" and "lmp_inv s" and "reward_settled e m a s"
  shows "reward_settled e m a s'"
  using assms(1)
proof (cases rule: update_lmp_scores_cases)
  case (scored f config)
  have "st_lmp_epoch s \<noteq> - 1 \<Longrightarrow> e \<noteq> f"
    using assms(2,3) scored(1) by (auto simp: lmp_inv_def epochs_ok_def reward_settled_def)
  with assms(3) show ?thesis
    by (auto simp: scored(3) reward_settled_def claimed_def insert_scores_other)
qed (use assms(3) in simp)

lemma egress_lmp: "egress_frame s s' \<Longrightarrow> lmp_kept s s'"
  unfolding egress_frame_def by (erule ssubst) (simp add: lmp_kept_def)

lemma submit_snapshot_settled:
  assumes "submit_snapshot cfg orig sm sigs s = Inr s'" and "lmp_inv s" and "reward_settled e m a s"
  shows "reward_settled e m a s'"
  using assms(1)
proof (cases rule: submit_snapshot_cases)
  case (1 s1 s2 s3)
  have s1: "reward_settled e m a s1"
  proof (cases "s_trader_metrics sm")
    case None
    then show ?thesis using 1(2) assms(3) by simp
  next
    case (Some ms)
    with 1(2) have "update_lmp_scores ms s = Inr s1" by simp
    then show ?thesis using assms(2,3) by (rule scores_settled)
  qed
  have k1: "lmp_kept s1 s2"
    by (rule egress_lmp [OF process_egress_msg_frame [OF 1(3)]])
  have k2: "lmp_kept s2 s3"
    using pay_withdrawals_frame [OF 1(4)] by (elim exE) (rule lmp_kept_frames(5))
  have k3: "lmp_kept s3 s'"
    unfolding 1(6) by (simp add: lmp_kept_def)
  show ?thesis
    by (rule reward_settled_kept [OF lmp_kept_trans [OF lmp_kept_trans [OF k1 k2] k3] s1])
qed

lemma dispatch_settled:
  assumes "dispatch cfg orig c s = Inr s'" and "lmp_inv s" and "reward_settled e m a s"
  shows "reward_settled e m a s'"
proof (cases "(\<exists>sm sigs. c = Call_submit_snapshot sm sigs) \<or> (\<exists>e m. c = Call_claim_lmp_rewards e m)")
  case True
  then show ?thesis
    using assms(1) submit_snapshot_settled [OF _ assms(2,3)] do_claim_settled(1) [OF _ assms(3)]
    by (auto simp: claim_lmp_rewards_def res_simps)
next
  case False
  then have "lmp_kept s s'"
    using assms(1) by (cases c) (auto simp: close_trading_pair_def open_trading_pair_def
        intro: account_ops_lmp market_ops_lmp pool_ops_lmp governance_lmp)
  then show ?thesis
    using assms(3) by (rule reward_settled_kept)
qed

lemma step_lmp:
  assumes "step cfg s s'" and "ocex_inv cfg s"
  shows "lmp_kept s s' \<or> (\<exists>orig c. dispatch cfg orig c s = Inr s') \<or>
    (\<exists>main e m r. do_claim_lmp_rewards cfg main e m s = Inr (r, s'))"
  using assms(1)
proof (cases rule: step.cases)
  case block
  then show ?thesis using new_block_lmp [OF ocex_invD(6) [OF assms(2)]] by simp
qed (simp_all add: claim_rewards_def, (blast intro: pool_ops_lmp)+)

lemma step_settled:
  assumes "step cfg s s'" and "ocex_inv cfg s" and "reward_settled e m a s"
  shows "reward_settled e m a s'"
  using step_lmp [OF assms(1,2)] reward_settled_kept [OF _ assms(3)] do_claim_settled(1) [OF _ assms(3)]
    dispatch_settled [OF _ ocex_invD(7) [OF assms(2)] assms(3)] by blast

lemma steps_settled:
  assumes "(step cfg)\<^sup>*\<^sup>* s s'" and "ocex_inv cfg s" and "reward_settled e m a s"
  shows "ocex_inv cfg s' \<and> reward_settled e m a s'"
  using assms by (induction rule: rtranclp_induct) (auto intro: step_keeps step_settled)

subsection \<open>What holds of every execution\<close>

text \<open>C1: in every state the pallet can reach from genesis, whatever calls, snapshots, blocks and
  sessions lead there, the combined invariant holds; in particular a proxy acts for exactly one
  main account, no account has more than the allowed number of proxies, a market is registered in
  one direction only, and no block holds more ingress messages than its bound.\<close>

theorem reachable_invariant:
  assumes "reachable cfg s"
  shows "ocex_inv cfg s \<and>
    (\<forall>m1 m2 i1 i2 p. st_accounts s m1 = Some i1 \<and> st_accounts s m2 = Some i2 \<and>
      p \<in> set (a_proxies i1) \<and> p \<in> set (a_proxies i2) \<longrightarrow> m1 = m2) \<and>
    (\<forall>m i. st_accounts s m = Some i \<longrightarrow> card (set (a_proxies i)) = length (a_proxies i) \<and> length (a_proxies i) \<le> 3) \<and>
    (\<forall>b q. st_trading_pairs s (b, q) \<noteq> None \<longrightarrow> st_trading_pairs s (q, b) = None) \<and>
    (\<forall>n. length (ingress_messages s n) \<le> unat (c_ingress_limit cfg))"
proof -
  note inv = reachable_keeps [OF assms]
  have acc: "st_accounts s m = Some i \<Longrightarrow> account_ok s m i" for m i
    using ocex_invD(1) [OF inv] by (simp add: accounts_inv_def)
  have "m1 = m2" if "st_accounts s m1 = Some i1" "st_accounts s m2 = Some i2" "p \<in> set (a_proxies i1)"
    "p \<in> set (a_proxies i2)" for m1 m2 i1 i2 p
    using acc [OF that(1)] acc [OF that(2)] that(3,4) by (auto simp: account_ok_def)
  moreover have "card (set (a_proxies i)) = length (a_proxies i) \<and> length (a_proxies i) \<le> 3"
    if "st_accounts s m = Some i" for m i
    using acc [OF that] by (simp add: account_ok_def distinct_card ProxyLimit_def)
  moreover have "st_trading_pairs s (q, b) = None" if "st_trading_pairs s (b, q) \<noteq> None" for b q
    using ocex_invD(2) [OF inv] that by (auto simp: markets_inv_def)
  moreover have "length (ingress_messages s n) \<le> unat (c_ingress_limit cfg)" for n
    using ocex_invD(4) [OF inv] by (simp add: queue_bounded_def)
  ultimately show ?thesis
    using inv by blast
qed

theorem reachable_invariant_witness:
  "\<exists>s1 s2. dispatch sample_cfg Root (Call_set_exchange_state True) (on_genesis_session [1, 2, 3] (init_state [])) = Inr s1 \<and>
    dispatch sample_cfg (Signed 7) (Call_register_main_account 8) s1 = Inr s2 \<and> ocex_inv sample_cfg s2"
proof -
  let ?r1 = "dispatch sample_cfg Root (Call_set_exchange_state True) (on_genesis_session [1, 2, 3] (init_state []))"
  let ?r2 = "bind_res ?r1 (dispatch sample_cfg (Signed 7) (Call_register_main_account 8))"
  have "is_ok ?r2" by code_simp
  then obtain s1 s2 where run: "?r1 = Inr s1" "dispatch sample_cfg (Signed 7) (Call_register_main_account 8) s1 = Inr s2"
    by (auto simp: is_ok_iff res_simps)
  have "reachable sample_cfg s1"
    by (rule reachable.next_step [OF reachable.genesis]) (rule step.signed [OF _ run(1)], simp)
  then have "reachable sample_cfg s2"
    by (rule reachable.next_step) (rule step.signed [OF _ run(2)], simp)
  from reachable_invariant [OF this] run show ?thesis by blast
qed

text \<open>C5: a reward is paid at most once. After a reward has been claimed, whatever happens next, the
  same account cannot claim it again for the same epoch and market, as long as the 16-bit epoch
  counter has not reached its maximum.\<close>

theorem reward_never_claimed_again:
  assumes "ocex_inv cfg s" and "do_claim_lmp_rewards cfg main e m s = Inr (r, s1)"
    and "(step cfg)\<^sup>*\<^sup>* s1 s2" and "st_lmp_epoch s2 \<noteq> - 1"
  shows "do_claim_lmp_rewards cfg main e m s2 \<noteq> Inr (r', s3)"
proof
  assume again: "do_claim_lmp_rewards cfg main e m s2 = Inr (r', s3)"
  have "reward_settled e m main s2"
    using steps_settled [OF assms(3) do_claim_keeps [OF assms(2,1)] do_claim_settled(2) [OF assms(2)]] by simp
  then have "claimed s2 e m main"
    using assms(4) by (simp add: reward_settled_def)
  with again show False
    by (auto elim: do_claim_Inr)
qed

lemma sample_finalizing_inv: "ocex_inv sample_cfg sample_finalizing"
proof -
  have "unat e \<le> 1 \<Longrightarrow> e = 0 \<or> e = 1" for e :: u16
    by (simp add: word_unat_eq_iff) linarith
  then have "e \<le> 1 \<Longrightarrow> e = 0 \<or> e = 1" for e :: u16
    by (simp add: word_le_nat_alt)
  then have "lmp_inv sample_finalizing"
    by (auto simp: lmp_inv_def epochs_ok_def sample_finalizing_def init_state_def)
  then show ?thesis
    by (simp add: ocex_inv_def sample_finalizing_def init_state_def accounts_inv_def markets_inv_def allowlist_inv_def
        queue_bounded_def ingress_messages_def withdrawals_inv_def auction_inv_def)
qed

theorem reward_never_claimed_again_witness:
  "\<exists>s1. do_claim_lmp_rewards sample_cfg 7 0 (TradingPair Polkadex (Asset 5)) sample_scored = Inr (3, s1) \<and>
    (\<forall>r s3. do_claim_lmp_rewards sample_cfg 7 0 (TradingPair Polkadex (Asset 5))
      (s1 \<lparr> st_world := [((Polkadex, 102), 9)] \<rparr>) \<noteq> Inr (r, s3))"
proof -
  let ?run = "do_claim_lmp_rewards sample_cfg 7 0 (TradingPair Polkadex (Asset 5)) sample_scored"
  have "is_ok (update_lmp_scores sample_metrics sample_finalizing)" by code_simp
  then have "update_lmp_scores sample_metrics sample_finalizing = Inr sample_scored"
    by (auto simp: is_ok_iff sample_scored_def)
  then have inv: "ocex_inv sample_cfg sample_scored"
    using scores_keep_inv [where m = "Some sample_metrics" and s = sample_finalizing] sample_finalizing_inv
    by simp
  have "(case ?run of Inr (r, s1) \<Rightarrow> r = 3 \<and> st_lmp_epoch s1 \<noteq> - 1 | Inl _ \<Rightarrow> False)" by code_simp
  then obtain s1 where run: "?run = Inr (3, s1)" and ep: "st_lmp_epoch s1 \<noteq> - 1"
    by (auto split: sum.splits)
  have "(step sample_cfg)\<^sup>*\<^sup>* s1 (s1 \<lparr> st_world := [((Polkadex, 102), 9)] \<rparr>)"
    by (rule r_into_rtranclp) (rule step.world)
  from reward_never_claimed_again [OF inv run this] ep run show ?thesis by simp
qed

end
