(* ===== verification/Offchain_Lmp.thy ===== *)
theory Offchain_Lmp
  imports Settlement Ocex_Lmp
begin

text \<open>
  The liquidity-mining statistics in the off-chain state: the keys, volumes, fees, scores and the
  epoch record of \<^verbatim>\<open>pallets/ocex/src/lmp.rs\<close>, and the score computation of
  \<^verbatim>\<open>pallets/ocex/src/validator.rs\<close>. Every counter is a decimal under its own key; \<open>counter\<close> is its
  value, and \<open>add_decimal_spec\<close> says that an update changes one counter and nothing else.
\<close>

subsection \<open>Keys\<close>

definition STATE_INFO :: bytes where
  "STATE_INFO = string_bytes ''offchain-ocex::state_info''"

definition LMP_CONFIG_KEY :: bytes where
  "LMP_CONFIG_KEY = string_bytes ''LMP_CONFIG_KEY''"

definition get_trade_volume_by_main_account_key :: "'d codec \<Rightarrow> u16 \<Rightarrow> TradingPair \<Rightarrow> account \<Rightarrow> bytes" where
  "get_trade_volume_by_main_account_key K epoch pair main = enc_lmp_key K epoch pair ''trading_volume'' (Some main)"

definition get_maker_volume_by_main_account_key :: "'d codec \<Rightarrow> u16 \<Rightarrow> TradingPair \<Rightarrow> account \<Rightarrow> bytes" where
  "get_maker_volume_by_main_account_key K epoch pair main = enc_lmp_key K epoch pair ''maker_volume'' (Some main)"

definition get_total_maker_volume_key :: "'d codec \<Rightarrow> u16 \<Rightarrow> TradingPair \<Rightarrow> bytes" where
  "get_total_maker_volume_key K epoch pair = enc_lmp_key K epoch pair ''maker_volume'' None"

definition get_fees_paid_by_main_account :: "'d codec \<Rightarrow> u16 \<Rightarrow> TradingPair \<Rightarrow> account \<Rightarrow> bytes" where
  "get_fees_paid_by_main_account K epoch pair main = enc_lmp_key K epoch pair ''fees_paid'' (Some main)"

definition get_lmp_config_key :: bytes where
  "get_lmp_config_key = LMP_CONFIG_KEY"

definition get_q_score_uptime_by_main_account :: "'d codec \<Rightarrow> u16 \<Rightarrow> TradingPair \<Rightarrow> account \<Rightarrow> bytes" where
  "get_q_score_uptime_by_main_account K epoch pair main = enc_lmp_key K epoch pair ''q_score&uptime'' (Some main)"

subsection \<open>Volumes and fees\<close>

text \<open>The common body of the four updates, and of the reads.\<close>

definition add_decimal :: "('d, 't) worker_env \<Rightarrow> 't OffchainState \<Rightarrow> bytes \<Rightarrow> 'd \<Rightarrow>
    ow_error + ('d \<times> 't OffchainState)" where
  "add_decimal E s key x =
    bind_res (os_get (we_trie E) s key) (\<lambda>(v, s).
    case v of
      None \<Rightarrow> Inr (x, os_insert key (enc_decimal (we_codec E) x) s)
    | Some encoded \<Rightarrow>
        bind_res (ok_or (Msg ''Unable to decode decimal'') (dec_decimal (we_codec E) encoded)) (\<lambda>recorded.
        let sum = d_sat_add (we_dec E) recorded x
        in Inr (sum, os_insert key (enc_decimal (we_codec E) sum) s)))"

definition read_decimal :: "('d, 't) worker_env \<Rightarrow> 't OffchainState \<Rightarrow> bytes \<Rightarrow> ow_error + ('d \<times> 't OffchainState)" where
  "read_decimal E s key =
    bind_res (os_get (we_trie E) s key) (\<lambda>(v, s).
    case v of
      None \<Rightarrow> Inr (d_zero (we_dec E), s)
    | Some encoded \<Rightarrow>
        bind_res (ok_or (Msg ''Unable to decode decimal'') (dec_decimal (we_codec E) encoded)) (\<lambda>x. Inr (x, s)))"

definition update_trade_volume_by_main_account :: "('d, 't) worker_env \<Rightarrow> 't OffchainState \<Rightarrow> u16 \<Rightarrow>
    TradingPair \<Rightarrow> 'd \<Rightarrow> account \<Rightarrow> ow_error + ('d \<times> 't OffchainState)" where
  "update_trade_volume_by_main_account E s epoch pair volume main =
    add_decimal E s (get_trade_volume_by_main_account_key (we_codec E) epoch pair main) volume"

definition get_trade_volume_by_main_account :: "('d, 't) worker_env \<Rightarrow> 't OffchainState \<Rightarrow> u16 \<Rightarrow>
    TradingPair \<Rightarrow> account \<Rightarrow> ow_error + ('d \<times> 't OffchainState)" where
  "get_trade_volume_by_main_account E s epoch pair main =
    read_decimal E s (get_trade_volume_by_main_account_key (we_codec E) epoch pair main)"

definition get_maker_volume_by_main_account :: "('d, 't) worker_env \<Rightarrow> 't OffchainState \<Rightarrow> u16 \<Rightarrow>
    TradingPair \<Rightarrow> account \<Rightarrow> ow_error + ('d \<times> 't OffchainState)" where
  "get_maker_volume_by_main_account E s epoch pair main =
    read_decimal E s (get_maker_volume_by_main_account_key (we_codec E) epoch pair main)"

definition update_maker_volume_by_main_account :: "('d, 't) worker_env \<Rightarrow> 't OffchainState \<Rightarrow> u16 \<Rightarrow>
    TradingPair \<Rightarrow> 'd \<Rightarrow> account \<Rightarrow> ow_error + ('d \<times> 't OffchainState)" where
  "update_maker_volume_by_main_account E s epoch pair volume main =
    add_decimal E s (get_maker_volume_by_main_account_key (we_codec E) epoch pair main) volume"

definition get_total_maker_volume :: "('d, 't) worker_env \<Rightarrow> 't OffchainState \<Rightarrow> u16 \<Rightarrow>
    TradingPair \<Rightarrow> ow_error + ('d \<times> 't OffchainState)" where
  "get_total_maker_volume E s epoch pair =
    (if epoch = 0 then Inr (d_zero (we_dec E), s)
     else read_decimal E s (get_total_maker_volume_key (we_codec E) epoch pair))"

definition update_total_maker_volume :: "('d, 't) worker_env \<Rightarrow> 't OffchainState \<Rightarrow> u16 \<Rightarrow>
    TradingPair \<Rightarrow> 'd \<Rightarrow> ow_error + ('d \<times> 't OffchainState)" where
  "update_total_maker_volume E s epoch pair volume =
    add_decimal E s (get_total_maker_volume_key (we_codec E) epoch pair) volume"

definition store_fees_paid_by_main_account_in_quote :: "('d, 't) worker_env \<Rightarrow> 't OffchainState \<Rightarrow> u16 \<Rightarrow>
    TradingPair \<Rightarrow> 'd \<Rightarrow> account \<Rightarrow> ow_error + ('d \<times> 't OffchainState)" where
  "store_fees_paid_by_main_account_in_quote E s epoch pair fees main =
    add_decimal E s (get_fees_paid_by_main_account (we_codec E) epoch pair main) fees"

definition get_fees_paid_by_main_account_in_quote :: "('d, 't) worker_env \<Rightarrow> 't OffchainState \<Rightarrow> u16 \<Rightarrow>
    TradingPair \<Rightarrow> account \<Rightarrow> ow_error + ('d \<times> 't OffchainState)" where
  "get_fees_paid_by_main_account_in_quote E s epoch pair main =
    read_decimal E s (get_fees_paid_by_main_account (we_codec E) epoch pair main)"

subsection \<open>The epoch record and the scores\<close>

definition store_lmp_config :: "('d, 't) worker_env \<Rightarrow> 't OffchainState \<Rightarrow> LMPConfig \<Rightarrow> 't OffchainState" where
  "store_lmp_config E s config = os_insert LMP_CONFIG_KEY (enc_lmp_config (we_codec E) config) s"

definition get_lmp_config :: "('d, 't) worker_env \<Rightarrow> 't OffchainState \<Rightarrow> u16 \<Rightarrow>
    ow_error + (LMPConfig \<times> 't OffchainState)" where
  "get_lmp_config E s current_on_chain_epoch =
    bind_res (os_get (we_trie E) s LMP_CONFIG_KEY) (\<lambda>(v, s).
    case v of
      None \<Rightarrow>
        if current_on_chain_epoch = 0 then
          let config = \<lparr> lc_epoch = current_on_chain_epoch, lc_index = 0 \<rparr>
          in Inr (config, store_lmp_config E s config)
        else Inl (Msg ''LMPConfigNotFound'')
    | Some encoded \<Rightarrow>
        bind_res (ok_or (Msg ''Unable to decode LMP config'') (dec_lmp_config (we_codec E) encoded)) (\<lambda>config.
        Inr (config, s)))"

definition store_q_score_and_uptime :: "('d, 't) worker_env \<Rightarrow> 't OffchainState \<Rightarrow> u16 \<Rightarrow> u16 \<Rightarrow> 'd \<Rightarrow>
    TradingPair \<Rightarrow> account \<Rightarrow> ow_error + 't OffchainState" where
  "store_q_score_and_uptime E s epoch index score pair main =
    (let key = get_q_score_uptime_by_main_account (we_codec E) epoch pair main in
    bind_res (os_get (we_trie E) s key) (\<lambda>(v, s).
    case v of
      None \<Rightarrow> Inr (os_insert key (enc_q_scores (we_codec E) [(index, score)]) s)
    | Some encoded \<Rightarrow>
        bind_res (ok_or (Msg ''Unable to decode decimal'') (dec_q_scores (we_codec E) encoded)) (\<lambda>m.
        Inr (os_insert key (enc_q_scores (we_codec E) (bt_insert index score m)) s))))"

definition get_q_score_and_uptime_for_checkpoint :: "('d, 't) worker_env \<Rightarrow> 't OffchainState \<Rightarrow> u16 \<Rightarrow>
    TradingPair \<Rightarrow> account \<Rightarrow> ow_error + ((u16, 'd) btree \<times> 't OffchainState)" where
  "get_q_score_and_uptime_for_checkpoint E s epoch pair main =
    bind_res (os_get (we_trie E) s (get_q_score_uptime_by_main_account (we_codec E) epoch pair main)) (\<lambda>(v, s).
    case v of
      None \<Rightarrow> Inr ([], s)
    | Some encoded \<Rightarrow>
        bind_res (ok_or (Msg ''Unable to decode decimal'') (dec_q_scores (we_codec E) encoded)) (\<lambda>m. Inr (m, s)))"

definition get_q_score_and_uptime :: "('d, 't) worker_env \<Rightarrow> 't OffchainState \<Rightarrow> u16 \<Rightarrow>
    TradingPair \<Rightarrow> account \<Rightarrow> ow_error + (('d \<times> u16) \<times> 't OffchainState)" where
  "get_q_score_and_uptime E s epoch pair main =
    bind_res (os_get (we_trie E) s (get_q_score_uptime_by_main_account (we_codec E) epoch pair main)) (\<lambda>(v, s).
    case v of
      None \<Rightarrow> Inr ((d_zero (we_dec E), 0), s)
    | Some encoded \<Rightarrow>
        bind_res (ok_or (Msg ''Unable to decode decimal'') (dec_q_scores (we_codec E) encoded)) (\<lambda>m.
        Inr ((fold (\<lambda>score sum. d_sat_add (we_dec E) sum score) (bt_values m) (d_zero (we_dec E)),
              word_of_nat (length m)), s)))"

subsection \<open>Statistics of a trade\<close>

definition update_lmp_storage_from_trade :: "('d, 't) worker_env \<Rightarrow> ('d, 'w) ocex \<Rightarrow> 't OffchainState \<Rightarrow>
    'd Trade \<Rightarrow> 'd TradingPairConfig \<Rightarrow> 'd \<Rightarrow> 'd \<Rightarrow> ow_error + 't OffchainState" where
  "update_lmp_storage_from_trade E chain s trade config maker_fees taker_fees =
    (let epoch = st_lmp_epoch chain;
         pair = TradingPair (base_asset config) (quote_asset config);
         volume = d_sat_mul (we_dec E) (t_price trade) (t_amount trade);
         maker = o_main_account (t_maker trade);
         taker = o_main_account (t_taker trade) in
    bind_res (update_trade_volume_by_main_account E s epoch pair volume maker) (\<lambda>(_, s).
    bind_res (update_trade_volume_by_main_account E s epoch pair volume taker) (\<lambda>(_, s).
    bind_res (update_maker_volume_by_main_account E s epoch pair volume maker) (\<lambda>(_, s).
    bind_res (update_total_maker_volume E s epoch pair volume) (\<lambda>(_, s).
    case o_side (t_maker trade) of
      Ask \<Rightarrow>
        bind_res (store_fees_paid_by_main_account_in_quote E s epoch pair maker_fees maker) (\<lambda>(_, s).
        bind_res (store_fees_paid_by_main_account_in_quote E s epoch pair
            (d_sat_mul (we_dec E) taker_fees (t_price trade)) taker) (\<lambda>(_, s). Inr s))
    | Bid \<Rightarrow>
        bind_res (store_fees_paid_by_main_account_in_quote E s epoch pair
            (d_sat_mul (we_dec E) maker_fees (t_price trade)) maker) (\<lambda>(_, s).
        bind_res (store_fees_paid_by_main_account_in_quote E s epoch pair taker_fees taker) (\<lambda>(_, s). Inr s)))))))"

text \<open>
  Iterations over storage maps take the keys in storage order as an argument: \<open>accs\<close> for
  \<^verbatim>\<open>Accounts\<close>, \<open>pairs\<close> for \<^verbatim>\<open>TradingPairs\<close>.
\<close>

definition clear_lmp_keys :: "('d, 't) worker_env \<Rightarrow> u16 \<Rightarrow> TradingPair \<Rightarrow> account \<Rightarrow> 't OffchainState \<Rightarrow>
    't OffchainState" where
  "clear_lmp_keys E epoch pair main s =
    os_remove (get_q_score_uptime_by_main_account (we_codec E) epoch pair main)
    (os_remove (get_fees_paid_by_main_account (we_codec E) epoch pair main)
    (os_remove (get_total_maker_volume_key (we_codec E) epoch pair)
    (os_remove (get_maker_volume_by_main_account_key (we_codec E) epoch pair main)
    (os_remove (get_trade_volume_by_main_account_key (we_codec E) epoch pair main) s))))"

definition clear_lmp_storages :: "('d, 't) worker_env \<Rightarrow> ('d, 'w) ocex \<Rightarrow> account list \<Rightarrow>
    (AssetId \<times> AssetId) list \<Rightarrow> 't OffchainState \<Rightarrow> ow_error + 't OffchainState" where
  "clear_lmp_storages E chain accs pairs s =
    Inr (os_remove get_lmp_config_key
      (fold (\<lambda>main. fold (\<lambda>epoch. fold (\<lambda>(b, q). clear_lmp_keys E epoch (TradingPair b q) main) pairs)
          (map word_of_nat [0..<Suc (unat (st_lmp_epoch chain))])) accs s))"

subsection \<open>Ranking\<close>

text \<open>\<^verbatim>\<open>BTreeMap<Decimal, _>\<close>: keys that compare equal are the same key.\<close>

fun dmap_insert :: "'d decimal_ops \<Rightarrow> 'd \<Rightarrow> 'v \<Rightarrow> ('d \<times> 'v) list \<Rightarrow> ('d \<times> 'v) list" where
  "dmap_insert D k v [] = [(k, v)]"
| "dmap_insert D k v ((k', v') # m) =
    (case d_cmp D k k' of
      Less \<Rightarrow> (k, v) # (k', v') # m
    | Equal \<Rightarrow> (k', v) # m
    | Greater \<Rightarrow> (k', v') # dmap_insert D k v m)"

definition top_lmp_accounts :: "('d, 'w) config \<Rightarrow> account list \<Rightarrow> u16 \<Rightarrow> TradingPair \<Rightarrow> bool \<Rightarrow> nat \<Rightarrow>
    ('d, 'w) ocex \<Rightarrow> account list" where
  "top_lmp_accounts cfg accs epoch pair sorted_by_mm_score bound s =
    (let accounts = fold (\<lambda>main m.
           case trader_metrics cfg epoch pair main s of (mm_score, trading_score, _) \<Rightarrow>
             dmap_insert (c_dec cfg) (if sorted_by_mm_score then mm_score else trading_score) main m)
           (filter (\<lambda>main. st_trader_metrics s (epoch, pair, main) \<noteq> None) accs) [];
         accounts = rev (map snd accounts)
     in if length accounts > bound then take bound accounts else accounts)"

subsection \<open>Scores\<close>

definition start_new_lmp_epoch :: "('d, 't) worker_env \<Rightarrow> 't OffchainState \<Rightarrow> u16 \<Rightarrow>
    ow_error + 't OffchainState" where
  "start_new_lmp_epoch E s epoch =
    (let default_config = \<lparr> lc_epoch = epoch, lc_index = 0 \<rparr>;
         (config, s) =
           (if 1 < epoch then
              (case get_lmp_config E s epoch of
                Inr (config, s) \<Rightarrow> (config, s)
              | Inl _ \<Rightarrow> (default_config, s))
            else (default_config, s))
     in Inr (store_lmp_config E s (config \<lparr> lc_epoch := epoch, lc_index := 0 \<rparr>)))"

definition store_q_scores :: "('d, 't) worker_env \<Rightarrow> 't OffchainState \<Rightarrow> TradingPair \<Rightarrow>
    (account, 'd) btree \<Rightarrow> u16 \<Rightarrow> ow_error + 't OffchainState" where
  "store_q_scores E s market scores current_on_chain_epoch =
    bind_res (get_lmp_config E s current_on_chain_epoch) (\<lambda>(config, s).
    let next_index = (if lc_index config = - 1 then 0 else lc_index config + 1) in
    bind_res (fold_res (\<lambda>(main, score) s.
        store_q_score_and_uptime E s (lc_epoch config) next_index score market main) scores s) (\<lambda>s.
    Inr (store_lmp_config E s (config \<lparr> lc_index := next_index \<rparr>))))"

text \<open>\<open>Decimal::pow\<close> with a floating-point exponent belongs to the decimal crate.\<close>

definition compute_score :: "('d, 't) worker_env \<Rightarrow> 't OffchainState \<Rightarrow> account \<Rightarrow> TradingPair \<Rightarrow> u16 \<Rightarrow>
    ow_error + ('d \<times> 't OffchainState)" where
  "compute_score E s main pair epoch =
    (let D = we_dec E in
    bind_res (get_maker_volume_by_main_account E s epoch pair main) (\<lambda>(maker_volume, s).
    bind_res (get_total_maker_volume E s (sat_sub epoch 1) pair) (\<lambda>(total_maker_volume_in_last_epoch, s).
    if d_le D maker_volume (d_sat_mul D (d_lit D (25 / 10000)) total_maker_volume_in_last_epoch)
    then Inr (d_zero D, s)
    else
      bind_res (get_q_score_and_uptime E s epoch pair main) (\<lambda>((q_score, uptime), s).
      bind_res (ok_or Panic (d_from D (ucast uptime))) (\<lambda>uptime.
      Inr (d_sat_mul D (d_sat_mul D (d_pow D q_score (15 / 100)) (d_pow D uptime 5))
            (d_pow D maker_volume (85 / 100)), s))))))"

definition account_metrics :: "('d, 't) worker_env \<Rightarrow> TradingPair \<Rightarrow> u16 \<Rightarrow> account \<Rightarrow>
    ((account, 'd \<times> 'd) btree \<times> ('d \<times> 'd)) \<times> 't OffchainState \<Rightarrow>
    ow_error + (((account, 'd \<times> 'd) btree \<times> ('d \<times> 'd)) \<times> 't OffchainState)" where
  "account_metrics E pair epoch main acc =
    (case acc of ((m, total_score, total_fees_paid), s) \<Rightarrow>
    bind_res (get_fees_paid_by_main_account_in_quote E s epoch pair main) (\<lambda>(fees_paid, s).
    bind_res (compute_score E s main pair epoch) (\<lambda>(final_score, s).
    let m = (if \<not> d_is_zero (we_dec E) final_score \<or> \<not> d_is_zero (we_dec E) fees_paid
             then bt_insert main (final_score, fees_paid) m else m)
    in Inr ((m, d_sat_add (we_dec E) total_score final_score, d_sat_add (we_dec E) total_fees_paid fees_paid), s))))"

definition pair_metrics :: "('d, 't) worker_env \<Rightarrow> account list \<Rightarrow> u16 \<Rightarrow> TradingPair \<Rightarrow>
    'd TradingPairMetricsMap \<times> 't OffchainState \<Rightarrow> ow_error + ('d TradingPairMetricsMap \<times> 't OffchainState)" where
  "pair_metrics E accs epoch pair acc =
    (case acc of (scores_map, s) \<Rightarrow>
    bind_res (fold_res (account_metrics E pair epoch) accs (([], d_zero (we_dec E), d_zero (we_dec E)), s)) (\<lambda>(r, s).
    case r of (m, total_score, total_fees_paid) \<Rightarrow>
      Inr (if \<not> d_is_zero (we_dec E) total_score \<or> \<not> d_is_zero (we_dec E) total_fees_paid
           then bt_insert pair (m, (total_score, total_fees_paid)) scores_map else scores_map, s)))"

definition compute_trader_metrics :: "('d, 't) worker_env \<Rightarrow> ('d, 'w) ocex \<Rightarrow> account list \<Rightarrow>
    't OffchainState \<Rightarrow> ow_error + ('d TradingPairMetricsMap option \<times> 't OffchainState)" where
  "compute_trader_metrics E chain accs s =
    (case st_finalize_lmp chain of
      None \<Rightarrow> Inr (None, s)
    | Some epoch \<Rightarrow>
        bind_res (ok_or (Msg ''LMPConfig not defined for this epoch'') (st_lmp_config chain epoch)) (\<lambda>config.
        bind_res (fold_res (pair_metrics E accs epoch) (bt_keys (epoch_markets config)) ([], s)) (\<lambda>(scores_map, s).
        Inr (Some scores_map, s))))"

subsection \<open>Counters\<close>

definition counter :: "('d, 't) worker_env \<Rightarrow> ('t \<Rightarrow> bytes \<Rightarrow> bytes option) \<Rightarrow> ('d \<Rightarrow> rat) \<Rightarrow>
    't OffchainState \<Rightarrow> bytes \<Rightarrow> rat" where
  "counter E tv val s key =
    (case os_view tv s key of
      None \<Rightarrow> 0
    | Some b \<Rightarrow> (case dec_decimal (we_codec E) b of None \<Rightarrow> 0 | Some x \<Rightarrow> val x))"

definition counter_key :: "'d codec \<Rightarrow> bytes \<Rightarrow> bool" where
  "counter_key K key \<longleftrightarrow> (\<exists>e p t a. key = enc_lmp_key K e p t a \<and> t \<noteq> ''q_score&uptime'')"

definition counters :: "('d, 't) worker_env \<Rightarrow> ('t \<Rightarrow> bytes \<Rightarrow> bytes option) \<Rightarrow> ('t \<Rightarrow> bool) \<Rightarrow> ('d \<Rightarrow> rat) \<Rightarrow>
    nat \<Rightarrow> int \<Rightarrow> 't OffchainState \<Rightarrow> bool" where
  "counters E tv ok val sc b s \<longleftrightarrow>
    os_inv (we_trie E) tv ok s \<and> codec_laws (we_codec E) \<and> decimal_laws (we_dec E) val \<and> sc \<le> 28 \<and>
    (\<forall>key v. counter_key (we_codec E) key \<longrightarrow> os_view tv s key = Some v \<longrightarrow>
      (\<exists>x. dec_decimal (we_codec E) v = Some x \<and> fixed sc b (val x)))"

lemma counter_keys:
  "counter_key K (get_trade_volume_by_main_account_key K e p a)"
  "counter_key K (get_maker_volume_by_main_account_key K e p a)"
  "counter_key K (get_total_maker_volume_key K e p)"
  "counter_key K (get_fees_paid_by_main_account K e p a)"
  unfolding counter_key_def get_trade_volume_by_main_account_key_def get_maker_volume_by_main_account_key_def
    get_total_maker_volume_key_def get_fees_paid_by_main_account_def
  by (rule exI, rule exI, rule exI, rule exI, rule conjI, rule refl, simp)+

lemma add_decimal_spec:
  assumes cs: "counters E tv ok val sc b s" and k: "counter_key (we_codec E) key"
    and x: "fixed sc c (val x)" and b: "0 \<le> b" "b + c \<le> 2 ^ 96"
  shows "\<exists>y s'. add_decimal E s key x = Inr (y, s') \<and> counters E tv ok val sc (b + c) s' \<and>
    counter E tv val s' = (counter E tv val s)(key := counter E tv val s key + val x)"
proof -
  let ?K = "we_codec E"
  have c: "0 < c" by (rule fixed_bound_pos [OF x])
  from cs have inv: "os_inv (we_trie E) tv ok s" and codec: "codec_laws ?K" and D: "decimal_laws (we_dec E) val"
    and sc: "sc \<le> 28" and dec: "\<And>key v. counter_key ?K key \<Longrightarrow> os_view tv s key = Some v \<Longrightarrow>
      \<exists>x. dec_decimal ?K v = Some x \<and> fixed sc b (val x)"
    unfolding counters_def by blast+
  obtain s1 where get: "os_get (we_trie E) s key = Inr (os_view tv s key, s1)"
    and s1: "os_inv (we_trie E) tv ok s1" "os_view tv s1 = os_view tv s"
    using os.get_total [OF inv] by blast
  have "\<exists>y. add_decimal E s key x = Inr (y, os_insert key (enc_decimal ?K y) s1) \<and>
      val y = counter E tv val s key + val x \<and> fixed sc (b + c) (val y)"
  proof (cases "os_view tv s key")
    case None
    then show ?thesis
      using fixed_mono [OF x] b(1) by (simp add: add_decimal_def get counter_def)
  next
    case (Some v)
    obtain z where z: "dec_decimal ?K v = Some z" "fixed sc b (val z)"
      using dec [OF k Some] by blast
    have f: "fixed sc (b + c) (val z + val x)"
      by (rule fixed_add [OF z(2) x])
    have "val (d_sat_add (we_dec E) z x) = val z + val x"
      using decimal_lawsD(4) [OF D fixed_representable [OF f sc b(2)]] .
    with f show ?thesis
      by (simp add: add_decimal_def get counter_def Some z(1) Let_def)
  qed
  then obtain y where y: "add_decimal E s key x = Inr (y, os_insert key (enc_decimal ?K y) s1)"
      "val y = counter E tv val s key + val x" "fixed sc (b + c) (val y)"
    by blast
  let ?s' = "os_insert key (enc_decimal ?K y) s1"
  have v: "os_view tv ?s' = (os_view tv s)(key \<mapsto> enc_decimal ?K y)"
    by (simp add: os_insert_view s1(2))
  have "counters E tv ok val sc (b + c) ?s'"
    unfolding counters_def
    using os_insert_inv [OF s1(1)] codec D sc dec y(3) fixed_mono [of sc b _ "b + c"] c
    by (auto simp: v codec_lawsD(3) [OF codec]) blast
  moreover have "counter E tv val ?s' = (counter E tv val s)(key := counter E tv val s key + val x)"
    by (rule ext) (auto simp: counter_def [where s = ?s'] v codec_lawsD(3) [OF codec] y(2) counter_def)
  ultimately show ?thesis using y(1) by blast
qed

lemma counters_mono: "counters E tv ok val sc b s \<Longrightarrow> b \<le> b' \<Longrightarrow> counters E tv ok val sc b' s"
  unfolding counters_def by (meson fixed_mono)

text \<open>A store of counters and what a sequence of updates does to it.\<close>

locale tally =
  fixes upd :: "'s \<Rightarrow> 'k \<Rightarrow> 'd \<Rightarrow> 'e + ('d \<times> 's)"
    and ctr :: "'s \<Rightarrow> 'k \<Rightarrow> rat"
    and level :: "int \<Rightarrow> 's \<Rightarrow> bool"
    and is_key :: "'k \<Rightarrow> bool"
    and amt :: "int \<Rightarrow> 'd \<Rightarrow> bool"
    and val :: "'d \<Rightarrow> rat"
  assumes upd_spec: "level b s \<Longrightarrow> is_key k \<Longrightarrow> amt c x \<Longrightarrow> 0 \<le> b \<Longrightarrow> b + c \<le> 2 ^ 96 \<Longrightarrow>
      \<exists>y s'. upd s k x = Inr (y, s') \<and> level (b + c) s' \<and> ctr s' = (ctr s)(k := ctr s k + val x)"
begin

lemma updates:
  assumes "level b s" and "\<forall>(k, x)\<in>set us. is_key k \<and> amt c x" and "0 \<le> b" and "0 \<le> c"
    and "b + int (length us) * c \<le> 2 ^ 96"
  shows "\<exists>s'. fold_res (\<lambda>(k, x) s. bind_res (upd s k x) (\<lambda>(_, s). Inr s)) us s = Inr s' \<and>
    level (b + int (length us) * c) s' \<and> (\<forall>k. ctr s' k = ctr s k + (\<Sum>(k', x)\<leftarrow>us. if k' = k then val x else 0))"
  using assms
proof (induction us arbitrary: b s)
  case (Cons u us)
  obtain k x where u: "u = (k, x)" by force
  have n: "int (length (u # us)) * c = c + int (length us) * c"
    by (simp add: algebra_simps)
  have bc: "b + c \<le> 2 ^ 96" and bn: "b + c + int (length us) * c \<le> 2 ^ 96"
    using Cons.prems(4,5) mult_nonneg_nonneg [of "int (length us)" c] unfolding n by linarith+
  obtain y s1 where s1: "upd s k x = Inr (y, s1)" "level (b + c) s1" "ctr s1 = (ctr s)(k := ctr s k + val x)"
    using upd_spec [OF Cons.prems(1) _ _ Cons.prems(3) bc, of k x] Cons.prems(2) u by auto
  obtain s' where
      "fold_res (\<lambda>(k, x) s. bind_res (upd s k x) (\<lambda>(_, s). Inr s)) us s1 = Inr s'"
      "level (b + c + int (length us) * c) s'"
      "\<forall>k. ctr s' k = ctr s1 k + (\<Sum>(k', x)\<leftarrow>us. if k' = k then val x else 0)"
    using Cons.IH [OF s1(2) _ _ Cons.prems(4) bn] Cons.prems(2-4) by auto
  then show ?case
    using s1 by (auto simp: u algebra_simps)
qed simp

end

interpretation stats: tally "add_decimal E" "counter E tv val" "counters E tv ok val sc" "counter_key (we_codec E)"
  "\<lambda>b x. fixed sc b (val x)" val
  for E :: "('d, 't) worker_env" and tv ok val sc
  by unfold_locales (auto intro: add_decimal_spec)

definition trade_updates :: "('d, 't) worker_env \<Rightarrow> u16 \<Rightarrow> TradingPair \<Rightarrow> 'd Trade \<Rightarrow> 'd \<Rightarrow> 'd \<Rightarrow> (bytes \<times> 'd) list" where
  "trade_updates E epoch pair trade maker_fees taker_fees =
    (let K = we_codec E; volume = d_sat_mul (we_dec E) (t_price trade) (t_amount trade);
         maker = o_main_account (t_maker trade); taker = o_main_account (t_taker trade) in
    [(get_trade_volume_by_main_account_key K epoch pair maker, volume),
     (get_trade_volume_by_main_account_key K epoch pair taker, volume),
     (get_maker_volume_by_main_account_key K epoch pair maker, volume),
     (get_total_maker_volume_key K epoch pair, volume),
     (get_fees_paid_by_main_account K epoch pair maker,
       if o_side (t_maker trade) = Ask then maker_fees else d_sat_mul (we_dec E) maker_fees (t_price trade)),
     (get_fees_paid_by_main_account K epoch pair taker,
       if o_side (t_maker trade) = Ask then d_sat_mul (we_dec E) taker_fees (t_price trade) else taker_fees)])"

lemma update_lmp_storage_as_updates:
  "update_lmp_storage_from_trade E chain s trade config maker_fees taker_fees =
    fold_res (\<lambda>(k, x) s. bind_res (add_decimal E s k x) (\<lambda>(_, s). Inr s))
      (trade_updates E (st_lmp_epoch chain) (TradingPair (base_asset config) (quote_asset config))
        trade maker_fees taker_fees) s"
  by (cases "o_side (t_maker trade)")
    (simp_all add: update_lmp_storage_from_trade_def trade_updates_def Let_def case_prod_beta' bind_res_assoc
      update_trade_volume_by_main_account_def update_maker_volume_by_main_account_def
      update_total_maker_volume_def store_fees_paid_by_main_account_in_quote_def)

lemma lmp_keys_eq:
  assumes "codec_laws K"
  shows "get_trade_volume_by_main_account_key K e p a = get_trade_volume_by_main_account_key K e' p' a' \<longleftrightarrow>
      e = e' \<and> p = p' \<and> a = a'"
    and "get_maker_volume_by_main_account_key K e p a = get_maker_volume_by_main_account_key K e' p' a' \<longleftrightarrow>
      e = e' \<and> p = p' \<and> a = a'"
    and "get_fees_paid_by_main_account K e p a = get_fees_paid_by_main_account K e' p' a' \<longleftrightarrow>
      e = e' \<and> p = p' \<and> a = a'"
    and "get_total_maker_volume_key K e p = get_total_maker_volume_key K e' p' \<longleftrightarrow> e = e' \<and> p = p'"
    and "get_trade_volume_by_main_account_key K e p a \<noteq> get_maker_volume_by_main_account_key K e' p' a'"
    and "get_trade_volume_by_main_account_key K e p a \<noteq> get_fees_paid_by_main_account K e' p' a'"
    and "get_trade_volume_by_main_account_key K e p a \<noteq> get_total_maker_volume_key K e' p'"
    and "get_maker_volume_by_main_account_key K e p a \<noteq> get_fees_paid_by_main_account K e' p' a'"
    and "get_maker_volume_by_main_account_key K e p a \<noteq> get_total_maker_volume_key K e' p'"
    and "get_fees_paid_by_main_account K e p a \<noteq> get_total_maker_volume_key K e' p'"
  unfolding get_trade_volume_by_main_account_key_def get_maker_volume_by_main_account_key_def
    get_total_maker_volume_key_def get_fees_paid_by_main_account_def codec_lawsD(9) [OF assms]
  by simp_all

lemmas lmp_keys_simps = lmp_keys_eq lmp_keys_eq(5-10) [symmetric]

text \<open>C7: the statistics of a trade. Both parties' trading volumes grow by the traded value, the
  maker's maker volume and the market's total maker volume grow by it, the fees of each side are
  recorded in quote terms, every other counter keeps its value, and so the total maker volume
  of a market stays the sum of the accounts' maker volumes.\<close>

theorem trade_statistics:
  assumes "counters E tv ok val sc b s" and "0 \<le> b" and "b + 6 * c \<le> 2 ^ 96"
    and "fixed sc c (val (d_sat_mul (we_dec E) (t_price trade) (t_amount trade)))"
    and "\<forall>f\<in>{maker_fees, taker_fees}. fixed sc c (val f) \<and> fixed sc c (val (d_sat_mul (we_dec E) f (t_price trade)))"
  shows "\<exists>s'. update_lmp_storage_from_trade E chain s trade config maker_fees taker_fees = Inr s' \<and>
    counters E tv ok val sc (b + 6 * c) s' \<and>
    (let K = we_codec E; e = st_lmp_epoch chain; p = TradingPair (base_asset config) (quote_asset config);
         vol = val (d_sat_mul (we_dec E) (t_price trade) (t_amount trade)); cnt = counter E tv val;
         maker = o_main_account (t_maker trade); taker = o_main_account (t_taker trade) in
      (\<forall>a. cnt s' (get_trade_volume_by_main_account_key K e p a) = cnt s (get_trade_volume_by_main_account_key K e p a) +
        (if a = maker then vol else 0) + (if a = taker then vol else 0)) \<and>
      (\<forall>a. cnt s' (get_maker_volume_by_main_account_key K e p a) = cnt s (get_maker_volume_by_main_account_key K e p a) +
        (if a = maker then vol else 0)) \<and>
      cnt s' (get_total_maker_volume_key K e p) = cnt s (get_total_maker_volume_key K e p) + vol \<and>
      (\<forall>a. cnt s' (get_fees_paid_by_main_account K e p a) = cnt s (get_fees_paid_by_main_account K e p a) +
        (if a = maker then val (if o_side (t_maker trade) = Ask then maker_fees
          else d_sat_mul (we_dec E) maker_fees (t_price trade)) else 0) +
        (if a = taker then val (if o_side (t_maker trade) = Ask then d_sat_mul (we_dec E) taker_fees (t_price trade)
          else taker_fees) else 0)) \<and>
      (\<forall>e' p' t a. e' \<noteq> e \<or> p' \<noteq> p \<longrightarrow> cnt s' (enc_lmp_key K e' p' t a) = cnt s (enc_lmp_key K e' p' t a)) \<and>
      (\<forall>A. finite A \<and> maker \<in> A \<longrightarrow>
        cnt s' (get_total_maker_volume_key K e p) - (\<Sum>a\<in>A. cnt s' (get_maker_volume_by_main_account_key K e p a)) =
        cnt s (get_total_maker_volume_key K e p) - (\<Sum>a\<in>A. cnt s (get_maker_volume_by_main_account_key K e p a))))"
proof -
  define e where "e = st_lmp_epoch chain"
  define p where "p = TradingPair (base_asset config) (quote_asset config)"
  define us where "us = trade_updates E e p trade maker_fees taker_fees"
  let ?K = "we_codec E" and ?c = "counter E tv val" and ?vol = "val (d_sat_mul (we_dec E) (t_price trade) (t_amount trade))"
  let ?maker = "o_main_account (t_maker trade)"
  note K = lmp_keys_simps [OF assms(1) [unfolded counters_def, THEN conjunct2, THEN conjunct1]]
  note Kenc = codec_lawsD(9) [OF assms(1) [unfolded counters_def, THEN conjunct2, THEN conjunct1]]
  have ok: "\<forall>(k, x)\<in>set us. counter_key ?K k \<and> fixed sc c (val x)" and len: "length us = 6"
    using assms(4,5) by (simp_all add: us_def trade_updates_def Let_def counter_keys)
  obtain s' where run: "fold_res (\<lambda>(k, x) s. bind_res (add_decimal E s k x) (\<lambda>(_, s). Inr s)) us s = Inr s'"
    and lev: "counters E tv ok val sc (b + 6 * c) s'"
    and cnt: "\<And>k. ?c s' k = ?c s k + (\<Sum>(k', x)\<leftarrow>us. if k' = k then val x else 0)"
    using stats.updates [OF assms(1) ok assms(2)] assms(3) fixed_bound_pos [OF assms(4)] len by auto
  have maker: "?c s' (get_maker_volume_by_main_account_key ?K e p a) =
      ?c s (get_maker_volume_by_main_account_key ?K e p a) + (if a = ?maker then ?vol else 0)" for a
    by (simp add: cnt us_def trade_updates_def Let_def K)
  have tot: "?c s' (get_total_maker_volume_key ?K e p) = ?c s (get_total_maker_volume_key ?K e p) + ?vol"
    by (simp add: cnt us_def trade_updates_def Let_def K)
  have fees: "?c s' (get_fees_paid_by_main_account ?K e p a) = ?c s (get_fees_paid_by_main_account ?K e p a) +
      (if a = ?maker then val (if o_side (t_maker trade) = Ask then maker_fees
        else d_sat_mul (we_dec E) maker_fees (t_price trade)) else 0) +
      (if a = o_main_account (t_taker trade) then val (if o_side (t_maker trade) = Ask
        then d_sat_mul (we_dec E) taker_fees (t_price trade) else taker_fees) else 0)" for a
    by (simp add: cnt us_def trade_updates_def Let_def K)
  have other: "e' \<noteq> e \<or> p' \<noteq> p \<Longrightarrow> ?c s' (enc_lmp_key ?K e' p' t a) = ?c s (enc_lmp_key ?K e' p' t a)" for e' p' t a
    by (auto simp: cnt us_def trade_updates_def Let_def Kenc get_trade_volume_by_main_account_key_def
        get_maker_volume_by_main_account_key_def get_total_maker_volume_key_def get_fees_paid_by_main_account_def)
  have "(\<Sum>a\<in>A. ?c s' (get_maker_volume_by_main_account_key ?K e p a)) =
      (\<Sum>a\<in>A. ?c s (get_maker_volume_by_main_account_key ?K e p a)) + ?vol" if "finite A" "?maker \<in> A" for A
    using that by (simp add: maker sum.distrib)
  moreover have "?c s' (get_trade_volume_by_main_account_key ?K e p a) =
      ?c s (get_trade_volume_by_main_account_key ?K e p a) + (if a = ?maker then ?vol else 0) +
      (if a = o_main_account (t_taker trade) then ?vol else 0)" for a
    by (simp add: cnt us_def trade_updates_def Let_def K)
  ultimately show ?thesis
    using run lev maker tot fees other
    unfolding update_lmp_storage_as_updates Let_def e_def [symmetric] p_def [symmetric] us_def [symmetric] by auto
qed

theorem trade_statistics_witness:
  "\<exists>s'. update_lmp_storage_from_trade sample_env sample_chain sample_store sample_trade sample_config 0 0 = Inr s' \<and>
    counter sample_env bt_get (\<lambda>q. q) s' (get_total_maker_volume_key sample_codec 0
      (TradingPair (base_asset sample_config) (quote_asset sample_config))) = 12"
proof -
  have env: "we_codec sample_env = sample_codec" "we_dec sample_env = rat_decimal" "we_trie sample_env = list_trie"
    by (simp_all add: sample_env_def)
  have len: "length xs \<le> length (put_nats xs)" for xs
    by (induction xs) (auto simp: put_nats.simps)
  have long: "1 < length (enc_lmp_key sample_codec e p t a)" for e p t a
    using len [of "unat e # asset_nats (base p) @ asset_nats (quote p) @
      (case a of None \<Rightarrow> [0, 0] | Some x \<Rightarrow> [1, unat x]) @ map of_char t"]
    by (cases a) (simp_all add: sample_codec_def)
  have view: "counter_key sample_codec k \<Longrightarrow> os_view bt_get sample_store k = None" for k
  proof -
    assume "counter_key sample_codec k"
    then have "1 < length k" using long by (auto simp: counter_key_def)
    then have "k \<noteq> [1]" "k \<noteq> [2]" by auto
    then show ?thesis by (simp add: os_view_def sample_store_def bt_get_def)
  qed
  have c: "counters sample_env bt_get bt_wf (\<lambda>q. q) 2 (2 ^ 30) sample_store"
    using view by (simp add: counters_def env sample_store_inv sample_codec_laws rat_decimal_laws)
  have f: "fixed 2 (2 ^ 30) ((\<lambda>q. q) (d_sat_mul rat_decimal (t_price sample_trade) (t_amount sample_trade)))"
    "fixed 2 (2 ^ 30) (0 :: rat)"
    using fixed_int [of 12 "2 ^ 30"] fixed_zero by (simp_all add: rat_decimal_def sample_trade_def)
  have z: "d_sat_mul rat_decimal 0 q = 0" for q by (simp add: rat_decimal_def)
  have tot: "counter sample_env bt_get (\<lambda>q. q) sample_store (get_total_maker_volume_key sample_codec e p) = 0" for e p
    using view [OF counter_keys(3)] by (simp add: counter_def)
  have "d_sat_mul rat_decimal (t_price sample_trade) (t_amount sample_trade) = 12" "st_lmp_epoch sample_chain = 0"
    by (simp_all add: rat_decimal_def sample_trade_def sample_chain_def init_state_def)
  then show ?thesis
    using trade_statistics [OF c, of "2 ^ 30" sample_trade 0 0 sample_chain sample_config] f tot
    by (auto simp: env z Let_def)
qed

end
