(* ===== verification/Ocex_Validator.thy ===== *)
theory Ocex_Validator
  imports Offchain_Lmp
begin

text \<open>
  The off-chain worker's processing of a batch of user actions,
  \<^verbatim>\<open>pallets/ocex/src/validator.rs\<close>: the import of a block's ingress messages with the verification
  of the engine's answers, trades, withdrawals, and the batch that composes them. The worker reads
  the chain (\<open>chain\<close>) and writes the off-chain state. A failed step returns an error and its
  partial writes stay in the cache, which the caller drops.
\<close>

subsection \<open>Imported messages\<close>

definition import_add_liquidity :: "('d, 't) worker_env \<Rightarrow> 'd engine_messages \<Rightarrow> 'd IngressMessages \<Rightarrow>
    'd TradingPairConfig \<Rightarrow> account \<Rightarrow> account \<Rightarrow> 'd \<Rightarrow> 'd \<Rightarrow> 'd \<Rightarrow> 't OffchainState \<Rightarrow>
    ow_error + ('d EgressMessages \<times> 't OffchainState)" where
  "import_add_liquidity E em message market pool lp total_shares base_deposited quote_deposited s =
    (let D = we_dec E in
    bind_res (add_balance E s pool (base_asset market) base_deposited) (\<lambda>s.
    bind_res (add_balance E s pool (quote_asset market) quote_deposited) (\<lambda>s.
    bind_res (get_balance E s pool (base_asset market)) (\<lambda>(base_balance, s).
    bind_res (get_balance E s pool (quote_asset market)) (\<lambda>(quote_balance, s).
    bind_res (ok_or (Msg ''Unable to find Egress message for AddLiquidity'') (engine_get D em message)) (\<lambda>engine_result.
    case engine_result of
      AddLiquidityResult _ pool_e lp_e issued_shares price total_inventory \<Rightarrow>
        ensure (pool = pool_e) (Msg ''Invalid Pool id in egress'')
        (ensure (lp = lp_e) (Msg ''Invalid LP address in egress'')
        (ensure (d_eq D total_inventory (d_sat_add D quote_balance (d_sat_mul D price base_balance)))
          (Msg ''Inventory Mismatch'')
        (let given_inventory = d_sat_add D (d_sat_mul D base_deposited price) quote_deposited in
        bind_res
          (if d_is_zero D total_inventory then Inr given_inventory
           else ok_or Panic (d_div D (d_sat_mul D given_inventory total_shares) total_inventory)) (\<lambda>shares_minted.
        ensure (d_eq D issued_shares shares_minted) (Msg ''Invalid number of LP shares minted'')
        (Inr (engine_result, s))))))
    | _ \<Rightarrow> Inl (Msg ''Invalid Engine Egress message'')))))))"

text \<open>
  In the answer \<^verbatim>\<open>RemoveLiquidityResult\<close> the market of the engine's message shadows the market of
  the ingress message: the balances read are those of the ingress market, the balances reduced
  those of the engine's.
\<close>

definition import_remove_liquidity :: "('d, 't) worker_env \<Rightarrow> 'd engine_messages \<Rightarrow> 'd IngressMessages \<Rightarrow>
    'd TradingPairConfig \<Rightarrow> account \<Rightarrow> account \<Rightarrow> 'd \<Rightarrow> 't OffchainState \<Rightarrow>
    ow_error + ('d EgressMessages \<times> 't OffchainState)" where
  "import_remove_liquidity E em message market pool lp burn_frac s =
    (let D = we_dec E in
    bind_res (get_balance E s pool (base_asset market)) (\<lambda>(base_balance, s).
    bind_res (get_balance E s pool (quote_asset market)) (\<lambda>(quote_balance, s).
    let withdrawing_base = d_sat_mul D burn_frac base_balance;
        withdrawing_quote = d_sat_mul D burn_frac quote_balance in
    bind_res (ok_or (Msg ''RemoveLiquidity engine message not found'') (engine_get D em message)) (\<lambda>engine_message.
    case engine_message of
      RemoveLiquidityResult market pool_e lp_e base_freed quote_freed \<Rightarrow>
        ensure (pool = pool_e) (Msg ''Invalid Pool id in egress'')
        (ensure (lp = lp_e) (Msg ''Invalid LP address in egress'')
        (ensure (d_eq D withdrawing_quote quote_freed) (Msg ''Invalid quote amount freed!'')
        (ensure (d_eq D withdrawing_base base_freed) (Msg ''Invalid base amount freed!'')
        (bind_res (sub_balance E s pool (quote_asset market) withdrawing_quote False) (\<lambda>(_, s).
         bind_res (sub_balance E s pool (base_asset market) withdrawing_base False) (\<lambda>(_, s).
         Inr (engine_message, s)))))))
    | RemoveLiquidityFailed _ pool_e lp_e burn_frac_e _ base_free quote_free base_required quote_required \<Rightarrow>
        ensure (pool = pool_e) (Msg ''Invalid Pool id in egress'')
        (ensure (lp = lp_e) (Msg ''Invalid LP address in egress'')
        (ensure (d_eq D burn_frac burn_frac_e) (Msg ''Invalid Burn fraction in egress'')
        (ensure (d_eq D withdrawing_quote quote_required) (Msg ''Invalid quote amount required by engine!'')
        (ensure (d_eq D withdrawing_base base_required) (Msg ''Invalid base amount required by engine!'')
        (ensure (\<not> d_le D withdrawing_quote quote_free) (Msg ''Enough quote available but still denied by engine!'')
        (ensure (\<not> d_le D withdrawing_base base_free)
          (Msg ''Enough base balance available but still denied by engine!'')
        (Inr (engine_message, s))))))))
    | _ \<Rightarrow> Inl (Msg ''Invalid engine message'')))))"

definition import_force_close :: "('d, 't) worker_env \<Rightarrow> 'd TradingPairConfig \<Rightarrow> account \<Rightarrow> 't OffchainState \<Rightarrow>
    ow_error + ('d EgressMessages \<times> 't OffchainState)" where
  "import_force_close E market pool s =
    bind_res (get_balance E s pool (base_asset market)) (\<lambda>(base_balance, s).
    bind_res (get_balance E s pool (quote_asset market)) (\<lambda>(quote_balance, s).
    bind_res (sub_balance E s pool (base_asset market) base_balance False) (\<lambda>(_, s).
    bind_res (sub_balance E s pool (quote_asset market) quote_balance False) (\<lambda>(_, s).
    Inr (PoolForceClosed market pool base_balance quote_balance, s)))))"

definition withdraw_fee :: "('d, 't) worker_env \<Rightarrow> (AssetId, 'd) btree \<Rightarrow> AssetId \<Rightarrow> 't OffchainState \<Rightarrow>
    ow_error + 't OffchainState" where
  "withdraw_fee E engine_fees_map asset s =
    (case bt_get engine_fees_map asset of
      None \<Rightarrow> Inr s
    | Some expected_balance \<Rightarrow>
        ensure (\<not> d_is_zero (we_dec E) expected_balance) (Msg ''InvalidTradingFeesValue'')
        (bind_res (get_balance E s (we_pot_account E) asset) (\<lambda>(balance, s).
        let balance = rounding_off (we_dec E) balance in
        ensure (d_eq (we_dec E) balance expected_balance) (Msg ''Incorrect Trading fees accounting'')
        (bind_res (sub_balance E s (we_pot_account E) asset balance True) (\<lambda>(_, s). Inr s)))))"

definition import_withdraw_fees :: "('d, 't) worker_env \<Rightarrow> ('d, 'w) ocex \<Rightarrow> 'd engine_messages \<Rightarrow> 't OffchainState \<Rightarrow>
    ow_error + ('d EgressMessages \<times> 't OffchainState)" where
  "import_withdraw_fees E chain em s =
    bind_res (ok_or (Msg ''Egress message not found for withdraw trading fees'')
      (engine_get (we_dec E) em WithdrawTradingFees)) (\<lambda>egress_msg.
    case egress_msg of
      TradingFees engine_fees_map \<Rightarrow>
        bind_res (fold_res (withdraw_fee E engine_fees_map) (st_allowlisted chain) s) (\<lambda>s.
        Inr (egress_msg, s))
    | _ \<Rightarrow> Inl (Msg ''Invalid egress message for withdraw trading fees''))"

definition verified :: "'d EgressMessages list \<Rightarrow> ow_error + ('d EgressMessages \<times> 't OffchainState) \<Rightarrow>
    ow_error + ('d EgressMessages list \<times> 't OffchainState)" where
  "verified egress r = bind_res r (\<lambda>(e, s). Inr (egress @ [e], s))"

definition import_message :: "('d, 't) worker_env \<Rightarrow> ('d, 'w) ocex \<Rightarrow> 'd engine_messages \<Rightarrow> 'd IngressMessages \<Rightarrow>
    'd EgressMessages list \<times> 't OffchainState \<Rightarrow> ow_error + ('d EgressMessages list \<times> 't OffchainState)" where
  "import_message E chain em message acc =
    (case acc of (egress, s) \<Rightarrow>
    case message of
      Deposit _ main asset amt \<Rightarrow> bind_res (add_balance E s main asset amt) (\<lambda>s. Inr (egress, s))
    | AddLiquidity market pool lp total_shares base_deposited quote_deposited \<Rightarrow>
        verified egress (import_add_liquidity E em message market pool lp total_shares base_deposited quote_deposited s)
    | RemoveLiquidity market pool lp burn_frac _ \<Rightarrow>
        verified egress (import_remove_liquidity E em message market pool lp burn_frac s)
    | ForceClosePool market pool \<Rightarrow> verified egress (import_force_close E market pool s)
    | WithdrawTradingFees \<Rightarrow> verified egress (import_withdraw_fees E chain em s)
    | NewLMPEpoch epoch \<Rightarrow> bind_res (start_new_lmp_epoch E s epoch) (\<lambda>s. Inr (egress, s))
    | _ \<Rightarrow> Inr (egress, s))"

definition import_blk :: "('d, 't) worker_env \<Rightarrow> ('d, 'w) ocex \<Rightarrow> u32 \<Rightarrow> 't OffchainState \<Rightarrow> StateInfo \<Rightarrow>
    'd engine_messages \<Rightarrow> ow_error + ('d EgressMessages list \<times> 't OffchainState \<times> StateInfo)" where
  "import_blk E chain blk s info em =
    ensure (si_last_block info = 0 \<or> blk = sat_add (si_last_block info) 1) (Msg ''BlockOutofSequence'')
    (bind_res (fold_res (import_message E chain em) (ingress_messages chain blk) ([], s)) (\<lambda>(egress, s).
     Inr (egress, s, info \<lparr> si_last_block := blk \<rparr>)))"

subsection \<open>Trades and withdrawals\<close>

definition get_fee_structure :: "('d, 't) worker_env \<Rightarrow> account \<Rightarrow> account \<Rightarrow> ('d FeeConfig \<times> 'd FeeConfig) option" where
  "get_fee_structure E maker taker = Some (default_FeeConfig (we_dec E), default_FeeConfig (we_dec E))"

definition settle_trade :: "('d, 't) worker_env \<Rightarrow> ('d, 'w) ocex \<Rightarrow> 'd Trade \<Rightarrow> 't OffchainState \<Rightarrow>
    ow_error + 't OffchainState" where
  "settle_trade E chain trade s =
    bind_res (ok_or (Msg ''TradingPairNotFound'')
      (st_trading_pairs chain (base (o_pair (t_maker trade)), quote (o_pair (t_maker trade))))) (\<lambda>config.
    bind_res (ok_or (Msg ''Fee structure not found'')
      (get_fee_structure E (o_main_account (t_maker trade)) (o_main_account (t_taker trade)))) (\<lambda>(maker_fees, taker_fees).
    process_trade E s trade config maker_fees taker_fees))"

definition trades :: "('d, 't) worker_env \<Rightarrow> ('d, 'w) ocex \<Rightarrow> 'd Trade list \<Rightarrow> 't OffchainState \<Rightarrow>
    ow_error + 't OffchainState" where
  "trades E chain ts s = fold_res (settle_trade E chain) ts s"

definition withdraw :: "('d, 't) worker_env \<Rightarrow> WithdrawalRequest \<Rightarrow> 't OffchainState \<Rightarrow> u64 \<Rightarrow>
    ow_error + ('d Withdrawal \<times> 't OffchainState)" where
  "withdraw E request s stid =
    bind_res (ok_or (Msg ''decimal conversion error'') (request_amount (we_dec E) request)) (\<lambda>amount.
    ensure (request_verify (we_crypto E) (we_codec E) request) (Msg ''SignatureVerificationFailed'')
    (bind_res (sub_balance E s (wr_main request) (request_asset request) amount True) (\<lambda>(actual_deducted, s).
    bind_res (ok_or (Msg ''Withdrawal conversion error'') (request_convert (we_dec E) request stid)) (\<lambda>withdrawal.
    Inr (withdrawal \<lparr> w_amount := actual_deducted \<rparr>, s)))))"

definition verify_batch_signature :: "('d, 't) worker_env \<Rightarrow> ('d, 'w) ocex \<Rightarrow> 'd UserActionBatch \<Rightarrow> bool" where
  "verify_batch_signature E chain batch =
    (case st_operator_key chain of
      None \<Rightarrow> False
    | Some key \<Rightarrow> batch_verify (we_crypto E) (we_codec E) batch key)"

subsection \<open>Batches\<close>

record ('d, 't) batch_run =
  br_withdrawals :: "'d Withdrawal list"
  br_egress :: "'d EgressMessages list"
  br_state :: "'t OffchainState"
  br_info :: StateInfo

definition add_withdrawal :: "('d, 't) worker_env \<Rightarrow> WithdrawalRequest \<Rightarrow> u64 \<Rightarrow> ('d, 't) batch_run \<Rightarrow>
    ow_error + ('d, 't) batch_run" where
  "add_withdrawal E request stid r =
    bind_res (withdraw E request (br_state r) stid) (\<lambda>(withdrawal, s).
    Inr (r \<lparr> br_withdrawals := br_withdrawals r @ [withdrawal], br_state := s \<rparr>))"

fun process_action :: "('d, 't) worker_env \<Rightarrow> ('d, 'w) ocex \<Rightarrow> 'd UserActions \<Rightarrow> ('d, 't) batch_run \<Rightarrow>
    ow_error + ('d, 't) batch_run" where
  "process_action E chain (UA_Trade ts) r =
    bind_res (trades E chain ts (br_state r)) (\<lambda>s. Inr (r \<lparr> br_state := s \<rparr>))"
| "process_action E chain (UA_Withdraw request) r = add_withdrawal E request 0 r"
| "process_action E chain (UA_BlockImport blk engine_messages price_oracle) r =
    bind_res (import_blk E chain blk (br_state r) (br_info r) engine_messages) (\<lambda>(verified_egress_msgs, s, info).
    Inr (r \<lparr> br_egress := br_egress r @ verified_egress_msgs @ [PriceOracle price_oracle],
             br_state := s, br_info := info \<rparr>))"
| "process_action E chain UA_Reset r = Inr r"
| "process_action E chain (UA_WithdrawV1 request stid) r = add_withdrawal E request stid r"
| "process_action E chain (UA_OneMinLMPReport _ _ _) r = Inr r"

text \<open>The trader metrics of a batch are always \<open>None\<close>: their computation is disabled.\<close>

definition process_batch :: "('d, 't) worker_env \<Rightarrow> ('d, 'w) ocex \<Rightarrow> 't OffchainState \<Rightarrow> 'd UserActionBatch \<Rightarrow>
    StateInfo \<Rightarrow> ow_error + (('d Withdrawal list \<times> 'd EgressMessages list \<times> 'd TradingPairMetricsMap option) \<times>
      't OffchainState \<times> StateInfo)" where
  "process_batch E chain s batch info =
    ensure (si_stid info < b_stid batch) (Msg ''Invalid stid'')
    (bind_res (fold_res (process_action E chain) (b_actions batch)
        \<lparr> br_withdrawals = [], br_egress = [], br_state = s, br_info = info \<rparr>) (\<lambda>r.
     Inr ((br_withdrawals r, br_egress r, None), br_state r, br_info r)))"

subsection \<open>Books with a bound on the totals\<close>

text \<open>
  \<open>bounded E tv ok val sc A b g s\<close>: well-formed books at level \<open>b\<close> in which the accounts of \<open>A\<close>
  together hold at most \<open>g a\<close> of every asset \<open>a\<close>.
\<close>

definition bounded :: "('d, 't) worker_env \<Rightarrow> ('t \<Rightarrow> bytes \<Rightarrow> bytes option) \<Rightarrow> ('t \<Rightarrow> bool) \<Rightarrow> ('d \<Rightarrow> rat) \<Rightarrow>
    nat \<Rightarrow> account set \<Rightarrow> int \<Rightarrow> (AssetId \<Rightarrow> rat) \<Rightarrow> 't OffchainState \<Rightarrow> bool" where
  "bounded E tv ok val sc A b g s \<longleftrightarrow>
    finite A \<and> b \<le> 2 ^ 96 \<and> books E tv ok val sc b s \<and> (\<forall>a. total_over (bal E tv val s) A a \<le> g a)"

definition at_asset :: "AssetId \<Rightarrow> rat \<Rightarrow> AssetId \<Rightarrow> rat" where
  "at_asset asset x a = (if a = asset then x else 0)"

definition key_laws :: "'d codec \<Rightarrow> bool" where
  "key_laws K \<longleftrightarrow> (\<forall>acc. account_key K acc \<noteq> LMP_CONFIG_KEY \<and> account_key K acc \<noteq> STATE_INFO)"

lemma books_mono: "books E tv ok val sc b s \<Longrightarrow> b \<le> b' \<Longrightarrow> books E tv ok val sc b' s"
  unfolding books_def by (meson fixed_mono order_less_le_trans)

lemma bounded_mono:
  "bounded E tv ok val sc A b g s \<Longrightarrow> b \<le> b' \<Longrightarrow> b' \<le> 2 ^ 96 \<Longrightarrow> (\<And>a. g a \<le> g' a) \<Longrightarrow>
    bounded E tv ok val sc A b' g' s"
  unfolding bounded_def by (meson books_mono order_trans)

lemma books_frame:
  assumes "books E tv ok val sc b s" and "os_inv (we_trie E) tv ok s'"
    and "\<And>acc. os_view tv s' (account_key (we_codec E) acc) = os_view tv s (account_key (we_codec E) acc)"
  shows "books E tv ok val sc b s'" and "bal E tv val s' = bal E tv val s"
proof -
  have "balances_of (we_codec E) (os_view tv s') acc = balances_of (we_codec E) (os_view tv s) acc" for acc
    by (simp add: balances_of_def assms(3))
  then show "books E tv ok val sc b s'" "bal E tv val s' = bal E tv val s"
    using assms(1,2) by (auto simp: books_def bal_def fun_eq_iff)
qed

lemma bounded_add:
  assumes "bounded E tv ok val sc A b g s" and "fixed sc c (val x)" and "b + c \<le> 2 ^ 96" and "acc \<in> A"
    and "add_balance E s acc asset x = Inr s'"
  shows "bounded E tv ok val sc A (b + c) (\<lambda>a. g a + at_asset asset (val x) a) s'"
proof -
  from assms(1) have b: "books E tv ok val sc b s" "finite A" and g: "\<And>a. total_over (bal E tv val s) A a \<le> g a"
    by (auto simp: bounded_def)
  show ?thesis
    using books.add_total [OF b(1) assms(2,3) b(2) assms(4), of asset] assms(3,5) b(2) add_right_mono [OF g]
    by (auto simp: bounded_def at_asset_def near_below_def g intro: order_trans)
qed

lemma bounded_sub:
  assumes "bounded E tv ok val sc A b g s" and "fixed sc c (val x)" and "acc \<in> A"
    and "sub_balance E s acc asset x w = Inr (y, s')"
  shows "bounded E tv ok val sc A b (\<lambda>a. g a - at_asset asset (val y) a) s'"
    and "\<not> w \<or> val x \<le> bal E tv val s acc asset \<Longrightarrow> y = x"
proof -
  from assms(1) have b: "books E tv ok val sc b s" "b \<le> 2 ^ 96" "finite A"
    and g: "\<And>a. total_over (bal E tv val s) A a \<le> g a"
    by (auto simp: bounded_def)
  have le: "total_over (bal E tv val s) A asset - val y \<le> g asset - val y"
    using g [of asset] by simp
  show "bounded E tv ok val sc A b (\<lambda>a. g a - at_asset asset (val y) a) s'"
    using books.sub_total(1-3) [OF b(1) assms(2) b(2,3) assms(3,4)] b(2,3) order_trans [OF _ le]
    by (auto simp: bounded_def at_asset_def near_below_def g)
  show "\<not> w \<or> val x \<le> bal E tv val s acc asset \<Longrightarrow> y = x"
    using sub_balance_core [OF b(1) assms(2) b(2) assms(4)] by (auto split: if_splits)
qed

lemma bounded_get:
  assumes "bounded E tv ok val sc A b g s" and "get_balance E s acc asset = Inr (x, s')"
  shows "bounded E tv ok val sc A b g s'" and "fixed sc b (val x)" and "val x = bal E tv val s acc asset"
    and "bal E tv val s' = bal E tv val s"
proof -
  from assms have "books E tv ok val sc b s" by (simp add: bounded_def)
  from get_balance_spec [OF this, of acc asset] assms(2) have r: "val x = bal E tv val s acc asset"
      "fixed sc b (val x)" "books E tv ok val sc b s'" "os_view tv s' = os_view tv s"
    by auto
  then have same: "bal E tv val s' = bal E tv val s" by (simp add: bal_def [abs_def])
  show "bounded E tv ok val sc A b g s'" "fixed sc b (val x)" "val x = bal E tv val s acc asset"
    "bal E tv val s' = bal E tv val s"
    using assms(1) r same by (auto simp: bounded_def)
qed

lemma bounded_frame:
  assumes "bounded E tv ok val sc A b g s" and "os_inv (we_trie E) tv ok s'"
    and "\<And>acc. os_view tv s' (account_key (we_codec E) acc) = os_view tv s (account_key (we_codec E) acc)"
  shows "bounded E tv ok val sc A b g s'"
  using books_frame [of E tv ok val sc b s s'] assms by (simp add: bounded_def)

lemma bounded_insert:
  assumes "bounded E tv ok val sc A b g s" and "\<And>acc. account_key (we_codec E) acc \<noteq> k"
  shows "bounded E tv ok val sc A b g (os_insert k v s)"
proof -
  have "os_inv (we_trie E) tv ok s" using assms(1) by (auto simp: bounded_def dest: booksD)
  then show ?thesis
    using bounded_frame [OF assms(1) os_insert_inv] assms(2) by (simp add: os_insert_view)
qed

lemma bounded_os_get:
  assumes "bounded E tv ok val sc A b g s" and "os_get (we_trie E) s k = Inr (v, s')"
  shows "bounded E tv ok val sc A b g s'"
proof -
  have "os_inv (we_trie E) tv ok s" using assms(1) by (auto simp: bounded_def dest: booksD)
  with os.getD [OF assms(2) this] show ?thesis
    using bounded_frame [OF assms(1), of s'] by simp
qed

lemma bounded_new_epoch:
  assumes "bounded E tv ok val sc A b g s" and "key_laws (we_codec E)" and "start_new_lmp_epoch E s e = Inr s'"
  shows "bounded E tv ok val sc A b g s'"
proof -
  have k: "account_key (we_codec E) acc \<noteq> LMP_CONFIG_KEY" for acc
    using assms(2) by (simp add: key_laws_def)
  have store: "bounded E tv ok val sc A b g t \<Longrightarrow> bounded E tv ok val sc A b g (store_lmp_config E t c)" for t c
    unfolding store_lmp_config_def by (erule bounded_insert) (rule k)
  have get: "get_lmp_config E s n = Inr (c, t) \<Longrightarrow> bounded E tv ok val sc A b g t" for n c t
    using bounded_os_get [OF assms(1)] store
    by (auto simp: get_lmp_config_def res_simps Let_def split: option.splits if_splits)
  show ?thesis
    using assms(1,3) get store
    by (auto simp: start_new_lmp_epoch_def Let_def split: if_splits sum.splits prod.splits)
qed

lemma bounded_trade:
  assumes "bounded E tv ok val sc A b g s" and "markets_inv chain" and "settle_trade E chain t s = Inr s'"
    and "o_side (t_taker t) = get_opposite (o_side (t_maker t))"
    and "trade_in_range val sc c t (d_lit (we_dec E) (1 / 1000)) (d_lit (we_dec E) (1 / 1000))"
    and "{o_main_account (t_maker t), o_main_account (t_taker t), we_pot_account E} \<subseteq> A" and "b + 4 * c \<le> 2 ^ 96"
  shows "bounded E tv ok val sc A (b + 4 * c) g s'"
proof -
  obtain config where c: "st_trading_pairs chain (base (o_pair (t_maker t)), quote (o_pair (t_maker t))) = Some config"
    and run: "process_trade E s t config (default_FeeConfig (we_dec E)) (default_FeeConfig (we_dec E)) = Inr s'"
    using assms(3) by (auto simp: settle_trade_def get_fee_structure_def res_simps)
  have neq: "base_asset config \<noteq> quote_asset config"
    using assms(2) c by (auto simp: markets_inv_def)
  from assms(1) have b: "books E tv ok val sc b s" "finite A" and g: "\<And>a. total_over (bal E tv val s) A a \<le> g a"
    by (auto simp: bounded_def)
  note eff = process_trade_effect [OF b(1) assms(7) neq _ b(2) assms(6) run]
  have range: "trade_in_range val sc c t (maker_fraction (default_FeeConfig (we_dec E)))
      (taker_fraction (default_FeeConfig (we_dec E)))"
    using assms(5) by (simp add: default_FeeConfig_def)
  have "total_over (bal E tv val s') A a \<le> g a" for a
    using eff(2) [OF range, of a] side_delta_opposite [OF neq, of val t "o_side (t_maker t)" a] assms(4) g [of a] by simp
  then show ?thesis
    using eff(1) [OF range] assms(7) b(2) by (simp add: bounded_def)
qed

subsection \<open>What a batch adds and releases\<close>

fun deposited :: "('d \<Rightarrow> rat) \<Rightarrow> 'd IngressMessages \<Rightarrow> AssetId \<Rightarrow> rat" where
  "deposited val (Deposit _ _ asset amt) a = at_asset asset (val amt) a"
| "deposited val (AddLiquidity m _ _ _ b q) a = at_asset (base_asset m) (val b) a + at_asset (quote_asset m) (val q) a"
| "deposited val _ a = 0"

fun released :: "('d \<Rightarrow> rat) \<Rightarrow> 'd EgressMessages \<Rightarrow> AssetId \<Rightarrow> rat" where
  "released val (RemoveLiquidityResult m _ _ b q) a =
    at_asset (base_asset m) (val b) a + at_asset (quote_asset m) (val q) a"
| "released val (PoolForceClosed m _ b q) a =
    at_asset (base_asset m) (val b) a + at_asset (quote_asset m) (val q) a"
| "released val (TradingFees fees) a = (case bt_get fees a of None \<Rightarrow> 0 | Some x \<Rightarrow> val x)"
| "released val _ a = 0"

text \<open>
  Amounts that fit: the messages, engine answers and requests of a batch carry amounts below
  \<open>c\<close> units and name accounts of \<open>A\<close>; trades join opposite sides; and the engine reports fees of
  listed assets only.
\<close>

fun ingress_fits :: "('d \<Rightarrow> rat) \<Rightarrow> nat \<Rightarrow> int \<Rightarrow> account set \<Rightarrow> 'd IngressMessages \<Rightarrow> bool" where
  "ingress_fits val sc c A (Deposit _ main _ amt) = (main \<in> A \<and> fixed sc c (val amt))"
| "ingress_fits val sc c A (AddLiquidity _ pool _ _ b q) = (pool \<in> A \<and> fixed sc c (val b) \<and> fixed sc c (val q))"
| "ingress_fits val sc c A (RemoveLiquidity _ pool _ _ _) = (pool \<in> A)"
| "ingress_fits val sc c A (ForceClosePool _ pool) = (pool \<in> A)"
| "ingress_fits val sc c A _ = True"

fun egress_fits :: "('d \<Rightarrow> rat) \<Rightarrow> nat \<Rightarrow> int \<Rightarrow> AssetId list \<Rightarrow> 'd EgressMessages \<Rightarrow> bool" where
  "egress_fits val sc c assets (RemoveLiquidityResult _ _ _ b q) = (fixed sc c (val b) \<and> fixed sc c (val q))"
| "egress_fits val sc c assets (TradingFees fees) = (\<forall>(a, x)\<in>set fees. a \<in> set assets)"
| "egress_fits val sc c assets _ = True"

lemma engine_get_in: "engine_get D em msg = Some e \<Longrightarrow> e \<in> snd ` set em"
  by (auto simp: engine_get_def find_Some_iff image_iff intro!: bexI [OF _ nth_mem])

lemma bounded_add_liquidity:
  assumes "bounded E tv ok val sc A b g s" and "b + 2 * c \<le> 2 ^ 96" and "pool \<in> A" "fixed sc c (val x)" "fixed sc c (val y)"
    and "import_add_liquidity E em msg m pool lp sh x y s = Inr (e, s')"
  shows "bounded E tv ok val sc A (b + 2 * c) (\<lambda>a. g a + deposited val (AddLiquidity m pool lp sh x y) a) s'"
    and "released val e a = 0"
proof -
  have c: "0 < c" by (rule fixed_bound_pos [OF assms(4)])
  obtain s1 s2 s3 bb qb where run: "add_balance E s pool (base_asset m) x = Inr s1"
      "add_balance E s1 pool (quote_asset m) y = Inr s2" "get_balance E s2 pool (base_asset m) = Inr (bb, s3)"
      "get_balance E s3 pool (quote_asset m) = Inr (qb, s')" and e: "released val e a = 0"
    using assms(6) by (cases "engine_get (we_dec E) em msg"; cases "the (engine_get (we_dec E) em msg)")
      (auto simp: import_add_liquidity_def Let_def res_simps)
  have "bounded E tv ok val sc A (b + c) (\<lambda>a. g a + at_asset (base_asset m) (val x) a) s1"
    using bounded_add [OF assms(1,4) _ assms(3) run(1)] assms(2) c by simp
  from bounded_add [OF this assms(5) _ assms(3) run(2)]
  have "bounded E tv ok val sc A (b + 2 * c) (\<lambda>a. g a + at_asset (base_asset m) (val x) a + at_asset (quote_asset m) (val y) a) s2"
    using assms(2) by (simp add: algebra_simps)
  from bounded_get(1) [OF bounded_get(1) [OF this run(3)] run(4)]
  show "bounded E tv ok val sc A (b + 2 * c) (\<lambda>a. g a + deposited val (AddLiquidity m pool lp sh x y) a) s'"
    by (simp add: add.assoc)
  show "released val e a = 0" by (rule e)
qed

lemma bounded_two_subs:
  assumes "bounded E tv ok val sc A b g s" and "pool \<in> A" "fixed sc c (val x)" "fixed sc c' (val y)"
    and "sub_balance E s pool ax x False = Inr (x', s1)" and "sub_balance E s1 pool ay y False = Inr (y', s')"
  shows "bounded E tv ok val sc A b (\<lambda>a. g a - (at_asset ax (val x) a + at_asset ay (val y) a)) s'"
proof -
  note r1 = bounded_sub [OF assms(1,3,2,5)]
  have "bounded E tv ok val sc A b (\<lambda>a. g a - at_asset ax (val x) a) s1"
    using r1 by simp
  from bounded_sub [OF this assms(4,2,6)] show ?thesis
    by (simp add: algebra_simps)
qed

lemma bounded_remove_liquidity:
  assumes "bounded E tv ok val sc A b g s" and "pool \<in> A" and "\<forall>e\<in>snd ` set em. egress_fits val sc c assets e"
    and "import_remove_liquidity E em msg m pool lp fr s = Inr (e, s')"
  shows "bounded E tv ok val sc A b (\<lambda>a. g a - released val e a) s'"
proof -
  have D: "decimal_laws (we_dec E) val" using assms(1) by (auto simp: bounded_def dest: booksD)
  obtain bb qb s1 s2 where run: "get_balance E s pool (base_asset m) = Inr (bb, s1)"
      "get_balance E s1 pool (quote_asset m) = Inr (qb, s2)" and eng: "engine_get (we_dec E) em msg = Some e"
    and kind: "(\<exists>m' p' l' x y x' y' t. e = RemoveLiquidityResult m' p' l' x y \<and>
        d_eq (we_dec E) (d_sat_mul (we_dec E) fr qb) y \<and> d_eq (we_dec E) (d_sat_mul (we_dec E) fr bb) x \<and>
        sub_balance E s2 pool (quote_asset m') (d_sat_mul (we_dec E) fr qb) False = Inr (y', t) \<and>
        sub_balance E t pool (base_asset m') (d_sat_mul (we_dec E) fr bb) False = Inr (x', s')) \<or>
      (\<forall>a. released val e a = 0) \<and> s' = s2"
    using assms(4) by (cases "engine_get (we_dec E) em msg"; cases "the (engine_get (we_dec E) em msg)")
      (auto simp: import_remove_liquidity_def Let_def res_simps)
  have s2: "bounded E tv ok val sc A b g s2"
    by (rule bounded_get(1) [OF bounded_get(1) [OF assms(1) run(1)] run(2)])
  from kind show ?thesis
  proof (elim disjE exE conjE)
    fix m' p' l' x y x' y' t
    assume e: "e = RemoveLiquidityResult m' p' l' x y"
      and eq: "d_eq (we_dec E) (d_sat_mul (we_dec E) fr qb) y" "d_eq (we_dec E) (d_sat_mul (we_dec E) fr bb) x"
      and sub: "sub_balance E s2 pool (quote_asset m') (d_sat_mul (we_dec E) fr qb) False = Inr (y', t)"
        "sub_balance E t pool (base_asset m') (d_sat_mul (we_dec E) fr bb) False = Inr (x', s')"
    have v: "val (d_sat_mul (we_dec E) fr qb) = val y" "val (d_sat_mul (we_dec E) fr bb) = val x"
      using eq d_cmp_laws(1) [OF D] by auto
    have f: "fixed sc c (val y)" "fixed sc c (val x)"
      using bspec [OF assms(3) engine_get_in [OF eng]] e by simp_all
    show ?thesis
      using bounded_two_subs [OF s2 assms(2) _ _ sub, of c c] f by (simp add: v e add.commute)
  qed (use s2 in simp)
qed

lemma bounded_force_close:
  assumes "bounded E tv ok val sc A b g s" and "pool \<in> A" and "import_force_close E m pool s = Inr (e, s')"
  shows "bounded E tv ok val sc A b (\<lambda>a. g a - released val e a) s'"
proof -
  obtain bb qb x y s1 s2 s3 where run: "get_balance E s pool (base_asset m) = Inr (bb, s1)"
      "get_balance E s1 pool (quote_asset m) = Inr (qb, s2)"
      "sub_balance E s2 pool (base_asset m) bb False = Inr (x, s3)"
      "sub_balance E s3 pool (quote_asset m) qb False = Inr (y, s')" and e: "e = PoolForceClosed m pool bb qb"
    using assms(3) by (auto simp: import_force_close_def res_simps)
  note g1 = bounded_get [OF assms(1) run(1)]
  note g2 = bounded_get [OF g1(1) run(2)]
  show ?thesis
    using bounded_two_subs [OF g2(1) assms(2) g1(2) g2(2) run(3,4)] by (simp add: e)
qed

lemma bounded_withdraw_fee:
  assumes "bounded E tv ok val sc A b g s" and "we_pot_account E \<in> A" and "withdraw_fee E fees asset s = Inr s'"
  shows "bounded E tv ok val sc A b (\<lambda>a. g a - at_asset asset (released val (TradingFees fees) asset) a) s'"
proof (cases "bt_get fees asset")
  case None
  with assms(1,3) show ?thesis by (simp add: withdraw_fee_def at_asset_def)
next
  case (Some x)
  have D: "decimal_laws (we_dec E) val" using assms(1) by (auto simp: bounded_def dest: booksD)
  obtain y s1 z where run: "get_balance E s (we_pot_account E) asset = Inr (y, s1)"
      "sub_balance E s1 (we_pot_account E) asset (rounding_off (we_dec E) y) True = Inr (z, s')"
      "d_eq (we_dec E) (rounding_off (we_dec E) y) x"
    using assms(3) by (auto simp: withdraw_fee_def Some Let_def res_simps)
  note g = bounded_get [OF assms(1) run(1)]
  note rf = round_fixed [OF D g(2)]
  note r = bounded_sub [OF g(1) rf(1) assms(2) run(2)]
  have "z = rounding_off (we_dec E) y"
    using r(2) rf(2) g(3,4) by (simp add: near_below_def)
  then show ?thesis
    using r(1) run(3) d_cmp_laws(1) [OF D] by (simp add: Some)
qed

lemma bounded_withdraw_fees:
  assumes "bounded E tv ok val sc A b g s" and "we_pot_account E \<in> A"
    and "fold_res (withdraw_fee E fees) assets s = Inr s'" and "distinct assets"
  shows "bounded E tv ok val sc A b (\<lambda>a. g a - (if a \<in> set assets then released val (TradingFees fees) a else 0)) s'"
  using assms(1,3,4)
proof (induction assets arbitrary: g s)
  case (Cons asset assets)
  obtain s1 where run: "withdraw_fee E fees asset s = Inr s1" "fold_res (withdraw_fee E fees) assets s1 = Inr s'"
    using Cons.prems(2) by (auto simp: res_simps)
  note r = Cons.IH [OF bounded_withdraw_fee [OF Cons.prems(1) assms(2) run(1)] run(2)]
  have "(\<lambda>a. g a - at_asset asset (released val (TradingFees fees) asset) a -
      (if a \<in> set assets then released val (TradingFees fees) a else 0)) =
    (\<lambda>a. g a - (if a \<in> set (asset # assets) then released val (TradingFees fees) a else 0))"
    using Cons.prems(3) by (auto simp: at_asset_def fun_eq_iff)
  with r Cons.prems(3) show ?case by simp
qed simp

lemma bounded_fees:
  assumes "bounded E tv ok val sc A b g s" and "we_pot_account E \<in> A" and "allowlist_inv chain"
    and "\<forall>e\<in>snd ` set em. egress_fits val sc c (st_allowlisted chain) e"
    and "import_withdraw_fees E chain em s = Inr (e, s')"
  shows "bounded E tv ok val sc A b (\<lambda>a. g a - released val e a) s'"
proof -
  obtain fees where e: "e = TradingFees fees" and eng: "engine_get (we_dec E) em WithdrawTradingFees = Some e"
    and run: "fold_res (withdraw_fee E fees) (st_allowlisted chain) s = Inr s'"
    using assms(5) by (cases "engine_get (we_dec E) em WithdrawTradingFees";
        cases "the (engine_get (we_dec E) em WithdrawTradingFees)") (auto simp: import_withdraw_fees_def res_simps)
  have "distinct (st_allowlisted chain)"
    using assms(3) by (auto simp: allowlist_inv_def strict_sorted_iff)
  from bounded_withdraw_fees [OF assms(1,2) run this]
  have r: "bounded E tv ok val sc A b (\<lambda>a. g a - (if a \<in> set (st_allowlisted chain) then released val e a else 0)) s'"
    unfolding e .
  have "released val e a = 0" if "a \<notin> set (st_allowlisted chain)" for a
    using bspec [OF assms(4) engine_get_in [OF eng]] that
    by (auto simp: e bt_get_def dest: map_of_SomeD split: option.splits)
  then have "(\<lambda>a. g a - (if a \<in> set (st_allowlisted chain) then released val e a else 0)) = (\<lambda>a. g a - released val e a)"
    by (auto simp: fun_eq_iff)
  with r show ?thesis by simp
qed

lemma bounded_message:
  assumes "bounded E tv ok val sc A b g s" and "b + 2 * c \<le> 2 ^ 96" and "0 < c"
    and "key_laws (we_codec E)" "allowlist_inv chain" "we_pot_account E \<in> A"
    and "ingress_fits val sc c A msg" "\<forall>e\<in>snd ` set em. egress_fits val sc c (st_allowlisted chain) e"
    and "import_message E chain em msg (egress, s) = Inr (egress', s')"
  shows "\<exists>new. egress' = egress @ new \<and>
    bounded E tv ok val sc A (b + 2 * c) (\<lambda>a. g a + deposited val msg a - (\<Sum>e\<leftarrow>new. released val e a)) s'"
proof -
  have up: "bounded E tv ok val sc A b' g' t \<Longrightarrow> b' \<le> b + 2 * c \<Longrightarrow> bounded E tv ok val sc A (b + 2 * c) g' t" for b' g' t
    using bounded_mono [of E tv ok val sc A b' g' t "b + 2 * c" g'] assms(2) by simp
  have one: "(\<Sum>e\<leftarrow>[x]. released val e a) = released val x a" for x a by simp
  have keep: ?thesis if "bounded E tv ok val sc A b (\<lambda>a. g a - released val e a) s'" "egress' = egress @ [e]"
    "\<And>a. deposited val msg a = 0" for e
    using up [OF that(1)] assms(3) that(2,3) by (intro exI [of _ "[e]"]) simp
  have same: ?thesis if "bounded E tv ok val sc A b g s'" "egress' = egress" "\<And>a. deposited val msg a = 0"
    using up [OF that(1)] assms(3) that(2,3) by (intro exI [of _ "[]"]) simp
  show ?thesis
  proof (cases msg)
    case (Deposit i main asset amt)
    then have "add_balance E s main asset amt = Inr s'" "egress' = egress" "main \<in> A" "fixed sc c (val amt)"
      using assms(7,9) by (auto simp: import_message_def res_simps)
    then show ?thesis
      using up [OF bounded_add [OF assms(1)]] assms(2,3) by (intro exI [of _ "[]"]) (simp add: Deposit)
  next
    case (AddLiquidity m pool lp sh x y)
    then obtain e where "import_add_liquidity E em msg m pool lp sh x y s = Inr (e, s')" "egress' = egress @ [e]"
      "pool \<in> A" "fixed sc c (val x)" "fixed sc c (val y)"
      using assms(7,9) by (auto simp: import_message_def verified_def res_simps)
    note e = this
    show ?thesis
      using bounded_add_liquidity [OF assms(1,2) e(3-5,1)] e(2) by (intro exI [of _ "[e]"]) (simp add: AddLiquidity)
  next
    case (RemoveLiquidity m pool lp fr sh)
    then obtain e where "import_remove_liquidity E em msg m pool lp fr s = Inr (e, s')" "egress' = egress @ [e]" "pool \<in> A"
      using assms(7,9) by (auto simp: import_message_def verified_def res_simps)
    then show ?thesis
      using keep bounded_remove_liquidity [OF assms(1) _ assms(8)] RemoveLiquidity by simp
  next
    case (ForceClosePool m pool)
    then obtain e where "import_force_close E m pool s = Inr (e, s')" "egress' = egress @ [e]" "pool \<in> A"
      using assms(7,9) by (auto simp: import_message_def verified_def res_simps)
    then show ?thesis
      using keep bounded_force_close [OF assms(1)] ForceClosePool by simp
  next
    case WithdrawTradingFees
    then obtain e where "import_withdraw_fees E chain em s = Inr (e, s')" "egress' = egress @ [e]"
      using assms(9) by (auto simp: import_message_def verified_def res_simps)
    then show ?thesis
      using keep bounded_fees [OF assms(1,6,5,8)] WithdrawTradingFees by simp
  next
    case (NewLMPEpoch n)
    then show ?thesis
      using same bounded_new_epoch [OF assms(1,4)] assms(9) by (auto simp: import_message_def res_simps)
  qed (use same assms(1,9) in \<open>auto simp: import_message_def\<close>)
qed

lemma bounded_messages:
  assumes "bounded E tv ok val sc A b g s" and "b + 2 * c * int (length msgs) \<le> 2 ^ 96" and "0 < c"
    and "key_laws (we_codec E)" "allowlist_inv chain" "we_pot_account E \<in> A"
    and "\<forall>msg\<in>set msgs. ingress_fits val sc c A msg" "\<forall>e\<in>snd ` set em. egress_fits val sc c (st_allowlisted chain) e"
    and "fold_res (import_message E chain em) msgs (egress, s) = Inr (egress', s')"
  shows "\<exists>new. egress' = egress @ new \<and> bounded E tv ok val sc A (b + 2 * c * int (length msgs))
    (\<lambda>a. g a + (\<Sum>m\<leftarrow>msgs. deposited val m a) - (\<Sum>e\<leftarrow>new. released val e a)) s'"
  using assms(1,2,7,9)
proof (induction msgs arbitrary: b g s egress)
  case (Cons msg msgs)
  obtain egress1 s1 where run: "import_message E chain em msg (egress, s) = Inr (egress1, s1)"
      "fold_res (import_message E chain em) msgs (egress1, s1) = Inr (egress', s')"
    using Cons.prems(4) by (auto simp: res_simps)
  have len: "b + 2 * c * int (length (msg # msgs)) = b + 2 * c + 2 * c * int (length msgs)"
    by (simp add: algebra_simps)
  have le: "b + 2 * c \<le> 2 ^ 96" "b + 2 * c + 2 * c * int (length msgs) \<le> 2 ^ 96"
    using Cons.prems(2) assms(3) mult_nonneg_nonneg [of "2 * c" "int (length msgs)"] unfolding len by linarith+
  obtain new1 where n1: "egress1 = egress @ new1" "bounded E tv ok val sc A (b + 2 * c)
      (\<lambda>a. g a + deposited val msg a - (\<Sum>e\<leftarrow>new1. released val e a)) s1"
    using bounded_message [OF Cons.prems(1) le(1) assms(3-6) _ assms(8) run(1)] Cons.prems(3) by auto
  obtain new2 where "egress' = egress1 @ new2" "bounded E tv ok val sc A (b + 2 * c + 2 * c * int (length msgs))
      (\<lambda>a. g a + deposited val msg a - (\<Sum>e\<leftarrow>new1. released val e a) + (\<Sum>m\<leftarrow>msgs. deposited val m a)
        - (\<Sum>e\<leftarrow>new2. released val e a)) s'"
    using Cons.IH [OF n1(2) le(2) _ run(2)] Cons.prems(3) by auto
  then show ?case
    unfolding len by (intro exI [of _ "new1 @ new2"]) (simp add: n1(1) algebra_simps)
qed simp

fun action_cost :: "('d, 'w) ocex \<Rightarrow> 'd UserActions \<Rightarrow> nat" where
  "action_cost chain (UA_Trade ts) = 4 * length ts"
| "action_cost chain (UA_BlockImport blk _ _) = 2 * length (ingress_messages chain blk)"
| "action_cost chain _ = 0"

fun action_inflow :: "('d \<Rightarrow> rat) \<Rightarrow> ('d, 'w) ocex \<Rightarrow> 'd UserActions \<Rightarrow> AssetId \<Rightarrow> rat" where
  "action_inflow val chain (UA_BlockImport blk _ _) a = (\<Sum>m\<leftarrow>ingress_messages chain blk. deposited val m a)"
| "action_inflow val chain _ a = 0"

definition request_fits :: "('d, 't) worker_env \<Rightarrow> ('d \<Rightarrow> rat) \<Rightarrow> nat \<Rightarrow> int \<Rightarrow> account set \<Rightarrow> WithdrawalRequest \<Rightarrow> bool" where
  "request_fits E val sc c A r \<longleftrightarrow>
    wr_main r \<in> A \<and> (\<forall>x. request_amount (we_dec E) r = Some x \<longrightarrow> fixed sc c (val x))"

fun action_fits :: "('d, 't) worker_env \<Rightarrow> ('d \<Rightarrow> rat) \<Rightarrow> nat \<Rightarrow> int \<Rightarrow> account set \<Rightarrow> ('d, 'w) ocex \<Rightarrow>
    'd UserActions \<Rightarrow> bool" where
  "action_fits E val sc c A chain (UA_Trade ts) = (\<forall>t\<in>set ts.
    o_side (t_taker t) = get_opposite (o_side (t_maker t)) \<and>
    trade_in_range val sc c t (d_lit (we_dec E) (1 / 1000)) (d_lit (we_dec E) (1 / 1000)) \<and>
    {o_main_account (t_maker t), o_main_account (t_taker t)} \<subseteq> A)"
| "action_fits E val sc c A chain (UA_Withdraw r) = request_fits E val sc c A r"
| "action_fits E val sc c A chain (UA_WithdrawV1 r _) = request_fits E val sc c A r"
| "action_fits E val sc c A chain (UA_BlockImport blk em _) =
    ((\<forall>m\<in>set (ingress_messages chain blk). ingress_fits val sc c A m) \<and>
     (\<forall>e\<in>snd ` set em. egress_fits val sc c (st_allowlisted chain) e))"
| "action_fits E val sc c A chain _ = True"

definition withdrawn :: "('d \<Rightarrow> rat) \<Rightarrow> 'd Withdrawal \<Rightarrow> AssetId \<Rightarrow> rat" where
  "withdrawn val w a = at_asset (w_asset w) (val (w_amount w)) a"

lemma bounded_trades:
  assumes "bounded E tv ok val sc A b g s" and "markets_inv chain" and "fold_res (settle_trade E chain) ts s = Inr s'"
    and "action_fits E val sc c A chain (UA_Trade ts)" and "we_pot_account E \<in> A" and "0 < c"
    and "b + c * int (4 * length ts) \<le> 2 ^ 96"
  shows "bounded E tv ok val sc A (b + c * int (4 * length ts)) g s'"
  using assms(1,3,4,7)
proof (induction ts arbitrary: b s)
  case (Cons t ts)
  obtain s1 where run: "settle_trade E chain t s = Inr s1" "fold_res (settle_trade E chain) ts s1 = Inr s'"
    using Cons.prems(2) by (auto simp: res_simps)
  have len: "b + c * int (4 * length (t # ts)) = b + 4 * c + c * int (4 * length ts)"
    by (simp add: algebra_simps)
  have le: "b + 4 * c \<le> 2 ^ 96" "b + 4 * c + c * int (4 * length ts) \<le> 2 ^ 96"
    using Cons.prems(4) assms(6) mult_nonneg_nonneg [of c "int (4 * length ts)"] unfolding len by linarith+
  have "bounded E tv ok val sc A (b + 4 * c) g s1"
    using bounded_trade [OF Cons.prems(1) assms(2) run(1) _ _ _ le(1)] Cons.prems(3) assms(5) by simp
  from Cons.IH [OF this run(2) _ le(2)] Cons.prems(3) show ?case
    unfolding len by simp
qed simp

lemma bounded_withdrawal:
  assumes "bounded E tv ok val sc A b g (br_state r)" and "request_fits E val sc c A request"
    and "add_withdrawal E request stid r = Inr r'"
  shows "\<exists>w. br_withdrawals r' = br_withdrawals r @ [w] \<and> br_egress r' = br_egress r \<and>
    bounded E tv ok val sc A b (\<lambda>a. g a - withdrawn val w a) (br_state r')"
proof -
  obtain x y w s' where run: "request_amount (we_dec E) request = Some x"
      "sub_balance E (br_state r) (wr_main request) (request_asset request) x True = Inr (y, s')"
    and w: "request_convert (we_dec E) request stid = Some w"
    and r': "r' = r \<lparr> br_withdrawals := br_withdrawals r @ [w \<lparr> w_amount := y \<rparr>], br_state := s' \<rparr>"
    using assms(3) by (auto simp: add_withdrawal_def withdraw_def res_simps)
  have "w_asset w = request_asset request"
    using w by (auto simp: request_convert_def request_asset_def)
  then have "(\<lambda>a. g a - withdrawn val (w \<lparr> w_amount := y \<rparr>) a) = (\<lambda>a. g a - at_asset (request_asset request) (val y) a)"
    by (simp add: withdrawn_def)
  then show ?thesis
    using bounded_sub(1) [OF assms(1) _ _ run(2)] assms(2) run(1)
    by (intro exI [of _ "w \<lparr> w_amount := y \<rparr>"]) (auto simp: r' request_fits_def)
qed

definition chain_fits :: "('d, 't) worker_env \<Rightarrow> ('d, 'w) ocex \<Rightarrow> account set \<Rightarrow> bool" where
  "chain_fits E chain A \<longleftrightarrow>
    markets_inv chain \<and> allowlist_inv chain \<and> key_laws (we_codec E) \<and> we_pot_account E \<in> A"

lemma bounded_action:
  assumes "bounded E tv ok val sc A b g (br_state r)" and "chain_fits E chain A" and "0 < c"
    and "action_fits E val sc c A chain act" and "b + c * int (action_cost chain act) \<le> 2 ^ 96"
    and "process_action E chain act r = Inr r'"
  shows "\<exists>ws es. br_withdrawals r' = br_withdrawals r @ ws \<and> br_egress r' = br_egress r @ es \<and>
    bounded E tv ok val sc A (b + c * int (action_cost chain act))
      (\<lambda>a. g a + action_inflow val chain act a - (\<Sum>w\<leftarrow>ws. withdrawn val w a) - (\<Sum>e\<leftarrow>es. released val e a)) (br_state r')"
proof (cases act)
  case (UA_Trade ts)
  obtain s' where "fold_res (settle_trade E chain) ts (br_state r) = Inr s'" "r' = r \<lparr> br_state := s' \<rparr>"
    using assms(6) by (auto simp: UA_Trade trades_def res_simps)
  then show ?thesis
    using bounded_trades [OF assms(1) _ _ assms(4) [unfolded UA_Trade]] assms(2,3,5)
    by (intro exI [of _ "[]"]) (simp add: UA_Trade chain_fits_def)
next
  case (UA_BlockImport blk em prices)
  obtain es s' info where run: "fold_res (import_message E chain em) (ingress_messages chain blk) ([], br_state r) = Inr (es, s')"
    and r': "r' = r \<lparr> br_egress := br_egress r @ es @ [PriceOracle prices], br_state := s', br_info := info \<rparr>"
    using assms(6) by (auto simp: UA_BlockImport import_blk_def res_simps)
  have cost: "c * int (action_cost chain act) = 2 * c * int (length (ingress_messages chain blk))"
    by (simp add: UA_BlockImport)
  from bounded_messages [OF assms(1) _ assms(3) _ _ _ _ _ run] assms(2,4,5)
  have "bounded E tv ok val sc A (b + 2 * c * int (length (ingress_messages chain blk)))
      (\<lambda>a. g a + (\<Sum>m\<leftarrow>ingress_messages chain blk. deposited val m a) - (\<Sum>e\<leftarrow>es. released val e a)) s'"
    unfolding cost by (simp add: UA_BlockImport chain_fits_def)
  then show ?thesis
    unfolding cost by (intro exI [of _ "[]"] exI [of _ "es @ [PriceOracle prices]"]) (simp add: r' UA_BlockImport)
next
  case (UA_Withdraw request)
  with bounded_withdrawal [OF assms(1), of c request 0 r'] assms(4,6) obtain w where
      "br_withdrawals r' = br_withdrawals r @ [w]" "br_egress r' = br_egress r"
      "bounded E tv ok val sc A b (\<lambda>a. g a - withdrawn val w a) (br_state r')"
    by auto
  then show ?thesis
    by (intro exI [of _ "[w]"] exI [of _ "[]"]) (simp add: UA_Withdraw)
next
  case (UA_WithdrawV1 request stid)
  with bounded_withdrawal [OF assms(1), of c request stid r'] assms(4,6) obtain w where
      "br_withdrawals r' = br_withdrawals r @ [w]" "br_egress r' = br_egress r"
      "bounded E tv ok val sc A b (\<lambda>a. g a - withdrawn val w a) (br_state r')"
    by auto
  then show ?thesis
    by (intro exI [of _ "[w]"] exI [of _ "[]"]) (simp add: UA_WithdrawV1)
qed (use assms in auto)

lemma bounded_actions:
  assumes "bounded E tv ok val sc A b g (br_state r)" and "chain_fits E chain A" and "0 < c"
    and "\<forall>act\<in>set acts. action_fits E val sc c A chain act"
    and "b + c * int (\<Sum>act\<leftarrow>acts. action_cost chain act) \<le> 2 ^ 96"
    and "fold_res (process_action E chain) acts r = Inr r'"
  shows "\<exists>ws es. br_withdrawals r' = br_withdrawals r @ ws \<and> br_egress r' = br_egress r @ es \<and>
    bounded E tv ok val sc A (b + c * int (\<Sum>act\<leftarrow>acts. action_cost chain act))
      (\<lambda>a. g a + (\<Sum>act\<leftarrow>acts. action_inflow val chain act a) - (\<Sum>w\<leftarrow>ws. withdrawn val w a)
        - (\<Sum>e\<leftarrow>es. released val e a)) (br_state r')"
  using assms(1,4-6)
proof (induction acts arbitrary: b g r)
  case Nil
  then show ?case by (intro exI [of _ "[]"]) simp
next
  case (Cons act acts)
  obtain r1 where run: "process_action E chain act r = Inr r1" "fold_res (process_action E chain) acts r1 = Inr r'"
    using Cons.prems(4) by (auto simp: res_simps)
  let ?n = "c * int (action_cost chain act)" and ?m = "c * int (\<Sum>act\<leftarrow>acts. action_cost chain act)"
  have len: "b + c * int (\<Sum>act\<leftarrow>act # acts. action_cost chain act) = b + ?n + ?m"
    by (simp add: algebra_simps)
  have le: "b + ?n \<le> 2 ^ 96" "b + ?n + ?m \<le> 2 ^ 96"
    using Cons.prems(3) assms(3) mult_nonneg_nonneg [of c "int (\<Sum>act\<leftarrow>acts. action_cost chain act)"]
    unfolding len by linarith+
  obtain ws1 es1 where r1: "br_withdrawals r1 = br_withdrawals r @ ws1" "br_egress r1 = br_egress r @ es1"
      "bounded E tv ok val sc A (b + ?n) (\<lambda>a. g a + action_inflow val chain act a - (\<Sum>w\<leftarrow>ws1. withdrawn val w a)
        - (\<Sum>e\<leftarrow>es1. released val e a)) (br_state r1)"
    using bounded_action [OF Cons.prems(1) assms(2,3) _ le(1) run(1)] Cons.prems(2) by auto
  have acts: "\<forall>act\<in>set acts. action_fits E val sc c A chain act"
    using Cons.prems(2) by simp
  obtain ws2 es2 where r2: "br_withdrawals r' = br_withdrawals r1 @ ws2" "br_egress r' = br_egress r1 @ es2"
      "bounded E tv ok val sc A (b + ?n + ?m) (\<lambda>a. g a + action_inflow val chain act a - (\<Sum>w\<leftarrow>ws1. withdrawn val w a)
        - (\<Sum>e\<leftarrow>es1. released val e a) + (\<Sum>act\<leftarrow>acts. action_inflow val chain act a)
        - (\<Sum>w\<leftarrow>ws2. withdrawn val w a) - (\<Sum>e\<leftarrow>es2. released val e a)) (br_state r')"
    using Cons.IH [OF r1(3) acts le(2) run(2)] by blast
  then show ?case
    unfolding len by (intro exI [of _ "ws1 @ ws2"] exI [of _ "es1 @ es2"]) (simp add: r1(1,2) algebra_simps)
qed


subsection \<open>A concrete batch\<close>

text \<open>A block with a deposit, and a withdrawal, on a market of the sample chain.\<close>

definition sample_market_chain :: "(rat, table) ocex" where
  "sample_market_chain = sample_chain
    \<lparr> st_trading_pairs := [(Polkadex, Asset 5) \<mapsto> sample_config],
      st_ingress := [1 \<mapsto> [Deposit 0 2 Polkadex 3]] \<rparr>"

definition sample_request :: WithdrawalRequest where
  "sample_request =
    \<lparr> wr_id = 0, wr_signature = [1],
      wr_payload = \<lparr> wp_asset_id = Asset 5, wp_amount = ''2'', wp_timestamp = 0, wp_destination_network = None \<rparr>,
      wr_main = 3, wr_proxy = 3 \<rparr>"

definition sample_batch :: "rat UserActionBatch" where
  "sample_batch =
    \<lparr> b_actions = [UA_BlockImport 1 [] [], UA_Withdraw sample_request],
      b_stid = 1, b_snapshot_id = 1, b_signature = [] \<rparr>"


end
