(* ===== verification/Ocex_Worker.thy ===== *)
theory Ocex_Worker
  imports Ocex_Validator Ocex_Snapshot
begin

text \<open>
  The off-chain worker of the orderbook: \<^verbatim>\<open>run_on_chain_validation\<close> of \<^verbatim>\<open>validator.rs\<close>, the lock
  of \<^verbatim>\<open>rpc.rs\<close>, the aggregator client and the read-only views of the off-chain state. What the node
  keeps between runs is the record \<open>node_store\<close>; writes to it survive an error, so a worker
  function returns the store next to its result. Keys, signing, serialisation and the HTTP
  client are parameters.
\<close>

subsection \<open>The persistent store\<close>

record 'd node_store =
  ns_lock :: "bool option"
  ns_root :: "H256 option"
  ns_db :: node_db
  ns_summaries :: "u64 \<Rightarrow> ('d SnapshotSummary \<times> bytes \<times> u16) option"
  ns_sent :: "('d SnapshotSummary \<times> bytes \<times> u16) list"

record 'd node_env =
  ne_local_keys :: "H256 list"
  ne_is_validator :: bool
  ne_sign :: "H256 \<Rightarrow> bytes \<Rightarrow> bytes option"
  ne_json :: "bytes \<Rightarrow> u16 \<Rightarrow> bytes \<Rightarrow> string option"
  ne_batch :: "u64 \<Rightarrow> 'd UserActionBatch option"
  ne_checkpoint :: "'d ObCheckpointRaw option"

type_synonym ('d, 'a) worked = "(ow_error + 'a) \<times> 'd node_store"

text \<open>Sequencing: an error stops the run, the store stays as it is then.\<close>

definition then_run :: "('d, 'a) worked \<Rightarrow> ('a \<Rightarrow> 'd node_store \<Rightarrow> ('d, 'b) worked) \<Rightarrow> ('d, 'b) worked" where
  "then_run r f = (case r of (Inl e, n) \<Rightarrow> (Inl e, n) | (Inr x, n) \<Rightarrow> f x n)"

definition load_trie_root :: "'d node_store \<Rightarrow> H256" where
  "load_trie_root n = (case ns_root n of Some r \<Rightarrow> r | None \<Rightarrow> 0)"

definition store_trie_root :: "H256 \<Rightarrow> 'd node_store \<Rightarrow> 'd node_store" where
  "store_trie_root r n = n \<lparr> ns_root := Some r \<rparr>"

subsection \<open>The lock\<close>

definition try_lock :: "'d node_store \<Rightarrow> 'd node_store option" where
  "try_lock n = (if ns_lock n = Some True then None else Some (n \<lparr> ns_lock := Some True \<rparr>))"

fun acquire_tries :: "nat \<Rightarrow> 'd node_store \<Rightarrow> 'd node_store option" where
  "acquire_tries 0 n = None"
| "acquire_tries (Suc k) n = (case try_lock n of Some n' \<Rightarrow> Some n' | None \<Rightarrow> acquire_tries k n)"

definition acquire_offchain_lock :: "'d node_store \<Rightarrow> 'd node_store option" where
  "acquire_offchain_lock n = acquire_tries 3 n"

definition release_offchain_lock :: "'d node_store \<Rightarrow> 'd node_store" where
  "release_offchain_lock n = n \<lparr> ns_lock := Some False \<rparr>"

definition check_worker_status :: "'d node_store \<Rightarrow> bool \<times> 'd node_store" where
  "check_worker_status n = (if ns_lock n = Some True then (False, n) else (True, n \<lparr> ns_lock := Some True \<rparr>))"

subsection \<open>Keys\<close>

text \<open>
  \<^verbatim>\<open>slice::binary_search\<close> of the standard library: the base of the candidate range moves while the
  range has more than one element.
\<close>

function search_base :: "'k::linorder list \<Rightarrow> 'k \<Rightarrow> nat \<Rightarrow> nat \<Rightarrow> nat" where
  "search_base ks x lo sz =
    (if sz \<le> 1 then lo
     else let half = sz div 2; mid = lo + half in
       search_base ks x (if x < ks ! mid then lo else mid) (sz - half))"
  by pat_completeness auto

termination
  by (relation "measure (\<lambda>(ks, x, lo, sz). sz)") auto

declare search_base.simps [simp del]

definition binary_search :: "'k::linorder list \<Rightarrow> 'k \<Rightarrow> nat option" where
  "binary_search ks x =
    (if ks = [] then None
     else let lo = search_base ks x 0 (length ks) in if ks ! lo = x then Some lo else None)"

definition available_keys :: "H256 list \<Rightarrow> H256 list \<Rightarrow> H256 list" where
  "available_keys local_keys auths =
    sort (List.map_filter (\<lambda>a. map_option (\<lambda>i. local_keys ! i) (binary_search local_keys a)) auths)"

definition sat_index :: "nat \<Rightarrow> u16" where
  "sat_index i = (if i < 2 ^ 16 then word_of_nat i else - 1)"

definition calculate_signer_index :: "H256 list \<Rightarrow> H256 \<Rightarrow> nat option" where
  "calculate_signer_index auths signer = position (\<lambda>a. a = signer) auths"

subsection \<open>State info and checkpoints\<close>

definition CHECKPOINT_BLOCKS :: u64 where
  "CHECKPOINT_BLOCKS = 1260"

definition load_state_info :: "('d, 't) worker_env \<Rightarrow> 't OffchainState \<Rightarrow> ow_error + (StateInfo \<times> 't OffchainState)" where
  "load_state_info E s =
    bind_res (os_get (we_trie E) s STATE_INFO) (\<lambda>(v, s).
    Inr (case v of
        Some b \<Rightarrow> (case dec_state_info (we_codec E) b of Some info \<Rightarrow> info | None \<Rightarrow> default_StateInfo)
      | None \<Rightarrow> default_StateInfo, s))"

definition store_state_info :: "('d, 't) worker_env \<Rightarrow> StateInfo \<Rightarrow> 't OffchainState \<Rightarrow> 't OffchainState" where
  "store_state_info E info s = os_insert STATE_INFO (enc_state_info (we_codec E) info) s"

definition update_state_info :: "'d ObCheckpointRaw \<Rightarrow> StateInfo \<Rightarrow> StateInfo" where
  "update_state_info checkpoint info = info
    \<lparr> si_snapshot_id := cp_snapshot_id checkpoint, si_stid := cp_state_change_id checkpoint,
      si_last_block := cp_last_processed_block_number checkpoint \<rparr>"

definition restore_balance :: "('d, 't) worker_env \<Rightarrow> AccountAsset \<times> 'd \<Rightarrow> 't OffchainState \<Rightarrow> ow_error + 't OffchainState" where
  "restore_balance E entry s =
    (case entry of ((main, asset), balance) \<Rightarrow>
     bind_res (os_get (we_trie E) s (account_key (we_codec E) main)) (\<lambda>(v, s).
     bind_res (decode_balances (we_codec E) v) (\<lambda>balances.
     Inr (os_insert (account_key (we_codec E) main)
       (enc_balances (we_codec E) (bt_insert asset balance balances)) s))))"

definition process_checkpoint :: "('d, 't) worker_env \<Rightarrow> 'd ObCheckpointRaw \<Rightarrow> 't OffchainState \<Rightarrow> ow_error + 't OffchainState" where
  "process_checkpoint E checkpoint s = fold_res (restore_balance E) (cp_balances checkpoint) s"

subsection \<open>The aggregator\<close>

definition store_summary :: "'d SnapshotSummary \<Rightarrow> bytes \<Rightarrow> u16 \<Rightarrow> 'd node_store \<Rightarrow> 'd node_store" where
  "store_summary summary signature auth_index n =
    n \<lparr> ns_summaries := (ns_summaries n) (s_snapshot_id summary := Some (summary, signature, auth_index)) \<rparr>"

definition send_summary :: "('d, 't) worker_env \<Rightarrow> 'd node_env \<Rightarrow> 'd SnapshotSummary \<Rightarrow> bytes \<Rightarrow> u16 \<Rightarrow> 'd node_store \<Rightarrow>
    'd node_store option" where
  "send_summary E N summary signature index n =
    map_option (\<lambda>_. n \<lparr> ns_sent := ns_sent n @ [(summary, signature, index)] \<rparr>)
      (ne_json N (enc_summary (we_codec E) summary) index signature)"

definition load_signed_summary_and_send :: "('d, 't) worker_env \<Rightarrow> 'd node_env \<Rightarrow> u64 \<Rightarrow> u64 \<Rightarrow> H256 \<Rightarrow> u16 \<Rightarrow>
    'd node_store \<Rightarrow> ('d, unit) worked" where
  "load_signed_summary_and_send E N current_set_id snapshot_id signer auth_index n =
    (case ns_summaries n snapshot_id of
      None \<Rightarrow> (Inr (), n)
    | Some (summary, signature, index) \<Rightarrow>
        if s_validator_set_id summary \<noteq> current_set_id
        then (let summary = summary \<lparr> s_validator_set_id := current_set_id \<rparr> in
          case ne_sign N signer (enc_summary (we_codec E) summary) of
            None \<Rightarrow> (Inl (Msg ''Private key not found''), n)
          | Some signature \<Rightarrow>
              (Inr (), case send_summary E N summary signature auth_index n of Some n' \<Rightarrow> n' | None \<Rightarrow> n))
        else (Inr (), case send_summary E N summary signature index n of Some n' \<Rightarrow> n' | None \<Rightarrow> n))"

subsection \<open>A run of the worker\<close>

text \<open>
  A commit writes the nodes of the trie to the store. The new root is stored by a separate
  write, which the recovery from a checkpoint delays until the root is verified.
\<close>

definition commit_nodes :: "('d, 't) worker_env \<Rightarrow> 't OffchainState \<Rightarrow> 'd node_store \<Rightarrow> ('d, H256 \<times> 't OffchainState) worked" where
  "commit_nodes E s n =
    (case os_commit (we_trie E) s of
      Inl e \<Rightarrow> (Inl e, n)
    | Inr (h, s) \<Rightarrow> (Inr (h, s), n \<lparr> ns_db := tr_db (we_trie E) (os_trie s) \<rparr>))"

definition save_state :: "('d, 't) worker_env \<Rightarrow> StateInfo \<Rightarrow> 't OffchainState \<Rightarrow> 'd node_store \<Rightarrow>
    ('d, H256 \<times> 't OffchainState) worked" where
  "save_state E info s n =
    then_run (commit_nodes E (store_state_info E info s) n) (\<lambda>(h, s) n. (Inr (h, s), store_trie_root h n))"

text \<open>A panic is not caught where the source replaces an error message.\<close>

fun relabel :: "string \<Rightarrow> ow_error \<Rightarrow> ow_error" where
  "relabel m (Msg _) = Msg m"
| "relabel m Panic = Panic"

definition recover_info :: "('d, 't) worker_env \<Rightarrow> ('d, 'w) ocex \<Rightarrow> u64 \<Rightarrow> 't OffchainState \<Rightarrow> 'd node_store \<Rightarrow>
    ('d, StateInfo \<times> 't OffchainState) worked" where
  "recover_info E chain next_nonce s n =
    (case load_state_info E s of
      Inl err \<Rightarrow> (Inl err, store_trie_root 0 n)
    | Inr (info, s) \<Rightarrow>
        (case st_snapshots chain (si_snapshot_id info) of
          Some summary \<Rightarrow>
            if s_state_hash summary \<noteq> load_trie_root n then
              let reset_info = info \<lparr> si_last_block := 0, si_snapshot_id := sat_sub next_nonce CHECKPOINT_BLOCKS \<rparr>
              in (Inr (reset_info, store_state_info E reset_info s), store_trie_root 0 n)
            else (Inr (info, s), n)
        | None \<Rightarrow>
            if si_snapshot_id info \<noteq> 0 \<and> si_snapshot_id info \<noteq> next_nonce
            then (Inl (Msg ''Unable to load last processed snapshot summary from on-chain''), n)
            else (Inr (info, s), n)))"

definition restore_checkpoint :: "('d, 't) worker_env \<Rightarrow> 'd node_env \<Rightarrow> ('d, 'w) ocex \<Rightarrow> StateInfo \<Rightarrow> 'd node_store \<Rightarrow>
    ('d, u64 \<times> StateInfo \<times> 't OffchainState) worked" where
  "restore_checkpoint E N chain info n =
    (case ne_checkpoint N of
      None \<Rightarrow> (Inl (Msg ''No checkpoint found''), n)
    | Some checkpoint \<Rightarrow>
        then_run (map_err (relabel ''Sync failed'')
          (process_checkpoint E checkpoint (os_load (we_trie E) (ns_db n) 0)), n) (\<lambda>s n.
        let info = update_state_info checkpoint info in
        then_run (commit_nodes E (store_state_info E info s) n) (\<lambda>(computed_root, s) n.
        then_run (ok_or (Msg ''Snapshot not found'') (st_snapshots chain (cp_snapshot_id checkpoint)), n) (\<lambda>summary n.
        if s_state_hash summary \<noteq> computed_root then (Inl (Msg ''State root mismatch''), n)
        else (Inr (s_snapshot_id summary, info, s), store_trie_root computed_root n)))))"

definition fetch_batch :: "('d, 't) worker_env \<Rightarrow> 'd node_env \<Rightarrow> ('d, 'w) ocex \<Rightarrow> u64 \<Rightarrow>
    ow_error + 'd UserActionBatch option" where
  "fetch_batch E N chain nonce =
    (case ne_batch N nonce of
      None \<Rightarrow> Inr None
    | Some batch \<Rightarrow> ensure (verify_batch_signature E chain batch) (Msg ''Invalid batch signature'') (Inr (Some batch)))"

definition sync_batch :: "('d, 't) worker_env \<Rightarrow> ('d, 'w) ocex \<Rightarrow> 'd UserActionBatch \<Rightarrow> StateInfo \<times> 't OffchainState \<Rightarrow>
    'd node_store \<Rightarrow> ('d, StateInfo \<times> 't OffchainState) worked" where
  "sync_batch E chain batch r n =
    (case r of (info, s) \<Rightarrow>
     then_run (map_err (relabel ''Sync failed'') (process_batch E chain s batch info), n) (\<lambda>(_, s, info) n.
     let info = info \<lparr> si_stid := b_stid batch, si_snapshot_id := b_snapshot_id batch \<rparr> in
     then_run (save_state E info s n) (\<lambda>(_, s) n. (Inr (info, s), n))))"

text \<open>A missing batch ends the run with success; \<open>None\<close> stands for that return.\<close>

fun sync_batches :: "('d, 't) worker_env \<Rightarrow> 'd node_env \<Rightarrow> ('d, 'w) ocex \<Rightarrow> u64 list \<Rightarrow> StateInfo \<times> 't OffchainState \<Rightarrow>
    'd node_store \<Rightarrow> ('d, (StateInfo \<times> 't OffchainState) option) worked" where
  "sync_batches E N chain [] r n = (Inr (Some r), n)"
| "sync_batches E N chain (nonce # nonces) r n =
    then_run (fetch_batch E N chain nonce, n) (\<lambda>b n.
    case b of
      None \<Rightarrow> (Inr None, n)
    | Some batch \<Rightarrow> then_run (sync_batch E chain batch r n) (sync_batches E N chain nonces))"

definition nonces_between :: "u64 \<Rightarrow> u64 \<Rightarrow> u64 list" where
  "nonces_between lo hi = map word_of_nat [unat lo ..< unat hi]"

text \<open>
  The signed summary of the batch just processed. A request that the aggregator refuses is only
  logged.
\<close>

definition submit_summary :: "('d, 't) worker_env \<Rightarrow> 'd node_env \<Rightarrow> ('d, 'w) ocex \<Rightarrow> H256 list \<Rightarrow> 'd SnapshotSummary \<Rightarrow>
    'd node_store \<Rightarrow> ('d, unit) worked" where
  "submit_summary E N chain keys summary n =
    (case keys of
      [] \<Rightarrow> (Inl (Msg ''No active keys found''), n)
    | key # _ \<Rightarrow>
        then_run (ok_or (Msg ''Unable to calculate signer index'')
          (calculate_signer_index (vs_validators (validator_set chain)) key), n) (\<lambda>auth_index n.
        then_run (ok_or (Msg ''Private key not found'') (ne_sign N key (enc_summary (we_codec E) summary)), n) (\<lambda>signature n.
        then_run (ok_or (Msg ''ApprovedSnapshot serialization failed'')
          (send_summary E N summary signature (sat_index auth_index) n), n) (\<lambda>n _.
        (Inr (), store_summary summary signature (sat_index auth_index) n)))))"

definition resubmit_summary :: "('d, 't) worker_env \<Rightarrow> 'd node_env \<Rightarrow> ('d, 'w) ocex \<Rightarrow> H256 list \<Rightarrow> u64 \<Rightarrow>
    'd node_store \<Rightarrow> ('d, bool) worked" where
  "resubmit_summary E N chain keys next_nonce n =
    (if \<not> ne_is_validator N then (Inr True, n)
     else case keys of
       [] \<Rightarrow> (Inl (Msg ''No active keys found''), n)
     | key # _ \<Rightarrow>
         then_run (ok_or (Msg ''Unable to calculate signer index'')
           (calculate_signer_index (vs_validators (validator_set chain)) key), n) (\<lambda>auth_index n.
         then_run (load_signed_summary_and_send E N (vs_set_id (validator_set chain)) next_nonce key
           (word_of_nat auth_index) n) (\<lambda>_ n. (Inr True, n))))"

definition process_next :: "('d, 't) worker_env \<Rightarrow> 'd node_env \<Rightarrow> ('d, 'w) ocex \<Rightarrow> H256 list \<Rightarrow> u64 \<Rightarrow>
    StateInfo \<times> 't OffchainState \<Rightarrow> 'd node_store \<Rightarrow> ('d, bool) worked" where
  "process_next E N chain keys next_nonce r n =
    (case r of (info, s) \<Rightarrow>
     then_run (fetch_batch E N chain next_nonce, n) (\<lambda>b n.
     case b of
       None \<Rightarrow> then_run (save_state E (info \<lparr> si_snapshot_id := sat_sub next_nonce 1 \<rparr>) s n) (\<lambda>_ n. (Inr True, n))
     | Some batch \<Rightarrow>
         then_run (process_batch E chain s batch info, n) (\<lambda>((withdrawals, egress_messages, trader_metrics), s, info) n.
         let info = info \<lparr> si_stid := b_stid batch, si_snapshot_id := b_snapshot_id batch \<rparr> in
         then_run (save_state E info s n) (\<lambda>(state_hash, _) n.
         if \<not> ne_is_validator N then (Inr True, n)
         else then_run (submit_summary E N chain keys
           \<lparr> s_validator_set_id = st_validator_set_id chain, s_snapshot_id = next_nonce, s_state_hash = state_hash,
             s_state_change_id = b_stid batch, s_last_processed_blk = si_last_block info,
             s_withdrawals = withdrawals, s_egress_messages = egress_messages, s_trader_metrics = trader_metrics \<rparr> n)
           (\<lambda>_ n. (Inr True, n))))))"

text \<open>Once the lock is held: recovery, resubmission, the checkpoint, the missing batches, the next batch.\<close>

definition catch_up :: "('d, 't) worker_env \<Rightarrow> 'd node_env \<Rightarrow> ('d, 'w) ocex \<Rightarrow> u64 \<Rightarrow> StateInfo \<times> 't OffchainState \<Rightarrow>
    'd node_store \<Rightarrow> ('d, (StateInfo \<times> 't OffchainState) option) worked" where
  "catch_up E N chain next_nonce r n =
    (case r of (info, s) \<Rightarrow>
     then_run (if CHECKPOINT_BLOCKS \<le> sat_sub next_nonce (si_snapshot_id info)
       then restore_checkpoint E N chain info n
       else (Inr (si_snapshot_id info, info, s), n)) (\<lambda>(last_processed_nonce, r) n.
     if 2 \<le> sat_sub next_nonce last_processed_nonce
     then sync_batches E N chain (nonces_between (sat_add last_processed_nonce 1) next_nonce) r n
     else (Inr (Some r), n)))"

definition validate_batches :: "('d, 't) worker_env \<Rightarrow> 'd node_env \<Rightarrow> ('d, 'w) ocex \<Rightarrow> H256 list \<Rightarrow>
    'd node_store \<Rightarrow> ('d, bool) worked" where
  "validate_batches E N chain keys n =
    (let next_nonce = sat_add (st_snapshot_nonce chain) 1 in
     then_run (recover_info E chain next_nonce (os_load (we_trie E) (ns_db n) (load_trie_root n)) n) (\<lambda>(info, s) n.
     let info = (if si_snapshot_id info = 0 then info \<lparr> si_last_block := 0 \<rparr> else info) in
     if si_snapshot_id info = next_nonce then resubmit_summary E N chain keys next_nonce n
     else then_run (catch_up E N chain next_nonce (info, s) n) (\<lambda>r n.
       case r of None \<Rightarrow> (Inr True, n) | Some r \<Rightarrow> process_next E N chain keys next_nonce r n)))"

definition run_on_chain_validation :: "('d, 't) worker_env \<Rightarrow> 'd node_env \<Rightarrow> ('d, 'w) ocex \<Rightarrow> 'd node_store \<Rightarrow>
    ('d, bool) worked" where
  "run_on_chain_validation E N chain n =
    (let keys = available_keys (ne_local_keys N) (vs_validators (validator_set chain)) in
     if keys = [] \<and> ne_is_validator N then (Inl (Msg ''No active keys available''), n)
     else case acquire_offchain_lock n of
       None \<Rightarrow> (Inr False, n)
     | Some n \<Rightarrow> validate_batches E N chain keys n)"

text \<open>A panic ends the worker before the last write.\<close>

definition offchain_worker :: "('d, 't) worker_env \<Rightarrow> 'd node_env \<Rightarrow> ('d, 'w) ocex \<Rightarrow> 'd node_store \<Rightarrow> 'd node_store" where
  "offchain_worker E N chain n =
    (case run_on_chain_validation E N chain n of
      (Inr False, n) \<Rightarrow> n
    | (Inl Panic, n) \<Rightarrow> n
    | (_, n) \<Rightarrow> n \<lparr> ns_lock := Some False \<rparr>)"

end
