(* ===== verification/Worker_Runs.thy ===== *)
theory Worker_Runs
  imports Ocex_Worker
begin

text \<open>
  What a run of the off-chain worker does to the store of the node: the key lookup finds exactly
  the active keys when the local keys are sorted, the lock excludes a second run, and at most one
  summary leaves the node.
\<close>

subsection \<open>Key lookup\<close>

lemma search_base_range:
  assumes "0 < sz"
  shows "lo \<le> search_base ks x lo sz \<and> search_base ks x lo sz < lo + sz"
  using assms
proof (induction ks x lo sz rule: search_base.induct)
  case (1 ks x lo sz)
  show ?case
  proof (cases "sz \<le> 1")
    case False
    then show ?thesis
      using "1.IH" [OF False refl refl] by (subst (1 2) search_base.simps) (auto simp: Let_def)
  qed (use 1 in \<open>simp add: search_base.simps\<close>)
qed

lemma search_base_finds:
  assumes "sorted ks" "lo + sz \<le> length ks" "lo \<le> i" "i < lo + sz" "ks ! i = x"
  shows "ks ! search_base ks x lo sz = x"
  using assms
proof (induction ks x lo sz arbitrary: i rule: search_base.induct)
  case (1 ks x lo sz)
  show ?case
  proof (cases "sz \<le> 1")
    case True
    then have "i = lo" using 1 by simp
    then have "ks ! lo = x" using 1 by blast
    then show ?thesis using True by (simp add: search_base.simps)
  next
    case False
    define half where "half = sz div 2"
    define mid where "mid = lo + half"
    define lo' where "lo' = (if x < ks ! mid then lo else mid)"
    have half: "0 < half" "half \<le> sz - half" "half < sz" using False by (auto simp: half_def)
    have "\<exists>j. lo' \<le> j \<and> j < lo' + (sz - half) \<and> ks ! j = x"
    proof (cases "x < ks ! mid")
      case True
      have "i < mid"
        using 1 half True sorted_nth_mono [of ks mid i] by (force simp: mid_def)
      then show ?thesis using True 1 half by (auto simp: lo'_def mid_def intro!: exI [of _ i])
    next
      case gt: False
      show ?thesis
      proof (cases "i < mid")
        case True
        have "ks ! i \<le> ks ! mid"
          using 1 half True by (intro sorted_nth_mono) (auto simp: mid_def)
        then show ?thesis using gt 1 half by (auto simp: lo'_def intro!: exI [of _ mid])
      qed (use gt 1 half in \<open>auto simp: lo'_def mid_def intro!: exI [of _ i]\<close>)
    qed
    then obtain j where "lo' \<le> j" "j < lo' + (sz - half)" "ks ! j = x" by blast
    moreover have "lo' + (sz - half) \<le> length ks" using 1 half by (auto simp: lo'_def mid_def)
    ultimately have "ks ! search_base ks x lo' (sz - half) = x"
      using "1.IH" [OF False half_def mid_def] 1 by (simp add: lo'_def)
    then show ?thesis
      unfolding lo'_def mid_def half_def using False by (subst search_base.simps) (simp add: Let_def split: if_splits)
  qed
qed

lemma binary_search_Some: "binary_search ks x = Some i \<Longrightarrow> i < length ks \<and> ks ! i = x"
  using search_base_range [of "length ks" 0 ks x] by (auto simp: binary_search_def Let_def split: if_splits)

lemma binary_search_sorted: "sorted ks \<Longrightarrow> binary_search ks x = None \<longleftrightarrow> x \<notin> set ks"
proof
  assume "sorted ks" "binary_search ks x = None"
  then show "x \<notin> set ks"
    using search_base_finds [of ks 0 "length ks" _ x] by (auto simp: binary_search_def Let_def in_set_conv_nth split: if_splits)
next
  assume "x \<notin> set ks"
  then show "binary_search ks x = None"
    using binary_search_Some [of ks x] by (cases "binary_search ks x") auto
qed

lemma available_keys_subset: "set (available_keys ks auths) \<subseteq> set ks \<inter> set auths"
proof
  fix k assume "k \<in> set (available_keys ks auths)"
  then obtain a i where "a \<in> set auths" "binary_search ks a = Some i" "k = ks ! i"
    by (auto simp: available_keys_def List.map_filter_def)
  then show "k \<in> set ks \<inter> set auths"
    using binary_search_Some [of ks a i] by auto
qed

subsection \<open>Effects on the store\<close>

text \<open>\<open>quiet n m\<close>: from \<open>n\<close> to \<open>m\<close> nothing was sent, no summary was stored and the lock was left alone.\<close>

definition quiet :: "'d node_store \<Rightarrow> 'd node_store \<Rightarrow> bool" where
  "quiet n m \<longleftrightarrow> ns_sent m = ns_sent n \<and> ns_summaries m = ns_summaries n \<and> ns_lock m = ns_lock n"

lemma then_runI:
  assumes "\<And>e m. r = (Inl e, m) \<Longrightarrow> P m" "\<And>x m. r = (Inr x, m) \<Longrightarrow> P (snd (f x m))"
  shows "P (snd (then_run r f))"
  using assms by (cases r; cases "fst r") (auto simp: then_run_def)

lemma then_run_simps [simp]:
  "then_run (Inl e, n) f = (Inl e, n)"
  "then_run (Inr x, n) f = f x n"
  by (simp_all add: then_run_def)

lemma snd_then_run_done [simp]: "snd (then_run r (\<lambda>_ n. (Inr b, n))) = snd r"
  by (rule then_runI) auto

lemma quiet_refl [simp]: "quiet n n"
  by (simp add: quiet_def)

lemma quiet_trans: "quiet n m \<Longrightarrow> quiet m l \<Longrightarrow> quiet n l"
  by (simp add: quiet_def)

lemma quiet_updates [simp]:
  "quiet n (store_trie_root r m) = quiet n m"
  "quiet n (m \<lparr> ns_db := d \<rparr>) = quiet n m"
  by (simp_all add: quiet_def store_trie_root_def)

lemma quiet_then_run:
  assumes "quiet n (snd r)" "\<And>x m. r = (Inr x, m) \<Longrightarrow> quiet m (snd (f x m))"
  shows "quiet n (snd (then_run r f))"
  by (rule then_runI) (use assms in \<open>auto intro: quiet_trans\<close>)

lemma quiet_commit_nodes: "quiet n (snd (commit_nodes E s n))"
  by (simp add: commit_nodes_def split: sum.split prod.split)

lemma quiet_save_state: "quiet n (snd (save_state E info s n))"
  unfolding save_state_def by (rule quiet_then_run) (auto simp: quiet_commit_nodes)

lemma quiet_recover_info: "quiet n (snd (recover_info E chain next_nonce s n))"
  by (auto simp: recover_info_def Let_def split: sum.split option.split)

lemma quiet_restore_checkpoint: "quiet n (snd (restore_checkpoint E N chain info n))"
  by (auto simp: restore_checkpoint_def Let_def quiet_commit_nodes intro!: quiet_then_run split: option.split prod.split)

lemma quiet_sync_batch: "quiet n (snd (sync_batch E chain batch r n))"
  by (auto simp: sync_batch_def Let_def quiet_save_state intro!: quiet_then_run split: prod.split)

lemma quiet_sync_batches: "quiet n (snd (sync_batches E N chain nonces r n))"
  by (induction nonces arbitrary: r n) (auto simp: quiet_sync_batch intro!: quiet_then_run split: option.split)

lemma quiet_catch_up: "quiet n (snd (catch_up E N chain next_nonce r n))"
  by (auto simp: catch_up_def quiet_restore_checkpoint quiet_sync_batches intro!: quiet_then_run split: prod.split)

subsection \<open>Summaries\<close>

definition summaries_keyed :: "'d node_store \<Rightarrow> bool" where
  "summaries_keyed n \<longleftrightarrow> (\<forall>i e. ns_summaries n i = Some e \<longrightarrow> s_snapshot_id (fst e) = i)"

text \<open>The signature was made with a local key of the active validator the index names.\<close>

definition signed_here :: "('d, 't) worker_env \<Rightarrow> 'd node_env \<Rightarrow> ('d, 'w) ocex \<Rightarrow> 'd SnapshotSummary \<times> bytes \<times> u16 \<Rightarrow> bool" where
  "signed_here E N chain entry =
    (case entry of (summary, signature, index) \<Rightarrow>
      let auths = vs_validators (validator_set chain) in
      unat index < length auths \<and> auths ! unat index \<in> set (ne_local_keys N) \<and>
      ne_sign N (auths ! unat index) (enc_summary (we_codec E) summary) = Some signature)"

definition emits :: "('d, 't) worker_env \<Rightarrow> 'd node_env \<Rightarrow> ('d, 'w) ocex \<Rightarrow> 'd node_store \<Rightarrow> 'd node_store \<Rightarrow> bool" where
  "emits E N chain n m \<longleftrightarrow>
    ns_lock m = ns_lock n \<and> summaries_keyed m \<and>
    (ns_sent m = ns_sent n \<or>
     (\<exists>entry. ns_sent m = ns_sent n @ [entry] \<and> ne_is_validator N \<and>
        s_snapshot_id (fst entry) = sat_add (st_snapshot_nonce chain) 1 \<and>
        s_validator_set_id (fst entry) = st_validator_set_id chain \<and>
        (ns_summaries n (sat_add (st_snapshot_nonce chain) 1) = Some entry \<or> signed_here E N chain entry)))"

definition usual_validators :: "('d, 'w) ocex \<Rightarrow> bool" where
  "usual_validators chain \<longleftrightarrow>
    length (vs_validators (validator_set chain)) < 2 ^ 16 \<and> vs_set_id (validator_set chain) = st_validator_set_id chain"

lemma quiet_emits: "quiet n m \<Longrightarrow> summaries_keyed n \<Longrightarrow> emits E N chain n m"
  by (simp add: quiet_def emits_def summaries_keyed_def)

lemma emits_after_quiet: "quiet n m \<Longrightarrow> emits E N chain m l \<Longrightarrow> emits E N chain n l"
  by (simp add: quiet_def emits_def)

lemma keyed_after_quiet: "quiet n m \<Longrightarrow> summaries_keyed n \<Longrightarrow> summaries_keyed m"
  by (simp add: quiet_def summaries_keyed_def)

lemma emits_then_run:
  assumes "summaries_keyed n" "quiet n (snd r)" "\<And>x m. r = (Inr x, m) \<Longrightarrow> summaries_keyed m \<Longrightarrow> emits E N chain m (snd (f x m))"
  shows "emits E N chain n (snd (then_run r f))"
  by (rule then_runI) (use assms in \<open>auto intro: quiet_emits emits_after_quiet keyed_after_quiet\<close>)

lemma signer_index_signed:
  assumes "calculate_signer_index (vs_validators (validator_set chain)) key = Some i" "usual_validators chain"
    "key \<in> set (ne_local_keys N)" "ne_sign N key (enc_summary (we_codec E) summary) = Some signature"
  shows "signed_here E N chain (summary, signature, word_of_nat i)" "sat_index i = word_of_nat i"
proof -
  let ?auths = "vs_validators (validator_set chain)"
  have i: "i < length ?auths" "?auths ! i = key"
    using position_Some [OF assms(1) [unfolded calculate_signer_index_def]] by auto
  then have "i < 2 ^ 16" using assms(2) by (simp add: usual_validators_def)
  then have "unat (word_of_nat i :: u16) = i" by (simp add: unat_of_nat take_bit_nat_eq_self)
  then show "signed_here E N chain (summary, signature, word_of_nat i)"
    using i assms by (simp add: signed_here_def Let_def)
  show "sat_index i = word_of_nat i" using \<open>i < 2 ^ 16\<close> by (simp add: sat_index_def)
qed

lemma send_summary_Some:
  "send_summary E N summary signature index n = Some m \<Longrightarrow> m = n \<lparr> ns_sent := ns_sent n @ [(summary, signature, index)] \<rparr>"
  by (auto simp: send_summary_def)

lemma emits_send:
  assumes "summaries_keyed n" "ne_is_validator N" "s_snapshot_id summary = sat_add (st_snapshot_nonce chain) 1"
    "s_validator_set_id summary = st_validator_set_id chain"
    "ns_summaries n (sat_add (st_snapshot_nonce chain) 1) = Some (summary, signature, index) \<or> signed_here E N chain (summary, signature, index)"
    "send_summary E N summary signature index n = Some m"
  shows "emits E N chain n m" "emits E N chain n (store_summary summary signature index m)"
  using assms send_summary_Some [OF assms(6)]
  by (auto simp: emits_def summaries_keyed_def store_summary_def)

lemma emits_submit_summary:
  assumes "summaries_keyed n" "usual_validators chain" "ne_is_validator N" "set keys \<subseteq> set (ne_local_keys N)"
    "s_snapshot_id summary = sat_add (st_snapshot_nonce chain) 1" "s_validator_set_id summary = st_validator_set_id chain"
  shows "emits E N chain n (snd (submit_summary E N chain keys summary n))"
proof (cases keys)
  case Nil
  then show ?thesis using assms by (simp add: submit_summary_def quiet_emits)
next
  case (Cons key ks)
  have "emits E N chain m (store_summary summary signature (sat_index i) m')"
    if "summaries_keyed m" "calculate_signer_index (vs_validators (validator_set chain)) key = Some i"
      "ne_sign N key (enc_summary (we_codec E) summary) = Some signature"
      "send_summary E N summary signature (sat_index i) m = Some m'" for m m' i signature
    using emits_send(2) [OF that(1) assms(3,5,6) _ that(4)] signer_index_signed [OF that(2) assms(2) _ that(3)] assms(4) Cons
    by simp
  then show ?thesis
    using assms Cons by (auto simp: submit_summary_def ok_or_def quiet_emits split: option.split)
qed

lemma emits_resubmit_summary:
  assumes "summaries_keyed n" "usual_validators chain" "set keys \<subseteq> set (ne_local_keys N)"
  shows "emits E N chain n (snd (resubmit_summary E N chain keys (sat_add (st_snapshot_nonce chain) 1) n))"
proof -
  let ?next = "sat_add (st_snapshot_nonce chain) 1"
  let ?id = "vs_set_id (validator_set chain)"
  have id: "?id = st_validator_set_id chain" using assms(2) by (simp add: usual_validators_def)
  have "emits E N chain n (snd (load_signed_summary_and_send E N ?id ?next key (word_of_nat i) n))"
    if v: "ne_is_validator N" and i: "calculate_signer_index (vs_validators (validator_set chain)) key = Some i"
      and key: "key \<in> set (ne_local_keys N)" for key i
  proof (cases "ns_summaries n ?next")
    case None
    then show ?thesis using assms by (simp add: load_signed_summary_and_send_def quiet_emits)
  next
    case (Some entry)
    obtain summary signature index where entry: "entry = (summary, signature, index)" by (cases entry)
    have sid: "s_snapshot_id summary = ?next" using Some entry assms(1) by (force simp: summaries_keyed_def)
    show ?thesis
      using Some entry assms(1) sid v id
      by (auto simp: load_signed_summary_and_send_def Let_def quiet_emits split: option.split
          intro!: emits_send(1) [rotated 5] signer_index_signed(1) [OF i assms(2) key])
  qed
  then show ?thesis
    using assms by (auto simp: resubmit_summary_def ok_or_def quiet_emits intro!: then_runI [where P = "emits E N chain n"]
        split: option.split list.split)
qed

lemma emits_process_next:
  assumes "summaries_keyed n" "usual_validators chain" "set keys \<subseteq> set (ne_local_keys N)"
  shows "emits E N chain n (snd (process_next E N chain keys (sat_add (st_snapshot_nonce chain) 1) r n))"
  unfolding process_next_def
  using assms
  by (auto simp: Let_def quiet_save_state quiet_emits emits_submit_summary intro!: emits_then_run split: prod.split option.split)

lemma emits_validate_batches:
  assumes "summaries_keyed n" "usual_validators chain" "set keys \<subseteq> set (ne_local_keys N)"
  shows "emits E N chain n (snd (validate_batches E N chain keys n))"
  unfolding validate_batches_def Let_def
  using assms
  by (auto simp: quiet_recover_info quiet_catch_up quiet_emits emits_resubmit_summary emits_process_next
      intro!: emits_then_run split: prod.split option.split)

subsection \<open>The whole run\<close>

lemma acquire_offchain_lock_simp:
  "acquire_offchain_lock n = (if ns_lock n = Some True then None else Some (n \<lparr> ns_lock := Some True \<rparr>))"
  by (simp add: acquire_offchain_lock_def try_lock_def eval_nat_numeral)

lemma keyed_relock [simp]: "summaries_keyed (n \<lparr> ns_lock := l \<rparr>) = summaries_keyed n"
  by (simp add: summaries_keyed_def)

lemma run_emits:
  assumes "summaries_keyed n" "usual_validators chain"
  shows "emits E N chain n (snd (run_on_chain_validation E N chain n) \<lparr> ns_lock := ns_lock n \<rparr>)"
proof -
  let ?keys = "available_keys (ne_local_keys N) (vs_validators (validator_set chain))"
  have "emits E N chain (n \<lparr> ns_lock := Some True \<rparr>) (snd (validate_batches E N chain ?keys (n \<lparr> ns_lock := Some True \<rparr>)))"
    using assms available_keys_subset by (intro emits_validate_batches) auto
  then show ?thesis
    using assms by (auto simp: run_on_chain_validation_def acquire_offchain_lock_simp Let_def emits_def)
qed

lemma offchain_worker_store:
  "\<exists>l. offchain_worker E N chain n = snd (run_on_chain_validation E N chain n) \<lparr> ns_lock := l \<rparr>"
proof -
  obtain r m where "run_on_chain_validation E N chain n = (r, m)" by fastforce
  then show ?thesis
    by (auto simp: offchain_worker_def split: sum.split bool.split ow_error.split intro: exI [of _ "ns_lock m"] exI [of _ "Some False"])
qed

definition lock_kept :: "'d node_store \<Rightarrow> 'd node_store \<Rightarrow> bool" where
  "lock_kept n m \<longleftrightarrow> ns_lock m = ns_lock n"

lemma lock_kept_refl [simp]: "lock_kept n n"
  by (simp add: lock_kept_def)

lemma quiet_lock: "quiet n m \<Longrightarrow> lock_kept n m"
  by (simp add: quiet_def lock_kept_def)

lemma lock_then_run:
  assumes "lock_kept n (snd r)" "\<And>x m. r = (Inr x, m) \<Longrightarrow> lock_kept m (snd (f x m))"
  shows "lock_kept n (snd (then_run r f))"
  by (rule then_runI) (use assms in \<open>auto simp: lock_kept_def\<close>)

lemma lock_send: "send_summary E N summary signature index n = Some m \<Longrightarrow> lock_kept n m"
  by (auto simp: lock_kept_def dest: send_summary_Some)

lemma lock_submit_summary: "lock_kept n (snd (submit_summary E N chain keys summary n))"
  by (auto simp: submit_summary_def ok_or_def store_summary_def lock_kept_def dest: send_summary_Some split: list.split option.split)

lemma lock_resubmit_summary: "lock_kept n (snd (resubmit_summary E N chain keys next_nonce n))"
  by (auto simp: resubmit_summary_def load_signed_summary_and_send_def ok_or_def Let_def dest: lock_send
      split: list.split option.split)

lemma lock_process_next: "lock_kept n (snd (process_next E N chain keys next_nonce r n))"
  by (auto simp: process_next_def Let_def quiet_lock quiet_save_state lock_submit_summary intro!: lock_then_run
      split: prod.split option.split)

lemma lock_validate_batches: "lock_kept n (snd (validate_batches E N chain keys n))"
  unfolding validate_batches_def Let_def
  by (auto simp: quiet_lock quiet_recover_info quiet_catch_up lock_resubmit_summary lock_process_next
      intro!: lock_then_run split: prod.split option.split)

definition completes :: "('d, bool) worked \<Rightarrow> bool" where
  "completes r \<longleftrightarrow> fst r \<noteq> Inr False"

lemma completes_pair [simp]: "completes (Inl e, n)" "completes (Inr b, n) = b"
  by (simp_all add: completes_def)

lemma completes_then_run: "(\<And>x m. completes (f x m)) \<Longrightarrow> completes (then_run r f)"
  by (cases r; cases "fst r") (auto simp: then_run_def)

lemma validate_batches_completes: "completes (validate_batches E N chain keys n)"
  unfolding validate_batches_def Let_def
  by (auto simp: resubmit_summary_def process_next_def Let_def intro!: completes_then_run split: prod.split option.split list.split)

text \<open>A node with one of two active keys, which receives the first batch.\<close>

definition sample_node :: "rat node_env" where
  "sample_node =
    \<lparr> ne_local_keys = [2, 7], ne_is_validator = True, ne_sign = (\<lambda>key msg. Some (ucast key # msg)),
      ne_json = (\<lambda>_ _ _. Some []), ne_batch = [1 \<mapsto> sample_batch \<lparr> b_actions := [UA_BlockImport 1 [] []] \<rparr>],
      ne_checkpoint = None \<rparr>"

definition sample_node_store :: "rat node_store" where
  "sample_node_store =
    \<lparr> ns_lock = None, ns_root = None, ns_db = sample_db, ns_summaries = Map.empty, ns_sent = [] \<rparr>"

definition sample_validators :: "(rat, table) ocex" where
  "sample_validators = sample_market_chain
    \<lparr> st_operator_key := Some [], st_authorities := [0 \<mapsto> \<lparr> vs_set_id = 0, vs_validators = [3, 2] \<rparr>] \<rparr>"

definition sample_read :: "(bytes, bytes) btree OffchainState" where
  "sample_read = \<lparr> os_cache = [([1, 1, 0], [0, 0, 0, 1, 1, 1, 0, 0, 1, 0])], os_trie = [], os_keys_to_remove = [] \<rparr>"

lemma sample_chain_facts:
  "vs_validators (validator_set sample_validators) = [3, 2]" "vs_set_id (validator_set sample_validators) = 0"
  "st_validator_set_id sample_validators = 0" "st_snapshot_nonce sample_validators = 0" "st_snapshots sample_validators 0 = None"
  by (simp_all add: validator_set_def authorities_def sample_validators_def sample_market_chain_def sample_chain_def init_state_def)

lemma sample_stages:
  "load_state_info sample_env (os_load (we_trie sample_env) sample_db 0) = Inr (default_StateInfo, os_load (we_trie sample_env) sample_db 0)"
  "fetch_batch sample_env sample_node sample_validators 1 = Inr (Some (sample_batch \<lparr> b_actions := [UA_BlockImport 1 [] []] \<rparr>))"
  "process_batch sample_env sample_validators (os_load (we_trie sample_env) sample_db 0)
     (sample_batch \<lparr> b_actions := [UA_BlockImport 1 [] []] \<rparr>) default_StateInfo =
     Inr (([], [PriceOracle []], None), sample_read, default_StateInfo \<lparr> si_last_block := 1 \<rparr>)"
  "map_sum id fst (os_commit (we_trie sample_env)
     (store_state_info sample_env (default_StateInfo \<lparr> si_last_block := 1, si_stid := 1, si_snapshot_id := 1 \<rparr>) sample_read)) = Inr 2"
  by code_simp+

lemma sample_run:
  "\<exists>m. run_on_chain_validation sample_env sample_node sample_validators sample_node_store = (Inr True, m) \<and>
     map fst (ns_sent m) =
       [\<lparr> s_validator_set_id = 0, s_snapshot_id = 1, s_state_hash = 2, s_state_change_id = 1, s_last_processed_blk = 1,
          s_withdrawals = [], s_egress_messages = [PriceOracle []], s_trader_metrics = None \<rparr>]"
proof -
  let ?info = "default_StateInfo \<lparr> si_last_block := 1, si_stid := 1, si_snapshot_id := 1 \<rparr>"
  obtain s where commit: "os_commit (we_trie sample_env) (store_state_info sample_env ?info sample_read) = Inr (2, s)"
    using sample_stages(4) by (cases "os_commit (we_trie sample_env) (store_state_info sample_env ?info sample_read)") auto
  have keys: "available_keys [2, 7] [3, 2] = [2]"
    by (simp add: available_keys_def List.map_filter_def binary_search_def search_base.simps Let_def)
  have batch: "b_stid sample_batch = 1" "b_snapshot_id sample_batch = 1" by (simp_all add: sample_batch_def)
  have info0: "si_snapshot_id default_StateInfo = 0" "default_StateInfo \<lparr> si_last_block := 0 \<rparr> = default_StateInfo"
    by (simp_all add: default_StateInfo_def)
  have next1: "sat_add 0 1 = (1 :: u64)" "sat_sub 1 0 = (1 :: u64)" "\<not> 2 \<le> (1 :: u64)" "\<not> 1260 \<le> (1 :: u64)"
    by code_simp+
  show ?thesis
    by (simp add: run_on_chain_validation_def acquire_offchain_lock_simp validate_batches_def recover_info_def catch_up_def
        process_next_def save_state_def commit_nodes_def submit_summary_def send_summary_def store_summary_def ok_or_def Let_def
        CHECKPOINT_BLOCKS_def load_trie_root_def store_trie_root_def calculate_signer_index_def
        sample_chain_facts sample_stages(1-3) commit keys batch info0 next1 sample_node_store_def
        sample_node_def [THEN arg_cong [where f = ne_local_keys]] sample_node_def [THEN arg_cong [where f = ne_is_validator]]
        sample_node_def [THEN arg_cong [where f = ne_sign]] sample_node_def [THEN arg_cong [where f = ne_json]])
qed

text \<open>C24: When the local keys are sorted, the keys the worker signs with, found by a binary search for
  each active validator, are exactly the validators of the active set whose key is held locally,
  in ascending order.\<close>

theorem available_keys_sorted:
  assumes "sorted ks"
  shows "available_keys ks auths = sort (filter (\<lambda>a. a \<in> set ks) auths)"
proof -
  have "map_option (\<lambda>i. ks ! i) (binary_search ks a) = (if a \<in> set ks then Some a else None)" for a
    using binary_search_sorted [OF assms, of a] binary_search_Some [of ks a] by (cases "binary_search ks a") auto
  moreover have "map (\<lambda>a. the (if a \<in> set ks then Some a else None)) (filter (\<lambda>a. a \<in> set ks) auths) = filter (\<lambda>a. a \<in> set ks) auths"
    by (rule map_idI) simp
  ultimately show ?thesis
    by (simp add: available_keys_def List.map_filter_def o_def)
qed

theorem available_keys_sorted_witness:
  "sorted [1 :: H256, 2, 5] \<and> available_keys [1, 2, 5] [5, 3, 1] = [1, 5] \<and> available_keys [2, 1] [2] = []"
proof -
  have "available_keys [1, 2, 5] [5, 3, 1] = sort (filter (\<lambda>a. a \<in> set [1, 2, 5]) [5, 3, 1])"
    by (rule available_keys_sorted) simp
  moreover have "available_keys [2, 1] [2] = []"
    by (simp add: available_keys_def List.map_filter_def binary_search_def search_base.simps Let_def)
  ultimately show ?thesis by (simp add: word_le_nat_alt)
qed

text \<open>C23: The lock of the worker. A run that finds the lock held changes nothing, except that a validator
  without an active key releases the lock it does not hold. A run that finds the lock free holds it
  to the end and leaves it released, unless it panics; then the lock stays held.\<close>

theorem worker_lock_discipline:
  "(ns_lock n = Some True \<longrightarrow> offchain_worker E N chain n =
     (if available_keys (ne_local_keys N) (vs_validators (validator_set chain)) = [] \<and> ne_is_validator N
      then n \<lparr> ns_lock := Some False \<rparr> else n)) \<and>
   (ns_lock n \<noteq> Some True \<and> (available_keys (ne_local_keys N) (vs_validators (validator_set chain)) \<noteq> [] \<or> \<not> ne_is_validator N) \<longrightarrow>
     ns_lock (offchain_worker E N chain n) = Some (fst (run_on_chain_validation E N chain n) = Inl Panic))"
proof -
  let ?keys = "available_keys (ne_local_keys N) (vs_validators (validator_set chain))"
  let ?n = "n \<lparr> ns_lock := Some True \<rparr>"
  obtain r m where run: "validate_batches E N chain ?keys ?n = (r, m)" by fastforce
  then have "ns_lock m = Some True" "r \<noteq> Inr False"
    using lock_validate_batches [of ?n E N chain ?keys] validate_batches_completes [of E N chain ?keys ?n]
    by (auto simp: lock_kept_def completes_def)
  then show ?thesis
    using run by (auto simp: offchain_worker_def run_on_chain_validation_def acquire_offchain_lock_simp Let_def
        split: sum.split bool.split ow_error.split)
qed

theorem worker_lock_discipline_witness:
  "offchain_worker sample_env (sample_node \<lparr> ne_local_keys := [2, 1] \<rparr>) sample_validators (sample_node_store \<lparr> ns_lock := Some True \<rparr>) =
     sample_node_store \<lparr> ns_lock := Some False \<rparr> \<and>
   offchain_worker sample_env sample_node sample_validators (sample_node_store \<lparr> ns_lock := Some True \<rparr>) =
     sample_node_store \<lparr> ns_lock := Some True \<rparr> \<and>
   ns_lock (offchain_worker sample_env sample_node sample_validators sample_node_store) = Some False"
proof -
  have missed: "available_keys [2, 1] [3, 2] = []" and found: "available_keys [2, 7] [3, 2] = [2]"
    by (simp_all add: available_keys_def List.map_filter_def binary_search_def search_base.simps Let_def)
  have "fst (run_on_chain_validation sample_env sample_node sample_validators sample_node_store) = Inr True"
    using sample_run by auto
  then show ?thesis
    using worker_lock_discipline [of "sample_node_store \<lparr> ns_lock := Some True \<rparr>" sample_env "sample_node \<lparr> ne_local_keys := [2, 1] \<rparr>" sample_validators]
      worker_lock_discipline [of "sample_node_store \<lparr> ns_lock := Some True \<rparr>" sample_env sample_node sample_validators]
      worker_lock_discipline [of sample_node_store sample_env sample_node sample_validators] missed found
    by (simp add: sample_node_def sample_node_store_def sample_chain_facts)
qed

text \<open>C22: A run of the worker sends at most one summary. It belongs to the snapshot after the last one on
  chain and to the active validator set, and its signature was made with a local key of the
  validator its index names, unless it is the entry stored for that snapshot by an earlier run, which is sent again.
  The stored summaries stay filed under their own snapshot numbers.\<close>

theorem worker_sends_one_summary:
  assumes "summaries_keyed n" "usual_validators chain"
  shows "summaries_keyed (offchain_worker E N chain n) \<and>
    (ns_sent (offchain_worker E N chain n) = ns_sent n \<or>
     (\<exists>entry. ns_sent (offchain_worker E N chain n) = ns_sent n @ [entry] \<and> ne_is_validator N \<and>
        s_snapshot_id (fst entry) = sat_add (st_snapshot_nonce chain) 1 \<and>
        s_validator_set_id (fst entry) = st_validator_set_id chain \<and>
        (ns_summaries n (sat_add (st_snapshot_nonce chain) 1) = Some entry \<or> signed_here E N chain entry)))"
proof -
  obtain l where "offchain_worker E N chain n = snd (run_on_chain_validation E N chain n) \<lparr> ns_lock := l \<rparr>"
    using offchain_worker_store by blast
  then show ?thesis
    using run_emits [OF assms, of E N] by (auto simp: emits_def)
qed

theorem worker_sends_one_summary_witness:
  "\<exists>entry. ns_sent (offchain_worker sample_env sample_node sample_validators sample_node_store) = [entry] \<and>
     s_snapshot_id (fst entry) = 1 \<and> signed_here sample_env sample_node sample_validators entry"
proof -
  have "summaries_keyed sample_node_store" "usual_validators sample_validators"
    by (simp_all add: summaries_keyed_def sample_node_store_def usual_validators_def sample_chain_facts)
  moreover have "map fst (ns_sent (offchain_worker sample_env sample_node sample_validators sample_node_store)) \<noteq> []"
    using sample_run by (auto simp: offchain_worker_def)
  ultimately show ?thesis
    using worker_sends_one_summary [of sample_node_store sample_validators sample_env sample_node]
    by (auto simp: sample_node_store_def sample_chain_facts sat_add_def)
qed

end
