(* ===== verification/Ocex_Views.thy ===== *)
theory Ocex_Views
  imports Ocex_Worker
begin

text \<open>
  The read-only views of the orderbook's off-chain state: the balances and state info behind the
  RPC calls, the recovery state and the checkpoint a node serves (\<^verbatim>\<open>lib.rs\<close>), the metrics of
  traders and the deviation between the on-chain custody and the off-chain books (\<^verbatim>\<open>rpc.rs\<close>).
  The order in which a storage map is iterated is unspecified: it is the argument \<open>order\<close>.
\<close>

fun to_dispatch :: "ow_error \<Rightarrow> dispatch_error" where
  "to_dispatch (Msg m) = Other m"
| "to_dispatch Panic = Panicked"

definition loaded :: "('d, 't) worker_env \<Rightarrow> 'd node_store \<Rightarrow> 't OffchainState" where
  "loaded E n = os_load (we_trie E) (ns_db n) (load_trie_root n)"

subsection \<open>Balances and state info\<close>

definition get_offchain_balance :: "('d, 't) worker_env \<Rightarrow> 'd node_store \<Rightarrow> account \<Rightarrow> ow_error + (AssetId, 'd) btree" where
  "get_offchain_balance E n acc =
    bind_res (map_err map_trie_error
      (tr_get (we_trie E) (get_state_trie (we_trie E) (ns_db n) (load_trie_root n)) (account_key (we_codec E) acc)))
      (decode_balances (we_codec E))"

definition get_state_info :: "('d, 't) worker_env \<Rightarrow> 'd node_store \<Rightarrow> ow_error + StateInfo" where
  "get_state_info E n = bind_res (load_state_info E (loaded E n)) (\<lambda>(info, _). Inr info)"

definition get_balances :: "('d, 't) worker_env \<Rightarrow> 't OffchainState \<Rightarrow> account \<Rightarrow>
    ow_error + ((AssetId, 'd) btree \<times> 't OffchainState)" where
  "get_balances E s acc =
    bind_res (os_get (we_trie E) s (account_key (we_codec E) acc)) (\<lambda>(v, s).
    bind_res (decode_balances (we_codec E) v) (\<lambda>balances. Inr (balances, s)))"

text \<open>The account types of the runtime and of the primitives have the same encoding.\<close>

definition transform_account :: "account \<Rightarrow> dispatch_error + account" where
  "transform_account acc = Inr acc"

definition rpc_get_balance :: "('d, 't) worker_env \<Rightarrow> 'd node_store \<Rightarrow> account \<Rightarrow> AssetId \<Rightarrow> dispatch_error + 'd" where
  "rpc_get_balance E n acc asset =
    bind_res (transform_account acc) (\<lambda>acc.
    Inr (case get_offchain_balance E n acc of
        Inl _ \<Rightarrow> d_zero (we_dec E)
      | Inr balances \<Rightarrow> (case bt_get balances asset of None \<Rightarrow> d_zero (we_dec E) | Some x \<Rightarrow> x)))"

subsection \<open>Recovery state and checkpoints\<close>

definition collect_balances :: "('d, 't) worker_env \<Rightarrow> 'd node_store \<Rightarrow> account \<Rightarrow> (AccountAsset, 'd) btree \<Rightarrow>
    dispatch_error + (AccountAsset, 'd) btree" where
  "collect_balances E n acc balances =
    bind_res (transform_account acc) (\<lambda>main.
    bind_res (map_err to_dispatch (get_offchain_balance E n main)) (\<lambda>b.
    Inr (fold (\<lambda>(asset, balance). bt_insert (main, asset) balance) b balances)))"

definition proxies_of :: "('d, 'w) ocex \<Rightarrow> account \<Rightarrow> account list" where
  "proxies_of chain acc = (case st_accounts chain acc of None \<Rightarrow> [] | Some info \<Rightarrow> a_proxies info)"

definition recover_account :: "('d, 't) worker_env \<Rightarrow> 'd node_store \<Rightarrow> account \<times> account list \<Rightarrow>
    (account, account list) btree \<times> (AccountAsset, 'd) btree \<Rightarrow>
    dispatch_error + ((account, account list) btree \<times> (AccountAsset, 'd) btree)" where
  "recover_account E n entry acc =
    (case (entry, acc) of ((main, ps), (account_ids, balances)) \<Rightarrow>
     bind_res (collect_balances E n main balances) (\<lambda>balances.
     Inr (bt_insert main ps account_ids, balances)))"

definition get_ob_recover_state :: "('d, 't) worker_env \<Rightarrow> ('d, 'w) config \<Rightarrow> ('d, 'w) ocex \<Rightarrow> account list \<Rightarrow>
    'd node_store \<Rightarrow> dispatch_error + 'd ObRecoveryState" where
  "get_ob_recover_state E cfg chain order n =
    bind_res (fold_res (recover_account E n)
      (map (\<lambda>acc. (acc, proxies_of chain acc)) order @ map (\<lambda>acc. (acc, [])) (get_system_accounts cfg)) ([], []))
      (\<lambda>(account_ids, balances).
    bind_res (map_err (\<lambda>_. Corruption) (get_state_info E n)) (\<lambda>info.
    Inr \<lparr> rs_snapshot_id = si_snapshot_id info, rs_account_ids = account_ids, rs_balances = balances,
      rs_last_processed_block_number = si_last_block info, rs_state_change_id = si_stid info,
      rs_worker_nonce = si_worker_nonce info \<rparr>))"

definition fetch_checkpoint :: "('d, 't) worker_env \<Rightarrow> ('d, 'w) config \<Rightarrow> account list \<Rightarrow> 'd node_store \<Rightarrow>
    dispatch_error + 'd ObCheckpointRaw" where
  "fetch_checkpoint E cfg order n =
    bind_res (fold_res (collect_balances E n) (order @ [c_pot_account cfg]) []) (\<lambda>balances.
    bind_res (map_err (\<lambda>_. Corruption) (get_state_info E n)) (\<lambda>info.
    Inr \<lparr> cp_snapshot_id = si_snapshot_id info, cp_balances = balances,
      cp_last_processed_block_number = si_last_block info, cp_state_change_id = si_stid info \<rparr>))"

subsection \<open>Metrics of traders\<close>

text \<open>A failed read counts as zero; a panic is not caught.\<close>

definition read_or_zero :: "('d, 't) worker_env \<Rightarrow> 't OffchainState \<Rightarrow> ow_error + ('d \<times> 't OffchainState) \<Rightarrow>
    ow_error + ('d \<times> 't OffchainState)" where
  "read_or_zero E s r = (case r of Inl (Msg _) \<Rightarrow> Inr (d_zero (we_dec E), s) | _ \<Rightarrow> r)"

definition get_fees_paid_by_user_per_epoch :: "('d, 't) worker_env \<Rightarrow> 'd node_store \<Rightarrow> u32 \<Rightarrow> TradingPair \<Rightarrow> account \<Rightarrow>
    ow_error + 'd" where
  "get_fees_paid_by_user_per_epoch E n epoch market main =
    bind_res (read_or_zero E (loaded E n)
      (get_fees_paid_by_main_account_in_quote E (loaded E n) (sat_into epoch) market main)) (\<lambda>(x, _). Inr x)"

definition get_volume_by_user_per_epoch :: "('d, 't) worker_env \<Rightarrow> 'd node_store \<Rightarrow> u32 \<Rightarrow> TradingPair \<Rightarrow> account \<Rightarrow>
    ow_error + 'd" where
  "get_volume_by_user_per_epoch E n epoch market main =
    bind_res (read_or_zero E (loaded E n)
      (get_trade_volume_by_main_account E (loaded E n) (sat_into epoch) market main)) (\<lambda>(x, _). Inr x)"

definition get_trader_metrics_inner :: "('d, 't) worker_env \<Rightarrow> ('d, 'w) ocex \<Rightarrow> 't OffchainState \<Rightarrow> TradingPair \<Rightarrow> account \<Rightarrow>
    u16 \<Rightarrow> ow_error + (('d \<times> 'd \<times> bool) \<times> 't OffchainState)" where
  "get_trader_metrics_inner E chain s market main epoch =
    (if epoch \<le> st_lmp_epoch chain then
       bind_res (read_or_zero E s (compute_score E s main market epoch)) (\<lambda>(current_score, s).
       bind_res (read_or_zero E s (get_fees_paid_by_main_account_in_quote E s epoch market main)) (\<lambda>(fees_paid, s).
       Inr ((current_score, fees_paid,
         case st_trader_metrics chain (epoch, market, main) of None \<Rightarrow> False | Some (_, _, c) \<Rightarrow> c), s)))
     else Inr ((d_zero (we_dec E), d_zero (we_dec E), False), s))"

definition get_trader_metrics :: "('d, 't) worker_env \<Rightarrow> ('d, 'w) ocex \<Rightarrow> 'd node_store \<Rightarrow> u16 \<Rightarrow> TradingPair \<Rightarrow> account \<Rightarrow>
    ow_error + ('d \<times> 'd \<times> bool)" where
  "get_trader_metrics E chain n epoch market main =
    bind_res (get_trader_metrics_inner E chain (loaded E n) market main epoch) (\<lambda>(m, _). Inr m)"

definition get_total_score :: "('d, 't) worker_env \<Rightarrow> ('d, 'w) ocex \<Rightarrow> account list \<Rightarrow> 'd node_store \<Rightarrow> u16 \<Rightarrow> TradingPair \<Rightarrow>
    ow_error + ('d \<times> 'd)" where
  "get_total_score E chain order n epoch market =
    bind_res (fold_res (\<lambda>main ((total_score, total_trading_fees), s).
        bind_res (get_trader_metrics_inner E chain s market main epoch) (\<lambda>((score, fees, _), s).
        Inr ((d_sat_add (we_dec E) total_score score, d_sat_add (we_dec E) total_trading_fees fees), s)))
      order ((d_zero (we_dec E), d_zero (we_dec E)), loaded E n)) (\<lambda>(totals, _). Inr totals)"

subsection \<open>The inventory\<close>

definition accrue :: "'d decimal_ops \<Rightarrow> AssetId \<Rightarrow> 'd \<Rightarrow> (AssetId, 'd) btree \<Rightarrow> (AssetId, 'd) btree" where
  "accrue D asset x = bt_entry asset (\<lambda>total. d_sat_add D total x) x"

definition offchain_inventory :: "('d, 't) worker_env \<Rightarrow> account list \<Rightarrow> 't OffchainState \<Rightarrow>
    ow_error + ((AssetId, 'd) btree \<times> 't OffchainState)" where
  "offchain_inventory E order s =
    fold_res (\<lambda>main (inventory, s).
      bind_res (get_balances E s main) (\<lambda>(balances, s).
      Inr (fold (\<lambda>(asset, balance). accrue (we_dec E) asset balance) balances inventory, s))) order ([], s)"

definition onchain_inventory :: "('d, 'w) config \<Rightarrow> ('d, 'w) ocex \<Rightarrow> ow_error + (AssetId, 'd) btree" where
  "onchain_inventory cfg chain =
    fold_res (\<lambda>asset inventory.
      bind_res (ok_or Panic (get_onchain_balance cfg asset chain)) (\<lambda>x.
      Inr (accrue (c_dec cfg) asset x inventory))) (st_allowlisted chain) []"

fun accrue_deposit :: "'d decimal_ops \<Rightarrow> 'd IngressMessages \<Rightarrow> (AssetId, 'd) btree \<Rightarrow> (AssetId, 'd) btree" where
  "accrue_deposit D (Deposit _ _ asset amt) inventory = accrue D asset amt inventory"
| "accrue_deposit D _ inventory = inventory"

definition pending_blocks :: "u32 \<Rightarrow> u32 \<Rightarrow> u32 list" where
  "pending_blocks last_blk current_blk =
    (if last_blk < current_blk then map word_of_nat [unat (sat_add last_blk 1) ..< Suc (unat current_blk)] else [])"

definition calculate_inventory_deviation :: "('d, 't) worker_env \<Rightarrow> ('d, 'w) config \<Rightarrow> ('d, 'w) ocex \<Rightarrow> account list \<Rightarrow>
    'd node_store \<Rightarrow> dispatch_error + (AssetId, 'd) btree" where
  "calculate_inventory_deviation E cfg chain order n =
    map_err to_dispatch
    (bind_res (load_state_info E (loaded E n)) (\<lambda>(info, s).
     bind_res (offchain_inventory E order s) (\<lambda>(offchain, s).
     bind_res (onchain_inventory cfg chain) (\<lambda>onchain.
     let onchain = fold (accrue_deposit (c_dec cfg))
           (concat (map (ingress_messages chain) (pending_blocks (si_last_block info) (st_now chain)))) onchain;
         amount = (\<lambda>m asset. case bt_get m asset of None \<Rightarrow> d_zero (c_dec cfg) | Some x \<Rightarrow> x)
     in Inr (fold (\<lambda>asset. bt_insert asset (d_sat_sub (c_dec cfg) (amount onchain asset) (amount offchain asset)))
       (st_allowlisted chain) [])))))"

end
