(* ===== verification/Frame.thy ===== *)
theory Frame
  imports Ocex_Types
begin

text \<open>
  What the smaller pallets use of the FRAME runtime library: the errors of a dispatchable, the
  origin checks, and the tables of a double storage map.
\<close>

text \<open>
  \<^verbatim>\<open>DispatchError\<close> of a pallet with error enum \<open>'e\<close>: its own error, \<^verbatim>\<open>BadOrigin\<close>, or an error
  another pallet returned, which is a number or a static message.
\<close>

datatype foreign_error = ForeignCode nat | ForeignMessage string

datatype 'e fault = Fault 'e | NotAllowed | Foreign foreign_error

fun signed_by :: "origin \<Rightarrow> 'e fault + account" where
  "signed_by (Signed a) = Inr a"
| "signed_by _ = Inl NotAllowed"

fun by_root :: "origin \<Rightarrow> 'e fault + unit" where
  "by_root Root = Inr ()"
| "by_root _ = Inl NotAllowed"

fun by_none :: "origin \<Rightarrow> 'e fault + unit" where
  "by_none Unsigned = Inr ()"
| "by_none _ = Inl NotAllowed"

lemma origin_checks [res_simps]:
  "signed_by orig = Inr a \<longleftrightarrow> orig = Signed a"
  "by_root orig = Inr u \<longleftrightarrow> orig = Root"
  "by_none orig = Inr u \<longleftrightarrow> orig = Unsigned"
  by (cases orig; simp)+

text \<open>Insertion into and removal from a \<^verbatim>\<open>StorageDoubleMap\<close>.\<close>

definition put2 :: "'a \<Rightarrow> 'b \<Rightarrow> 'v option \<Rightarrow> ('a \<Rightarrow> 'b \<Rightarrow> 'v option) \<Rightarrow> 'a \<Rightarrow> 'b \<Rightarrow> 'v option" where
  "put2 a b v t = t (a := (t a) (b := v))"

lemma put2_apply: "put2 a b v t a' b' = (if a' = a \<and> b' = b then v else t a' b')"
  by (simp add: put2_def)

lemma put2_same [simp]: "put2 a b v t a b = v"
  by (simp add: put2_def)

lemma put2_other [simp]: "a' \<noteq> a \<or> b' \<noteq> b \<Longrightarrow> put2 a b v t a' b' = t a' b'"
  by (auto simp: put2_def)

end
