(* ===== verification/Saturating.thy ===== *)
theory Saturating
  imports Prelude
begin

text \<open>
  Rust's \<^verbatim>\<open>saturating_mul\<close> and \<^verbatim>\<open>checked_div\<close> on unsigned integers, and the pro-rata share computed
  from them.
\<close>

definition sat_mul :: "'a::len word \<Rightarrow> 'a word \<Rightarrow> 'a word" where
  "sat_mul a b = (if uint a * uint b < 2 ^ LENGTH('a) then a * b else - 1)"

definition checked_div :: "'a::len word \<Rightarrow> 'a word \<Rightarrow> 'a word option" where
  "checked_div a b = (if b = 0 then None else Some (a div b))"

lemma unat_sat_mul: "unat (sat_mul a b) = min (unat a * unat b) (2 ^ LENGTH('a) - 1)"
  for a b :: "'a::len word"
proof -
  have "uint a * uint b = int (unat a * unat b)" and "(2 :: int) ^ LENGTH('a) = int (2 ^ LENGTH('a))"
    by simp_all
  then have "uint a * uint b < 2 ^ LENGTH('a) \<longleftrightarrow> unat a * unat b < 2 ^ LENGTH('a)"
    by (simp only: of_nat_less_iff)
  then show ?thesis
    by (auto simp: sat_mul_def unat_word_ariths unat_minus_one_word)
qed

lemma checked_div_Some [res_simps]: "checked_div a b = Some c \<longleftrightarrow> b \<noteq> 0 \<and> c = a div b"
  by (auto simp: checked_div_def)

text \<open>\<open>pro_rata x part whole\<close> is \<open>x * part / whole\<close>, with the product saturating.\<close>

definition pro_rata :: "'a::len word \<Rightarrow> 'a word \<Rightarrow> 'a word \<Rightarrow> 'a word option" where
  "pro_rata x part whole = checked_div (sat_mul x part) whole"

lemma pro_rata_le:
  assumes "pro_rata x part whole = Some y"
  shows "unat y * unat whole \<le> unat x * unat part"
proof -
  have "unat y * unat whole \<le> unat (sat_mul x part)"
    using assms by (auto simp: pro_rata_def res_simps unat_div)
  then show ?thesis by (simp add: unat_sat_mul)
qed

text \<open>Shares of a total that are paid out one by one never exceed it.\<close>

lemma pro_rata_sum_le:
  assumes "\<And>p. p \<in> A \<Longrightarrow> pro_rata x (part p) whole = Some (share p)" and "finite A"
    and "(\<Sum>p\<in>A. unat (part p)) \<le> unat whole" and "whole \<noteq> 0"
  shows "(\<Sum>p\<in>A. unat (share p)) \<le> unat x"
proof -
  have "(\<Sum>p\<in>A. unat (share p)) * unat whole \<le> (\<Sum>p\<in>A. unat x * unat (part p))"
    unfolding sum_distrib_right by (intro sum_mono pro_rata_le assms(1))
  also have "\<dots> \<le> unat x * unat whole"
    using assms(3) by (simp flip: sum_distrib_left)
  finally show ?thesis
    using assms(4) by (simp add: unat_gt_0)
qed

end
