(* ===== verification/Thea_Types.thy ===== *)
theory Thea_Types
  imports Ocex_Snapshot Saturating
begin

text \<open>
  The data of the Thea bridge, \<^verbatim>\<open>primitives/thea/src\<close>: messages between chains, the signatures
  a set of authorities collects on an outgoing message, the network configuration, and the
  conversion of amounts between the native 12 decimals and those of a foreign asset. The lemmas
  are about the quorum of \<^verbatim>\<open>threshold_reached\<close> and about the conversions.
\<close>

subsection \<open>Validator sets and networks\<close>

type_synonym Network = u8
type_synonym TheaId = bytes
type_synonym TheaSignature = bytes

definition THEA_GENESIS_AUTHORITY_SET_ID :: u64 where
  "THEA_GENESIS_AUTHORITY_SET_ID = 0"

text \<open>\<^verbatim>\<open>ValidatorSet::new\<close> refuses an empty set; the set is kept as the pair of its fields.\<close>

definition thea_ValidatorSet_new :: "'k list \<Rightarrow> u64 \<Rightarrow> (u64 \<times> 'k list) option" where
  "thea_ValidatorSet_new validators i = (if validators = [] then None else Some (i, validators))"

datatype NetworkType = Parachain | Evm

record NetworkConfig =
  nc_fork_period :: u32
  nc_min_stake :: u128
  nc_fisherman_stake :: u128
  nc_network_type :: NetworkType

definition default_NetworkConfig :: NetworkConfig where
  "default_NetworkConfig =
    \<lparr> nc_fork_period = 20, nc_min_stake = 1000 * UNIT_BALANCE, nc_fisherman_stake = 100 * UNIT_BALANCE,
      nc_network_type = Parachain \<rparr>"

definition NetworkConfig_new :: "u32 \<Rightarrow> u128 \<Rightarrow> u128 \<Rightarrow> bool \<Rightarrow> NetworkConfig" where
  "NetworkConfig_new fork_period min_stake fisherman_stake is_evm =
    \<lparr> nc_fork_period = fork_period, nc_min_stake = min_stake, nc_fisherman_stake = fisherman_stake,
      nc_network_type = (if is_evm then Evm else Parachain) \<rparr>"

subsection \<open>Messages\<close>

datatype PayloadType = ScheduledRotateValidators | ValidatorsRotated | L1Deposit

record Message =
  m_block_no :: u64
  m_nonce :: u64
  m_network :: Network
  m_payload_type :: PayloadType
  m_data :: bytes

record IncomingMessage =
  im_message :: Message
  im_relayer :: account
  im_stake :: u128
  im_execute_at :: u32

record MisbehaviourReport =
  mr_reported_msg :: IncomingMessage
  mr_fisherman :: account
  mr_stake :: u128

record SignedMessage =
  sm_validator_set_id :: u64
  sm_message :: Message
  sm_signatures :: "(u32, TheaSignature) btree"

definition SignedMessage_new :: "Message \<Rightarrow> u64 \<Rightarrow> u32 \<Rightarrow> TheaSignature \<Rightarrow> SignedMessage" where
  "SignedMessage_new message validator_set_id auth_index signature =
    \<lparr> sm_validator_set_id = validator_set_id, sm_message = message,
      sm_signatures = bt_insert auth_index signature [] \<rparr>"

definition add_signature :: "Message \<Rightarrow> u64 \<Rightarrow> u32 \<Rightarrow> TheaSignature \<Rightarrow> SignedMessage \<Rightarrow> SignedMessage" where
  "add_signature message validator_set_id auth_index signature sm =
    (if sm_message sm \<noteq> message then sm
     else if sm_validator_set_id sm \<noteq> validator_set_id then sm
     else sm \<lparr> sm_signatures := bt_insert auth_index signature (sm_signatures sm) \<rparr>)"

definition thea_threshold :: "nat \<Rightarrow> nat" where
  "thea_threshold max_len = (2 * max_len) div 3 + 1"

definition threshold_reached :: "SignedMessage \<Rightarrow> nat \<Rightarrow> bool" where
  "threshold_reached sm max_len =
    (if max_len = 0 then False else thea_threshold max_len \<le> length (sm_signatures sm))"

definition contains_signature :: "SignedMessage \<Rightarrow> u32 \<Rightarrow> bool" where
  "contains_signature sm auth_index = (bt_get (sm_signatures sm) auth_index \<noteq> None)"

subsection \<open>Amounts in native and foreign decimals\<close>

text \<open>
  \<open>None\<close> is an overflow of \<^verbatim>\<open>12 - self.decimal as i8\<close> or of \<^verbatim>\<open>10u128.pow(..)\<close>, which panics in
  a build with overflow checks.
\<close>

definition pow10 :: "int \<Rightarrow> u128 option" where
  "pow10 n = (if n \<le> 38 then Some (10 ^ nat n) else None)"

definition AssetMetadata_new :: "u8 \<Rightarrow> u8 option" where
  "AssetMetadata_new decimal = (if decimal < 1 then None else Some decimal)"

definition decimal_diff :: "u8 \<Rightarrow> int option" where
  "decimal_diff decimal = (let d = 12 - sint decimal in if d \<le> 127 then Some d else None)"

definition convert_to_native_decimals :: "u8 \<Rightarrow> u128 \<Rightarrow> u128 option" where
  "convert_to_native_decimals decimal amount =
    (case decimal_diff decimal of
      None \<Rightarrow> None
    | Some diff \<Rightarrow>
        if diff < 0 then map_option (\<lambda>p. amount div p) (pow10 (- diff))
        else if diff = 0 then Some amount
        else map_option (\<lambda>p. sat_mul amount p) (pow10 diff))"

definition convert_from_native_decimals :: "u8 \<Rightarrow> u128 \<Rightarrow> u128 option" where
  "convert_from_native_decimals decimal amount =
    (case decimal_diff decimal of
      None \<Rightarrow> None
    | Some diff \<Rightarrow>
        if diff < 0 then map_option (\<lambda>p. sat_mul amount p) (pow10 (- diff))
        else if diff = 0 then Some amount
        else map_option (\<lambda>p. amount div p) (pow10 diff))"

subsection \<open>Deposits and withdrawals\<close>

datatype ExtraData = ExtraNone | DirectDeposit

record TheaDeposit =
  td_id :: H160
  td_recipient :: account
  td_asset_id :: AssetId
  td_amount :: u128
  td_extra :: ExtraData

record TheaWithdraw =
  tw_id :: H160
  tw_asset_id :: AssetId
  tw_amount :: u128
  tw_destination :: bytes
  tw_fee_asset_id :: "AssetId option"
  tw_fee_amount :: "u128 option"
  tw_is_blocked :: bool
  tw_extra :: ExtraData

definition amount_in_native_decimals :: "u8 \<Rightarrow> TheaDeposit \<Rightarrow> u128 option" where
  "amount_in_native_decimals metadata d = convert_to_native_decimals metadata (td_amount d)"

definition amount_in_foreign_decimals :: "u8 \<Rightarrow> TheaDeposit \<Rightarrow> u128 option" where
  "amount_in_foreign_decimals metadata d = convert_from_native_decimals metadata (td_amount d)"

subsection \<open>Signatures\<close>

text \<open>The authorities that have signed, as a set of indices.\<close>

definition signers :: "SignedMessage \<Rightarrow> u32 set" where
  "signers sm = fst ` set (sm_signatures sm)"

definition sm_wf :: "SignedMessage \<Rightarrow> bool" where
  "sm_wf sm = bt_wf (sm_signatures sm)"

lemma signers_new [simp]: "signers (SignedMessage_new m i a sig) = {a}"
  by (simp add: signers_def SignedMessage_new_def)

lemma sm_wf_new [simp]: "sm_wf (SignedMessage_new m i a sig)"
  by (simp add: sm_wf_def SignedMessage_new_def bt_wf_def)

lemma sm_wf_add [simp]: "sm_wf sm \<Longrightarrow> sm_wf (add_signature m i a sig sm)"
  by (auto simp: sm_wf_def add_signature_def)

lemma signers_add:
  "signers (add_signature m i a sig sm) =
    (if sm_message sm = m \<and> sm_validator_set_id sm = i then insert a (signers sm) else signers sm)"
  by (auto simp: signers_def add_signature_def set_fst_bt_insert)

lemma add_signature_simps [simp]:
  "sm_message (add_signature m i a sig sm) = sm_message sm"
  "sm_validator_set_id (add_signature m i a sig sm) = sm_validator_set_id sm"
  by (simp_all add: add_signature_def)

lemma contains_signature_iff: "contains_signature sm a \<longleftrightarrow> a \<in> signers sm"
  by (simp add: contains_signature_def signers_def bt_get_def map_of_eq_None_iff)

lemma card_signers: "sm_wf sm \<Longrightarrow> card (signers sm) = length (sm_signatures sm)"
  using distinct_card [of "map fst (sm_signatures sm)"]
  by (simp add: sm_wf_def signers_def bt_wf_distinct)

lemma threshold_reached_iff:
  "sm_wf sm \<Longrightarrow> threshold_reached sm n \<longleftrightarrow> 0 < n \<and> thea_threshold n \<le> card (signers sm)"
  by (simp add: threshold_reached_def card_signers)

subsection \<open>Quorums\<close>

text \<open>
  A quorum system: sets of authorities of which any two share a member outside every tolerated
  set of faulty ones.
\<close>

locale byzantine_quorums =
  fixes quorum :: "'p set \<Rightarrow> bool"
    and faulty :: "'p set \<Rightarrow> bool"
  assumes honest_overlap: "quorum A \<Longrightarrow> quorum B \<Longrightarrow> faulty F \<Longrightarrow> \<not> A \<inter> B \<subseteq> F"
    and faulty_empty: "faulty {}"
begin

lemma quorums_intersect: "quorum A \<Longrightarrow> quorum B \<Longrightarrow> A \<inter> B \<noteq> {}"
  using honest_overlap [OF _ _ faulty_empty, of A B] by blast

text \<open>If honest members sign one statement per slot, two quorums cannot certify different ones.\<close>

lemma no_conflicting_certificates:
  assumes "quorum {p. votes p v}" "quorum {p. votes p w}" "faulty F"
    and "\<And>p. p \<notin> F \<Longrightarrow> votes p v \<Longrightarrow> votes p w \<Longrightarrow> v = w"
  shows "v = w"
  using honest_overlap [OF assms(1-3)] assms(4) by blast

end

text \<open>The sets of \<^verbatim>\<open>threshold_reached\<close> among \<open>n\<close> authorities, with fewer than a third faulty.\<close>

definition thea_quorum :: "nat \<Rightarrow> u32 set \<Rightarrow> bool" where
  "thea_quorum n A \<longleftrightarrow> A \<subseteq> {i. unat i < n} \<and> 0 < n \<and> thea_threshold n \<le> card A"

definition thea_faulty :: "nat \<Rightarrow> u32 set \<Rightarrow> bool" where
  "thea_faulty n F \<longleftrightarrow> F = {} \<or> 3 * card F < n"

lemma card_authority_indices: "card {i :: u32. unat i < n} \<le> n"
proof -
  have "{i :: u32. unat i < n} \<subseteq> word_of_nat ` {..<n}"
  proof
    fix i :: u32
    assume "i \<in> {i. unat i < n}"
    then show "i \<in> word_of_nat ` {..<n}"
      by (intro image_eqI [of _ _ "unat i"]) auto
  qed
  then show ?thesis
    using surj_card_le [of "{..<n}" "{i :: u32. unat i < n}" word_of_nat] by simp
qed

lemma thea_quorum_overlap:
  assumes "thea_quorum n A" "thea_quorum n B"
  shows "n < 3 * card (A \<inter> B)"
proof -
  have "card (A \<union> B) \<le> n"
    using assms card_mono [of "{i :: u32. unat i < n}" "A \<union> B"] card_authority_indices [of n]
    by (auto simp: thea_quorum_def)
  moreover have "card A + card B = card (A \<union> B) + card (A \<inter> B)"
    by (rule card_Un_Int) simp_all
  ultimately show ?thesis
    using assms by (auto simp: thea_quorum_def thea_threshold_def)
qed

interpretation bq: byzantine_quorums "thea_quorum n" "thea_faulty n" for n
proof
  fix A B F :: "u32 set"
  assume "thea_quorum n A" "thea_quorum n B" "thea_faulty n F"
  then show "\<not> A \<inter> B \<subseteq> F"
    using thea_quorum_overlap [of n A B] card_mono [of F "A \<inter> B"] by (auto simp: thea_faulty_def)
qed (simp add: thea_faulty_def)

lemma quorum_of_threshold:
  assumes "sm_wf sm" "threshold_reached sm n" "\<forall>i\<in>signers sm. unat i < n"
  shows "thea_quorum n (signers sm)"
  using assms by (auto simp: thea_quorum_def threshold_reached_iff)


subsection \<open>Conversions\<close>

lemma unat_pow10:
  assumes "n \<le> 38"
  shows "unat ((10 :: u128) ^ n) = 10 ^ n"
proof -
  have "(10 :: nat) ^ n \<le> 10 ^ 38"
    by (rule power_increasing [OF assms]) simp
  then have "(10 :: nat) ^ n < 2 ^ 128"
    by (rule le_less_trans) simp
  then have "unat (word_of_nat (10 ^ n) :: u128) = 10 ^ n"
    unfolding unat_of_nat by (intro mod_less) simp
  then show ?thesis
    by simp
qed

lemma unat_sat_mul_pow10:
  assumes "n \<le> 38" "unat x * 10 ^ n < 2 ^ 128"
  shows "unat (sat_mul x ((10 :: u128) ^ n)) = unat x * 10 ^ n"
  using assms by (simp add: unat_sat_mul unat_pow10)

lemma sint_small_u8:
  assumes "unat d < 128"
  shows "sint (d :: u8) = int (unat d)"
proof -
  have "uint d < 2 ^ 7"
    unfolding uint_less_exp_iff using assms by simp
  moreover have "- (2 ^ 7) \<le> uint d"
    by (rule order_trans [OF _ uint_ge_0]) simp
  ultimately have "signed_take_bit 7 (uint d) = uint d"
    by (simp only: signed_take_bit_int_eq_self)
  then show ?thesis
    by (simp add: sint_uint)
qed

lemma sat_mul_one [simp]: "sat_mul x 1 = x"
  by (simp add: word_unat_eq_iff unat_sat_mul) (use unat_less_exp [of x] in linarith)

lemma decimal_diff_small: "unat d = n \<Longrightarrow> n < 128 \<Longrightarrow> decimal_diff d = Some (12 - int n)"
  using sint_small_u8 [of d] by (simp only: decimal_diff_def Let_def) simp

lemma convert_few_decimals:
  assumes "unat d = n" "n \<le> 12"
  shows "convert_to_native_decimals d x = Some (sat_mul x (10 ^ (12 - n)))"
    and "convert_from_native_decimals d x = Some (x div 10 ^ (12 - n))"
  using assms decimal_diff_small [OF assms(1)]
  by (cases "n = 12", simp_all add: convert_to_native_decimals_def convert_from_native_decimals_def pow10_def
      nat_diff_distrib)

lemma convert_many_decimals:
  assumes "unat d = n" "12 < n" "n \<le> 50"
  shows "convert_to_native_decimals d x = Some (x div 10 ^ (n - 12))"
    and "convert_from_native_decimals d x = Some (sat_mul x (10 ^ (n - 12)))"
  using assms decimal_diff_small [OF assms(1)]
  by (simp_all add: convert_to_native_decimals_def convert_from_native_decimals_def pow10_def nat_diff_distrib)

lemma convert_too_many_decimals:
  assumes "unat d = n" "50 < n" "n < 128"
  shows "convert_to_native_decimals d x = None" and "convert_from_native_decimals d x = None"
  using assms decimal_diff_small [OF assms(1)]
  by (simp_all add: convert_to_native_decimals_def convert_from_native_decimals_def pow10_def)

lemma div_sat_mul_pow10:
  assumes "n \<le> 38" "unat x * 10 ^ n < 2 ^ 128"
  shows "sat_mul x ((10 :: u128) ^ n) div 10 ^ n = x"
  using assms by (simp add: word_unat_eq_iff unat_div unat_sat_mul_pow10 unat_pow10)

lemma sat_mul_div_pow10:
  assumes "n \<le> 38"
  shows "unat (sat_mul (x div 10 ^ n) ((10 :: u128) ^ n)) = unat x - unat x mod 10 ^ n"
proof -
  have le: "unat x div 10 ^ n * 10 ^ n = unat x - unat x mod 10 ^ n"
    by (simp add: minus_mod_eq_div_mult)
  have "unat x < 2 ^ 128"
    using unat_less_exp [of x] by simp
  then show ?thesis
    using assms by (subst unat_sat_mul_pow10) (simp_all add: unat_div unat_pow10 le)
qed



subsection \<open>The supermajority\<close>

text \<open>C12: the threshold is reached exactly by strictly more than two thirds of a non-empty set of
  authorities, and any two sets of signers that reach it share an authority outside every set of
  faulty ones that is smaller than a third, so two conflicting messages cannot both be final.\<close>

theorem threshold_supermajority:
  "(threshold_reached sm n \<longleftrightarrow> 0 < n \<and> 2 * n < 3 * length (sm_signatures sm)) \<and>
    (sm_wf sm \<longrightarrow> sm_wf sm' \<longrightarrow> threshold_reached sm n \<longrightarrow> threshold_reached sm' n \<longrightarrow>
     (\<forall>i\<in>signers sm \<union> signers sm'. unat i < n) \<longrightarrow> 3 * card F < n \<longrightarrow> \<not> signers sm \<inter> signers sm' \<subseteq> F)"
proof (intro conjI impI)
  show "threshold_reached sm n \<longleftrightarrow> 0 < n \<and> 2 * n < 3 * length (sm_signatures sm)"
    by (auto simp: threshold_reached_def thea_threshold_def)
  assume "sm_wf sm" "sm_wf sm'" "threshold_reached sm n" "threshold_reached sm' n"
    "\<forall>i\<in>signers sm \<union> signers sm'. unat i < n" "3 * card F < n"
  then show "\<not> signers sm \<inter> signers sm' \<subseteq> F"
    by (intro bq.honest_overlap [of n] quorum_of_threshold) (auto simp: thea_faulty_def)
qed

theorem threshold_supermajority_witness:
  "\<exists>sm sm'. threshold_reached sm 4 \<and> threshold_reached sm' 4 \<and> signers sm \<noteq> signers sm' \<and> \<not> signers sm \<inter> signers sm' \<subseteq> {1}"
proof -
  define sm where "sm ks = \<lparr> sm_validator_set_id = 0,
      sm_message = \<lparr> m_block_no = 0, m_nonce = 1, m_network = 3, m_payload_type = L1Deposit, m_data = [] \<rparr>,
      sm_signatures = map (\<lambda>k. (k, [])) ks \<rparr>" for ks :: "u32 list"
  have "sm_wf (sm [0, 1, 2])" "sm_wf (sm [1, 2, 3])" "threshold_reached (sm [0, 1, 2]) 4" "threshold_reached (sm [1, 2, 3]) 4"
    "signers (sm [0, 1, 2]) = {0, 1, 2}" "signers (sm [1, 2, 3]) = {1, 2, 3}" "3 * card {1 :: u32} < 4"
    by (simp_all add: sm_def sm_wf_def bt_wf_def threshold_reached_def thea_threshold_def signers_def)
  moreover from this have "\<not> signers (sm [0, 1, 2]) \<inter> signers (sm [1, 2, 3]) \<subseteq> {1}"
    using threshold_supermajority [of "sm [0, 1, 2]" 4 "sm [1, 2, 3]" "{1}"] by simp
  moreover have "0 \<in> {0, 1, 2 :: u32}" "0 \<notin> {1, 2, 3 :: u32}"
    by simp_all
  ultimately show ?thesis
    by metis
qed

end
