(* ===== verification/Thea.thy ===== *)
theory Thea
  imports Frame Thea_Types
begin

text \<open>
  The Thea bridge pallet, \<^verbatim>\<open>pallets/thea/src\<close>: relayers queue incoming messages under a stake,
  a block hook executes them after the fork period, and the authorities sign the outgoing
  messages until a quorum is reached. Executor, native currency, codec and cryptography are
  parameters.
\<close>

subsection \<open>State\<close>

datatype thea_error =
    NotEnoughStake
  | MessageNotFound
  | NonceError
  | InvalidValidatorSetId
  | EmptyValidatorSet
  | OutgoingMessageSlotOccupied
  | OutgoingNonceBelowFinalized
  | ForkPeriodTooShort
  | MessageAlreadyExecuted

datatype thea_event =
    TheaPayloadProcessed Network u64
  | ErrorWhileReleasingLock account foreign_error
  | MisbehaviourReported account Network u64
  | TheaSignatureUpdated Network u64 u16
  | TheaSignatureFinalized Network u64
  | UnableToGenerateValidatorSet Network
  | DepositExecutionFailed Network u64 foreign_error

text \<open>The pallet's configuration; \<open>'w\<close> is the state of the rest of the chain.\<close>

record 'w thea_config =
  tc_max_authorities :: nat
  tc_executor :: "Network \<Rightarrow> bytes \<Rightarrow> 'w \<Rightarrow> foreign_error + 'w"
  tc_hold :: "account \<Rightarrow> u128 \<Rightarrow> 'w \<Rightarrow> foreign_error + 'w"
  tc_release :: "account \<Rightarrow> u128 \<Rightarrow> 'w \<Rightarrow> foreign_error + 'w"
  tc_reducible :: "account \<Rightarrow> 'w \<Rightarrow> u128"
  tc_transfer :: "account \<Rightarrow> account \<Rightarrow> u128 \<Rightarrow> 'w \<Rightarrow> foreign_error + 'w"
  tc_burn_from :: "account \<Rightarrow> u128 \<Rightarrow> 'w \<Rightarrow> foreign_error + 'w"
  tc_governance :: "origin \<Rightarrow> bool"
  tc_encode_message :: "Message \<Rightarrow> bytes"
  tc_encode_set :: "u64 \<times> TheaId list \<Rightarrow> bytes"
  tc_encode_evm_set :: "u64 \<times> H160 list \<Rightarrow> bytes"
  tc_sha2_256 :: "bytes \<Rightarrow> bytes"
  tc_ecdsa_verify :: "TheaSignature \<Rightarrow> bytes \<Rightarrow> TheaId \<Rightarrow> bool"

record 'w thea =
  th_authorities :: "u64 \<Rightarrow> TheaId list"
  th_set_id :: u64
  th_next_authorities :: "TheaId list"
  th_outgoing :: "Network \<Rightarrow> u64 \<Rightarrow> Message option"
  th_signed :: "Network \<Rightarrow> u64 \<Rightarrow> SignedMessage option"
  th_queue :: "Network \<Rightarrow> u64 \<Rightarrow> IncomingMessage option"
  th_incoming :: "Network \<Rightarrow> u64 \<Rightarrow> Message option"
  th_incoming_nonce :: "Network \<Rightarrow> u64"
  th_outgoing_nonce :: "Network \<Rightarrow> u64"
  th_signed_nonce :: "Network \<Rightarrow> u64"
  th_networks :: "Network list"
  th_config :: "Network \<Rightarrow> NetworkConfig"
  th_reports :: "Network \<Rightarrow> u64 \<Rightarrow> MisbehaviourReport option"
  th_relayers :: "Network \<Rightarrow> account option"
  th_block :: u32
  th_events :: "thea_event list"
  th_world :: 'w

definition thea_emit :: "thea_event \<Rightarrow> 'w thea \<Rightarrow> 'w thea" where
  "thea_emit e s = s \<lparr> th_events := th_events s @ [e] \<rparr>"

subsection \<open>Executing incoming messages\<close>

definition release_stake :: "'w thea_config \<Rightarrow> IncomingMessage \<Rightarrow> 'w thea \<Rightarrow> 'w thea" where
  "release_stake E msg s =
    (case tc_release E (im_relayer msg) (im_stake msg) (th_world s) of
      Inl err \<Rightarrow> thea_emit (ErrorWhileReleasingLock (im_relayer msg) err) s
    | Inr w \<Rightarrow> s \<lparr> th_world := w \<rparr>)"

definition execute_message :: "'w thea_config \<Rightarrow> u64 \<Rightarrow> IncomingMessage \<Rightarrow> 'w thea \<Rightarrow> 'w thea" where
  "execute_message E next_nonce msg s =
    (let m = im_message msg;
         deposit_result = tc_executor E (m_network m) (m_data m) (th_world s);
         advanced = s \<lparr> th_incoming_nonce := (th_incoming_nonce s) (m_network m := next_nonce) \<rparr>
     in case deposit_result of
       Inr w \<Rightarrow> release_stake E msg
         ((thea_emit (TheaPayloadProcessed (m_network m) (m_nonce m)) (advanced \<lparr> th_world := w \<rparr>))
           \<lparr> th_incoming := put2 (m_network m) (m_nonce m) (Some m) (th_incoming s) \<rparr>)
     | Inl e \<Rightarrow> release_stake E msg
         (thea_emit (DepositExecutionFailed (m_network m) (m_nonce m) e) advanced))"

definition execute_next :: "'w thea_config \<Rightarrow> u32 \<Rightarrow> Network \<Rightarrow> 'w thea \<Rightarrow> 'w thea" where
  "execute_next E blk network s =
    (let next_nonce = sat_add (th_incoming_nonce s network) 1
     in case th_queue s network next_nonce of
       None \<Rightarrow> s
     | Some msg \<Rightarrow>
         let taken = s \<lparr> th_queue := put2 network next_nonce None (th_queue s) \<rparr>
         in if im_execute_at msg \<le> blk then execute_message E next_nonce msg taken else taken)"

definition thea_on_initialize :: "'w thea_config \<Rightarrow> u32 \<Rightarrow> 'w thea \<Rightarrow> 'w thea" where
  "thea_on_initialize E blk s = fold (execute_next E blk) (th_networks s) s"

subsection \<open>Outgoing messages\<close>

definition generate_payload :: "PayloadType \<Rightarrow> Network \<Rightarrow> bytes \<Rightarrow> 'w thea \<Rightarrow> Message" where
  "generate_payload payload_type network data s =
    \<lparr> m_block_no = sat_into (th_block s), m_nonce = sat_add (th_outgoing_nonce s network) 1,
      m_network = network, m_payload_type = payload_type, m_data = data \<rparr>"

definition store_outgoing :: "Message \<Rightarrow> 'w thea \<Rightarrow> 'w thea" where
  "store_outgoing message s = s
    \<lparr> th_outgoing_nonce := (th_outgoing_nonce s) (m_network message := m_nonce message),
      th_outgoing := put2 (m_network message) (m_nonce message) (Some message) (th_outgoing s) \<rparr>"

definition execute_withdrawals :: "Network \<Rightarrow> bytes \<Rightarrow> 'w thea \<Rightarrow> thea_error fault + 'w thea" where
  "execute_withdrawals network data s =
    (let payload = generate_payload L1Deposit network data s in
     ensure (th_outgoing s network (m_nonce payload) = None) (Fault OutgoingMessageSlotOccupied)
     (Inr (store_outgoing payload s)))"

definition get_outgoing_nonce :: "Network \<Rightarrow> 'w thea \<Rightarrow> u64" where
  "get_outgoing_nonce network s = sat_add (th_outgoing_nonce s network) 1"

definition get_outgoing_messages :: "Network \<Rightarrow> u64 \<Rightarrow> 'w thea \<Rightarrow> Message option" where
  "get_outgoing_messages network nonce s = th_outgoing s network nonce"

definition get_last_processed_nonce :: "Network \<Rightarrow> 'w thea \<Rightarrow> u64" where
  "get_last_processed_nonce network s = th_incoming_nonce s network"

definition active_validators :: "'w thea \<Rightarrow> TheaId list" where
  "active_validators s = th_authorities s (th_set_id s)"

subsection \<open>Signatures on outgoing messages\<close>

fun check_outgoing_signatures :: "'w thea_config \<Rightarrow> u32 \<Rightarrow> TheaId \<Rightarrow> (Network \<times> u64 \<times> TheaSignature) list \<Rightarrow>
    'w thea \<Rightarrow> validity" where
  "check_outgoing_signatures E auth_index signer [] s = Valid"
| "check_outgoing_signatures E auth_index signer ((network, nonce, signature) # rest) s =
    (if nonce \<noteq> sat_add (th_signed_nonce s network) 1 then Custom 2
     else if (case th_signed s network nonce of None \<Rightarrow> False | Some sm \<Rightarrow> contains_signature sm auth_index) then Custom 4
     else case th_outgoing s network nonce of
       None \<Rightarrow> Custom 3
     | Some message \<Rightarrow>
         if tc_ecdsa_verify E signature (tc_sha2_256 E (tc_encode_message E message)) signer
         then check_outgoing_signatures E auth_index signer rest s
         else Custom 6)"

definition validate_signed_outgoing_message :: "'w thea_config \<Rightarrow> u32 \<Rightarrow> u64 \<Rightarrow>
    (Network \<times> u64 \<times> TheaSignature) list \<Rightarrow> 'w thea \<Rightarrow> validity" where
  "validate_signed_outgoing_message E auth_index i signatures s =
    (let active_set_id = th_set_id s; auths = th_authorities s active_set_id in
     if i \<noteq> active_set_id then Custom 7
     else if auths = [] then Custom 8
     else if length auths \<le> unat auth_index then Custom 1
     else check_outgoing_signatures E auth_index (auths ! unat auth_index) signatures s)"

definition record_signature :: "u32 \<Rightarrow> u64 \<Rightarrow> nat \<Rightarrow> Network \<times> u64 \<times> TheaSignature \<Rightarrow> 'w thea \<Rightarrow>
    thea_error fault + 'w thea" where
  "record_signature auth_index i auth_len sig s =
    (case sig of (network, nonce, signature) \<Rightarrow>
     bind_res (ok_or (Fault MessageNotFound) (th_outgoing s network nonce)) (\<lambda>message.
     case th_signed s network nonce of
       None \<Rightarrow> Inr (s \<lparr> th_signed := put2 network nonce (Some (SignedMessage_new message i auth_index signature)) (th_signed s) \<rparr>)
     | Some old \<Rightarrow>
         (let sm = add_signature message i auth_index signature old;
              finalized = (if threshold_reached sm auth_len
                then thea_emit (TheaSignatureFinalized network nonce)
                  (s \<lparr> th_signed_nonce := (th_signed_nonce s) (network := nonce) \<rparr>)
                else s)
          in Inr (thea_emit (TheaSignatureUpdated network nonce (word_of_nat (length (sm_signatures sm))))
               (finalized \<lparr> th_signed := put2 network nonce (Some sm) (th_signed s) \<rparr>)))))"

definition submit_signed_outgoing_messages :: "origin \<Rightarrow> u32 \<Rightarrow> u64 \<Rightarrow> (Network \<times> u64 \<times> TheaSignature) list \<Rightarrow>
    'w thea \<Rightarrow> thea_error fault + 'w thea" where
  "submit_signed_outgoing_messages orig auth_index i signatures s =
    bind_res (by_none orig) (\<lambda>_.
    ensure (i = th_set_id s) (Fault InvalidValidatorSetId)
    (let auths = th_authorities s (th_set_id s) in
     ensure (auths \<noteq> []) (Fault EmptyValidatorSet)
     (fold_res (record_signature auth_index i (length auths)) signatures s)))"

subsection \<open>Change of the authorities\<close>

text \<open>
  The EVM keys are an empty vector, because the code that parses them is commented out. The set
  id is incremented without an overflow check.
\<close>

definition rotation_payload :: "'w thea_config \<Rightarrow> TheaId list \<Rightarrow> u64 \<Rightarrow> Network \<Rightarrow> 'w thea \<Rightarrow> Message option" where
  "rotation_payload E queued new_id network s =
    (case nc_network_type (th_config s network) of
      Evm \<Rightarrow> map_option (\<lambda>p. generate_payload ScheduledRotateValidators network (tc_encode_evm_set E p) s)
        (thea_ValidatorSet_new ([] :: H160 list) new_id)
    | Parachain \<Rightarrow> map_option (\<lambda>p. generate_payload ScheduledRotateValidators network (tc_encode_set E p) s)
        (thea_ValidatorSet_new queued new_id))"

definition schedule_rotation :: "'w thea_config \<Rightarrow> TheaId list \<Rightarrow> u64 \<Rightarrow> Network \<Rightarrow>
    Network list \<times> 'w thea \<Rightarrow> Network list \<times> 'w thea" where
  "schedule_rotation E queued new_id network acc =
    (case acc of (scheduled, s) \<Rightarrow>
     case rotation_payload E queued new_id network s of
       None \<Rightarrow> (scheduled, thea_emit (UnableToGenerateValidatorSet network) s)
     | Some message \<Rightarrow> (bs_insert network scheduled, store_outgoing message s))"

definition reset_signatures :: "u64 \<Rightarrow> Network \<Rightarrow> u64 \<Rightarrow> 'w thea \<Rightarrow> 'w thea" where
  "reset_signatures new_id network nonce s =
    (case th_signed s network nonce of
      None \<Rightarrow> s
    | Some sm \<Rightarrow> s \<lparr> th_signed := put2 network nonce
        (Some (sm \<lparr> sm_validator_set_id := new_id, sm_signatures := [] \<rparr>)) (th_signed s) \<rparr>)"

text \<open>The nonces of the range \<^verbatim>\<open>(signed_nonce.saturating_add(1))..=outgoing_nonce\<close>.\<close>

definition pending_nonces :: "Network \<Rightarrow> 'w thea \<Rightarrow> u64 list" where
  "pending_nonces network s =
    map word_of_nat [unat (sat_add (th_signed_nonce s network) 1)..<Suc (unat (th_outgoing_nonce s network))]"

definition reset_network :: "u64 \<Rightarrow> Network \<Rightarrow> 'w thea \<Rightarrow> 'w thea" where
  "reset_network new_id network s = fold (reset_signatures new_id network) (pending_nonces network s) s"

definition announce_rotation :: "bool \<Rightarrow> Network list \<Rightarrow> Network \<Rightarrow> 'w thea \<Rightarrow> 'w thea" where
  "announce_rotation block1_ran scheduled network s =
    (if block1_ran \<and> network \<notin> set scheduled
     then thea_emit (UnableToGenerateValidatorSet network) s
     else store_outgoing (generate_payload ValidatorsRotated network [] s) s)"

definition change_authorities :: "'w thea_config \<Rightarrow> TheaId list \<Rightarrow> TheaId list \<Rightarrow> 'w thea \<Rightarrow> 'w thea" where
  "change_authorities E incoming queued s =
    (let outgoing = th_authorities s (th_set_id s);
         new_id = th_set_id s + 1;
         active_networks = th_networks s;
         block1_ran = (set incoming \<noteq> set queued);
         (scheduled, s) = (if block1_ran
           then (case fold (schedule_rotation E queued new_id) active_networks ([], s) of
             (scheduled, s) \<Rightarrow> (scheduled, s \<lparr> th_next_authorities := queued \<rparr>))
           else ([], s))
     in if set incoming \<noteq> set outgoing
        then fold (announce_rotation block1_ran scheduled) active_networks
          (fold (reset_network new_id) active_networks
            (s \<lparr> th_authorities := ((th_authorities s) (new_id := incoming)) (sat_sub new_id 2 := []),
                 th_set_id := new_id \<rparr>))
        else s)"

definition initialize_authorities :: "'w thea_config \<Rightarrow> TheaId list \<Rightarrow> 'w thea \<Rightarrow> 'w thea" where
  "initialize_authorities E auths s = s
    \<lparr> th_set_id := THEA_GENESIS_AUTHORITY_SET_ID,
      th_authorities := (th_authorities s) (THEA_GENESIS_AUTHORITY_SET_ID := take (tc_max_authorities E) auths) \<rparr>"

definition thea_on_genesis_session :: "'w thea_config \<Rightarrow> (account \<times> TheaId) list \<Rightarrow> 'w thea \<Rightarrow> 'w thea" where
  "thea_on_genesis_session E validators s = initialize_authorities E (map snd validators) s"

definition thea_on_new_session :: "'w thea_config \<Rightarrow> (account \<times> TheaId) list \<Rightarrow> (account \<times> TheaId) list \<Rightarrow>
    'w thea \<Rightarrow> 'w thea" where
  "thea_on_new_session E validators queued_validators s =
    change_authorities E (take (tc_max_authorities E) (map snd validators))
      (take (tc_max_authorities E) (map snd queued_validators)) s"

subsection \<open>Dispatchables\<close>

definition foreign :: "foreign_error + 'a \<Rightarrow> 'e fault + 'a" where
  "foreign r = map_err Foreign r"

definition queue_message :: "Message \<Rightarrow> account \<Rightarrow> u128 \<Rightarrow> 'w thea \<Rightarrow> 'w thea" where
  "queue_message payload signer stake s = s
    \<lparr> th_queue := put2 (m_network payload) (m_nonce payload)
        (Some \<lparr> im_message = payload, im_relayer = signer, im_stake = stake,
          im_execute_at = sat_add (th_block s) (nc_fork_period (th_config s (m_network payload))) \<rparr>) (th_queue s) \<rparr>"

definition submit_incoming_message :: "'w thea_config \<Rightarrow> origin \<Rightarrow> Message \<Rightarrow> u128 \<Rightarrow> 'w thea \<Rightarrow>
    thea_error fault + 'w thea" where
  "submit_incoming_message E orig payload stake s =
    bind_res (signed_by orig) (\<lambda>signer.
    ensure (nc_min_stake (th_config s (m_network payload)) \<le> stake) (Fault NotEnoughStake)
    (ensure (th_incoming_nonce s (m_network payload) < m_nonce payload) (Fault NonceError)
    (case th_queue s (m_network payload) (m_nonce payload) of
      None \<Rightarrow>
        bind_res (foreign (tc_hold E signer stake (th_world s))) (\<lambda>w.
        Inr (queue_message payload signer stake (s \<lparr> th_world := w \<rparr>)))
    | Some existing \<Rightarrow>
        if im_stake existing < stake
        then
          bind_res (foreign (tc_release E (im_relayer existing) (im_stake existing) (th_world s))) (\<lambda>w.
          bind_res (foreign (tc_hold E signer stake w)) (\<lambda>w.
          Inr (queue_message payload signer stake (s \<lparr> th_world := w \<rparr>))))
        else Inr s)))"

definition send_thea_message :: "origin \<Rightarrow> bytes \<Rightarrow> Network \<Rightarrow> 'w thea \<Rightarrow> thea_error fault + 'w thea" where
  "send_thea_message orig data network s =
    bind_res (by_root orig) (\<lambda>_. execute_withdrawals network data s)"

definition update_incoming_nonce :: "origin \<Rightarrow> u64 \<Rightarrow> Network \<Rightarrow> 'w thea \<Rightarrow> thea_error fault + 'w thea" where
  "update_incoming_nonce orig nonce network s =
    bind_res (by_root orig) (\<lambda>_.
    Inr (s \<lparr> th_incoming_nonce := (th_incoming_nonce s) (network := nonce) \<rparr>))"

definition update_outgoing_nonce :: "origin \<Rightarrow> u64 \<Rightarrow> Network \<Rightarrow> 'w thea \<Rightarrow> thea_error fault + 'w thea" where
  "update_outgoing_nonce orig nonce network s =
    bind_res (by_root orig) (\<lambda>_.
    ensure (th_outgoing_nonce s network \<le> nonce) (Fault OutgoingNonceBelowFinalized)
    (Inr (s \<lparr> th_outgoing_nonce := (th_outgoing_nonce s) (network := nonce) \<rparr>)))"

definition add_thea_network :: "origin \<Rightarrow> Network \<Rightarrow> bool \<Rightarrow> u32 \<Rightarrow> u128 \<Rightarrow> u128 \<Rightarrow> 'w thea \<Rightarrow>
    thea_error fault + 'w thea" where
  "add_thea_network orig network is_evm fork_period min_stake fisherman_stake s =
    bind_res (by_root orig) (\<lambda>_.
    ensure (2 \<le> fork_period) (Fault ForkPeriodTooShort)
    (Inr (s \<lparr> th_config := (th_config s)
                (network := NetworkConfig_new fork_period min_stake fisherman_stake is_evm),
              th_networks := bs_insert network (th_networks s) \<rparr>)))"

definition remove_thea_network :: "origin \<Rightarrow> Network \<Rightarrow> 'w thea \<Rightarrow> thea_error fault + 'w thea" where
  "remove_thea_network orig network s =
    bind_res (by_root orig) (\<lambda>_. Inr (s \<lparr> th_networks := bs_remove network (th_networks s) \<rparr>))"

definition report_misbehaviour :: "'w thea_config \<Rightarrow> origin \<Rightarrow> Network \<Rightarrow> u64 \<Rightarrow> 'w thea \<Rightarrow>
    thea_error fault + 'w thea" where
  "report_misbehaviour E orig network nonce s =
    bind_res (signed_by orig) (\<lambda>fisherman.
    let bond = nc_fisherman_stake (th_config s network) in
    ensure (bond \<le> tc_reducible E fisherman (th_world s)) (Fault NotEnoughStake)
    (bind_res (foreign (tc_hold E fisherman bond (th_world s))) (\<lambda>w.
     case th_queue s network nonce of
       None \<Rightarrow> Inl (Fault (if th_incoming s network nonce \<noteq> None then MessageAlreadyExecuted else MessageNotFound))
     | Some reported_msg \<Rightarrow>
         Inr (thea_emit (MisbehaviourReported fisherman network nonce) (s
           \<lparr> th_world := w, th_queue := put2 network nonce None (th_queue s),
             th_reports := put2 network nonce
               (Some \<lparr> mr_reported_msg = reported_msg, mr_fisherman = fisherman, mr_stake = bond \<rparr>) (th_reports s) \<rparr>)))))"

definition handle_misbehaviour :: "'w thea_config \<Rightarrow> origin \<Rightarrow> Network \<Rightarrow> u64 \<Rightarrow> bool \<Rightarrow> 'w thea \<Rightarrow>
    thea_error fault + 'w thea" where
  "handle_misbehaviour E orig network nonce acceptance s =
    ensure (tc_governance E orig) NotAllowed
    (case th_reports s network nonce of
      None \<Rightarrow> Inr s
    | Some report \<Rightarrow>
        (let s = s \<lparr> th_reports := put2 network nonce None (th_reports s) \<rparr>;
             msg = mr_reported_msg report in
         if acceptance
         then
           bind_res (foreign (tc_release E (im_relayer msg) (im_stake msg) (th_world s))) (\<lambda>w.
           bind_res (foreign (tc_transfer E (im_relayer msg) (mr_fisherman report) (im_stake msg) w)) (\<lambda>w.
           bind_res (foreign (tc_release E (mr_fisherman report) (mr_stake report) w)) (\<lambda>w.
           Inr (s \<lparr> th_world := w \<rparr>))))
         else
           bind_res (foreign (tc_burn_from E (mr_fisherman report) (mr_stake report) (th_world s))) (\<lambda>w.
           Inr (s \<lparr> th_world := w,
             th_queue := put2 (m_network (im_message msg)) (m_nonce (im_message msg)) (Some msg) (th_queue s) \<rparr>))))"

definition add_relayer_origin_for_network :: "origin \<Rightarrow> Network \<Rightarrow> account \<Rightarrow> 'w thea \<Rightarrow> thea_error fault + 'w thea" where
  "add_relayer_origin_for_network orig network relayer s =
    bind_res (by_root orig) (\<lambda>_. Inr (s \<lparr> th_relayers := (th_relayers s) (network := Some relayer) \<rparr>))"

datatype thea_call =
    SubmitIncomingMessage Message u128
  | SendTheaMessage bytes Network
  | UpdateIncomingNonce u64 Network
  | UpdateOutgoingNonce u64 Network
  | AddTheaNetwork Network bool u32 u128 u128
  | RemoveTheaNetwork Network
  | SubmitSignedOutgoingMessages u32 u64 "(Network \<times> u64 \<times> TheaSignature) list"
  | ReportMisbehaviour Network u64
  | HandleMisbehaviour Network u64 bool
  | AddRelayerOriginForNetwork Network account

fun thea_validate_unsigned :: "'w thea_config \<Rightarrow> thea_call \<Rightarrow> 'w thea \<Rightarrow> validity" where
  "thea_validate_unsigned E (SubmitSignedOutgoingMessages auth_index i signatures) s =
    validate_signed_outgoing_message E auth_index i signatures s"
| "thea_validate_unsigned E _ s = InvalidCall"

fun thea_dispatch :: "'w thea_config \<Rightarrow> origin \<Rightarrow> thea_call \<Rightarrow> 'w thea \<Rightarrow> thea_error fault + 'w thea" where
  "thea_dispatch E orig (SubmitIncomingMessage payload stake) s = submit_incoming_message E orig payload stake s"
| "thea_dispatch E orig (SendTheaMessage data network) s = send_thea_message orig data network s"
| "thea_dispatch E orig (UpdateIncomingNonce nonce network) s = update_incoming_nonce orig nonce network s"
| "thea_dispatch E orig (UpdateOutgoingNonce nonce network) s = update_outgoing_nonce orig nonce network s"
| "thea_dispatch E orig (AddTheaNetwork network is_evm fork_period min_stake fisherman_stake) s =
    add_thea_network orig network is_evm fork_period min_stake fisherman_stake s"
| "thea_dispatch E orig (RemoveTheaNetwork network) s = remove_thea_network orig network s"
| "thea_dispatch E orig (SubmitSignedOutgoingMessages auth_index i signatures) s =
    submit_signed_outgoing_messages orig auth_index i signatures s"
| "thea_dispatch E orig (ReportMisbehaviour network nonce) s = report_misbehaviour E orig network nonce s"
| "thea_dispatch E orig (HandleMisbehaviour network nonce acceptance) s =
    handle_misbehaviour E orig network nonce acceptance s"
| "thea_dispatch E orig (AddRelayerOriginForNetwork network relayer) s = add_relayer_origin_for_network orig network relayer s"

subsection \<open>Executions\<close>

text \<open>
  A step of the chain: a dispatched call (unsigned ones only after validation), a new block, a new
  session, a withdrawal sent by another pallet, or a change of the rest of the chain.
\<close>

inductive thea_step :: "'w thea_config \<Rightarrow> 'w thea \<Rightarrow> 'w thea \<Rightarrow> bool" for E where
  call: "thea_dispatch E orig c s = Inr s' \<Longrightarrow> orig = Unsigned \<longrightarrow> thea_validate_unsigned E c s = Valid \<Longrightarrow>
    thea_step E s s'"
| block: "thea_step E s (thea_on_initialize E (th_block s + 1) (s \<lparr> th_block := th_block s + 1 \<rparr>))"
| session: "thea_step E s (thea_on_new_session E validators queued s)"
| withdrawal: "execute_withdrawals network data s = Inr s' \<Longrightarrow> thea_step E s s'"
| outside: "thea_step E s (s \<lparr> th_world := w \<rparr>)"

text \<open>Before the genesis session nothing is stored.\<close>

definition thea_empty :: "'w \<Rightarrow> 'w thea" where
  "thea_empty w =
    \<lparr> th_authorities = (\<lambda>_. []), th_set_id = 0, th_next_authorities = [], th_outgoing = (\<lambda>_ _. None),
      th_signed = (\<lambda>_ _. None), th_queue = (\<lambda>_ _. None), th_incoming = (\<lambda>_ _. None),
      th_incoming_nonce = (\<lambda>_. 0), th_outgoing_nonce = (\<lambda>_. 0), th_signed_nonce = (\<lambda>_. 0),
      th_networks = [], th_config = (\<lambda>_. default_NetworkConfig), th_reports = (\<lambda>_ _. None),
      th_relayers = (\<lambda>_. None), th_block = 0, th_events = [], th_world = w \<rparr>"

text \<open>
  Executions in which no outgoing nonce comes near the end of \<^verbatim>\<open>u64\<close> and a network is activated
  only when none of its messages is half signed.
\<close>

definition nonces_left :: "'w thea \<Rightarrow> bool" where
  "nonces_left s \<longleftrightarrow> (\<forall>network. unat (th_outgoing_nonce s network) + 2 < 2 ^ 64)"

definition activated_clean :: "'w thea \<Rightarrow> 'w thea \<Rightarrow> bool" where
  "activated_clean s s' \<longleftrightarrow> (\<forall>network\<in>set (th_networks s') - set (th_networks s).
    \<forall>nonce>th_signed_nonce s network. th_signed s network nonce = None)"

inductive thea_reachable :: "'w thea_config \<Rightarrow> 'w thea \<Rightarrow> bool" for E where
  genesis: "thea_reachable E (thea_on_genesis_session E validators (thea_empty w))"
| step: "thea_reachable E s \<Longrightarrow> thea_step E s s' \<Longrightarrow> nonces_left s \<Longrightarrow> activated_clean s s' \<Longrightarrow> thea_reachable E s'"

end
