(* ===== verification/Thea_Safety.thy ===== *)
theory Thea_Safety
  imports Thea
begin

text \<open>
  Safety of the bridge: the invariant of the outgoing side (messages are stored under their own
  nonce, every signature counted on an active network is a valid one of a member of the active
  set), its preservation by every step, and the theorems that rest on it.
\<close>

subsection \<open>The invariant of the outgoing side\<close>

definition outgoing_wf :: "'w thea \<Rightarrow> bool" where
  "outgoing_wf s \<longleftrightarrow> (\<forall>network nonce m. th_outgoing s network nonce = Some m \<longrightarrow>
    m_network m = network \<and> m_nonce m = nonce \<and> nonce \<le> th_outgoing_nonce s network)"

definition signed_wf :: "'w thea \<Rightarrow> bool" where
  "signed_wf s \<longleftrightarrow> (\<forall>network nonce sm. th_signed s network nonce = Some sm \<longrightarrow>
    sm_wf sm \<and> th_outgoing s network nonce = Some (sm_message sm))"

text \<open>Every recorded signature is one of a member of the active set on the recorded message.\<close>

definition signatures_valid :: "'w thea_config \<Rightarrow> 'w thea \<Rightarrow> SignedMessage \<Rightarrow> bool" where
  "signatures_valid E s sm \<longleftrightarrow> sm_validator_set_id sm = th_set_id s \<and>
    (\<forall>(i, sig)\<in>set (sm_signatures sm). unat i < length (active_validators s) \<and>
      tc_ecdsa_verify E sig (tc_sha2_256 E (tc_encode_message E (sm_message sm))) (active_validators s ! unat i))"

definition pending_valid :: "'w thea_config \<Rightarrow> 'w thea \<Rightarrow> bool" where
  "pending_valid E s \<longleftrightarrow> (\<forall>network\<in>set (th_networks s). \<forall>nonce>th_signed_nonce s network.
    \<forall>sm. th_signed s network nonce = Some sm \<longrightarrow> signatures_valid E s sm)"

definition out_inv :: "'w thea_config \<Rightarrow> 'w thea \<Rightarrow> bool" where
  "out_inv E s \<longleftrightarrow> outgoing_wf s \<and> signed_wf s \<and> pending_valid E s \<and> sorted_wrt (<) (th_networks s)"

lemmas out_inv_defs = out_inv_def outgoing_wf_def signed_wf_def pending_valid_def signatures_valid_def active_validators_def

definition out_side :: "'w thea \<Rightarrow> _" where
  "out_side s = (th_authorities s, th_set_id s, th_outgoing s, th_signed s, th_outgoing_nonce s, th_signed_nonce s,
    th_networks s)"

lemma out_inv_cong: "out_side s' = out_side s \<Longrightarrow> out_inv E s' = out_inv E s"
  by (simp add: out_inv_defs out_side_def)

lemma out_side_release_stake [simp]: "out_side (release_stake E msg s) = out_side s"
  by (simp add: release_stake_def out_side_def thea_emit_def split: sum.split)

lemma out_side_execute_message [simp]: "out_side (execute_message E n msg s) = out_side s"
proof -
  have "out_side (execute_message E n msg s) = out_side (s \<lparr> th_incoming_nonce := x, th_world := w \<rparr>)" for x w
    by (simp add: execute_message_def Let_def split: sum.split) (simp add: out_side_def thea_emit_def)
  then show ?thesis
    by (simp add: out_side_def)
qed

lemma out_side_execute_next [simp]: "out_side (execute_next E blk network s) = out_side s"
  by (simp add: execute_next_def Let_def split: option.split) (simp add: out_side_def)

lemma out_side_fold_execute [simp]: "out_side (fold (execute_next E blk) ns s) = out_side s"
  by (induction ns arbitrary: s) simp_all

lemma out_side_on_initialize [simp]: "out_side (thea_on_initialize E blk s) = out_side s"
  by (simp add: thea_on_initialize_def)

lemma out_side_updates [simp]:
  "out_side (s \<lparr> th_block := b \<rparr>) = out_side s" "out_side (s \<lparr> th_world := w \<rparr>) = out_side s"
  by (simp_all add: out_side_def)

lemma out_side_incoming_calls:
  "submit_incoming_message E orig payload stake s = Inr s' \<Longrightarrow> out_side s' = out_side s"
  "update_incoming_nonce orig nonce network s = Inr s' \<Longrightarrow> out_side s' = out_side s"
  "report_misbehaviour E orig network nonce s = Inr s' \<Longrightarrow> out_side s' = out_side s"
  "handle_misbehaviour E orig network nonce acceptance s = Inr s' \<Longrightarrow> out_side s' = out_side s"
  "add_relayer_origin_for_network orig network relayer s = Inr s' \<Longrightarrow> out_side s' = out_side s"
  by (auto simp: submit_incoming_message_def update_incoming_nonce_def report_misbehaviour_def handle_misbehaviour_def
      add_relayer_origin_for_network_def queue_message_def thea_emit_def out_side_def res_simps Let_def foreign_def
      split: option.splits if_splits)

lemma next_nonce: "unat n + 1 < 2 ^ 64 \<Longrightarrow> sat_add (n :: u64) 1 = n + 1 \<and> n < n + 1"
  by (simp add: sat_add_def word_less_nat_alt unat_word_ariths)

lemma out_invD:
  assumes "out_inv E s"
  shows "th_outgoing s network nonce = Some m \<Longrightarrow> m_network m = network \<and> m_nonce m = nonce \<and> nonce \<le> th_outgoing_nonce s network"
    and "th_signed s network nonce = Some sm \<Longrightarrow> sm_wf sm \<and> th_outgoing s network nonce = Some (sm_message sm)"
    and "network \<in> set (th_networks s) \<Longrightarrow> th_signed_nonce s network < nonce \<Longrightarrow> th_signed s network nonce = Some sm \<Longrightarrow>
      signatures_valid E s sm"
    and "sorted_wrt (<) (th_networks s)" and "distinct (th_networks s)"
  using assms strict_sorted_iff by (auto simp: out_inv_def outgoing_wf_def signed_wf_def pending_valid_def)

lemma next_slot_free:
  assumes "out_inv E s" "unat (th_outgoing_nonce s network) + 1 < 2 ^ 64"
  shows "th_outgoing s network (sat_add (th_outgoing_nonce s network) 1) = None"
  using out_invD(1) [OF assms(1), of network "sat_add (th_outgoing_nonce s network) 1"] next_nonce [OF assms(2)]
  by (cases "th_outgoing s network (sat_add (th_outgoing_nonce s network) 1)") auto

text \<open>Storing the next message of a network overwrites nothing and keeps the invariant.\<close>

lemma out_inv_store_outgoing:
  assumes "out_inv E s" "unat (th_outgoing_nonce s network) + 1 < 2 ^ 64"
  shows "out_inv E (store_outgoing (generate_payload ty network d s) s)"
proof -
  let ?n = "sat_add (th_outgoing_nonce s network) 1"
  let ?s = "store_outgoing (generate_payload ty network d s) s"
  have "nonce \<le> sat_add (th_outgoing_nonce s net) 1" if "th_outgoing s net nonce = Some m" for net nonce m
    using out_invD(1) [OF assms(1) that] sat_add_mono order_trans by blast
  then have "outgoing_wf ?s"
    unfolding outgoing_wf_def
    using out_invD(1) [OF assms(1)]
    by (auto simp: store_outgoing_def generate_payload_def put2_apply)
  moreover have "signed_wf ?s"
    unfolding signed_wf_def
    using out_invD(2) [OF assms(1)] next_slot_free [OF assms]
    by (auto simp: store_outgoing_def generate_payload_def put2_apply)
  moreover have "pending_valid E ?s" "sorted_wrt (<) (th_networks ?s)"
    using assms(1) by (simp_all add: out_inv_defs store_outgoing_def)
  ultimately show ?thesis
    by (simp add: out_inv_def)
qed

subsection \<open>A change of the authorities\<close>

text \<open>Both loops over the networks send at most one message to each.\<close>

definition sends :: "Network \<Rightarrow> 'w thea \<Rightarrow> 'w thea \<Rightarrow> bool" where
  "sends network s s' \<longleftrightarrow> (\<exists>e. s' = thea_emit e s) \<or>
    (\<exists>ty d. s' = store_outgoing (generate_payload ty network d s) s)"

fun sent :: "Network list \<Rightarrow> 'w thea \<Rightarrow> 'w thea \<Rightarrow> bool" where
  "sent [] s s' \<longleftrightarrow> s' = s"
| "sent (n # ns) s s' \<longleftrightarrow> (\<exists>t. sends n s t \<and> sent ns t s')"

lemma sends_schedule: "sends n s (snd (schedule_rotation E queued i n (sch, s)))"
  by (auto simp: schedule_rotation_def rotation_payload_def sends_def split: option.split NetworkType.split)

lemma sends_announce: "sends n s (announce_rotation first sch n s)"
  by (auto simp: announce_rotation_def sends_def)

lemma sent_schedule: "sent ns s (snd (fold (schedule_rotation E queued i) ns (sch, s)))"
proof (induction ns arbitrary: s sch)
  case (Cons n ns)
  obtain sch' t where t: "schedule_rotation E queued i n (sch, s) = (sch', t)"
    by fastforce
  with sends_schedule [of n s E queued i sch] Cons.IH [of t sch'] show ?case
    by auto
qed simp

lemma sent_announce: "sent ns s (fold (announce_rotation first sch) ns s)"
  by (induction ns arbitrary: s) (auto intro: sends_announce)

lemma sends_effect:
  assumes "sends n s s'" "out_inv E s" "unat (th_outgoing_nonce s n) + 1 < 2 ^ 64"
  shows "out_inv E s'" and "unat (th_outgoing_nonce s' m) \<le> unat (th_outgoing_nonce s m) + (if m = n then 1 else 0)"
    and "th_outgoing s net k = Some msg \<Longrightarrow> th_outgoing s' net k = Some msg"
    and "th_signed_nonce s' = th_signed_nonce s" and "th_networks s' = th_networks s"
proof -
  consider e where "s' = thea_emit e s" | ty d where "s' = store_outgoing (generate_payload ty n d s) s"
    using assms(1) by (auto simp: sends_def)
  then have "out_inv E s' \<and> unat (th_outgoing_nonce s' m) \<le> unat (th_outgoing_nonce s m) + (if m = n then 1 else 0) \<and>
    (th_outgoing s net k = Some msg \<longrightarrow> th_outgoing s' net k = Some msg) \<and>
    th_signed_nonce s' = th_signed_nonce s \<and> th_networks s' = th_networks s"
  proof cases
    case 1
    then have "out_side s' = out_side s"
      by (simp add: out_side_def thea_emit_def)
    then show ?thesis
      using assms(2) out_inv_cong [of s' s E] by (simp add: out_side_def)
  next
    case 2
    then show ?thesis
      using out_inv_store_outgoing [OF assms(2,3), of ty d] next_slot_free [OF assms(2,3)]
      by (auto simp: store_outgoing_def generate_payload_def unat_sat_add put2_apply)
  qed
  then show "out_inv E s'" "unat (th_outgoing_nonce s' m) \<le> unat (th_outgoing_nonce s m) + (if m = n then 1 else 0)"
    "th_outgoing s net k = Some msg \<Longrightarrow> th_outgoing s' net k = Some msg"
    "th_signed_nonce s' = th_signed_nonce s" "th_networks s' = th_networks s"
    by auto
qed

lemma sent_effect:
  assumes "sent ns s s'" "distinct ns" "out_inv E s" "\<And>n. n \<in> set ns \<Longrightarrow> unat (th_outgoing_nonce s n) + 1 < 2 ^ 64"
  shows "out_inv E s' \<and> (\<forall>m. unat (th_outgoing_nonce s' m) \<le> unat (th_outgoing_nonce s m) + (if m \<in> set ns then 1 else 0)) \<and>
    (\<forall>net k msg. th_outgoing s net k = Some msg \<longrightarrow> th_outgoing s' net k = Some msg) \<and>
    th_signed_nonce s' = th_signed_nonce s \<and> th_networks s' = th_networks s"
  using assms
proof (induction ns arbitrary: s)
  case (Cons n ns)
  then obtain t where t: "sends n s t" "sent ns t s'"
    by auto
  have "unat (th_outgoing_nonce s n) + 1 < 2 ^ 64"
    using Cons.prems(4) [of n] by simp
  note e = sends_effect [OF t(1) Cons.prems(3) this]
  have other: "m \<noteq> n" if "m \<in> set ns" for m
    using Cons.prems(2) that by auto
  have room: "unat (th_outgoing_nonce t m) + 1 < 2 ^ 64" if "m \<in> set ns" for m
    using e(2) [of m] other [OF that] Cons.prems(4) [of m] that by simp
  have up: "unat (th_outgoing_nonce t m) + (if m \<in> set ns then 1 else 0) \<le>
      unat (th_outgoing_nonce s m) + (if m \<in> set (n # ns) then 1 else 0)" for m
    using e(2) [of m] other [of m] by (cases "m = n"; cases "m \<in> set ns") auto
  have "distinct ns"
    using Cons.prems(2) by simp
  from Cons.IH [OF t(2) this e(1) room] show ?case
    using order_trans [OF _ up] e(3-5) by (metis (no_types, lifting))
qed simp

lemma sent_keeps:
  assumes "sent ns s s'" "distinct ns" "out_inv E s" "\<And>n. unat (th_outgoing_nonce s n) + 1 < 2 ^ 64"
  shows "out_inv E s' \<and> (\<forall>m. unat (th_outgoing_nonce s' m) \<le> unat (th_outgoing_nonce s m) + 1) \<and>
    (\<forall>net k msg. th_outgoing s net k = Some msg \<longrightarrow> th_outgoing s' net k = Some msg) \<and>
    th_signed_nonce s' = th_signed_nonce s \<and> th_networks s' = th_networks s"
proof -
  note e = sent_effect [OF assms]
  then have "unat (th_outgoing_nonce s' m) \<le> unat (th_outgoing_nonce s m) + 1" for m
    by (smt (verit) add.right_neutral le_Suc_eq add_Suc_right One_nat_def)
  with e show ?thesis
    by blast
qed

definition renewed :: "u64 \<Rightarrow> SignedMessage \<Rightarrow> SignedMessage" where
  "renewed i sm = sm \<lparr> sm_validator_set_id := i, sm_signatures := [] \<rparr>"

lemma reset_signatures_eq:
  "reset_signatures i net n s =
    s \<lparr> th_signed := put2 net n (map_option (renewed i) (th_signed s net n)) (th_signed s) \<rparr>"
proof (cases "th_signed s net n")
  case None
  then have "put2 net n None (th_signed s) = th_signed s"
    by (auto simp: put2_apply fun_eq_iff)
  with None show ?thesis
    by (simp add: reset_signatures_def)
qed (simp add: reset_signatures_def renewed_def)

lemma renewed_twice [simp]: "renewed i (renewed i sm) = renewed i sm"
  by (simp add: renewed_def)

lemma thea_signed_cong:
  "(\<And>net n. f net n = g net n) \<Longrightarrow> s \<lparr> th_signed := h, th_signed := f \<rparr> = s \<lparr> th_signed := g \<rparr>"
proof -
  assume "\<And>net n. f net n = g net n"
  then have "f = g"
    by (simp add: fun_eq_iff)
  then show ?thesis
    by simp
qed

text \<open>The loop over the nonces renews exactly the entries of the given nonces.\<close>

lemma fold_reset_signatures:
  "fold (reset_signatures i net) ks s = s \<lparr> th_signed := (\<lambda>net' n.
    if net' = net \<and> n \<in> set ks then map_option (renewed i) (th_signed s net' n) else th_signed s net' n) \<rparr>"
proof (induction ks arbitrary: s)
  case (Cons k ks)
  show ?case
    unfolding fold_Cons comp_apply Cons.IH unfolding reset_signatures_eq
    by (intro thea_signed_cong) (auto simp: put2_apply option.map_comp comp_def)
qed simp

lemma set_pending_nonces:
  "n \<in> set (pending_nonces net s) \<longleftrightarrow> sat_add (th_signed_nonce s net) 1 \<le> n \<and> n \<le> th_outgoing_nonce s net"
  (is "?l \<longleftrightarrow> ?r")
proof
  assume ?l
  then obtain k where "n = word_of_nat k" "unat (sat_add (th_signed_nonce s net) 1) \<le> k" "k \<le> unat (th_outgoing_nonce s net)"
    by (auto simp: pending_nonces_def simp del: upt_Suc)
  moreover from this have "unat n = k"
    using unat_less_exp [of "th_outgoing_nonce s net"] by (simp add: unat_of_nat)
  ultimately show ?r
    by (simp add: word_le_nat_alt)
next
  assume ?r
  then show ?l
    unfolding pending_nonces_def set_map
    by (intro image_eqI [of _ _ "unat n"]) (auto simp: word_le_nat_alt)
qed

lemma fold_reset_network:
  "fold (reset_network i) ns s = s \<lparr> th_signed := (\<lambda>net n.
    if net \<in> set ns \<and> sat_add (th_signed_nonce s net) 1 \<le> n \<and> n \<le> th_outgoing_nonce s net
    then map_option (renewed i) (th_signed s net n) else th_signed s net n) \<rparr>"
proof (induction ns arbitrary: s)
  case (Cons m ns)
  show ?case
    unfolding fold_Cons comp_apply Cons.IH unfolding reset_network_def fold_reset_signatures
    by (intro thea_signed_cong) (auto simp: set_pending_nonces option.map_comp comp_def)
qed simp

lemma le_sat_add_one: "(a :: u64) < n \<Longrightarrow> sat_add a 1 \<le> n"
  using unat_less_exp [of n] by (auto simp: word_le_nat_alt word_less_nat_alt unat_sat_add)

text \<open>Installing a new set and renewing the pending messages keeps the invariant.\<close>

lemma out_inv_install:
  assumes "out_inv E s"
  shows "out_inv E (fold (reset_network i) (th_networks s)
    (s \<lparr> th_authorities := auths, th_set_id := i \<rparr>))" (is "out_inv E ?s")
proof -
  have "outgoing_wf ?s" "sorted_wrt (<) (th_networks ?s)"
    using assms by (simp_all add: fold_reset_network out_inv_def outgoing_wf_def)
  moreover have "signed_wf ?s"
    using out_invD(2) [OF assms]
    by (fastforce simp: signed_wf_def fold_reset_network renewed_def sm_wf_def bt_wf_def split: if_splits)
  moreover have "signatures_valid E ?s sm"
    if entry: "net \<in> set (th_networks s)" "th_signed_nonce s net < n" "th_signed ?s net n = Some sm" for net n sm
  proof -
    obtain old where old: "th_signed s net n = Some old"
      using entry(3) by (auto simp: fold_reset_network split: if_splits)
    then have "n \<le> th_outgoing_nonce s net"
      using out_invD(1,2) [OF assms] by blast
    then have "sm = renewed i old"
      using entry le_sat_add_one old by (simp add: fold_reset_network)
    then show ?thesis
      by (simp add: signatures_valid_def renewed_def fold_reset_network)
  qed
  ultimately show ?thesis
    by (simp add: out_inv_def pending_valid_def fold_reset_network)
qed

text \<open>
  The shape of a session change: messages to the networks, a note of the next set, and, when the
  set changes, its installation followed by more messages.
\<close>

definition installed :: "TheaId list \<Rightarrow> u64 \<Rightarrow> Network list \<Rightarrow> 'w thea \<Rightarrow> 'w thea" where
  "installed incoming i ns s = fold (reset_network i) ns
    (s \<lparr> th_authorities := ((th_authorities s) (i := incoming)) (sat_sub i 2 := []), th_set_id := i \<rparr>)"

definition prepared :: "TheaId list \<Rightarrow> 'w thea \<Rightarrow> 'w thea \<Rightarrow> bool" where
  "prepared queued s u \<longleftrightarrow> u = s \<or> (\<exists>t. sent (th_networks s) s t \<and> u = t \<lparr> th_next_authorities := queued \<rparr>)"

lemma change_authorities_shape:
  obtains u where "prepared queued s u"
    and "set incoming = set (active_validators s) \<Longrightarrow> change_authorities E incoming queued s = u"
    and "set incoming \<noteq> set (active_validators s) \<Longrightarrow>
      sent (th_networks s) (installed incoming (th_set_id s + 1) (th_networks s) u) (change_authorities E incoming queued s)"
proof -
  let ?i = "th_set_id s + 1" and ?ran = "set incoming \<noteq> set queued"
  obtain sch t where t: "fold (schedule_rotation E queued ?i) (th_networks s) ([], s) = (sch, t)"
    by fastforce
  define p where "p = (if ?ran then (sch, t \<lparr> th_next_authorities := queued \<rparr>) else ([], s))"
  have "change_authorities E incoming queued s = (if set incoming \<noteq> set (active_validators s)
      then fold (announce_rotation ?ran (fst p)) (th_networks s) (installed incoming ?i (th_networks s) (snd p)) else snd p)"
    unfolding change_authorities_def Let_def t prod.case p_def [symmetric] installed_def active_validators_def
    by (simp add: split_beta)
  moreover have "prepared queued s (snd p)"
    using sent_schedule [of "th_networks s" s E queued ?i "[]"] t by (auto simp: p_def prepared_def)
  ultimately show ?thesis
    using sent_announce by (intro that [of "snd p"]) simp_all
qed

lemma nonces_leftD: "nonces_left s \<Longrightarrow> unat (th_outgoing_nonce s network) + 2 < 2 ^ 64"
  by (simp add: nonces_left_def)

text \<open>A new session keeps the invariant and every message already sent.\<close>

lemma change_authorities_effect:
  assumes "out_inv E s" "nonces_left s"
  shows "out_inv E (change_authorities E incoming queued s)"
    and "th_outgoing s net k = Some msg \<Longrightarrow> th_outgoing (change_authorities E incoming queued s) net k = Some msg"
    and "th_signed_nonce (change_authorities E incoming queued s) = th_signed_nonce s"
    and "th_networks (change_authorities E incoming queued s) = th_networks s"
proof -
  let ?r = "change_authorities E incoming queued s"
  define good where "good t \<longleftrightarrow> out_inv E t \<and> (\<forall>m. unat (th_outgoing_nonce t m) \<le> unat (th_outgoing_nonce s m) + 1) \<and>
    (\<forall>net k msg. th_outgoing s net k = Some msg \<longrightarrow> th_outgoing t net k = Some msg) \<and>
    th_signed_nonce t = th_signed_nonce s \<and> th_networks t = th_networks s" for t
  have room: "unat (th_outgoing_nonce s m) + 2 < 2 ^ 64" for m
    by (rule nonces_leftD [OF assms(2)])
  have room1: "unat (th_outgoing_nonce s m) + 1 < 2 ^ 64" for m
    using room [of m] by simp
  have good_next: "good (t \<lparr> th_next_authorities := q \<rparr>) = good t" for t q
    using out_inv_cong [of "t \<lparr> th_next_authorities := q \<rparr>" t E] by (simp add: good_def out_side_def)
  have good_installed: "good (installed i j (th_networks s) t)" if "good t" for t i j
    using that out_inv_install [of E t j] by (simp add: good_def installed_def fold_reset_network)
  have "good s"
    using assms(1) by (simp add: good_def)
  moreover have "good t" if "sent (th_networks s) s t" for t
    using sent_keeps [OF that out_invD(5) [OF assms(1)] assms(1) room1] by (simp add: good_def)
  ultimately have prep: "good u" if "prepared queued s u" for u
    using that good_next by (auto simp: prepared_def)
  have final: "out_inv E u' \<and> (\<forall>net k msg. th_outgoing s net k = Some msg \<longrightarrow> th_outgoing u' net k = Some msg) \<and>
    th_signed_nonce u' = th_signed_nonce s \<and> th_networks u' = th_networks s"
    if "good u" "sent (th_networks s) u u'" for u u'
  proof -
    have u: "out_inv E u" "unat (th_outgoing_nonce u m) \<le> unat (th_outgoing_nonce s m) + 1" for m
      using that(1) by (simp_all add: good_def)
    have "unat (th_outgoing_nonce u m) + 1 < 2 ^ 64" for m
      using u(2) [of m] room [of m] by simp
    from sent_keeps [OF that(2) out_invD(5) [OF assms(1)] u(1) this] show ?thesis
      using that(1) by (simp add: good_def)
  qed
  have "out_inv E ?r \<and> (\<forall>net k msg. th_outgoing s net k = Some msg \<longrightarrow> th_outgoing ?r net k = Some msg) \<and>
    th_signed_nonce ?r = th_signed_nonce s \<and> th_networks ?r = th_networks s"
  proof (rule change_authorities_shape [of queued s incoming E])
    fix u
    assume u: "prepared queued s u" "set incoming = set (active_validators s) \<Longrightarrow> ?r = u"
      "set incoming \<noteq> set (active_validators s) \<Longrightarrow> sent (th_networks s) (installed incoming (th_set_id s + 1) (th_networks s) u) ?r"
    show ?thesis
    proof (cases "set incoming = set (active_validators s)")
      case True
      show ?thesis
        using prep [OF u(1)] by (simp add: u(2) [OF True] good_def)
    next
      case False
      show ?thesis
        by (rule final [OF good_installed [OF prep [OF u(1)]] u(3) [OF False]])
    qed
  qed
  then show "out_inv E ?r" "th_outgoing s net k = Some msg \<Longrightarrow> th_outgoing ?r net k = Some msg"
    "th_signed_nonce ?r = th_signed_nonce s" "th_networks ?r = th_networks s"
    by blast+
qed

subsection \<open>Collecting signatures\<close>

lemma set_bt_insert_le: "set (bt_insert k v m) \<subseteq> insert (k, v) (set m)"
  by (induction k v m rule: bt_insert.induct) auto

lemma length_bt_insert_ge: "length m \<le> length (bt_insert k v m)"
  by (induction k v m rule: bt_insert.induct) auto

lemma threshold_reached_add: "threshold_reached sm n \<Longrightarrow> threshold_reached (add_signature m i a sig sm) n"
  using length_bt_insert_ge [of "sm_signatures sm" a sig]
  by (auto simp: threshold_reached_def add_signature_def split: if_splits)

definition good_signature :: "'w thea_config \<Rightarrow> 'w thea \<Rightarrow> u32 \<Rightarrow> Network \<times> u64 \<times> TheaSignature \<Rightarrow> bool" where
  "good_signature E s a sig \<longleftrightarrow> (case sig of (net, nonce, signature) \<Rightarrow>
    nonce = sat_add (th_signed_nonce s net) 1 \<and> (\<exists>m. th_outgoing s net nonce = Some m \<and>
      tc_ecdsa_verify E signature (tc_sha2_256 E (tc_encode_message E m)) (active_validators s ! unat a)))"

lemma validated_signatures:
  assumes "validate_signed_outgoing_message E a i sigs s = Valid"
  shows "i = th_set_id s" and "unat a < length (active_validators s)" and "\<And>sig. sig \<in> set sigs \<Longrightarrow> good_signature E s a sig"
proof -
  have "check_outgoing_signatures E a (active_validators s ! unat a) sigs s = Valid" "i = th_set_id s"
    "unat a < length (active_validators s)"
    using assms by (auto simp: validate_signed_outgoing_message_def Let_def active_validators_def split: if_splits)
  moreover have "check_outgoing_signatures E a (active_validators s ! unat a) sigs s = Valid \<Longrightarrow>
      \<forall>sig\<in>set sigs. good_signature E s a sig"
    by (induction sigs) (auto simp: good_signature_def split: if_splits option.splits)
  ultimately show "i = th_set_id s" "unat a < length (active_validators s)" "\<And>sig. sig \<in> set sigs \<Longrightarrow> good_signature E s a sig"
    by blast+
qed

text \<open>What holds while the signatures of one transaction are recorded, starting in \<open>s0\<close>.\<close>

definition signing :: "'w thea_config \<Rightarrow> 'w thea \<Rightarrow> 'w thea \<Rightarrow> bool" where
  "signing E s0 s \<longleftrightarrow>
    (th_authorities s, th_set_id s, th_outgoing s, th_outgoing_nonce s, th_networks s) =
    (th_authorities s0, th_set_id s0, th_outgoing s0, th_outgoing_nonce s0, th_networks s0) \<and> signed_wf s \<and>
    (\<forall>net\<in>set (th_networks s0). \<forall>n>th_signed_nonce s0 net. \<forall>sm. th_signed s net n = Some sm \<longrightarrow> signatures_valid E s0 sm) \<and>
    (\<forall>net. th_signed_nonce s net = th_signed_nonce s0 net \<or>
      th_signed_nonce s net = sat_add (th_signed_nonce s0 net) 1 \<and> (\<exists>sm. th_signed s net (th_signed_nonce s net) = Some sm \<and>
        threshold_reached sm (length (active_validators s0))))"

lemma sm_message_new [simp]: "sm_message (SignedMessage_new m i a sig) = m"
  by (simp add: SignedMessage_new_def)

lemma signatures_valid_new:
  assumes "unat a < length (active_validators s)"
    "tc_ecdsa_verify E sig (tc_sha2_256 E (tc_encode_message E m)) (active_validators s ! unat a)"
  shows "signatures_valid E s (SignedMessage_new m (th_set_id s) a sig)"
    and "signatures_valid E s sm \<Longrightarrow> signatures_valid E s (add_signature m (th_set_id s) a sig sm)"
proof -
  show "signatures_valid E s (SignedMessage_new m (th_set_id s) a sig)"
    using assms by (simp add: signatures_valid_def SignedMessage_new_def)
  show "signatures_valid E s (add_signature m (th_set_id s) a sig sm)" if "signatures_valid E s sm"
    using assms that set_bt_insert_le [of a sig "sm_signatures sm"]
    by (auto simp: signatures_valid_def add_signature_def)
qed

lemma signing_update:
  assumes "signing E s0 s" and n: "n = sat_add (th_signed_nonce s0 net) 1"
    and m: "th_outgoing s0 net n = Some (sm_message sm)" "sm_wf sm"
    and valid: "net \<in> set (th_networks s0) \<Longrightarrow> th_signed_nonce s0 net < n \<Longrightarrow> signatures_valid E s0 sm"
    and mono: "\<And>old. th_signed s net n = Some old \<Longrightarrow> threshold_reached old (length (active_validators s0)) \<Longrightarrow>
      threshold_reached sm (length (active_validators s0))"
    and s': "(th_authorities s', th_set_id s', th_outgoing s', th_outgoing_nonce s', th_networks s') =
      (th_authorities s, th_set_id s, th_outgoing s, th_outgoing_nonce s, th_networks s)"
      "th_signed s' = put2 net n (Some sm) (th_signed s)"
      "th_signed_nonce s' = th_signed_nonce s \<or>
        threshold_reached sm (length (active_validators s0)) \<and> th_signed_nonce s' = (th_signed_nonce s) (net := n)"
  shows "signing E s0 s'"
proof -
  note run = assms(1) [unfolded signing_def]
  have "signed_wf s'"
    using run m s'(1) by (auto simp: signed_wf_def s'(2) put2_apply)
  moreover have "\<forall>net'\<in>set (th_networks s0). \<forall>k>th_signed_nonce s0 net'. \<forall>x. th_signed s' net' k = Some x \<longrightarrow> signatures_valid E s0 x"
    using run valid by (auto simp: s'(2) put2_apply)
  moreover have "th_signed_nonce s' net' = th_signed_nonce s0 net' \<or>
      th_signed_nonce s' net' = sat_add (th_signed_nonce s0 net') 1 \<and> (\<exists>x. th_signed s' net' (th_signed_nonce s' net') = Some x \<and>
        threshold_reached x (length (active_validators s0)))" for net'
  proof (cases "net' = net")
    case True
    have "th_signed_nonce s net = th_signed_nonce s0 net \<or> th_signed_nonce s net = n \<and>
        (\<exists>x. th_signed s net n = Some x \<and> threshold_reached x (length (active_validators s0)))"
      using run n by metis
    then show ?thesis
      using s'(3) mono n by (auto simp: True s'(2) put2_apply)
  next
    case False
    then have "th_signed_nonce s' net' = th_signed_nonce s net'" "th_signed s' net' = th_signed s net'"
      using s'(3) by (auto simp: s'(2) put2_def)
    then show ?thesis
      using run by simp
  qed
  ultimately show ?thesis
    using run s'(1) by (simp add: signing_def)
qed

lemma signing_record:
  assumes "signing E s0 s" "good_signature E s0 a sig" "unat a < length (active_validators s0)"
    and "record_signature a (th_set_id s0) (length (active_validators s0)) sig s = Inr s'"
  shows "signing E s0 s'"
proof -
  obtain net n signature m where sig: "sig = (net, n, signature)" "n = sat_add (th_signed_nonce s0 net) 1"
    "th_outgoing s0 net n = Some m"
    "tc_ecdsa_verify E signature (tc_sha2_256 E (tc_encode_message E m)) (active_validators s0 ! unat a)"
    using assms(2) by (auto simp: good_signature_def split: prod.splits)
  note new = signatures_valid_new [OF assms(3) sig(4)]
  have out: "th_outgoing s net n = Some m"
    using assms(1) sig(3) by (simp add: signing_def)
  show ?thesis
  proof (cases "th_signed s net n")
    case None
    then have s': "s' = s \<lparr> th_signed := put2 net n (Some (SignedMessage_new m (th_set_id s0) a signature)) (th_signed s) \<rparr>"
      using assms(4) out by (simp add: record_signature_def sig(1))
    show ?thesis
      by (rule signing_update [OF assms(1) sig(2), of "SignedMessage_new m (th_set_id s0) a signature"])
        (use sig(3) new(1) None in \<open>simp_all add: s'\<close>)
  next
    case (Some old)
    have old: "sm_wf old" "sm_message old = m"
      using assms(1) Some out by (auto simp: signing_def signed_wf_def)
    show ?thesis
      by (rule signing_update [OF assms(1) sig(2), of "add_signature m (th_set_id s0) a signature old"])
        (use assms(1,4) old sig(3) new(2) Some out threshold_reached_add in
          \<open>auto simp: record_signature_def sig(1) Let_def thea_emit_def signing_def split: if_splits\<close>)
  qed
qed

lemma signing_submit:
  assumes "out_inv E s" "validate_signed_outgoing_message E a i sigs s = Valid"
    and "submit_signed_outgoing_messages orig a i sigs s = Inr s'"
  shows "signing E s s'"
proof -
  note v = validated_signatures [OF assms(2)]
  have run: "fold_res (record_signature a (th_set_id s) (length (active_validators s))) sigs s = Inr s'"
    using assms(3) v(1) by (simp add: submit_signed_outgoing_messages_def Let_def active_validators_def res_simps)
  have "signing E s s"
    using assms(1) by (simp add: signing_def out_inv_def pending_valid_def)
  then show ?thesis
    by (rule fold_res_invariant [OF run]) (rule signing_record [OF _ v(3) v(2)])
qed

lemma out_inv_signing:
  assumes "out_inv E s" "signing E s s'"
  shows "out_inv E s'"
proof -
  have same: "th_authorities s' = th_authorities s" "th_set_id s' = th_set_id s" "th_networks s' = th_networks s"
    "th_outgoing s' = th_outgoing s" "th_outgoing_nonce s' = th_outgoing_nonce s"
    using assms(2) by (simp_all add: signing_def)
  have "th_signed_nonce s net \<le> th_signed_nonce s' net" for net
    using assms(2) sat_add_mono [of "th_signed_nonce s net" 1] unfolding signing_def by (metis order_refl)
  then have "th_signed_nonce s net < n" if "th_signed_nonce s' net < n" for net n
    using that by (rule le_less_trans)
  moreover have "signatures_valid E s' = signatures_valid E s"
    by (simp add: signatures_valid_def active_validators_def same fun_eq_iff)
  ultimately have "pending_valid E s'"
    using assms(2) unfolding pending_valid_def signing_def same by metis
  then show ?thesis
    using assms by (simp add: out_inv_def outgoing_wf_def signing_def)
qed

subsection \<open>Every step keeps the invariant\<close>

lemma out_inv_networks:
  assumes "out_inv E s" "sorted_wrt (<) ns"
    and "\<And>net n. net \<in> set ns \<Longrightarrow> net \<notin> set (th_networks s) \<Longrightarrow> th_signed_nonce s net < n \<Longrightarrow> th_signed s net n = None"
  shows "out_inv E (s \<lparr> th_config := c, th_networks := ns \<rparr>)"
  using assms out_invD(3) [OF assms(1)]
  by (simp add: out_inv_def outgoing_wf_def signed_wf_def pending_valid_def signatures_valid_def active_validators_def) fastforce

text \<open>What a step guarantees to the outgoing side.\<close>

definition keeps :: "'w thea_config \<Rightarrow> 'w thea \<Rightarrow> 'w thea \<Rightarrow> bool" where
  "keeps E s s' \<longleftrightarrow> out_inv E s' \<and>
    (\<forall>net k msg. th_outgoing s net k = Some msg \<longrightarrow> th_outgoing s' net k = Some msg) \<and>
    (th_signed_nonce s' = th_signed_nonce s \<or> signing E s s')"

lemma keeps_same_side: "out_inv E s \<Longrightarrow> out_side s' = out_side s \<Longrightarrow> keeps E s s'"
  using out_inv_cong [of s' s E] by (simp add: keeps_def out_side_def)

lemma keeps_withdrawal:
  assumes "execute_withdrawals network d s = Inr s'" "out_inv E s" "nonces_left s"
  shows "keeps E s s'"
proof -
  have "sends network s s'"
    using assms(1) by (auto simp: execute_withdrawals_def Let_def res_simps sends_def)
  moreover have "unat (th_outgoing_nonce s network) + 1 < 2 ^ 64"
    using nonces_leftD [OF assms(3), of network] by simp
  ultimately show ?thesis
    using sends_effect [of network s s' E] assms(2) by (auto simp: keeps_def)
qed

lemma keeps_call:
  assumes "thea_dispatch E orig c s = Inr s'" "orig = Unsigned \<longrightarrow> thea_validate_unsigned E c s = Valid"
    and "out_inv E s" "nonces_left s" "activated_clean s s'"
  shows "keeps E s s'"
proof (cases c)
  case (SubmitSignedOutgoingMessages a i sigs)
  then have "signing E s s'"
    using assms(1,2) signing_submit [OF assms(3)]
    by (auto simp: submit_signed_outgoing_messages_def res_simps)
  then show ?thesis
    using out_inv_signing [OF assms(3)] by (simp add: keeps_def signing_def)
next
  case (SendTheaMessage d network)
  then show ?thesis
    using assms(1) keeps_withdrawal [OF _ assms(3,4)] by (auto simp: send_thea_message_def res_simps)
next
  case (UpdateOutgoingNonce nonce network)
  then have s': "th_outgoing_nonce s network \<le> nonce" "s' = s \<lparr> th_outgoing_nonce := (th_outgoing_nonce s) (network := nonce) \<rparr>"
    using assms(1) by (auto simp: update_outgoing_nonce_def res_simps)
  have "outgoing_wf s'"
    using assms(3) s'(1) by (fastforce simp: s'(2) out_inv_def outgoing_wf_def intro: order_trans)
  then show ?thesis
    using assms(3) by (simp add: keeps_def s'(2) out_inv_defs)
next
  case (AddTheaNetwork network is_evm fork_period min_stake fisherman_stake)
  then have s': "s' = s \<lparr> th_config := (th_config s) (network := NetworkConfig_new fork_period min_stake fisherman_stake is_evm),
      th_networks := bs_insert network (th_networks s) \<rparr>"
    using assms(1) by (auto simp: add_thea_network_def res_simps)
  have "out_inv E s'"
    unfolding s' by (rule out_inv_networks [OF assms(3)])
      (use assms(5) out_invD(4) [OF assms(3)] in \<open>auto simp: s' sorted_bs_insert set_bs_insert activated_clean_def\<close>)
  then show ?thesis
    by (simp add: keeps_def s')
next
  case (RemoveTheaNetwork network)
  then have s': "s' = s \<lparr> th_networks := bs_remove network (th_networks s) \<rparr>"
    using assms(1) by (auto simp: remove_thea_network_def res_simps)
  have "out_inv E (s \<lparr> th_config := th_config s, th_networks := bs_remove network (th_networks s) \<rparr>)"
    by (rule out_inv_networks [OF assms(3)])
      (use sorted_bs_remove [OF out_invD(4) [OF assms(3)], of network] in \<open>auto simp: bs_remove_def dest: notin_set_remove1\<close>)
  then show ?thesis
    by (simp add: keeps_def s')
qed (use assms(1) in \<open>auto intro!: keeps_same_side [OF assms(3)] dest: out_side_incoming_calls\<close>)

lemma keeps_step:
  assumes "thea_step E s s'" "out_inv E s" "nonces_left s" "activated_clean s s'"
  shows "keeps E s s'"
  using assms(1)
proof cases
  case (call orig c)
  then show ?thesis
    using keeps_call assms(2-4) by blast
next
  case block
  then show ?thesis
    by (auto intro!: keeps_same_side [OF assms(2)])
next
  case (session validators queued)
  then show ?thesis
    using change_authorities_effect [OF assms(2,3)] by (simp add: keeps_def thea_on_new_session_def)
next
  case (withdrawal network d)
  then show ?thesis
    using keeps_withdrawal assms(2,3) by blast
next
  case (outside w)
  then show ?thesis
    by (auto intro!: keeps_same_side [OF assms(2)])
qed

lemma reachable_out_inv: "thea_reachable E s \<Longrightarrow> out_inv E s"
proof (induction rule: thea_reachable.induct)
  case (genesis validators w)
  show ?case
    by (simp add: thea_on_genesis_session_def initialize_authorities_def thea_empty_def out_inv_defs)
next
  case (step s s')
  then show ?case
    using keeps_step by (auto simp: keeps_def)
qed

end
