(* ===== verification/Thea_Theorems.thy ===== *)
theory Thea_Theorems
  imports Thea_Safety
begin

text \<open>
  The properties of the bridge: finality needs a quorum of valid signatures, sent messages are
  never overwritten, and two ways in which the pallet fails its purpose: an incoming message is
  lost when it is inspected before its fork period is over, and signatures of a retired set
  finalise messages of a network that is not active.
\<close>

subsection \<open>A sample bridge\<close>

definition sample_thea_config :: "unit thea_config" where
  "sample_thea_config =
    \<lparr> tc_max_authorities = 10, tc_executor = (\<lambda>_ _ w. Inr w), tc_hold = (\<lambda>_ _ w. Inr w), tc_release = (\<lambda>_ _ w. Inr w),
      tc_reducible = (\<lambda>_ _. 1000), tc_transfer = (\<lambda>_ _ _ w. Inr w), tc_burn_from = (\<lambda>_ _ w. Inr w),
      tc_governance = (\<lambda>orig. orig = Root), tc_encode_message = m_data, tc_encode_set = (\<lambda>p. concat (snd p)),
      tc_encode_evm_set = (\<lambda>_. []), tc_sha2_256 = (\<lambda>b. b), tc_ecdsa_verify = (\<lambda>sig h key. sig = key @ h) \<rparr>"

definition sample_bridge :: "unit thea" where
  "sample_bridge = thea_on_genesis_session sample_thea_config [(1, [1]), (2, [2])] (thea_empty ())"

definition sample_open :: "unit thea" where
  "sample_open = sample_bridge
    \<lparr> th_config := (th_config sample_bridge) (3 := NetworkConfig_new 2 5 5 False), th_networks := [3] \<rparr>"

definition sample_message :: Message where
  "sample_message = \<lparr> m_block_no = 0, m_nonce = 1, m_network = 3, m_payload_type = L1Deposit, m_data = [7] \<rparr>"

definition sample_sent :: "unit thea" where
  "sample_sent = sample_open
    \<lparr> th_outgoing_nonce := (\<lambda>_. 0) (3 := 1), th_outgoing := put2 3 1 (Some sample_message) (\<lambda>_ _. None) \<rparr>"

definition sample_half :: "unit thea" where
  "sample_half = sample_sent
    \<lparr> th_signed := put2 3 1 (Some (SignedMessage_new sample_message 0 0 [1, 7])) (\<lambda>_ _. None) \<rparr>"

lemmas sample_thea_defs = sample_thea_config_def sample_bridge_def sample_open_def sample_sent_def sample_half_def
  thea_on_genesis_session_def initialize_authorities_def thea_empty_def THEA_GENESIS_AUTHORITY_SET_ID_def

lemma sample_thea_steps:
  "thea_dispatch sample_thea_config Root (AddTheaNetwork 3 False 2 5 5) sample_bridge = Inr sample_open"
  "thea_dispatch sample_thea_config Root (SendTheaMessage [7] 3) sample_open = Inr sample_sent"
  "thea_validate_unsigned sample_thea_config (SubmitSignedOutgoingMessages 0 0 [(3, 1, [1, 7])]) sample_sent = Valid"
  "thea_dispatch sample_thea_config Unsigned (SubmitSignedOutgoingMessages 0 0 [(3, 1, [1, 7])]) sample_sent = Inr sample_half"
  by (simp_all add: sample_thea_defs add_thea_network_def send_thea_message_def execute_withdrawals_def generate_payload_def
      store_outgoing_def bs_insert_def submit_signed_outgoing_messages_def validate_signed_outgoing_message_def Let_def
      record_signature_def sat_add_code sat_into_code sample_message_def)

lemma sample_thea_sides:
  "nonces_left sample_bridge" "nonces_left sample_open" "nonces_left sample_sent" "nonces_left sample_half"
  "activated_clean sample_bridge sample_open" "activated_clean sample_open sample_sent" "activated_clean sample_sent sample_half"
  by (simp_all add: sample_thea_defs nonces_left_def activated_clean_def)

lemma sample_thea_reachable: "thea_reachable sample_thea_config sample_half"
proof -
  have "thea_reachable sample_thea_config sample_bridge"
    unfolding sample_bridge_def by (rule thea_reachable.genesis)
  from thea_reachable.step [OF this thea_step.call [OF sample_thea_steps(1)] sample_thea_sides(1,5)]
  have "thea_reachable sample_thea_config sample_open"
    by simp
  from thea_reachable.step [OF this thea_step.call [OF sample_thea_steps(2)] sample_thea_sides(2,6)]
  have "thea_reachable sample_thea_config sample_sent"
    by simp
  from thea_reachable.step [OF this thea_step.call [OF sample_thea_steps(4)] sample_thea_sides(3,7)]
  show ?thesis
    using sample_thea_steps(3) by blast
qed

subsection \<open>Finality needs a quorum\<close>

lemma less_sat_add_one:
  assumes "a < sat_add a 1"
  shows "sat_add a 1 = (a + 1 :: u64)"
proof -
  have "unat a < unat (sat_add a 1)"
    using assms by (simp add: word_less_nat_alt)
  then have "unat a + 1 < 2 ^ 64"
    using unat_less_exp [of "sat_add a 1"] by simp
  then show ?thesis
    by (rule next_nonce [THEN conjunct1])
qed


definition sample_done :: "unit thea" where
  "sample_done = projr (thea_dispatch sample_thea_config Unsigned (SubmitSignedOutgoingMessages 1 0 [(3, 1, [2, 7])]) sample_half)"

lemma sample_finalized:
  "thea_step sample_thea_config sample_half sample_done" "activated_clean sample_half sample_done"
  "th_signed_nonce sample_half 3 = 0" "th_signed_nonce sample_done 3 = 1" "set (th_networks sample_half) = {3}"
  "length (active_validators sample_half) = 2"
proof -
  have ok: "thea_dispatch sample_thea_config Unsigned (SubmitSignedOutgoingMessages 1 0 [(3, 1, [2, 7])]) sample_half = Inr sample_done"
    "thea_validate_unsigned sample_thea_config (SubmitSignedOutgoingMessages 1 0 [(3, 1, [2, 7])]) sample_half = Valid"
    "th_signed_nonce sample_done 3 = 1" "th_networks sample_done = [3]"
    by (simp_all add: sample_done_def sample_thea_defs submit_signed_outgoing_messages_def validate_signed_outgoing_message_def
        Let_def record_signature_def sat_add_code sample_message_def contains_signature_def SignedMessage_new_def bt_get_def
        add_signature_def threshold_reached_def thea_threshold_def thea_emit_def)
  show "thea_step sample_thea_config sample_half sample_done"
    by (rule thea_step.call [OF ok(1)]) (use ok(2) in blast)
  show "activated_clean sample_half sample_done" "th_signed_nonce sample_done 3 = 1"
    using ok(3,4) by (simp_all add: activated_clean_def sample_thea_defs)
  show "th_signed_nonce sample_half 3 = 0" "set (th_networks sample_half) = {3}" "length (active_validators sample_half) = 2"
    by (simp_all add: sample_thea_defs active_validators_def)
qed


subsection \<open>Sent messages stay\<close>

text \<open>C10: an outgoing message, once stored, is never overwritten or removed by any step, so the
  signatures collected for a slot always concern one message; and every stored message sits
  under its own network and nonce, at most the outgoing nonce.\<close>

theorem outgoing_never_overwritten:
  assumes "thea_reachable E s" and "thea_step E s s'" and "nonces_left s" and "activated_clean s s'"
    and "th_outgoing s net n = Some m"
  shows "th_outgoing s' net n = Some m \<and> m_network m = net \<and> m_nonce m = n \<and> n \<le> th_outgoing_nonce s' net"
proof -
  have "keeps E s s'"
    using keeps_step [OF assms(2) reachable_out_inv [OF assms(1)] assms(3,4)] .
  then show ?thesis
    using assms(5) out_invD(1) [of E s' net n m] by (simp add: keeps_def)
qed

theorem outgoing_never_overwritten_witness:
  "th_outgoing sample_done 3 1 = Some sample_message \<and> 1 \<le> th_outgoing_nonce sample_done 3"
  using outgoing_never_overwritten [OF sample_thea_reachable sample_finalized(1) sample_thea_sides(4) sample_finalized(2),
      of 3 1 sample_message]
  by (simp add: sample_half_def sample_sent_def)

subsection \<open>Signatures of a retired set\<close>

text \<open>A session does not touch the signatures of a network that is not active.\<close>

lemma sent_others:
  "sent ns s s' \<Longrightarrow> net \<notin> set ns \<Longrightarrow> th_outgoing s' net = th_outgoing s net \<and> th_signed s' = th_signed s \<and>
    th_signed_nonce s' = th_signed_nonce s \<and> th_set_id s' = th_set_id s \<and> th_authorities s' = th_authorities s \<and>
    th_networks s' = th_networks s"
proof (induction ns arbitrary: s)
  case (Cons n ns)
  then obtain t where t: "sends n s t" "sent ns t s'"
    by auto
  have "th_outgoing t net = th_outgoing s net \<and> th_signed t = th_signed s \<and> th_signed_nonce t = th_signed_nonce s \<and>
    th_set_id t = th_set_id s \<and> th_authorities t = th_authorities s \<and> th_networks t = th_networks s"
    using t(1) Cons.prems(2) by (auto simp: sends_def thea_emit_def store_outgoing_def generate_payload_def put2_def)
  with Cons.IH [OF t(2)] Cons.prems(2) show ?case
    by simp
qed simp

lemma change_authorities_inactive:
  assumes "net \<notin> set (th_networks s)" "set incoming \<noteq> set (active_validators s)" "th_set_id s + 1 \<noteq> 0"
  shows "th_outgoing (change_authorities E incoming queued s) net = th_outgoing s net"
    and "th_signed (change_authorities E incoming queued s) net = th_signed s net"
    and "th_signed_nonce (change_authorities E incoming queued s) = th_signed_nonce s"
    and "th_set_id (change_authorities E incoming queued s) = th_set_id s + 1"
    and "active_validators (change_authorities E incoming queued s) = incoming"
proof -
  let ?r = "change_authorities E incoming queued s" and ?i = "th_set_id s + 1"
  obtain u where u: "prepared queued s u" "sent (th_networks s) (installed incoming ?i (th_networks s) u) ?r"
    by (rule change_authorities_shape [of queued s incoming E]) (use assms(2) in blast)
  have e: "th_outgoing u net = th_outgoing s net" "th_signed u = th_signed s" "th_signed_nonce u = th_signed_nonce s"
    using u(1) by (auto simp: prepared_def dest!: sent_others [OF _ assms(1)])
  have "sat_sub ?i 2 \<noteq> ?i"
    using assms(3) by (auto simp: sat_sub_def)
  then show "th_outgoing ?r net = th_outgoing s net" "th_signed ?r net = th_signed s net"
    "th_signed_nonce ?r = th_signed_nonce s" "th_set_id ?r = ?i" "active_validators ?r = incoming"
    using e sent_others [OF u(2) assms(1)] assms(1) by (auto simp: active_validators_def installed_def fold_reset_network)
qed

text \<open>C11: after a change of the authorities, a message of a network that is not active keeps the
  signatures of the retired set. If these reach the threshold of the new, smaller set, one
  transaction of one new authority finalises the message: its own signature is dropped because
  the stored set id is the old one, and the message is final with no signature of the active set.\<close>

theorem retired_signatures_finalize:
  assumes "net \<notin> set (th_networks s)" "th_signed s net n = Some sm" "th_outgoing s net n = Some (sm_message sm)"
    and "sm_validator_set_id sm = th_set_id s" "n = sat_add (th_signed_nonce s net) 1" "th_set_id s + 1 \<noteq> 0"
    and "auths = take (tc_max_authorities E) (map snd validators)" "set auths \<noteq> set (active_validators s)"
    and "unat a < length auths" "a \<notin> signers sm" "thea_threshold (length auths) \<le> length (sm_signatures sm)"
    and "tc_ecdsa_verify E sig (tc_sha2_256 E (tc_encode_message E (sm_message sm))) (auths ! unat a)"
    and "t = thea_on_new_session E validators queued s"
  shows "thea_validate_unsigned E (SubmitSignedOutgoingMessages a (th_set_id t) [(net, n, sig)]) t = Valid \<and>
    (\<exists>t'. thea_dispatch E Unsigned (SubmitSignedOutgoingMessages a (th_set_id t) [(net, n, sig)]) t = Inr t' \<and>
      th_signed_nonce t' net = n \<and> th_signed t' net n = Some sm \<and> sm_validator_set_id sm \<noteq> th_set_id t')"
proof -
  have t: "th_outgoing t net = th_outgoing s net" "th_signed t net = th_signed s net" "th_signed_nonce t = th_signed_nonce s"
    "th_set_id t = th_set_id s + 1" "th_authorities t (th_set_id t) = auths"
    using change_authorities_inactive [OF assms(1) _ assms(6)] assms(7,8)
    by (simp_all add: assms(13) thea_on_new_session_def active_validators_def)
  have dropped: "add_signature (sm_message sm) (th_set_id t) a sig sm = sm"
    using assms(4) t(4) by (simp add: add_signature_def)
  have "auths \<noteq> []"
    using assms(9) by auto
  moreover have "threshold_reached sm (length auths)"
    using assms(11) \<open>auths \<noteq> []\<close> by (simp add: threshold_reached_def)
  moreover have "\<not> contains_signature sm a"
    using assms(10) by (simp add: contains_signature_iff)
  ultimately show ?thesis
    using assms(2-4,9,12) t dropped assms(5) [symmetric]
    by (simp add: validate_signed_outgoing_message_def Let_def submit_signed_outgoing_messages_def record_signature_def
        thea_emit_def not_le)
qed

definition sample_retired :: SignedMessage where
  "sample_retired = \<lparr> sm_validator_set_id = 0, sm_message = sample_message, sm_signatures = [(1, [2, 7]), (2, [3, 7])] \<rparr>"

definition sample_inactive :: "unit thea" where
  "sample_inactive = thea_on_genesis_session sample_thea_config [(1, [1]), (2, [2]), (3, [3])] (thea_empty ())
    \<lparr> th_outgoing_nonce := (\<lambda>_. 0) (3 := 1), th_outgoing := put2 3 1 (Some sample_message) (\<lambda>_ _. None),
      th_signed := put2 3 1 (Some sample_retired) (\<lambda>_ _. None) \<rparr>"

lemma sample_inactive_facts:
  "3 \<notin> set (th_networks sample_inactive)" "th_signed sample_inactive 3 1 = Some sample_retired"
  "th_outgoing sample_inactive 3 1 = Some (sm_message sample_retired)"
  "sm_validator_set_id sample_retired = th_set_id sample_inactive"
  "1 = sat_add (th_signed_nonce sample_inactive 3) 1" "th_set_id sample_inactive + 1 \<noteq> 0"
  "[[4], [5]] = take (tc_max_authorities sample_thea_config) (map snd [(4 :: account, [4]), (5, [5 :: u8])])"
  "set [[4], [5]] \<noteq> set (active_validators sample_inactive)"
  "unat (0 :: u32) < length [[4 :: u8], [5]]" "0 \<notin> signers sample_retired"
  "thea_threshold (length [[4 :: u8], [5]]) \<le> length (sm_signatures sample_retired)"
  "tc_ecdsa_verify sample_thea_config [4, 7]
    (tc_sha2_256 sample_thea_config (tc_encode_message sample_thea_config (sm_message sample_retired))) ([[4], [5]] ! unat (0 :: u32))"
  "th_signed_nonce sample_inactive 3 = 0"
  by (simp_all add: sample_inactive_def sample_retired_def sample_thea_defs sample_message_def signers_def thea_threshold_def
      active_validators_def sat_add_code) (simp add: set_eq_subset)

theorem retired_signatures_finalize_witness:
  "\<exists>t t'. t = thea_on_new_session sample_thea_config [(4, [4]), (5, [5])] [] sample_inactive \<and>
    thea_dispatch sample_thea_config Unsigned (SubmitSignedOutgoingMessages 0 (th_set_id t) [(3, 1, [4, 7])]) t = Inr t' \<and>
    th_signed_nonce sample_inactive 3 = 0 \<and> th_signed_nonce t' 3 = 1 \<and> th_signed t' 3 1 = Some sample_retired"
  using retired_signatures_finalize [OF sample_inactive_facts(1-12) refl, of "[]"] sample_inactive_facts(13) by blast

subsection \<open>Incoming messages\<close>

text \<open>Queued and reported messages sit under their own network and nonce.\<close>

definition keyed :: "Network \<Rightarrow> u64 \<Rightarrow> IncomingMessage \<Rightarrow> bool" where
  "keyed net n msg \<longleftrightarrow> m_network (im_message msg) = net \<and> m_nonce (im_message msg) = n"

definition in_inv :: "'w thea \<Rightarrow> bool" where
  "in_inv s \<longleftrightarrow> (\<forall>net n msg. th_queue s net n = Some msg \<longrightarrow> keyed net n msg) \<and>
    (\<forall>net n r. th_reports s net n = Some r \<longrightarrow> keyed net n (mr_reported_msg r))"

lemma in_inv_less:
  assumes "in_inv s" "\<And>net n msg. th_queue s' net n = Some msg \<Longrightarrow> th_queue s net n = Some msg" "th_reports s' = th_reports s"
  shows "in_inv s'"
  using assms by (auto simp: in_inv_def)

lemma execute_message_fields [simp]:
  "th_queue (execute_message E n msg s) = th_queue s" "th_reports (execute_message E n msg s) = th_reports s"
  "th_incoming_nonce (execute_message E n msg s) = (th_incoming_nonce s) (m_network (im_message msg) := n)"
  "m_network (im_message msg) \<noteq> net \<Longrightarrow> th_incoming (execute_message E n msg s) net = th_incoming s net"
  by (simp_all add: execute_message_def release_stake_def thea_emit_def Let_def put2_def split: sum.split)

lemma execute_next_other:
  assumes "in_inv s"
  shows "in_inv (execute_next E blk m s)"
    and "net \<noteq> m \<Longrightarrow> th_queue (execute_next E blk m s) net = th_queue s net"
    and "net \<noteq> m \<Longrightarrow> th_incoming_nonce (execute_next E blk m s) net = th_incoming_nonce s net"
    and "net \<noteq> m \<Longrightarrow> th_incoming (execute_next E blk m s) net = th_incoming s net"
proof -
  show "in_inv (execute_next E blk m s)"
    by (rule in_inv_less [OF assms])
      (auto simp: execute_next_def Let_def put2_apply split: option.splits if_splits)
  have "m_network (im_message msg) = m" if "th_queue s m n = Some msg" for n msg
    using assms that by (simp add: in_inv_def keyed_def)
  then show "net \<noteq> m \<Longrightarrow> th_queue (execute_next E blk m s) net = th_queue s net"
    "net \<noteq> m \<Longrightarrow> th_incoming_nonce (execute_next E blk m s) net = th_incoming_nonce s net"
    "net \<noteq> m \<Longrightarrow> th_incoming (execute_next E blk m s) net = th_incoming s net"
    by (auto simp: execute_next_def Let_def put2_def split: option.split)
qed

lemma fold_execute_others:
  "in_inv s \<Longrightarrow> net \<notin> set ns \<Longrightarrow> in_inv (fold (execute_next E blk) ns s) \<and>
    th_queue (fold (execute_next E blk) ns s) net = th_queue s net \<and>
    th_incoming_nonce (fold (execute_next E blk) ns s) net = th_incoming_nonce s net \<and>
    th_incoming (fold (execute_next E blk) ns s) net = th_incoming s net"
  by (induction ns arbitrary: s) (simp_all add: execute_next_other)

lemma fold_execute_in_inv: "in_inv s \<Longrightarrow> in_inv (fold (execute_next E blk) ns s)"
  by (induction ns arbitrary: s) (simp_all add: execute_next_other)

lemma sends_in_side: "sends n s s' \<Longrightarrow> th_queue s' = th_queue s \<and> th_reports s' = th_reports s"
  by (auto simp: sends_def thea_emit_def store_outgoing_def)

lemma sent_in_side: "sent ns s s' \<Longrightarrow> th_queue s' = th_queue s \<and> th_reports s' = th_reports s"
  by (induction ns arbitrary: s) (auto dest: sends_in_side)

lemma in_inv_updates [simp]:
  "in_inv (s \<lparr> th_block := b \<rparr>) = in_inv s" "in_inv (s \<lparr> th_world := w \<rparr>) = in_inv s"
  by (simp_all add: in_inv_def)

lemma in_inv_same: "in_inv s \<Longrightarrow> th_queue s' = th_queue s \<Longrightarrow> th_reports s' = th_reports s \<Longrightarrow> in_inv s'"
  by (simp add: in_inv_def)

lemma in_side_session: "th_queue (change_authorities E incoming queued s) = th_queue s \<and>
    th_reports (change_authorities E incoming queued s) = th_reports s"
proof -
  have "th_queue (installed i j ns t) = th_queue t \<and> th_reports (installed i j ns t) = th_reports t" for i j ns t
    by (simp add: installed_def fold_reset_network)
  note installed = this
  show ?thesis
  proof (rule change_authorities_shape [of queued s incoming E])
    fix u
    assume "prepared queued s u" "set incoming = set (active_validators s) \<Longrightarrow> change_authorities E incoming queued s = u"
      "set incoming \<noteq> set (active_validators s) \<Longrightarrow>
        sent (th_networks s) (installed incoming (th_set_id s + 1) (th_networks s) u) (change_authorities E incoming queued s)"
    then show ?thesis
      by (cases "set incoming = set (active_validators s)") (auto simp: prepared_def installed dest!: sent_in_side)
  qed
qed

lemma in_side_submit_signed:
  assumes "submit_signed_outgoing_messages orig a i sigs s = Inr s'"
  shows "th_queue s' = th_queue s \<and> th_reports s' = th_reports s"
proof -
  have "fold_res (record_signature a i (length (th_authorities s (th_set_id s)))) sigs s = Inr s'"
    using assms by (auto simp: submit_signed_outgoing_messages_def Let_def res_simps)
  then show ?thesis
    by (rule fold_res_invariant)
      (auto simp: record_signature_def res_simps Let_def thea_emit_def split: prod.splits option.splits if_splits)
qed

lemma submit_incoming_cases:
  assumes "submit_incoming_message E orig payload stake s = Inr s'"
  shows "s' = s \<or> (\<exists>signer w. s' = queue_message payload signer stake (s \<lparr> th_world := w \<rparr>))"
proof (cases "th_queue s (m_network payload) (m_nonce payload)")
  case None
  with assms show ?thesis
    by (auto simp: submit_incoming_message_def res_simps)
next
  case (Some existing)
  with assms show ?thesis
    by (cases "im_stake existing < stake") (auto simp: submit_incoming_message_def res_simps)
qed

lemma in_inv_submit:
  assumes "submit_incoming_message E orig payload stake s = Inr s'" "in_inv s"
  shows "in_inv s'"
  using submit_incoming_cases [OF assms(1)] assms(2)
  by (auto simp: queue_message_def in_inv_def put2_apply keyed_def split: if_splits)

lemma in_inv_report:
  assumes "report_misbehaviour E orig network nonce s = Inr s'" "in_inv s"
  shows "in_inv s'"
  using assms
  by (auto simp: report_misbehaviour_def res_simps foreign_def in_inv_def put2_apply keyed_def thea_emit_def Let_def
      split: option.splits if_splits)

lemma in_inv_handle:
  assumes "handle_misbehaviour E orig network nonce acceptance s = Inr s'" "in_inv s"
  shows "in_inv s'"
  using assms
  by (auto simp: handle_misbehaviour_def res_simps foreign_def in_inv_def put2_apply keyed_def Let_def
      split: option.splits if_splits)

lemma in_side_outgoing_calls:
  "execute_withdrawals network d s = Inr s' \<Longrightarrow> th_queue s' = th_queue s \<and> th_reports s' = th_reports s"
  "update_incoming_nonce orig n network s = Inr s' \<Longrightarrow> th_queue s' = th_queue s \<and> th_reports s' = th_reports s"
  "update_outgoing_nonce orig n network s = Inr s' \<Longrightarrow> th_queue s' = th_queue s \<and> th_reports s' = th_reports s"
  "add_thea_network orig network is_evm fork stake bond s = Inr s' \<Longrightarrow> th_queue s' = th_queue s \<and> th_reports s' = th_reports s"
  "remove_thea_network orig network s = Inr s' \<Longrightarrow> th_queue s' = th_queue s \<and> th_reports s' = th_reports s"
  "add_relayer_origin_for_network orig network relayer s = Inr s' \<Longrightarrow> th_queue s' = th_queue s \<and> th_reports s' = th_reports s"
  by (auto simp: execute_withdrawals_def store_outgoing_def update_incoming_nonce_def update_outgoing_nonce_def
      add_thea_network_def remove_thea_network_def add_relayer_origin_for_network_def res_simps Let_def)

lemma in_inv_call:
  assumes "thea_dispatch E orig c s = Inr s'" "in_inv s"
  shows "in_inv s'"
proof -
  have "th_queue s' = th_queue s \<and> th_reports s' = th_reports s" if "\<not> (\<exists>p st. c = SubmitIncomingMessage p st)"
    "\<not> (\<exists>n k. c = ReportMisbehaviour n k)" "\<not> (\<exists>n k b. c = HandleMisbehaviour n k b)"
    using assms(1) that
    by (cases c) (auto simp: send_thea_message_def res_simps dest: in_side_outgoing_calls in_side_submit_signed)
  moreover have "in_inv s'" if "(\<exists>p st. c = SubmitIncomingMessage p st) \<or> (\<exists>n k. c = ReportMisbehaviour n k) \<or>
    (\<exists>n k b. c = HandleMisbehaviour n k b)"
    using assms that by (auto intro: in_inv_submit in_inv_report in_inv_handle)
  ultimately show ?thesis
    using in_inv_same [OF assms(2)] by blast
qed

lemma reachable_in_inv: "thea_reachable E s \<Longrightarrow> in_inv s"
proof (induction rule: thea_reachable.induct)
  case (genesis validators w)
  show ?case
    by (simp add: thea_on_genesis_session_def initialize_authorities_def thea_empty_def in_inv_def)
next
  case (step s s')
  from step(2) step(5) show ?case
  proof cases
    case block
    then show ?thesis
      using step(5) by (simp add: thea_on_initialize_def fold_execute_in_inv)
  next
    case (session validators queued)
    then show ?thesis
      unfolding thea_on_new_session_def by (simp add: in_inv_same [OF step(5)] in_side_session)
  qed (auto intro: in_inv_call in_inv_same dest: in_side_outgoing_calls(1))
qed

lemma execute_next_undue:
  assumes "th_queue s net (sat_add (th_incoming_nonce s net) 1) = Some msg" "blk < im_execute_at msg"
  shows "execute_next E blk net s = s \<lparr> th_queue := put2 net (sat_add (th_incoming_nonce s net) 1) None (th_queue s) \<rparr>"
  using assms by (simp add: execute_next_def Let_def not_le)

text \<open>A block drops the next message of a network when its fork period is not over.\<close>

lemma on_initialize_undue:
  assumes "in_inv s" "distinct (th_networks s)" "net \<in> set (th_networks s)"
    and "th_queue s net (sat_add (th_incoming_nonce s net) 1) = Some msg" "blk < im_execute_at msg"
  shows "th_queue (thea_on_initialize E blk s) net (sat_add (th_incoming_nonce s net) 1) = None"
    and "th_incoming_nonce (thea_on_initialize E blk s) net = th_incoming_nonce s net"
    and "th_incoming (thea_on_initialize E blk s) net = th_incoming s net"
    and "th_networks s = [net] \<Longrightarrow> th_world (thea_on_initialize E blk s) = th_world s"
proof -
  obtain xs ys where ns: "th_networks s = xs @ net # ys"
    using split_list [OF assms(3)] by blast
  then have fresh: "net \<notin> set xs" "net \<notin> set ys"
    using assms(2) by simp_all
  let ?t = "fold (execute_next E blk) xs s"
  note before = fold_execute_others [OF assms(1) fresh(1), of E blk]
  have u: "execute_next E blk net ?t = ?t \<lparr> th_queue := put2 net (sat_add (th_incoming_nonce s net) 1) None (th_queue ?t) \<rparr>"
    using execute_next_undue [of ?t net msg blk E] before assms(4,5) by simp
  have "in_inv (execute_next E blk net ?t)"
    using before execute_next_other(1) by blast
  note after = fold_execute_others [OF this fresh(2), of E blk]
  show "th_queue (thea_on_initialize E blk s) net (sat_add (th_incoming_nonce s net) 1) = None"
    "th_incoming_nonce (thea_on_initialize E blk s) net = th_incoming_nonce s net"
    "th_incoming (thea_on_initialize E blk s) net = th_incoming s net"
    using before after by (simp_all add: thea_on_initialize_def ns u)
  show "th_world (thea_on_initialize E blk s) = th_world s" if "th_networks s = [net]"
    using execute_next_undue [OF assms(4,5)] by (simp add: thea_on_initialize_def that)
qed

text \<open>C9: an incoming message that a relayer submits for the next nonce is lost in the following block.
  The fork period is at least two, so the message is not due then, but the block hook takes it
  out of the queue before it compares the blocks: it is neither executed nor archived, the nonce
  does not advance, and the relayer's stake stays held.\<close>

theorem undue_message_lost:
  assumes "thea_reachable E s" and "submit_incoming_message E (Signed r) payload stake s = Inr s1"
    and "net = m_network payload" and "m_nonce payload = sat_add (th_incoming_nonce s net) 1"
    and "th_queue s net (m_nonce payload) = None" and "net \<in> set (th_networks s)"
    and "2 \<le> unat (nc_fork_period (th_config s net))"
    and "unat (th_block s) + unat (nc_fork_period (th_config s net)) < 2 ^ 32"
    and "s2 = thea_on_initialize E (th_block s + 1) (s1 \<lparr> th_block := th_block s + 1 \<rparr>)"
  shows "tc_hold E r stake (th_world s) = Inr (th_world s1) \<and> th_queue s1 net (m_nonce payload) \<noteq> None \<and>
    th_queue s2 net (m_nonce payload) = None \<and> th_incoming_nonce s2 net = th_incoming_nonce s net \<and>
    th_incoming s2 net = th_incoming s net \<and> (th_networks s = [net] \<longrightarrow> th_world s2 = th_world s1)"
proof -
  obtain w where w: "tc_hold E r stake (th_world s) = Inr w" "s1 = queue_message payload r stake (s \<lparr> th_world := w \<rparr>)"
    using assms(2,5) by (auto simp: submit_incoming_message_def res_simps foreign_def assms(3) map_err_Inr)
  let ?s = "s1 \<lparr> th_block := th_block s + 1 \<rparr>"
  obtain msg where msg: "th_queue ?s net (m_nonce payload) = Some msg"
    "im_execute_at msg = sat_add (th_block s) (nc_fork_period (th_config s net))"
    by (simp add: w(2) queue_message_def assms(3))
  have "th_block s + 1 < im_execute_at msg"
    unfolding msg(2) using assms(7,8) by (simp add: word_less_nat_alt unat_sat_add unat_word_ariths)
  moreover have "in_inv ?s"
    using in_inv_submit [OF assms(2)] reachable_in_inv [OF assms(1)] by simp
  moreover have "distinct (th_networks ?s)" "net \<in> set (th_networks ?s)" "th_incoming_nonce ?s = th_incoming_nonce s"
    "th_incoming ?s = th_incoming s" "th_networks ?s = th_networks s" "th_world ?s = w"
    using out_invD(5) [OF reachable_out_inv [OF assms(1)]] assms(6) by (simp_all add: w(2) queue_message_def)
  ultimately show ?thesis
    using on_initialize_undue [of ?s net msg "th_block s + 1" E] msg(1) w assms(4)
    by (simp add: assms(9))
qed

definition sample_submitted :: "unit thea" where
  "sample_submitted = queue_message sample_message 9 5 sample_half"

lemma sample_submit:
  "submit_incoming_message sample_thea_config (Signed 9) sample_message 5 sample_half = Inr sample_submitted"
  "m_network sample_message = 3" "m_nonce sample_message = sat_add (th_incoming_nonce sample_half 3) 1"
  "m_nonce sample_message = 1" "th_queue sample_half 3 1 = None" "th_networks sample_half = [3]"
  "unat (nc_fork_period (th_config sample_half 3)) = 2" "th_block sample_half = 0"
  by (simp_all add: submit_incoming_message_def sample_submitted_def sample_thea_defs sample_message_def NetworkConfig_new_def
      foreign_def queue_message_def sat_add_code)

theorem undue_message_lost_witness:
  "th_queue sample_submitted 3 1 \<noteq> None \<and>
    (\<exists>s2. s2 = thea_on_initialize sample_thea_config 1 (sample_submitted \<lparr> th_block := 1 \<rparr>) \<and>
      th_queue s2 3 1 = None \<and> th_incoming_nonce s2 3 = th_incoming_nonce sample_half 3)"
  using undue_message_lost [OF sample_thea_reachable sample_submit(1), of 3] sample_submit(2-) by simp

end
