(* ===== verification/Resolver.thy ===== *)
theory Resolver
  imports Frame Assets
begin

text \<open>
  The trait \<^verbatim>\<open>Resolver\<close> of \<^verbatim>\<open>primitives/polkadex/src/assets.rs\<close>: deposits and withdrawals of the
  native currency and of the other assets through one interface. The balances and assets pallets
  are the parameter \<open>'w fungibles\<close>; \<open>fungible_laws\<close> states what their documentation promises.
\<close>

subsection \<open>Operations\<close>

record 'w fungibles =
  fg_native_id :: AssetId
  fg_native_transfer :: "account \<Rightarrow> account \<Rightarrow> u128 \<Rightarrow> preservation \<Rightarrow> 'w \<Rightarrow> foreign_error + 'w"
  fg_native_mint :: "account \<Rightarrow> u128 \<Rightarrow> 'w \<Rightarrow> foreign_error + 'w"
  fg_native_burn :: "account \<Rightarrow> u128 \<Rightarrow> preservation \<Rightarrow> fortitude \<Rightarrow> 'w \<Rightarrow> foreign_error + 'w"
  fg_native_reducible :: "account \<Rightarrow> preservation \<Rightarrow> fortitude \<Rightarrow> 'w \<Rightarrow> u128"
  fg_exists :: "AssetId \<Rightarrow> 'w \<Rightarrow> bool"
  fg_create :: "AssetId \<Rightarrow> account \<Rightarrow> u128 \<Rightarrow> 'w \<Rightarrow> foreign_error + 'w"
  fg_mint :: "AssetId \<Rightarrow> account \<Rightarrow> u128 \<Rightarrow> 'w \<Rightarrow> foreign_error + 'w"
  fg_burn :: "AssetId \<Rightarrow> account \<Rightarrow> u128 \<Rightarrow> preservation \<Rightarrow> fortitude \<Rightarrow> 'w \<Rightarrow> foreign_error + 'w"
  fg_transfer :: "AssetId \<Rightarrow> account \<Rightarrow> account \<Rightarrow> u128 \<Rightarrow> preservation \<Rightarrow> 'w \<Rightarrow> foreign_error + 'w"
  fg_set_metadata :: "AssetId \<Rightarrow> account \<Rightarrow> bytes \<Rightarrow> bytes \<Rightarrow> u8 \<Rightarrow> 'w \<Rightarrow> foreign_error + 'w"

definition create_and_mint :: "'w fungibles \<Rightarrow> AssetId \<Rightarrow> u128 \<Rightarrow> account \<Rightarrow> account \<Rightarrow> u128 \<Rightarrow> 'w \<Rightarrow> foreign_error + 'w" where
  "create_and_mint F asset amount who admin min_balance w =
    bind_res (if fg_exists F asset w then Inr w else fg_create F asset admin min_balance w) (fg_mint F asset who amount)"

definition resolver_deposit :: "'w fungibles \<Rightarrow> AssetId \<Rightarrow> u128 \<Rightarrow> account \<Rightarrow> account \<Rightarrow> u128 \<Rightarrow> account \<Rightarrow> 'w \<Rightarrow>
    foreign_error + 'w" where
  "resolver_deposit F asset amount who admin min_balance locking_account w =
    (if asset = fg_native_id F then fg_native_transfer F locking_account who amount Preserve w
     else create_and_mint F asset amount who admin min_balance w)"

definition resolve_deposit_parachain :: "'w fungibles \<Rightarrow> AssetId \<Rightarrow> u128 \<Rightarrow> account \<Rightarrow> account \<Rightarrow> u128 \<Rightarrow> 'w \<Rightarrow>
    foreign_error + 'w" where
  "resolve_deposit_parachain F asset amount who admin min_balance w =
    (if asset = fg_native_id F then fg_native_mint F who amount w
     else create_and_mint F asset amount who admin min_balance w)"

definition resolver_withdraw_parachain :: "'w fungibles \<Rightarrow> AssetId \<Rightarrow> u128 \<Rightarrow> account \<Rightarrow> 'w \<Rightarrow> foreign_error + 'w" where
  "resolver_withdraw_parachain F asset amount who w =
    (if asset = fg_native_id F then fg_native_burn F who amount Preserve Force w
     else fg_burn F asset who amount Expendable Polite w)"

definition resolver_withdraw :: "'w fungibles \<Rightarrow> AssetId \<Rightarrow> u128 \<Rightarrow> account \<Rightarrow> account \<Rightarrow> 'w \<Rightarrow> foreign_error + 'w" where
  "resolver_withdraw F asset amount who locking_account w =
    (if asset = fg_native_id F then fg_native_transfer F who locking_account amount Preserve w
     else fg_burn F asset who amount Expendable Polite w)"

definition resolve_create :: "'w fungibles \<Rightarrow> AssetId \<Rightarrow> account \<Rightarrow> u128 \<Rightarrow> 'w \<Rightarrow> foreign_error + 'w" where
  "resolve_create F asset admin min_balance w =
    ensure (asset \<noteq> fg_native_id F) (ForeignMessage ''Cannot create Native Asset'')
    (ensure (\<not> fg_exists F asset w) (ForeignMessage ''Asset already exists'')
    (fg_create F asset admin min_balance w))"

definition resolve_transfer :: "'w fungibles \<Rightarrow> AssetId \<Rightarrow> account \<Rightarrow> account \<Rightarrow> u128 \<Rightarrow> 'w \<Rightarrow> foreign_error + 'w" where
  "resolve_transfer F asset payer payee amount w =
    (if asset = fg_native_id F then fg_native_transfer F payer payee amount Preserve w
     else fg_transfer F asset payer payee amount Expendable w)"

definition resolve_mint :: "'w fungibles \<Rightarrow> account \<Rightarrow> AssetId \<Rightarrow> u128 \<Rightarrow> 'w \<Rightarrow> foreign_error + 'w" where
  "resolve_mint F recipient asset amount w =
    (if asset = fg_native_id F then Inl (ForeignMessage ''Cannot mint Native Asset'')
     else fg_mint F asset recipient amount w)"

definition set_token_metadata :: "'w fungibles \<Rightarrow> AssetId \<Rightarrow> account \<Rightarrow> bytes \<Rightarrow> bytes \<Rightarrow> u8 \<Rightarrow> 'w \<Rightarrow> foreign_error + 'w" where
  "set_token_metadata F asset payer name symbol decimal w = fg_set_metadata F asset payer name symbol decimal w"

subsection \<open>What the currency pallets promise\<close>

text \<open>
  \<open>tok w a p\<close> is the balance of account \<open>p\<close> in asset \<open>a\<close>. Mint, burn (with \<^verbatim>\<open>Precision::Exact\<close>) and
  transfer change exactly the named balances by exactly the amount, or fail.
\<close>

definition credited :: "(AssetId \<Rightarrow> account \<Rightarrow> int) \<Rightarrow> AssetId \<Rightarrow> account \<Rightarrow> int \<Rightarrow> AssetId \<Rightarrow> account \<Rightarrow> int" where
  "credited b a p n = (\<lambda>a' p'. b a' p' + (if a' = a \<and> p' = p then n else 0))"

definition fungible_laws :: "'w fungibles \<Rightarrow> ('w \<Rightarrow> AssetId \<Rightarrow> account \<Rightarrow> int) \<Rightarrow> bool" where
  "fungible_laws F tok \<longleftrightarrow>
    (\<forall>p q amt k w w'. fg_native_transfer F p q amt k w = Inr w' \<longrightarrow>
      tok w' = credited (credited (tok w) (fg_native_id F) p (- uint amt)) (fg_native_id F) q (uint amt)) \<and>
    (\<forall>p amt w w'. fg_native_mint F p amt w = Inr w' \<longrightarrow> tok w' = credited (tok w) (fg_native_id F) p (uint amt)) \<and>
    (\<forall>p amt k f w w'. fg_native_burn F p amt k f w = Inr w' \<longrightarrow> tok w' = credited (tok w) (fg_native_id F) p (- uint amt)) \<and>
    (\<forall>a p m w w'. fg_create F a p m w = Inr w' \<longrightarrow> tok w' = tok w) \<and>
    (\<forall>a p amt w w'. fg_mint F a p amt w = Inr w' \<longrightarrow> tok w' = credited (tok w) a p (uint amt)) \<and>
    (\<forall>a p amt k f w w'. fg_burn F a p amt k f w = Inr w' \<longrightarrow> tok w' = credited (tok w) a p (- uint amt)) \<and>
    (\<forall>a p q amt k w w'. fg_transfer F a p q amt k w = Inr w' \<longrightarrow>
      tok w' = credited (credited (tok w) a p (- uint amt)) a q (uint amt))"

lemma fungible_lawsD:
  assumes "fungible_laws F tok"
  shows "fg_native_transfer F p q amt k w = Inr w' \<Longrightarrow>
      tok w' = credited (credited (tok w) (fg_native_id F) p (- uint amt)) (fg_native_id F) q (uint amt)"
    and "fg_native_mint F p amt w = Inr w' \<Longrightarrow> tok w' = credited (tok w) (fg_native_id F) p (uint amt)"
    and "fg_native_burn F p amt k f w = Inr w' \<Longrightarrow> tok w' = credited (tok w) (fg_native_id F) p (- uint amt)"
    and "fg_create F a p m w = Inr w' \<Longrightarrow> tok w' = tok w"
    and "fg_mint F a p amt w = Inr w' \<Longrightarrow> tok w' = credited (tok w) a p (uint amt)"
    and "fg_burn F a p amt k f w = Inr w' \<Longrightarrow> tok w' = credited (tok w) a p (- uint amt)"
    and "fg_transfer F a p q amt k w = Inr w' \<Longrightarrow> tok w' = credited (credited (tok w) a p (- uint amt)) a q (uint amt)"
  using assms by (auto simp: fungible_laws_def)

lemma credited_0 [simp]: "credited b a p 0 = b"
  by (simp add: credited_def fun_eq_iff)

lemma credited_twice [simp]: "credited (credited b a p m) a p n = credited b a p (m + n)"
  by (auto simp: credited_def fun_eq_iff)

subsection \<open>Both kinds of assets behave alike\<close>

text \<open>
  A vault moves tokens in and out of circulation: by minting and burning, or by moving them from
  and to a locking account.
\<close>

locale vault =
  fixes tok :: "'w \<Rightarrow> AssetId \<Rightarrow> account \<Rightarrow> int"
    and lawful :: "'f \<Rightarrow> ('w \<Rightarrow> AssetId \<Rightarrow> account \<Rightarrow> int) \<Rightarrow> bool"
    and put :: "'f \<Rightarrow> AssetId \<Rightarrow> u128 \<Rightarrow> account \<Rightarrow> 'w \<Rightarrow> foreign_error + 'w"
    and get :: "'f \<Rightarrow> AssetId \<Rightarrow> u128 \<Rightarrow> account \<Rightarrow> 'w \<Rightarrow> foreign_error + 'w"
    and backing :: "'f \<Rightarrow> AssetId \<Rightarrow> account option"
  assumes put_tok: "lawful F tok \<Longrightarrow> put F a amt who w = Inr w' \<Longrightarrow> tok w' =
      (case backing F a of None \<Rightarrow> credited (tok w) a who (uint amt)
       | Some l \<Rightarrow> credited (credited (tok w) a l (- uint amt)) a who (uint amt))"
    and get_tok: "lawful F tok \<Longrightarrow> get F a amt who w = Inr w' \<Longrightarrow> tok w' =
      (case backing F a of None \<Rightarrow> credited (tok w) a who (- uint amt)
       | Some l \<Rightarrow> credited (credited (tok w) a who (- uint amt)) a l (uint amt))"
begin

lemma get_put:
  assumes "lawful F tok" "put F a amt who w = Inr w'" "get F a amt who w' = Inr w''"
  shows "tok w'' = tok w"
  using put_tok [OF assms(1,2)] get_tok [OF assms(1,3)]
  by (auto simp: credited_def fun_eq_iff split: option.splits)

lemma put_effect:
  assumes "lawful F tok" "put F a amt who w = Inr w'" "backing F a \<noteq> Some who"
  shows "tok w' a who = tok w a who + uint amt" and "a' \<noteq> a \<Longrightarrow> tok w' a' p = tok w a' p"
  using put_tok [OF assms(1,2)] assms(3) by (auto simp: credited_def split: option.splits)

end

lemma create_and_mint_tok:
  assumes "fungible_laws F tok" "create_and_mint F a amt who admin m w = Inr w'"
  shows "tok w' = credited (tok w) a who (uint amt)"
proof -
  obtain v where "tok v = tok w" "fg_mint F a who amt v = Inr w'"
    using assms(2) by (auto simp: create_and_mint_def res_simps dest: fungible_lawsD(4) [OF assms(1)] split: if_splits)
  then show ?thesis
    using fungible_lawsD(5) [OF assms(1)] by metis
qed

definition backing_account :: "account \<Rightarrow> 'w fungibles \<Rightarrow> AssetId \<Rightarrow> account option" where
  "backing_account locking F a = (if a = fg_native_id F then Some locking else None)"

interpretation locking: vault tok fungible_laws "\<lambda>F a amt who. resolver_deposit F a amt who admin m locked"
  "\<lambda>F a amt who. resolver_withdraw F a amt who locked" "backing_account locked" for tok admin m locked
proof
  fix F :: "'a fungibles" and a amt who w w'
  assume laws: "fungible_laws F tok"
  show "tok w' = (case backing_account locked F a of None \<Rightarrow> credited (tok w) a who (uint amt)
      | Some l \<Rightarrow> credited (credited (tok w) a l (- uint amt)) a who (uint amt))"
    if "resolver_deposit F a amt who admin m locked w = Inr w'"
    using that fungible_lawsD(1) [OF laws] create_and_mint_tok [OF laws]
    by (auto simp: resolver_deposit_def backing_account_def split: if_splits)
  show "tok w' = (case backing_account locked F a of None \<Rightarrow> credited (tok w) a who (- uint amt)
      | Some l \<Rightarrow> credited (credited (tok w) a who (- uint amt)) a l (uint amt))"
    if "resolver_withdraw F a amt who locked w = Inr w'"
    using that fungible_lawsD(1,6) [OF laws]
    by (auto simp: resolver_withdraw_def backing_account_def split: if_splits)
qed

interpretation minting: vault tok fungible_laws "\<lambda>F a amt who. resolve_deposit_parachain F a amt who admin m"
  resolver_withdraw_parachain "\<lambda>_ _. None" for tok admin m
  using fungible_lawsD(2,3,6) create_and_mint_tok
  by unfold_locales
    (fastforce simp: resolve_deposit_parachain_def resolver_withdraw_parachain_def split: if_splits)+

end
