(* ===== verification/Xcm_Helper.thy ===== *)
theory Xcm_Helper
  imports Resolver Thea_Types
begin

text \<open>
  The XCM helper pallet, \<^verbatim>\<open>pallets/xcm-helper/src/lib.rs\<close>: deposits that arrive by XCM are
  forwarded to Thea, withdrawals that Thea delivers are queued and executed some blocks later.
  The location types of the XCM library are mirrored as far as the code inspects them; its
  codec, hash and account conversions are parameters.
\<close>

subsection \<open>Locations and assets\<close>

datatype NetworkId = NetPolkadot | NetOther nat

datatype Junction = AccountId32 "NetworkId option" account | ParachainJunction u32 | PalletInstance u8 | OtherJunction bytes

datatype Junctions = Here | X1 Junction | X2 Junction Junction | XMore "Junction list"

record Location =
  l_parents :: u8
  l_interior :: Junctions

datatype VersionedLocation = V3 Location | OtherVersion bytes

datatype XcmAssetId = Concrete Location | Abstract bytes

datatype Fungibility = Fungible u128 | NonFungible bytes

record MultiAsset =
  ma_id :: XcmAssetId
  ma_fun :: Fungibility

definition extract_data_from_multilocation :: "Location \<Rightarrow> (account \<times> ExtraData) option" where
  "extract_data_from_multilocation location =
    (if l_parents location = 0 then
      case l_interior location of
        X1 (AccountId32 network i) \<Rightarrow>
          if network = Some NetPolkadot \<or> network = None then Some (i, ExtraNone) else None
      | X2 (AccountId32 network i) (PalletInstance _) \<Rightarrow>
          if network = Some NetPolkadot \<or> network = None then Some (i, DirectDeposit) else None
      | _ \<Rightarrow> None
     else None)"

subsection \<open>State\<close>

datatype xcm_error =
    IndexNotFound
  | TokenIsAlreadyWhitelisted
  | UnableToConvertToMultiLocation
  | UnableToConvertToAccount
  | TokenIsNotWhitelisted

datatype xcm_trap = FailedToDecode | Trap nat

datatype xcm_event =
    AssetDeposited H160 Location MultiAsset AssetId u128 ExtraData
  | SiblingDeposit Location MultiAsset
  | TokenWhitelistedForXcm AssetId
  | XcmFeeTransferred account u128
  | WhitelistedTokenRemoved AssetId
  | NotAbleToDecodeDestination
  | NotAbleToMintToken
  | NotAbleToHandleDestination
  | XcmSiblingDepositFailed Location MultiAsset
  | ParachainAssetMapped AssetId XcmAssetId
  | ParachainAssetNotMapped

record 'w xcm_config =
  xc_fungibles :: "'w fungibles"
  xc_account_convert :: "Location \<Rightarrow> account option"
  xc_sibling_convert :: "Location \<Rightarrow> account option"
  xc_origin :: "origin \<Rightarrow> bool"
  xc_execute_withdrawals :: "Network \<Rightarrow> bytes \<Rightarrow> 'w \<Rightarrow> foreign_error + 'w"
  xc_pallet_account :: account
  xc_block_diff :: u32
  xc_parachain_id :: u32
  xc_network_id :: Network
  xc_max_withdrawals :: u32
  xc_blake2_asset :: "XcmAssetId \<Rightarrow> u128"
  xc_blake2_id :: "Network \<times> u32 \<Rightarrow> 128 word"
  xc_decode_location :: "bytes \<Rightarrow> VersionedLocation option"
  xc_try_into :: "VersionedLocation \<Rightarrow> Location option"
  xc_decode_withdraws :: "bytes \<Rightarrow> TheaWithdraw list option"
  xc_encode_deposit :: "TheaDeposit \<Rightarrow> bytes"

record 'w xcm =
  x_pending :: "u32 \<Rightarrow> TheaWithdraw list"
  x_failed :: "u32 \<Rightarrow> TheaWithdraw list"
  x_assets :: "AssetId \<Rightarrow> XcmAssetId option"
  x_whitelisted :: "AssetId list"
  x_nonce :: u32
  x_block :: u32
  x_events :: "xcm_event list"
  x_world :: 'w

definition xcm_emit :: "xcm_event \<Rightarrow> 'w xcm \<Rightarrow> 'w xcm" where
  "xcm_emit e s = s \<lparr> x_events := x_events s @ [e] \<rparr>"

subsection \<open>Assets\<close>

definition hashed_asset_id :: "'w xcm_config \<Rightarrow> XcmAssetId \<Rightarrow> AssetId" where
  "hashed_asset_id E asset = Asset (xc_blake2_asset E asset)"

definition generate_asset_id_for_parachain :: "'w xcm_config \<Rightarrow> XcmAssetId \<Rightarrow> 'w xcm \<Rightarrow> AssetId \<times> 'w xcm" where
  "generate_asset_id_for_parachain E asset s =
    (if asset = Concrete \<lparr> l_parents = 1, l_interior = X1 (ParachainJunction (xc_parachain_id E)) \<rparr> \<or>
        asset = Concrete \<lparr> l_parents = 0, l_interior = Here \<rparr>
     then (Polkadex, s)
     else
       let aid = hashed_asset_id E asset in
       (aid, if x_assets s aid = None then s \<lparr> x_assets := (x_assets s) (aid := Some asset) \<rparr> else s))"

definition get_amount :: "Fungibility \<Rightarrow> u128 option" where
  "get_amount f = (case f of Fungible amount \<Rightarrow> Some amount | NonFungible _ \<Rightarrow> None)"

definition convert_asset_id_to_location :: "AssetId \<Rightarrow> 'w xcm \<Rightarrow> Location option" where
  "convert_asset_id_to_location aid s =
    (case x_assets s aid of Some (Concrete location) \<Rightarrow> Some location | _ \<Rightarrow> None)"

definition convert_location_to_asset_id :: "'w xcm_config \<Rightarrow> Location \<Rightarrow> 'w xcm \<Rightarrow> AssetId \<times> 'w xcm" where
  "convert_location_to_asset_id E location s = generate_asset_id_for_parachain E (Concrete location) s"

definition check_whitelisted_token :: "AssetId \<Rightarrow> 'w xcm \<Rightarrow> bool" where
  "check_whitelisted_token aid s = (aid \<in> set (x_whitelisted s))"

definition insert_parachain_asset :: "XcmAssetId \<Rightarrow> AssetId \<Rightarrow> 'w xcm \<Rightarrow> 'w xcm" where
  "insert_parachain_asset asset aid s = s \<lparr> x_assets := (x_assets s) (aid := Some asset) \<rparr>"

definition insert_pending_withdrawal :: "u32 \<Rightarrow> TheaWithdraw \<Rightarrow> 'w xcm \<Rightarrow> 'w xcm" where
  "insert_pending_withdrawal block_no withdrawal s = s \<lparr> x_pending := (x_pending s) (block_no := [withdrawal]) \<rparr>"

definition xcm_new_random_id :: "'w xcm_config \<Rightarrow> 32 word option \<Rightarrow> 'w xcm \<Rightarrow> H160 \<times> 'w xcm" where
  "xcm_new_random_id E prefix s =
    (let nonce = x_nonce s + 1 in
     (push_bit 128 (case prefix of None \<Rightarrow> 0 | Some p \<Rightarrow> ucast p) + ucast (xc_blake2_id E (xc_network_id E, nonce)),
      s \<lparr> x_nonce := nonce \<rparr>))"

subsection \<open>Dispatchables\<close>

definition whitelist_token :: "'w xcm_config \<Rightarrow> origin \<Rightarrow> XcmAssetId \<Rightarrow> 'w xcm \<Rightarrow> xcm_error fault + 'w xcm" where
  "whitelist_token E orig token s =
    ensure (xc_origin E orig) NotAllowed
    (case generate_asset_id_for_parachain E token s of (token, s) \<Rightarrow>
     ensure (token \<notin> set (x_whitelisted s)) (Fault TokenIsAlreadyWhitelisted)
     (bind_res (map_err Foreign (resolve_create (xc_fungibles E) token (xc_pallet_account E) 1 (x_world s))) (\<lambda>w.
      Inr (xcm_emit (TokenWhitelistedForXcm token)
        (s \<lparr> x_world := w, x_whitelisted := x_whitelisted s @ [token] \<rparr>)))))"

definition remove_whitelisted_token :: "'w xcm_config \<Rightarrow> origin \<Rightarrow> XcmAssetId \<Rightarrow> 'w xcm \<Rightarrow> xcm_error fault + 'w xcm" where
  "remove_whitelisted_token E orig token s =
    ensure (xc_origin E orig) NotAllowed
    (case generate_asset_id_for_parachain E token s of (token, s) \<Rightarrow>
     bind_res (ok_or (Fault TokenIsNotWhitelisted) (position (\<lambda>t. t = token) (x_whitelisted s))) (\<lambda>i.
     Inr (xcm_emit (WhitelistedTokenRemoved token) (s \<lparr> x_whitelisted := remove_at i (x_whitelisted s) \<rparr>))))"

definition transfer_fee :: "'w xcm_config \<Rightarrow> origin \<Rightarrow> account \<Rightarrow> 'w xcm \<Rightarrow> xcm_error fault + 'w xcm" where
  "transfer_fee E orig payee s =
    ensure (xc_origin E orig) NotAllowed
    (let amount = fg_native_reducible (xc_fungibles E) (xc_pallet_account E) Preserve Polite (x_world s) in
     bind_res (map_err Foreign (fg_native_transfer (xc_fungibles E) (xc_pallet_account E) payee amount Protect (x_world s))) (\<lambda>w.
     Inr (xcm_emit (XcmFeeTransferred payee amount) (s \<lparr> x_world := w \<rparr>))))"

definition insert_asset :: "'w xcm_config \<Rightarrow> origin \<Rightarrow> AssetId \<Rightarrow> XcmAssetId \<Rightarrow> 'w xcm \<Rightarrow> xcm_error fault + 'w xcm" where
  "insert_asset E orig aid location s =
    ensure (xc_origin E orig) NotAllowed
    (Inr (xcm_emit (ParachainAssetMapped aid location)
      (s \<lparr> x_assets := (x_assets s) (aid := Some location) \<rparr>)))"

subsection \<open>Transfers by XCM\<close>

definition mint_for :: "'w xcm_config \<Rightarrow> AssetId \<Rightarrow> u128 \<Rightarrow> account \<Rightarrow> 'w \<Rightarrow> foreign_error + 'w" where
  "mint_for E asset amount who w =
    resolve_deposit_parachain (xc_fungibles E) asset amount who (xc_pallet_account E) 1 w"

definition deposit_asset :: "'w xcm_config \<Rightarrow> MultiAsset \<Rightarrow> Location \<Rightarrow> 'w xcm \<Rightarrow> xcm_trap + 'w xcm" where
  "deposit_asset E what who s =
    (case generate_asset_id_for_parachain E (ma_id what) s of (aid, s) \<Rightarrow>
     case xc_sibling_convert E who of
       Some account \<Rightarrow>
         bind_res (ok_or (Trap 101) (get_amount (ma_fun what))) (\<lambda>amount.
         Inr (xcm_emit (SiblingDeposit who what)
           (case mint_for E aid amount account (x_world s) of
             Inl _ \<Rightarrow> xcm_emit (XcmSiblingDepositFailed who what) s
           | Inr w \<Rightarrow> s \<lparr> x_world := w \<rparr>)))
     | None \<Rightarrow>
         bind_res (ok_or (Trap 99) (extract_data_from_multilocation who)) (\<lambda>(recipient, extra).
         bind_res (ok_or (Trap 101) (get_amount (ma_fun what))) (\<lambda>amount.
         case xcm_new_random_id E None s of (unique_id, s) \<Rightarrow>
         bind_res (map_err (\<lambda>_. Trap 102) (xc_execute_withdrawals E (xc_network_id E)
           (xc_encode_deposit E \<lparr> td_id = unique_id, td_recipient = recipient, td_asset_id = aid, td_amount = amount,
             td_extra = extra \<rparr>) (x_world s))) (\<lambda>w.
         Inr (xcm_emit (AssetDeposited unique_id who what aid amount extra) (s \<lparr> x_world := w \<rparr>))))))"

definition withdraw_asset :: "'w xcm_config \<Rightarrow> MultiAsset \<Rightarrow> Location \<Rightarrow> 'w xcm \<Rightarrow> xcm_trap + 'w xcm" where
  "withdraw_asset E what who s =
    bind_res (ok_or FailedToDecode (xc_account_convert E who)) (\<lambda>who_account.
    bind_res (ok_or (Trap 101) (get_amount (ma_fun what))) (\<lambda>amount.
    case generate_asset_id_for_parachain E (ma_id what) s of (aid, s) \<Rightarrow>
    bind_res (map_err (\<lambda>_. Trap 110) (resolver_withdraw_parachain (xc_fungibles E) aid amount who_account (x_world s))) (\<lambda>w.
    Inr (s \<lparr> x_world := w \<rparr>))))"

definition xcm_transfer_asset :: "'w xcm_config \<Rightarrow> MultiAsset \<Rightarrow> Location \<Rightarrow> Location \<Rightarrow> 'w xcm \<Rightarrow> xcm_trap + 'w xcm" where
  "xcm_transfer_asset E asset payer payee s =
    bind_res (ok_or FailedToDecode (xc_account_convert E payer)) (\<lambda>payer.
    bind_res (ok_or FailedToDecode (xc_account_convert E payee)) (\<lambda>payee.
    bind_res (ok_or (Trap 101) (get_amount (ma_fun asset))) (\<lambda>amount.
    case generate_asset_id_for_parachain E (ma_id asset) s of (aid, s) \<Rightarrow>
    bind_res (map_err (\<lambda>_. Trap 102) (resolve_transfer (xc_fungibles E) aid payer payee amount (x_world s))) (\<lambda>w.
    Inr (s \<lparr> x_world := w \<rparr>)))))"

subsection \<open>Pending withdrawals\<close>

definition get_destination_account :: "Location \<Rightarrow> account option" where
  "get_destination_account location =
    (if l_parents location = 0 then
      case l_interior location of X1 (AccountId32 _ i) \<Rightarrow> Some i | _ \<Rightarrow> None
     else None)"

definition is_polkadex_parachain_destination :: "'w xcm_config \<Rightarrow> VersionedLocation \<Rightarrow> bool" where
  "is_polkadex_parachain_destination E destination =
    (case xc_try_into E destination of Some d \<Rightarrow> l_parents d = 0 | None \<Rightarrow> False)"

definition handle_deposit :: "'w xcm_config \<Rightarrow> TheaWithdraw \<Rightarrow> VersionedLocation \<Rightarrow> 'w \<Rightarrow> xcm_error fault + 'w" where
  "handle_deposit E withdrawal location w =
    bind_res (ok_or (Fault UnableToConvertToMultiLocation) (xc_try_into E location)) (\<lambda>l.
    bind_res (ok_or (Fault UnableToConvertToAccount) (get_destination_account l)) (\<lambda>account.
    map_err Foreign (mint_for E (tw_asset_id withdrawal) (tw_amount withdrawal) account w)))"

definition block_by_ele :: "u32 \<Rightarrow> u32 \<Rightarrow> 'w xcm \<Rightarrow> xcm_error fault + 'w xcm" where
  "block_by_ele block_no index s =
    (let pending = x_pending s block_no in
     ensure (unat index < length pending) (Fault IndexNotFound)
     (Inr (s \<lparr> x_pending := (x_pending s)
       (block_no := pending [unat index := (pending ! unat index) \<lparr> tw_is_blocked := True \<rparr>]) \<rparr>)))"

text \<open>The failed withdrawals collected so far and the state, while the loop runs.\<close>

type_synonym 'w xcm_run = "TheaWithdraw list \<times> 'w xcm"

definition fail :: "TheaWithdraw \<Rightarrow> xcm_event list \<Rightarrow> 'w xcm_run \<Rightarrow> 'w xcm_run" where
  "fail withdrawal es run = (fst run @ [withdrawal], (snd run) \<lparr> x_events := x_events (snd run) @ es \<rparr>)"

text \<open>A mint whose error only marks the withdrawal as failed.\<close>

definition try_mint :: "'w xcm_config \<Rightarrow> TheaWithdraw \<Rightarrow> AssetId \<Rightarrow> u128 \<Rightarrow> account \<Rightarrow> 'w xcm_run \<Rightarrow> 'w xcm_run" where
  "try_mint E withdrawal asset amount who run =
    (case mint_for E asset amount who (x_world (snd run)) of
      Inl _ \<Rightarrow> fail withdrawal [NotAbleToMintToken] run
    | Inr w \<Rightarrow> (fst run, (snd run) \<lparr> x_world := w \<rparr>))"

text \<open>The XCM transfer that should follow the mint is commented out in the source.\<close>

definition withdraw_with_fee :: "'w xcm_config \<Rightarrow> TheaWithdraw \<Rightarrow> AssetId \<Rightarrow> u128 \<Rightarrow> 'w xcm_run \<Rightarrow> 'w xcm_run" where
  "withdraw_with_fee E withdrawal fee_asset_id fee_amount run =
    (if x_assets (snd run) (tw_asset_id withdrawal) \<noteq> None \<and> x_assets (snd run) fee_asset_id \<noteq> None
     then try_mint E withdrawal fee_asset_id fee_amount (xc_pallet_account E)
       (try_mint E withdrawal (tw_asset_id withdrawal) (tw_amount withdrawal) (xc_pallet_account E) run)
     else run)"

definition withdraw_without_fee :: "'w xcm_config \<Rightarrow> TheaWithdraw \<Rightarrow> VersionedLocation \<Rightarrow> 'w xcm_run \<Rightarrow> 'w xcm_run" where
  "withdraw_without_fee E withdrawal destination run =
    (if x_assets (snd run) (tw_asset_id withdrawal) = None
     then fail withdrawal [ParachainAssetNotMapped] run
     else case destination of
       V3 location \<Rightarrow>
         try_mint E withdrawal (tw_asset_id withdrawal) (tw_amount withdrawal) (xc_pallet_account E)
           (case (xc_sibling_convert E location, tw_asset_id withdrawal) of
             (Some sovereign, Polkadex) \<Rightarrow>
               try_mint E withdrawal (tw_asset_id withdrawal) (tw_amount withdrawal) sovereign run
           | _ \<Rightarrow> run)
     | OtherVersion _ \<Rightarrow> fail withdrawal [NotAbleToDecodeDestination] run)"

definition process_withdrawal :: "'w xcm_config \<Rightarrow> TheaWithdraw \<Rightarrow> 'w xcm_run \<Rightarrow> 'w xcm_run" where
  "process_withdrawal E withdrawal run =
    (if tw_is_blocked withdrawal then fail withdrawal [] run
     else case xc_decode_location E (tw_destination withdrawal) of
       None \<Rightarrow> fail withdrawal [NotAbleToDecodeDestination] run
     | Some destination \<Rightarrow>
         if \<not> is_polkadex_parachain_destination E destination
         then (case (tw_fee_asset_id withdrawal, tw_fee_amount withdrawal) of
             (Some fee_asset_id, Some fee_amount) \<Rightarrow> withdraw_with_fee E withdrawal fee_asset_id fee_amount run
           | _ \<Rightarrow> withdraw_without_fee E withdrawal destination run)
         else (case handle_deposit E withdrawal destination (x_world (snd run)) of
             Inl _ \<Rightarrow> fail withdrawal [NotAbleToHandleDestination] run
           | Inr w \<Rightarrow> (fst run, (snd run) \<lparr> x_world := w \<rparr>)))"

text \<open>The loop pops the vector, so it runs from its end to its start.\<close>

definition handle_new_pending_withdrawals :: "'w xcm_config \<Rightarrow> u32 \<Rightarrow> 'w xcm \<Rightarrow> 'w xcm" where
  "handle_new_pending_withdrawals E n s =
    (let max = unat (xc_max_withdrawals E);
         pending = x_pending s n;
         split_at = length pending - max;
         overflow = take split_at pending;
         taken = s \<lparr> x_pending := (x_pending s) (n := []) \<rparr>;
         next = sat_add n 1;
         requeued = (if overflow = [] then taken
           else taken \<lparr> x_pending := (x_pending taken) (next := x_pending taken next @ overflow) \<rparr>);
         (failed, s) = fold (process_withdrawal E) (rev (drop split_at pending)) ([], requeued)
     in if failed = [] then s else s \<lparr> x_failed := (x_failed s) (n := failed) \<rparr>)"

definition xcm_on_initialize :: "'w xcm_config \<Rightarrow> u32 \<Rightarrow> 'w xcm \<Rightarrow> 'w xcm" where
  "xcm_on_initialize E n s = handle_new_pending_withdrawals E n s"

subsection \<open>Messages from Thea\<close>

definition queue_withdrawal :: "'w xcm_config \<Rightarrow> TheaWithdraw \<Rightarrow> 'w xcm \<Rightarrow> 'w xcm" where
  "queue_withdrawal E d s =
    (let block = sat_add (x_block s) (xc_block_diff E) in
     s \<lparr> x_pending := (x_pending s) (block := x_pending s block @ [d]) \<rparr>)"

definition execute_deposits :: "'w xcm_config \<Rightarrow> Network \<Rightarrow> bytes \<Rightarrow> 'w xcm \<Rightarrow> foreign_error + 'w xcm" where
  "execute_deposits E network deposits s =
    bind_res (ok_or (ForeignMessage ''xcm-helper execute_deposits: SCALE decode failed'') (xc_decode_withdraws E deposits)) (\<lambda>ds.
    ensure (length ds \<le> unat (xc_max_withdrawals E)) (ForeignMessage ''xcm-helper execute_deposits: batch too large'')
    (Inr (fold (queue_withdrawal E) ds s)))"

end
