(* ===== verification/Xcm_Queue.thy ===== *)
theory Xcm_Queue
  imports Xcm_Helper
begin

text \<open>
  Properties of the withdrawal queue of the XCM helper: a block takes a bounded number of
  withdrawals and carries the rest over, so the queue drains; and two defects of the
  execution loop.
\<close>

subsection \<open>What the loop leaves alone\<close>

lemma fail_fields [simp]:
  "x_pending (snd (fail d es run)) = x_pending (snd run)" "x_world (snd (fail d es run)) = x_world (snd run)"
  "x_assets (snd (fail d es run)) = x_assets (snd run)" "fst (fail d es run) = fst run @ [d]"
  by (simp_all add: fail_def)

lemma try_mint_fields [simp]:
  "x_pending (snd (try_mint E d a amt who run)) = x_pending (snd run)"
  "x_assets (snd (try_mint E d a amt who run)) = x_assets (snd run)"
  by (simp_all add: try_mint_def split: sum.split)

lemma process_withdrawal_fields [simp]:
  "x_pending (snd (process_withdrawal E d run)) = x_pending (snd run)"
  by (simp add: process_withdrawal_def withdraw_with_fee_def withdraw_without_fee_def
      split: option.split sum.split VersionedLocation.split AssetId.split)

lemma fold_process_fields [simp]: "x_pending (snd (fold (process_withdrawal E) ds run)) = x_pending (snd run)"
  by (induction ds arbitrary: run) simp_all

text \<open>The withdrawals a block executes and those it carries over.\<close>

definition executed :: "'w xcm_config \<Rightarrow> u32 \<Rightarrow> 'w xcm \<Rightarrow> TheaWithdraw list" where
  "executed E n s = drop (length (x_pending s n) - unat (xc_max_withdrawals E)) (x_pending s n)"

definition carried :: "'w xcm_config \<Rightarrow> u32 \<Rightarrow> 'w xcm \<Rightarrow> TheaWithdraw list" where
  "carried E n s = take (length (x_pending s n) - unat (xc_max_withdrawals E)) (x_pending s n)"

lemma next_block: "unat n + 1 < 2 ^ 32 \<Longrightarrow> unat (n + 1 :: u32) = unat n + 1 \<and> n < n + 1 \<and> sat_add n 1 = n + 1"
  by (simp add: unat_word_ariths word_less_nat_alt sat_add_def)

lemma xcm_on_initialize_pending:
  assumes "unat n + 1 < 2 ^ 32"
  shows "x_pending (xcm_on_initialize E n s) = (x_pending s) (n := [], n + 1 := x_pending s (n + 1) @ carried E n s)"
  using next_block [OF assms]
  by (auto simp: xcm_on_initialize_def handle_new_pending_withdrawals_def Let_def carried_def split_beta fun_upd_twist)

subsection \<open>The queue drains\<close>

text \<open>The executions of \<open>k\<close> consecutive blocks from block \<open>n\<close> on, with no new messages.\<close>

fun drain :: "'w xcm_config \<Rightarrow> nat \<Rightarrow> u32 \<Rightarrow> 'w xcm \<Rightarrow> TheaWithdraw list \<times> 'w xcm" where
  "drain E 0 n s = ([], s)"
| "drain E (Suc k) n s =
    (let (ds, s') = drain E k (n + 1) (xcm_on_initialize E n s) in (executed E n s @ ds, s'))"

lemma mset_executed_carried: "mset (executed E n s) + mset (carried E n s) = mset (x_pending s n)"
  unfolding executed_def carried_def by (metis append_take_drop_id mset_append union_commute)

lemma length_carried: "length (carried E n s) = length (x_pending s n) - unat (xc_max_withdrawals E)"
  by (simp add: carried_def)

lemma drain_before:
  assumes "unat n + k < 2 ^ 32" "j < n"
  shows "x_pending (snd (drain E k n s)) j = x_pending s j"
  using assms
proof (induction k arbitrary: n s)
  case (Suc k)
  have "unat n + 1 < 2 ^ 32"
    using Suc.prems(1) by simp
  note b = next_block [OF this] and p = xcm_on_initialize_pending [OF this, of E s]
  have "j \<noteq> n" "j \<noteq> n + 1" "j < n + 1"
    using Suc.prems(2) b by auto
  then show ?case
    using Suc.IH [of "n + 1" "xcm_on_initialize E n s"] Suc.prems(1) b by (simp add: p split_beta)
qed simp

lemma drain_all:
  assumes "unat n + k < 2 ^ 32" "length (x_pending s n) \<le> k * unat (xc_max_withdrawals E)"
    and "\<And>j. n < j \<Longrightarrow> unat j \<le> unat n + k \<Longrightarrow> x_pending s j = []"
  shows "mset (fst (drain E k n s)) = mset (x_pending s n) \<and>
    (\<forall>j. n \<le> j \<longrightarrow> unat j \<le> unat n + k \<longrightarrow> x_pending (snd (drain E k n s)) j = [])"
  using assms
proof (induction k arbitrary: n s)
  case 0
  have "j = n" if "n \<le> j" "unat j \<le> unat n" for j
    using that by (simp add: word_le_nat_alt word_unat_eq_iff)
  with 0 show ?case
    by auto
next
  case (Suc k)
  let ?t = "xcm_on_initialize E n s"
  have room: "unat n + 1 < 2 ^ 32"
    using Suc.prems(1) by simp
  note b = next_block [OF room] and p = xcm_on_initialize_pending [OF room, of E s]
  have next1: "x_pending ?t (n + 1) = carried E n s"
    using Suc.prems(3) [of "n + 1"] b by (simp add: p)
  have "length (x_pending ?t (n + 1)) \<le> k * unat (xc_max_withdrawals E)"
    using Suc.prems(2) by (simp add: next1 length_carried)
  moreover have "x_pending ?t j = []" if "n + 1 < j" "unat j \<le> unat (n + 1) + k" for j
  proof -
    have "n < j" "j \<noteq> n" "j \<noteq> n + 1"
      using that b by auto
    then show ?thesis
      using Suc.prems(3) [of j] that b by (simp add: p)
  qed
  ultimately have ih: "mset (fst (drain E k (n + 1) ?t)) = mset (carried E n s)"
    "\<And>j. n + 1 \<le> j \<Longrightarrow> unat j \<le> unat n + 1 + k \<Longrightarrow> x_pending (snd (drain E k (n + 1) ?t)) j = []"
    using Suc.IH [of "n + 1" ?t] Suc.prems(1) b next1 by auto
  have "x_pending (snd (drain E k (n + 1) ?t)) n = []"
    using drain_before [of "n + 1" k n E ?t] Suc.prems(1) b by (simp add: p)
  moreover have "j = n \<or> n + 1 \<le> j" if "n \<le> j" for j
    using that b by (auto simp: word_le_nat_alt word_unat_eq_iff)
  ultimately have "x_pending (snd (drain E k (n + 1) ?t)) j = []" if "n \<le> j" "unat j \<le> unat n + Suc k" for j
    using that ih(2) [of j] by auto
  then show ?case
    using ih(1) mset_executed_carried [of E n s] by (simp add: split_beta)
qed


subsection \<open>A sample helper\<close>

definition sample_fungibles :: "(AssetId \<Rightarrow> account \<Rightarrow> int) fungibles" where
  "sample_fungibles =
    \<lparr> fg_native_id = Polkadex,
      fg_native_transfer = (\<lambda>p q amt _ w. Inr (credited (credited w Polkadex p (- uint amt)) Polkadex q (uint amt))),
      fg_native_mint = (\<lambda>p amt w. Inr (credited w Polkadex p (uint amt))),
      fg_native_burn = (\<lambda>p amt _ _ w. Inr (credited w Polkadex p (- uint amt))),
      fg_native_reducible = (\<lambda>p _ _ w. word_of_int (w Polkadex p)),
      fg_exists = (\<lambda>_ _. True), fg_create = (\<lambda>_ _ _ w. Inr w),
      fg_mint = (\<lambda>a p amt w. Inr (credited w a p (uint amt))),
      fg_burn = (\<lambda>a p amt _ _ w. Inr (credited w a p (- uint amt))),
      fg_transfer = (\<lambda>a p q amt _ w. Inr (credited (credited w a p (- uint amt)) a q (uint amt))),
      fg_set_metadata = (\<lambda>_ _ _ _ _ w. Inr w) \<rparr>"

lemma sample_fungibles_laws: "fungible_laws sample_fungibles (\<lambda>w. w)"
  by (simp add: fungible_laws_def sample_fungibles_def)

definition sample_location :: Location where
  "sample_location = \<lparr> l_parents = 1, l_interior = X1 (ParachainJunction 7) \<rparr>"

definition sample_xcm_config :: "(AssetId \<Rightarrow> account \<Rightarrow> int) xcm_config" where
  "sample_xcm_config =
    \<lparr> xc_fungibles = sample_fungibles, xc_account_convert = (\<lambda>_. None),
      xc_sibling_convert = (\<lambda>l. if l_parents l = 1 then Some 77 else None), xc_origin = (\<lambda>orig. orig = Root),
      xc_execute_withdrawals = (\<lambda>_ _ w. Inr w), xc_pallet_account = 5, xc_block_diff = 3, xc_parachain_id = 9,
      xc_network_id = 3, xc_max_withdrawals = 2, xc_blake2_asset = (\<lambda>_. 11), xc_blake2_id = (\<lambda>(_, k). ucast k),
      xc_decode_location = (\<lambda>b. if b = [] then None else Some (V3 sample_location)),
      xc_try_into = (\<lambda>v. case v of V3 l \<Rightarrow> Some l | OtherVersion _ \<Rightarrow> None),
      xc_decode_withdraws = (\<lambda>b. if b = [] then None else Some (map (\<lambda>x.
        \<lparr> tw_id = 0, tw_asset_id = Polkadex, tw_amount = ucast x, tw_destination = [1], tw_fee_asset_id = None,
          tw_fee_amount = None, tw_is_blocked = False, tw_extra = ExtraNone \<rparr>) b)),
      xc_encode_deposit = (\<lambda>d. [ucast (td_amount d)]) \<rparr>"

definition sample_withdraw :: "u128 \<Rightarrow> TheaWithdraw" where
  "sample_withdraw amount =
    \<lparr> tw_id = 0, tw_asset_id = Polkadex, tw_amount = amount, tw_destination = [1], tw_fee_asset_id = None,
      tw_fee_amount = None, tw_is_blocked = False, tw_extra = ExtraNone \<rparr>"

definition sample_xcm :: "(AssetId \<Rightarrow> account \<Rightarrow> int) xcm" where
  "sample_xcm =
    \<lparr> x_pending = (\<lambda>_. []) (4 := map sample_withdraw [1, 2, 3, 4, 5]), x_failed = (\<lambda>_. []),
      x_assets = (\<lambda>_. None) (Polkadex := Some (Concrete sample_location)), x_whitelisted = [], x_nonce = 0, x_block = 4,
      x_events = [], x_world = (\<lambda>_ _. 0) \<rparr>"


subsection \<open>Defects of the loop\<close>

text \<open>C15: a withdrawal of the native asset to a sibling chain is minted twice, once for the sibling's
  sovereign account and once for the pallet's account, and is not recorded as failed.\<close>

theorem sibling_native_minted_twice:
  assumes "fungible_laws (xc_fungibles E) tok" and "fg_native_id (xc_fungibles E) = Polkadex"
    and "\<not> tw_is_blocked d" and "tw_asset_id d = Polkadex" and "tw_fee_asset_id d = None"
    and "xc_decode_location E (tw_destination d) = Some (V3 l)" and "xc_try_into E (V3 l) = Some l" and "l_parents l \<noteq> 0"
    and "xc_sibling_convert E l = Some sovereign" and "sovereign \<noteq> xc_pallet_account E"
    and "x_assets (snd run) Polkadex \<noteq> None" and "\<forall>p w. is_ok (fg_native_mint (xc_fungibles E) p (tw_amount d) w)"
  shows "fst (process_withdrawal E d run) = fst run \<and>
    tok (x_world (snd (process_withdrawal E d run))) Polkadex sovereign =
      tok (x_world (snd run)) Polkadex sovereign + uint (tw_amount d) \<and>
    tok (x_world (snd (process_withdrawal E d run))) Polkadex (xc_pallet_account E) =
      tok (x_world (snd run)) Polkadex (xc_pallet_account E) + uint (tw_amount d)"
proof -
  obtain w1 where w1: "mint_for E Polkadex (tw_amount d) sovereign (x_world (snd run)) = Inr w1"
    using assms(2,12) by (auto simp: mint_for_def resolve_deposit_parachain_def is_ok_iff)
  obtain w2 where w2: "mint_for E Polkadex (tw_amount d) (xc_pallet_account E) w1 = Inr w2"
    using assms(2,12) by (auto simp: mint_for_def resolve_deposit_parachain_def is_ok_iff)
  obtain loc where "x_assets (snd run) Polkadex = Some loc"
    using assms(11) by blast
  then have run: "process_withdrawal E d run = (fst run, (snd run) \<lparr> x_world := w2 \<rparr>)"
    using assms(3-9) w1 w2
    by (simp add: process_withdrawal_def is_polkadex_parachain_destination_def withdraw_without_fee_def try_mint_def)
  have "tok w1 = credited (tok (x_world (snd run))) Polkadex sovereign (uint (tw_amount d))"
    "tok w2 = credited (tok w1) Polkadex (xc_pallet_account E) (uint (tw_amount d))"
    using minting.put_tok [OF assms(1)] w1 w2 by (simp_all add: mint_for_def)
  then show ?thesis
    using assms(10) by (simp add: run credited_def)
qed

theorem sibling_native_minted_twice_witness:
  "fst (process_withdrawal sample_xcm_config (sample_withdraw 6) ([], sample_xcm)) = [] \<and>
    x_world (snd (process_withdrawal sample_xcm_config (sample_withdraw 6) ([], sample_xcm))) Polkadex 77 = 6 \<and>
    x_world (snd (process_withdrawal sample_xcm_config (sample_withdraw 6) ([], sample_xcm))) Polkadex 5 = 6"
  using sibling_native_minted_twice [of sample_xcm_config "\<lambda>w. w" "sample_withdraw 6" sample_location 77 "([], sample_xcm)"]
    sample_fungibles_laws
  by (simp add: sample_xcm_config_def sample_withdraw_def sample_location_def sample_xcm_def sample_fungibles_def)

text \<open>A withdrawal to another chain that names a fee, when its asset or its fee asset is not mapped to
  a location, vanishes: nothing is minted, nothing is recorded as failed and no event is emitted.\<close>

theorem unmapped_withdrawal_vanishes:
  assumes "\<not> tw_is_blocked d" and "xc_decode_location E (tw_destination d) = Some l"
    and "\<not> is_polkadex_parachain_destination E l" and "tw_fee_asset_id d = Some fee" and "tw_fee_amount d = Some amount"
    and "x_assets (snd run) (tw_asset_id d) = None \<or> x_assets (snd run) fee = None"
  shows "process_withdrawal E d run = run"
  using assms by (auto simp: process_withdrawal_def withdraw_with_fee_def)

theorem unmapped_withdrawal_vanishes_witness:
  "process_withdrawal sample_xcm_config
    ((sample_withdraw 6) \<lparr> tw_fee_asset_id := Some (Asset 1), tw_fee_amount := Some 2 \<rparr>) ([], sample_xcm) = ([], sample_xcm)"
  by (rule unmapped_withdrawal_vanishes [where l = "V3 sample_location" and fee = "Asset 1" and amount = 2])
    (simp_all add: sample_xcm_config_def sample_withdraw_def sample_location_def sample_xcm_def is_polkadex_parachain_destination_def)

end
