(* ===== verification/Liquidity_Mining.thy ===== *)
theory Liquidity_Mining
  imports Ocex_Lmp Frame Saturating
begin

text \<open>
  The crowd-sourced liquidity mining pallet, \<^verbatim>\<open>pallets/liquidity-mining/src\<close>: pools of market makers,
  their shares, withdrawal requests, rewards and scores (\<^verbatim>\<open>lib.rs\<close>) and the callbacks the orderbook
  pallet makes (\<^verbatim>\<open>callback.rs\<close>). The currencies are a parameter; the trait \<^verbatim>\<open>LiquidityMining\<close> is the
  record \<open>liquidity_ops\<close>, which \<open>ocex_liquidity\<close> instantiates with the orderbook pallet's model.
\<close>

subsection \<open>Configuration\<close>

datatype lm_error =
    UnknownMarket
  | ConversionError
  | InvalidCommission
  | InvalidExitFee
  | PoolExists
  | NotEnoughQuoteAmount
  | UnknownPool
  | PublicDepositsNotAllowed
  | TotalShareIssuanceIsZero
  | InvalidLPAddress
  | AlreadyClaimed
  | InvalidTotalScore
  | PoolIsForceClosed
  | PoolNotForceClosed
  | InvalidTotalIssuance
  | SnapshotInProgress
  | PriceNotAvailable

text \<open>An error of this pallet, seen from another one, is its number in the declaration.\<close>

fun lm_code :: "lm_error \<Rightarrow> nat" where
  "lm_code UnknownMarket = 0"
| "lm_code ConversionError = 1"
| "lm_code InvalidCommission = 2"
| "lm_code InvalidExitFee = 3"
| "lm_code PoolExists = 4"
| "lm_code NotEnoughQuoteAmount = 5"
| "lm_code UnknownPool = 6"
| "lm_code PublicDepositsNotAllowed = 7"
| "lm_code TotalShareIssuanceIsZero = 8"
| "lm_code InvalidLPAddress = 9"
| "lm_code AlreadyClaimed = 10"
| "lm_code InvalidTotalScore = 11"
| "lm_code PoolIsForceClosed = 12"
| "lm_code PoolNotForceClosed = 13"
| "lm_code InvalidTotalIssuance = 14"
| "lm_code SnapshotInProgress = 15"
| "lm_code PriceNotAvailable = 16"

definition lm_fault :: "lm_error \<Rightarrow> dispatch_error" where
  "lm_fault e = External (lm_code e)"

record 'w pool_assets =
  pa_native_transfer :: "account \<Rightarrow> account \<Rightarrow> u128 \<Rightarrow> preservation \<Rightarrow> 'w \<Rightarrow> dispatch_error + 'w"
  pa_native_minimum :: u128
  pa_create :: "u128 \<Rightarrow> account \<Rightarrow> u128 \<Rightarrow> 'w \<Rightarrow> dispatch_error + 'w"
  pa_transfer :: "u128 \<Rightarrow> account \<Rightarrow> account \<Rightarrow> u128 \<Rightarrow> preservation \<Rightarrow> 'w \<Rightarrow> dispatch_error + 'w"
  pa_minimum :: "u128 \<Rightarrow> 'w \<Rightarrow> u128"
  pa_mint :: "u128 \<Rightarrow> account \<Rightarrow> u128 \<Rightarrow> 'w \<Rightarrow> dispatch_error + 'w"
  pa_burn :: "u128 \<Rightarrow> account \<Rightarrow> u128 \<Rightarrow> fortitude \<Rightarrow> 'w \<Rightarrow> dispatch_error + (u128 \<times> 'w)"
  pa_issuance :: "u128 \<Rightarrow> 'w \<Rightarrow> u128"
  pa_reducible :: "u128 \<Rightarrow> account \<Rightarrow> 'w \<Rightarrow> u128"

record ('d, 'w) liquidity_ops =
  lq_register_pool :: "account \<Rightarrow> account \<Rightarrow> 'w \<Rightarrow> dispatch_error + 'w"
  lq_average_price :: "TradingPair \<Rightarrow> 'w \<Rightarrow> 'd option"
  lq_is_registered_market :: "TradingPair \<Rightarrow> 'w \<Rightarrow> bool"
  lq_add_liquidity :: "TradingPair \<Rightarrow> account \<Rightarrow> account \<Rightarrow> 'd \<Rightarrow> 'd \<Rightarrow> 'd \<Rightarrow> 'w \<Rightarrow> dispatch_error + 'w"
  lq_remove_liquidity :: "TradingPair \<Rightarrow> account \<Rightarrow> account \<Rightarrow> u128 \<Rightarrow> u128 \<Rightarrow> 'w \<Rightarrow> dispatch_error + 'w"
  lq_force_close_pool :: "TradingPair \<Rightarrow> account \<Rightarrow> 'w \<Rightarrow> 'w"
  lq_claim_rewards :: "account \<Rightarrow> u16 \<Rightarrow> TradingPair \<Rightarrow> 'w \<Rightarrow> dispatch_error + (u128 \<times> 'w)"

text \<open>The orderbook pallet implements the trait; removing liquidity fails only by a panic.\<close>

definition ocex_liquidity :: "('d, 'w) config \<Rightarrow> ('d, ('d, 'w) ocex) liquidity_ops" where
  "ocex_liquidity cfg =
    \<lparr> lq_register_pool = register_pool cfg, lq_average_price = average_price, lq_is_registered_market = is_registered_market,
      lq_add_liquidity = add_liquidity cfg, lq_remove_liquidity = remove_liquidity cfg,
      lq_force_close_pool = force_close_pool cfg, lq_claim_rewards = claim_rewards cfg \<rparr>"

record ('d, 'w) lm_config =
  lc_dec :: "'d decimal_ops"
  lc_assets :: "'w pool_assets"
  lc_ocex :: "('d, 'w) liquidity_ops"
  lc_pool_hash :: "account \<Rightarrow> TradingPair \<Rightarrow> u128"
  lc_sub_account :: "u128 \<Rightarrow> account"

subsection \<open>State\<close>

record 'd MarketMakerConfig =
  mm_pool_id :: account
  mm_commission :: 'd
  mm_exit_fee :: 'd
  mm_public_funds_allowed :: bool
  mm_name :: bytes
  mm_share_id :: u128
  mm_force_closed :: bool

datatype lm_event =
    LiquidityAdded TradingPair account account u128 AssetId u128 u128
  | LiquidityRemoved TradingPair account account
  | LiquidityRemovalFailed TradingPair account account u128 u128 u128 u128 u128
  | EvPoolForceClosed TradingPair account u128 u128

type_synonym score_map = "(account, u128 \<times> bool) btree"
type_synonym score_sheet = "(TradingPair \<times> account \<times> u16, score_map \<times> u128) btree"

record ('d, 'w) lmp =
  lm_lp_shares :: "u128 \<Rightarrow> (account \<times> u128) list"
  lm_pools :: "TradingPair \<Rightarrow> account \<Rightarrow> 'd MarketMakerConfig option"
  lm_pool_index :: "account \<rightharpoonup> TradingPair \<times> account"
  lm_rewards :: "u16 \<Rightarrow> account \<Rightarrow> u128 option"
  lm_add_records :: "u16 \<Rightarrow> account \<times> account \<Rightarrow> (u32 \<times> u128) list"
  lm_requests :: "u16 \<Rightarrow> account \<Rightarrow> (account \<times> u128 \<times> u128) list"
  lm_providers :: "u16 \<Rightarrow> account \<Rightarrow> score_map \<times> u128 \<times> bool"
  lm_epoch :: u16
  lm_snapshot_flag :: "u32 option"
  lm_withdrawing_epoch :: u16
  lm_now :: u32
  lm_events :: "lm_event list"
  lm_world :: 'w

definition lm_emit :: "lm_event \<Rightarrow> ('d, 'w) lmp \<Rightarrow> ('d, 'w) lmp" where
  "lm_emit e s = s \<lparr> lm_events := lm_events s @ [e] \<rparr>"

text \<open>An operation on the rest of the chain.\<close>

definition on_world :: "('w \<Rightarrow> dispatch_error + 'w) \<Rightarrow> ('d, 'w) lmp \<Rightarrow> dispatch_error + ('d, 'w) lmp" where
  "on_world f s = bind_res (f (lm_world s)) (\<lambda>w. Inr (s \<lparr> lm_world := w \<rparr>))"

lemma on_world_Inr [res_simps]: "on_world f s = Inr s' \<longleftrightarrow> (\<exists>w. f (lm_world s) = Inr w \<and> s' = s \<lparr> lm_world := w \<rparr>)"
  by (auto simp: on_world_def res_simps)

subsection \<open>Amounts\<close>

definition lm_from_units :: "'d decimal_ops \<Rightarrow> u128 \<Rightarrow> dispatch_error + 'd" where
  "lm_from_units D x =
    bind_res (ok_or (lm_fault ConversionError) (d_from D x)) (\<lambda>a.
    bind_res (ok_or Panicked (d_from D UNIT_BALANCE)) (\<lambda>u. ok_or Panicked (d_div D a u)))"

definition lm_to_units :: "'d decimal_ops \<Rightarrow> 'd \<Rightarrow> dispatch_error + u128" where
  "lm_to_units D x = bind_res (ok_or Panicked (d_to_units D x)) (ok_or (lm_fault ConversionError))"

definition fraction_ok :: "'d decimal_ops \<Rightarrow> 'd \<Rightarrow> bool" where
  "fraction_ok D x \<longleftrightarrow> d_le D (d_zero D) x \<and> d_le D x (d_lit D 1)"

definition lm_transfer_asset :: "('d, 'w) lm_config \<Rightarrow> account \<Rightarrow> account \<Rightarrow> 'd \<Rightarrow> AssetId \<Rightarrow> 'w \<Rightarrow> dispatch_error + 'w" where
  "lm_transfer_asset C payer payee amount asset w =
    bind_res (ok_or Panicked (d_from (lc_dec C) UNIT_BALANCE)) (\<lambda>u.
    bind_res (ok_or Panicked (d_mul (lc_dec C) amount u)) (\<lambda>amount.
    bind_res (ok_or (lm_fault ConversionError) (d_to_u128 (lc_dec C) amount)) (\<lambda>amount.
    case asset of
      Polkadex \<Rightarrow> pa_native_transfer (lc_assets C) payer payee amount Preserve w
    | Asset i \<Rightarrow> pa_transfer (lc_assets C) i payer payee amount Preserve w)))"

definition create_pool_account :: "('d, 'w) lm_config \<Rightarrow> account \<Rightarrow> TradingPair \<Rightarrow> account \<times> u128" where
  "create_pool_account C maker market = (lc_sub_account C (lc_pool_hash C maker market), lc_pool_hash C maker market)"

subsection \<open>Pools\<close>

text \<open>The deposit of the least balance of an asset to a new pool.\<close>

definition fund_pool :: "('d, 'w) lm_config \<Rightarrow> u128 \<Rightarrow> account \<Rightarrow> account \<Rightarrow> 'w \<Rightarrow> dispatch_error + 'w" where
  "fund_pool C asset market_maker pool w =
    pa_transfer (lc_assets C) asset market_maker pool (pa_minimum (lc_assets C) asset w) Preserve w"

definition fund_pool_opt :: "('d, 'w) lm_config \<Rightarrow> AssetId \<Rightarrow> account \<Rightarrow> account \<Rightarrow> 'w \<Rightarrow> dispatch_error + 'w" where
  "fund_pool_opt C asset market_maker pool w =
    (case asset_id asset of None \<Rightarrow> Inr w | Some i \<Rightarrow> fund_pool C i market_maker pool w)"

definition lm_register_pool :: "('d, 'w) lm_config \<Rightarrow> origin \<Rightarrow> bytes \<Rightarrow> TradingPair \<Rightarrow> u128 \<Rightarrow> u128 \<Rightarrow> bool \<Rightarrow> account \<Rightarrow>
    ('d, 'w) lmp \<Rightarrow> dispatch_error + ('d, 'w) lmp" where
  "lm_register_pool C orig name market commission exit_fee public_funds_allowed trading_account s =
    bind_res (ensure_signed orig) (\<lambda>market_maker.
    ensure (lm_pools s market market_maker = None) (lm_fault PoolExists)
    (ensure (lq_is_registered_market (lc_ocex C) market (lm_world s)) (lm_fault UnknownMarket)
    (bind_res (lm_from_units (lc_dec C) commission) (\<lambda>commission.
     bind_res (lm_from_units (lc_dec C) exit_fee) (\<lambda>exit_fee.
     ensure (fraction_ok (lc_dec C) commission) (lm_fault InvalidCommission)
     (ensure (fraction_ok (lc_dec C) exit_fee) (lm_fault InvalidExitFee)
     (let (pool, share_id) = create_pool_account C market_maker market in
      bind_res (pa_create (lc_assets C) share_id pool 1 (lm_world s)) (\<lambda>w.
      bind_res (pa_native_transfer (lc_assets C) market_maker pool (pa_native_minimum (lc_assets C)) Preserve w) (\<lambda>w.
      bind_res (fund_pool_opt C (base market) market_maker pool w) (\<lambda>w.
      bind_res (fund_pool_opt C (quote market) market_maker pool w) (\<lambda>w.
      bind_res (ok_or (lm_fault ConversionError) (asset_id (quote market))) (\<lambda>quote_asset.
      bind_res (fund_pool C quote_asset market_maker pool w) (\<lambda>w.
      bind_res (lq_register_pool (lc_ocex C) pool trading_account w) (\<lambda>w.
      Inr (s \<lparr> lm_world := w,
        lm_pool_index := (lm_pool_index s) (pool \<mapsto> (market, market_maker)),
        lm_pools := put2 market market_maker (Some \<lparr> mm_pool_id = pool, mm_commission = commission, mm_exit_fee = exit_fee,
          mm_public_funds_allowed = public_funds_allowed, mm_name = name, mm_share_id = share_id, mm_force_closed = False \<rparr>)
          (lm_pools s) \<rparr>)))))))))))))))"

definition pool_of :: "TradingPair \<Rightarrow> account \<Rightarrow> ('d, 'w) lmp \<Rightarrow> dispatch_error + 'd MarketMakerConfig" where
  "pool_of market market_maker s = ok_or (lm_fault UnknownPool) (lm_pools s market market_maker)"

lemma pool_of_Inr [res_simps]: "pool_of m mm s = Inr p \<longleftrightarrow> lm_pools s m mm = Some p"
  by (simp add: pool_of_def res_simps)

definition lm_add_liquidity :: "('d, 'w) lm_config \<Rightarrow> origin \<Rightarrow> TradingPair \<Rightarrow> account \<Rightarrow> u128 \<Rightarrow> u128 \<Rightarrow>
    ('d, 'w) lmp \<Rightarrow> dispatch_error + ('d, 'w) lmp" where
  "lm_add_liquidity C orig market market_maker base_amount max_quote_amount s =
    bind_res (ensure_signed orig) (\<lambda>lp.
    bind_res (pool_of market market_maker s) (\<lambda>pool.
    ensure (lm_snapshot_flag s = None) (lm_fault SnapshotInProgress)
    (ensure (\<not> mm_force_closed pool) (lm_fault PoolIsForceClosed)
    (ensure (mm_public_funds_allowed pool \<or> mm_force_closed pool \<or> lp = market_maker) (lm_fault PublicDepositsNotAllowed)
    (bind_res (lm_from_units (lc_dec C) base_amount) (\<lambda>base_amount.
     bind_res (lm_from_units (lc_dec C) max_quote_amount) (\<lambda>max_quote_amount.
     bind_res (ok_or (lm_fault PriceNotAvailable) (lq_average_price (lc_ocex C) market (lm_world s))) (\<lambda>average_price.
     let required_quote_amount = d_sat_mul (lc_dec C) average_price base_amount in
     ensure (d_le (lc_dec C) required_quote_amount max_quote_amount) (lm_fault NotEnoughQuoteAmount)
     (bind_res (on_world (lm_transfer_asset C lp (mm_pool_id pool) base_amount (base market)) s) (\<lambda>s.
      bind_res (on_world (lm_transfer_asset C lp (mm_pool_id pool) required_quote_amount (quote market)) s) (\<lambda>s.
      bind_res (ok_or Panicked (d_from_units (lc_dec C) (pa_issuance (lc_assets C) (mm_share_id pool) (lm_world s)))) (\<lambda>total_shares.
      on_world (lq_add_liquidity (lc_ocex C) market (mm_pool_id pool) lp total_shares base_amount required_quote_amount) s))))))))))))"

definition lm_remove_liquidity :: "('d, 'w) lm_config \<Rightarrow> origin \<Rightarrow> TradingPair \<Rightarrow> account \<Rightarrow> u128 \<Rightarrow>
    ('d, 'w) lmp \<Rightarrow> dispatch_error + ('d, 'w) lmp" where
  "lm_remove_liquidity C orig market market_maker shares s =
    bind_res (ensure_signed orig) (\<lambda>lp.
    bind_res (pool_of market market_maker s) (\<lambda>pool.
    ensure (lm_snapshot_flag s = None) (lm_fault SnapshotInProgress)
    (let issued = pa_issuance (lc_assets C) (mm_share_id pool) (lm_world s) in
     ensure (issued \<noteq> 0) (lm_fault TotalShareIssuanceIsZero)
     (bind_res (pa_burn (lc_assets C) (mm_share_id pool) lp shares Polite (lm_world s)) (\<lambda>(burned_amt, w).
      let epoch = lm_withdrawing_epoch s; pool_id = mm_pool_id pool in
      Inr (s \<lparr> lm_world := w,
        lm_requests := (lm_requests s) (epoch := (lm_requests s epoch)
          (pool_id := lm_requests s epoch pool_id @ [(lp, burned_amt, issued)])) \<rparr>))))))"

definition lm_force_close_pool :: "('d, 'w) lm_config \<Rightarrow> origin \<Rightarrow> TradingPair \<Rightarrow> account \<Rightarrow> ('d, 'w) lmp \<Rightarrow>
    dispatch_error + ('d, 'w) lmp" where
  "lm_force_close_pool C orig market market_maker s =
    ensure (orig = Root) BadOrigin
    (ensure (lm_pools s market market_maker \<noteq> None) (lm_fault UnknownPool)
    (Inr (s \<lparr> lm_world := lq_force_close_pool (lc_ocex C) market market_maker (lm_world s) \<rparr>)))"

text \<open>\<^verbatim>\<open>requests[num_requests..]\<close> panics when the index is past the end.\<close>

definition initiate_withdrawal :: "('d, 'w) lm_config \<Rightarrow> origin \<Rightarrow> TradingPair \<Rightarrow> u16 \<Rightarrow> u16 \<Rightarrow> ('d, 'w) lmp \<Rightarrow>
    dispatch_error + ('d, 'w) lmp" where
  "initiate_withdrawal C orig market epoch num_requests s =
    bind_res (ensure_signed orig) (\<lambda>market_maker.
    bind_res (pool_of market market_maker s) (\<lambda>pool.
    let pool_id = mm_pool_id pool; requests = lm_requests s epoch pool_id; n = unat num_requests in
    bind_res (fold_res (\<lambda>(lp, burned, issued). lq_remove_liquidity (lc_ocex C) market pool_id lp burned issued)
      (take n requests) (lm_world s)) (\<lambda>w.
    ensure (n \<le> length requests) Panicked
    (Inr (s \<lparr> lm_world := w,
      lm_requests := (lm_requests s) (epoch := (lm_requests s epoch) (pool_id := drop n requests)) \<rparr>)))))"

subsection \<open>Rewards\<close>

text \<open>The rewards of a pool for an epoch, fetched from the orderbook the first time they are needed.\<close>

definition pool_rewards :: "('d, 'w) lm_config \<Rightarrow> TradingPair \<Rightarrow> account \<Rightarrow> u16 \<Rightarrow> ('d, 'w) lmp \<Rightarrow>
    dispatch_error + (u128 \<times> ('d, 'w) lmp)" where
  "pool_rewards C market pool_id epoch s =
    (case lm_rewards s epoch pool_id of
      Some total_rewards \<Rightarrow> Inr (total_rewards, s)
    | None \<Rightarrow>
        bind_res (lq_claim_rewards (lc_ocex C) pool_id epoch market (lm_world s)) (\<lambda>(total_rewards, w).
        Inr (total_rewards, s \<lparr> lm_world := w, lm_rewards := put2 epoch pool_id (Some total_rewards) (lm_rewards s) \<rparr>)))"

definition set_provider :: "u16 \<Rightarrow> account \<Rightarrow> score_map \<times> u128 \<times> bool \<Rightarrow> ('d, 'w) lmp \<Rightarrow> ('d, 'w) lmp" where
  "set_provider epoch pool_id v s =
    s \<lparr> lm_providers := (lm_providers s) (epoch := (lm_providers s epoch) (pool_id := v)) \<rparr>"

definition claim_rewards_by_lp :: "('d, 'w) lm_config \<Rightarrow> origin \<Rightarrow> TradingPair \<Rightarrow> account \<Rightarrow> u16 \<Rightarrow> ('d, 'w) lmp \<Rightarrow>
    dispatch_error + ('d, 'w) lmp" where
  "claim_rewards_by_lp C orig market market_maker epoch s =
    bind_res (ensure_signed orig) (\<lambda>lp.
    bind_res (pool_of market market_maker s) (\<lambda>pool.
    let pool_id = mm_pool_id pool in
    bind_res (pool_rewards C market pool_id epoch s) (\<lambda>(total_rewards, s).
    case lm_providers s epoch pool_id of (scores_map, total_score, mm_claimed) \<Rightarrow>
    bind_res (ok_or (lm_fault InvalidLPAddress) (bt_get scores_map lp)) (\<lambda>(score, already_claimed).
    ensure (\<not> already_claimed) (lm_fault AlreadyClaimed)
    (bind_res (ok_or (lm_fault InvalidTotalScore) (pro_rata score total_rewards total_score)) (\<lambda>rewards_for_lp.
     bind_res (on_world (pa_native_transfer (lc_assets C) pool_id lp rewards_for_lp Expendable) s) (\<lambda>s.
     Inr (set_provider epoch pool_id (bt_insert lp (score, True) scores_map, total_score, mm_claimed) s))))))))"

definition mm_reward :: "'d decimal_ops \<Rightarrow> 'd \<Rightarrow> u128 \<Rightarrow> dispatch_error + u128" where
  "mm_reward D commission total_rewards =
    bind_res (ok_or Panicked (d_from_units D total_rewards)) (\<lambda>x. lm_to_units D (d_sat_mul D commission x))"

definition claim_rewards_by_mm :: "('d, 'w) lm_config \<Rightarrow> origin \<Rightarrow> TradingPair \<Rightarrow> u16 \<Rightarrow> ('d, 'w) lmp \<Rightarrow>
    dispatch_error + ('d, 'w) lmp" where
  "claim_rewards_by_mm C orig market epoch s =
    bind_res (ensure_signed orig) (\<lambda>market_maker.
    bind_res (pool_of market market_maker s) (\<lambda>pool.
    let pool_id = mm_pool_id pool in
    bind_res (pool_rewards C market pool_id epoch s) (\<lambda>(total_rewards, s).
    case lm_providers s epoch pool_id of (scores_map, total_score, already_claimed) \<Rightarrow>
    ensure (\<not> already_claimed) (lm_fault AlreadyClaimed)
    (bind_res (mm_reward (lc_dec C) (mm_commission pool) total_rewards) (\<lambda>rewards_for_mm.
     bind_res (on_world (pa_native_transfer (lc_assets C) pool_id market_maker rewards_for_mm Expendable) s) (\<lambda>s.
     Inr (set_provider epoch pool_id (scores_map, total_score, True) s)))))))"

definition submit_score :: "(TradingPair \<times> account \<times> u16) \<times> score_map \<times> u128 \<Rightarrow> ('d, 'w) lmp \<Rightarrow> dispatch_error + ('d, 'w) lmp" where
  "submit_score entry s =
    (case entry of ((market, market_maker, epoch), scores_map, total_score) \<Rightarrow>
     bind_res (pool_of market market_maker s) (\<lambda>pool.
     Inr (set_provider epoch (mm_pool_id pool) (scores_map, total_score, False) s)))"

definition submit_scores_of_lps :: "origin \<Rightarrow> score_sheet \<Rightarrow> ('d, 'w) lmp \<Rightarrow> dispatch_error + ('d, 'w) lmp" where
  "submit_scores_of_lps orig results s =
    ensure (orig = Unsigned) BadOrigin
    (bind_res (fold_res submit_score results s) (\<lambda>s. Inr (s \<lparr> lm_snapshot_flag := None \<rparr>)))"

subsection \<open>Funds of a closed pool\<close>

definition claim_force_closed_pool_funds :: "('d, 'w) lm_config \<Rightarrow> origin \<Rightarrow> TradingPair \<Rightarrow> account \<Rightarrow> ('d, 'w) lmp \<Rightarrow>
    dispatch_error + ('d, 'w) lmp" where
  "claim_force_closed_pool_funds C orig market market_maker s =
    bind_res (ensure_signed orig) (\<lambda>lp.
    bind_res (pool_of market market_maker s) (\<lambda>pool.
    ensure (mm_force_closed pool) (lm_fault PoolNotForceClosed)
    (let A = lc_assets C; w = lm_world s;
         lp_shares = pa_reducible A (mm_share_id pool) lp w;
         issued = pa_issuance A (mm_share_id pool) w in
     bind_res (ok_or (lm_fault ConversionError) (asset_id (base market))) (\<lambda>base_asset.
     bind_res (ok_or (lm_fault InvalidTotalIssuance)
       (pro_rata (pa_reducible A base_asset (mm_pool_id pool) w) lp_shares issued)) (\<lambda>base_amt_to_claim.
     bind_res (ok_or (lm_fault InvalidTotalIssuance)
       (pro_rata (pa_reducible A base_asset (mm_pool_id pool) w) lp_shares issued)) (\<lambda>quote_amt_to_claim.
     bind_res (pa_burn A (mm_share_id pool) lp lp_shares Force w) (\<lambda>(_, w).
     bind_res (pa_transfer A base_asset (mm_pool_id pool) lp base_amt_to_claim Expendable w) (\<lambda>w.
     bind_res (ok_or (lm_fault ConversionError) (asset_id (quote market))) (\<lambda>quote_asset.
     bind_res (pa_transfer A quote_asset (mm_pool_id pool) lp quote_amt_to_claim Expendable w) (\<lambda>w.
     Inr (s \<lparr> lm_world := w \<rparr>)))))))))))"

subsection \<open>Scores\<close>

definition EPOCH_BLOCKS :: u128 where
  "EPOCH_BLOCKS = 201600"

text \<open>The shares deposited in the epoch count from their block; the others for the whole epoch.\<close>

definition score_deposit :: "u32 \<Rightarrow> u32 \<times> u128 \<Rightarrow> u128 \<times> u128 \<Rightarrow> u128 \<times> u128" where
  "score_deposit ending_blk d acc =
    (case (d, acc) of ((deposit_blk, share), (total_shares, score)) \<Rightarrow>
      (sat_sub total_shares share, sat_add score (sat_mul share (ucast (sat_sub ending_blk deposit_blk)))))"

definition lp_score :: "u32 \<Rightarrow> (u32 \<times> u128) list \<Rightarrow> u128 \<Rightarrow> u128" where
  "lp_score ending_blk deposits total_shares =
    (case fold (score_deposit ending_blk) deposits (total_shares, 0) of
      (total_shares, score) \<Rightarrow> sat_add score (sat_mul total_shares EPOCH_BLOCKS))"

definition pool_scores :: "u16 \<Rightarrow> u32 \<Rightarrow> 'd MarketMakerConfig \<Rightarrow> ('d, 'w) lmp \<Rightarrow> score_map \<times> u128" where
  "pool_scores epoch ending_blk pool s =
    fold (\<lambda>(lp, total_shares) (scores_map, pool_total_score).
      let score = lp_score ending_blk (lm_add_records s epoch (mm_pool_id pool, lp)) total_shares
      in (bt_insert lp (score, False) scores_map, sat_add pool_total_score score))
    (lm_lp_shares s (mm_share_id pool)) ([], 0)"

text \<open>The score sheet of the worker; the transaction that would submit it is not sent.\<close>

definition take_snapshot :: "(TradingPair \<times> account) list \<Rightarrow> ('d, 'w) lmp \<Rightarrow> score_sheet option" where
  "take_snapshot order s =
    (case lm_snapshot_flag s of
      None \<Rightarrow> None
    | Some epoch_ending_blk \<Rightarrow>
        let epoch = sat_sub (lm_epoch s) 1 in
        Some (fold (\<lambda>(market, mm) results.
          case lm_pools s market mm of
            None \<Rightarrow> results
          | Some pool \<Rightarrow> bt_insert (market, mm, epoch) (pool_scores epoch epoch_ending_blk pool s) results) order []))"

datatype TransactionSource = InBlock | Local | ExternalSource

definition validate_scores :: "TransactionSource \<Rightarrow> ('d, 'w) lmp \<Rightarrow> bool" where
  "validate_scores src s \<longleftrightarrow> lm_snapshot_flag s \<noteq> None \<and> src \<noteq> ExternalSource"

subsection \<open>Callbacks of the orderbook\<close>

definition new_epoch :: "u16 \<Rightarrow> ('d, 'w) lmp \<Rightarrow> ('d, 'w) lmp" where
  "new_epoch epoch s = s \<lparr> lm_epoch := epoch, lm_snapshot_flag := Some (lm_now s) \<rparr>"

text \<open>The pool a callback names, through the index of pool accounts.\<close>

definition indexed_pool :: "TradingPair \<Rightarrow> account \<Rightarrow> ('d, 'w) lmp \<Rightarrow> dispatch_error + (account \<times> 'd MarketMakerConfig)" where
  "indexed_pool market pool_id s =
    bind_res (ok_or (lm_fault UnknownPool) (lm_pool_index s pool_id)) (\<lambda>(_, market_maker).
    bind_res (pool_of market market_maker s) (\<lambda>pool. Inr (market_maker, pool)))"

definition add_liquidity_success :: "('d, 'w) lm_config \<Rightarrow> TradingPair \<Rightarrow> account \<Rightarrow> account \<Rightarrow> 'd \<Rightarrow> 'd \<Rightarrow> 'd \<Rightarrow>
    ('d, 'w) lmp \<Rightarrow> dispatch_error + ('d, 'w) lmp" where
  "add_liquidity_success C market pool_id lp shared_issued price total_inventory_in_quote s =
    bind_res (indexed_pool market pool_id s) (\<lambda>(market_maker, pool).
    bind_res (lm_to_units (lc_dec C) shared_issued) (\<lambda>shares.
    bind_res (lm_to_units (lc_dec C) price) (\<lambda>price.
    bind_res (lm_to_units (lc_dec C) total_inventory_in_quote) (\<lambda>inventory.
    bind_res (on_world (pa_mint (lc_assets C) (mm_share_id pool) lp shares) s) (\<lambda>s.
    let epoch = lm_epoch s; k = (mm_pool_id pool, lp) in
    Inr (lm_emit (LiquidityAdded market market_maker lp shares (Asset (mm_share_id pool)) price inventory)
      (s \<lparr> lm_add_records := (lm_add_records s) (epoch := (lm_add_records s epoch)
        (k := lm_add_records s epoch k @ [(lm_now s, shares)])) \<rparr>)))))))"

definition remove_liquidity_success :: "('d, 'w) lm_config \<Rightarrow> TradingPair \<Rightarrow> account \<Rightarrow> account \<Rightarrow> 'd \<Rightarrow> 'd \<Rightarrow>
    ('d, 'w) lmp \<Rightarrow> dispatch_error + ('d, 'w) lmp" where
  "remove_liquidity_success C market pool lp base_free quote_free s =
    bind_res (on_world (lm_transfer_asset C pool lp base_free (base market)) s) (\<lambda>s.
    bind_res (on_world (lm_transfer_asset C pool lp quote_free (quote market)) s) (\<lambda>s.
    Inr (lm_emit (LiquidityRemoved market pool lp) s)))"

definition remove_liquidity_failed :: "('d, 'w) lm_config \<Rightarrow> TradingPair \<Rightarrow> account \<Rightarrow> account \<Rightarrow> 'd \<Rightarrow> 'd \<Rightarrow> 'd \<Rightarrow> 'd \<Rightarrow> 'd \<Rightarrow> 'd \<Rightarrow>
    ('d, 'w) lmp \<Rightarrow> dispatch_error + ('d, 'w) lmp" where
  "remove_liquidity_failed C market pool_id lp burn_frac total_shares base_free quote_free base_required quote_required s =
    (let shares_burned = d_sat_mul (lc_dec C) total_shares burn_frac in
     bind_res (lm_to_units (lc_dec C) burn_frac) (\<lambda>burn_frac.
     bind_res (lm_to_units (lc_dec C) shares_burned) (\<lambda>shares_burned.
     bind_res (indexed_pool market pool_id s) (\<lambda>(market_maker, pool).
     bind_res (on_world (pa_mint (lc_assets C) (mm_share_id pool) lp shares_burned) s) (\<lambda>s.
     bind_res (lm_to_units (lc_dec C) base_free) (\<lambda>base_free.
     bind_res (lm_to_units (lc_dec C) quote_free) (\<lambda>quote_free.
     bind_res (lm_to_units (lc_dec C) base_required) (\<lambda>base_required.
     bind_res (lm_to_units (lc_dec C) quote_required) (\<lambda>quote_required.
     Inr (lm_emit (LiquidityRemovalFailed market pool_id lp burn_frac base_free quote_free base_required quote_required) s))))))))))"

definition pool_force_close_success :: "('d, 'w) lm_config \<Rightarrow> TradingPair \<Rightarrow> account \<Rightarrow> 'd \<Rightarrow> 'd \<Rightarrow> ('d, 'w) lmp \<Rightarrow>
    dispatch_error + ('d, 'w) lmp" where
  "pool_force_close_success C market pool_id base_freed quote_freed s =
    bind_res (indexed_pool market pool_id s) (\<lambda>(market_maker, pool).
    let s = s \<lparr> lm_pools := put2 market market_maker (Some (pool \<lparr> mm_force_closed := True \<rparr>)) (lm_pools s) \<rparr> in
    bind_res (lm_to_units (lc_dec C) base_freed) (\<lambda>base_freed.
    bind_res (lm_to_units (lc_dec C) quote_freed) (\<lambda>quote_freed.
    Inr (lm_emit (EvPoolForceClosed market market_maker base_freed quote_freed) s))))"

definition lm_stop_accepting_withdrawals :: "u16 \<Rightarrow> ('d, 'w) lmp \<Rightarrow> ('d, 'w) lmp" where
  "lm_stop_accepting_withdrawals epoch s = s \<lparr> lm_withdrawing_epoch := epoch \<rparr>"

definition is_valid_pool_id :: "account \<Rightarrow> ('d, 'w) lmp \<Rightarrow> bool" where
  "is_valid_pool_id pool_id s \<longleftrightarrow> lm_pool_index s pool_id \<noteq> None"

text \<open>The pallet as the callback interface of the orderbook pallet.\<close>

definition lmp_crowd_source :: "('d, 'w) lm_config \<Rightarrow> ('d, ('d, 'w) lmp) crowd_source" where
  "lmp_crowd_source C =
    \<lparr> cs_new_epoch = new_epoch,
      cs_add_liquidity_success = add_liquidity_success C,
      cs_remove_liquidity_success = remove_liquidity_success C,
      cs_remove_liquidity_failed = remove_liquidity_failed C,
      cs_pool_force_close_success = pool_force_close_success C,
      cs_stop_accepting_lmp_withdrawals = lm_stop_accepting_withdrawals,
      cs_is_valid_pool_id = is_valid_pool_id \<rparr>"

end
