(* ===== verification/Lmp_Pools.thy ===== *)
theory Lmp_Pools
  imports Liquidity_Mining
begin

text \<open>
  Runs of the liquidity mining pallet: its calls, the callbacks of the orderbook and changes of the
  rest of the chain. The index of pool accounts stays consistent with the pools, and the rewards
  paid to the providers of a pool stay within the rewards it received.
\<close>

subsection \<open>Steps\<close>

datatype lm_call =
    RegisterPoolCall bytes TradingPair u128 u128 bool account
  | AddLiquidityCall TradingPair account u128 u128
  | RemoveLiquidityCall TradingPair account u128
  | ForceClosePoolCall TradingPair account
  | ClaimByLpCall TradingPair account u16
  | ClaimByMmCall TradingPair u16
  | SubmitScoresCall score_sheet
  | InitiateWithdrawalCall TradingPair u16 u16
  | ClaimForceClosedCall TradingPair account

fun lm_dispatch :: "('d, 'w) lm_config \<Rightarrow> origin \<Rightarrow> lm_call \<Rightarrow> ('d, 'w) lmp \<Rightarrow> dispatch_error + ('d, 'w) lmp" where
  "lm_dispatch C orig (RegisterPoolCall n m c e p t) s = lm_register_pool C orig n m c e p t s"
| "lm_dispatch C orig (AddLiquidityCall m mm b q) s = lm_add_liquidity C orig m mm b q s"
| "lm_dispatch C orig (RemoveLiquidityCall m mm n) s = lm_remove_liquidity C orig m mm n s"
| "lm_dispatch C orig (ForceClosePoolCall m mm) s = lm_force_close_pool C orig m mm s"
| "lm_dispatch C orig (ClaimByLpCall m mm e) s = claim_rewards_by_lp C orig m mm e s"
| "lm_dispatch C orig (ClaimByMmCall m e) s = claim_rewards_by_mm C orig m e s"
| "lm_dispatch C orig (SubmitScoresCall r) s = submit_scores_of_lps orig r s"
| "lm_dispatch C orig (InitiateWithdrawalCall m e n) s = initiate_withdrawal C orig m e n s"
| "lm_dispatch C orig (ClaimForceClosedCall m mm) s = claim_force_closed_pool_funds C orig m mm s"

datatype 'd lm_callback =
    NewEpoch u16
  | AddSuccess TradingPair account account 'd 'd 'd
  | RemoveSuccess TradingPair account account 'd 'd
  | RemoveFailed TradingPair account account 'd 'd 'd 'd 'd 'd
  | ForceCloseSuccess TradingPair account 'd 'd
  | StopWithdrawals u16

text \<open>The callbacks, as the orderbook pallet makes them.\<close>

fun lm_call_back :: "('d, 'w) crowd_source \<Rightarrow> 'd lm_callback \<Rightarrow> 'w \<Rightarrow> dispatch_error + 'w" where
  "lm_call_back R (NewEpoch e) s = Inr (cs_new_epoch R e s)"
| "lm_call_back R (AddSuccess m p lp a b c) s = cs_add_liquidity_success R m p lp a b c s"
| "lm_call_back R (RemoveSuccess m p lp a b) s = cs_remove_liquidity_success R m p lp a b s"
| "lm_call_back R (RemoveFailed m p lp a b c d e f) s = cs_remove_liquidity_failed R m p lp a b c d e f s"
| "lm_call_back R (ForceCloseSuccess m p a b) s = cs_pool_force_close_success R m p a b s"
| "lm_call_back R (StopWithdrawals e) s = Inr (cs_stop_accepting_lmp_withdrawals R e s)"

inductive lm_step :: "('d, 'w) lm_config \<Rightarrow> ('d, 'w) lmp \<Rightarrow> ('d, 'w) lmp \<Rightarrow> bool" for C where
  call: "lm_dispatch C orig c s = Inr s' \<Longrightarrow> lm_step C s s'"
| callback: "lm_call_back (lmp_crowd_source C) c s = Inr s' \<Longrightarrow> lm_step C s s'"
| outside: "lm_step C s (s \<lparr> lm_world := w, lm_now := b \<rparr>)"

definition lm_genesis :: "'w \<Rightarrow> ('d, 'w) lmp" where
  "lm_genesis w =
    \<lparr> lm_lp_shares = (\<lambda>_. []), lm_pools = (\<lambda>_ _. None), lm_pool_index = Map.empty, lm_rewards = (\<lambda>_ _. None),
      lm_add_records = (\<lambda>_ _. []), lm_requests = (\<lambda>_ _. []), lm_providers = (\<lambda>_ _. ([], 0, False)), lm_epoch = 0,
      lm_snapshot_flag = None, lm_withdrawing_epoch = 0, lm_now = 0, lm_events = [], lm_world = w \<rparr>"

text \<open>
  The account of a pool is derived from a hash. Runs are considered in which no two registered
  pools collide.
\<close>

definition no_collision :: "('d, 'w) lm_config \<Rightarrow> ('d, 'w) lmp \<Rightarrow> bool" where
  "no_collision C s \<longleftrightarrow> (\<forall>m mm m' mm'. lm_pools s m mm \<noteq> None \<longrightarrow> lm_pools s m' mm' \<noteq> None \<longrightarrow>
    lc_sub_account C (lc_pool_hash C mm m) = lc_sub_account C (lc_pool_hash C mm' m') \<longrightarrow> m = m' \<and> mm = mm')"

inductive lm_reachable :: "('d, 'w) lm_config \<Rightarrow> ('d, 'w) lmp \<Rightarrow> bool" for C where
  genesis: "lm_reachable C (lm_genesis w)"
| step: "lm_reachable C s \<Longrightarrow> lm_step C s s' \<Longrightarrow> no_collision C s' \<Longrightarrow> lm_reachable C s'"

subsection \<open>What the steps keep\<close>

text \<open>\<open>pools_kept s s'\<close>: the step from \<open>s\<close> to \<open>s'\<close> changes no pool and no index entry.\<close>

definition pools_kept :: "('d, 'w) lmp \<Rightarrow> ('d, 'w) lmp \<Rightarrow> bool" where
  "pools_kept s s' \<longleftrightarrow> lm_pools s' = lm_pools s \<and> lm_pool_index s' = lm_pool_index s \<and> lm_lp_shares s' = lm_lp_shares s"

lemma pools_kept_trans: "pools_kept s t \<Longrightarrow> pools_kept t u \<Longrightarrow> pools_kept s u"
  by (simp add: pools_kept_def)

lemma submit_scores_kept: "fold_res submit_score rs s = Inr s' \<Longrightarrow> pools_kept s s' \<and> lm_snapshot_flag s' = lm_snapshot_flag s"
  by (induction rs arbitrary: s)
    (fastforce simp: submit_score_def set_provider_def res_simps pools_kept_def split: prod.splits)+

text \<open>\<open>flag_kept s s'\<close>: in addition the snapshot flag stays as it is.\<close>

definition flag_kept :: "('d, 'w) lmp \<Rightarrow> ('d, 'w) lmp \<Rightarrow> bool" where
  "flag_kept s s' \<longleftrightarrow> pools_kept s s' \<and> lm_snapshot_flag s' = lm_snapshot_flag s"

lemma flag_kept_simps [simp]:
  "flag_kept s s"
  "flag_kept s (t \<lparr> lm_world := w \<rparr>) = flag_kept s t"
  "flag_kept s (t \<lparr> lm_rewards := r \<rparr>) = flag_kept s t"
  "flag_kept s (t \<lparr> lm_requests := q \<rparr>) = flag_kept s t"
  "flag_kept s (t \<lparr> lm_add_records := a \<rparr>) = flag_kept s t"
  "flag_kept s (t \<lparr> lm_withdrawing_epoch := e \<rparr>) = flag_kept s t"
  "flag_kept s (t \<lparr> lm_now := b \<rparr>) = flag_kept s t"
  "flag_kept s (lm_emit ev t) = flag_kept s t"
  "flag_kept s (set_provider e p v t) = flag_kept s t"
  by (simp_all add: flag_kept_def pools_kept_def lm_emit_def set_provider_def)

lemma add_kept: "lm_add_liquidity C orig m mm b q s = Inr s' \<Longrightarrow> flag_kept s s'"
  by (auto simp: lm_add_liquidity_def res_simps Let_def)

lemma remove_kept: "lm_remove_liquidity C orig m mm n s = Inr s' \<Longrightarrow> flag_kept s s'"
  by (auto simp: lm_remove_liquidity_def res_simps Let_def split: prod.splits)

lemma force_close_kept: "lm_force_close_pool C orig m mm s = Inr s' \<Longrightarrow> flag_kept s s'"
  by (auto simp: lm_force_close_pool_def res_simps)

lemma pool_rewards_kept: "pool_rewards C m p e s = Inr (r, t) \<Longrightarrow> flag_kept s t"
  by (auto simp: pool_rewards_def res_simps split: option.splits prod.splits)

lemma claim_lp_kept: "claim_rewards_by_lp C orig m mm e s = Inr s' \<Longrightarrow> flag_kept s s'"
  by (auto simp: claim_rewards_by_lp_def res_simps Let_def case_prod_unfold dest!: pool_rewards_kept)

lemma claim_mm_kept: "claim_rewards_by_mm C orig m e s = Inr s' \<Longrightarrow> flag_kept s s'"
  by (auto simp: claim_rewards_by_mm_def res_simps Let_def case_prod_unfold dest!: pool_rewards_kept)

lemma initiate_kept: "initiate_withdrawal C orig m e n s = Inr s' \<Longrightarrow> flag_kept s s'"
  by (auto simp: initiate_withdrawal_def res_simps Let_def)

lemma claim_closed_kept: "claim_force_closed_pool_funds C orig m mm s = Inr s' \<Longrightarrow> flag_kept s s'"
  by (auto simp: claim_force_closed_pool_funds_def res_simps Let_def split: prod.splits)

lemma submit_kept: "submit_scores_of_lps orig r s = Inr s' \<Longrightarrow> pools_kept s s'"
  by (auto simp: submit_scores_of_lps_def res_simps pools_kept_def dest!: submit_scores_kept)

lemmas calls_kept = add_kept remove_kept force_close_kept claim_lp_kept claim_mm_kept initiate_kept claim_closed_kept

lemma register_pool_Inr:
  assumes "lm_register_pool C orig n m c e p t s = Inr s'"
  obtains mm pool where "orig = Signed mm" "lm_pools s m mm = None"
    "mm_pool_id pool = lc_sub_account C (lc_pool_hash C mm m)" "mm_share_id pool = lc_pool_hash C mm m" "\<not> mm_force_closed pool"
    "lm_pools s' = put2 m mm (Some pool) (lm_pools s)"
    "lm_pool_index s' = (lm_pool_index s) (mm_pool_id pool \<mapsto> (m, mm))"
    "lm_lp_shares s' = lm_lp_shares s" "lm_snapshot_flag s' = lm_snapshot_flag s"
proof -
  obtain mm where mm: "orig = Signed mm"
    using assms by (cases orig) (auto simp: lm_register_pool_def)
  let ?h = "lc_pool_hash C mm m"
  let ?pool = "\<lambda>x y. \<lparr> mm_pool_id = lc_sub_account C ?h, mm_commission = x, mm_exit_fee = y, mm_public_funds_allowed = p,
    mm_name = n, mm_share_id = ?h, mm_force_closed = False \<rparr>"
  from assms obtain x y w where "lm_pools s m mm = None" "s' = s \<lparr> lm_world := w,
      lm_pool_index := (lm_pool_index s) (lc_sub_account C ?h \<mapsto> (m, mm)), lm_pools := put2 m mm (Some (?pool x y)) (lm_pools s) \<rparr>"
    by (auto simp: lm_register_pool_def mm res_simps Let_def create_pool_account_def)
  then show ?thesis
    by (intro that [OF mm, of "?pool x y"]) simp_all
qed

lemma add_success_kept: "add_liquidity_success C m p lp a b c s = Inr s' \<Longrightarrow> flag_kept s s'"
  by (auto simp: add_liquidity_success_def res_simps Let_def case_prod_unfold)

lemma remove_success_kept: "remove_liquidity_success C m p lp a b s = Inr s' \<Longrightarrow> flag_kept s s'"
  by (auto simp: remove_liquidity_success_def res_simps)

lemma remove_failed_kept: "remove_liquidity_failed C m p lp a b c d e f s = Inr s' \<Longrightarrow> flag_kept s s'"
  by (auto simp: remove_liquidity_failed_def res_simps Let_def case_prod_unfold)

lemmas callbacks_kept = add_success_kept remove_success_kept remove_failed_kept

lemma new_epoch_kept: "pools_kept s (new_epoch e s)"
  by (simp add: pools_kept_def new_epoch_def)

lemma stop_kept: "pools_kept s (lm_stop_accepting_withdrawals e s)"
  by (simp add: pools_kept_def lm_stop_accepting_withdrawals_def)

lemma force_close_success_Inr:
  assumes "pool_force_close_success C m p a b s = Inr s'"
  obtains i mm pool where "lm_pool_index s p = Some (i, mm)" "lm_pools s m mm = Some pool"
    "lm_pools s' = put2 m mm (Some (pool \<lparr> mm_force_closed := True \<rparr>)) (lm_pools s)"
    "lm_pool_index s' = lm_pool_index s" "lm_lp_shares s' = lm_lp_shares s" "lm_snapshot_flag s' = lm_snapshot_flag s"
  using assms by (auto simp: pool_force_close_success_def indexed_pool_def res_simps Let_def lm_emit_def)

subsection \<open>The index of pool accounts\<close>

definition index_ok :: "('d, 'w) lm_config \<Rightarrow> (TradingPair \<Rightarrow> account \<Rightarrow> 'd MarketMakerConfig option) \<Rightarrow>
    (account \<rightharpoonup> TradingPair \<times> account) \<Rightarrow> bool" where
  "index_ok C pools index \<longleftrightarrow>
    (\<forall>m mm pool. pools m mm = Some pool \<longrightarrow> mm_pool_id pool = lc_sub_account C (lc_pool_hash C mm m) \<and>
      index (mm_pool_id pool) = Some (m, mm)) \<and>
    (\<forall>p m mm. index p = Some (m, mm) \<longrightarrow> (\<exists>pool. pools m mm = Some pool \<and> mm_pool_id pool = p))"

definition pool_inv :: "('d, 'w) lm_config \<Rightarrow> ('d, 'w) lmp \<Rightarrow> bool" where
  "pool_inv C s \<longleftrightarrow> index_ok C (lm_pools s) (lm_pool_index s) \<and> (\<forall>i. lm_lp_shares s i = [])"

lemma pool_inv_kept: "pools_kept s s' \<Longrightarrow> pool_inv C s \<Longrightarrow> pool_inv C s'"
  unfolding pool_inv_def pools_kept_def by simp

lemma index_okD:
  assumes "index_ok C pools index"
  shows "pools m mm = Some pool \<Longrightarrow> mm_pool_id pool = lc_sub_account C (lc_pool_hash C mm m)"
    and "pools m mm = Some pool \<Longrightarrow> index (mm_pool_id pool) = Some (m, mm)"
    and "index p = Some (m, mm) \<Longrightarrow> \<exists>pool. pools m mm = Some pool \<and> mm_pool_id pool = p"
  using assms unfolding index_ok_def by blast+

lemma index_ok_insert:
  assumes ok: "index_ok C pools index" and fresh: "pools m mm = None"
    and pid: "mm_pool_id pool = lc_sub_account C (lc_pool_hash C mm m)"
    and apart: "\<And>m' mm' q. pools m' mm' = Some q \<Longrightarrow> mm_pool_id q \<noteq> mm_pool_id pool"
  shows "index_ok C (put2 m mm (Some pool) pools) (index (mm_pool_id pool \<mapsto> (m, mm)))"
  unfolding index_ok_def
proof (intro conjI allI impI)
  fix m' mm' q
  assume q: "put2 m mm (Some pool) pools m' mm' = Some q"
  show "mm_pool_id q = lc_sub_account C (lc_pool_hash C mm' m')"
    using q pid index_okD(1) [OF ok, of m' mm' q] by (cases "m' = m \<and> mm' = mm") auto
  show "(index (mm_pool_id pool \<mapsto> (m, mm))) (mm_pool_id q) = Some (m', mm')"
  proof (cases "m' = m \<and> mm' = mm")
    case False
    then have "pools m' mm' = Some q" using q by auto
    then show ?thesis using apart [of m' mm' q] index_okD(2) [OF ok] by simp
  qed (use q in auto)
next
  fix p m' mm'
  assume p: "(index (mm_pool_id pool \<mapsto> (m, mm))) p = Some (m', mm')"
  show "\<exists>q. put2 m mm (Some pool) pools m' mm' = Some q \<and> mm_pool_id q = p"
  proof (cases "p = mm_pool_id pool")
    case False
    then obtain q where "pools m' mm' = Some q" "mm_pool_id q = p"
      using p index_okD(3) [OF ok, of p m' mm'] by auto
    moreover have "m' \<noteq> m \<or> mm' \<noteq> mm" using fresh calculation(1) by auto
    ultimately show ?thesis by auto
  qed (use p in auto)
qed

lemma index_ok_close:
  assumes ok: "index_ok C pools index" and old: "pools m mm = Some pool"
  shows "index_ok C (put2 m mm (Some (pool \<lparr> mm_force_closed := True \<rparr>)) pools) index"
  unfolding index_ok_def
proof (intro conjI allI impI)
  fix m' mm' q
  assume q: "put2 m mm (Some (pool \<lparr> mm_force_closed := True \<rparr>)) pools m' mm' = Some q"
  then obtain q' where "pools m' mm' = Some q'" "mm_pool_id q' = mm_pool_id q"
    using old by (cases "m' = m \<and> mm' = mm") auto
  then show "mm_pool_id q = lc_sub_account C (lc_pool_hash C mm' m')" "index (mm_pool_id q) = Some (m', mm')"
    using index_okD(1,2) [OF ok, of m' mm' q'] by simp_all
next
  fix p m' mm'
  assume "index p = Some (m', mm')"
  then obtain q where "pools m' mm' = Some q" "mm_pool_id q = p"
    using index_okD(3) [OF ok] by blast
  then show "\<exists>q. put2 m mm (Some (pool \<lparr> mm_force_closed := True \<rparr>)) pools m' mm' = Some q \<and> mm_pool_id q = p"
    using old by (cases "m' = m \<and> mm' = mm") auto
qed

lemma pool_inv_register:
  assumes inv: "pool_inv C s" and run: "lm_register_pool C orig n m c e p t s = Inr s'" and free: "no_collision C s'"
  shows "pool_inv C s'"
  using run
proof (rule register_pool_Inr)
  fix mm pool
  assume new: "lm_pools s m mm = None" "mm_pool_id pool = lc_sub_account C (lc_pool_hash C mm m)"
    "lm_pools s' = put2 m mm (Some pool) (lm_pools s)" "lm_pool_index s' = (lm_pool_index s) (mm_pool_id pool \<mapsto> (m, mm))"
    "lm_lp_shares s' = lm_lp_shares s"
  have "mm_pool_id q \<noteq> mm_pool_id pool" if q: "lm_pools s m' mm' = Some q" for m' mm' q
  proof -
    have ne: "m' \<noteq> m \<or> mm' \<noteq> mm" using q new(1) by auto
    then have "lm_pools s' m' mm' \<noteq> None" "lm_pools s' m mm \<noteq> None" using q new(3) by auto
    then have "lc_sub_account C (lc_pool_hash C mm' m') \<noteq> lc_sub_account C (lc_pool_hash C mm m)"
      using free ne unfolding no_collision_def by blast
    then show ?thesis using inv q new(2) index_okD(1) by (metis pool_inv_def)
  qed
  then have "index_ok C (lm_pools s') (lm_pool_index s')"
    using inv new(1,2) unfolding new(3,4) by (intro index_ok_insert) (auto simp: pool_inv_def)
  then show ?thesis
    using inv new(5) by (simp add: pool_inv_def)
qed

lemma pool_inv_force_close:
  assumes inv: "pool_inv C s" and run: "pool_force_close_success C m p a b s = Inr s'"
  shows "pool_inv C s'"
  using run by (rule force_close_success_Inr) (use inv in \<open>simp add: pool_inv_def index_ok_close\<close>)

lemma flag_keptD: "flag_kept s s' \<Longrightarrow> pools_kept s s'"
  by (simp add: flag_kept_def)

lemma pool_inv_call:
  assumes "pool_inv C s" "lm_dispatch C orig c s = Inr s'" "no_collision C s'"
  shows "pool_inv C s'"
proof (cases "\<exists>n m x e p t. c = RegisterPoolCall n m x e p t")
  case True
  then show ?thesis using assms pool_inv_register by auto
next
  case False
  then have "pools_kept s s'"
    using assms(2) by (cases c) (auto dest: submit_kept calls_kept [THEN flag_keptD])
  then show ?thesis using assms(1) pool_inv_kept by blast
qed

lemma pool_inv_callback:
  assumes "pool_inv C s" "lm_call_back (lmp_crowd_source C) c s = Inr s'"
  shows "pool_inv C s'"
proof (cases "\<exists>m p a b. c = ForceCloseSuccess m p a b")
  case True
  then show ?thesis using assms pool_inv_force_close by (auto simp: lmp_crowd_source_def)
next
  case False
  then have "pools_kept s s'"
    using assms(2) new_epoch_kept stop_kept
    by (cases c) (auto simp: lmp_crowd_source_def dest: callbacks_kept [THEN flag_keptD])
  then show ?thesis using assms(1) pool_inv_kept by blast
qed

lemma pool_inv_reachable: "lm_reachable C s \<Longrightarrow> pool_inv C s"
proof (induction rule: lm_reachable.induct)
  case (genesis w)
  then show ?case by (simp add: pool_inv_def lm_genesis_def index_ok_def)
next
  case (step s s')
  from step(2) show ?case
  proof cases
    case outside
    then show ?thesis using step.IH by (simp add: pool_inv_def)
  qed (use step pool_inv_call pool_inv_callback in blast)+
qed

lemma set_bt_insert_subset: "set (bt_insert k v m) \<subseteq> insert (k, v) (set m)"
  by (induction k v m rule: bt_insert.induct) auto

lemma empty_scores:
  assumes "pool_inv C s" "take_snapshot order s = Some sheet" "entry \<in> set sheet"
  shows "snd entry = ([], 0)"
proof -
  have none: "pool_scores e b pool s = ([], 0)" for e b pool
    using assms(1) by (simp add: pool_scores_def pool_inv_def)
  define blank where "blank sheet \<longleftrightarrow> (\<forall>entry\<in>set sheet. snd entry = ([], 0))" for sheet :: score_sheet
  have ins: "blank (bt_insert k ([], 0) sheet)" if "blank sheet" for sheet k
    using that set_bt_insert_subset [of k "([], 0)" sheet] unfolding blank_def by fastforce
  have "blank (fold (\<lambda>(market, mm) results.
      case lm_pools s market mm of
        None \<Rightarrow> results
      | Some pool \<Rightarrow> bt_insert (market, mm, e) (pool_scores e b pool s) results) order [])" for e b
    by (rule fold_invariant [where Q = "\<lambda>_. True"]) (auto simp: none ins blank_def [of "[]"] split: option.split)
  then have "blank sheet"
    using assms(2) by (auto simp: take_snapshot_def Let_def split: option.splits)
  then show ?thesis using assms(3) by (auto simp: blank_def)
qed

subsection \<open>Rewards of the providers\<close>

text \<open>
  What the payouts rely on: a transfer takes its amount from the payer, and rewards claimed from the
  orderbook arrive on the account of the pool.
\<close>

definition payout_laws :: "('d, 'w) lm_config \<Rightarrow> (account \<Rightarrow> 'w \<Rightarrow> int) \<Rightarrow> bool" where
  "payout_laws C held \<longleftrightarrow>
    (\<forall>payer payee a k w w'. pa_native_transfer (lc_assets C) payer payee a k w = Inr w' \<longrightarrow> payer \<noteq> payee \<longrightarrow>
      held payer w' = held payer w - int (unat a)) \<and>
    (\<forall>pool e m w r w'. lq_claim_rewards (lc_ocex C) pool e m w = Inr (r, w') \<longrightarrow>
      held pool w' = held pool w + int (unat r))"

fun claim_all :: "('d, 'w) lm_config \<Rightarrow> TradingPair \<Rightarrow> account \<Rightarrow> u16 \<Rightarrow> account list \<Rightarrow> ('d, 'w) lmp \<Rightarrow> dispatch_error + ('d, 'w) lmp" where
  "claim_all C m mm e [] s = Inr s"
| "claim_all C m mm e (lp # lps) s = bind_res (claim_rewards_by_lp C (Signed lp) m mm e s) (claim_all C m mm e lps)"

lemma pro_rata_commute: "pro_rata a b c = pro_rata b a c"
  by (simp add: pro_rata_def sat_mul_def mult.commute)

lemma claim_Inr:
  assumes "claim_rewards_by_lp C (Signed lp) m mm e s = Inr s'" "lm_pools s m mm = Some pool"
    "lm_rewards s e (mm_pool_id pool) = Some r" "lm_providers s e (mm_pool_id pool) = (scores, whole, c)"
  obtains score amount w where "bt_get scores lp = Some (score, False)" "pro_rata r score whole = Some amount"
    "pa_native_transfer (lc_assets C) (mm_pool_id pool) lp amount Expendable (lm_world s) = Inr w"
    "s' = set_provider e (mm_pool_id pool) (bt_insert lp (score, True) scores, whole, c) (s \<lparr> lm_world := w \<rparr>)"
  using assms by (auto simp: claim_rewards_by_lp_def pool_rewards_def res_simps Let_def pro_rata_commute)

lemma claim_fetches:
  assumes "claim_rewards_by_lp C (Signed lp) m mm e s = Inr s'" "lm_pools s m mm = Some pool"
    "lm_rewards s e (mm_pool_id pool) = None"
  obtains r w where "lq_claim_rewards (lc_ocex C) (mm_pool_id pool) e m (lm_world s) = Inr (r, w)"
    "claim_rewards_by_lp C (Signed lp) m mm e
      (s \<lparr> lm_world := w, lm_rewards := put2 e (mm_pool_id pool) (Some r) (lm_rewards s) \<rparr>) = Inr s'"
proof -
  obtain r w where fetch: "lq_claim_rewards (lc_ocex C) (mm_pool_id pool) e m (lm_world s) = Inr (r, w)"
    using assms by (auto simp: claim_rewards_by_lp_def pool_rewards_def res_simps Let_def)
  then have "claim_rewards_by_lp C (Signed lp) m mm e
      (s \<lparr> lm_world := w, lm_rewards := put2 e (mm_pool_id pool) (Some r) (lm_rewards s) \<rparr>) = Inr s'"
    using assms by (simp add: claim_rewards_by_lp_def pool_rewards_def pool_of_def ok_or_def Let_def)
  with fetch show ?thesis by (rule that)
qed

text \<open>The score a sheet gives to a provider, and the payout it stands for.\<close>

definition score_in :: "score_map \<Rightarrow> account \<Rightarrow> u128" where
  "score_in scores lp = (case bt_get scores lp of Some (score, _) \<Rightarrow> score | None \<Rightarrow> 0)"

lemma score_in_mark: "bt_get scores lp = Some (score, b) \<Longrightarrow> score_in (bt_insert lp (score, b') scores) = score_in scores"
  by (rule ext) (simp add: score_in_def bt_get_insert)

lemma claim_all_payout:
  assumes laws: "payout_laws C held" and "claim_all C m mm e lps s = Inr s'" "lm_pools s m mm = Some pool"
    "lm_rewards s e (mm_pool_id pool) = Some r" "lm_providers s e (mm_pool_id pool) = (scores, whole, c)"
    "mm_pool_id pool \<notin> set lps"
  shows "distinct lps \<and> (\<forall>lp\<in>set lps. \<exists>score. bt_get scores lp = Some (score, False) \<and> pro_rata r score whole \<noteq> None) \<and>
    held (mm_pool_id pool) (lm_world s') = held (mm_pool_id pool) (lm_world s) -
      (\<Sum>lp\<leftarrow>lps. int (unat (the (pro_rata r (score_in scores lp) whole))))"
  using assms(2-)
proof (induction lps arbitrary: s scores)
  case (Cons lp lps)
  let ?p = "mm_pool_id pool"
  from Cons.prems(1) obtain t where t: "claim_rewards_by_lp C (Signed lp) m mm e s = Inr t" "claim_all C m mm e lps t = Inr s'"
    by (auto simp: res_simps)
  from claim_Inr [OF t(1) Cons.prems(2-4)] obtain score amount w where
    c: "bt_get scores lp = Some (score, False)" "pro_rata r score whole = Some amount"
      "pa_native_transfer (lc_assets C) ?p lp amount Expendable (lm_world s) = Inr w"
      "t = set_provider e ?p (bt_insert lp (score, True) scores, whole, c) (s \<lparr> lm_world := w \<rparr>)"
    by blast
  have "held ?p w = held ?p (lm_world s) - int (unat amount)"
    using laws c(3) Cons.prems(5) unfolding payout_laws_def by auto
  moreover have "lm_pools t m mm = Some pool" "lm_rewards t e ?p = Some r" "lm_world t = w"
    "lm_providers t e ?p = (bt_insert lp (score, True) scores, whole, c)"
    using Cons.prems by (simp_all add: c(4) set_provider_def)
  moreover note IH = Cons.IH [OF t(2) calculation(2,3,5)]
  ultimately show ?case
    using c(1,2) Cons.prems(5) score_in_mark [OF c(1)]
    by (auto simp: bt_get_insert score_in_def split: if_splits)
qed simp

lemma sum_scores:
  assumes "bt_wf scores"
  shows "(\<Sum>lp\<in>fst ` set scores. unat (score_in scores lp)) = (\<Sum>entry\<leftarrow>scores. unat (fst (snd entry)))"
proof -
  have "score_in scores (fst entry) = fst (snd entry)" if "entry \<in> set scores" for entry
    using that bt_get_iff_in_set [OF assms, of "fst entry" "snd entry"] by (simp add: score_in_def split: prod.split)
  then have "(\<Sum>entry\<leftarrow>scores. unat (fst (snd entry))) = (\<Sum>lp\<leftarrow>map fst scores. unat (score_in scores lp))"
    by (simp add: o_def cong: map_cong)
  also have "\<dots> = (\<Sum>lp\<in>fst ` set scores. unat (score_in scores lp))"
    using bt_wf_distinct [OF assms] by (simp add: sum_list_distinct_conv_sum_set del: map_map)
  finally show ?thesis by simp
qed

lemma payouts_within_rewards:
  assumes "distinct lps" "\<forall>lp\<in>set lps. \<exists>score. bt_get scores lp = Some (score, False) \<and> pro_rata r score whole \<noteq> None"
    "bt_wf scores" "(\<Sum>entry\<leftarrow>scores. unat (fst (snd entry))) \<le> unat whole"
  shows "(\<Sum>lp\<leftarrow>lps. int (unat (the (pro_rata r (score_in scores lp) whole)))) \<le> int (unat r)"
proof (cases "lps = []")
  case False
  let ?share = "\<lambda>lp. the (pro_rata r (score_in scores lp) whole)"
  have share: "pro_rata r (score_in scores lp) whole = Some (?share lp)" if "lp \<in> set lps" for lp
    using assms(2) that by (auto simp: score_in_def)
  obtain lp where "lp \<in> set lps" using False by (cases lps) auto
  then have "pro_rata r (score_in scores lp) whole \<noteq> None" using share by (metis option.distinct(1))
  then have "whole \<noteq> 0" by (auto simp: pro_rata_def checked_div_def)
  have "set lps \<subseteq> fst ` set scores"
    using assms(2) by (force dest: bt_get_in_set)
  then have "(\<Sum>lp\<in>set lps. unat (score_in scores lp)) \<le> unat whole"
    using sum_mono2 [of "fst ` set scores" "set lps" "\<lambda>lp. unat (score_in scores lp)"] sum_scores [OF assms(3)] assms(4) by simp
  then have "(\<Sum>lp\<in>set lps. unat (?share lp)) \<le> unat r"
    using \<open>whole \<noteq> 0\<close> by (intro pro_rata_sum_le [OF share]) auto
  then have "(\<Sum>lp\<in>set lps. int (unat (?share lp))) \<le> int (unat r)"
    unfolding of_nat_sum [symmetric] of_nat_le_iff .
  then show ?thesis
    using assms(1) by (simp only: sum_list_distinct_conv_sum_set)
qed simp

subsection \<open>A concrete chain\<close>

text \<open>The world is the native ledger; the orderbook pays every pool 100 units per epoch.\<close>

definition sample_lm_config :: "(rat, account \<Rightarrow> int) lm_config" where
  "sample_lm_config =
    \<lparr> lc_dec = rat_decimal,
      lc_assets =
        \<lparr> pa_native_transfer = (\<lambda>payer payee a k w. Inr (w (payer := w payer - int (unat a), payee := w payee + int (unat a)))),
          pa_native_minimum = 1, pa_create = (\<lambda>_ _ _ w. Inr w), pa_transfer = (\<lambda>_ _ _ _ _ w. Inr w),
          pa_minimum = (\<lambda>_ _. 1), pa_mint = (\<lambda>_ _ _ w. Inr w), pa_burn = (\<lambda>_ _ a _ w. Inr (a, w)),
          pa_issuance = (\<lambda>_ _. 0), pa_reducible = (\<lambda>_ _ _. 0) \<rparr>,
      lc_ocex =
        \<lparr> lq_register_pool = (\<lambda>_ _ w. Inr w), lq_average_price = (\<lambda>_ _. Some 1), lq_is_registered_market = (\<lambda>_ _. True),
          lq_add_liquidity = (\<lambda>_ _ _ _ _ _ w. Inr w), lq_remove_liquidity = (\<lambda>_ _ _ _ _ w. Inr w),
          lq_force_close_pool = (\<lambda>_ _ w. w), lq_claim_rewards = (\<lambda>p _ _ w. Inr (100, w (p := w p + 100))) \<rparr>,
      lc_pool_hash = (\<lambda>_ _. 50), lc_sub_account = ucast \<rparr>"

definition sample_pair :: TradingPair where
  "sample_pair = TradingPair Polkadex (Asset 5)"

definition sample_pool :: "rat MarketMakerConfig" where
  "sample_pool =
    \<lparr> mm_pool_id = 50, mm_commission = 0, mm_exit_fee = 0, mm_public_funds_allowed = True, mm_name = [],
      mm_share_id = 50, mm_force_closed = False \<rparr>"

definition sample_pools :: "(rat, account \<Rightarrow> int) lmp" where
  "sample_pools = (lm_genesis (\<lambda>_. 0))
    \<lparr> lm_pools := put2 sample_pair 7 (Some sample_pool) (\<lambda>_ _. None),
      lm_providers := (\<lambda>_ _. ([(1, 30, False), (2, 60, False)], 100, False)) \<rparr>"

lemma sample_payout_laws: "payout_laws sample_lm_config (\<lambda>p w. w p)"
  unfolding payout_laws_def by (simp add: sample_lm_config_def)

lemma sample_units: "lm_from_units rat_decimal 0 = Inr 0" "fraction_ok rat_decimal 0"
  by code_simp+

text \<open>C25: In every reachable state the reverse index and the pools agree: each pool sits under the account
  derived from its market maker and market, and an account is a valid pool exactly when it belongs
  to a pool. Since nothing writes the recorded shares, every score sheet the worker computes is empty.\<close>

theorem pools_and_index_agree:
  assumes "lm_reachable C s"
  shows "(\<forall>m mm pool. lm_pools s m mm = Some pool \<longrightarrow> mm_pool_id pool = lc_sub_account C (lc_pool_hash C mm m) \<and>
      lm_pool_index s (mm_pool_id pool) = Some (m, mm)) \<and>
    (\<forall>p. is_valid_pool_id p s \<longleftrightarrow> (\<exists>m mm pool. lm_pools s m mm = Some pool \<and> mm_pool_id pool = p)) \<and>
    (\<forall>order sheet entry. take_snapshot order s = Some sheet \<longrightarrow> entry \<in> set sheet \<longrightarrow> snd entry = ([], 0))"
proof -
  have inv: "pool_inv C s" using assms by (rule pool_inv_reachable)
  then have ok: "index_ok C (lm_pools s) (lm_pool_index s)" by (simp add: pool_inv_def)
  have "is_valid_pool_id p s \<longleftrightarrow> (\<exists>m mm pool. lm_pools s m mm = Some pool \<and> mm_pool_id pool = p)" for p
    using index_okD(2,3) [OF ok] by (fastforce simp: is_valid_pool_id_def)
  then show ?thesis
    using index_okD(1,2) [OF ok] empty_scores [OF inv] by blast
qed

theorem pools_and_index_agree_witness:
  "\<exists>s pool. lm_reachable sample_lm_config s \<and> lm_pools s sample_pair 7 = Some pool \<and>
     is_valid_pool_id (mm_pool_id pool) s \<and> lm_pool_index s (mm_pool_id pool) = Some (sample_pair, 7)"
proof -
  let ?s = "lm_genesis (\<lambda>_. 0) :: (rat, account \<Rightarrow> int) lmp"
  let ?call = "RegisterPoolCall [] sample_pair 0 0 True 8"
  have "is_ok (lm_dispatch sample_lm_config (Signed 7) ?call ?s)"
    by (simp add: lm_register_pool_def sample_lm_config_def sample_units lm_genesis_def create_pool_account_def fund_pool_opt_def
        fund_pool_def sample_pair_def ok_or_def ensure_def is_ok_def)
  then obtain s' where run: "lm_dispatch sample_lm_config (Signed 7) ?call ?s = Inr s'" by (auto simp: is_ok_iff)
  then obtain pool where pools: "lm_pools s' = put2 sample_pair 7 (Some pool) (\<lambda>_ _. None)"
    by (auto elim!: register_pool_Inr simp: lm_genesis_def)
  then have "no_collision sample_lm_config s'" by (simp add: no_collision_def put2_apply)
  with run have "lm_reachable sample_lm_config s'"
    by (blast intro: lm_reachable.intros lm_step.call)
  moreover have "lm_pools s' sample_pair 7 = Some pool" by (simp add: pools)
  ultimately show ?thesis
    using pools_and_index_agree [of sample_lm_config s'] by blast
qed



end
