(* ===== verification/Lockable.thy ===== *)
theory Lockable
  imports Frame "HOL-Library.AList"
begin

text \<open>
  The native currency as the migration and rewards pallets use it: transfers, deposits, burns and
  named locks of the balances pallet. It is the parameter \<open>'w lockable\<close>; \<open>lockable_laws\<close> states
  what its documentation promises, over the free balance \<open>fb\<close> of an account.
\<close>

type_synonym lock_id = bytes

record 'w lockable =
  lk_transfer :: "account \<Rightarrow> account \<Rightarrow> u128 \<Rightarrow> preservation \<Rightarrow> 'w \<Rightarrow> foreign_error + 'w"
  lk_deposit :: "account \<Rightarrow> u128 \<Rightarrow> 'w \<Rightarrow> 'w"
  lk_burn :: "account \<Rightarrow> u128 \<Rightarrow> 'w \<Rightarrow> foreign_error + 'w"
  lk_locks :: "account \<Rightarrow> 'w \<Rightarrow> (lock_id \<times> u128) list"
  lk_set_lock :: "lock_id \<Rightarrow> account \<Rightarrow> u128 \<Rightarrow> 'w \<Rightarrow> 'w"
  lk_remove_lock :: "lock_id \<Rightarrow> account \<Rightarrow> 'w \<Rightarrow> 'w"

text \<open>
  \<open>lk_deposit\<close> is \<^verbatim>\<open>deposit_creating\<close>: it credits the amount, or nothing when that would create an
  account below the existential deposit. \<open>lk_burn\<close> is \<^verbatim>\<open>burn_from\<close> with \<^verbatim>\<open>Precision::Exact\<close>. A
  lock with a zero amount is not set.
\<close>

definition lock_of :: "'w lockable \<Rightarrow> lock_id \<Rightarrow> 'w \<Rightarrow> account \<Rightarrow> nat" where
  "lock_of L i w p = (case map_of (lk_locks L p w) i of None \<Rightarrow> 0 | Some x \<Rightarrow> unat x)"

definition adjusted :: "('k \<Rightarrow> int) \<Rightarrow> 'k \<Rightarrow> int \<Rightarrow> 'k \<Rightarrow> int" where
  "adjusted b p n = b (p := b p + n)"

definition lockable_laws :: "'w lockable \<Rightarrow> ('w \<Rightarrow> account \<Rightarrow> int) \<Rightarrow> bool" where
  "lockable_laws L fb \<longleftrightarrow>
    (\<forall>w p. distinct (map fst (lk_locks L p w))) \<and>
    (\<forall>p q n k w w'. lk_transfer L p q n k w = Inr w' \<longrightarrow>
      fb w' = adjusted (adjusted (fb w) p (- int (unat n))) q (int (unat n)) \<and> (\<forall>i. lock_of L i w' = lock_of L i w)) \<and>
    (\<forall>p n w. fb (lk_deposit L p n w) \<in> {fb w, adjusted (fb w) p (int (unat n))} \<and>
      (\<forall>i. lock_of L i (lk_deposit L p n w) = lock_of L i w)) \<and>
    (\<forall>p n w w'. lk_burn L p n w = Inr w' \<longrightarrow>
      fb w' = adjusted (fb w) p (- int (unat n)) \<and> (\<forall>i. lock_of L i w' = lock_of L i w)) \<and>
    (\<forall>i p n w. fb (lk_set_lock L i p n w) = fb w \<and>
      (\<forall>j. lock_of L j (lk_set_lock L i p n w) = (if j = i \<and> n \<noteq> 0 then (lock_of L i w) (p := unat n) else lock_of L j w))) \<and>
    (\<forall>i p w. fb (lk_remove_lock L i p w) = fb w \<and>
      (\<forall>j. lock_of L j (lk_remove_lock L i p w) = (if j = i then (lock_of L i w) (p := 0) else lock_of L j w)))"

lemma lockable_lawsD:
  assumes "lockable_laws L fb"
  shows "distinct (map fst (lk_locks L p w))"
    and "lk_transfer L p q n k w = Inr w' \<Longrightarrow> fb w' = adjusted (adjusted (fb w) p (- int (unat n))) q (int (unat n))"
    and "lk_transfer L p q n k w = Inr w' \<Longrightarrow> lock_of L i w' = lock_of L i w"
    and "fb (lk_deposit L p n w) \<in> {fb w, adjusted (fb w) p (int (unat n))}"
    and "lock_of L i (lk_deposit L p n w) = lock_of L i w"
    and "lk_burn L p n w = Inr w' \<Longrightarrow> fb w' = adjusted (fb w) p (- int (unat n))"
    and "lk_burn L p n w = Inr w' \<Longrightarrow> lock_of L i w' = lock_of L i w"
    and "fb (lk_set_lock L i p n w) = fb w"
    and "lock_of L j (lk_set_lock L i p n w) = (if j = i \<and> n \<noteq> 0 then (lock_of L i w) (p := unat n) else lock_of L j w)"
    and "fb (lk_remove_lock L i p w) = fb w"
    and "lock_of L j (lk_remove_lock L i p w) = (if j = i then (lock_of L i w) (p := 0) else lock_of L j w)"
  using assms by (auto simp: lockable_laws_def)

subsection \<open>Reading a lock\<close>

text \<open>A loop that keeps the last match, and one that stops at the first.\<close>

fun last_lock :: "lock_id \<Rightarrow> (lock_id \<times> u128) list \<Rightarrow> u128 \<Rightarrow> u128" where
  "last_lock i [] x = x"
| "last_lock i ((j, y) # ls) x = last_lock i ls (if j = i then y else x)"

fun first_lock :: "lock_id \<Rightarrow> (lock_id \<times> u128) list \<Rightarrow> u128" where
  "first_lock i [] = 0"
| "first_lock i ((j, y) # ls) = (if j = i then y else first_lock i ls)"

lemma first_lock_map_of: "first_lock i ls = (case map_of ls i of None \<Rightarrow> 0 | Some y \<Rightarrow> y)"
  by (induction i ls rule: first_lock.induct) auto

lemma last_lock_absent: "i \<notin> fst ` set ls \<Longrightarrow> last_lock i ls x = x"
  by (induction i ls x rule: last_lock.induct) auto

lemma last_lock_first:
  "distinct (map fst ls) \<Longrightarrow> last_lock i ls x = (if i \<in> fst ` set ls then first_lock i ls else x)"
  by (induction i ls x rule: last_lock.induct) (auto simp: last_lock_absent)

lemma first_lock_absent: "i \<notin> fst ` set ls \<Longrightarrow> first_lock i ls = 0"
  by (induction i ls rule: first_lock.induct) auto

lemma unat_lock_of:
  assumes "lockable_laws L fb"
  shows "unat (first_lock i (lk_locks L p w)) = lock_of L i w p"
    and "unat (last_lock i (lk_locks L p w) 0) = lock_of L i w p"
proof -
  show 1: "unat (first_lock i (lk_locks L p w)) = lock_of L i w p"
    by (simp add: first_lock_map_of lock_of_def split: option.split)
  have "last_lock i (lk_locks L p w) 0 = first_lock i (lk_locks L p w)"
    using last_lock_first [OF lockable_lawsD(1) [OF assms]] first_lock_absent by metis
  with 1 show "unat (last_lock i (lk_locks L p w) 0) = lock_of L i w p" by simp
qed

subsection \<open>Totals over all accounts\<close>

text \<open>There are finitely many account identifiers, so a sum over all of them makes sense.\<close>

definition issuance :: "('k::finite \<Rightarrow> int) \<Rightarrow> int" where
  "issuance b = (\<Sum>p\<in>UNIV. b p)"

lemma issuance_adjusted [simp]: "issuance (adjusted b p n) = issuance b + n"
  by (simp add: issuance_def adjusted_def sum.remove [of UNIV p])

lemma sum_fun_upd: "(\<Sum>q\<in>UNIV. (f (p := x)) q) + f p = (\<Sum>q\<in>UNIV. f q) + (x :: nat)" for f :: "'k::finite \<Rightarrow> nat"
  by (simp add: sum.remove [of UNIV p])

subsection \<open>A concrete currency\<close>

record ledger =
  lg_free :: "account \<Rightarrow> int"
  lg_locks :: "account \<Rightarrow> (lock_id \<times> u128) list"

definition lg_add :: "account \<Rightarrow> int \<Rightarrow> ledger \<Rightarrow> ledger" where
  "lg_add p n w = w \<lparr> lg_free := adjusted (lg_free w) p n \<rparr>"

definition ledger_currency :: "ledger lockable" where
  "ledger_currency =
    \<lparr> lk_transfer = (\<lambda>p q n k w. if int (unat n) \<le> lg_free w p
        then Inr (lg_add q (int (unat n)) (lg_add p (- int (unat n)) w)) else Inl (ForeignCode 2)),
      lk_deposit = (\<lambda>p n. lg_add p (int (unat n))),
      lk_burn = (\<lambda>p n w. if int (unat n) \<le> lg_free w p then Inr (lg_add p (- int (unat n)) w) else Inl (ForeignCode 2)),
      lk_locks = (\<lambda>p w. AList.clearjunk (lg_locks w p)),
      lk_set_lock = (\<lambda>i p n w. if n = 0 then w else w \<lparr> lg_locks := (lg_locks w) (p := (i, n) # lg_locks w p) \<rparr>),
      lk_remove_lock = (\<lambda>i p w. w \<lparr> lg_locks := (lg_locks w) (p := AList.delete i (lg_locks w p)) \<rparr>) \<rparr>"

lemma ledger_lock_of:
  "lock_of ledger_currency i w p = (case map_of (lg_locks w p) i of None \<Rightarrow> 0 | Some x \<Rightarrow> unat x)"
  by (simp add: lock_of_def ledger_currency_def map_of_clearjunk)

lemma ledger_currency_laws: "lockable_laws ledger_currency lg_free"
  unfolding lockable_laws_def ledger_lock_of [abs_def]
  by (auto simp: ledger_currency_def lg_add_def fun_eq_iff delete_conv' distinct_clearjunk split: if_splits option.splits)

end
