(* ===== verification/Pdex_Migration.thy ===== *)
theory Pdex_Migration
  imports Lockable
begin

text \<open>
  The migration pallet, \<^verbatim>\<open>pallets/pdex-migration/src/lib.rs\<close>: relayers report burns of the Ethereum
  token, the third report mints the native token under a lock, and governance can revert a mint.
  The supply cap is an invariant of every reachable state.
\<close>

subsection \<open>State\<close>

datatype migration_error =
    NotOperational
  | UnknownRelayer
  | InvalidMintAmount
  | UnknownBeneficiary
  | LiquidityRestrictions
  | InvalidTxHash
  | AlreadyProcessedEthBurnTx
  | RelayerLimitReached

datatype migration_event =
    RelayerStatusUpdated account bool
  | NativePDEXMintedAndLocked account account u128
  | RevertedMintedTokens account
  | TokenBurnDetected H256 account

record BurnTxDetails =
  bd_approvals :: u16
  bd_approvers :: "account list"

definition default_BurnTxDetails :: BurnTxDetails where
  "default_BurnTxDetails = \<lparr> bd_approvals = 0, bd_approvers = [] \<rparr>"

record 'w migration_config =
  mc_max_relayers :: u32
  mc_lock_period :: u32
  mc_currency :: "'w lockable"

record 'w migration =
  mg_relayers :: "account \<Rightarrow> bool"
  mg_operational :: bool
  mg_mintable :: u128
  mg_holders :: "account \<rightharpoonup> u32"
  mg_txns :: "H256 \<Rightarrow> BurnTxDetails"
  mg_now :: u32
  mg_events :: "migration_event list"
  mg_world :: 'w

definition MIGRATION_LOCK :: lock_id where
  "MIGRATION_LOCK = string_bytes ''pdexlock''"

definition migration_genesis :: "bool \<Rightarrow> u128 \<Rightarrow> 'w \<Rightarrow> 'w migration" where
  "migration_genesis operational max_tokens w =
    \<lparr> mg_relayers = (\<lambda>_. False), mg_operational = operational, mg_mintable = max_tokens, mg_holders = Map.empty,
      mg_txns = (\<lambda>_. default_BurnTxDetails), mg_now = 0, mg_events = [], mg_world = w \<rparr>"

definition default_max_tokens :: u128 where
  "default_max_tokens = 3172895000000000000"

definition migration_emit :: "migration_event \<Rightarrow> 'w migration \<Rightarrow> 'w migration" where
  "migration_emit e s = s \<lparr> mg_events := mg_events s @ [e] \<rparr>"

subsection \<open>Operations\<close>

definition set_migration_operational_status :: "origin \<Rightarrow> bool \<Rightarrow> 'w migration \<Rightarrow> migration_error fault + 'w migration" where
  "set_migration_operational_status orig status s = bind_res (by_root orig) (\<lambda>_. Inr (s \<lparr> mg_operational := status \<rparr>))"

definition set_relayer_status :: "origin \<Rightarrow> account \<Rightarrow> bool \<Rightarrow> 'w migration \<Rightarrow> migration_error fault + 'w migration" where
  "set_relayer_status orig relayer status s =
    bind_res (by_root orig) (\<lambda>_.
    Inr (migration_emit (RelayerStatusUpdated relayer status) (s \<lparr> mg_relayers := (mg_relayers s) (relayer := status) \<rparr>)))"

definition previous_locked_balance :: "'w migration_config \<Rightarrow> account \<Rightarrow> 'w \<Rightarrow> u128" where
  "previous_locked_balance C who w = last_lock MIGRATION_LOCK (lk_locks (mc_currency C) who w) 0"

text \<open>The mint that the third approval triggers.\<close>

definition mint_and_lock :: "'w migration_config \<Rightarrow> account \<Rightarrow> account \<Rightarrow> u128 \<Rightarrow> 'w migration \<Rightarrow> 'w migration" where
  "mint_and_lock C relayer beneficiary amount s =
    (let w = lk_deposit (mc_currency C) beneficiary amount (mg_world s);
         w = lk_set_lock (mc_currency C) MIGRATION_LOCK beneficiary
           (sat_add amount (previous_locked_balance C beneficiary w)) w
     in migration_emit (NativePDEXMintedAndLocked relayer beneficiary amount)
       (s \<lparr> mg_world := w, mg_holders := (mg_holders s) (beneficiary \<mapsto> mg_now s), mg_mintable := mg_mintable s - amount \<rparr>))"

definition process_migration :: "'w migration_config \<Rightarrow> account \<Rightarrow> account \<Rightarrow> u128 \<Rightarrow> H256 \<Rightarrow> BurnTxDetails \<Rightarrow> 'w migration \<Rightarrow>
    migration_error fault + 'w migration" where
  "process_migration C relayer beneficiary amount eth_hash burn_details s =
    ensure (mg_relayers s relayer) (Fault UnknownRelayer)
    (ensure (amount \<le> mg_mintable s) (Fault InvalidMintAmount)
    (bind_res (ok_or (Fault RelayerLimitReached)
      (try_push (unat (mc_max_relayers C)) relayer (bd_approvers burn_details))) (\<lambda>approvers.
     let burn_details = \<lparr> bd_approvals = bd_approvals burn_details + 1, bd_approvers = approvers \<rparr>;
         record = (\<lambda>s. s \<lparr> mg_txns := (mg_txns s) (eth_hash := burn_details) \<rparr>)
     in Inr (if bd_approvals burn_details = 3 then mint_and_lock C relayer beneficiary amount (record s)
       else migration_emit (TokenBurnDetected eth_hash relayer) (record s)))))"

definition migration_mint :: "'w migration_config \<Rightarrow> origin \<Rightarrow> account \<Rightarrow> u128 \<Rightarrow> H256 \<Rightarrow> 'w migration \<Rightarrow>
    migration_error fault + 'w migration" where
  "migration_mint C orig beneficiary amount eth_tx s =
    bind_res (signed_by orig) (\<lambda>relayer.
    ensure (eth_tx \<noteq> 0) (Fault InvalidTxHash)
    (ensure (mg_operational s) (Fault NotOperational)
    (let burn_details = mg_txns s eth_tx in
     ensure (relayer \<notin> set (bd_approvers burn_details)) (Fault AlreadyProcessedEthBurnTx)
     (process_migration C relayer beneficiary amount eth_tx burn_details s))))"

text \<open>
  Sums that the source writes with plain operators wrap around, as release builds do.
\<close>

definition process_unlock :: "'w migration_config \<Rightarrow> account \<Rightarrow> 'w migration \<Rightarrow> migration_error fault + 'w migration" where
  "process_unlock C beneficiary s =
    (case mg_holders s beneficiary of
      None \<Rightarrow> Inl (Fault UnknownBeneficiary)
    | Some locked_block \<Rightarrow>
        if locked_block + mc_lock_period C \<le> mg_now s
        then Inr (s \<lparr> mg_holders := (mg_holders s) (beneficiary := None),
          mg_world := lk_remove_lock (mc_currency C) MIGRATION_LOCK beneficiary (mg_world s) \<rparr>)
        else Inl (Fault LiquidityRestrictions))"

definition migration_unlock :: "'w migration_config \<Rightarrow> origin \<Rightarrow> 'w migration \<Rightarrow> migration_error fault + 'w migration" where
  "migration_unlock C orig s =
    bind_res (signed_by orig) (\<lambda>beneficiary.
    ensure (mg_operational s) (Fault NotOperational) (process_unlock C beneficiary s))"

definition remove_fradulent_tokens :: "'w migration_config \<Rightarrow> account \<Rightarrow> 'w migration \<Rightarrow> migration_error fault + 'w migration" where
  "remove_fradulent_tokens C beneficiary s =
    (let amount_to_burn = first_lock MIGRATION_LOCK (lk_locks (mc_currency C) beneficiary (mg_world s)) in
     bind_res (map_err Foreign (lk_burn (mc_currency C) beneficiary amount_to_burn
       (lk_remove_lock (mc_currency C) MIGRATION_LOCK beneficiary (mg_world s)))) (\<lambda>w.
     Inr (migration_emit (RevertedMintedTokens beneficiary)
       (s \<lparr> mg_holders := (mg_holders s) (beneficiary := None), mg_world := w,
            mg_mintable := mg_mintable s + amount_to_burn \<rparr>))))"

definition remove_minted_tokens :: "'w migration_config \<Rightarrow> origin \<Rightarrow> account \<Rightarrow> 'w migration \<Rightarrow> migration_error fault + 'w migration" where
  "remove_minted_tokens C orig beneficiary s = bind_res (by_root orig) (\<lambda>_. remove_fradulent_tokens C beneficiary s)"

subsection \<open>Runs\<close>

datatype migration_call =
    SetOperational bool
  | SetRelayer account bool
  | Mint account u128 H256
  | Unlock
  | RemoveMinted account
  | Block u32

fun migration_dispatch :: "'w migration_config \<Rightarrow> origin \<Rightarrow> migration_call \<Rightarrow> 'w migration \<Rightarrow> migration_error fault + 'w migration" where
  "migration_dispatch C orig (SetOperational b) s = set_migration_operational_status orig b s"
| "migration_dispatch C orig (SetRelayer r b) s = set_relayer_status orig r b s"
| "migration_dispatch C orig (Mint p n h) s = migration_mint C orig p n h s"
| "migration_dispatch C orig Unlock s = migration_unlock C orig s"
| "migration_dispatch C orig (RemoveMinted p) s = remove_minted_tokens C orig p s"
| "migration_dispatch C orig (Block b) s = Inr (s \<lparr> mg_now := b \<rparr>)"

inductive migration_step :: "'w migration_config \<Rightarrow> 'w migration \<Rightarrow> 'w migration \<Rightarrow> bool" for C where
  call: "migration_dispatch C orig c s = Inr s' \<Longrightarrow> migration_step C s s'"

inductive migration_reachable :: "'w migration_config \<Rightarrow> 'w migration \<Rightarrow> 'w migration \<Rightarrow> bool" for C s0 where
  start: "migration_reachable C s0 s0"
| step: "migration_reachable C s0 s \<Longrightarrow> migration_step C s s' \<Longrightarrow> migration_reachable C s0 s'"

inductive_cases migration_stepE: "migration_step C s s'"

subsection \<open>The supply cap\<close>

text \<open>
  What may still be minted together with what is locked never exceeds the maximum the genesis
  allows, and what may still be minted bounds how much the issuance can grow.
\<close>

definition locked_total :: "'w migration_config \<Rightarrow> 'w \<Rightarrow> nat" where
  "locked_total C w = (\<Sum>p\<in>UNIV. lock_of (mc_currency C) MIGRATION_LOCK w p)"

definition cap_inv :: "'w migration_config \<Rightarrow> ('w \<Rightarrow> account \<Rightarrow> int) \<Rightarrow> nat \<Rightarrow> int \<Rightarrow> 'w migration \<Rightarrow> bool" where
  "cap_inv C fb cap lid s \<longleftrightarrow>
    unat (mg_mintable s) + locked_total C (mg_world s) \<le> cap \<and>
    issuance (fb (mg_world s)) + int (unat (mg_mintable s)) \<le> lid"

lemma cap_inv_frame [simp]:
  "cap_inv C fb cap lid (migration_emit e s) = cap_inv C fb cap lid s"
  "cap_inv C fb cap lid (s \<lparr> mg_txns := t \<rparr>) = cap_inv C fb cap lid s"
  "cap_inv C fb cap lid (s \<lparr> mg_now := b \<rparr>) = cap_inv C fb cap lid s"
  "cap_inv C fb cap lid (s \<lparr> mg_operational := c \<rparr>) = cap_inv C fb cap lid s"
  "cap_inv C fb cap lid (s \<lparr> mg_relayers := r \<rparr>) = cap_inv C fb cap lid s"
  by (simp_all add: cap_inv_def migration_emit_def)

lemma locked_total_upd:
  assumes "\<And>q. lock_of (mc_currency C) MIGRATION_LOCK w' q = ((lock_of (mc_currency C) MIGRATION_LOCK w) (p := x)) q"
  shows "locked_total C w' + lock_of (mc_currency C) MIGRATION_LOCK w p = locked_total C w + x"
  unfolding locked_total_def assms by (rule sum_fun_upd)

lemma lock_le_total: "lock_of (mc_currency C) MIGRATION_LOCK w p \<le> locked_total C w"
  unfolding locked_total_def by (rule member_le_sum) auto

lemma cap_inv_mint:
  assumes laws: "lockable_laws (mc_currency C) fb" and inv: "cap_inv C fb cap lid s" and cap: "cap < 2 ^ 128"
    and le: "amount \<le> mg_mintable s"
  shows "cap_inv C fb cap lid (mint_and_lock C r p amount s)"
proof -
  let ?L = "mc_currency C" and ?w = "mg_world s"
  define w1 where "w1 = lk_deposit ?L p amount ?w"
  define n where "n = sat_add amount (previous_locked_balance C p w1)"
  define w2 where "w2 = lk_set_lock ?L MIGRATION_LOCK p n w1"
  note law = lockable_lawsD [OF laws]
  have le': "unat amount \<le> unat (mg_mintable s)" using le by (simp add: word_le_nat_alt)
  have old: "lock_of ?L MIGRATION_LOCK w1 = lock_of ?L MIGRATION_LOCK ?w"
    by (simp add: w1_def law)
  have prev: "unat (previous_locked_balance C p w1) = lock_of ?L MIGRATION_LOCK ?w p"
    by (simp add: previous_locked_balance_def unat_lock_of(2) [OF laws] old)
  have "unat amount + lock_of ?L MIGRATION_LOCK ?w p < 2 ^ 128"
    using inv cap le' lock_le_total [of C ?w p] by (auto simp: cap_inv_def)
  then have n: "unat n = unat amount + lock_of ?L MIGRATION_LOCK ?w p"
    by (simp add: n_def unat_sat_add prev)
  have "lock_of ?L MIGRATION_LOCK w2 q = ((lock_of ?L MIGRATION_LOCK ?w) (p := unat n)) q" for q
    using n by (auto simp: w2_def law old)
  from locked_total_upd [OF this] have "locked_total C w2 = locked_total C ?w + unat amount"
    by (simp add: n)
  moreover have "issuance (fb w2) \<le> issuance (fb ?w) + int (unat amount)"
    using law(4) [of p amount ?w] by (auto simp: w2_def law w1_def)
  moreover have "unat (mg_mintable s - amount) = unat (mg_mintable s) - unat amount"
    using le by (rule unat_sub)
  moreover have "uint (mg_mintable s - amount) = uint (mg_mintable s) - uint amount"
    using le by (simp add: uint_minus_simple_alt)
  ultimately show ?thesis
    using inv le' by (auto simp: mint_and_lock_def Let_def cap_inv_def migration_emit_def simp flip: w1_def n_def w2_def)
qed

lemma cap_inv_unlock:
  assumes laws: "lockable_laws (mc_currency C) fb" and inv: "cap_inv C fb cap lid s"
    and run: "process_unlock C p s = Inr s'"
  shows "cap_inv C fb cap lid s'"
proof -
  note law = lockable_lawsD [OF laws]
  let ?w' = "lk_remove_lock (mc_currency C) MIGRATION_LOCK p (mg_world s)"
  have "lock_of (mc_currency C) MIGRATION_LOCK ?w' q = ((lock_of (mc_currency C) MIGRATION_LOCK (mg_world s)) (p := 0)) q" for q
    by (simp add: law)
  from locked_total_upd [OF this] show ?thesis
    using inv run by (auto simp: process_unlock_def cap_inv_def law split: option.splits if_splits)
qed

lemma cap_inv_remove:
  assumes laws: "lockable_laws (mc_currency C) fb" and inv: "cap_inv C fb cap lid s" and cap: "cap < 2 ^ 128"
    and run: "remove_fradulent_tokens C p s = Inr s'"
  shows "cap_inv C fb cap lid s'"
proof -
  let ?L = "mc_currency C"
  define n where "n = first_lock MIGRATION_LOCK (lk_locks ?L p (mg_world s))"
  define w1 where "w1 = lk_remove_lock ?L MIGRATION_LOCK p (mg_world s)"
  note law = lockable_lawsD [OF laws]
  from run obtain w where burn: "lk_burn ?L p n w1 = Inr w"
    and s': "mg_world s' = w" "mg_mintable s' = mg_mintable s + n"
    by (auto simp: remove_fradulent_tokens_def Let_def res_simps migration_emit_def simp flip: n_def w1_def)
  have n: "unat n = lock_of ?L MIGRATION_LOCK (mg_world s) p"
    by (simp add: n_def unat_lock_of(1) [OF laws])
  have "lock_of ?L MIGRATION_LOCK w q = ((lock_of ?L MIGRATION_LOCK (mg_world s)) (p := 0)) q" for q
    by (simp add: law(7) [OF burn] w1_def law(11))
  from locked_total_upd [OF this] have total: "locked_total C w + unat n = locked_total C (mg_world s)"
    by (simp add: n)
  then have sum: "unat (mg_mintable s + n) = unat (mg_mintable s) + unat n"
    using inv cap by (intro unat_add_lem [THEN iffD1]) (auto simp: cap_inv_def)
  moreover from sum have "uint (mg_mintable s + n) = uint (mg_mintable s) + uint n"
    by (metis of_nat_add uint_nat)
  moreover have "issuance (fb w) = issuance (fb (mg_world s)) - int (unat n)"
    by (simp add: law(6) [OF burn] w1_def law(10))
  ultimately show ?thesis
    using inv total by (auto simp: cap_inv_def s')
qed

lemma process_migration_Inr:
  "process_migration C r p n h d s = Inr s' \<longleftrightarrow>
    mg_relayers s r \<and> n \<le> mg_mintable s \<and> length (bd_approvers d) < unat (mc_max_relayers C) \<and>
    (let d' = \<lparr> bd_approvals = bd_approvals d + 1, bd_approvers = bd_approvers d @ [r] \<rparr>;
         t = s \<lparr> mg_txns := (mg_txns s) (h := d') \<rparr>
     in s' = (if bd_approvals d' = 3 then mint_and_lock C r p n t else migration_emit (TokenBurnDetected h r) t))"
  by (auto simp: process_migration_def res_simps Let_def)

lemma migration_mint_Inr:
  "migration_mint C orig p n h s = Inr s' \<longleftrightarrow>
    (\<exists>r. orig = Signed r \<and> h \<noteq> 0 \<and> mg_operational s \<and> r \<notin> set (bd_approvers (mg_txns s h)) \<and>
      process_migration C r p n h (mg_txns s h) s = Inr s')"
  by (auto simp: migration_mint_def res_simps Let_def)

lemma cap_inv_step:
  assumes laws: "lockable_laws (mc_currency C) fb" and cap: "cap < 2 ^ 128" and inv: "cap_inv C fb cap lid s"
    and step: "migration_step C s s'"
  shows "cap_inv C fb cap lid s'"
  using step
proof (rule migration_stepE)
  fix orig c assume run: "migration_dispatch C orig c s = Inr s'"
  show ?thesis
  proof (cases c)
    case (Mint p n h)
    with run show ?thesis
      using cap_inv_mint [OF laws _ cap, of lid] inv
      by (auto simp: migration_mint_Inr process_migration_Inr Let_def)
  qed (use run inv cap_inv_unlock [OF laws inv] cap_inv_remove [OF laws inv cap] in
    \<open>auto simp: res_simps set_migration_operational_status_def set_relayer_status_def migration_unlock_def remove_minted_tokens_def\<close>)
qed

lemma reachable_cap_inv:
  assumes "migration_reachable C s0 s" and "lockable_laws (mc_currency C) fb" and "cap < 2 ^ 128"
    and "cap_inv C fb cap lid s0"
  shows "cap_inv C fb cap lid s"
  using assms(1) by induction (use assms cap_inv_step in blast)+

subsection \<open>Approvals\<close>

definition approvals_inv :: "'w migration_config \<Rightarrow> 'w migration \<Rightarrow> bool" where
  "approvals_inv C s \<longleftrightarrow> (\<forall>h. let d = mg_txns s h in
    unat (bd_approvals d) = length (bd_approvers d) \<and> distinct (bd_approvers d) \<and>
    length (bd_approvers d) \<le> unat (mc_max_relayers C))"

lemma mint_and_lock_txns [simp]: "mg_txns (mint_and_lock C r p n s) = mg_txns s"
  by (simp add: mint_and_lock_def Let_def migration_emit_def)

lemma migration_emit_txns [simp]: "mg_txns (migration_emit e s) = mg_txns s"
  by (simp add: migration_emit_def)

lemma mint_txns:
  assumes "migration_mint C orig p n h s = Inr s'"
  obtains r where "orig = Signed r" "r \<notin> set (bd_approvers (mg_txns s h))"
    "length (bd_approvers (mg_txns s h)) < unat (mc_max_relayers C)"
    "mg_txns s' = (mg_txns s) (h := \<lparr> bd_approvals = bd_approvals (mg_txns s h) + 1, bd_approvers = bd_approvers (mg_txns s h) @ [r] \<rparr>)"
  using assms by (auto simp: migration_mint_Inr process_migration_Inr Let_def split: if_splits)

lemma other_calls_txns:
  assumes "migration_dispatch C orig c s = Inr s'" and "\<And>p n h. c \<noteq> Mint p n h"
  shows "mg_txns s' = mg_txns s"
  using assms
  by (cases c) (auto simp: res_simps Let_def set_migration_operational_status_def set_relayer_status_def
      migration_unlock_def process_unlock_def remove_minted_tokens_def remove_fradulent_tokens_def
      split: option.splits if_splits)

lemma approvals_inv_mint:
  assumes inv: "approvals_inv C s" and few: "unat (mc_max_relayers C) < 2 ^ 16" and run: "migration_mint C orig p n h s = Inr s'"
  shows "approvals_inv C s'"
  using run
proof (rule mint_txns)
  fix r assume r: "r \<notin> set (bd_approvers (mg_txns s h))" "length (bd_approvers (mg_txns s h)) < unat (mc_max_relayers C)"
    and t: "mg_txns s' = (mg_txns s) (h := \<lparr> bd_approvals = bd_approvals (mg_txns s h) + 1, bd_approvers = bd_approvers (mg_txns s h) @ [r] \<rparr>)"
  have d: "unat (bd_approvals (mg_txns s h)) = length (bd_approvers (mg_txns s h))"
    using inv by (simp add: approvals_inv_def Let_def)
  then have "unat (bd_approvals (mg_txns s h) + 1) = Suc (length (bd_approvers (mg_txns s h)))"
    using r(2) few by (subst unat_add_lem [THEN iffD1]) auto
  then show ?thesis
    using inv r by (auto simp: approvals_inv_def Let_def t)
qed

lemma reachable_approvals_inv:
  assumes "migration_reachable C s0 s" and "unat (mc_max_relayers C) < 2 ^ 16" and "approvals_inv C s0"
  shows "approvals_inv C s"
  using assms(1)
proof induction
  case (step s s')
  from step.hyps(2) show ?case
  proof (rule migration_stepE)
    fix orig c assume run: "migration_dispatch C orig c s = Inr s'"
    show ?case
    proof (cases c)
      case (Mint p n h)
      with run approvals_inv_mint [OF step.IH assms(2)] show ?thesis by simp
    qed (use other_calls_txns [OF run] step.IH in \<open>simp_all add: approvals_inv_def\<close>)
  qed
qed (rule assms(3))

subsection \<open>Claims\<close>

text \<open>A migration with three relayers, and a ledger without balances and locks.\<close>

definition sample_migration_config :: "ledger migration_config" where
  "sample_migration_config = \<lparr> mc_max_relayers = 3, mc_lock_period = 10, mc_currency = ledger_currency \<rparr>"

definition sample_migration :: "ledger migration" where
  "sample_migration = migration_genesis True 1000 \<lparr> lg_free = (\<lambda>_. 0), lg_locks = (\<lambda>_. []) \<rparr>"

definition sample_relayers :: "ledger migration" where
  "sample_relayers = sample_migration \<lparr> mg_relayers := (\<lambda>r. r \<in> {1, 2, 3}) \<rparr>"

fun migration_run :: "'w migration_config \<Rightarrow> (origin \<times> migration_call) list \<Rightarrow> 'w migration \<Rightarrow> migration_error fault + 'w migration" where
  "migration_run C [] s = Inr s"
| "migration_run C ((orig, c) # cs) s = bind_res (migration_dispatch C orig c s) (migration_run C cs)"

lemma migration_run_reachable: "migration_run C cs s = Inr s' \<Longrightarrow> migration_reachable C s0 s \<Longrightarrow> migration_reachable C s0 s'"
  by (induction C cs s rule: migration_run.induct)
    (simp_all add: res_simps, meson migration_reachable.step migration_step.call)

lemma genesis_approvals: "approvals_inv C (migration_genesis b m w)"
  by (simp add: approvals_inv_def migration_genesis_def default_BurnTxDetails_def)

text \<open>C16: the supply cap of the migration. Starting from a genesis with \<open>m\<close> mintable tokens and no
  migration locks, in every state that any sequence of calls reaches, the native issuance has grown by
  at most the difference between \<open>m\<close> and what may still be minted, and what may still be minted plus
  all migration locks is at most \<open>m\<close>; reverting a mint never raises the cap.\<close>

theorem migration_supply_cap:
  assumes "lockable_laws (mc_currency C) fb"
    and "\<And>p. lock_of (mc_currency C) MIGRATION_LOCK w p = 0"
    and "migration_reachable C (migration_genesis b m w) s"
  shows "issuance (fb (mg_world s)) + int (unat (mg_mintable s)) \<le> issuance (fb w) + int (unat m) \<and>
    unat (mg_mintable s) + (\<Sum>p\<in>UNIV. lock_of (mc_currency C) MIGRATION_LOCK (mg_world s) p) \<le> unat m"
proof -
  have "cap_inv C fb (unat m) (issuance (fb w) + int (unat m)) (migration_genesis b m w)"
    using assms(2) by (simp add: cap_inv_def migration_genesis_def locked_total_def)
  from reachable_cap_inv [OF assms(3,1) _ this] show ?thesis
    using unat_less_exp [of m] by (auto simp: cap_inv_def locked_total_def)
qed

text \<open>C17: a burn mints once, by three relayers. In every reachable state, an accepted report changes the
  balances, the locks or the mintable amount only when it is the third one for its Ethereum transaction,
  and then the three reports come from distinct accounts; the reporting account is a registered relayer,
  and every other accepted report only records the approval.\<close>

theorem mint_needs_three_relayers:
  assumes "unat (mc_max_relayers C) < 2 ^ 16" and "migration_reachable C (migration_genesis b m w) s"
    and "migration_mint C orig p n h s = Inr s'"
  shows "\<exists>r. orig = Signed r \<and> mg_relayers s r \<and> distinct (bd_approvers (mg_txns s h) @ [r]) \<and>
    bd_approvers (mg_txns s' h) = bd_approvers (mg_txns s h) @ [r] \<and>
    (if length (bd_approvers (mg_txns s h)) = 2 then s' = mint_and_lock C r p n (s \<lparr> mg_txns := mg_txns s' \<rparr>)
     else mg_world s' = mg_world s \<and> mg_mintable s' = mg_mintable s \<and> mg_holders s' = mg_holders s)"
proof -
  have inv: "approvals_inv C s"
    using reachable_approvals_inv [OF assms(2,1) genesis_approvals] .
  obtain r where r: "orig = Signed r" "r \<notin> set (bd_approvers (mg_txns s h))" "process_migration C r p n h (mg_txns s h) s = Inr s'"
    using assms(3) by (auto simp: migration_mint_Inr)
  have len: "unat (bd_approvals (mg_txns s h)) = length (bd_approvers (mg_txns s h))" and dist: "distinct (bd_approvers (mg_txns s h))"
    using inv by (auto simp: approvals_inv_def Let_def)
  have "bd_approvals (mg_txns s h) + 1 = 3 \<longleftrightarrow> bd_approvals (mg_txns s h) = 2"
    by (simp flip: eq_diff_eq)
  also have "\<dots> \<longleftrightarrow> length (bd_approvers (mg_txns s h)) = 2"
    using len by (simp add: word_unat_eq_iff)
  finally show ?thesis
    using r dist by (auto simp: process_migration_Inr Let_def migration_emit_def)
qed

text \<open>C18: the last report decides. When three reports for one Ethereum transaction are accepted, only the
  beneficiary and the amount of the third one are credited, whatever the first two reported: the approvals
  do not record what was approved.\<close>

theorem last_report_decides:
  assumes "lockable_laws (mc_currency C) fb" and "mg_txns s h = default_BurnTxDetails"
    and "migration_run C [(o1, Mint p1 n1 h), (o2, Mint p2 n2 h), (o3, Mint p3 n3 h)] s = Inr s'"
  shows "fb (mg_world s') \<in> {fb (mg_world s), adjusted (fb (mg_world s)) p3 (int (unat n3))} \<and>
    mg_mintable s' = mg_mintable s - n3 \<and> mg_holders s' p3 = Some (mg_now s) \<and> (\<forall>q. q \<noteq> p3 \<longrightarrow> mg_holders s' q = mg_holders s q)"
proof -
  from assms(3) obtain s1 s2 where runs: "migration_mint C o1 p1 n1 h s = Inr s1" "migration_mint C o2 p2 n2 h s1 = Inr s2"
      "migration_mint C o3 p3 n3 h s2 = Inr s'"
    by (auto simp: res_simps)
  from runs(1) assms(2) have 1: "mg_world s1 = mg_world s" "mg_mintable s1 = mg_mintable s" "mg_holders s1 = mg_holders s"
      "mg_now s1 = mg_now s" "bd_approvals (mg_txns s1 h) = 1"
    by (auto simp: migration_mint_Inr process_migration_Inr Let_def default_BurnTxDetails_def migration_emit_def)
  from runs(2) 1 have 2: "mg_world s2 = mg_world s" "mg_mintable s2 = mg_mintable s" "mg_holders s2 = mg_holders s"
      "mg_now s2 = mg_now s" "bd_approvals (mg_txns s2 h) = 2"
    by (auto simp: migration_mint_Inr process_migration_Inr Let_def migration_emit_def)
  from runs(3) 2(5) obtain r t where "s' = mint_and_lock C r p3 n3 (s2 \<lparr> mg_txns := t \<rparr>)"
    by (auto simp: migration_mint_Inr process_migration_Inr Let_def)
  then show ?thesis
    using 2 lockable_lawsD(4) [OF assms(1), of p3 n3 "mg_world s"]
    by (auto simp: mint_and_lock_def Let_def migration_emit_def lockable_lawsD [OF assms(1)])
qed

subsection \<open>Witnesses\<close>

definition sample_reports :: "(origin \<times> migration_call) list" where
  "sample_reports = [(Root, SetRelayer 1 True), (Root, SetRelayer 2 True), (Root, SetRelayer 3 True),
    (Signed 1, Mint 7 5 9), (Signed 2, Mint 7 5 9), (Signed 3, Mint 8 600 9), (Root, RemoveMinted 8)]"

lemma sample_locks: "lock_of ledger_currency i \<lparr> lg_free = b, lg_locks = (\<lambda>_. []) \<rparr> p = 0"
  by (simp add: ledger_lock_of)

lemmas sample_migration_defs = sample_reports_def sample_migration_config_def sample_migration_def migration_genesis_def
  default_BurnTxDetails_def set_relayer_status_def migration_emit_def migration_mint_def process_migration_def try_push_def
  mint_and_lock_def previous_locked_balance_def remove_minted_tokens_def remove_fradulent_tokens_def ledger_currency_def
  lg_add_def adjusted_def sat_add_code Let_def

lemma sample_run_ok: "is_ok (migration_run sample_migration_config sample_reports sample_migration)"
  by (simp add: sample_migration_defs)

theorem migration_supply_cap_witness:
  "\<exists>s. migration_run sample_migration_config sample_reports sample_migration = Inr s \<and>
    issuance (lg_free (mg_world s)) + int (unat (mg_mintable s)) \<le> 1000 \<and>
    unat (mg_mintable s) + (\<Sum>p\<in>UNIV. lock_of ledger_currency MIGRATION_LOCK (mg_world s) p) \<le> 1000"
proof -
  obtain s where run: "migration_run sample_migration_config sample_reports sample_migration = Inr s"
    using sample_run_ok by (auto simp: is_ok_iff)
  have "migration_reachable sample_migration_config sample_migration s"
    using run migration_reachable.start by (rule migration_run_reachable)
  from migration_supply_cap [of sample_migration_config lg_free, OF _ _ this [unfolded sample_migration_def]]
  have "issuance (lg_free (mg_world s)) + int (unat (mg_mintable s)) \<le> issuance (\<lambda>_ :: account. 0) + int (unat (1000 :: u128)) \<and>
    unat (mg_mintable s) + (\<Sum>p\<in>UNIV. lock_of ledger_currency MIGRATION_LOCK (mg_world s) p) \<le> unat (1000 :: u128)"
    by (simp add: sample_migration_config_def ledger_currency_laws sample_locks)
  then show ?thesis using run by (simp add: issuance_def)
qed

theorem mint_needs_three_relayers_witness:
  "\<exists>s s'. migration_run sample_migration_config (take 5 sample_reports) sample_migration = Inr s \<and>
    migration_mint sample_migration_config (Signed 3) 8 600 9 s = Inr s' \<and>
    distinct (bd_approvers (mg_txns s 9) @ [3]) \<and> length (bd_approvers (mg_txns s 9)) = 2 \<and>
    s' = mint_and_lock sample_migration_config 3 8 600 (s \<lparr> mg_txns := mg_txns s' \<rparr>)"
proof -
  let ?run = "migration_run sample_migration_config (take 5 sample_reports) sample_migration"
  have run: "?run = Inr (projr ?run)" and two: "length (bd_approvers (mg_txns (projr ?run) 9)) = 2"
    and ok: "is_ok (migration_mint sample_migration_config (Signed 3) 8 600 9 (projr ?run))"
    by (simp_all add: sample_migration_defs)
  from ok obtain s' where s': "migration_mint sample_migration_config (Signed 3) 8 600 9 (projr ?run) = Inr s'"
    by (auto simp: is_ok_iff)
  have "migration_reachable sample_migration_config (migration_genesis True 1000 \<lparr> lg_free = (\<lambda>_. 0), lg_locks = (\<lambda>_. []) \<rparr>) (projr ?run)"
    using run migration_reachable.start unfolding sample_migration_def by (rule migration_run_reachable)
  from mint_needs_three_relayers [OF _ this s'] show ?thesis
    using run s' two by (intro exI [of _ "projr ?run"] exI [of _ s']) (auto simp: sample_migration_config_def)
qed

text \<open>Two relayers report 5 tokens for account 7, the third one 600 for account 8.\<close>

theorem last_report_decides_witness:
  "\<exists>s'. migration_run sample_migration_config [(Signed 1, Mint 7 5 9), (Signed 2, Mint 7 5 9), (Signed 3, Mint 8 600 9)]
      sample_relayers = Inr s' \<and>
    lg_free (mg_world s') 7 = 0 \<and> mg_mintable s' = 400 \<and> mg_holders s' 8 = Some 0 \<and> mg_holders s' 7 = None"
proof -
  let ?run = "migration_run sample_migration_config [(Signed 1, Mint 7 5 9), (Signed 2, Mint 7 5 9), (Signed 3, Mint 8 600 9)]
    sample_relayers"
  have "is_ok ?run"
    by (simp add: sample_migration_defs sample_relayers_def)
  then obtain s' where run: "?run = Inr s'" by (auto simp: is_ok_iff)
  from last_report_decides [OF _ _ run, of lg_free] show ?thesis
    using run by (auto simp: sample_relayers_def sample_migration_def migration_genesis_def sample_migration_config_def
        ledger_currency_laws adjusted_def)
qed

end
