(* ===== verification/Crowdloan_Table.thy ===== *)
theory Crowdloan_Table
  imports Prelude
begin

text \<open>
  The table \<^verbatim>\<open>HASHMAP\<close> of \<^verbatim>\<open>pallets/rewards/src/crowdloan_rewardees.rs\<close>: 3631 crowdloan contributors with
  their total reward, the part claimable at the start and the reward per block. An account identifier is
  the number its 32 bytes denote, most significant byte first. The table is split into parts in
  the order of the source; the lemmas at the end are the audit of its contents.
\<close>

type_synonym rewardee = "int \<times> int \<times> int \<times> int"

definition rewardees_1 :: "rewardee list" where
  "rewardees_1 =
  [(13570136076083284257796235342286378767279334798454035872325238951093112579, 10274080000000, 2568520000000, 1592580),
   (25150077286048986215615189787897678640350559542565598825719171217011785037, 205481600000000, 51370400000000, 31851700),
   (30973098543105308421987516373655286912068128583335557014594418917219497792, 10285792450000, 2571448113000, 1594400),
   (30996746519981648684262589272461142073936011851110853986042709121035200021, 51370400000000, 12842600000000, 7962920),
   (35908452596123009541575769415922725486391196538057255732329939963874367757, 82192640000000, 20548160000000, 12740700),
   (44532003733142684284759298970397963118166162719302504515806353475019249737, 20548160000000, 5137040000000, 3185170),
   (49187267258272709368283839656732611395102240129215692250316210712341270543, 287674240000000, 71918560000000, 44592400),
   (52482669687442302787187619776225148773460568169547675979664676408916741733, 13356304000000, 3339076000000, 2070360),
   (65621885245100889708484194329024480084043052749122414002048467252847602972, 90411904000000, 22602976000000, 14014700),
   (73461377510085814462500075411241675664157908708309335343650287955622189644, 18493344000000, 4623336000000, 2866650),
   (75130360953193000519979919881431851486075293957856338761938153854317663321, 390415040000000, 97603760000000, 60518200),
   (76598998021127672586224833829995369848929681564551330735029352480425953637, 10274080000000, 2568520000000, 1592580),
   (88668841770817111050423764076846658269934442560461669195732270163592556362, 10274080000000, 2568520000000, 1592580),
   (94718792225395548577018124387168914660692979070197709396397926500113581607, 30822240000000, 7705560000000, 4777750),
   (95604465905168866198261462934550814106724027366901049479757446054095010679, 184933440000000, 46233360000000, 28666500),
   (96660303422778434698069015671883896795928173804784889776159331637403762746, 10274080000000, 2568520000000, 1592580),
   (96963705385204854671018995209128587825157788317689270543430376781688911477, 51370400000000, 12842600000000, 7962920),
   (97718635476976461150800186340743190185222277153968386777990800366646912061, 20548160000000, 5137040000000, 3185170),
   (102636145965767589887498462351512877370873789075388131481587918553939675938, 20548160000000, 5137040000000, 3185170),
   (112158082747310637208260416610470975816886414455004742564175656497657327885, 61644480000000, 15411120000000, 9555510),
   (121052661306809456263029755394368831469588759382779919622711553711461485360, 98590071680000, 24647517920000, 15282400),
   (124964507886568358364355740357573133895537992666800098307955826963338795276, 291783872000000, 72945968000000, 45229400),
   (137983340909828962023052402356401818100551334185298281260921798980912500589, 10274080000000, 2568520000000, 1592580),
   (141662413584599959625529140012479533004929055026715237725303372683024843073, 55890995200000, 13972748800000, 8663660),
   (141837125356056839162161509883794754611233437319633621896723945680118761078, 104795616000000, 26198904000000, 16244400),
   (155300719271696055688236193280805447328968876637112743683420520921932202853, 203426784000000, 50856696000000, 31533200),
   (159387659799058990826114152664056457199483387671012167040467954869695402533, 30822240000000, 7705560000000, 4777750),
   (165054002300012452787862011447406005514585432703023200904720794520963697781, 40890838400000, 10222709600000, 6338490),
   (172285343959898976345604765998048468743199272759766108340469424994752748056, 691445584000000, 172861396000000, 107181000),
   (186548483476558813298012944272529711783099669181987992627061294265305578254, 174248396800000, 43562099200000, 27010200),
   (188160371231575086493002592528842089990291095733285110493159703056954079262, 14383712000000, 3595928000000, 2229620),
   (189316800993953473780498835565610896539081558975649655561125732906685762562, 10274080000000, 2568520000000, 1592580),
   (202060574163674372788069598348230779260503664351198879742271863707391986692, 205481600000000, 51370400000000, 31851700),
   (205814075850245322737015384716144180743262768436864269243941298442470671677, 10274080000000, 2568520000000, 1592580),
   (235070544270307198156389471863799771225625705465692736433885639100066512647, 102740800000000, 25685200000000, 15925800),
   (243847502131080077178552833269064860295884984738233518005315797106493789251, 12328896000000, 3082224000000, 1911100),
   (255117546425374740651365603680730480774639611778153687556487694331917193291, 20548160000000, 5137040000000, 3185170),
   (257673089504392833787021904186506344846056813178000389618958698843367226472, 39041504000000, 9760376000000, 6051820),
   (268180403446122096241806572352178190191511725646722156013258805620015138340, 20548160000000, 5137040000000, 3185170),
   (274095542805240646837474051512615390293455760226150623027091265803782202705, 23630384000000, 5907596000000, 3662940),
   (296510424289577352810457984184137978807041320353362611896385184202799775075, 20548160000000, 5137040000000, 3185170),
   (325269266062913612061631968654180023620085264718510571807204300062755843181, 205481600000000, 51370400000000, 31851700),
   (348083607395469836796827070484900480154276532518187557958995261058578611809, 39041504000000, 9760376000000, 6051820),
   (363658694326025928523518046548576793502848156398029720016053557615378189420, 425346912000000, 106336728000000, 65933000),
   (388337523246557617276110432333714579804383709190721877285733172689162986806, 10274080000000, 2568520000000, 1592580),
   (401354580982434694228074503736103411886186647362341207866366316830954048325, 20548160000000, 5137040000000, 3185170),
   (415424890893076240670738475384303508728490646658862235302843662422421019692, 10274080000000, 2568520000000, 1592580),
   (417682716601063216144488321350084958402124035312423753266762797682842604641, 14383712000000, 3595928000000, 2229620),
   (448378025796584090123289947144690147372930033776401859991923656533168025425, 41096320000000, 10274080000000, 6370340),
   (928281689485260500772727205432662757269587414452590637963905549323545505335, 61644480000000, 15411120000000, 9555510),
   (928827997610713254083522964556773045243426693399786435545057451109957356354, 10274080000000, 2568520000000, 1592580),
   (932290457149499263800677262989789149964192039945939061275062952217370247181, 22602976000000, 5650744000000, 3503690),
   (972865445611388686208880833781941277570295962245007760220025328075895790168, 51370400000000, 12842600000000, 7962920),
   (996169737185928673196427776958747426939673258030754503635397772655969215805, 51370400000000, 12842600000000, 7962920),
   (1034486743249064169795425295485525224151911955222496579979563536106258688588, 10274080000000, 2568520000000, 1592580),
   (1057109603419684128006124377263947872508715855252176660255995236802973988384, 55480032000000, 13870008000000, 8599960),
   (1103655278500198611638232217257919924493356892609139666091995885141401166376, 102740800000000, 25685200000000, 15925800),
   (1111508853280150004898614899901876391232410662947806956166647918791799434844, 10274080000000, 2568520000000, 1592580),
   (1173024425087177096090794915199479256521342142009355717132526636228244631853, 2465779200000000, 616444800000000, 382220000),
   (1175254541924756923517596798443826197387180262222727698648541285921915824229, 108905248000000, 27226312000000, 16881400),
   (1177225241465435090876426565520581566095331368247196417465015686402707563309, 10274080000000, 2568520000000, 1592580),
   (1209239847077911424440340032901224550178212299095251819705552743280284418873, 10274080000000, 2568520000000, 1592580),
   (1220072165423062854731789812247194638530386760656050210051597097524608707152, 10890524800000, 2722631200000, 1688140),
   (1223555700093987760338816808002252131814761932713677528240724039473895899443, 10274080000000, 2568520000000, 1592580),
   (1240421064832241540931989339104791490134016530550076263605905857217387084316, 410963200000000, 102740800000000, 63703300),
   (1256827167078967531527743125266654544992762184689194991137430611594046589291, 51370400000000, 12842600000000, 7962920),
   (1277932971656335166537481642949875709694473827206336240115195975271077452859, 211646048000000, 52911512000000, 32807200),
   (1285493265395853216251427158073728531465898504258295565637700399145106352925, 164385280000000, 41096320000000, 25481300),
   (1286514862733865385717875939703845865683162891569297490971428876879876252672, 811652320000000, 202913080000000, 125814200),
   (1308820215525260907824081267292920201830076867268783147277483732764025200507, 10274080000000, 2568520000000, 1592580),
   (1356519521112679114184297690796534184401610468760423912409085177325134297690, 10274080000000, 2568520000000, 1592580),
   (1828330212554059393901647289299406224780770084123399558795289456624432496652, 41301801600000, 10325450400000, 6402190),
   (1852533302349301669815454588373988953137625925255870031143560707220140053019, 82192640000000, 20548160000000, 12740700),
   (1946198058769563602558042315252636051828234845395164731164339267864686295822, 12328896000000, 3082224000000, 1911100),
   (2017775089356985802311329789251172183440115621771918502547298581973672044300, 10274080000000, 2568520000000, 1592580),
   (2047366484363624846946354830378797239519892742245788331974482231168019115587, 61644480000000, 15411120000000, 9555510),
   (2057037747668866375695266343441154579717947741710060609700143087230123991874, 41096320000000, 10274080000000, 6370340),
   (2080733814486799372253938060655502676971949346661481337686560237497707880992, 10274080000000, 2568520000000, 1592580),
   (2085582708190811973015638079473842841851499285003973821311749619296397604119, 20548160000000, 5137040000000, 3185170),
   (2115208991185706789943672171167936029846729555996806468413808779649430600237, 10274080000000, 2568520000000, 1592580),
   (2173000708099833570778757746625829010645539006123523078355443739224538608209, 30822240000000, 7705560000000, 4777750),
   (2178195520502154010224992479599358213073792491984343764384557803681944895326, 10274080000000, 2568520000000, 1592580),
   (2180187803943118664946198281486452069552438949562786716531835467688859918170, 20548160000000, 5137040000000, 3185170),
   (2180554932595744356904106367244944833689812962294020032433960551256470416732, 20548160000000, 5137040000000, 3185170),
   (2185280662505055296333006566906611434717333862230165653953910845767838832731, 20548160000000, 5137040000000, 3185170),
   (2220518663317168075395275983400512748859124137349851524616490222076571226669, 20548160000000, 5137040000000, 3185170),
   (2221986192948231828493713481970353875131674362982509260643910875787580465178, 10274080000000, 2568520000000, 1592580),
   (2227602900267592974324755384111190795718695580009187854251885807716805283339, 102740800000000, 25685200000000, 15925800),
   (2234277826619969802852940346245611124626037101649164961676838436993911110189, 19520752000000, 4880188000000, 3025910),
   (2235873796694024206261594000919848360780239177161765061212091818065542404215, 283564608000000, 70891152000000, 43955300),
   (2249050327362171408769577612789894753883645104272232000156680146582161127442, 10274080000000, 2568520000000, 1592580)]"

definition rewardees_2 :: "rewardee list" where
  "rewardees_2 =
  [(2250276939596200969424096465319864003345416729232531456754266472653272662893, 65754112000000, 16438528000000, 10192500),
   (2457188719790986371134096567916466305845406110187017523648529476430139415832, 10274080000000, 2568520000000, 1592580),
   (2721530531426710671085192172433489630760277266120980605793814541568318237251, 16438528000000, 4109632000000, 2548130),
   (2780336956882157515491241906479016537187689008623121219777731263432424667257, 406853568000000, 101713392000000, 63066300),
   (2789825874490403071968331838830382176403531391779731493598214660056237457476, 10274080000000, 2568520000000, 1592580),
   (2802388642892640992448625799277276015533048243235419800841472870690996834573, 33904464000000, 8476116000000, 5255530),
   (2837142751022350870871400404564897807305358101592832893045418243876405082182, 320551296000000, 80137824000000, 49688600),
   (2844043765902480982586098120412378776974599298117160173430988270497397098508, 5280877120000000, 1320219280000000, 818588000),
   (2909415252383312972709811890198644104757827699366773154296050026050075385414, 12328896000000, 3082224000000, 1911100),
   (2914922808637811964675422506342771346503509296559639415398635504602407514999, 10274080000000, 2568520000000, 1592580),
   (2934510813888001184152585573715110277782591533389235783684732846713041264728, 30822240000000, 7705560000000, 4777750),
   (2958960930593978142602210871255840930348531189302087947495491021153128000372, 34931872000000, 8732968000000, 5414790),
   (2964611763041488799154593158871135159175499003084344627497428350356934298152, 158220832000000, 39555208000000, 24525800),
   (2981196662447317554492014322509179213794876926930340531981260889672873489724, 102740800000000, 25685200000000, 15925800),
   (2989907793270226472600837030264720341816596357227017130143442779704942794258, 14383712000000, 3595928000000, 2229620),
   (2994976656514115335851388404154024055479532286507620738267757040559704388705, 205481600000000, 51370400000000, 31851700),
   (3005168163131598340146173593334550005165374080075471909716128162105581785210, 41096320000000, 10274080000000, 6370340),
   (3045520843746970662207861344214262914767100448077134749702806021662362951181, 45205952000000, 11301488000000, 7007370),
   (3049788325827068118508509691740633001031564813668859011631026865496929117004, 423292096000000, 105823024000000, 65614500),
   (3074691174647499499235166708435560117769337957974073944250901539882304885861, 10274080000000, 2568520000000, 1592580),
   (3095073701587179443278761600501602353358231199001627117204697949371377776484, 208563824000000, 52140956000000, 32329500),
   (3096325526222951880201842134470883081522686205143801420633365034714802153534, 20548160000000, 5137040000000, 3185170),
   (3131904424626045753283316305703081303765399984005611822274095115592737799776, 10274080000000, 2568520000000, 1592580),
   (3141372966180011755322759108068358517441020417158202819411233982945609574965, 10274080000000, 2568520000000, 1592580),
   (3147547258808878232756626765438861940003763462528306200890411107615576494680, 20548160000000, 5137040000000, 3185170),
   (3157407199438429257728253458735656181463228930761917705951996466109636297762, 12328896000000, 3082224000000, 1911100),
   (3645369861485950268194045271414022925897727657029138275864589832356898543720, 10274080000000, 2568520000000, 1592580),
   (3647361461535325330905779651026226249214083814256394110638864096011335869441, 10274080000000, 2568520000000, 1592580),
   (3656128224833301984698671919773946877074346358602977436407864719764234185259, 10787784000000, 2696946000000, 1672210),
   (3671074307707660295197675824785267261076950706920129160004426338284468814666, 20548160000000, 5137040000000, 3185170),
   (3684775598964248892479250318080963280664063797585876872947312418800196979032, 69863744000000, 17465936000000, 10829600),
   (3716530444593145899038295756518589667060403215556053280124573034734452594222, 10274080000000, 2568520000000, 1592580),
   (3720086534882306296130576981128417010627512699750163001336495248189355994901, 154111200000000, 38527800000000, 23888800),
   (3743970539007207893615475173274918263129423823171869503371027007328865199180, 10274080000000, 2568520000000, 1592580),
   (3749166574885673283020286923472428712192078094952222184894125762949420293720, 20548160000000, 5137040000000, 3185170),
   (3760322827067726372673557614302231310445069353505134453377749007096809590792, 205481600000000, 51370400000000, 31851700),
   (3770017854798241993387443547113466720702851692287941752188018921557939236138, 205481600000000, 51370400000000, 31851700),
   (3770953992513463276561871121092699012506874408821072797924970744821796868952, 143837120000000, 35959280000000, 22296200),
   (3795798037370920002233072462219333132109389304099076812963584087435457137534, 131508224000000, 32877056000000, 20385100),
   (3796980475057634569981557503829780997219605836007496783165077974866778852173, 205481600000000, 51370400000000, 31851700),
   (3816161264461638634942388500766825746468905486791386304292674259198469902866, 14383712000000, 3595928000000, 2229620),
   (3823154050521736420880179609363106444883624989653266022600742740687296998001, 30822240000000, 7705560000000, 4777750),
   (3825270226890206517778630728504399984667099423767825076029039254224674079613, 10274080000000, 2568520000000, 1592580),
   (3840522409769237480768780578469997837668307870895941719849249569635124491602, 118151920000000, 29537980000000, 18314700),
   (3868784159022066292520054782369574396823011696480133430250454236896463848315, 10274080000000, 2568520000000, 1592580),
   (3874674174133357868467253629213288923066187960671346474179562198195763166328, 2054816000000000, 513704000000000, 318517000),
   (3877804117297358031478626923644702745565879448061213622484763588249171417632, 20548160000000, 5137040000000, 3185170),
   (3878529466950383453527571223932821382396492827508701587915591120870322810189, 81165232000000, 20291308000000, 12581400),
   (3886430124620075577339138902524202947185073391776130683531039061363573462893, 14342615680000, 3585653920000, 2223250),
   (3900945796874477990651850499805679459081582255157930210369998907600021717017, 80137824000000, 20034456000000, 12422200),
   (3906565828926038576546018754322563462282559577065959832380152681343197138778, 20548160000000, 5137040000000, 3185170),
   (3908528609938117632691025176446879614927732788964779727306901110071880231545, 287674240000000, 71918560000000, 44592400),
   (3913307804597636669708675033125056864389576405776552239876773575944602537474, 20548160000000, 5137040000000, 3185170),
   (3929492381470793828427897824421595936517708858914851598922828815491520946771, 41096320000000, 10274080000000, 6370340),
   (3952850585028698200164805891263225898115431837484808902211380187516605517063, 446747150700000, 111686787700000, 69250200),
   (3974066162267959096489202494816665773980841967931753993654734052313927784018, 10274080000000, 2568520000000, 1592580),
   (3977328442554972031007876295972564062820961916934366647839289522626654909510, 207536416000000, 51884104000000, 32170200),
   (3979289016322823986810248505347828258294070833705154514588122243921501513243, 51370400000000, 12842600000000, 7962920),
   (3987200272711739593869720567433694491734651996855722417034600472852199153925, 10479561600000, 2619890400000, 1624440),
   (3994026825937924515006799133029532493037908723045581363155432890665176916036, 41096320000000, 10274080000000, 6370340),
   (4004077085028851601604874298618146910324331717397152511889804897873243665693, 10274080000000, 2568520000000, 1592580),
   (4034054035475714696755936981606995007026351553948939900043287965469950042132, 10274080000000, 2568520000000, 1592580),
   (4036817519009954570657509585233254732847089440982815170215118983628280830746, 431511360000000, 107877840000000, 66888500),
   (4043844314001021957311021351620984159466913517619685695768807501939781858119, 49315584000000, 12328896000000, 7644400),
   (4054613442144206289416895060252289621371841694299743505701820523289224986379, 20548160000000, 5137040000000, 3185170),
   (4526396058437479128928216307455989613839970998218827345344675994942234462774, 30822240000000, 7705560000000, 4777750),
   (4526611576557401262064559345756704241586673775249430404824735603101492250222, 34931872000000, 8732968000000, 5414790),
   (4530025707037563555272349941436270555960851254503002253689701345021321756780, 213043176600000, 53260794160000, 33023800),
   (4536018586016242613593070851853666774943413937047891674480942815920912281159, 20548160000000, 5137040000000, 3185170),
   (4540100271494742894705747865358286132913041005959964248542885023781867298905, 10274080000000, 2568520000000, 1592580),
   (4557926974562861743169181195207199481760207968347038250406945833449667473466, 30616758400000, 7654189600000, 4745900),
   (4582026667894639235971290783446309689868745436766195218714287381400832148517, 10274080000000, 2568520000000, 1592580),
   (4582579133742649071294527761957512636871579324619810562209438629099641545566, 16438528000000, 4109632000000, 2548130),
   (4583612571739316741997027564407634734364476997941342538476439152561125785411, 102740800000000, 25685200000000, 15925800),
   (4598193493655149770969180885791969120361317561239191555989731506315160382274, 10274080000000, 2568520000000, 1592580),
   (4612420890837640425209698443959919113855953522362771340818850124207975405580, 30822240000000, 7705560000000, 4777750),
   (4619722952890330309641047540361129068140683190113382130469699753373835071241, 41096320000000, 10274080000000, 6370340),
   (4636083266758587092374156554156221087380486095816253866134698960476160676930, 14383712000000, 3595928000000, 2229620),
   (4642005353511878319709579863313834377711336763374604389827257437117918413436, 18404029360000, 4601007341000, 2852810),
   (4685021354164165126927881384850566612247756289593277392983203442058709756745, 102740800000000, 25685200000000, 15925800),
   (4695553088298452054655291934922136190677663457501064465466214806119792306443, 40068912000000, 10017228000000, 6211080),
   (4695855239788101443923613849314743488705738402131608984772921119800740068100, 10685043200000, 2671260800000, 1656290),
   (4704378754837007056855264203025059330517095866097452571742378068300557475659, 205481600000000, 51370400000000, 31851700),
   (4708994425784719298458550903417456199446139471428534309064045024812530063938, 20548160000000, 5137040000000, 3185170),
   (4714210362389632338080654654505371704634786316298157793423438296998689216594, 10274080000000, 2568520000000, 1592580),
   (4724914740175697647402596061566777084898154786291034721968799087988671036749, 10274080000000, 2568520000000, 1592580),
   (4732921612731658842147586238617287431833669445059487432261577243495004175735, 616444800000000, 154111200000000, 95555100),
   (4734744899792523144283189262051723743582329033917287957064218817129685381733, 184933440000000, 46233360000000, 28666500),
   (4735553812945304557418261444610865649238515193853581697406112095853857174384, 12328896000000, 3082224000000, 1911100),
   (4747168423287742695161276991532975780949903335645097303756568177302503569513, 205481600000000, 51370400000000, 31851700),
   (4755634423787488348282634513021847090238831196526378142004234233724125224749, 14383712000000, 3595928000000, 2229620)]"

definition rewardees_3 :: "rewardee list" where
  "rewardees_3 =
  [(4764700991046027326789323015887322291414623280022894045990177904121044575514, 41096320000000, 10274080000000, 6370340),
   (4770871073161129091422073037616494317648258626013359449061654594880785699656, 10274080000000, 2568520000000, 1592580),
   (4803373192160244988336398178411938398727910738959863271734476478412778835035, 20589256320000, 5147314080000, 3191540),
   (4806604466526833435929101370072639854644712249464209127234758343331854909774, 13356304000000, 3339076000000, 2070360),
   (4814609929689149808878679510894975700910384629091914809840058288709311250981, 143837120000000, 35959280000000, 22296200),
   (4818796339954530250100401411577232774907488491908185282196245027235186670920, 41096320000000, 10274080000000, 6370340),
   (4834355080895454000281057293300512561614013731979789137444656603644382238796, 41096320000000, 10274080000000, 6370340),
   (4853062033950715460529909591542910469550988158388068396433646165023774756956, 27534534400000, 6883633600000, 4268130),
   (4853331849925661146623847697139117620202716483555822035375625581851209148970, 37397651200000, 9349412800000, 5797010),
   (4880685578565189215181693794618821736835817871987651404198382498643481904993, 20548160000000, 5137040000000, 3185170),
   (4886876396746536916648246526701386559456607762600638583097722798765016155250, 20548160000000, 5137040000000, 3185170),
   (4887196167951497242490221299016442837314786089738229774201728632985589034867, 100418857900000, 25104714480000, 15565900),
   (4906688158629367430257500872137400569200919139113013415459296270207809763081, 30822240000000, 7705560000000, 4777750),
   (4930316036013504571795089918172688992597234162391083335097611877937987412782, 41096320000000, 10274080000000, 6370340),
   (4950959451949086163847976069795660988731600270714125053281134119292734145025, 614389984000000, 153597496000000, 95236500),
   (4952671581258803267105732712362046280062608724236938014913786047097840512887, 82192640000000, 20548160000000, 12740700),
   (4953854023424140501875029466394103454363365428594054117612415311101084387148, 215755680000000, 53938920000000, 33444300),
   (4958941277965325943683311565217710394764330139370291995666069344973419600230, 205481600000000, 51370400000000, 31851600),
   (4964626857499278399929627317226606148013408351557926607521612452454874262858, 61644480000000, 15411120000000, 9555510),
   (4964771853852013077027733830176424084852571412283905476123522129525105512451, 41096320000000, 10274080000000, 6370340),
   (5076012187823794366037388702414014972434592534107254084947146789325867391583, 821926400000000, 205481600000000, 127407000),
   (5429312189549511167902101490085044968486495044774813174437811882062933579094, 2054816000000000, 513704000000000, 318517000),
   (5431653875039155367018832805242524974515737023896703440597368188342494558841, 1043846528000000, 260961632000000, 161807000),
   (5441474831452525689128140625416103885678951214845235151475498122033782774630, 513704000000000, 128426000000000, 79629200),
   (5458178909702803240085940785400582206077405695607454633735448109767172109650, 271235712000000, 67808928000000, 42044200),
   (5495863296101749778127006832635310642989246777140883162631297741978204834071, 113014880000000, 28253720000000, 17518400),
   (5514297413881047693369760975622475217410151181696003422364261016780188150611, 205481600000000, 51370400000000, 31851700),
   (5516842205139722715298464810809237669855755020228217165894023160690377379932, 108905248000000, 27226312000000, 16881400),
   (5524032065776659932218555376076345228991127457148566111797182336175588359757, 41096320000000, 10274080000000, 6370340),
   (5526345181153253837443590969122425636341757987737646692801710974648753208598, 10274080000000, 2568520000000, 1592580),
   (5528156116889128650658222659477132911886563619216991018828716535203200312140, 10274080000000, 2568520000000, 1592580),
   (5560466890266570821187307851292571682505223052630921682424671018936299151422, 12328896000000, 3082224000000, 1911100),
   (5565787028040659124141536963774159104787914157611912236763032294429181980261, 90411904000000, 22602976000000, 14014700),
   (5575469994122095119185721293275429372502297182351803196316464183193540362868, 10274080000000, 2568520000000, 1592580),
   (5578462449801925992507086688675735653511115555300192661611799483731667347761, 11301488000000, 2825372000000, 1751840),
   (5607581016708490449713077901512949324191547998614215743720739166562929238903, 205481600000000, 51370400000000, 31851700),
   (5615948541343866651547887856761473139874158118106623317197925337785685048399, 41096320000000, 10274080000000, 6370340),
   (5645969056854303480817332878381481114693411872886345187858184323044155482647, 472607680000000, 118151920000000, 73258900),
   (5662467004820046801724529237476884110367903513505826807165904735535220530196, 2876742400000000, 719185600000000, 445924000),
   (5703013153557490972772604914326486302267563245475234041962172058524212946703, 10274080000000, 2568520000000, 1592580),
   (5749362807625513496308936316577186601391534228021979951664669750400514621534, 343574153100000, 85893538270000, 53257400),
   (5749691708053881638239231158009301882409668392439167334835182871509222553618, 41096320000000, 10274080000000, 6370340),
   (5755283668245459080203449576015282629422691409388868428648214364258310002193, 21575568000000, 5393892000000, 3344430),
   (5765365903195042902940628569562124123796545549159302652847884936294378963778, 45205952000000, 11301488000000, 7007370),
   (5826115493255809509730228399633299656847267359204536957060814671179136598615, 186186877800000, 46546719440000, 28860800),
   (5843541263415701431087596221309212671115624518838677000736429728661425367558, 102740800000000, 25685200000000, 15925800),
   (6346325854991918642395786796271584859788895785214731222288806221087285879356, 308222400000000, 77055600000000, 47777500),
   (6347157734643359914301376514048650959783342484977056492284241205457297920366, 226029760000000, 56507440000000, 35036900),
   (6381249010752812021521938121177164279883822766389108644609621649711221619065, 20548160000000, 5137040000000, 3185170),
   (6445408166326718270545543057772249134246001323079454748544903325423535691564, 41096320000000, 10274080000000, 6370340),
   (6481848364523112867650013619633174404331849586426498795619557817605459114608, 115049147800000, 28762286960000, 17833800),
   (6495899755076123549222897554911694393533463741704849519299279341217477490957, 20548160000000, 5137040000000, 3185160),
   (6502748255973967630078810299356612705868484483617777234896043287970685537852, 14383712000000, 3595928000000, 2229620),
   (6503153250932369687922463235769938265406981238815748034590150820315248725788, 61644480000000, 15411120000000, 9555510),
   (6510519294218020885444163927924559233395769115912510743677642364298847131679, 10274080000000, 2568520000000, 1592580),
   (6555537248715731660493541793054102814330276787034953515110256491527085070181, 14383712000000, 3595928000000, 2229620),
   (6598370593353535732974079851587879295516746405302822465478738520026654402372, 6174722080000000, 1543680520000000, 957143000),
   (6603334462279753181251322175660977841210054017193386150348832803247794224387, 10274080000000, 2568520000000, 1592580),
   (6603506454533055859643716123646545902460609523848088662804337236921181651320, 10274080000000, 2568520000000, 1592580),
   (6620040886529445651506086001792160005281522670641605311964973830113759436338, 205481600000000, 51370400000000, 31851700),
   (6623528368175924067838801593288109869787064268285438918095751949504960458601, 20548160000000, 5137040000000, 3185170),
   (6681190383288609358806139603304493728786524038408041335411732922712848276855, 16438528000000, 4109632000000, 2548130),
   (6683405843725700758311946279623168617177741121214849924036643745918837240604, 38630540800000, 9657635200000, 5988120),
   (6716098726735839227576411711966095700043527486566936421537211862137178173789, 16027564800000, 4006891200000, 2484430),
   (6733548209120233702823786625939050656285448096046145068753541176854051716457, 102740800000000, 25685200000000, 15925800),
   (6741347542783538658701580567103732053642408477244820139100471370704348127016, 61644480000000, 15411120000000, 9555510),
   (6772580786645247645985649936115752697755910895113402910871656636087888377107, 10274080000000, 2568520000000, 1592580),
   (7256348413386662555197857141928499663775231314494826150674518121174237689696, 20548160000000, 5137040000000, 3185170),
   (7263936183076642904199525921961072283155226248506016439677499954481078185591, 20548160000000, 5137040000000, 3185170),
   (7274324968461036388570748221409029071407681434682982490897625241999999164510, 359592800000000, 89898200000000, 55740500),
   (7340598184051603285878111501476382944470694392689125532174873896376636155005, 20548160000000, 5137040000000, 3185170),
   (7359490202642699267269298295582500706606209156104673110446992110839622251376, 10274080000000, 2568520000000, 1592580),
   (7361230796619038684430908261504770421054074584718545338214076874966264677914, 10274080000000, 2568520000000, 1592580),
   (7412826119586002457959242443271497008570291505017850612443771581970054850350, 10274080000000, 2568520000000, 1592580),
   (7417377163599865241412397297551854509495848763477146961371784169613161421666, 10274080000000, 2568520000000, 1592580),
   (7426889110616592836414446619075407203845105959488223993950201715351874173490, 2054816000000000, 513704000000000, 318517000),
   (7507472303351195269025861917770673840356131787295393551761810705146125018433, 41096320000000, 10274080000000, 6370340),
   (7531588020272781797337024054208997007316458961624557494310348716030960474475, 20548160000000, 5137040000000, 3185170),
   (7541630827271737401743663953397653899513672493367073913364986931007841551690, 20548160000000, 5137040000000, 3185170),
   (7551848015840086864680342350985781723993625088946775733605203958313373850117, 30822240000000, 7705560000000, 4777750),
   (7577712455343955892533334848926817003943878725985513658006934189981593649189, 291783872000000, 72945968000000, 45229400),
   (7590157492343167423885579180852676380667249356145335584996648802653933880389, 616444800000000, 154111200000000, 95555100),
   (7600035060912360956226643368230685995022045328883150702524053230563010238308, 22602976000000, 5650744000000, 3503690),
   (7604702683902829144562695319396540342807628804230274999080113379409666455634, 20548160000000, 5137040000000, 3185170),
   (7619850865208747560952653892046000607492574011654843591678777147814943670785, 10274080000000, 2568520000000, 1592580),
   (7621197822033265792429575115408320005323417410068263466449357313916492600684, 20548160000000, 5137040000000, 3185170),
   (7632586176427626627911687960456611593589265675408509371248440998970748797254, 208844373800000, 52211093460000, 32372900),
   (7641185445752210219860730240702160326592445161392548665169392824020134037818, 10274080000000, 2568520000000, 1592580),
   (7652401207768150034486412177779323466265816810338646401239603525489656367463, 10274080000000, 2568520000000, 1592580),
   (7655050317176620046103529077937295311528076876214729850865904149885539029611, 10274080000000, 2568520000000, 1592580),
   (7656217781906505783286563597905474960996826076942469070055382734225415915079, 10274080000000, 2568520000000, 1592580)]"

definition rewardees_4 :: "rewardee list" where
  "rewardees_4 =
  [(7656281022781772261114020122615711611980015695649675177694519344163958793798, 10274080000000, 2568520000000, 1592580),
   (7658668544361112301163075725390948296702607947457612267427755411182636994824, 207536416000000, 51884104000000, 32170200),
   (7676725147448445676666850200022658006816991342736980611570613790489988982843, 10274080000000, 2568520000000, 1592580),
   (7682781760177641802047247158498573925512845580307634865935124475235914585941, 92466720000000, 23116680000000, 14333300),
   (8152429162644663891323298482782096154188552451175951515169467091075177263668, 10274080000000, 2568520000000, 1592580),
   (8181824419994166323144550547340125737941533853832270416449350028717577936745, 246577920000000, 61644480000000, 38222000),
   (8194518691766638349012180498677747779783510812860043404209273233584307131411, 626718880000000, 156679720000000, 97147600),
   (8204630439530932339169279909494066824105477800210818588567159872648713852164, 10274080000000, 2568520000000, 1592580),
   (8207195794632047481076307847248166065036177975339567532996300088459447068491, 143837120000000, 35959280000000, 22296200),
   (8211447424326843522079884815987048481975657234634778762719099853253550546221, 1232889600000000, 308222400000000, 191110000),
   (8228391769869530318401244928319791265264935497568007074063381206405711483192, 41096320000000, 10274080000000, 6370340),
   (8230577590836005715598956768936404350139945854515863210957006517436620758317, 21631185370000, 5407796341000, 3353050),
   (8257342856977896040826756261742252889577574756886763205495895375168170573157, 71918560000000, 17979640000000, 11148100),
   (8299573417594014482299259041733181247377271639208996896415985570939774592810, 517813632000000, 129453408000000, 80266300),
   (8299768896378751393750325930484490596836213592169888426964733775153823557226, 17455661920000000, 4363915480000000, 2705801000),
   (8388650898932592056513658756342685798759984135980733499207277031516531106601, 51370400000000, 12842600000000, 7962920),
   (8441395099029045110357520273539788677974680001672692489932524340665197400850, 539389200000000, 134847300000000, 83610700),
   (8445997640714735062985011396770891466861608063646335831911961108729561291801, 10274080000000, 2568520000000, 1592580),
   (8459183807599565258316892874189698337801825984391153105049556882391612366178, 20548160000000, 5137040000000, 3185170),
   (8507936869890853894510131084008240959818953671597890286166468652374035149407, 213700864000000, 53425216000000, 33125800),
   (8508524480408867104307693705436708857094103936220714805533922842448852129548, 20548160000000, 5137040000000, 3185170),
   (8550537003527018257025225089519961062949694624008192917673521448422716820243, 269180896000000, 67295224000000, 41725700),
   (8554312275083257217027967858303902665095159986864058750365077972065690953062, 61644480000000, 15411120000000, 9555510),
   (8559384072141347589951881314157226815917333055567852514071534546200214264396, 51164918400000, 12791229600000, 7931070),
   (8588271363857249992920798084691116864168857602023437322453288238425320864844, 10274080000000, 2568520000000, 1592580),
   (8588779709035767118142357436967506252960681171848279843520525063465883229556, 133563040000000, 33390760000000, 20703600),
   (8621429249106356552661992777990123038953669769816929744569313319510249007240, 205481600000000, 51370400000000, 31851700),
   (9063973964422578493316218241159717443336712785898071295579274219896761238898, 41096320000000, 10274080000000, 6370340),
   (9074600968097461023091586948494064361182163080760748905098337975190284007517, 10274080000000, 2568520000000, 1592580),
   (9104644287596412439003334857342517835465129265328273945998067012888328072513, 14383712000000, 3595928000000, 2229620),
   (9106087256841578854933106554408184911655771460481154560815897323762534345063, 12739859200000, 3184964800000, 1974800),
   (9121282076949377317436737349169305599869677173123179827694987086670946309160, 18493344000000, 4623336000000, 2866650),
   (9130297745273003251392056821154521256373653402533562473774551109852779462427, 205481600000000, 51370400000000, 31851700),
   (9135929993670490403707679079460938176751242309536116512493166904766102316073, 102740800000000, 25685200000000, 15925850),
   (9142548796589139304594644151175790226443010397144554744314214401063377694533, 102740800000000, 25685200000000, 15925800),
   (9160667085233087850393023539302012526321550562312868723582462671082078503995, 20548160000000, 5137040000000, 3185170),
   (9166351878356755551764563540831932406031297785312191217404232458874303576132, 215755680000000, 53938920000000, 33444300),
   (9175318521586415377232098737374048694018029163777276214160041942682505092689, 10274080000000, 2568520000000, 1592580),
   (9205304742843962957401153954034845116931765506031037553283128517528791505989, 36678465600000, 9169616400000, 5685530),
   (9211147752445257712956700345903976963428687383718991798452023621753585685763, 22602976000000, 5650744000000, 3503690),
   (9217999962735181861649120819643589922047205707219567608723372698669290252359, 78083008000000, 19520752000000, 12103600),
   (9231920867654242412464547034408971910635745043303105234698531423815171504450, 10274080000000, 2568520000000, 1592580),
   (9244641653337109230413222202440505884913112498698808781398467366709105917033, 10274080000000, 2568520000000, 1592580),
   (9248221273695609633324012222726876854995131098506365619133246231339062549325, 10274080000000, 2568520000000, 1592580),
   (9253654444265104791067280689704380577161565221032656986942105099063018209575, 30822240000000, 7705560000000, 4777750),
   (9267886926871410077236527733073631075806700624886646237000519063679909335922, 20548160000000, 5137040000000, 3185170),
   (9272293735545974131826588410251682383110159601280250711579989465328107231867, 275139862400000, 68784965600000, 42649400),
   (9287556130852570054409746875912635740958791108588173825252871739709594281506, 221920128000000, 55480032000000, 34399800),
   (9287983417858884505910959764872783546877766422050000889716024795300728720507, 41096320000000, 10274080000000, 6370340),
   (9308499021260679171345437705580520350302199685228382893913124468071595482383, 16438528000000, 4109632000000, 2548130),
   (9378732865730989297725535077017729210176706381444712104636580327664665414678, 22602976000000, 5650744000000, 3503690),
   (9380156303349204693282231729309941646276248584318128773067312014399750999640, 20548160000000, 5137040000000, 3185170),
   (9384255314261128211788749208632619387497691378714402345262811964696896057359, 20548160000000, 5137040000000, 3185170),
   (9396182969787900868636117213323409447742966451584285639733789908842038454028, 14383712000000, 3595928000000, 2229620),
   (9421393808429665063829304052403810407459049856577401597672049799160448194110, 205481600000000, 51370400000000, 31851700),
   (9421691965972430487540490342151251909226500835863956823064964648632849023065, 20548160000000, 5137040000000, 3185170),
   (9437907980371881773810154792982507519505953796941034909540403195338490492179, 15411120000000, 3852780000000, 2388880),
   (9465190224779121311380069842988363239904055636165061644205522861044237285190, 154111200000000, 38527800000000, 23888800),
   (9465768534582403959555204786757443081886358891366909173372958867134055121264, 410963200000000, 102740800000000, 63703300),
   (9474238953858119402998638244628776225079833792704291774378479754119703130169, 102740800000000, 25685200000000, 15925800),
   (9778973406640141239192013212164400662875993926669944011811116109877340137053, 408846739200000, 102211684800000, 63375300),
   (9952746522994716486975117262374450222859525512566775540735358218682076674671, 10274080000000, 2568520000000, 1592580),
   (9986495990660015571883922187952786018394599629011964839672801439153146970393, 85624182720000, 21406045680000, 13272600),
   (9988172101177151739946878197486094718490158681681610761226821194045895652410, 20548160000000, 5137040000000, 3185170),
   (9997175538406682912041782823620799050042900117523746244388368272844923384102, 10274080000000, 2568520000000, 1592580),
   (10006973618001586894582834460982714038498102133468299416805408270023136699681, 10274080000000, 2568520000000, 1592580),
   (10016946930332507893201778201392159078211293766691800782590632052364197441121, 82192640000000, 20548160000000, 12740700),
   (10023856831445504871593612731598289896079990934219429883841432888811799200771, 2539205563000000, 634801390900000, 393602000),
   (10028262222885840542235777204915007882078431270438533239753838300706794251876, 25630336390000, 6407584098000, 3972960),
   (10033837920243316627733570251595294392983866350635580662794464896581542143838, 61644480000000, 15411120000000, 9555510),
   (10041500543931630344067834636129176937648651439389806890784721969740117474569, 10274080000000, 2568520000000, 1592580),
   (10094464618061913901959032622129289579634256606474877998929918741312777133074, 59589664000000, 14897416000000, 9236990),
   (10098549849642804683708055661855556593279065975886829054336344985591165576295, 102740800000000, 25685200000000, 15925800),
   (10143751685483250448273216218165091944277777082116611163473570727098105285985, 706856704000000, 176714176000000, 109570000),
   (10144126970041078283293609414773189376601882400878842478555321458202790044417, 82192640000000, 20548160000000, 12740700),
   (10144265278010891119924745832735954017470733498896791216586428825124035044146, 53425216000000, 13356304000000, 8281440),
   (10168135471628545480130965052714087086403897195462393849783548609312131352358, 20548160000000, 5137040000000, 3185170),
   (10204654447938996738418783066536926971447305316568227976137125576309568850046, 55480032000000, 13870008000000, 8599960),
   (10233833460552066808170681492936998857771074319760261079689509039165646186759, 10274080000000, 2568520000000, 1592580),
   (10242563632023773314419205343394991501973548543171701746815284401295570623099, 30822240000000, 7705560000000, 4777750),
   (10257592488633728315152871299831232722338779118572612525684960181022101493035, 61644480000000, 15411120000000, 9555510),
   (10268388873972559184902462422905640122312097493878293759902457327639802368886, 41096320000000, 10274080000000, 6370340),
   (10282179351275852824443371516230792511500640468402124037355275707665637801485, 308222400000000, 77055600000000, 47777500),
   (10308478370378247707740744787990643872290262094036775870215410383475380607565, 10274080000000, 2568520000000, 1592580),
   (10313764775763980466667726467175623200228367643685493166706235164284583208516, 343154272000000, 85788568000000, 53192300),
   (10330599497491287798665369048330611191564568407644859181914614265765800743186, 30822240000000, 7705560000000, 4777750),
   (10332186010689617839170220993164417724026260464272418205827738244097261774174, 14383712000000, 3595928000000, 2229620),
   (10339712490922556586156563115385188366234084392914002433560577555066161336126, 51370400000000, 12842600000000, 7962920),
   (10360793368894301014672171977095163158317060825010951808247410311904384916278, 10274080000000, 2568520000000, 1592580),
   (10390078446678887324358163960301667980841482841461057303819585768573113087799, 174659360000000, 43664840000000, 27073900),
   (10881539507207823649914005806246760677077114762451499301793664586041320110893, 860967904000000, 215241976000000, 133459000)]"

definition rewardees_5 :: "rewardee list" where
  "rewardees_5 =
  [(10881806487776436538144262678374665504925408000680039958975868079106042392835, 102740800000000, 25685200000000, 15925800),
   (10908937507105788091388248011820858830001670924172819567360928098035494238210, 20548160000000, 5137040000000, 3185170),
   (10944228482173095780909525186834890311753337401632047510999204169435897995125, 308222400000000, 77055600000000, 47777500),
   (10944464405613857307008937860256954448478393177974322420925120073983691115332, 10274080000000, 2568520000000, 1592580),
   (10949704406141957214303025325874904312443706777029197652165762448879961446715, 82192640000000, 20548160000000, 12740700),
   (10953520478030523086504796681034491755144113902569147409383680113112526165050, 10274080000000, 2568520000000, 1592580),
   (10978443644634324812430669459866112250145495397339364236667619751681585872202, 10274080000000, 2568520000000, 1592580),
   (11004825469629249220979328320950364478822504211727983109976546526196153881957, 20548160000000, 5137040000000, 3185170),
   (11006205902306441414183654939868765812863335394186233759082125703527052936514, 10274080000000, 2568520000000, 1592580),
   (11017234507716942224145154807989669648913728667862729056859780355930585730886, 10274080000000, 2568520000000, 1592580),
   (11072417468622748710678193699616422647500161463020699503369090637086418300214, 332880192000000, 83220048000000, 51599700),
   (11078576580395822590286803341833761632045970040989429061143998363171478939931, 123288960000000, 30822240000000, 19111000),
   (11093733764242165179181633410279657853497626851386900422659540267338249245754, 20548160000000, 5137040000000, 3185170),
   (11096877575871692136379727385475798371699476849578340662708822730169196526719, 616444800000000, 154111200000000, 95555100),
   (11104202769560548985515274570091976337475934658830699662995634771762493330739, 411916730400000, 102979182600000, 63851200),
   (11110363586611304948065644574317085927108855690198368526803816281931006372950, 63699296000000, 15924824000000, 9874020),
   (11111580241922751775967925922998194937261559464663860873762538733247375742250, 102740800000000, 25685200000000, 15925800),
   (11128948068725608485303531181046306621840849724544803619749508788162906616374, 616444800000000, 154111200000000, 95555100),
   (11161448745155514050818108880331578768116695375055251785126957266968427760984, 10373944060000, 2593486014000, 1608060),
   (11177214494622993255451989487357126357613077246013765065957240704892129753372, 20548160000000, 5137040000000, 3185170),
   (11182366936905193865052333361278252953141639165462621509158179769916942621699, 51370400000000, 12842600000000, 7962920),
   (11188689156077484772457492021475185892863430947671058110084010900945119282766, 55480032000000, 13870008000000, 8599960),
   (11203917982788805288759285429762050850993112956482031896710961284019472406619, 205481600000000, 51370400000000, 31851700),
   (11213163271209206913673768613041657416910620174590328279718467787495188583442, 12739859200000, 3184964800000, 1974800),
   (11236703189867777673444767403153700346889890174324538598276450195923198827602, 51370400000000, 12842600000000, 7962920),
   (11247409330146586973792378608739986045754206469996075559119969530552229713753, 2054816000000000, 513704000000000, 318517000),
   (11270113864391181624747008802656902510681489150827184834716197842496982136696, 20548160000000, 5137040000000, 3185170),
   (11297631105411326789763158060802079868323418673215830030825466592063132559726, 2054816000000000, 513704000000000, 318517000),
   (11772481476143116561253187542244529406243777822998717174613942560641523991815, 108905248000000, 27226312000000, 16881400),
   (11777903302657074670864649816733306893927615040898710743838337769132966625876, 20548160000000, 5137040000000, 3185170),
   (11784211593933181990957754222563898122243212659581255917344800806178334730038, 41096320000000, 10274080000000, 6370340),
   (11784503569140037440945650652577642470213172340215597627772543823995230941461, 41096320000000, 10274080000000, 6370340),
   (11792711128859475421496963183315088558310813430938751986453130836746970582066, 113014880000000, 28253720000000, 17518400),
   (11830788021794313484098391387746147407336433757224734494208071716128144961553, 20548160000000, 5137040000000, 3185170),
   (11833505638772857640485855855007177907279132210388095990039056312590442615345, 10274080000000, 2568520000000, 1592580),
   (11839706152813274032427422342497134872102617104885057871316190721956375544604, 102740800000000, 25685200000000, 15925800),
   (11841077309880811663270213732973418900941162576376406457759242910466341496638, 20548160000000, 5137040000000, 3185170),
   (11851326328017282434178442092136376338946202008565645069775829880879524480063, 20548160000000, 5137040000000, 3185170),
   (11881366211211092879013668868457904819903903510968050606539266405669709755934, 20548160000000, 5137040000000, 3185170),
   (11909074793381582007292966735844909676681014360835078246217595612967549714994, 41096320000000, 10274080000000, 6370340),
   (11922267497298550198121567669696461468273166723855247003491744107802897564965, 82192640000000, 20548160000000, 12740700),
   (11926836173146144679567501899988221764089030971937156200438183688478173932406, 135617856000000, 33904464000000, 21022100),
   (11937697486986184795635644824242776823195273124282972754933205423181817943875, 20548160000000, 5137040000000, 3185170),
   (11965769597823751666495803545204066316847447414476025817670628942693081619030, 281509792000000, 70377448000000, 43636800),
   (11966785099142528047858917968392291632821315280535965267330801500632359980827, 69863744000000, 17465936000000, 10829600),
   (11983192083998716882652239507804536750973445952150756878309492999780232460877, 10274080000000, 2568520000000, 1592580),
   (11999468110045875639038660087014788525805627748251086939224247434325764761881, 123288960000000, 30822240000000, 19111020),
   (12001472470548665543854087887537657162214914779446642083171535667414646586173, 26096163200000, 6524040800000, 4045160),
   (12002227105653298873867849144235113012033775851963622750231411513828419800371, 10274080000000, 2568520000000, 1592580),
   (12005405813485019775593210863127483724233001970025856850721112309749560508225, 10274080000000, 2568520000000, 1592580),
   (12014515060917833068180849322709428691230837158561639536028407033044354250291, 12328896000000, 3082224000000, 1911100),
   (12045394660354263236228942410612236418746041275304743777001921298192922730608, 10274080000000, 2568520000000, 1592580),
   (12075246282841543379631628032614728403687940924646300982617441216720618718233, 20548160000000, 5137040000000, 3185170),
   (12075320643633038361256408272735568820465278350689256126043114481140048832585, 61644480000000, 15411120000000, 9555510),
   (12154811941744164453435223958205020407959740830933935240900919037568081033331, 164385280000000, 41096320000000, 25481300),
   (12187595636844437241870404055260197774251307087391002234033978318921424760900, 82192640000000, 20548160000000, 12740700),
   (12190075479926585099805179880140360025478765209533137610843402058712213310773, 16438528000000, 4109632000000, 2548130),
   (12198650822645447684566369599902741791169981378350255274685679883759585089557, 51370400000000, 12842600000000, 7962920),
   (12212152294783121103339768337077374964515567746610896153198704176049807417207, 61644480000000, 15411120000000, 9555510),
   (12664838827840377434836637819089497923540334453522590788738961417121603745090, 95768049030000, 23942012260000, 14845000),
   (12671865289127949422932162811555360275229439676646992541600627480654051273748, 10274080000000, 2568520000000, 1592580),
   (12673581724844911152166305976643692322832555094754365418854754614331598106407, 10274080000000, 2568520000000, 1592580),
   (12724948508098533938049331095073932059704155844300790853125773330622054217270, 10274080000000, 2568520000000, 1592580),
   (12732436016374819439913845307099653763787001368084394447940615892838939526148, 63699296000000, 15924824000000, 9874020),
   (12741722764435982127478411960647238682566774357307458442252232269178089447535, 102740800000000, 25685200000000, 15925800),
   (12750071087811321749157340860802012082577352140148505542155285876209106297179, 102740800000000, 25685200000000, 15925800),
   (12757785476647003505164267911782869027320870981362093231039683328327219139351, 41096320000000, 10274080000000, 6370340),
   (12806592359111878964481725816778109095682746667552831264293266577850553885822, 20548160000000, 5137040000000, 3185170),
   (12807205085560973152814013537056213169016253388097777145456996041378094170941, 10274080000000, 2568520000000, 1592580),
   (12817221637928311766432151918255250781128206974514727375479796337922550201891, 10274080000000, 2568520000000, 1592580),
   (12818902480672013081189909854571911656901973374436202158416110647187237605752, 10274080000000, 2568520000000, 1592580),
   (12820428191307738348282167446509829924714210538049013983643778209034584619635, 10274080000000, 2568520000000, 1592580),
   (12833397632360259646035986106382563549106129978630040474056632816461559065639, 61644480000000, 15411120000000, 9555510),
   (12836814922973748922051633596889427887880652396703301637538262645139352434736, 10274080000000, 2568520000000, 1592580),
   (12839660637826064271075395837788407138536451076897836811181907562042580742164, 82192640000000, 20548160000000, 12740700),
   (12848232982399896926775374170889410579871907528442475082206934309727712989273, 10274080000000, 2568520000000, 1592580),
   (12850254978474792164178282273188362309952157244328699802352961225595920795688, 43151136000000, 10787784000000, 6688850),
   (12875710619873607000875175926246333131304035969931795774290814285516394904139, 10274080000000, 2568520000000, 1592580),
   (12920319681569870935277288024066104158020864238075197338075097178858277830520, 30822240000000, 7705560000000, 4777750),
   (12977156111941209176043406137693980478997781580120739691081700362823833403662, 821926400000000, 205481600000000, 127407000),
   (13018668418446876898165780075835442326878300748517810177301988160878106529856, 548635872000000, 137158968000000, 85044000),
   (13059316566011685443429927175902401333687729261451099536068155279187694354028, 271235712000000, 67808928000000, 42044200),
   (13080454824892344048138186534153303109844850931140380132443323428430642799896, 10274080000000, 2568520000000, 1592580),
   (13110133634904801262873695611765243762996389954527242276784741216061804237413, 102740800000000000, 25685200000000000, 15925843000),
   (13112227577711959865016863733106179540102193342853564200763950230121030873615, 513704000000000, 128426000000000, 79629200),
   (13584600300444031529379382793575565316029265839047959952697058169753535265597, 20548160000000, 5137040000000, 3185170),
   (13590026892858782732779730888343614624488407059789715331289446872208750642486, 76028192000000, 19007048000000, 11785100),
   (13606162379800651058326742322410480260866059784520997880332209722232261498404, 20548160000000, 5137040000000, 3185170),
   (13608680293945252879472890651889549721650258497627702532544772244469186217477, 16849491200000, 4212372800000, 2611840),
   (13632974492352310416047591106926056661568986257649057553076684731389166453764, 84247456000000, 21061864000000, 13059200),
   (13660011006877959335088629695548132246811163228134480593572307498222897064566, 10274080000000, 2568520000000, 1592580)]"

definition rewardees_6 :: "rewardee list" where
  "rewardees_6 =
  [(13664592652502667844877806709018141713194269484899461061505682005597022264589, 61644480000000, 15411120000000, 9555510),
   (13664969886318058446277297446140066132117649215349596354499235723472910506287, 698637440000000, 174659360000000, 108296000),
   (13666660239790402270090132263697015179668091414105978310049773326393724684073, 20548160000000, 5137040000000, 3185170),
   (13700518261651747660097946458065935069640013472892628341771569146294946674206, 123288960000000, 30822240000000, 19111000),
   (13722219128449491453772739086197684183913916786977423336574491678326171232809, 143837120000000, 35959280000000, 22296200),
   (13732610340807231685843470237658354048735041673604887199688552404205001232919, 144864528000000, 36216132000000, 22455400),
   (13734263987503529657122676826165197065176504551427101316381176549687079028589, 10274080000000, 2568520000000, 1592580),
   (13747410699777280743594434569354313646495565823921391001612190147329465647169, 10274080000000, 2568520000000, 1592580),
   (13758415621654955214933589871018371837331715715948789549864042149373547033195, 36986688000000, 9246672000000, 5733300),
   (13764072413965296708374690855654092226616062376609179605077329826723335597312, 61644480000000, 15411120000000, 9555510),
   (13767263968792048059684601761446962563181970967608396656673807856467846862915, 410963200000000, 102740800000000, 63703400),
   (13769656924177947065289379796747045206646731416397119588743905874017852366447, 41096320000000, 10274080000000, 6370340),
   (13775284925873872240582327524581538250284956033329490639207732167637243677281, 20548160000000, 5137040000000, 3185170),
   (13781983785760628535883352460508063878340893981821997456820229142751686155813, 53425216000000, 13356304000000, 8281440),
   (13783076532652996665515490205394909525532751739809750095390348753499876375054, 24657792000000, 6164448000000, 3822200),
   (13815787782482312911366258464392103586921299842150283281461136904988333294890, 503429920000000, 125857480000000, 78036600),
   (13840256605522675700760253650874585130417290817942465318816736681527743026720, 10274080000000, 2568520000000, 1592580),
   (13849902060178264162453159960864168219858929440762703372095686877268794454852, 10274080000000, 2568520000000, 1592580),
   (13856483455454138078101573045099024702645468803083746787777856874269199365956, 12328896000000, 3082224000000, 1911100),
   (13857895940907564515381530835700188787910313481610443001420550366784238764665, 51370400000000, 12842600000000, 7962920),
   (13871028100358331575788162824722049400879252341086474037946149953775133600537, 817816768000000, 204454192000000, 126770000),
   (13888262136128322652887122479819654877674076478504755980458063168544425428522, 20548160000000, 5137040000000, 3185170),
   (13896771500363260887652294900815873765494429500356668443870504334120503954185, 10274080000000, 2568520000000, 1592580),
   (13905033141724335715375926002749378714008699029061820539370818856685533430046, 10274080000000, 2568520000000, 1592580),
   (13926536321112044264067326381821396340519698092221225395509103299761294088278, 32877056000000, 8219264000000, 5096270),
   (13955084460470323112062701418748808285257588897681695591235382097734594506855, 209591232000000, 52397808000000, 32488700),
   (13969057744705711250189760579861032105465532028414948190001248866680226654496, 2089747872000000, 522436968000000, 323932000),
   (14012696514620477737902230104866516089573860429227687652085911323682177714202, 20548160000000, 5137040000000, 3185170),
   (14014969868742091352658296204003277546927068485396174606238261549407718994807, 61644480000000, 15411120000000, 9555510),
   (14492508288054819567909150728699409885850376876121457472990699798451839283234, 45205952000000, 11301488000000, 7007370),
   (14512667898736979267102443719574310040573964656407630839658189953693117316900, 154008459200000, 38502114800000, 23872800),
   (14512965996648101590105964154212050270940682748315615913817241183881699457622, 10274080000000, 2568520000000, 1592580),
   (14541919252899173712202275909210514346266787157535499482950140269549469402632, 10274080000000, 2568520000000, 1592580),
   (14545706307534464286893751788615802148346883176958776280169220691314059738721, 10274080000000, 2568520000000, 1592580),
   (14549457836117373728675310893465534612710502436099058189516100563334095474512, 10274080000000, 2568520000000, 1592580),
   (14563096328157096145986866488147311210025727395375587254437139257092969713178, 94521536000000, 23630384000000, 14651800),
   (14576692208930185531401598272408002225250602529281851334527237647664732678494, 10274080000000, 2568520000000, 1592580),
   (14601059325698338108052285654601230656972005907017525823276819723351809814057, 18493344000000, 4623336000000, 2866650),
   (14620698239540932200909791995348175159342830412116891582910792542546718346249, 445895072000000, 111473768000000, 69118200),
   (14639705974714762842221248147256637498826390201946518455759432343563953143091, 10274080000000, 2568520000000, 1592580),
   (14641008529108173711046640880570801133145693807636435750876367402671981500208, 1027408000000000, 256852000000000, 159258000),
   (14652994481082512880130648359876191246362935160423922482396834663094440320622, 102740800000000, 25685200000000, 15925800),
   (14687082423255396050961482021774483743191296352615623220760384985127516594518, 10274080000000, 2568520000000, 1592580),
   (14688341558997111023781781443261273129549262005255072947426444593052806866451, 69863744000000, 17465936000000, 10829600),
   (14694290491716140589339901122499198348358316000130273063323560944136462809884, 513704000000000, 128426000000000, 79629200),
   (14694767300940311859942887483665312701688267816379178388754909591222917538884, 30822240000000, 7705560000000, 4777750),
   (14716640118708622589299269360561085015576672107348124373675112926891975843631, 11301488000000, 2825372000000, 1751840),
   (14719102109529723494046119205241039871868531056267143633254655151157754738471, 164385280000000, 41096320000000, 25481300),
   (14758656000102146510384578086920745879511848279763784937693104305416807140610, 43151136000000, 10787784000000, 6688850),
   (14760934274044420462856576825405987524515683993779166251245074817647144326210, 10274080000000, 2568520000000, 1592580),
   (14763419368798877963834012146675342739388642573922159905626077877667871065614, 143837120000000, 35959280000000, 22296200),
   (14784031538837374941266895909453682563171995217484349921307501169464214891302, 34931872000000, 8732968000000, 5414790),
   (14787758802161612789908138800940342081538181910734912555133338693522423004931, 14383712000000, 3595928000000, 2229620),
   (14801946344799316245743752033651228765689953925941858464916117964439026715467, 30822240000000, 7705560000000, 4777750),
   (14802115048486967454888423199758566221179848681343093391168365309865801760554, 36986688000000, 9246672000000, 5733300),
   (14842134352444827994283924111487959697120331902110837758758252696807797005664, 102740800000000, 25685200000000, 15925850),
   (14867536486923497986770910593076943536216576870451013857320842636462615149608, 102740800000000, 25685200000000, 15925800),
   (14869738341892116006342654175954401803859591980339948674712674993358991015224, 10274080000000, 2568520000000, 1592580),
   (14873506487208565509336692748594015951581388017466269189051865633025210461460, 46500486080000, 11625121520000, 7208040),
   (14883367101636417197863394326352643645411708371725630410713114942822705715733, 82192640000000, 20548160000000, 12740700),
   (14892303043078122805392488220574308356855598404287107784668907034557928889681, 205481600000000, 51370400000000, 31851700),
   (14908021840310016556783402379543015722354799322316804947657790455413703812674, 20548160000000, 5137040000000, 3185170),
   (15379749593222116411889878500985010902654742190339405333160920572829483891486, 20548160000000, 5137040000000, 3185170),
   (15393085344627950609269448360928297937013367265853203982747554586540715953161, 10274080000000, 2568520000000, 1592580),
   (15403186882393929954170477175104411219561774993705077314780875912644977880339, 10274080000000, 2568520000000, 1592580),
   (15473968606604603777926606639926002712673598218467414430540629328793828718190, 110960064000000, 27740016000000, 17199900),
   (15480629476150467202212422725120980485816021738506140063378658902105495017583, 102740800000000, 25685200000000, 15925800),
   (15482126098677644127036881764302551548062052986539067837848636750788451172968, 20548160000000, 5137040000000, 3185170),
   (15482521380797937229776153744015672015153597249130682822872610640140818272036, 2071254528000000, 517813632000000, 321065000),
   (15530842861407474384759954957405490763756004232608378668827301072588121149775, 11301488000000, 2825372000000, 1751840),
   (15534830119326553232187436212277962942615736114468659574240117852665938389027, 20548160000000, 5137040000000, 3185170),
   (15538391795947366016537672277676473024418023561522935813776767887079158904411, 489046208000000, 122261552000000, 75807000),
   (15561529930060138172968370745720694921709923922983109023366746234185097496941, 30822240000000, 7705560000000, 4777750),
   (15571797242899551170520261790538606386505952631397719425289923912106264991856, 100685984000000, 25171496000000, 15607300),
   (15609467567277187927140637554101182849857448308012314481650471726324619014243, 10274080000000, 2568520000000, 1592580),
   (15619932660589442042252379180881952083960294494015758608255093092408956613998, 25068755200000, 6267188800000, 3885910),
   (15622715387356787911446199328588540642252815853307717624574932336008044365064, 51370400000000, 12842600000000, 7962920),
   (15623371031936909621550733379818898216326507691082622629071029010508596005908, 102740800000000, 25685200000000, 15925800),
   (15623405580155597951168997747381491063457468204574137305611390497200263373169, 30822240000000, 7705560000000, 4777750),
   (15639466284304989853488594542654952115289807791006016977486898653393312168300, 10274080000000, 2568520000000, 1592580),
   (15659845669485205354245261032402070163819292291462345680043292487959832596749, 10274080000000, 2568520000000, 1592580),
   (15676605642998984350677417400272608198596137019699106321204448714102287115125, 226029760000000, 56507440000000, 35036840),
   (15712295748903348927504214521050769284801144279922353302155239918081309990742, 410963200000000, 102740800000000, 63703400),
   (15717212098484057034008524827880361637065900588729292697257388614691045588801, 82192640000000000, 20548160000000000, 12740675000),
   (15729763378390599589000416340971886667776662233182887753361364257524109544044, 62466406400000, 15616601600000, 9682910),
   (15729811399482717618325095328555740911537720547858005062872945728025855276926, 51370400000000, 12842600000000, 7962920),
   (15751311962457941776169275487305597389132895584775534994571004271326474742577, 380962886400000, 95240721600000, 59053000),
   (15780787721036486824356144922930233078150236161493181117147992028286269194576, 616444800000000, 154111200000000, 95555100),
   (15786590512564139145331490398643253171466154721532717316804079177097743953765, 10274080000000, 2568520000000, 1592580),
   (15817060088677898230338027423215177640310307077538873248512778600868592882277, 544526240000000, 136131560000000, 84407000),
   (15824361496759942128599287073588712871071607676726064134407629698239546840111, 20548160000000, 5137040000000, 3185170)]"

definition rewardees_7 :: "rewardee list" where
  "rewardees_7 =
  [(15828796385452102276153626627963097010559215371617502618891327250069496979492, 41096320000000, 10274080000000, 6370340),
   (16283893051891122930848809952871480291067143686841446689853840945268188705288, 205481600000000, 51370400000000, 31851700),
   (16285795942611427137407659624989852234295837023301771721624985471807908515859, 10274080000000, 2568520000000, 1592580),
   (16295561386060673010580176341035372254237707701523593409136679082525323931207, 102740800000000, 25685200000000, 15925800),
   (16315445304976156279020992969117115375692613822582903002614385976354666744701, 20548160000000, 5137040000000, 3185170),
   (16332302907760901288000449446813462317670574560872132739679695525960251469830, 196543979450000, 49135994860000, 30466200),
   (16333221894682835378402856825327782583026464407384373874355617837905960794426, 10274080000000, 2568520000000, 1592580),
   (16338658544355474747758865942817634883038944672437634789961226140564184276998, 20548160000000, 5137040000000, 3185170),
   (16343724996259172512850002097998291617128747178498025495783211417782159610236, 10274285480000, 2568571370000, 1592620),
   (16351447836374036787259357384800720101852824236376477762151699766090491779955, 369866880000000, 92466720000000, 57333000),
   (16352030021686826960189348891797166983650224460450980330112407673710902604907, 97603760000000, 24400940000000, 15129600),
   (16368609305761487429157207920630354117145557429610080859179110644372543980052, 10274080000000, 2568520000000, 1592580),
   (16436994768309037727762169025669555750250948531765654106903904871709467630927, 51370400000000, 12842600000000, 7962920),
   (16437387840579260743826137884619048686886780307365867431770199684460958530100, 20548160000000, 5137040000000, 3185170),
   (16441791153122593031511303172191897337182924009452725453225310016177246499870, 20548160000000, 5137040000000, 3185170),
   (16442739059973188353272612675124813237499038825731299576369771185644801328477, 410963200000000, 102740800000000, 63703400),
   (16447515643749224603120380047714135178371929070489922913386715128213983482708, 10274080000000, 2568520000000, 1592580),
   (16459661171061075165080278570453344893810079492628871657938806202415355170932, 205481600000000, 51370400000000, 31851700),
   (16470480818576112929358776268316164868903950759925817806847044927193962595643, 154111200000000, 38527800000000, 23888800),
   (16475752205981844199235977447145580677993653385694083370858853434142744768535, 10274080000000, 2568520000000, 1592580),
   (16492366338799350064055211481023073503944160527150666272575034197936109054009, 18493344000000, 4623336000000, 2866650),
   (16497887481076405582392094277407827515967076249481408698550097979515891067205, 219865312000000, 54966328000000, 34081300),
   (16507991201555469046146968468040540410964190125956288906333092373131058261812, 57534848000000, 14383712000000, 8918470),
   (16511011049267074967232480192720399218759888264251270824577672249677376499468, 20548160000000, 5137040000000, 3185170),
   (16534140592001923749662742191734079577263080180982927281055917623533432251173, 19294722240000, 4823680560000, 2990870),
   (16537437458681204536638646234769833942543125430888068588720230183008453221664, 43151136000000, 10787784000000, 6688850),
   (16540863604462752956755957365188587371479126707684483673280757280054464881220, 20548160000000, 5137040000000, 3185170),
   (16589846143307748567119713639756601043914000445733526129918156916330925821441, 17465936000000, 4366484000000, 2707390),
   (16598442448469318099466740947150519101532734754182974659883280854768818589464, 51370400000000, 12842600000000, 7962920),
   (16612134534157762977805941125666313339200116001781253987425496183052607443015, 267126080000000, 66781520000000, 41407200),
   (16630692990823568753090604449490114582423313038355875247461569561519962009884, 41096320000000, 10274080000000, 6370340),
   (16676882259057451620931307690821984235760886645944428813521616128226759386209, 626718880000000, 156679720000000, 97147600),
   (16699310018231956588020862746317805359811515054577114713924200243138271816574, 16438528000000, 4109632000000, 2548130),
   (17228126774381422454051480824417759027803707790577390837592730064815119209566, 103973689600000, 25993422400000, 16116980),
   (17239200764325722649283971659306536811798271857345648403951485857827540645385, 20548160000000, 5137040000000, 3185170),
   (17260271876083854909791605927150855211803026743406349928586119685197576321918, 30822240000000, 7705560000000, 4777750),
   (17267815698539133798694181072523252014785063270228276105328102776758954095394, 20548160000000, 5137040000000, 3185170),
   (17270282641731920233215858600007218903162448735730912842433739891916441937760, 59589664000000, 14897416000000, 9236990),
   (17285777290439706761939569466254852319223419834550660148855523713340716209225, 10274080000000, 2568520000000, 1592580),
   (17294157944931270089092206826744676279111350344764207915112523085227013648934, 115069696000000, 28767424000000, 17836900),
   (17294830934759183613587049645958938862242479412059891226115830608094467656802, 20548160000000, 5137040000000, 3185170),
   (17295880237678054326660021282658371018008004156095686914904959772627536316457, 410963200000000, 102740800000000, 63703300),
   (17297530308735363695283731263921435687032329590903377271304007892036458278772, 133563040000000, 33390760000000, 20703600),
   (17313181558305352021442080480905827091375832421895305094422245388375868110719, 205481600000000, 51370400000000, 31851700),
   (17318683124702718512708308159635303137494349438859734728335486361180832776557, 13356304000000, 3339076000000, 2070360),
   (17347994901437215033183703423413342811598076542287203909759259047157738792009, 10274080000000, 2568520000000, 1592580),
   (17353149314215932827309656628058745559414173690689274746249748075779052975696, 5692444436000000, 1423111109000000, 882385000),
   (17373322294594957099877629683791981633322889548540890788796963007957743012105, 10274080000000, 2568520000000, 1592580),
   (17498256411563351328869666340003860807791053784728557345402353482491345643035, 16438528000000, 4109632000000, 2548130),
   (17502461864003115513748801653388843516139400520160020727812283195234679677714, 702747072000000, 175686768000000, 108933000),
   (17514788492427586404998287902757372519718359165817906060018328324546495201563, 41096320000000, 10274080000000, 6370340),
   (17515614281241428595697498378697993978808258647196557765237574572814494066718, 36986688000000, 9246672000000, 5733300),
   (17610854651694175109714484634113954579473726123566437058388069420126553187604, 41096320000000, 10274080000000, 6370340),
   (17617878441723846581036923669345985627036433355055848050620884091967926014302, 41096320000000, 10274080000000, 6370340),
   (17635547153859290315205577169950160266796621381519999027558030031173332282122, 308222400000000, 77055600000000, 47777500),
   (18096835497428013772246742254827419112153091329935696338698525394661931832388, 10274080000000, 2568520000000, 1592580),
   (18107891758798478464694747436712526039780616094604359224642647526813330426440, 14383712000000, 3595928000000, 2229620),
   (18117585698678624465313494100431882865943600862760547011757643668745152917781, 10274080000000, 2568520000000, 1592580),
   (18120185200722367030947371899976574249634166880007720450797130988206484138771, 205481600000000, 51370400000000, 31851700),
   (18121554569468769583182686364951521129863313511800927926930708269046530531142, 10274080000000, 2568520000000, 1592580),
   (18130956446535116525936444772626998835336381801120342685908321900036041652827, 20811176450000000, 5202794112000000, 3225939000),
   (18131255490542326119949323410470863498989854233132247575520261001360027134505, 10274080000000, 2568520000000, 1592580),
   (18181349690442413505510997698799139527781191583511525175231493746259162897787, 205481600000000, 51370400000000, 31851700),
   (18188916122100518628154683321876446120724499945096737476969871635498011965012, 20548160000000, 5137040000000, 3185170),
   (18191177404785008616527373734268831562585707219712563624311833585417415856425, 51370400000000, 12842600000000, 7962920),
   (18194518598654921203952849328850133984356156180108141063791057939695293009726, 10890524800000, 2722631200000, 1688140),
   (18217425226966625729187852757927016710425409259090059833201717843499857158515, 41096320000000, 10274080000000, 6370340),
   (18229331587508982195440303657381301391117343605421120466950336984743879555650, 61644480000000, 15411120000000, 9555510),
   (18249634437839405075555673699362709873938847428603647975313485731261421732614, 10274080000000, 2568520000000, 1592580),
   (18269420258586934724644062540643795657728295713284965343703585548052511112534, 41096320000000, 10274080000000, 6370340),
   (18298858628713335313066134050926358343358481970292727514229815710721025098607, 51370400000000, 12842600000000, 7962920),
   (18335141594770330329628888718510046932473999875156471884957557177213253457533, 316441664000000, 79110416000000, 49051600),
   (18343501052183523989845328363760994732578085775795948706999782210055279128650, 600006272000000, 150001568000000, 93006900),
   (18358889206443883943827076189249098043857200382473057417216369690563533590861, 10274080000000, 2568520000000, 1592580),
   (18359309805239807975442220693008937158344425424291463722760002010512599620114, 205481600000000, 51370400000000, 31851700),
   (18365922169689764751711123159004951556864753353901807717321687157269451255328, 12328896000000, 3082224000000, 1911100),
   (18413565778911866300270949296566616053335240326358613370718960832524940890967, 20548160000000, 5137040000000, 3185170),
   (18427412657682863881803132943265341060553306469277855957477529732836232377199, 10274080000000, 2568520000000, 1592580),
   (18486384530550544479205936082623971180498491626446767151809706982749901595758, 216783088000000, 54195772000000, 33603500),
   (18493622838327377267173594177789786782820827842624824729248934360936848180767, 10274080000000, 2568520000000, 1592580),
   (18505832706391786004175122961666171060621045410281954648008881633284438007152, 20548160000000, 5137040000000, 3185170),
   (18507387103676357370843124642388135941689184898404295438620746253602830215285, 10274080000000, 2568520000000, 1592580),
   (18514306842638161191775567691542524336138665878567734342847270150753932866379, 102740800000000, 25685200000000, 15925800),
   (18516865496771188744298284869685174806966809017640519780476469902300020239645, 20548160000000, 5137040000000, 3185170),
   (18535986411059399048597523412361104814371416230070791870334836074175528847666, 10274080000000, 2568520000000, 1592580),
   (19015667332932804306664904959862817070528429780538749438930978402476684406390, 11301488000000, 2825372000000, 1751840),
   (19043420701968766602950956849979925617519183787562057568205156828567987728976, 10274080000000, 2568520000000, 1592580),
   (19073093026374369967170026817976940354924326036795014017930224840339270473571, 102740800000000, 25685200000000, 15925850),
   (19075315454804855715424009613286911900973283789978347217309744434528557253181, 61644480000000, 15411120000000, 9555510),
   (19094146874292467868557928728435541723095045188928439444566067569372828906549, 14383712000000, 3595928000000, 2229620),
   (19106722775021156378838823748443265614790317654243939618124993831336573823513, 20548160000000, 5137040000000, 3185170)]"

definition rewardees_8 :: "rewardee list" where
  "rewardees_8 =
  [(19121803182589368754370558046414795881181714089202437070337134190261723706204, 147946752000000, 36986688000000, 22933200),
   (19123246199220947650053419114511960405981417744848945366470787003195366459730, 205481600000000, 51370400000000, 31851700),
   (19133091391313350279303997375079818151311413767676948662757947855529640027982, 20548160000000, 5137040000000, 3185170),
   (19133886744656172125710120093374329403422396358486577111930516536009450045203, 214933753600000, 53733438400000, 33316900),
   (19163843119629485542589468565424430764400327655366383215258352398365048675894, 18493344000000, 4623336000000, 2866650),
   (19174415190852856122744365986048102738818518811105118237139497939839504191489, 10274080000000, 2568520000000, 1592580),
   (19185384293704951004061536274210885973939542438586482312577345652658621528693, 10274080000000, 2568520000000, 1592580),
   (19241055860266986749742249533423757543582457592998268827450940508007676159359, 10274080000000, 2568520000000, 1592580),
   (19254646013868275901365037084861933893548384850636421404606251731799712086634, 20548160000000000, 5137040000000000, 3185169000),
   (19262703431038335993714009218730192284955039685729508244390607676874321331969, 131508224000000, 32877056000000, 20385100),
   (19273465082634912640563339770884899938157900764269363687370262650206198034784, 82192640000000, 20548160000000, 12740700),
   (19278680615995409615095155977579130003181142731254125571492346866725334379135, 10274080000000, 2568520000000, 1592580),
   (19319815842530935829867714784575145678572954255963609060875977899413344484865, 51370400000000000, 12842600000000000, 7962922000),
   (19367624963205433831449960550966363199306665168029913879155120733516384011357, 10274080000000, 2568520000000, 1592580),
   (19372186806247880126443257649185627576838772009411405894487438974636515789688, 20548160000000, 5137040000000, 3185170),
   (19430948409690376083991466127097763458695127072333794172221558514572924838466, 10274080000000, 2568520000000, 1592580),
   (19904263045103580970035374029039571020993389941146264985968465785829284128563, 91439312000000, 22859828000000, 14174000),
   (19921511174072304702683109494545908424179089446683563835324214769730366165302, 410963200000000000, 102740800000000000, 63703373000),
   (19943718161113894458211904645660302732310096213402286464241194400604170528578, 61644480000000, 15411120000000, 9555510),
   (19953364110791737829287285695411544850418834433243661441504830476177201626495, 832200480000000, 208050120000000, 128999000),
   (19983136058912533880117270773515975919555216149628723105274348623993129151817, 22602976000000, 5650744000000, 3503690),
   (19992438916193214359784807310741699424630627537875101264303076678876022647041, 63699296000000, 15924824000000, 9874020),
   (19994905253570177561852742221553268394642424146580546088300212600397604793348, 10274080000000, 2568520000000, 1592580),
   (19999342003964536946207483315484474667089398401713927350818455686094667735067, 71918560000000, 17979640000000, 11148100),
   (20041591271240690394403710026662193264075759567386243910624958014814019205151, 82192640000000, 20548160000000, 12740700),
   (20054023101088775732133176150289007895470178805353987179990061197141482791950, 102740800000000, 25685200000000, 15925800),
   (20058527200162093219872956072738964267334915633892457709729772956271082781531, 51370400000000, 12842600000000, 7962920),
   (20094281698348907612040586423187521820108188320032053861219656379364605174535, 30822240000000, 7705560000000, 4777750),
   (20096202633000233637619148139613747061193794122279868267901770710095516825419, 20548160000000, 5137040000000, 3185170),
   (20098253368658611335089262394902745746464807736543363512825335565951297660929, 12328896000000, 3082224000000, 1911100),
   (20145030844391059739596754704044247978795268217237791993523153444810317448230, 260961632000000, 65240408000000, 40451600),
   (20154000981401243750072143917449493157944560524786704076559325062432327922759, 10274080000000, 2568520000000, 1592580),
   (20157117645328708089996738007833550150735194606171717470804571026197721292841, 61644480000000, 15411120000000, 9555510),
   (20168494075545716314427745900478405562040970129745250446922128019748700362582, 205687081600000, 51421770400000, 31883500),
   (20180868769097262343198151851440955533725269208620331738338536571080013260118, 10274080000000, 2568520000000, 1592580),
   (20227072952110841733806772535883441789498937420875729000056965019328481813627, 47260768000000, 11815192000000, 7325890),
   (20239882383437433825495638200881305951507194328103049187144182467475450207589, 10274080000000, 2568520000000, 1592580),
   (20261647538041461271051683942475719458490576232216928161664416343096199388206, 10274080000000, 2568520000000, 1592580),
   (20268360321749339838364047153315427603012906971785545717625947936599157038423, 410963200000000, 102740800000000, 63703400),
   (20289629383927907297090571881179543389226561864308889167186732136088145862145, 166666125800000, 41666531440000, 25834900),
   (20300504012217458308331281029479913690171056141845654001427611385766684638507, 20548160000000, 5137040000000, 3185170),
   (20309169531331100494210697447038345869180912854494782972274043821886033081618, 41096320000000, 10274080000000, 6370340),
   (20320630726995528077652172783506303275048953078748307012519361562312096116501, 10274080000000, 2568520000000, 1592580),
   (20323751807079643924268140028201579336019172414114718512630266255794047368481, 72350071360000, 18087517840000, 11215000),
   (20327390104349388148275246212879037747733414182191059279754909604490051208825, 390415040000000, 97603760000000, 60518200),
   (20336240008042976774429764428101739685298606933329809912639356783027110311711, 215755680000000, 53938920000000, 33444300),
   (20340218530440597205279338311676619918079365973094438175775401256646663845131, 10274080000000, 2568520000000, 1592580),
   (20814424836584601190018952810587228506470299549269674793180593731512913141881, 51370400000000, 12842600000000, 7962920),
   (20870683008220420738563361581499618270575657405943366647445956245557108840735, 86302272000000, 21575568000000, 13377700),
   (20875472731804619424858963086728020606002103744583245840349989283301115323153, 20548160000000, 5137040000000, 3185170),
   (20881764569543352874698657615843670298875557623227689872805562718515286195478, 237331248000000, 59332812000000, 36788700),
   (20897865952979896661718657729089959114099325195250196118084110304255794062910, 61644480000000, 15411120000000, 9555510),
   (20913467192630161202277213035542139728097656112685414735531745418831593861660, 26712608000000, 6678152000000, 4140720),
   (20976617262863079112422365451106326657891193537321776917677205386477698285358, 10274080000000, 2568520000000, 1592580),
   (20987551539123384449696607110637285836821793363085461973415695616988947264566, 30822240000000, 7705560000000, 4777750),
   (21001838420035477189021426717943355997044901449764183038826386327636853791004, 71918560000000, 17979640000000, 11148100),
   (21006887864656455744136665843401095813072437232866577667276042085392495900020, 41096320000000, 10274080000000, 6370340),
   (21007309915150264480220481292560980904708292781713116674807540003757571696747, 62133647900000, 15533411980000, 9631330),
   (21013252632771187165156769657147598046485876692399055030839092700321192908636, 41096320000000, 10274080000000, 6370340),
   (21050503446615732471870836094749887676450426943217063442036823751435895700542, 205481600000000, 51370400000000, 31851700),
   (21051036281645695101272903473764296259373733866968868089730830735397455681054, 410963200000000, 102740800000000, 63703400),
   (21057802917998453141582840518436881492674339364920295560065892850493484655914, 20548160000000, 5137040000000, 3185170),
   (21077707819426223286212749152892300127167401703300871058882080714246992462384, 12328896000000, 3082224000000, 1911100),
   (21078697202017520435588507898648941316944791236114810365584179341346248148075, 61644480000000, 15411120000000, 9555510),
   (21080146302132575779434310625472763625212292499352081820410271058470123632135, 102740800000000, 25685200000000, 15925800),
   (21085603243680654372382872719238354762143010327219439685035702128175937126969, 10274080000000, 2568520000000, 1592580),
   (21116176953858693334944090820973832453803684184383994467148878208861585477752, 10274080000000, 2568520000000, 1592580),
   (21132048969840247621474887037668279516725092569470063670604404746047612938036, 18493344000000, 4623336000000, 2866650),
   (21134029570810446247270534127056593211198101975613600427371610298670635124055, 10274080000000, 2568520000000, 1592580),
   (21153077967752607237915511585809202317163499767201749932854433692255311099717, 513704000000000, 128426000000000, 79629200),
   (21153757142135299903866959870370657482331586137070913825222465101256452714333, 20548160000000, 5137040000000, 3185170),
   (21204025848363974197239572448469663948721942038719196122045791402626537792108, 61644480000000, 15411120000000, 9555510),
   (21226515378333335955299922657286221687732338774882277007972942273702175786871, 108905248000000, 27226312000000, 16881400),
   (21239925672657944932807713064546017924924399116443498336040187704046687664947, 10274080000000, 2568520000000, 1592580),
   (21255709178355415940014068432374082720085898938002072854742696598481666032160, 205481600000000, 51370400000000, 31851700),
   (21713718952169260858416697588866510146275823479504958020842736450787860450623, 2106186400000000, 526546600000000, 326480000),
   (21722325056548083381496113252854776467227897154816763059959334559067953632095, 41096320000000, 10274080000000, 6370340),
   (21738010064793494110847930338003354113482492020794475810619431296243084829009, 71918560000000, 17979640000000, 11148100),
   (21742963060822991868979780360181914169630015992915270393424789549029608626538, 1785966389000000, 446491597300000, 276843000),
   (21756287813816810459925142105747283663460768494246815658556644051022612656229, 1050764683000000, 262691170600000, 162879000),
   (21776939571630987022345755258789066791787227669790997532111780206302489533740, 61644480000000, 15411120000000, 9555510),
   (21778734486698283489556751091396807400537706165521187302798302304802247505213, 10274080000000, 2568520000000, 1592580),
   (21802202352988732074973905133011945021897795504350937205840086369928217388842, 150001568000000, 37500392000000, 23251700),
   (21804017951762018345341313062525486782131897569920480748501697311678979446339, 2147282720000000, 536820680000000, 332850000),
   (21843024324051353150460959340142212942063162987947138833045309389583047838753, 10274080000000, 2568520000000, 1592580),
   (21855140007818849819000737857464678632041871458652741443566814247742761992822, 1027408000000000, 256852000000000, 159258000),
   (21855568029018477147684172044061189924308567899560650982073090124125916566910, 10274080000000, 2568520000000, 1592580),
   (21869354717988423124250123759334315101114389688608005658254554251954165562937, 616444800000000, 154111200000000, 95555100),
   (21873236072136334683623597469397090538361530826138272947685321016262020568427, 90411904000000, 22602976000000, 14014700),
   (21874703246315847644177997807707098238072899611529934513751409715643484030791, 61644480000000, 15411120000000, 9555510),
   (21906755599821995340012416609308325792854963375474873726812053335455371102793, 102740800000000, 25685200000000, 15925800)]"

definition rewardees_9 :: "rewardee list" where
  "rewardees_9 =
  [(21916117973116377379990963796619863261260129976692696014272051198470071104850, 20548160000000, 5137040000000, 3185170),
   (21923725029964469578898340620971534510748364742855653636630008457016634916727, 323633520000000, 80908380000000, 50166400),
   (21952889115511956513264480981401960004976493226074130005023815155285182700924, 20548160000000, 5137040000000, 3185170),
   (21959027536897540915984708264140074819483949143607723460286410120626760282184, 24657792000000, 6164448000000, 3822200),
   (21962286375931782655892839574625554961861725723070075131237643524078849261408, 143837120000000, 35959280000000, 22296200),
   (21969382013250795781876217643872546461919383715653569712284162381358615950604, 2779830908000000, 694957726900000, 430901000),
   (21986858910613815219910074093162173356289097177194287397670789996554248361018, 20548160000000, 5137040000000, 3185170),
   (22021294230628949733269448543574487840950242018677759101241784830078330868047, 50548473600000, 12637118400000, 7835510),
   (22023379331819431485950121629139255654295703675803357317021177059553776078852, 10685043200000, 2671260800000, 1656290),
   (22034512121055664091545772988700632404445100593635137935225592976049017678456, 1843169952000000, 460792488000000, 285710000),
   (22035479075853122063773712739785340293500279236521476511809453901029576310651, 10274080000000, 2568520000000, 1592580),
   (22035755094310305947592649913908062106444274322365793788722939018811537513773, 10274080000000, 2568520000000, 1592580),
   (22038831433121864720878499868361694928961844194294600667327497574982578594429, 10274080000000, 2568520000000, 1592580),
   (22058735112091944605577354853417818547297007627418190494447015703977381377042, 102740800000000, 25685200000000, 15925800),
   (22060759030272335963937376744343054920848907737892229877460146203531892981764, 20548160000000, 5137040000000, 3185170),
   (22072622457167687250679647245172338686120526225250028522802090719583811785295, 10274080000000, 2568520000000, 1592580),
   (22081488989939073417383328208718170292504583552001074747342939698597666882152, 203426784000000, 50856696000000, 31533200),
   (22091501127840669314845829264799418372184590702684805747446159934096826239073, 20548160000000, 5137040000000, 3185170),
   (22108475825200610539585956179787151222520281211955679677136090816424426444642, 10274080000000, 2568520000000, 1592580),
   (22141120314658127682897521824392399907522175336387844060599099078881702481996, 20548160000000, 5137040000000, 3185170),
   (22157769574230765837896564529252072572690903559703298439797235915789670960914, 10274080000000, 2568520000000, 1592580),
   (22158585821093816234233346192238303866287708441598162243485761341809476585599, 92222361280000, 23055590320000, 14295400),
   (22636001408870959883077577443502901003306430654182094740382691064336013388291, 92466720000000, 23116680000000, 14333300),
   (22640644288976966714174013161303422765261887009600365136087953112371495567982, 259934224000000, 64983556000000, 40292400),
   (22651659953143774456888733167021714675200526474307755722524712917004366590569, 82192640000000, 20548160000000, 12740700),
   (22686906771020748028414512244383014184082714497582304763359164997342509546821, 2054816000000000, 513704000000000, 318517000),
   (22708425190299973853413373213941930356648321222688135763650148306443781121916, 41096320000000, 10274080000000, 6370340),
   (22777191600676378634996276822730750057020436048250764127754503539843820924686, 30822240000000, 7705560000000, 4777750),
   (22815316226970555431505917231221260652037414903848892101946812991223297277027, 20589256320000, 5147314080000, 3191540),
   (22817254507867552401646391726044398455138546131377217835517576905979167967591, 12328896000000, 3082224000000, 1911100),
   (22823894333288069017697238061944961779295999271043933111435800958003093146998, 98631168000000, 24657792000000, 15288800),
   (22868188806741539087946337841085754592982440008901805750757628173634149490464, 20589256320000, 5147314080000, 3191540),
   (22880777822815951140077005246370840146347566578714318000436661853994757493075, 20548160000000, 5137040000000, 3185170),
   (22890477465287215173992174199844506298830015668296687584871317556150408305978, 102740800000000, 25685200000000, 15925800),
   (22891023017490842880188214324653542154805763305429318435345234133677511667501, 20548160000000, 5137040000000, 3185170),
   (22903979782122644403283784185152160169990920168849452883434990048368080414560, 16438528000000, 4109632000000, 2548130),
   (22910757597933792523437554302058807980483396612805158667639332290325776710709, 10274080000000, 2568520000000, 1592580),
   (22935026861685266404244139362394096399189723818028384193629964017485817638242, 20548160000000, 5137040000000, 3185170),
   (22943498939482378514452453461121316844193311500206825701089369448740678072136, 20548160000000, 5137040000000, 3185170),
   (22958366558182495410089271419564301229433746998224974523767915929025968567897, 12328896000000, 3082224000000, 1911100),
   (22986140966504886001370907965746682754838708268191984088865155367289545072237, 51370400000000, 12842600000000, 7962920),
   (23017328276488476725366440016170496425195061710802121245731259563137636559436, 13356304000000, 3339076000000, 2070360),
   (23023837745269765399591636847546226779166740479506119886039488731827914774016, 10274080000000, 2568520000000, 1592580),
   (23029076394876047593392608108578883333378005456546879903423762308186694163983, 226029760000000, 56507440000000, 35036900),
   (23056601518877701399171527122000144771804894214574151192783859855159001364532, 287674240000000, 71918560000000, 44592400),
   (23062320352375504812572524886810586840523153129133726651952485220976525080151, 41301801600000, 10325450400000, 6402190),
   (23535406122287120002093947866334843234124080348239938129639496355382167096090, 20548160000000, 5137040000000, 3185170),
   (23553263081091138078211087821958365472501546423074101249848226428393000083032, 30822240000000, 7705560000000, 4777750),
   (23557271908356041098513955617194842488376775780865454974700107108861069129312, 20548160000000, 5137040000000, 3185170),
   (23597004122621625703447537550045467013503776902744700945473067799511839909228, 20548160000000, 5137040000000, 3185170),
   (23597781477532842272609907278257621357962897770152434157769407302705969607027, 20650900800000000, 5162725200000000, 3201094000),
   (23613735802730671822155081824712342020467666628680472307336752104008035544915, 32877056000000, 8219264000000, 5096270),
   (23622889402704253522509089222269586000880016858824595170734281557780620882238, 51370400000000, 12842600000000, 7962920),
   (23625794375754045929049668451521572466125437170835576248955446230192128303392, 16438528000000, 4109632000000, 2548130),
   (23669151345506708891251859630161488796713036129694940579319868704804083401994, 164385280000000, 41096320000000, 25481300),
   (23687936012377930100855604457599882753927589010063491037700120472166686951266, 246577920000000, 61644480000000, 38222000),
   (23688644551924015498216596854709179745693086336869510513407944064003857322788, 143837120000000, 35959280000000, 22296200),
   (23697945166077578076473711417283250953175618925475230739626491417306131264516, 413018016000000, 103254504000000, 64021900),
   (23722684382319414978619194314305406838074884103457703294450943757162719341083, 20548160000000, 5137040000000, 3185170),
   (23724692282731752983614941155842847478174957667119580743600180301750784904223, 287674240000000, 71918560000000, 44592400),
   (23759368447937554987695223805371760912513990127757994066500122668598507245832, 10274080000000, 2568520000000, 1592580),
   (23763275864013833840767699037490767396791590558767559030848307368964596284796, 104795616000000, 26198904000000, 16244400),
   (23798012003539960304233718519109348402396508209081345793407836509198240181303, 51370400000000, 12842600000000, 7962920),
   (23808467505590741539950777087780723711014837718903044665797246746419934192456, 226029760000000, 56507440000000, 35036900),
   (23815350275120565229328512245248903632489261036084284458251542005894202735393, 441785440000000, 110446360000000, 68481100),
   (23819619462664479587887324115493684837201816640543097267246670319681299973421, 10274080000000, 2568520000000, 1592580),
   (23838884721907015000523104889225896653855033544904562508533785668345501214321, 118768364800000, 29692091200000, 18410300),
   (23863973782440782643920798948968607213964984123242375802729077706851028461403, 20548160000000, 5137040000000, 3185170),
   (23869935347521040062346364199193974118519910484205365365685669317093390599543, 16438528000000, 4109632000000, 2548130),
   (23883520372556244253989672806395432051101014017417788691109060318533305590802, 55480032000000, 13870008000000, 8599960),
   (23895871849271196052768838294805772527772057136343421509774080172169445231890, 30822240000000, 7705560000000, 4777750),
   (23925483219592304809245769050928769325035604499362074091399700275080062540353, 10274080000000, 2568520000000, 1592580),
   (23938642313054973674346325085398020943090493185019875963294272492204678932751, 51370400000000, 12842600000000, 7962920),
   (23951159318262600331375725736249390897982693576555307952190674598372104427300, 20589256320000, 5147314080000, 3191540),
   (23953063791112954909844531895108973741166957111378135345936113686118266091130, 41096320000000, 10274080000000, 6370340),
   (24439009876664836771278633579268393369733385200009183855453793526939887779416, 51370400000000, 12842600000000, 7962920),
   (24443609217584634003088069719850590947251983993707648305118112061475302552838, 4109632000000000, 1027408000000000, 637034000),
   (24447254873416216630638949551678214514972190756493609088120710189091556429863, 5523345408000000, 1380836352000000, 856173000),
   (24462267258552794074199626131960579664459938413000088694572380641092509014095, 67808928000000, 16952232000000, 10511100),
   (24463022080606007966586320626622096707295187421150010964658965371016911520308, 20548160000000, 5137040000000, 3185170),
   (24465357847629910654102021183027007231437731099509626888223670895508738656087, 139727488000000, 34931872000000, 21659100),
   (24466528463341588551083652248141870569455675951612780945146017938965959624752, 10813285790000, 2703321447000, 1676170),
   (24482254305535359895509598677151330033757252556407376295067735900436670933521, 20548160000000, 5137040000000, 3185170),
   (24490416850008542070334953504073537742080543241637803046141459584950800169276, 205481600000000, 51370400000000, 31851700),
   (24510120553735122937656229570625627816453178010080096596136687159968954890324, 102740800000000, 25685200000000, 15925800),
   (24513439930411853631868319855861977177192212555607201758505523895737865938006, 94521536000000, 23630384000000, 14651800),
   (24539945390799799113443747189437818032904245654522034038217259374765918297165, 20548160000000, 5137040000000, 3185170),
   (24545757364806576480587552806891938131511898528472490153750353015759613511282, 41096320000000, 10274080000000, 6370340),
   (24551457024993887098355156069842669043081491976129234945115459312259433357900, 59589664000000, 14897416000000, 9236990),
   (24611401764467620920537285866073180643201967949080827647611783270888234597384, 10274080000000, 2568520000000, 1592580),
   (24619394930921202170072464784308558923576941345245478291568304677401667435828, 20548160000000, 5137040000000, 3185170)]"

definition rewardees_10 :: "rewardee list" where
  "rewardees_10 =
  [(24627394547336136476281871861125996204477289254251766002821138365964168505915, 102740800000000, 25685200000000, 15925800),
   (24632964930083655588344029475141155719668054124155213945577121765857799302921, 43151136000000, 10787784000000, 6688850),
   (24640899824466308125763971580224812836804737713871134135465994736188095676717, 10274080000000, 2568520000000, 1592580),
   (24661395944639543962233794743118175670606276752637729409169240781650723469088, 221920128000000, 55480032000000, 34399800),
   (24671891224108221543731543321622993139750739597727796342742058775945022761545, 20548160000000, 5137040000000, 3185170),
   (24682243762343424644317355759087848246849331010180488602438523542945488372323, 20548160000000, 5137040000000, 3185170),
   (24734496735526815764177951824029387927531685372126618903080849628432818204485, 36986688000000, 9246672000000, 5733300),
   (24736451654880883729490260893014526355415219407946064725864901835401372115251, 441785440000000, 110446360000000, 68481100),
   (24741060450259674024642699388776749945919961463866611489584004555803648672317, 102740800000000, 25685200000000, 15925800),
   (24750239422134193217543609785983877690344792026456505090735416579750723056390, 10274080000000, 2568520000000, 1592580),
   (24751809612164674189810698026679565913895980831597423417282298445056724371735, 10582302400000, 2645575600000, 1640360),
   (24754975170168871481254253353303603959067014622241849907116042572301539470894, 61644480000000, 15411120000000, 9555510),
   (24776591208274510930572304401002372586539712289962495690224218478187231137042, 51370400000000, 12842600000000, 7962920),
   (24801010968030342079850767067792081300150483311599268100136638900453998881051, 2091802688000000, 522950672000000, 324250000),
   (24817461537352183412641024185311136181217829936015012182229152988054967007833, 45205952000000, 11301488000000, 7007370),
   (24857399712129440139139534318573403279801452283464623302240140650175159710770, 26712608000000, 6678152000000, 4140720),
   (24861714528682647571141238337399561086962349115036660125926369266405668865059, 20589256320000, 5147314080000, 3191540),
   (24863297048530807432463775661931613320928753322931652739951133815372545738009, 41096320000000, 10274080000000, 6370340),
   (25355452535542186683272148474633805669498444232079357473470596095165543414636, 20548160000000, 5137040000000, 3185170),
   (25358012792597232758330946192905769730595768937432165935848908440006312301147, 66781520000000, 16695380000000, 10351800),
   (25376131349679076759490410458440912447858245606832573894402443037976371061534, 542471424000000, 135617856000000, 84088500),
   (25376903875872631719203641569546077933363306061877771810892123598307284500322, 102740800000000, 25685200000000, 15925800),
   (25406864723278262797941834162502409165627781038090910636572084634820513011250, 41096320000000, 10274080000000, 6370340),
   (25419399561125032595293952431913323879760096618767615021695243481468463407434, 18493344000000, 4623336000000, 2866650),
   (25424345728207620943456564359513873529366224991927011341436437978456224525870, 10274080000000, 2568520000000, 1592580),
   (25442325189586508176633897736162794970958053295249354694750536077174744484141, 92466720000000, 23116680000000, 14333300),
   (25459039980022358528312905704515720042394827645324234375319773075264149397263, 20548160000000, 5137040000000, 3185170),
   (25476224340651083585407135334795942636874753065097023666781118767333348114460, 41096320000000, 10274080000000, 6370340),
   (25538665261824654512667845776671166054951526226670375262341352050624238742589, 63699296000000, 15924824000000, 9874020),
   (25565231396623905471405354233072665557378922154154375256017395704703946457183, 41671668480000, 10417917120000, 6459520),
   (25567899150854703078579831816034749813109804600112238566784013176616105993558, 821926400000000, 205481600000000, 127407000),
   (25592809255399095168074311302838768417635200392367558073250804203492484604772, 41096320000000, 10274080000000, 6370340),
   (25602631614410678949602599201707217963667952792469782419295962461909529556573, 98631168000000, 24657792000000, 15288800),
   (25625995910934700310045512601021834043121681781339142534873462211046851471916, 30822240000000, 7705560000000, 4777750),
   (25632604335247561456300234710668576016930415672712582100194979698375134733388, 10274080000000, 2568520000000, 1592580),
   (25683095466765298241219919686619118850189116282053292839066999713180735408716, 20548160000000, 5137040000000, 3185170),
   (25686967855275146823484578090357382243236548763449434730011786511686953408569, 10274080000000, 2568520000000, 1592580),
   (25692839000244938436450654714398795282670670816967622958335505134972232616494, 43151136000000, 10787784000000, 6688850),
   (25710640425536895400268774353948425805992425636544796698071471534488481139069, 10274080000000, 2568520000000, 1592580),
   (25740721306465206510205737226610526683655484360060182721233204377828367734078, 10274080000000, 2568520000000, 1592580),
   (25772497273523984511144290899951253065448598067541305302699223731033219221810, 246577920000000, 61644480000000, 38222000),
   (26247016892686527897333636072898754330318416219364961551045698558959783177066, 52305341280000, 13076335320000, 8107850),
   (26256661317356796197789382819307685320678440220472834961980199851734954293885, 606170720000000, 151542680000000, 93962500),
   (26258163462232869017714472675813459884014226418088097679216140682852204752976, 61644480000000, 15411120000000, 9555510),
   (26259663754945169778280973096745102731099167326734024732733813778110357448283, 20548160000000, 5137040000000, 3185170),
   (26298745735888679598815821797530655677601991061663679884529399582120356594504, 20548160000000, 5137040000000, 3185170),
   (26317620115262349835695047395041508145151163455543872861086966511636880568693, 61644480000000, 15411120000000, 9555510),
   (26320335892580615098980813995318679902566577465760989469654953711024976434179, 2054816000000000, 513704000000000, 318517100),
   (26342897311159415866731615793716379518609843424661465425897476277611342515026, 20548160000000, 5137040000000, 3185170),
   (26343571389055295842711462034391783568271317149434099749806705323436857654087, 82192640000000, 20548160000000, 12740700),
   (26374445645636637666186832516341070734003071918764843836236265525175234296678, 10274080000000, 2568520000000, 1592580),
   (26376382163797605667584465971702964442218486991020637485202888432372966025554, 51370400000000, 12842600000000, 7962920),
   (26381616974299500352539282278134312997139324656806534716728658644929758288457, 20548160000000, 5137040000000, 3185170),
   (26446513144717983940637206484782792457706385600553595903673389961983507212110, 61644480000000, 15411120000000, 9555510),
   (26469415458127266434941855770410085862053926374762442888838479502854025017897, 12328896000000, 3082224000000, 1911100),
   (26474720373207351734891499907292797443191241173892529642856303979088640435248, 410963200000000, 102740800000000, 63703400),
   (26521121569459347164303349340093778366991792687156188240704494794969679684213, 26712608000000, 6678152000000, 4140720),
   (26548201805313107031557253663974059600808165007055890587933645739940718013745, 10479561600000, 2619890400000, 1624440),
   (26573408569512405029231971817683675698897005937754896736409990873891672639263, 10274080000000, 2568520000000, 1592580),
   (26582215667685818804896766573402992376831474274626580967059948904650143341905, 10274080000000, 2568520000000, 1592580),
   (26587850752765735002075770623380852505808989526434433182467162281341173246518, 313992117800000, 78498029460000, 48671900),
   (26615918695660277535235700032856624750478107023984470063640733897673109904129, 12328896000000, 3082224000000, 1911100),
   (26629776166056400045966887142178904971861571833128804333666896766675454642022, 182878624000000, 45719656000000, 28348000),
   (26630693792598747748928252488868974759637780879988938943705520297502064790287, 106850432000000, 26712608000000, 16562900),
   (26635238432055376195450848353416185337500918177930203526895395809409873892162, 41096320000000, 10274080000000, 6370340),
   (26638839266710554526657241789890023194667471955506251425764820731879143287575, 108699766400000, 27174941600000, 16849500),
   (26661435298622779670901338470330628109258121907832135191839659129274278636650, 182878624000000, 45719656000000, 28348000),
   (26663638161447358988814812809223686301697396436761046681364741471187490502967, 14383712000000, 3595928000000, 2229620),
   (26674997340028717301242712994709775598486207435020509786900326006413653138806, 20548160000000, 5137040000000, 3185170),
   (26675175025304659165665309932818606462510499333745001406622190699853162159224, 371921696000000, 92980424000000, 57651600),
   (27140222135288898370302805745747333477807967392365407227122585441307424857960, 12328896000000, 3082224000000, 1911100),
   (27157049888299861246815739574859159362346846059007505083130936379365178051679, 10274080000000, 2568520000000, 1592580),
   (27164547385275802486361360261787126507682508016831877992068765322243257636120, 20548160000000, 5137040000000, 3185170),
   (27180997431681473136550457422539617233083069841840093123063623815784494423656, 360620208000000, 90155052000000, 55899700),
   (27203381114447854078648428750849683806871605981315951606015988438688939491447, 30822240000000, 7705560000000, 4777750),
   (27222391739090168551723690384094496741277373950330412164669754800569510261261, 10274080000000, 2568520000000, 1592580),
   (27231916446282415707371150866311255103819985471974501063976926875025229995387, 30822240000000, 7705560000000, 4777750),
   (27235223205999672367723515616341717406459311266408805066762463979883384016507, 10274080000000, 2568520000000, 1592580),
   (27236129725707886562968910805994999759221849907398784692589193200864345865520, 102740800000000, 25685200000000, 15925800),
   (27236470013134913903982303725848607391280504957035087298686209695445720873252, 20548160000000, 5137040000000, 3185170),
   (27247153123157595342733555457983855732227462771058196039175193261646600303151, 20548160000000, 5137040000000, 3185170),
   (27251229021800593723105944451639782556787849237278225866379544909518016155991, 20548160000000, 5137040000000, 3185170),
   (27290294605628416009396276116100394674785683573914731417254260261951870940018, 308222400000000, 77055600000000, 47777500),
   (27291485482737812558451174019704447901965929921203925589047997842558622570787, 10274080000000, 2568520000000, 1592580),
   (27292843771520639733806267833669374219957978932797666210820956973626375556940, 28767424000000, 7191856000000, 4459240),
   (27360311666700970587456108556151896013534533047190790345030719700728395765275, 10274080000000, 2568520000000, 1592580),
   (27367457357046546467920759051322905426104344401372447508035921969831303456562, 51370400000000, 12842600000000, 7962920),
   (27382045940628972666119197735750727239192256083460956509536699356195669920833, 207536416000000, 51884104000000, 32170200),
   (27425484328864801098663600002974519012217452005122381522639584584803993586712, 102740800000000, 25685200000000, 15925800),
   (27432591239563440745354473818697617945763983071146122074537835161854147713852, 164385280000000, 41096320000000, 25481300),
   (27461115079018816808581596676347094576741355146767742448874524581632745728324, 10274080000000, 2568520000000, 1592580)]"

definition rewardees_11 :: "rewardee list" where
  "rewardees_11 =
  [(27462890922721085194302102300775377325154247550392375262335030022257495021379, 10274080000000, 2568520000000, 1592580),
   (27533969869468378122060152719119716141579109154051275404898201154317699775531, 20548160000000, 5137040000000, 3185170),
   (27543942232680173402458693643120528075847235949061062434689059667818881820161, 140754896000000, 35188724000000, 21818400),
   (27558033885519867477207073508306659846877048094483863271104686506765774015508, 205481600000000, 51370400000000, 31851700),
   (28058299243714070825941521342489288327752897070271234683062282452316917426708, 205481600000000, 51370400000000, 31851700),
   (28070519249355617972993346848427625333982120247605051418409035679529677675877, 2054816000000000, 513704000000000, 318517000),
   (28095844824584810473702389320935921027475001252962393305016958785463984973127, 82192640000000, 20548160000000, 12740700),
   (28104826716834475879165641503444516670257300933144569936475030642937699968030, 6328833280000000, 1582208320000000, 981032000),
   (28108683960912012835527048009709171704498415890898938353820990417597680902227, 51370400000000, 12842600000000, 7962920),
   (28123204511361246900139527815792725078370612072761107374546155104388061628531, 10274080000000, 2568520000000, 1592580),
   (28149154388359348061660377561899858413191940383373094527105865871109039877646, 10274080000000, 2568520000000, 1592580),
   (28153951369643258894681097578212654459409283423883631217239630222682286830614, 10274080000000, 2568520000000, 1592580),
   (28167761013010270012473733174866799618006740872558789375134627256971078441220, 20548160000000, 5137040000000, 3185170),
   (28170947383041792871712677700797489157847215569226992984383509603467747770937, 205481600000000, 51370400000000, 31851700),
   (28174856589965634413195675603467942612004653814506819068776745546357518842908, 205481600000000, 51370400000000, 31851700),
   (28194257909847505211119179731409995983613174475046160704454577559972603333436, 10274080000000, 2568520000000, 1592580),
   (28201375244102413647945392633777226042932415354660193424508281758842955257640, 20548160000000, 5137040000000, 3185170),
   (28218660826361893376651776976677071690523534781250273817830126563375091033621, 174659360000000, 43664840000000, 27073900),
   (28226640052474739289425816416112844120095914313076580122413065579553332551546, 2231530176000000, 557882544000000, 345909000),
   (28255562231347345117168858975816832300092268603135010387455793338522366046261, 115069696000000, 28767424000000, 17836900),
   (28257907021190979496411546395388067310299657287016651283534444215811218166788, 41096320000000, 10274080000000, 6370340),
   (28262045006895114072486642300428217175631266734859355439465082018997928621330, 51370400000000, 12842600000000, 7962920),
   (28275789156713795009495191509608703704106306967968048161797154122229135346200, 240413472000000, 60103368000000, 37266500),
   (28344910619239385333318891456195363331576674729257127769224536042315241327695, 10274080000000, 2568520000000, 1592580),
   (28350366061703174481499342477010464648609900080398986409422790541394974887013, 51370400000000, 12842600000000, 7962920),
   (28360823037109928948298022939717344003733471069601819948794187992433213380396, 71918560000000, 17979640000000, 11148100),
   (28361353300072567997147946560721191713537286576465019201860674149564907454297, 13356304000000, 3339076000000, 2070360),
   (28367559851869372174376899941196243657368694491816814073792744451413301298995, 115069696000000, 28767424000000, 17836900),
   (28419868684655760853305498278584845184939910828706842146788429424730717314844, 20548160000000, 5137040000000, 3185170),
   (28432175173069108076147939687072673093030465200507120975511804840873819706112, 10274080000000, 2568520000000, 1592580),
   (28434449514649488753069678661438185127729827701734478797248896325456854890844, 82192640000000, 20548160000000, 12740700),
   (28466234834929254754883161001199409495569929970248751221780748711640032474229, 10274080000000, 2568520000000, 1592580),
   (28473402768481539853686390596198764863343076741349712646133314436826178824483, 10479561600000, 2619890400000, 1624440),
   (28971637963637892957096310225663262080043177688754104138893315385800929403411, 503429920000000, 125857480000000, 78036600),
   (28979640765456316010434636634383154736687669977621335802212551956569952320343, 45205952000000, 11301488000000, 7007370),
   (29005714702523045251082224566809107368352667158703586474648881602694344183852, 10274080000000, 2568520000000, 1592580),
   (29010335888546291161878208617717562667020472440099472203579837831008454232648, 20548160000000, 5137040000000, 3185170),
   (29027786575140527738395356993972793318938013761232302299111312726710526563646, 10274080000000, 2568520000000, 1592580),
   (29040022594502346373479288057736925362259750965186572812018953872364581440858, 30822240000000, 7705560000000, 4777750),
   (29052674479683225004222718320176481498178083097173361583647326005327721482046, 250687552000000, 62671888000000, 38859100),
   (29058263059051134248237349313550374631589495188093626060364106646339017818219, 10274080000000, 2568520000000, 1592580),
   (29069224440043749819875649416031646319190141966361863199743981371933842783814, 431511360000000, 107877840000000, 66888500),
   (29080821497117877941906204053533455636715416253983375117935285618541795480388, 201371968000000, 50342992000000, 31214700),
   (29081577583409657489871628007389920384546345687104294822099859381471787466554, 82192640000000, 20548160000000, 12740700),
   (29082363518276501356804549900862042076196695303231125158728373546867503512416, 20548160000000, 5137040000000, 3185170),
   (29086649656432598239008199298451966822168867237960895240987070868253557138701, 63699296000000, 15924824000000, 9874020),
   (29133731910524369938220284240986825990143593593984176826452257846475397153599, 2465779200000000, 616444800000000, 382220000),
   (29142950556113719955132090403224165228186572877195229704529054902771133984271, 71918560000000, 17979640000000, 11148100),
   (29161798161468663177826569914852754732354902227899321145616915926465001057093, 20548160000000, 5137040000000, 3185170),
   (29171385874584094415675813148006285813090587882252522588308844679679195715699, 16233046400000, 4058261600000, 2516280),
   (29182906464491520331956011462751066233620519284235234802064451351573640315984, 10274080000000, 2568520000000, 1592580),
   (29191537302185776755171376570540933146039630190288871148518997491347610621559, 272263120000000, 68065780000000, 42203500),
   (29202713839845568755340474301309638118555200491923790724646387552939976383297, 240413472000000, 60103368000000, 37266500),
   (29218228350431526325106405618832965497223107841763767426284014112669633918777, 51370400000000, 12842600000000, 7962920),
   (29265247793789267658567310250173642445392191928529971823953000549378985278242, 20589256320000, 5147314080000, 3191540),
   (29295119061920415325263203735632930010285098507742211805420021385137646654547, 61644480000000, 15411120000000, 9555510),
   (29310370851481064906725366931910342307504895142276604231370452641975849240096, 41096320000000, 10274080000000, 6370340),
   (29318023358898749680793109236531837607746187820887012842435559539113443117122, 10274080000000, 2568520000000, 1592580),
   (29341345035995920600664730490799374119050194178395663151282833434811769672963, 42640103250000, 10660025810000, 6609640),
   (29352167484641541598703380702724556906965625730869214639552243318598558864456, 10274080000000, 2568520000000, 1592580),
   (29370459518795631416667393870773389357164279038473160235132557417490273571431, 20548160000000, 5137040000000, 3185170),
   (29382246636476925538095129846366841059805780677623245863357848710198475256403, 20548160000000, 5137040000000, 3185170),
   (29394390035006337793946242623215093349706580688583974476998184114238678505779, 625280508800000, 156320127200000, 96924700),
   (29792112066496635443132862018895967760728869616648005565440974707451097449146, 410963200000000, 102740800000000, 63703400),
   (29890748512350786481880495089002219770675463721339670456423973159708876125039, 400689120000000, 100172280000000, 62110800),
   (29893811312152058364396484076324808160281102775848415096919275080837253414711, 51370400000000, 12842600000000, 7962920),
   (29909548861450738442958057797872735629788112682810853683429817887497826833238, 182878624000000, 45719656000000, 28348000),
   (29936094924472703362246633364896276722665234184440955341505165462590527400314, 318496480000000, 79624120000000, 49370100),
   (29937129345158668130347376236815448704827539976330119689815270835598666161162, 41096320000000, 10274080000000, 6370340),
   (29946365548933122806106371015673028066667756544564634376635122777160444390751, 10274080000000, 2568520000000, 1592580),
   (29956258179431602840310461268138307482929869217247160446396152494471912515126, 104980549400000, 26245137360000, 16273000),
   (29985934574622726353011149281233630170241366325105704317782759441194496543812, 43151136000000, 10787784000000, 6688850),
   (29989549217833384931245760191753584220162547782328869733304684465081329215239, 20548160000000, 5137040000000, 3185170),
   (29994819678221266103420847329291504145812267753521045447963763264176872917013, 143837120000000, 35959280000000, 22296200),
   (29994902174588479403700779233192741986271345158480184427839884669155680259335, 10274080000000, 2568520000000, 1592580),
   (29999559691782787690404497447532650620199163387707897076197954038723855678570, 20548160000000, 5137040000000, 3185170),
   (30011370691642394482865299350325105270004155872781445318553846095665385268601, 56918403200000, 14229600800000, 8822920),
   (30015830901738163792838887864080530681535023843558172600274425939918052846927, 102740800000000, 25685200000000, 15925800),
   (30019981010926352247296966615061832971862685071799316125073376179892716018212, 10274080000000, 2568520000000, 1592580),
   (30023810384139687690044352887792881056424960910913706600075499980694182058252, 61644480000000, 15411120000000, 9555510),
   (30051590091483959561829752122823523263734713620906628584444330797170936131106, 12328896000000, 3082224000000, 1911100),
   (30071070424442846376021820520611309221352921017075964189444767958479506193004, 102740800000000, 25685200000000, 15925800),
   (30074441326495191444380573269581922382468188317001420085029427746685235516282, 41096320000000, 10274080000000, 6370340),
   (30081647256058325359522288639561686824837886718579751112072040959185206355460, 82192640000000, 20548160000000, 12740700),
   (30082614794860389600026974806830915618641437778619826316394343436676837863471, 168494912000000, 42123728000000, 26118400),
   (30101490413452145869780287709313172877021682007559644577433964415806014834786, 102740800000000, 25685200000000, 15925800),
   (30116810701455378585059250585721002973231041177348137830995458426173960724313, 41096320000000, 10274080000000, 6370340),
   (30131079119539770466392588514480112505626325564432867098182632646897588284011, 1027408000000000, 256852000000000, 159258000),
   (30136081098614351551115240792050342975817712253630747498706914803026984657239, 20548160000000, 5137040000000, 3185170),
   (30157742112299483092243009855854239672389697285288661969740619495844809883968, 205481600000000, 51370400000000, 31851640),
   (30162000128038749358879273908400962444657582078571332938515282811225895375670, 10274080000000, 2568520000000, 1592580)]"

definition rewardees_12 :: "rewardee list" where
  "rewardees_12 =
  [(30177854746907863306414368839548105947603853949278368464248061454302578834708, 30822240000000, 7705560000000, 4777750),
   (30202479457267499886248729453250699598763646786408722754022698507964029791808, 30822240000000, 7705560000000, 4777750),
   (30206484852420430424395565978427409516225759112447665744751211271180558247239, 20548160000000, 5137040000000, 3185170),
   (30234450941881222122667227597962205054679286235831921943681036094032121266703, 154111200000000, 38527800000000, 23888800),
   (30254614717275346220569095791989110269670469609028033987775727028689878585937, 205481600000000, 51370400000000, 31851700),
   (30264271034311558387509151116744773142494227614521405653655399808848167050828, 102740800000000, 25685200000000, 15925800),
   (30279463386771534369162733110312538731114239842945714590329616589069948858683, 22294753600000, 5573688400000, 3455910),
   (30279547023364408257785264022055905112700617122913683589590679345322964017750, 16438528000000, 4109632000000, 2548130),
   (30762828696200785910443158404275826932264905709357838444844782932020794787452, 745898208000000, 186474552000000, 115622000),
   (30811259626008550039320284643474108819448020183782269214536407977804087553143, 10274080000000, 2568520000000, 1592580),
   (30818344857011514435035254394181872316950704507715330664095601811840369924130, 279454976000000, 69863744000000, 43318300),
   (30820413401787091688993856060077486518880366591291045765596019618517123857991, 65754112000000, 16438528000000, 10192500),
   (30845598623657370858787506672737622896398301120356372785063196931104930956836, 10274080000000, 2568520000000, 1592580),
   (30914848286827843899149610143099966635366271570621608717339894031998247214626, 20548160000000, 5137040000000, 3185170),
   (30954627161005569444195598089465077474194845776890286627377681068396401959234, 205687081600000, 51421770400000, 31883500),
   (30955725841018685046083814920307727233439247609808531042517217009441668489472, 20548160000000, 5137040000000, 3185170),
   (30961747295388493317766467591770148813834164427361108096518310344404324529952, 102740800000000, 25685200000000, 15925800),
   (30989400982344715489605395811001570873262099406096428159526256277531792051765, 51370400000000, 12842600000000, 7962920),
   (31001956393618579687634866636865461862482236463344119575156101324583008348767, 20548160000000, 5137040000000, 3185170),
   (31012481166718237187012567166937747820447153143789972569167356528557133642338, 20548160000000, 5137040000000, 3185170),
   (31027320239446251325723492428271488666477943084048035952804310455985888493846, 154111200000000, 38527800000000, 23888800),
   (31033376394550262963508886979306390233373969257448319210942534375785622660608, 625485990400000, 156371497600000, 96956500),
   (31068448755211376432651277073991196280879202419135683566288327384456012366686, 10274080000000, 2568520000000, 1592580),
   (31084471150036862216463327796779156633735825554583557132833406745069075251307, 30822240000000, 7705560000000, 4777750),
   (31094310902835106913485543789881638869082209284284210940419257615907703586661, 51370400000000, 12842600000000, 7962920),
   (31095321368149677403635023376832328686518843329040411636631817680248216037155, 20548160000000, 5137040000000, 3185170),
   (31132842124223022836311446809661008291010614469849162316976994756994625263709, 205481600000000, 51370400000000, 31851700),
   (31178881668391685780979570048302831822471778336304037234936949589948795057490, 51370400000000, 12842600000000, 7962920),
   (31192258288514166719161151808355093377372419316983103792390877485071179621645, 215755680000000, 53938920000000, 33444300),
   (31723272211994703007158577368732982423059723764617147576540802750696813759851, 309249808000000, 77312452000000, 47936800),
   (31769372280315244729632199838589944582532475726724062594923779103052031444851, 39041504000000, 9760376000000, 6051820),
   (31811272692502943708205048820512769334774280663249162707316011886751733261874, 13561785600000, 3390446400000, 2102210),
   (31837946275181958311111847500641233914557548618048093081503889928474220503117, 30822240000000, 7705560000000, 4777750),
   (31847283942940587588036743172488759420538618352409047861272482275278948317816, 36986688000000, 9246672000000, 5733300),
   (31851013057675026101557276399675857698007801838357572107144926297349637187653, 2054816000000000, 513704000000000, 318517000),
   (31861386033673571762128386634385666623760988442036957400457023603598891139693, 384250592000000, 96062648000000, 59562700),
   (31868061947654544243648611302047725114898342190232999335457169840105516999805, 12328896000000, 3082224000000, 1911100),
   (31873644373915136506814509088984462448352154458120502217014660588166828361327, 20548160000000, 5137040000000, 3185170),
   (31873735048677070954680932699056948927420520011414952716488396823808501096518, 30822240000000, 7705560000000, 4777750),
   (31903756755135171990453343632226215026484355790800022473610321720651379606069, 205481600000000, 51370400000000, 31851700),
   (31904866336898169737848783588248404511077568021007611841307507917925352545834, 410963200000000, 102740800000000, 63703400),
   (31908848818500016532544915327974972071067690030747861230646577187019328137012, 11022238510000, 2755559626000, 1708560),
   (31931662995624265741426736582320651791714351811148589288230625414782297250849, 22602976000000, 5650744000000, 3503690),
   (31946771590794399234792646017301348327927710735105640197074778365136623919376, 164385280000000, 41096320000000, 25481300),
   (31964014713231524902612042954987324743019250519691718778607954128050824068864, 20548160000000, 5137040000000, 3185170),
   (32048681816689839992850815527868563085406567761208622842301661296956555951109, 10274080000000, 2568520000000, 1592580),
   (32069612216100298846702756653325462128835536767632076663489703655149682574175, 823981216000000, 205995304000000, 127725000),
   (32074806772302013941760805622280443340669272143190853667121867152467238974273, 20548160000000, 5137040000000, 3185170),
   (32084823204212795061248990471464090977200371473509412834778982376095963070300, 20548160000000, 5137040000000, 3185170),
   (32090229154175831361971509663065446010460608438505145627793982558804593671194, 82192640000000, 20548160000000, 12740700),
   (32105033351984448865215693637750187385600769512218304497680328133020572741979, 365757248000000, 91439312000000, 56696000),
   (32105964821024568325803078950457441777492406392330480705533018286329900139095, 94521536000000, 23630384000000, 14651800),
   (32106434074049309243785587668145952559434624172797603288310684967344458252380, 10274080000000, 2568520000000, 1592580),
   (32579131995806265069587218183303562734584786381685563511318496684527638924800, 10274080000000, 2568520000000, 1592580),
   (32590339024599184219800586838304569687164239571200839336512352600119876616242, 41096320000000, 10274080000000, 6370340),
   (32592606714865685195539844630942221419339874991706254908875574294378288005890, 61644480000000, 15411120000000, 9555510),
   (32633266184669793644647459419275719708008622818315218956102952073208146562868, 22602976000000, 5650744000000, 3503690),
   (32633917225803341423110835881047621825895481108623851097522136209426448818733, 205481600000000, 51370400000000, 31851700),
   (32682656560238442117279738241046370009672261656801643011113470480595484637273, 10274080000000, 2568520000000, 1592580),
   (32703021650363175084259287148482699127381391323568686254671452650627100752640, 2745316369000000, 686329092200000, 425551000),
   (32715053632292590142526681338329953367719114981908870829037376659308943425047, 308222400000000, 77055600000000, 47777500),
   (32780508674247247461507812647649244197984595356238696242597870669095825907540, 12328896000000, 3082224000000, 1911100),
   (32791274071810595807154543290961579711826039332708087443188253895567321287496, 49315584000000, 12328896000000, 7644400),
   (32808879366070812813746680359966042463870588022083071323805703658651293027374, 565279881600000, 141319970400000, 87624000),
   (32813286445199972538823107021421501091122770449321122202450491009302811509781, 246577920000000, 61644480000000, 38222000),
   (32863716095728677866870638241099337879465744688729192462744635270875342202740, 20548160000000, 5137040000000, 3185170),
   (32878402473949469043657394309289747621858479300778498267564965060814629787441, 10274080000000, 2568520000000, 1592580),
   (32892626919183512104177926930013694552465167749146395929905312119877184043336, 246577920000000, 61644480000000, 38222000),
   (32900589995929938510255085825500695328685613780412534059650017898187096130822, 18493344000000000, 4623336000000000, 2866652000),
   (32906733597878083681177347476308542413153475428548648592393179107182100803111, 10274080000000, 2568520000000, 1592580),
   (32908729052414825794546733179672675517963368468621626175972154612144889815632, 123288960000000, 30822240000000, 19111000),
   (32928394653034300859659192133157159178387148522639242932672816840170412464959, 20548160000000, 5137040000000, 3185170),
   (32928929529323432835437120241338846243455046924574127759064416696285267845159, 10274080000000, 2568520000000, 1592580),
   (32938429116160512905247047724154213026955351470984137514304303980083528429917, 10274080000000, 2568520000000, 1592580),
   (32970439437823827194429218811523409733016512531162474246251956176208455037225, 205481600000000, 51370400000000, 31851700),
   (32971761604860778666476043411253191246033734471850821668360349622402993865004, 127398592000000, 31849648000000, 19748000),
   (32980661247098257679920866768795295144561321441478466559465891915606063086925, 30822240000000, 7705560000000, 4777750),
   (32982442646300491450313076117867723837476070071532706562408282480380931748379, 12328896000000, 3082224000000, 1911100),
   (32990852805523117951572957759668150047941569624577736811945674321652412558192, 10274080000000, 2568520000000, 1592580),
   (33006323586411197850109406673387258508149282292942167447708038387993522154756, 10274080000000, 2568520000000, 1592580),
   (33514853780133080200045743606605116129798226511918829588654277395134977839643, 1027408000000000, 256852000000000, 159258000),
   (33533275251151467162117199433874481421046604077035994713023011028187461654597, 71918560000000, 17979640000000, 11148100),
   (33544275630328574266913173628879502861076236047814778151781518518310435277112, 123288960000000, 30822240000000, 19111000),
   (33545280836142738510474144513043405497543989562025249527108873041138896190295, 30822240000000, 7705560000000, 4777750),
   (33588948041971277952574785388057484270313537095194081384849393273994490049065, 141782304000000, 35445576000000, 21977700),
   (33603367368383396084780999271917544330285231497735997502933300973371851334705, 20548160000000, 5137040000000, 3185170),
   (33648753144554084546046344864977414800786870903164237669585616821323892111904, 513704000000000, 128426000000000, 79629200),
   (33657030029244541961240498173829980268969711627797943530581512121323956224595, 184933440000000, 46233360000000, 28666500),
   (33669917039342500540961579074850125539615523772854564196604413945893289548033, 410963200000000, 102740800000000, 63703400),
   (33709509513614860635394094099771726973936215824880707794284354079726080475660, 71918560000000, 17979640000000, 11148090),
   (33729428480363383052046102527121762314292965977831274615042951708255677923628, 10274080000000, 2568520000000, 1592580)]"

definition rewardees_13 :: "rewardee list" where
  "rewardees_13 =
  [(33737811961888178769420759801334190327775316044007368292243228715750050489362, 164385280000000, 41096320000000, 25481300),
   (33739309565907972293314816424076403050687842869724235664423712517124430447187, 647267040000000, 161816760000000, 100333000),
   (33745727596002042775659842797393858272622530922807107258498263932792573613131, 205481600000000, 51370400000000, 31851700),
   (33778866616311655659372125795747398671473874119037915905709923115036557271579, 10274080000000, 2568520000000, 1592580),
   (33781175938070140120241348433378211036871371117644403128704835911252806516801, 34931872000000, 8732968000000, 5414790),
   (33798752613598681504198700992376922137837515573783836887911939427006016814391, 205481600000000, 51370400000000, 31851700),
   (33854182853591373985910448856544173555649818885061622977757136349106199653138, 123377111600000, 30844277900000, 19124700),
   (33861240756351182171117736578894473460574571932578111492702278161662820469843, 57534848000000, 14383712000000, 8918470),
   (33895891530861896940906261210570092780484065935988510883342850864532670999553, 10274080000000, 2568520000000, 1592580),
   (33920216094890157934314580430428872109258843604391002180310756138967154841667, 410963200000000, 102740800000000, 63703400),
   (34400484792341742262231172682267183016796983034356443434869278713906143034731, 10274080000000, 2568520000000, 1592580),
   (34410257548682610187236746779025130765836061226856587222254880760389272151071, 14383712000000, 3595928000000, 2229620),
   (34436992020432351400306280733643318631099574864674647951562287995824901621270, 30822240000000, 7705560000000, 4777750),
   (34452141959037392294618128298561249358406221288535252369479366205744883526198, 410963200000000, 102740800000000, 63703400),
   (34465043058018851433936675540159387815365991309958260516787635563234738522980, 51370400000000, 12842600000000, 7962920),
   (34475137094616928506591904125443626552055633657323479327398276935375820986476, 12328896000000, 3082224000000, 1911100),
   (34476205229571498145760405309382628520104911635894460932396332940839245328231, 178768992000000, 44692248000000, 27711000),
   (34485783575595820025694100649226828395379022069888549331433669891839491862901, 203426784000000, 50856696000000, 31533200),
   (34493240451529107497709229321608243103719286512003028893191287903639807822644, 10274080000000, 2568520000000, 1592580),
   (34514003767681232051968516562176854614098419974695720596337390983872986509689, 92466720000000, 23116680000000, 14333300),
   (34520903138227930223811678126902514464724035290193511661514517068882877409057, 94932499200000, 23733124800000, 14715500),
   (34523433988816039673144968575198690507669873888315945576607788892478812927490, 63699296000000, 15924824000000, 9874020),
   (34535137601563924105506862501347031003555135794888805739573285954377524069939, 12328896000000, 3082224000000, 1911100),
   (34537673672826313563409806617254722212439787147335033669554701313450564269329, 20548160000000, 5137040000000, 3185170),
   (34540432598015333082953574973147010715947174956117680893646636395347084073831, 20548160000000, 5137040000000, 3185170),
   (34554900086207394154660244025827442272976761778879005512065647757987448748819, 10274080000000, 2568520000000, 1592580),
   (34587195887508517814571286995099231383400416906780968637504305711110843314249, 20548160000000, 5137040000000, 3185170),
   (34592447869224421149797711910201186683930842930509163152305180703074944366697, 41096320000000, 10274080000000, 6370340),
   (34614038929918732838956936526926372900548546575353690509397419239613846942002, 20548160000000, 5137040000000, 3185170),
   (34621067090611072731965530122247642274712880856803403424188736967917472214109, 349318720000000, 87329680000000, 54147900),
   (34641146896733291599525280964346942292946145661993977027838415833918598663264, 18493344000000, 4623336000000, 2866650),
   (34661235175174895367072071713004429272225838697331942166518664288162637286945, 20548160000000, 5137040000000, 3185170),
   (34695490562625301430431372601312053002338473187636304794787536473440468760186, 20548160000000, 5137040000000, 3185170),
   (34700143044859118268334501431134727564566194749613951885716371013656415095305, 205481600000000, 51370400000000, 31851700),
   (34705467513886594812340793416126418449037572735777214692267687567912428889195, 41096320000000, 10274080000000, 6370340),
   (34718461865547083662487707617628405898037023476342841288736446037435858645530, 51370400000000, 12842600000000, 7962920),
   (34803387741362713665248889207098158689281201494071632690264517999888549180728, 16438528000000, 4109632000000, 2548130),
   (34805816114129619331113616632484062885012403592059947879510879544431821762345, 20548160000000, 5137040000000, 3185170),
   (34816773375939861921790164729218186152186181028451302232879926144096221929488, 45205952000000, 11301488000000, 7007370),
   (34823915731780257121925042641928879126288768192156331318741604723894161055611, 513704000000000, 128426000000000, 79629200),
   (35286257331857741769775471901464170999873137491880089415393653437260393093465, 10274080000000, 2568520000000, 1592580),
   (35311165881544168094138230150674792108578661520217864266703094013179143127162, 30822240000000, 7705560000000, 4777750),
   (35329775178402335068793170781556626813779713630293714206617564226080595460154, 30822240000000, 7705560000000, 4777750),
   (35350099322053597908198026341818999304918472107248861081012663675510311778877, 20548160000000, 5137040000000, 3185170),
   (35369646490050072400103489523954800904145987567027618410914389898767306336609, 61644480000000, 15411120000000, 9555510),
   (35389008751206251421326696963418142619760277127924584666217594750249852336137, 1341794848000000, 335448712000000, 207992000),
   (35390335837396187327630346309262093922402097978290742485403408815652009729622, 10274080000000, 2568520000000, 1592580),
   (35392142640459160899768010649020794448047942344929015350938101602819772760378, 30822240000000, 7705560000000, 4777750),
   (35406589093426902973073252081110674744093602541772629660606252377177548925788, 82192640000000, 20548160000000, 12740700),
   (35442878297823983371793355519237610003856561479148450149300838263244666915701, 174659360000000, 43664840000000, 27073900),
   (35445578971581229464401906675806154939989851515725426720944705778890318112080, 71918560000000, 17979640000000, 11148100),
   (35481976446176979546039862574807755009501180064768742069864708081580706373426, 164385280000000, 41096320000000, 25481300),
   (35493422023243726215222311084012685257503425802046446000370409624190192867163, 20548160000000, 5137040000000, 3185170),
   (35519285408880863344247387647078060705529722737709306002559269742125368748895, 12328896000000, 3082224000000, 1911100),
   (35559143061313671492170332473945796994243834299099584886809436865203856234075, 710029816600000, 177507454100000, 110062000),
   (35563360827112577067150702653714587719590542769493194176048675240010359304239, 41096320000000, 10274080000000, 6370340),
   (35595174236147816122943840967260475609961792857581023847574737321726124914814, 226029760000000, 56507440000000, 35036900),
   (35607528366726316144897397515478855233532904588580542550004511349176985644069, 14383712000000, 3595928000000, 2229620),
   (35619380571530454182266449670168096592860696692994009060334215034380852114013, 102740800000000, 25685200000000, 15925800),
   (35632153899303933357993123709111970179004356833799688618066095376915654407460, 20548160000000, 5137040000000, 3185170),
   (35667814253995235225103726722681781854611733511827028212391154376507132773936, 14383712000000, 3595928000000, 2229620),
   (35687637121346685107042526016379486035690537564353690354316513954496774291275, 226029760000000, 56507440000000, 35036900),
   (35688462220942000998242815070252222593999997228280361181467472224505528527970, 10274080000000, 2568520000000, 1592580),
   (35711288231551047400483504394813219025670413371958647492391253413358718886158, 51370400000000, 12842600000000, 7962920),
   (36200692505443656965914372247292148788184040098883495413485012655391059505435, 482881760000000, 120720440000000, 74851500),
   (36247755242192178071228962678564733147957495526994205806709153050641430411276, 61644480000000, 15411120000000, 9555510),
   (36249867201212556897341687126008230325851616996077938195451422757855914871104, 22602976000000, 5650744000000, 3503690),
   (36261468972019578416272726577047329580445896065919438415574291108694049470215, 10274080000000, 2568520000000, 1592580),
   (36262349413619990038500550515179679698766286737081962129558404722434585697293, 69863744000000, 17465936000000, 10829600),
   (36265540072722083614973628365521306473286454680839983032209993533875402168890, 10274080000000, 2568520000000, 1592580),
   (36273176867720360037696315669786943498028493446629151309247053325526387590004, 24452310400000, 6113077600000, 3790350),
   (36275844200493766685236518377014213637984074027852691290042164777620685733718, 61644480000000, 15411120000000, 9555510),
   (36284342751400076279678195582677702651950014567837984746322324531180719097382, 12945340800000, 3236335200000, 2006660),
   (36286083148816122786124418140867187879869903667826701818243769544920395318064, 10274080000000, 2568520000000, 1592580),
   (36340662179649505386627984157317081058771294036585560516356593520696553639759, 30822240000000, 7705560000000, 4777750),
   (36342015145017779884653119939745990854779237307487761477529801956550815721335, 21575568000000, 5393892000000, 3344430),
   (36348826356397532603546901786781374747083520649732373910944717518953254792792, 10274080000000, 2568520000000, 1592580),
   (36349631536811504782889753654310898603833053874412075236818934387989677730935, 17983338670000, 4495834667000, 2787600),
   (36406295163195197869993930334658360508621028725280165622943757133152097614146, 234249024000000, 58562256000000, 36310900),
   (36437601124069852518996289768609366856720770317807663549646738482700579523180, 123288960000000, 30822240000000, 19111000),
   (36442253407811184901076758490504458249843285516156132345188350313041017567016, 68374207850000, 17093551960000, 10598700),
   (36452105585344519976498706058282507512203110205763364982889294874002263678721, 10274080000000, 2568520000000, 1592580),
   (36465505373107512832077560028997905704019611063828310418702766632792209228550, 832200480000000, 208050120000000, 128999000),
   (36466653123080893523314449727953861803036558815847481689549461200595911763036, 20548160000000, 5137040000000, 3185170),
   (36488729635463605750899060242811151923085077541556386324976130638439613492583, 20548160000000, 5137040000000, 3185170),
   (36513685173048159375811358094137736559377286856573072492979864845329582256912, 102740800000000, 25685200000000, 15925800),
   (36540795652174316934051639142015795049985630596607324294926010024480889878563, 256852000000000, 64213000000000, 39814600),
   (36557797547551369592258806258362957048461915173292031463900661622603679268918, 824207245800000, 206051811400000, 127760000),
   (36566160098844171635965803476068054653346334363731536105746930395120628094333, 10274080000000, 2568520000000, 1592580),
   (36574936039894816626572070184059133584241091821458113364050060019018553538820, 51370400000000000, 12842600000000000, 7962922000),
   (36589476620645793451947313080964769493330556246824355158975813998829902183983, 1438371200000000, 359592800000000, 222962000)]"

definition rewardees_14 :: "rewardee list" where
  "rewardees_14 =
  [(36593419727977257723227380304578845508241176947049727182515179526346613029692, 41096320000000, 10274080000000, 6370340),
   (36621313472185959383362753788576794688130895302665031123983165344844831259004, 355483168000000, 88870792000000, 55103400),
   (36631805160758188480513405676258799591334407509642747842867053288705457410682, 828090848000000, 207022712000000, 128362000),
   (36633538074906303962528612372848517054929150415766979300693879871547022357601, 20548160000000, 5137040000000, 3185170),
   (36635726466513930191674732662496085991263642767785405677242244936766390025020, 10274080000000, 2568520000000, 1592580),
   (37094787043596814996365219250693049081341000532672706923109969758968824203568, 10274080000000, 2568520000000, 1592580),
   (37107773489156289520578151276757869526377557628606382432467929421993031638036, 10274080000000, 2568520000000, 1592580),
   (37111097051545327083311103882333423726600327574367433592172859178236097733183, 20548160000000, 5137040000000, 3185170),
   (37111578839205616047161011094410578089395995463158142737646074242867191683703, 30822240000000, 7705560000000, 4777750),
   (37112618474445593972085368710314365267335253678725865210930750891798245326409, 61644480000000, 15411120000000, 9555510),
   (37117550777817296516352932100184789670257566211988651206805887990337458529819, 20548160000000, 5137040000000, 3185170),
   (37124447614741816007056993238881321827061005565953431320531174315050245766706, 10274080000000, 2568520000000, 1592580),
   (37128384719190513788456841352006155394540880584178554833186852596506509299283, 68014409600000, 17003602400000, 10542900),
   (37139143539253669269483834169989291196867508942852756464255355225060744080197, 226029760000000, 56507440000000, 35036900),
   (37141613415185881626254443467115532671951624504438503514534416258511863592242, 20548160000000, 5137040000000, 3185170),
   (37193278429627966789550938318701773536845405569388931155040337885961778786640, 20548160000000, 5137040000000, 3185170),
   (37243729479567920667440828437080222088979166718108168683400322858099691644488, 10274080000000, 2568520000000, 1592580),
   (37268192053428903526462694233086758512817799843703307018518192246262537269570, 61644480000000, 15411120000000, 9555510),
   (37286412310385558164692924463950043775668346777313737185870992919236596159546, 20548160000000, 5137040000000, 3185170),
   (37295997546892654051994112322321114828654845501382435127657153013210284262957, 10274080000000, 2568520000000, 1592580),
   (37296625542158824231702596209890916787081378070266274576483852368314356369995, 242468288000000, 60617072000000, 37585000),
   (37298539361465386408736920772974750425841042790615004358992801691840842116370, 65754112000000, 16438528000000, 10192500),
   (37328823406145081027691404149865752853207948290810149438472621572699436042540, 513704000000000, 128426000000000, 79629200),
   (37343282445557478588099257168326230087448950820414934797616276970768513398592, 102740800000000, 25685200000000, 15925800),
   (37356453890127200928626585779016165277686171249776376396292960928395684976182, 2054816000000000, 513704000000000, 318517000),
   (37381265355301374863919108575286822467429471839292123809098073223825684805489, 61644480000000, 15411120000000, 9555510),
   (37414922479296679123150444956972737063738722246718310813607677532964091161168, 41096320000000, 10274080000000, 6370340),
   (37414931666969859297051115410155807693987672935641089506371306360171421307458, 124316368000000, 31079092000000, 19270300),
   (37430296067848378019598573620833570478200399195501879381925943814908573067351, 1027408000000000, 256852000000000, 159258000),
   (37447310682782886975877439923832956151726197008087382328905864251051565895488, 318496480000000, 79624120000000, 49370100),
   (37450301703424956471461152130627030947499181945468984208585008199854048656237, 12328896000000, 3082224000000, 1911100),
   (37459806970029684486397673042273613370213489825696043441991906789270047296531, 20548160000000, 5137040000000, 3185170),
   (37482010729642082893823331022839344274805800236701496657802242953161169584506, 1387000800000000, 346750200000000, 214999000),
   (37490144303779938409356323808867643940210249267420234834219988525402040752195, 10274080000000, 2568520000000, 1592580),
   (37499775506671556524850995326233456205564454523857766559072772030974490542594, 41096320000000, 10274080000000, 6370340),
   (37530122137437753475238400661494019478237462670128905122015995309535195758956, 462333600000000, 115583400000000, 71666300),
   (38053901353381430825159566693830881491119034724574750525772111756951261681017, 10274080000000, 2568520000000, 1592580),
   (38084013739907900245296387104939873299606474599283671582617020836780609653043, 63699296000000, 15924824000000, 9874020),
   (38098208215197771376778028902746106221409407241296900558694183564408072995425, 12328896000000, 3082224000000, 1911100),
   (38102426778223389911224660257383463374147804448887698309930978126216344487786, 10643946880000, 2660986720000, 1649920),
   (38119286130985999677204853453379762747417231599325271612048112185466873048903, 41116868160000, 10279217040000, 6373520),
   (38147199786243509786367373776720694539541073977195602769016679381639687285541, 945215360000000, 236303840000000, 146518000),
   (38152790178118962158596231789954541565095193234605482294531131373827823119191, 20548160000000, 5137040000000, 3185170),
   (38159305871948015564481757945949009771338965586570269385000543041627633021525, 30822240000000, 7705560000000, 4777750),
   (38170328228574183282502610853698221655777786024380101592090932805757655516237, 20548160000000, 5137040000000, 3185170),
   (38213960857711970019226830167188054459147483330317820147309842399918857630248, 433566176000000, 108391544000000, 67207100),
   (38250013001353228448915432045016759489558081318761968097005841127388598919521, 16438528000000, 4109632000000, 2548130),
   (38259912924371959363536498447914987610740924313904660977412727016994081262110, 12328896000000, 3082224000000, 1911100),
   (38270259664592227570988283574957014397064410117683869978695011309845680625532, 10274080000000, 2568520000000, 1592580),
   (38293446925707840159965335520026098508796498164168475353599024344210296359967, 30822240000000, 7705560000000, 4777750),
   (38310881541270622143448719710366804186826499077675543074396433209568411580186, 495210656000000, 123802664000000, 76762600),
   (38322317446128923866658648045532655997540841882711675243811926153598357761914, 13828911680000, 3457227920000, 2143620),
   (38322633861892238569354979018777814686987040915823889133217641714099140397413, 30822240000000, 7705560000000, 4777750),
   (38337832952340795762372302834246468379687724554692833142534516840267007174206, 20548160000000, 5137040000000, 3185170),
   (38351737470224414510018659151309920707430022673911240702655508474670421466400, 2568520000000000, 642130000000000, 398146000),
   (38352258638261629924737183360182001903031706977021139515674094164049011997191, 10274080000000, 2568520000000, 1592580),
   (38389096780319074645681349979129342387232907325773529359169282517242417575741, 102740800000000, 25685200000000, 15925850),
   (38399570453521641765961409912068404651462520391270540487696923230529304835407, 61644480000000, 15411120000000, 9555510),
   (38400010465969333298940359700931015577188266672803974842513356302925497836897, 29383868800000, 7345967200000, 4554790),
   (38403449254253106496319841544384401233619266782255607155985801356331690366539, 123288960000000, 30822240000000, 19111020),
   (38406192527297495010953308494651371035517701006478841287346230040229139455051, 20548160000000, 5137040000000, 3185170),
   (38435819998273154472451822316896027008186376891360239609940551736280998237014, 152056384000000, 38014096000000, 23570200),
   (38441777339194383767724634536306979874530992921478454504000640067214073155670, 10274080000000, 2568520000000, 1592580),
   (38906858659875468008473447823032957751552987789842147039660558764107474246980, 30822240000000, 7705560000000, 4777750),
   (38910777355428358458925611462261594178358389172443053172030282754983067439730, 102740800000000, 25685200000000, 15925800),
   (38949007078500314823365980245356319919630400470843602121710831974308110817831, 10274080000000, 2568520000000, 1592580),
   (38968759589556803346684579257719992895374486232341100295739207308291820702485, 123288960000000, 30822240000000, 19111000),
   (38983297638627146458624586470312723250813621022118418269199045144578114916121, 1520563840000000, 380140960000000, 235702000),
   (38995745482556189698654271528687203400564001055493694313491088717220665080619, 41096320000000, 10274080000000, 6370340),
   (39020232025982542603018842207553247297542041429163707257483626367037150925665, 44178544000000, 11044636000000, 6848110),
   (39020302552915363735004567116578612426529297379007274715040346287361592038486, 82192640000000, 20548160000000, 12740700),
   (39023568304693514087533612455962674792692394899078659208501677131889916948495, 106850432000000, 26712608000000, 16562900),
   (39090250367454395841812472601280612608712769737732657389516579325781613111574, 10274080000000, 2568520000000, 1592580),
   (39091729784663992061772213483393786056424480178768989847280072232363910735655, 174659360000000, 43664840000000, 27073900),
   (39123797682993919410932428427419288200220436561236532558601060652214754538013, 102740800000000, 25685200000000, 15925800),
   (39151365225286710804460101396066636833618793582671364218268939475130139906665, 413018016000000, 103254504000000, 64021900),
   (39156428666121057784657274816820673124303318535056764322675337622152757474426, 10274080000000, 2568520000000, 1592580),
   (39190990700764009078975720529521206511250104889880206814656057893219176552535, 51623142370000, 12905785590000, 8002100),
   (39192937543295343139047010864301098672998483593412894466940287917314369890566, 20548160000000, 5137040000000, 3185170),
   (39223819744159786635457361214682630535007402195497566958921870625892575884638, 10274080000000, 2568520000000, 1592580),
   (39224719097749923131871409951857039714761529969380716484186599047713757709391, 30822240000000, 7705560000000, 4777750),
   (39238801669927081651298158090028122637351291601991506124769575471497027331669, 10274080000000, 2568520000000, 1592580),
   (39287906610906792782443780275713192286244195532967832836295483157501806477644, 61644480000000, 15411120000000, 9555510),
   (39302285830344481627686284875560899526202082664374056688875362142375753400428, 211646048000000, 52911512000000, 32807200),
   (39328635346562657107152797564492260061881485060904742492582145240641349499742, 102740800000000, 25685200000000, 15925800),
   (39342948468052807333147485078679171269779301612626538526294108181214972958776, 21575568000000, 5393892000000, 3344430),
   (39830888321368431062846593144387252926324745211647359230606862977411702348156, 10274080000000, 2568520000000, 1592580),
   (39831117337065743054275329734884061712597208894893701500206636944707072123512, 41096320000000, 10274080000000, 6370340),
   (39838353939508925573416947855666520286393097797082534696542775985497728751204, 12328896000000, 3082224000000, 1911100),
   (39947494809644554162861842821790002859790292770649177152746479296574521933901, 10274080000000, 2568520000000, 1592580),
   (39965021283692823284515142254186352764397698207695930433931634337044184544579, 102740800000000, 25685200000000, 15925800)]"

definition rewardees_15 :: "rewardee list" where
  "rewardees_15 =
  [(39965615793827947250594222416816353112782353565753010669964992985084610160917, 20548160000000, 5137040000000, 3185170),
   (39972661565036794436972978343170519000256877638205055429873675625511350556760, 10274080000000, 2568520000000, 1592580),
   (39984302206845358432874720179313437654670962801834842058118644504903161017904, 20548160000000, 5137040000000, 3185170),
   (39993714132375736324101766869660547044908442268224168484433463031757687506298, 18082380800000, 4520595200000, 2802950),
   (40013513204381604068759727040742808283751052543058208101923266320562457867862, 20548160000000, 5137040000000, 3185170),
   (40086461841914963157504804361459709749549659170469421234058475772199959911763, 205481600000000, 51370400000000, 31851700),
   (40101137731331444172394881733558686797866248095390879410519117431350167234153, 20548160000000, 5137040000000, 3185170),
   (40103825189888610707473112962897509601274402510854256904111318448663224014170, 12739859200000, 3184964800000, 1974800),
   (40111469515476597010234296430748669585449484227218284971984483684927810485587, 30822240000000, 7705560000000, 4777750),
   (40146231398030876199079661450612360396597607632741521625477296175152504501555, 10274080000000, 2568520000000, 1592580),
   (40159294685354889138287660340092325202962233114852271765948212857033955644758, 10274080000000, 2568520000000, 1592580),
   (40201373504387576893743489157460005562597775468620783945872250114120053968502, 41096320000000, 10274080000000, 6370340),
   (40214869407038083283002304790688648388678247338955837672510979945565572060933, 61644480000000, 15411120000000, 9555510),
   (40218162544527264323176522623382288611471525472636679948752226354671277658691, 206940519400000, 51735129840000, 32077800),
   (40218283158286091334337851416034342754352061716511963603739697944523217023509, 10274080000000, 2568520000000, 1592580),
   (40246753090886279416463159930833730573704310889600485922898174430543069298259, 205481600000000, 51370400000000, 31851700),
   (40251932474366076951421756320007934313800695347509292201520561104643846486143, 205481600000000, 51370400000000, 31851700),
   (40719904843955138918171903714260929239770491710263335473031789937045383749141, 31233203200000, 7808300800000, 4841460),
   (40741421994676081403104686686271010031918238208559904565180662887472723023152, 10274080000000, 2568520000000, 1592580),
   (40757502690677670309718347574127415789892932985274073818075818337111779431271, 205481600000000, 51370400000000, 31851700),
   (40783977859393157909832230869600155730370160056040850573131320123836722685013, 205481600000000, 51370400000000, 31851700),
   (40823985252010735399564355636348044631564605017326074472794893051300657884542, 20548160000000, 5137040000000, 3185170),
   (40839596884431119355009618349115580024255429671928398600735559392010755060227, 51370400000000, 12842600000000, 7962920),
   (40850493532647868465699890321617581669226800149381189550333070497465461645571, 51986844800000000, 12996711200000000, 8058477000),
   (40857513042931729932411643617945207461460064978469813432742785568510014903064, 10274080000000, 2568520000000, 1592580),
   (40876655973681348792623878269082889464156823246517644160362628898505689336422, 208563824000000, 52140956000000, 32329500),
   (40884899579964725774649507218043765094989123021088026179106638628670294290747, 234249024000000, 58562256000000, 36310900),
   (40910987481424852307291676168341409404160167510312149665238385831966522896174, 61644480000000, 15411120000000, 9555510),
   (40917282293761199262035136610621207039502267493740560156982276220436855035693, 10274080000000, 2568520000000, 1592580),
   (40969389893788990894213515196142145149838709976743088539811128686028391495688, 460278784000000, 115069696000000, 71347800),
   (40984001188762682166787763667829760031267307400851038419499328986929658086753, 20548160000000, 5137040000000, 3185170),
   (41005280920200365492076512359018694553808185884883174537618118950878878690606, 522334227200000, 130583556800000, 80967000),
   (41007866737303148230459288783295022366117256003859096155053123273423757436704, 41096320000000, 10274080000000, 6370340),
   (41008498158831616171899201363356156386588543216121085766451382918960665311355, 205481600000000, 51370400000000, 31851700),
   (41015276662655458517251832159758241730811880700242410673514631408821381675801, 41096320000000, 10274080000000, 6370340),
   (41031542169532754247372189278008378824038909145141800623683273934040589029232, 24657792000000, 6164448000000, 3822200),
   (41063135071602808868683556067377629559844239524105941494438757439262163033644, 308222400000000, 77055600000000, 47777500),
   (41075056591792448929207141864781331785858341970795108602765866327780105328236, 106940428600000000, 26735107150000000, 16576827000),
   (41120544733022203191398814099833793827018136774610194497449920304290186608245, 53425216000000, 13356304000000, 8281440),
   (41130397132670565972993029497682227341450834383138434430988285885833508384357, 20548160000000, 5137040000000, 3185170),
   (41135283669480553957460249858945205708287172933517842103241677562584080244344, 19520752000000, 4880188000000, 3025910),
   (41633275502278821923996331678653443831795094222404603918709391513302706126123, 206509008000000, 51627252000000, 32010900),
   (41658127510917217292762789232528431432010943705582797596376125207848827591507, 61644480000000, 15411120000000, 9555510),
   (41689936903209631513088842003066525787370258406383681050289682237363593644854, 30822240000000, 7705560000000, 4777750),
   (41692951931018962971872048159204878978907314253297631990197335676561630760008, 51370400000000, 12842600000000, 7962920),
   (41752570390656941483481653422274289383547260579832322647233414603535618826774, 10376820800000, 2594205200000, 1608510),
   (41772736035421117351288914703442018973260706436923460205987045477904615230063, 78083008000000, 19520752000000, 12103600),
   (41787993593710687493847770915278655025362692480832133087435919571594006632206, 478772128000000, 119693032000000, 74214400),
   (41822562643498489192476903698430844379560698280145050445766831997643431907848, 61644480000000, 15411120000000, 9555510),
   (41838163392597319248401651113528713687540908278615734360252645303976072673541, 49315584000000, 12328896000000, 7644400),
   (41847777888793329784969223308894118137095153541293077985836466019205309433407, 10274080000000, 2568520000000, 1592580),
   (41871237863086298490997177031042470172511598009646291184830887842937557180713, 10274080000000, 2568520000000, 1592580),
   (41872442386842609625255721320197515406870608405616279411349391337512238129773, 26712608000000, 6678152000000, 4140720),
   (41876726745518427770365014032096546927577571629489720875594451338930999802448, 102740800000000, 25685200000000, 15925800),
   (41898172413417529512331109208211131574964637650834814749983167327349643437897, 143837120000000, 35959280000000, 22296200),
   (41906408347975231995177303672115875752491395897835598577931157641890796947229, 10274080000000, 2568520000000, 1592580),
   (41940678839590399595102003082124563408839122818569041528818811927195873617762, 30822240000000, 7705560000000, 4777750),
   (41942846383809171093903093299689683687822645162566049392944842869304091304822, 41096320000000, 10274080000000, 6370340),
   (41993430920752388115986782752419853076111374574499477097611964613412710526508, 1232889600000000, 308222400000000, 191110000),
   (41997447633406804019833693673025887180198036242912095430930293649492419863420, 205481600000000, 51370400000000, 31851700),
   (42018231307203201503828349101150247942506487927403689226154429624956770430733, 41096320000000, 10274080000000, 6370340),
   (42024134483283461164592760995493451405416799871910052530157500646817632554314, 22602976000000, 5650744000000, 3503690),
   (42025764470842051035402718266653446920539331424676551058091856433380814956411, 30822240000000, 7705560000000, 4777750),
   (42062255882859223784589759859907557420999773824093892709900852863371763121431, 41096320000000, 10274080000000, 6370340),
   (42522183648759431011596964123095893038193249746665217012350130404816052779275, 45411433600000, 11352858400000, 7039220),
   (42524378097429642226823170302225665499151252137837135829424226905953534873876, 472607680000000, 118151920000000, 73258900),
   (42553526510748003293027337794459632714581834413801325815462509032799277512019, 41096320000000, 10274080000000, 6370340),
   (42556946627779955617162937019012542261614175336287551139644426531893927130178, 10274080000000, 2568520000000, 1592580),
   (42595449477352944585886641604201491337608850238307815636422958238149078014046, 12328896000000, 3082224000000, 1911100),
   (42597666841007423632392471173803738440532481678854536906320137081840726225999, 616444800000000, 154111200000000, 95555100),
   (42614972638226000268783680290105021256222136765461416249574613385257215732302, 10274080000000, 2568520000000, 1592580),
   (42639689160056781401739153148910831076819711451258669000371440533322541797177, 16438528000000, 4109632000000, 2548130),
   (42654736752542914910742917931877277164675467327799628347139688266645388268349, 20548160000000, 5137040000000, 3185170),
   (42668379787953654074217546488795116579076621724081244244681855673414741781053, 597951456000000, 149487864000000, 92688400),
   (42680716572493215135912201803794864788553827560164327490742589036351631438656, 82192640000000, 20548160000000, 12740680),
   (42700840540588406376308079165870976889574417367853885918676958696600610589952, 102740800000000, 25685200000000, 15925800),
   (42701930866009908459870204022632682086864291476595008793904994953021194555465, 18493344000000, 4623336000000, 2866650),
   (42708796193632543623805377649027626957777482783006018385573442370659914965317, 1779470656000000, 444867664000000, 275836000),
   (42713298344258781939629338790914265627311190895366676025080645981845949350192, 2056870816000000, 514217704000000, 318835000),
   (42720246564646021816036653191212315286055180879277558394102269576418584441377, 11506969600000, 2876742400000, 1783690),
   (42724979520204563210318846929048212013540407319562039804970049806790209205789, 45616915200000, 11404228800000, 7071070),
   (42746107286213874217764681302009699270233373224639648326479173800887975351883, 639047776000000, 159761944000000, 99058700),
   (42764719615057707738222549438759757352866341814359600448997424307347661282904, 226029760000000, 56507440000000, 35036900),
   (42793158825114922208281607868294340705734803674779382521282571078924201347641, 87329680000000, 21832420000000, 13537000),
   (42797430791698052524691071910119192782524218715592524107250071769967652153664, 250687552000000, 62671888000000, 38859100),
   (42814282862463414676374838709189337576504067294648735113729127155726488488058, 1027408000000000, 256852000000000, 159258000),
   (42825547409001394702406746271417503779173973542706394811516806515724533094718, 41096320000000, 10274080000000, 6370340),
   (42840894624751628111201650086464161445691028512180858766485268189831319733611, 10274080000000, 2568520000000, 1592580),
   (42841868734059177478900185472850793311022482646726351667599492480302897404942, 20548160000000, 5137040000000, 3185170),
   (42844506106445416305833540358695051885786393125201862640430162032677033667390, 154111200000000, 38527800000000, 23888720),
   (42847161271229198090641594868319606124246875851639481144508956501331327220275, 102740800000000, 25685200000000, 15925800)]"

definition rewardees_16 :: "rewardee list" where
  "rewardees_16 =
  [(42854470495607285690345850179912673951556392515454906419287973122511281311240, 24657792000000, 6164448000000, 3822200),
   (42886751402978733422638364220710700303429952090196675479720410025978813703486, 138700080000000, 34675020000000, 21499900),
   (42891730125681861467590113448524297445127263934245127911957367357838363957276, 30822240000000, 7705560000000, 4777750),
   (42939194860105598879527000271982957319859206874297618749162081571863846081578, 10274080000000, 2568520000000, 1592580),
   (42957989053736785577019942438812458697611229132921963536646239085371484050253, 16849491200000, 4212372800000, 2611840),
   (43472898847784026110314146035916594480897686028889904674090385938603687171612, 10274080000000, 2568520000000, 1592580),
   (43490350935597055316746956907675153139483268098243784919424565721738684870690, 61644480000000, 15411120000000, 9555510),
   (43507597741451599452033677513677075595410306071697926231470599917690285185605, 10274080000000, 2568520000000, 1592580),
   (43558586724047880661095279562037229475767100881701715458065960428086916338762, 20589256320000, 5147314080000, 3191540),
   (43569883603348282669906503731712447539589036827289993390485698062568304046873, 20548160000000, 5137040000000, 3185170),
   (43578230373352000490621203576076595398099576137083157429608836804209849761296, 632883328000000, 158220832000000, 98103200),
   (43586623712967360312724020387162364487162605503870483193198300003976713680962, 14383712000000, 3595928000000, 2229620),
   (43601222968335318435025550081980142892037190990571734539654939119819363928613, 30822240000000, 7705560000000, 4777750),
   (43628848212209583607887480366444371003024447562402399868586228601114114901544, 45822396800000, 11455599200000, 7102930),
   (43633427416174555982302234225675061865793077136941703598857839046279947020309, 260961632000000, 65240408000000, 40451600),
   (43643497231669149231372174725704491108241795162679066194416403574913477921052, 10274080000000, 2568520000000, 1592580),
   (43652362064429546526945625578153362423226538466260344511229281090792849362191, 20548160000000, 5137040000000, 3185170),
   (43669412482364066749602246210607729140934149575524872572171043944554819043623, 10274080000000, 2568520000000, 1592580),
   (43679171816984740856185617469856377629207699724698106877073654347818321825382, 1826731424000000, 456682856000000, 283161000),
   (43690118031321330165322870441435384974553270442083939868265993101455853507182, 20548160000000, 5137040000000, 3185170),
   (43732765783259793777899174899396099089899810753559296951227337744628799780197, 10274080000000, 2568520000000, 1592580),
   (43740800418408205428032821364606336404023266513043564441327731820942800986698, 1837005504000000, 459251376000000, 284754000),
   (43752718187241576403214092664273751690285452914591998216583510684119904412423, 203426784000000, 50856696000000, 31533200),
   (43796491250737432662905153420724956751358647647251333094667446436762289332337, 102740800000000, 25685200000000, 15925800),
   (43820098093332542196262944654344007144619773247684331161190621087428089593155, 10274080000000, 2568520000000, 1592580),
   (43822971457355559947014208227891410627564391066042896947988736974926531020615, 10274080000000, 2568520000000, 1592580),
   (43824813526475563251038024941550141509678552646856632955507898356297493240359, 123288960000000, 30822240000000, 19111000),
   (43826208590069056071524706954755856173760651886735975839656838394414713360710, 20548160000000, 5137040000000, 3185170),
   (43844820181846951840333065160782012964939166673015488950279585427881927255868, 102740800000000, 25685200000000, 15925800),
   (43865983219072803579722726769605466965488454999645234128801774891960808248144, 30822240000000, 7705560000000, 4777750),
   (44204613115453226122542227511143471589814982099694877401674052498953589408605, 128656180500000, 32164045120000, 19943000),
   (44355437492966217745028055786207171000959049983826161169547244780617302097425, 45719656000000, 11429914000000, 7087000),
   (44362422527004786473384631621997328660695876278145876498715332022951532036705, 10274080000000, 2568520000000, 1592580),
   (44394795648380930123159829474009395596822803890467821305525993375350427102467, 41096320000000, 10274080000000, 6370340),
   (44395245017420201975539426778422603581815913940199395315722907412881933110309, 35342835200000, 8835708800000, 5478490),
   (44395741382229885266207192105611804407486795934642638563622927652430251417902, 69863744000000, 17465936000000, 10829600),
   (44437429081706374365970766145915429518717360535628147154480529807337080316787, 41096320000000, 10274080000000, 6370340),
   (44448340567509065182260896951977996369554720097075575529133791044399950019687, 30822240000000, 7705560000000, 4777750),
   (44467654984281829990100805966209128676630905212440578138875585348751948735077, 102740800000000, 25685200000000, 15925800),
   (44477903730952238865527077268591700841668765447562275118211994537820531230260, 12020673600000, 3005168400000, 1863320),
   (44521265299816682133340789730386152533818424400969301159381232020936410082674, 41096320000000, 10274080000000, 6370340),
   (44525494609492064617546366832448609542748616246146647753578037451516917127696, 30822240000000000, 7705560000000000, 4777753000),
   (44567355506880028376670814690045883905970693980382024460518758131379926914635, 10274080000000, 2568520000000, 1592580),
   (44581505713296086354759628963295444873796647268594012272526857178778169568878, 10274080000000, 2568520000000, 1592580),
   (44585793549869527034620096748974639690518265495198755200103562238929360185927, 71918560000000, 17979640000000, 11148100),
   (44589548114167548461760478838247184671529699483595060101260038556923831098976, 410963200000000, 102740800000000, 63703400),
   (44614878757957349104170700842899512805989985014890699345779797937194113431927, 102740800000000, 25685200000000, 15925800),
   (44622155586425449407407803912987592668753587091067250546855083314725401625724, 10274080000000, 2568520000000, 1592580),
   (44623879772980025611221026058600227046146921536263803908849009550481550473049, 65754112000000000, 16438528000000000, 10192540000),
   (44650690470113180218364279590791559388376245597221523227586684407860671977991, 113014880000000, 28253720000000, 17518400),
   (44655173725284760370699709929038941970468417397423026847403417163574377856329, 45205952000000, 11301488000000, 7007370),
   (44709036976407419012422433179046378094261451597272037140118299742140009350774, 2054816000000000, 513704000000000, 318517000),
   (44725326774360630928536958011909077772778124210404928848000920436088441441599, 10274080000000, 2568520000000, 1592580),
   (44743196536736235771162303690751471112032844640162180538898798022845834195494, 308222400000000, 77055600000000, 47777500),
   (44758151409941927194229323603114679993376281632152919704862064952969494618640, 10274080000000, 2568520000000, 1592580),
   (45251811436335177436392702445780450247877081806666673660201595368656553135441, 53425216000000, 13356304000000, 8281440),
   (45260448730148650505452205750812122255252646393838818543478845679534265277020, 41096320000000, 10274080000000, 6370340),
   (45261282544972596516611318525331646398255171955346446309690207730358457992513, 71918560000000, 17979640000000, 11148100),
   (45303746855221534600460375458069606284645200602775222533489978098901356161357, 2054816000000000, 513704000000000, 318517000),
   (45315096945812357250517068605640324668659680001042996839646087593687215280941, 20548160000000, 5137040000000, 3185170),
   (45327452241060499673167518144837743758750553168455374706117929726029671103273, 10274080000000, 2568520000000, 1592580),
   (45342956473488785950082080825249848293363750448774249220133094854927487381871, 20548160000000, 5137040000000, 3185170),
   (45351455440518013723466031026807179058924718241317984228777487333745163435543, 10274080000000, 2568520000000, 1592580),
   (45351632057530314342139923704853982891410204502003007113828971384949897879099, 2054816000000000, 513704000000000, 318517000),
   (45352173718295298933223970510570805034943414110507328993183167387129914899200, 10274080000000, 2568520000000, 1592580),
   (45352282447604630660087774900496665248261058854720614705154100817884148747795, 16438528000000, 4109632000000, 2548130),
   (45379433892678347956359266965000888384100603445744428651424177850164274836494, 41096320000000, 10274080000000, 6370340),
   (45392040180821059963482467133857262611487006981673245433313238910609365365813, 102740800000000, 25685200000000, 15925840),
   (45406341785272256433792528659218648681867633131296341845357162597805898841918, 175275804800000, 43818951200000, 27169500),
   (45416699306045297388776064314249032442820910072283434888106099546360773794343, 113014880000000, 28253720000000, 17518400),
   (45419567959578938145707036898107422197470718676395543669013607909885106660616, 10274080000000, 2568520000000, 1592580),
   (45445002892421173424287019928698206910590295971229968500482064790106663296358, 10575599790000, 2643899948000, 1639320),
   (45460204174037259698514669071576080891752835200986281027908091189850143219314, 3698668800000000, 924667200000000, 573330000),
   (45514486615480642120985740516682950489889944089528285774794159643280067064597, 10274080000000, 2568520000000, 1592580),
   (45519414770742926725005695064897707515789021327455779578504545572290972308063, 63699296000000, 15924824000000, 9874020),
   (45562454412653147370398245315930330886845471910757787737367611335457775729701, 246577920000000, 61644480000000, 38222000),
   (45586037056440263454402458956885498297531653194068838410140061648204514158448, 41096320000000, 10274080000000, 6370340),
   (45605173519269576666943928881440229145268211087040487353622334556451636470139, 513704000000000, 128426000000000, 79629200),
   (45617532291271177458310434214144367863520348746586396436086211055495313826306, 14383712000000, 3595928000000, 2229620),
   (45633541083092744516615282050409157979016202367090423637333164078650963872556, 51370400000000, 12842600000000, 7962920),
   (45637681916796692126389302068070199429813042761699799714126201328432028871965, 32877056000000, 8219264000000, 5096270),
   (45646711056047376671447825220431355811269017045647114916999075186622394981377, 65754112000000, 16438528000000, 10192500),
   (45663775207920191359872393079534830378603750164875036369735989992777853628194, 2157556800000000, 539389200000000, 334443000),
   (45682127243104975142682508537812800831725185290219619645777202142158033404022, 205481600000000, 51370400000000, 31851700),
   (46159054145186022366926867539097450902425022391416556774549583671276145685018, 22602976000000, 5650744000000, 3503690),
   (46171759491113962721805734339408821909762794521198692203501967833464641330450, 10274080000000, 2568520000000, 1592580),
   (46199225046199283254932142370994689178063529084832423496560142709150121171229, 267126080000000, 66781520000000, 41407200),
   (46240707536732710491593879530104291095389196680293685006681745340526736481580, 982202048000000, 245550512000000, 152251000),
   (46242886746710070084715181955224440249990395848859613712677757001680987914024, 380140960000000, 95035240000000, 58925600),
   (46250010725276411118968608734361682564592959144457627909970109780570544335888, 10274080000000, 2568520000000, 1592580),
   (46256568587022508428757389249421915591221203943303155647052100839735947681116, 92466720000000, 23116680000000, 14333300)]"

definition rewardees_17 :: "rewardee list" where
  "rewardees_17 =
  [(46268893976151939877218604388936608101614935707464616069394358957476786522434, 20548160000000, 5137040000000, 3185170),
   (46272976712251564513422438739045737995215064746637962325776852540948561496900, 891790144000000, 222947536000000, 138236000),
   (46278232687231046236935454075591359417137435579501190042075968947508402971208, 20548160000000, 5137040000000, 3185170),
   (46302428707732018959286817368772111393253671953083504112232533154244690368101, 20548160000000, 5137040000000, 3185170),
   (46307514656201051038504513699260117341703055424737865292745752546869530393703, 102740800000000, 25685200000000, 15925800),
   (46313625749934193928204242097350361322418421396332260682574870099562790909753, 41404542400000, 10351135600000, 6418110),
   (46324531244595677406600363244738468035720168056984478319238694689191466975046, 61644480000000, 15411120000000, 9555510),
   (46325517810935330371741681691556936360006188943451584280465506605989820312617, 20548160000000, 5137040000000, 3185170),
   (46328496524735947606227835794220571215356358170089005758672590015279681528587, 10274080000000, 2568520000000, 1592580),
   (46337333238071103544264756192374024902514226278508234473400389028950047298411, 10274080000000, 2568520000000, 1592580),
   (46338755821123400082456139197687846991917212494517488477778600353171384764215, 41096320000000, 10274080000000, 6370340),
   (46342692500149802162212624412832244363624872331581013702470900480295242045767, 164385280000000, 41096320000000, 25481350),
   (46345075236637980797725023959604567539901947916899631752779226230545257120768, 14383712000000, 3595928000000, 2229620),
   (46367939266513736313242096743868664027107810310619117293839358773276140512585, 20548160000000, 5137040000000, 3185170),
   (46429468876103913667204958929365981355343715781072399160112264230488407059327, 20548160000000, 5137040000000, 3185170),
   (46437834667218780323274496750982691092997917713226857098116194971535430973015, 30822240000000, 7705560000000, 4777750),
   (46452025356791724499132520446478169024836310650680773342649047813874958500984, 2075364160000000, 518841040000000, 321702000),
   (46481478971001717135699056370451201612710052980304020183571201493278791505746, 61644480000000, 15411120000000, 9555510),
   (46488512638484641360625900760375067748782205606768891055262041197644515012675, 20548160000000, 5137040000000, 3185170),
   (46516868964529255006133560165810654891817364332550289086058990066057613429544, 20548160000000, 5137040000000, 3185170),
   (46521197126270832360115180856445727817609805661736825782454331554938008333662, 41096320000000, 10274080000000, 6370340),
   (46526868544475390351485652082930933421865771040243211569967464972170163212072, 14383712000000, 3595928000000, 2229620),
   (46558543006482255978014119065906770313467438121144804565055261893123504373341, 10274080000000, 2568520000000, 1592580),
   (46668110600061041074443315936447518452315540223575033706641795313193472376130, 49555383140000000, 12388845780000000, 7681576000),
   (47060306749837681613675196412344485062397912945426677270033707130610827350356, 30822240000000, 7705560000000, 4777750),
   (47065793779715421686360840391853155058100790318248999846735755021647913812307, 10274080000000, 2568520000000, 1592580),
   (47088454514451465471672304261747288909279561730187880528284659469409574025083, 30822240000000, 7705560000000, 4777750),
   (47111982368046490292065095046446546997965230434266581180272087884034869870144, 380326542500000, 95081635620000, 58954400),
   (47126468840861361898485362097287646486335979262459517912487319058729685472618, 10274080000000, 2568520000000, 1592580),
   (47140005827116885411497882995977924704169107394340844085141291380408565860991, 12328896000000, 3082224000000, 1911100),
   (47141427914337929601370296700816518981154896464733155706794144462980422247490, 102740800000000, 25685200000000, 15925800),
   (47162245203678470029153375884820100167325391082358794332687419718886763056658, 24657792000000, 6164448000000, 3822200),
   (47170340335183275136828700073213175604680995693289449190826858549302835140359, 20753641600000, 5188410400000, 3217020),
   (47174653234531173126757068949587608839167819448280355905857217877485637995284, 41096320000000, 10274080000000, 6370340),
   (47191530005314055751884198463593074440313038760870681153991433996840833110101, 367812064000000, 91953016000000, 57014500),
   (47197770500095814195751195164941501449766562362424766380780850640198068911192, 125343776000000, 31335944000000, 19429500),
   (47246847140952603513027157027162216741907869237834608665147082536857167042602, 16438528000000, 4109632000000, 2548130),
   (47249015829675478194912675941623992401652568060762251688558281055976565182729, 33466171750000, 8366542937000, 5187590),
   (47269731091472234674290599967582920262958677623454849884019799668944597058899, 22602976000000, 5650744000000, 3503690),
   (47289664799640325906628216564803865638782845175279212684687140865434597803375, 45205952000000, 11301488000000, 7007370),
   (47297983914019764989655925439529638423802795149577302092732885383708360285809, 80137824000000, 20034456000000, 12422200),
   (47330607366250911602617797780416316225539362197203129671419619413297954152553, 30822240000000, 7705560000000, 4777750),
   (47337343922826980004163589282454794775286806238140195248338546232232021350243, 10274080000000, 2568520000000, 1592580),
   (47356578698118045791139892655392312205084940455940067900357182654421712280133, 14383712000000, 3595928000000, 2229620),
   (47359057208766106322892498649692757822861586342958939443891754660451493432665, 41096320000000, 10274080000000, 6370340),
   (47360973263668134735980702965943630872699909957835736418936157462298173435665, 41096320000000, 10274080000000, 6370340),
   (47366405111121522122395174701019073957139592355961050015978778924594006333706, 10274080000000, 2568520000000, 1592580),
   (47374304724357020448658421101615749119980614174245711883423900248588270505549, 20548160000000, 5137040000000, 3185170),
   (47412056903888543531956441863523222970635739474697072749040038411609972639756, 20548160000000, 5137040000000, 3185170),
   (47431287253055273184013339803204129610719663161111948507912968441752713739083, 20548160000000, 5137040000000, 3185170),
   (47458398308174985292691496133816745823744286568568688654633790602705432899452, 139727488000000, 34931872000000, 21659100),
   (47460735427731486433956576626290160400152304377477025946452384317394201337466, 10274080000000, 2568520000000, 1592580),
   (47466788504391125567646960873138340474217241658320888900697183445706903309673, 30822240000000, 7705560000000, 4777750),
   (47477946766702841906333454812408090785971156188829709940985561206397102123021, 10274080000000, 2568520000000, 1592580),
   (47958934211482761642868680405796746657549419686918045922078525053448326085961, 1849334400000000, 462333600000000, 286665000),
   (47974617433868019478028317654090866243197407896115110515561329156591927482978, 154111200000000, 38527800000000, 23888800),
   (47976440353824045577005056672231104925820966872287798239857804091419862969721, 30822240000000, 7705560000000, 4777750),
   (47988257836687734047576134559883395426692218399506980164673918986251641857663, 245961475200000, 61490368800000, 38126500),
   (48009393634413960840466206824051812706893208964906162397515142611463463366442, 180823808000000, 45205952000000, 28029500),
   (48034289450542831695693138799149765121344016095535003278428508648531532820093, 123288960000000, 30822240000000, 19111000),
   (48044464709523614225150000835858798195212470347437446726792282777612297866292, 41096320000000, 10274080000000, 6370340),
   (48065608286854579079336309083223821332560264221095239282674898652204237584661, 821926400000000, 205481600000000, 127407000),
   (48066428296563048991128356271443866554381507901762514193870687930339418644792, 207536416000000, 51884104000000, 32170200),
   (48071087373177461946801892739960523696769683956966962640007022122856209728340, 10274080000000, 2568520000000, 1592580),
   (48111058876834348361101550849143086185482939441847059907446515189589811587652, 51370400000000, 12842600000000, 7962920),
   (48119595788613437160728159187374737331461808589198193452236932026927068494608, 102740800000000, 25685200000000, 15925800),
   (48144343017074143217999602866664512765396785887566083432944853272420859366779, 57452655360000, 14363163840000, 8905730),
   (48157817842822233149197472163891769388617005642106027853529990573001401484598, 20548160000000, 5137040000000, 3185170),
   (48192718601841529571447854749574878788754871310369295266672622386815292834684, 30842788160000000, 7710697040000000, 4780938170),
   (48217139111908640216419063026477291414780600407420667994981102133936690329899, 410963200000000, 102740800000000, 63703400),
   (48239978724238013794203555019946824246653041024319876076574769609813688989284, 20548160000000, 5137040000000, 3185170),
   (48280404792281751655802535578584335305885423855098666620364637950948261508892, 61644480000000, 15411120000000, 9555510),
   (48310184515407227811244876552185062114968061699037785537774037948945075009298, 205481600000000, 51370400000000, 31851700),
   (48330543099998368071764634208239479257284536504955202080901099465393948339000, 12328896000000, 3082224000000, 1911100),
   (48357414969055488665862630440972418563078091743148806943311072053353747102531, 61644480000000, 15411120000000, 9555510),
   (48369419344348001238111166200533939736429644501830653144410740739108839348826, 16438528000000, 4109632000000, 2548130),
   (48388897712710115865407064187950643841207580576312251153478828568046298240268, 51370400000000, 12842600000000, 7962920),
   (48389110480050555177003111250489249504895491739840498329050641818753226456624, 106850432000000, 26712608000000, 16562900),
   (48851957585816561988994427371644397269314670894967381442737810126843688760856, 3353459712000000, 838364928000000, 519820000),
   (48858164611031163242977655248342533803009403310336435481414154713696336312956, 12328896000000, 3082224000000, 1911100),
   (48898517015068413938908337867040280732171180998558876913353245334174670747773, 12328896000000, 3082224000000, 1911100),
   (48924310285277866029938344130932828271294556189699864171194440979402227957014, 10274080000000, 2568520000000, 1592580),
   (48928740070224289779031422477000565887302509210482596400472421720320831508485, 51370400000000, 12842600000000, 7962920),
   (48929241229329117836605622455610439589848305579903430948435617014274900187424, 10274080000000, 2568520000000, 1592580),
   (48988620193237469699157277016099574095075988788643944255160004718393176746240, 102740800000000, 25685200000000, 15925800),
   (48994642238124294644169676644970794079153958742221573677636129917673921505582, 205481600000000, 51370400000000, 31851700),
   (48996590178791298105964054756739409952771945565512285541008476492476424176141, 130480816000000, 32620204000000, 20225800),
   (49061629426528687284987062174291972010806205110908587523526910449524668866068, 267126080000000, 66781520000000, 41407200),
   (49071503114574638943638190516411494633124587040966959754223312162365214300217, 10274080000000, 2568520000000, 1592580),
   (49075474189496305567838511258033632158642946244000243215997006135260806498659, 246577920000000, 61644480000000, 38222000),
   (49075803599498678332026970253466327811829588430344738755626411033681160097056, 41096320000000, 10274080000000, 6370340)]"

definition rewardees_18 :: "rewardee list" where
  "rewardees_18 =
  [(49083701635760980886379895174610040608745851676939020967253157146243374228746, 143837120000000, 35959280000000, 22296200),
   (49102397802248207611898130718514543782268622447508302102387618439357113634050, 61644480000000, 15411120000000, 9555510),
   (49121071136309015346976893120299881780886665727037177504656954331733300126264, 123288960000000, 30822240000000, 19111000),
   (49135148111182791803835103279511592973336613861071722950864103589040624037688, 410963200000000, 102740800000000, 63703400),
   (49145140613455822883437508231307876469939074395638131526215111470985434054733, 30822240000000, 7705560000000, 4777750),
   (49154363253190757667575394505461063017161821855768653924949340808149600629866, 82192640000000, 20548160000000, 12740700),
   (49165590833042250250228039641273927828714866224318602819613453072659600356179, 10274080000000, 2568520000000, 1592580),
   (49176299304391491253641730366594966402462609675436522608805331120003727570298, 22602976000000, 5650744000000, 3503690),
   (49177640500337300625402993023657977226230888454354091619019829057499064281864, 10274080000000, 2568520000000, 1592580),
   (49192117128105416485833889642979614329764567602299377786605136870136450928933, 34315427200000, 8578856800000, 5319230),
   (49202584374662261024989729704345880954959384636542091775687660817387880524039, 106850432000000, 26712608000000, 16562900),
   (49225996960950774544923408776606320083171223619847216053802020393287113619214, 129453408000000, 32363352000000, 20066600),
   (49237225830333399135184099721134188640798984700212551467874774196966269128001, 10274080000000, 2568520000000, 1592580),
   (49250302958949071006205134491125358799727131976706969931542711667169984904973, 10274080000000, 2568520000000, 1592580),
   (49253408724709831553957789710545204119595527202576012298093060105119838446971, 41096320000000, 10274080000000, 6370340),
   (49274842292924387341847050089624660038011214572719169592788775154697695661361, 10274080000000, 2568520000000, 1592580),
   (49294560236894375514819048063656450882139831766422012625617163055690987604276, 128426000000000, 32106500000000, 19907300),
   (49768251722292184637633979185628485732378571258021182578313053023667595516464, 10479561600000, 2619890400000, 1624440),
   (49794528464559929800289100650982745245907530135559214208684337676843740472590, 71918560000000, 17979640000000, 11148100),
   (49810897248433363376996385702474864234669754133092665034840610701702273347429, 20548160000000, 5137040000000, 3185170),
   (49848718756164165994086941857719554683321809331181591956711308536996953612358, 10274080000000, 2568520000000, 1592580),
   (49853257376753438232188400193849413320943628230918923085751358741867958801962, 47260768000000, 11815192000000, 7325890),
   (49853924485288082488150917790650650026169616836637908593873746423984008416340, 10274080000000, 2568520000000, 1592580),
   (49862790252771797454465661564014964528882371420676643785325738399386301964324, 10274080000000, 2568520000000, 1592580),
   (49879004270190426328280481170017304654907902796454761812053319759765422896650, 113014880000000, 28253720000000, 17518400),
   (49885741830410116207278336097593698737723885439628523332954821087747329594696, 12328896000000, 3082224000000, 1911100),
   (49898110603091074776852139150356098872826240716782784190951305045634886854165, 10274080000000, 2568520000000, 1592580),
   (49923423177427904872452252701556918000130720109841774145073323852604096438081, 205481600000000, 51370400000000, 31851700),
   (49931165136405986371545694951821517016307012784648354307828723199032568526451, 102740800000000, 25685200000000, 15925800),
   (49961539085776295603628949299356495736852231520402728864942832774917093818439, 102740800000000, 25685200000000, 15925800),
   (49994512717449349346865819820391627045164329634841351663522222159118749183840, 42329209600000, 10582302400000, 6561450),
   (50009209274755003770877290486109086419951119494279113318896947522167244968977, 20548160000000, 5137040000000, 3185170),
   (50016417692589405114857612432040228363631841399496231934964251082433186977548, 21370086400000, 5342521600000, 3312580),
   (50035504028689400172803100395632133638366234137028687670226153658509751754331, 2054816000000000, 513704000000000, 318517000),
   (50045540694756342293113720601461523060744353984108017134244898546177016362813, 10274080000000, 2568520000000, 1592580),
   (50054257911814697358675373210785081746021765004642156649343443442975163007812, 20548160000000, 5137040000000, 3185170),
   (50067854395182492093112951748258247113004613322367621766133887105826694403134, 143837120000000, 35959280000000, 22296200),
   (50070115683682440264769946517664679777318786861024812219028528018508314215242, 10274080000000, 2568520000000, 1592580),
   (50073522193738955177828898442495509495764059981047792950411194967292681141308, 924667200000000, 231166800000000, 143333000),
   (50087710370698109424366080700992415018592781603299302270481014454374082845759, 308222400000000, 77055600000000, 47777500),
   (50094720261473283050698001933576745186847132943784688132678526453348215111739, 10274080000000, 2568520000000, 1592580),
   (50108308407171120203684896591228732653339470941222055568683420229510198997289, 41096320000000, 10274080000000, 6370340),
   (50133346511676394570464051444374801605045860308331202504873780254453051012715, 20548160000000, 5137040000000, 3185170),
   (50148197692526358702219904461166078482685605358197941752840025157118935883018, 10274080000000, 2568520000000, 1592580),
   (50152685057169222466794974495140223050469350430032380418307173875429700768294, 205481600000000, 51370400000000, 31851700),
   (50155853325217142758294128316267136289289358459346697787715404392829516966218, 102740800000000, 25685200000000, 15925800),
   (50156610397943138956121788093651664592648867544083396323247726032730657946371, 530142528000000, 132535632000000, 82177400),
   (50172421748859808625970667509418771099668374274130612696831627704794438983203, 410963200000000, 102740800000000, 63703400),
   (50665739744653965808596482147797214289239477358820219420386644963105493607766, 205481600000000, 51370400000000, 31851700),
   (50673936369688007008432910637701879367907202685980045954126368691217774788164, 14383712000000, 3595928000000, 2229620),
   (50696846558844565428610769892318997022249928645028082373400536528876230056024, 14383712000000, 3595928000000, 2229620),
   (50698787752370348163998602230253390013837047603643153900871357891402701832020, 20548160000000, 5137040000000, 3185170),
   (50702848814553085552893544537532777237756276957408303516599476068534256766842, 30822240000000, 7705560000000, 4777750),
   (50746103875714116668471029958923222057826322491937902027428778809218000726130, 30822240000000, 7705560000000, 4777750),
   (50765677982441159063992497695342466553451244254452918983472925003543608398926, 348291312000000, 87072828000000, 53988600),
   (50778067113872939135004945311097000682336867185694973521863406003046636064519, 2219201280000000, 554800320000000, 343998000),
   (50815660501589645554636706697393769983465744920750041781346712630216781260806, 375209401600000, 93802350400000, 58161200),
   (50818500067937462692819879000020749229434352468929963140913092773084398659855, 1027408000000000, 256852000000000, 159258000),
   (50826293457653343811838525243330859407007474785931782771021773415204286762847, 493155840000000, 123288960000000, 76444000),
   (50829896482121590599476234042512973624286710212211635227760014066274437543436, 16430308740000000, 4107577184000000, 2546861000),
   (50831703999918697337037648487900645142835034382192614081805858234258834782266, 102740800000000, 25685200000000, 15925800),
   (50841115904437852753440133289465742061854633861721167604601536447200642147878, 20548160000000, 5137040000000, 3185170),
   (50843721034989712222178605783778916364462106003851454603060384515177119324957, 20548160000000, 5137040000000, 3185170),
   (50849810217415499076361833347169502206251649920527264985874291167898481626194, 69863744000000, 17465936000000, 10829600),
   (50850936649038910177272124316879485744502272050977804075052481676838574612493, 10274080000000, 2568520000000, 1592580),
   (50864449748122215407754925213269997143669596556312962642910138861464298001686, 102740800000000, 25685200000000, 15925800),
   (50865985482343491847787565823159611332006243988361962793851715149002119141151, 10274080000000, 2568520000000, 1592580),
   (50894085673615457548917449369892662837638635529145884343905715651649990582830, 20548160000000, 5137040000000, 3185170),
   (50896531480998799506016689112510621051185516839699671655928138632139779146617, 20548160000000, 5137040000000, 3185170),
   (50907469809217470055638451703962706897071738245192062748868501499317231995419, 45205952000000, 11301488000000, 7007370),
   (50930961797183407630427617480380569297890170724135777393957217863307275998590, 102740800000000, 25685200000000, 15925800),
   (50958771320207787776166338236256311241728239040978730726758058465406173256962, 18493344000000, 4623336000000, 2866650),
   (50960081239386433859477284575610195867149806113676975484642551531852575422811, 1072613952000000, 268153488000000, 166266000),
   (50970807231637161484659582009268849570146467861961917344592282497201474784311, 20548160000000, 5137040000000, 3185170),
   (50977837633343397365950650297573147716109046929387282274210528848227958939745, 20548160000000, 5137040000000, 3185160),
   (51059548341162265619294788714173586933039048686298116396204764445602080434967, 205481600000000, 51370400000000, 31851700),
   (51061894787354058388317133125520222811679702056931502506455453250111658353201, 2054816000000000, 513704000000000, 318517000),
   (51064547500677851531900075733439132474588874079639029106282861549315827171905, 573088182400000, 143272045600000, 88834400),
   (51073830038480196000140887489594999458988397346511160006293936661428081139487, 30822240000000, 7705560000000, 4777750),
   (51096714508890309342891886765682760007001475651331517198171687363414444516689, 11301488000000, 2825372000000, 1751840),
   (51098179133464250416942731906976760739682551607579155080369073172141505050736, 20548160000000, 5137040000000, 3185170),
   (51567018883422133020976041965105990618920232678058950625815660077902278783796, 267126080000000, 66781520000000, 41407200),
   (51567761902706532148054576678804033838221694560429304556601865896617846409222, 10274080000000, 2568520000000, 1592580),
   (51588404956684367506578386161364384095531876607414866596490182571298799944973, 40767549440000, 10191887360000, 6319370),
   (51590943459255625685356888541906758839088987808876526023611197411606795693327, 16438528000000, 4109632000000, 2548130),
   (51629642980734391355635673633590891224020872837259856295591191603277026544214, 27226312000000, 6806578000000, 4220350),
   (51632169822068252678006725343400246700526218002301225917671326710966914619396, 421237280000000, 105309320000000, 65296000),
   (51637056929663196208101195326215224482564289159594951370818686508502681406306, 20548160000000, 5137040000000, 3185170),
   (51698564571903767131148609671201289413540450305082936781364104410297308550000, 20548160000000, 5137040000000, 3185170),
   (51714623178993901400566002205023453366100305236469435775173369135351728686972, 567129216000000, 141782304000000, 87910700),
   (51733086725208642769101094039917720890278309759598615514308320538931422385721, 30822240000000, 7705560000000, 4777750)]"

definition rewardees_19 :: "rewardee list" where
  "rewardees_19 =
  [(51780736623701472654543335987241637129382694935353275143826268569775048888122, 20548160000000, 5137040000000, 3185170),
   (51812338296238058869265554998474049630868845597946509038069676896918488110375, 51370400000000, 12842600000000, 7962920),
   (51829325285516917674518177699976291084292448860996026125657650016353744351309, 75000784000000, 18750196000000, 11625900),
   (51833722247588514373078457746764240513138769908596365930587179606886309407572, 10479561600000, 2619890400000, 1624440),
   (51846457887506310139759658180404500061687876579935004959290519591246696236560, 20548160000000, 5137040000000, 3185170),
   (51888547169959801758238445611460496164457107910633756805188346180002451345779, 14383712000000, 3595928000000, 2229620),
   (51918401996285252097353650720537387434182317363159370621261897564106675045945, 102740800000000, 25685200000000, 15925800),
   (51933794444712000997605213064725883405737846264545905927815425970069873084990, 41096320000000, 10274080000000, 6370340),
   (51962466713469785733483465870541370984117381287689463218082807850727308408393, 20548160000000, 5137040000000, 3185170),
   (51974381121076654967741149326806792673291076191042682110714052883428482319144, 20548160000000, 5137040000000, 3185170),
   (51977629057166727097135242557854913451476834910134638603173877589697841609085, 18431699520000, 4607924880000, 2857100),
   (51978639658377780361624020058331715607904526379039160728356849412394210408040, 20548160000000, 5137040000000, 3185170),
   (51984515882811992596833093560687917150536141137418078988459073982985730045464, 20548160000000, 5137040000000, 3185170),
   (51993675347392695962232330764966636496549286056962081801477946328097556987170, 20548160000000, 5137040000000, 3185170),
   (51994128439499353878354792935502770823384620908569623624794662647637754365754, 10274080000000, 2568520000000, 1592580),
   (52473154693823490987625850246875048717966712755173922827931964136772141988118, 2169885696000000, 542471424000000, 336354000),
   (52476192759928955316374972511964237247960572547696220326555418848098727880810, 43151136000000, 10787784000000, 6688850),
   (52517439930813899676047517054888003230360920392803249318573523796812531334728, 20548160000000, 5137040000000, 3185170),
   (52530796526024922907601297287415740885349534464594897955224108731795460682611, 158220832000000, 39555208000000, 24525800),
   (52531686128667804872547657628159012999096544677491532582022066636419848602432, 20548160000000, 5137040000000, 3185170),
   (52563893073984903000573987816301143425536114664198153356718715789509369866298, 20548160000000, 5137040000000, 3185170),
   (52590975158376782730128585716504322303252380707109621970992308276480964794384, 100448447300000, 25112111820000, 15570500),
   (52612002643762858724525084186095090807886173098989062660233713189476165280544, 71918560000000, 17979640000000, 11148100),
   (52615841539763832902879634155771351079244617689719720712630241823043277662250, 42123728000000, 10530932000000, 6529600),
   (52630152634733016773047713661931493414542996286109095006156720496982535165788, 184933440000000, 46233360000000, 28666500),
   (52630791156585897736884384911796878858441526241804210538968174377370773160964, 82192640000000, 20548160000000, 12740700),
   (52635517095979845752708286607645714302407448041884221360991154286427487840831, 10274080000000, 2568520000000, 1592580),
   (52638389771427214990307384531141230422320894095732384014188648269463828302656, 36986688000000, 9246672000000, 5733300),
   (52665931639567253006532792516358306431120126987070472025239745258603179628826, 20548160000000, 5137040000000, 3185170),
   (52693456895812594436705523267699206708155917526357878622365832552195017918064, 61644480000000, 15411120000000, 9555510),
   (52712168214057092242668691715466141414898308957837547827102077318248190729586, 410963200000000, 102740800000000, 63703400),
   (52714257741340086091918376572514564433799857600245808158306040816779217694837, 12328896000000, 3082224000000, 1911100),
   (52743937798889242254607032902020219071197039818401036071800314203228338334324, 73973376000000, 18493344000000, 11466600),
   (52774251414779409269809169057849292120670529396939492997641138096878057263955, 215755680000000, 53938920000000, 33444300),
   (52795311757017410450518588140574800121468967060590133495082092485865990066993, 20548160000000, 5137040000000, 3185170),
   (52797725862223864641430765796556042968813396206515098755905582333635142826355, 20548160000000, 5137040000000, 3185170),
   (52799240457155148000425591600971933056826169162267936386630738261534491984499, 10274080000000, 2568520000000, 1592580),
   (52806914147707465237521578955001010376012301578562574964164237686399300817008, 10274080000000, 2568520000000, 1592580),
   (52825670917112412107104047659459672844078652095986828557400931282480403734621, 19520752000000, 4880188000000, 3025910),
   (52830911126634751947787301128547653335413693340987985791673851344936009968197, 205481600000000, 51370400000000, 31851700),
   (52833811042898667906344212707083974906581699106001731708433727497596021762418, 30822240000000, 7705560000000, 4777750),
   (52886272961175699286790183270063745964546390491260118110363220678570614700035, 214728272000000, 53682068000000, 33285000),
   (52914924486976157121739826712858454375142708687194430321182060441241878396730, 20548160000000, 5137040000000, 3185170),
   (53215473418639737496019258654328676229091238183962160475219428609230689340366, 102740800000000, 25685200000000, 15925800),
   (53372953355508495833762966621610583087401375113636891715279988383733520459831, 12328896000000, 3082224000000, 1911100),
   (53418244131951853330140463026756682763310260786049203890281480652484615247373, 10274080000000, 2568520000000, 1592580),
   (53442043627503051582842153971883775405262962731128652459850900339169156506749, 35959280000000, 8989820000000, 5574050),
   (53451348624805154601311962428909085766199542117377763862493386529700594090511, 10274080000000, 2568520000000, 1592580),
   (53464364257083366554973957230704696117926677382746449605040235030216201563207, 10274080000000, 2568520000000, 1592580),
   (53483370904219125197922127745252876514272798844212828869005399754704414826611, 205481600000000, 51370400000000, 31851700),
   (53483885160228512096321684324298530200383971546850108654904033872244592791667, 53425216000000, 13356304000000, 8281440),
   (53497490611976649246569686270181366587941773446520136960132192833442164240976, 20548160000000, 5137040000000, 3185170),
   (53521558783461929838676133226751469384169237388042021206636277402777521699700, 10274080000000, 2568520000000, 1592580),
   (53535048261544724711977420226539298197610644446374885110198640138412232106822, 441785440000000, 110446360000000, 68481100),
   (53554024835466431786186609959956939507446357095836110752048570182063469148763, 20548160000000, 5137040000000, 3185170),
   (53562147923971453004753116809873558765413503492180623779150189594967718441237, 102740800000000, 25685200000000, 15925800),
   (53565976164396316422098302870200532558653569906667694391065364400096086062936, 14383712000000, 3595928000000, 2229620),
   (53577791478264750581337218929702999194972532854642053651007144687761033432169, 20548160000000, 5137040000000, 3185170),
   (53582097709569147328618644446905712014641597493380100946528865144757027050303, 102740800000000, 25685200000000, 15925800),
   (53585953552698504503906674452588831515448115497057231675369180599962027809852, 10274080000000, 2568520000000, 1592580),
   (53611174201375518846631664504923623843857479161854325756948008213215455733046, 10274080000000, 2568520000000, 1592580),
   (53640659946834460639442924576517387646416655525992600481865019947713722804530, 349118991900000, 87279747970000, 54116900),
   (53647164365536345879489279816936290936836897895251713142052617630332188695643, 63699296000000, 15924824000000, 9874020),
   (53662471011465521193604163562213440067025646204536179606914527916811060694529, 821926400000000, 205481600000000, 127407000),
   (53687791132736410970612993176897158592274198575076610455941619861483591703054, 20548160000000, 5137040000000, 3185170),
   (53690282732430717608421953985382031216865104895682564565086556326372579659530, 20548160000000, 5137040000000, 3185170),
   (53695085862272653471400799837613099580767421118476775981502212274371814887797, 20548160000000, 5137040000000, 3185170),
   (53705088140080256649805257712100106310894780308591285619329032846806050127990, 10274080000000, 2568520000000, 1592580),
   (53768496279200897460850663040983532735856613212574941124247177461122307152484, 41096320000000, 10274080000000, 6370340),
   (53799412054926541848422637806965352880789329170116942424036722305948707835967, 205481600000000, 51370400000000, 31851700),
   (53799650614016613256621953366069023138499661594837812576581189665321452568937, 10274080000000, 2568520000000, 1592580),
   (53806345709518718202105740593616269732921947222742507790704324082152184237060, 20548160000000, 5137040000000, 3185170),
   (53809400249416418709428416851882692573067357676514711652586279826460114913348, 410963200000000, 102740800000000, 63703400),
   (54278459172619209176069858571423209717148938542867703051575610950521710610441, 69863744000000, 17465936000000, 10829600),
   (54317587884153185586592057523304275948691939855505249749059325290921733545266, 20548160000000, 5137040000000, 3185170),
   (54334251243096328309078734903123323797780897919433279275426698476485052257334, 82192640000000, 20548160000000, 12740700),
   (54345204760595214519017950130612752311460815259462949378554248431120141527931, 16438528000000, 4109632000000, 2548130),
   (54347765737180649442756555029344333966558112283995522855288901884722665816431, 41096320000000, 10274080000000, 6370340),
   (54372318019289609569069462545091293472747331057863299762709095329887143581035, 10274080000000, 2568520000000, 1592580),
   (54374039481911200617580983702080458820885565503299110507446970232202425206073, 102740800000000, 25685200000000, 15925800),
   (54377233968439151070000235427391668783892834790548312152183741921372365701245, 316441664000000, 79110416000000, 49051600),
   (54400017924593511124635551877162473301921451453962061152748299744010356015914, 61644480000000, 15411120000000, 9555510),
   (54433741770150010332387419811599166530436556965429185491471549918002427533162, 41096320000000, 10274080000000, 6370340),
   (54442242066861490423042959323824934454645681423671627011716493352836167085426, 10274080000000, 2568520000000, 1592580),
   (54458527126665707794385862674490741989723427048202968009665305671504474651706, 10274080000000, 2568520000000, 1592580),
   (54507450904652371414403732453596729678482291127827591675520041219602539777869, 20548160000000, 5137040000000, 3185170),
   (54518907632633514729151040888638775615267543660480543534893919610287329391175, 7374323661000000, 1843580915000000, 1143093000),
   (54527916072208091556938962035108450175354255763780747064644317483491461433963, 10274080000000, 2568520000000, 1592580),
   (54541164453279303985573312787779853660244121522507179209493790229553939493186, 1027408000000000, 256852000000000, 159258000),
   (54550594495884680949665961055197926239422488381849092689399533305168464006412, 205481600000000, 51370400000000, 31851700),
   (54556084090260789416852152069960092477586148483967828678069045403285735394869, 20548160000000, 5137040000000, 3185170)]"

definition rewardees_20 :: "rewardee list" where
  "rewardees_20 =
  [(54575526980650745755190989928032106747938841143589926798418717383685795689752, 10274080000000, 2568520000000, 1592580),
   (54602036464855170625659619487613485974718433750980346023331059162939773603607, 61644480000000, 15411120000000, 9555510),
   (54604871774834946566141113179819559322359188476385109819748919856921011363342, 1687003936000000, 421750984000000, 261502000),
   (54609002588176677690742503394321053198766077412546755286251993570724855599157, 10274080000000, 2568520000000, 1592580),
   (54612325440511286575102520566987973340508624077615426922005334889363298870325, 54760846400000, 13690211600000, 8488470),
   (54633717109281425823108192566609931034128564106957676383168895355472095500352, 205481600000000, 51370400000000, 31851700),
   (54637159240641474240502442181022851515696519894929634351436018173800248285746, 14383712000000, 3595928000000, 2229620),
   (54642971117461151847780922933292701285118908592972484294093588610196698220131, 205481600000000, 51370400000000, 31851700),
   (54652284618282532187894417733462746507540760213313960643821211021301429213214, 612335168000000, 153083792000000, 94918000),
   (54659110504492456269331431694783809837958662307626524516175923411849297529972, 102740800000000, 25685200000000, 15925800),
   (54660486170777127838710446446421400569520041390311189304716177899026886987598, 102740800000000, 25685200000000, 15925800),
   (54673978842457091029838185540269682197473610951630177793856994753594547859826, 92466720000000, 23116680000000, 14333300),
   (54681422709602303387323648160464486028119181046541813598802803273364952762156, 133563040000000, 33390760000000, 20703600),
   (54688234134280680333499205930181299646773018581806252906686712821700569999394, 41096320000000, 10274080000000, 6370340),
   (54692858569441416618421453324052938540131705948872786674429289376735253647409, 20548160000000, 5137040000000, 3185170),
   (54707095524125086188319131602050846570712777449990399902569387347602654418028, 20548160000000, 5137040000000, 3185170),
   (54713317840271921606312487167576566517891635857617492410510064449295042260033, 143837120000000, 35959280000000, 22296200),
   (54729239104458007342177545048538755761216737021232465489436386247304213291583, 30822240000000, 7705560000000, 4777750),
   (55184980529358947020623005630398302483111249348144176910498473361976722177307, 20548160000000, 5137040000000, 3185170),
   (55186159056926208651164182826548769556602899268951653614663584017574785827086, 30822240000000, 7705560000000, 4777750),
   (55190278148590951955495211394024320383044443961452834209594289251151867599660, 10274080000000, 2568520000000, 1592580),
   (55194201201470862744353207519740028032479211992440516716416618468167592447528, 102740800000000, 25685200000000, 15925800),
   (55197355723798425999449476884804294862170922571257528603363697118205200792162, 20548160000000, 5137040000000, 3185170),
   (55200297663324824244800460941478658125492792708611906533569343760966860388692, 10274080000000, 2568520000000, 1592580),
   (55216568563085789593125879517381425306811979069489934945539405162878176127023, 10274080000000, 2568520000000, 1592580),
   (55219631652850985000258858298392300682339456229754429194558946882273891268946, 102740800000000, 25685200000000, 15925800),
   (55238936347254585054865420561693844026328535385352663665075243724244859737973, 172604544000000, 43151136000000, 26755400),
   (55244972793859795334794452026577551933231164862876319039615203934073258983168, 82192640000000, 20548160000000, 12740700),
   (55257546789123142888021878107272296826850701649323579136223134096524868530772, 20548160000000, 5137040000000, 3185170),
   (55259539282150705740016578040405735228005133965598907759103569789929328757058, 20548160000000, 5137040000000, 3185170),
   (55286054882355934031574059088461305379187733791666162645268259504969556160814, 205481600000000, 51370400000000, 31851700),
   (55300920610316562396899571280950395451515234444928960802454255527833153825586, 10274080000000, 2568520000000, 1592580),
   (55309633734509050077337167026255693267520594821632472921363884637668754495340, 213700864000000, 53425216000000, 33125800),
   (55317633810290750938888581997806344279140154303101052355864716685812524666652, 102740800000000, 25685200000000, 15925800),
   (55333206810312765010684666567695862625851733415776271804681397233444989194810, 10274080000000, 2568520000000, 1592580),
   (55338514277307220814257015094962803844024821662446215355653958254061868123724, 10274080000000, 2568520000000, 1592580),
   (55364655163993319180772926200971400113047408938781838882340623142125424199446, 3782916256000000, 945729064000000, 586390000),
   (55369850892208956270110097295399014067452958185097165717011714293049670677004, 1142477696000000, 285619424000000, 177095700),
   (55375651278250645099351162298022821715845527635380492231262155253172477566491, 61644480000000, 15411120000000, 9555510),
   (55402860325830419264365941271818474557532952581741462124888095979270145248258, 10274080000000, 2568520000000, 1592580),
   (55435222076370683095971769269916426892063154771483959252434210339081832648254, 102740800000000, 25685200000000, 15925800),
   (55449115800212143106704297327431968270845009858880693348953245696663843530253, 108905248000000, 27226312000000, 16881400),
   (55465263785660056426876108813044261500966228853083317989090708095810835309079, 10274080000000, 2568520000000, 1592580),
   (55494258877841317962439343314800236640489094434597351083747446175960851083564, 10274080000000, 2568520000000, 1592580),
   (55503618160632177314617276709396666423201709638942006931644949921071824418643, 108905248000000, 27226312000000, 16881400),
   (55505985048681226483125488469162006123349256955820559909022402760195123812986, 84247456000000, 21061864000000, 13059200),
   (55538010323151147721948382912710089396879879456246198782389631186926800071714, 213700864000000, 53425216000000, 33125800),
   (55543445248954547322366702928478079277150899889356965511180953618187879872844, 20548160000000, 5137040000000, 3185170),
   (55580041577453140618001770027967690501034783709742959890541027896301724899841, 30822240000000, 7705560000000, 4777750),
   (55589736926764994086638151539003586788915611164253592725536858630223529590628, 25685200000000, 6421300000000, 3981460),
   (55603896785961525409871434016310938128940790978169785575796328891409228324455, 2383586560000000, 595896640000000, 369480000),
   (56088618287390626166794737991810238673476243786471837689729867094078252000535, 10274080000000, 2568520000000, 1592580),
   (56092554119101366403567153406005510641775316979319763150895631073465404822103, 61644480000000, 15411120000000, 9555510),
   (56109703532979630329440016732151406978840616328907357697154783387334946952505, 1027408000000000, 256852000000000, 159258000),
   (56122061531356129210958268119555276354742490414642896642766964019217376754015, 51370400000000, 12842600000000, 7962920),
   (56129654128852823548710291493234805132718028445892547009933277959346405859118, 10274080000000, 2568520000000, 1592580),
   (56178301916402574131706839389898826285549094537986234295108693629393556407344, 10274080000000, 2568520000000, 1592580),
   (56195276499346588035658533459063710398773870609405563259027690812729974560846, 19214584420000000, 4803646104000000, 2978451000),
   (56202622194108967474851265798915938724050611386617220940966004038083937162335, 10274080000000, 2568520000000, 1592580),
   (56211989290886036974996377509767962731616326417174971069147366220340518394182, 51370400000000, 12842600000000, 7962920),
   (56231531598295716729655097031777477956420317695911412500193401090524062413424, 51370400000000, 12842600000000, 7962920),
   (56232508662356100432643765076530117829698006652461454269125346858830057424243, 55480032000000, 13870008000000, 8599960),
   (56245152422504331264780901854608287355372319148257768246173318642175684296275, 61644480000000, 15411120000000, 9555510),
   (56275478633653645242706561984180061023013846841705297647434358796532794095718, 31027721600000, 7756930400000, 4809600),
   (56298329414692903622026788908149437691836978728339743845319126128859877660786, 20548160000000, 5137040000000, 3185170),
   (56320039712303710245068012318336356822946745305104989251463688274826485177138, 1140422880000000, 285105720000000, 176777000),
   (56329848239560082865279173601468636088307057022683837609133647130266610283839, 123288960000000, 30822240000000, 19111000),
   (56359934780071792656613136107014146212457760530573684293956442755539840287317, 10274080000000, 2568520000000, 1592580),
   (56382672309762251994349491497979866459637019792520152564143397945029585193521, 1095216928000000, 273804232000000, 169769400),
   (56392486805032830469295106065725624738655351944589333572783248066481286263380, 10274080000000, 2568520000000, 1592580),
   (56409454144992487221384291117189638960689184468049452782124877885444423368277, 18493344000000, 4623336000000, 2866650),
   (56423413579266922638862988913471209687173311068247054471394707033261304837427, 4029494176000000, 1007373544000000, 624612000),
   (56427355654714244413593553880702214861571033148166695417550151738427004957725, 102740800000000, 25685200000000, 15925800),
   (56429720136264164882256497480524615782641357055999666748036337967384979998994, 256852000000000, 64213000000000, 39814600),
   (56442755901403067131417245694983184895642169035895580066140554541412156863779, 10274080000000, 2568520000000, 1592580),
   (56465624460289889041889783301783820936537218499161665646558432964489093127038, 515758816000000, 128939704000000, 79947700),
   (56472928825345118842781723412173658224612292696075620975105738499196712120956, 47260768000000, 11815192000000, 7325890),
   (56474987421294513206738060671454731960757863735609133445537739567116365645694, 195207520000000, 48801880000000, 30259100),
   (56478563767537466013112662382283498022020742065145688301798153258790982337797, 205481600000000, 51370400000000, 31851700),
   (56480972526854026966360860250371786743072129502319501075995516511283763164979, 10274080000000, 2568520000000, 1592580),
   (56489402269784810335776045308564829793958926835434601528525244607021395778404, 20548160000000, 5137040000000, 3185170),
   (56495411361879624148326251301556171944946880223538477029599800769095148582922, 14383712000000, 3595928000000, 2229620),
   (56495989369271689323039367569184020934793078973538381839029285911756680656247, 10274080000000, 2568520000000, 1592580),
   (56501775075825800152594625890792482581560387904722219459479344163458160229406, 24657792000000, 6164448000000, 3822200),
   (56528961861020035345244437633048232450046792091662670991380318567607469218421, 41096320000000, 10274080000000, 6370340),
   (57011650036719180486347227250176205071829617214520103072356686787959236468319, 102740800000000, 25685200000000, 15925800),
   (57047650454007298844932546191064453513619598498411577918437169526821423448385, 82192640000000, 20548160000000, 12740700),
   (57092099853124574702926095438157707732789939414792608448937731743242305352541, 10274080000000, 2568520000000, 1592580),
   (57098831116969448319916623504317139991532717781964963214974829254981917039134, 10274080000000, 2568520000000, 1592580),
   (57124461562446545110611495459152646649833238718251064407541861526615844792665, 41096320000000, 10274080000000, 6370340),
   (57146502435887977702992377777537610775344312912411135566764989832385973775186, 41096320000000, 10274080000000, 6370340)]"

definition rewardees_21 :: "rewardee list" where
  "rewardees_21 =
  [(57179247047203616979715110621341449151165579106295298188023643032521760438280, 30822240000000, 7705560000000, 4777750),
   (57181544837019604461771048136030675538256342954272641249779436078982867114565, 24657792000000, 6164448000000, 3822200),
   (57185386169167047499871538609053884419370703480774190329495895381659294307366, 102740800000000, 25685200000000, 15925800),
   (57198913228675224045043752097554066454050433880287166574789676069055705722747, 203426784000000, 50856696000000, 31533200),
   (57200392791490494208143142061860427186785366228570382349275812322692222283054, 41096320000000, 10274080000000, 6370340),
   (57212159108081710082297237915131859025392652857993570814244501761066354534984, 20548160000000, 5137040000000, 3185170),
   (57253850747108952484321528267824353804905178975353024179895122591438229325327, 20548160000000, 5137040000000, 3185170),
   (57255295011238651278770318235704419795282605793466846792196514049670947349812, 71918560000000, 17979640000000, 11148100),
   (57273293582551698672087416466084313390050230980420902337595499498924006048325, 41096320000000, 10274080000000, 6370340),
   (57289239635378137122753752061005567049530868193458993885576693425925548984076, 10274080000000, 2568520000000, 1592580),
   (57368827559399359887352424489205900213909423898425145600485166572500232820816, 513704000000000, 128426000000000, 79629200),
   (57377492635564435825416651136115002346926222190651511031904334926926572677956, 10274080000000, 2568520000000, 1592580),
   (57427524491568269781023608511489818946893710249134558440407352679043592926217, 10274080000000, 2568520000000, 1592580),
   (57428733954894030618766720693582463773048122245763093710897921888361437649688, 14383712000000, 3595928000000, 2229620),
   (57902048965738336481867692154282450593262647026030538642419556756531796198969, 10274080000000, 2568520000000, 1592580),
   (57914896418225077870054321136643567382888177036770330805741676184426121779264, 53425216000000, 13356304000000, 8281440),
   (57917251496821924780799428471608021748933113705890403154787458011390589475658, 20548160000000, 5137040000000, 3185170),
   (57934750083415914264012931430201235854592498273486646228054310342993820629034, 30822240000000, 7705560000000, 4777750),
   (57941171617069893222117709234864473627929601510593812903654441117154216975959, 61644480000000, 15411120000000, 9555510),
   (57950283610068134703338656461790292312888348378874616636125233354265970862372, 42534691200000, 10633672800000, 6593300),
   (57991345488229814537711084211390662948956665023501372644957909038002613976111, 51370400000000, 12842600000000, 7962920),
   (57992220631886814307460275241965025786841399063057577642908176130934420964124, 108905248000000, 27226312000000, 16881400),
   (57992766767397616105719240703051978191991593392076237844809640170262589908850, 10274080000000, 2568520000000, 1592580),
   (57996250891399987975915940101667106679351007347983746106071390479674465858817, 16438528000000, 4109632000000, 2548130),
   (58022284088907856688898106722375364912813362936930006619752580125127117884486, 26712608000000, 6678152000000, 4140720),
   (58027840047048212534380815745847859017724365990847378500825437377533777867560, 10274080000000, 2568520000000, 1592580),
   (58037202400803115673717924653942347919372129030270715518603473901361417318458, 308222400000000, 77055600000000, 47777500),
   (58050004934794495390840011423537669874249965992354275222988486979642773297675, 10274080000000, 2568520000000, 1592580),
   (58077813613289793323581649961072222355005704592646720598957227958771733579776, 51370400000000, 12842600000000, 7962920),
   (58083495990918026254490073582741614479130751189605622577974643731334009587244, 10274080000000, 2568520000000, 1592580),
   (58112472928786806022506231999604221175101927010748534973744236124545801258582, 41096320000000, 10274080000000, 6370340),
   (58128376023310282486963234801578406011634914486320761219234213312522501141062, 20548160000000, 5137040000000, 3185170),
   (58132473554295518799802822891416329511008481982032641059365619784826315775088, 7397337600000000, 1849334400000000, 1146661000),
   (58152282643012393413570462185048863119131614879684173498962255475242576698721, 320551296000000, 80137824000000, 49688600),
   (58172421391935746979741201584659713484939141097796498145710953898039696752494, 20548160000000, 5137040000000, 3185170),
   (58253292560891365911096671865638189323057649971188714392962774260181297696028, 71918560000000, 17979640000000, 11148100),
   (58270902911070151682524404148273291269295951889155828386875915287362410926340, 10274080000000, 2568520000000, 1592580),
   (58298195991070105176205365472618357957345117914211998874703149046887627561830, 1054120608000000, 263530152000000, 163398900),
   (58323126736553591229353863213415959121276117680004125542181623661003248642897, 10274080000000, 2568520000000, 1592580),
   (58337792952821245828078629402150048338413013801938606159804518580695991415848, 189043072000000, 47260768000000, 29303600),
   (58806653902231859498145777855770062303053610028007341319401056893128034353457, 10274080000000, 2568520000000, 1592580),
   (58815219851649263282526001061868092333000217657767028783162014023422206564420, 10274080000000, 2568520000000, 1592580),
   (58820382334559670472731852676112834359250082895652641427340255195419603359349, 41096320000000, 10274080000000, 6370340),
   (58820877606638725238878729043889001184648934693851336809004810592370504144933, 10274080000000, 2568520000000, 1592580),
   (58836802522050250774389026430635828751412370940462497971728631312718258909299, 20548160000000, 5137040000000, 3185170),
   (58849165718477696974214154916807486705815563827053348816894603214891794553166, 20548160000000, 5137040000000, 3185170),
   (58865966583295034680401633787552505691669644319641370522797667781666613887836, 328770560000000, 82192640000000, 50962700),
   (58871212556978019790675840110817168613175208505999835692479049723370882119531, 10274080000000, 2568520000000, 1592580),
   (58891632444002363934306869194357850162666006175663885483737143608664436338446, 51370400000000, 12842600000000, 7962920),
   (58893640036457025454599987054635632162503040506952694762807929242822271926072, 458223968000000, 114555992000000, 71029300),
   (58893993194646445432072603086487913545263076712237942924529771664622289351035, 127090369600000, 31772592400000, 19700300),
   (58913298928703304244666417772669551450651658552176529592667043032098757091887, 20548160000000, 5137040000000, 3185170),
   (58916760496939943723801527070862257843797899655522879141862498131254804249677, 205481600000000, 51370400000000, 31851700),
   (58962870461195601202407645171758044976091228884811795606706608661279090160995, 41096320000000, 10274080000000, 6370340),
   (58974918124265634416866232240581487728514000719806931614346055967914808387966, 2116460480000000, 529115120000000, 328072000),
   (58976574381833575833588866143915450709020817239265445136737622971427617295664, 14383712000000, 3595928000000, 2229620),
   (59020723630177415956716702813273408441957521326235367882554542024618569065850, 20548160000000, 5137040000000, 3185170),
   (59050969394188755275027692824994822354068866065667395917997547032008033634644, 1003777616000000, 250944404000000, 155595000),
   (59068173614974393007995271360957569246151083131302674559168961021394703315998, 10274080000000, 2568520000000, 1592580),
   (59068481294927990763112090525802388274712646335438538298832433111560751638654, 10274080000000, 2568520000000, 1592580),
   (59074288459996900772218139463892598663844573781926092535559017246137396409942, 10274080000000, 2568520000000, 1592580),
   (59074637801593381138247329874688731890343224088807787392926345533701444626203, 682198912000000, 170549728000000, 105748000),
   (59096684844931822378294569949074292952123270452744841921475905833430437873744, 10274080000000, 2568520000000, 1592580),
   (59124529394751375787316770721905592677376316977915885380032408998977649033336, 10274080000000, 2568520000000, 1592580),
   (59152922231517576641432613205629276746513402689820215895371094484089496124779, 20548160000000, 5137040000000, 3185170),
   (59160374361835145345357070153437490596194675176084065908815947335205316747371, 16438528000000, 4109632000000, 2548130),
   (59199839107045339950261287961342209528666284834271547749121894219271429398109, 20548160000000, 5137040000000, 3185170),
   (59747594545428238405466139475497909954203745029212107122459936421166973184094, 205481600000000, 51370400000000, 31851700),
   (59765820154879901447365040914110530695020367891351159969674608874358897200164, 49315584000000, 12328896000000, 7644400),
   (59789435368158473658100387587771079225196139217928639092313521309669531914765, 41096320000000, 10274080000000, 6370340),
   (59804428726249188977763069812404383936666242581578496433006612948717128168297, 20548160000000, 5137040000000, 3185170),
   (59830600774284709701158010381756318008208212632454867827689827687810872225394, 513704000000000, 128426000000000, 79629200),
   (59840867254044296158230346677418696109343229135591267986544767587527086281079, 667406866900000, 166851716720000, 103454700),
   (59862919104559354665309779310121526780757725945939200981697743631093701490231, 10274080000000, 2568520000000, 1592580),
   (59876682198760354180289691606071419358132652198943382112355550851607990283269, 51370400000000, 12842600000000, 7962920),
   (59901103874494399053088195760574554450940420017202809843669917840117116428054, 10274080000000, 2568520000000, 1592580),
   (59912292427889316701599414154381585207341516606906427081513206459657305588564, 205481600000000, 51370400000000, 31851700),
   (59919481317773277474246352104354896920927762073816565993711652397822757860886, 41096320000000, 10274080000000, 6370340),
   (59920263678189805360358040902799779469773016623183904271637758385855211207726, 143837120000000, 35959280000000, 22296200),
   (59926439210820353626193181554170061805993642923941749715991830396818942668088, 41096320000000, 10274080000000, 6370340),
   (59978221401904972311226661873170563349601672952888245691174589470740218924550, 20548160000000, 5137040000000, 3185170),
   (59983423756328074578036185714265322958315804390472198917535123251819786413105, 10274080000000, 2568520000000, 1592580),
   (59984765649141659298407316806100228344553748011049456112263777093077522296350, 51370400000000, 12842600000000, 7962920),
   (59988433878218637646405299242977753536220252559273533537793516322054848006206, 410963200000000, 102740800000000, 63703400),
   (59999902745208634782286548829638862694355747065450734636537038656931323575084, 30822240000000, 7705560000000, 4777750),
   (60044333706661750131067017118932111056598651387523155711957592494345834824466, 240413472000000, 60103368000000, 37266500),
   (60610596985828478335643103016221020644181748055777874627504359860939198692358, 102740800000000, 25685200000000, 15925800),
   (60632431692011552027253146825823296649800186237661309611331985723096667661886, 205481600000000, 51370400000000, 31851700),
   (60659646211004516879790078445028561477548573520439404808198600134971390624042, 425346912000000, 106336728000000, 65933000),
   (60663486403715922733007488837161900388574552440084110849034179138354373417038, 2054816000000000, 513704000000000, 318517000),
   (60666553143091093752245021343808809198765898104226610200255606160414466107166, 20548160000000, 5137040000000, 3185170)]"

definition rewardees_22 :: "rewardee list" where
  "rewardees_22 =
  [(60692440757152941907108099833357189394383815429272008656831837518682081254703, 18493344000000, 4623336000000, 2866650),
   (60714436180007210574628901145273183656429633386657127035883373313985076073036, 215755680000000, 53938920000000, 33444300),
   (60720871756201833655548406457519142976442545075797012644468581695394990115392, 65754112000000, 16438528000000, 10192500),
   (60733042365800690158718729209803911912693451482340329338011794490055185972557, 10274080000000, 2568520000000, 1592580),
   (60791249771915162424429548000296288291601787834826511877168902794046688717438, 96962657410000, 24240664350000, 15030200),
   (60880719288874173470073093533504813603314006023478065877742621724981236971365, 20548160000000, 5137040000000, 3185170),
   (60886815274490037480555154050182095782555488139000582955609325914493534936098, 10274080000000, 2568520000000, 1592580),
   (60897440156068141709631746656609643401212875825992706210847957088986869347450, 367812064000000, 91953016000000, 57014500),
   (60899913864571271330516404585961845997961716604555642148980238191899408939610, 10274080000000, 2568520000000, 1592580),
   (60933579045376299149217577018265446075570168264435484878325140426730582732864, 10274080000000, 2568520000000, 1592580),
   (60946628509822669945098358011268661975714323697944018890848104125221991182672, 22602976000000, 5650744000000, 3503690),
   (60954303058414967692918630507925114632084382971602487173461222718098226348051, 10274080000000, 2568520000000, 1592580),
   (60982012320213100077868211603006968020954759253918696111948122900665360821588, 18493344000000, 4623336000000, 2866650),
   (60983414474817664390318395109452446165577870375164693661938298744018759838786, 10274080000000, 2568520000000, 1592580),
   (61006647913412159845696091593364614204766462899479518636629081977458078909459, 61644480000000, 15411120000000, 9555510),
   (61021903313678728684227095539320231613402367674344338779930068155566292795143, 308222400000000, 77055600000000, 47777500),
   (61025008353502845122216282661581769174809460560540098736866279117605804295486, 51370400000000, 12842600000000, 7962920),
   (61030298495986760796420204138242311450784634330846153430703557282260302088729, 20548160000000, 5137040000000, 3185170),
   (61037463501470852448353830855869409889965062072653485134294664331935444562790, 22613250080000, 5653312520000, 3505280),
   (61519982081001741468133489417309568285633804862166527615220758091407504089911, 10274080000000, 2568520000000, 1592580),
   (61552445451949932424479987188700710068716886039696221072476332412441368765984, 41096320000000, 10274080000000, 6370340),
   (61553852854133378027990747181257124050504476704328493198923834486701088153344, 410963200000000, 102740800000000, 63703400),
   (61559750259519224511247856214834226359129715067272271483393366967017401430592, 20548160000000, 5137040000000, 3185170),
   (61562524585976389990768384051740526492592591480793858847017847872212022206470, 102740800000000, 25685200000000, 15925800),
   (61572281468674104993146200137677091492686725371079785012258348468450360948783, 10685043200000, 2671260800000, 1656290),
   (61577424681096454625855105590654694330060402511840008721005800286196531362609, 41301801600000, 10325450400000, 6402190),
   (61578214283894538731471567337350787927074090440955140895468610383185149641548, 18493344000000, 4623336000000, 2866650),
   (61581754481896906273152770299155867562317463597416930206409891467282599842943, 16438528000000, 4109632000000, 2548130),
   (61585571526469511436584395206800070258041495382164872510677505020661268470121, 30822240000000, 7705560000000, 4777750),
   (61591962874766132310184491686036694231372599543990105049641003808802687481470, 554562146300000, 138640536600000, 85962600),
   (61596425047608717758765046997362940451708308770772329398039853988933466555172, 41096320000000, 10274080000000, 6370340),
   (61641146693496169447188818332629052511620755090452164157046781003614380395622, 10274080000000, 2568520000000, 1592580),
   (61709077047944647791211951956131917598185838689135280452630430085074183490374, 20548160000000, 5137040000000, 3185170),
   (61710271183692855019345538947666970499462561864962150367919044819069317438776, 24657792000000, 6164448000000, 3822200),
   (61713289909047002557318374455475267612649192407399753423797721585311007177070, 205481600000000, 51370400000000, 31851700),
   (61718528973041324715793263564736962239571138497876883287624176477035896079230, 1027408000000000, 256852000000000, 159258000),
   (61720141046142140408409978205482627052933096216601639244241550544520833683015, 11301488000000, 2825372000000, 1751840),
   (61720891471296793085308438031505441139844659224708282749168525768244783517470, 10274080000000, 2568520000000, 1592580),
   (61722559283220387637288385581152581502807932915691357042112346575250470422875, 821926400000000, 205481600000000, 127407000),
   (61730303206166964063960509404473407743499702182122301225529547764721203670391, 20548160000000, 5137040000000, 3185170),
   (61734258425686259471487159548021093329237161241630914962709036901554929290786, 10274080000000, 2568520000000, 1592580),
   (61764069210861395949030860638454346306833922712699500058955039163427426001714, 41096320000000, 10274080000000, 6370340),
   (61783369079112944179443127945025851427227685805751055543631544597935965307693, 71918560000000, 17979640000000, 11148100),
   (61790404079477953354027279208275833637175054691568320803130886564723950912336, 49315584000000, 12328896000000, 7644400),
   (61808708787953612855261521743351153597468014343441194405311155979315142412617, 254797184000000, 63699296000000, 39496100),
   (61877875852585011970072583825125558005875599761617063418327669607604381343034, 466443232000000, 116610808000000, 72303300),
   (61879565822835182092685890097895655670268776097199796730495574991407161787147, 41096320000000, 10274080000000, 6370340),
   (61896576778514192814008639682112257233422869244796401900543989916052493704725, 226029760000000, 56507440000000, 35036900),
   (61921420531125270470713954179328128966702902872194530665426396268576908866160, 10274080000000, 2568520000000, 1592580),
   (61935912622486610685400378513521062380181201384321780591621831597795723960405, 16438528000000, 4109632000000, 2548130),
   (61939822477668792753332369773230650628321164183655442259790836895747232446309, 285868870400000, 71467217600000, 44312500),
   (61943512330375335763306228338192477647958757882597755101932540513222924130942, 81165232000000, 20291308000000, 12581400),
   (61949308058065885064866733971680365611993505670580493943383579827558199801950, 51370400000000, 12842600000000, 7962920),
   (62420381682940284839315269754644434335162474214483483842114741955477025364343, 2054816000000000, 513704000000000, 318517000),
   (62424405442562994484923515449890211989023694215435405130996554503395528060983, 1027408000000000, 256852000000000, 159258000),
   (62439194267048951847466704540695541968928452760662906841634400935774150616339, 30822240000000, 7705560000000, 4777750),
   (62468221501731007238338176758143820372406146250799746438742865405398075883284, 30822240000000, 7705560000000, 4777750),
   (62469989376833542875504760253578975319467815005940889511083430574085395133788, 231166800000000, 57791700000000, 35833100),
   (62487832057709222146530100669836542718564403549034447197536378611296831934305, 10274080000000, 2568520000000, 1592580),
   (62509992911142451625886056010765033010393689997706362504444183103219078675518, 2054816000000000, 513704000000000, 318517000),
   (62514153095233041269914842644882998656990464869668487723357980013701707049766, 10274080000000, 2568520000000, 1592580),
   (62556784654734214951264736349967742871577671691702613334079597415639686028360, 20548160000000, 5137040000000, 3185170),
   (62585753314508209228153687519197963823960096540171209769860043692770901885771, 4555527072000000, 1138881768000000, 706152000),
   (62629522455383732747841032445713452129282555894754184277688776029328797758243, 20548160000000, 5137040000000, 3185170),
   (62651981509390484965149717939119383257065224812172826147100271464374488789886, 10274080000000, 2568520000000, 1592580),
   (62686410064859987281277300304828902955529618803336124673233703079277311170126, 14383712000000, 3595928000000, 2229620),
   (62705772841995765132733320273073393912322584374201043937907040984510628351018, 20548160000000, 5137040000000, 3185170),
   (62711087315625246905122645612099034986850168367105806559260227298802871797530, 41096320000000, 10274080000000, 6370340),
   (62717636572753732042772213397147206965656560442636293445538359407483808487969, 51370400000000, 12842600000000, 7962920),
   (62723037530610247222051761689148942163196736997971391831683851288350167178367, 49315584000000, 12328896000000, 7644400),
   (62723248598696116124714891980830587288411870986732617563426350558367183850298, 30822240000000, 7705560000000, 4777750),
   (62729839226738506085071148541666996960671271467865573339954381998322123791187, 63740392320000, 15935098080000, 9880390),
   (62730757722197651856843795257465551164521586113381487701134070408934411013964, 26712608000000, 6678152000000, 4140720),
   (62757106504450429178782359254217445134046053376976403682682803982900641784844, 20548160000000, 5137040000000, 3185170),
   (62758158704965888254603961270562028437749160414726366296343256064632799549748, 40685356800000, 10171339200000, 6306630),
   (62780667208592678874932084233576612018945159704502410593450351194034609270862, 20548160000000, 5137040000000, 3185170),
   (62785421373688358815650962439261601391502228070808374985772836965081471197962, 41096320000000, 10274080000000, 6370340),
   (62788966001809614213750325818143022921604142154850743176812323579504354089781, 45205952000000, 11301488000000, 7007370),
   (62822224031970267597614930798668042810416324195422791551169799314077723520284, 616444800000000, 154111200000000, 95555100),
   (62826944203560178064772444836700952721014060670080939472643199804370193207082, 77065052150000, 19266263040000, 11945800),
   (62839401443146242702357046405644285280963550389346039455092561938712429963375, 10274080000000, 2568520000000, 1592580),
   (62862176708140699401813973341785886712300611633726597808057227038302324218747, 513704000000000, 128426000000000, 79629200),
   (62866544665378727167753966817800444942551063546192583229433443755282618516600, 41096320000000, 10274080000000, 6370340),
   (63325278625395586342034624483881021698757544206666408976029016283959928079472, 123288960000000, 30822240000000, 19111000),
   (63332490493137272403626494626131298178229836816558929302708906119565583202875, 10274080000000, 2568520000000, 1592580),
   (63357447215932333632963328382506304049373152541667407415926971529250856670305, 205481600000000, 51370400000000, 31851600),
   (63407491016088282772119018499254355089131990491834273917838105567831057729392, 61644480000000, 15411120000000, 9555510),
   (63432531020984915746590620579137054392332447250758379117721263547926744533055, 314828510200000, 78707127540000, 48801500),
   (63447429370934580714161832781623503959669806203163489620124733832048271842842, 10274080000000, 2568520000000, 1592580),
   (63449793359569399414137766628814193557030665887459434472376111273639507217688, 16438528000000, 4109632000000, 2548130),
   (63508745910296074725373480357465842915293123931777810938792891075419426737952, 14383712000000, 3595928000000, 2229620)]"

definition rewardees_23 :: "rewardee list" where
  "rewardees_23 =
  [(63539833264106897396500868187552513581349551735103750675921891047748490406988, 41096320000000, 10274080000000, 6370340),
   (63551096766009490012856387058049442186054387287803720787576498077074825221443, 61644480000000, 15411120000000, 9555510),
   (63567348636230302707817600023177036904901989224705121060212178086809341657918, 20548160000000, 5137040000000, 3185170),
   (63577880192106110711322461577039873501910598680662182524412932388826204583244, 10274080000000, 2568520000000, 1592580),
   (63578581247328694448790777411458438518853621351166732296189989418064199711040, 11301488000000, 2825372000000, 1751840),
   (63587609456438784482163280271449613894141723724386013833316803039984765183102, 51370400000000, 12842600000000, 7962920),
   (63603618676841417411237199503855778003925379085970806543733496265843127105640, 10274080000000, 2568520000000, 1592580),
   (63606868557737537904607922424118443108346598449282553018043614333403094699384, 102740800000000, 25685200000000, 15925800),
   (63611212846211808480716385956364292392615786721123410190089564721614325551995, 359592800000000, 89898200000000, 55740500),
   (63641719867909127117796913098720234993068566327397205233881927435283455440229, 61644480000000, 15411120000000, 9555510),
   (63646025942818306214925122077680416779189967945231979126061486055943296774405, 59384182400000, 14846045600000, 9205140),
   (63684890578961293504155478286950287331146153590503834713625982331511859651142, 10274080000000, 2568520000000, 1592580),
   (63711584343610125258236655975016696040698612615789986827075337631523498251569, 113014880000000, 28253720000000, 17518400),
   (63722598862672456951121022930684772059762341624614791477870366802417315540998, 41096320000000, 10274080000000, 6370340),
   (63729734681258030400146230312360397573695609472405503178149115475299874913099, 12328896000000, 3082224000000, 1911100),
   (63733048865951279635890713113802657003269284315219368031711101746792146725952, 30822240000000, 7705560000000, 4777750),
   (63734812440604328839542104909998230750260846260816518956801611704822023271683, 82192640000000, 20548160000000, 12740700),
   (63744891449883968591813659907894154670198755436354895303609430667179929789524, 51370400000000, 12842600000000, 7962920),
   (63751667953426682021007115976288114308064107197386770182792614859083287877454, 92466720000000, 23116680000000, 14333300),
   (63763348830271469209799795821880885244345372290318524481346553509973487669549, 20548160000000, 5137040000000, 3185170),
   (63764069294307554412857589708132834090366336427380600566876564034004947510793, 18493344000000, 4623336000000, 2866650),
   (63773130067369140735970650070678888271869840293006965230057410082256614495299, 198289744000000, 49572436000000, 30736900),
   (64234048195075021698216799145201965576229823040789086849624255253520308035916, 24657792000000, 6164448000000, 3822200),
   (64266112150554968437450644576684183163774248811351032943346006672671648479259, 10274080000000, 2568520000000, 1592580),
   (64268994848557773622051386642426565886230482467922535467676764577084636997935, 256852000000000, 64213000000000, 39814600),
   (64271011202643169209752651980727828634806536084790969164148054581286369098796, 10274080000000, 2568520000000, 1592580),
   (64274251985991833182984489943059574640076437836913050823021300003886867351058, 281509792000000, 70377448000000, 43636800),
   (64277088447986777812861562739628794063359992051317156496901736685229422333279, 20548160000000, 5137040000000, 3185170),
   (64310766046512636344975737617877102894022463717266866885906031977269413614606, 616444800000000, 154111200000000, 95555100),
   (64311747036562747013569187640108733400358187238734383642865774217060968757005, 10274080000000, 2568520000000, 1592580),
   (64329510747231565297739800746801741474921201703671241737698554439967434544242, 113014880000000, 28253720000000, 17518400),
   (64333773073679519738419407828734323711239555941606287772305706356351075020408, 82192640000000, 20548160000000, 12740700),
   (64345156604637444625452185254913022697410486812323922717909557962354276708352, 1027408000000000, 256852000000000, 159258000),
   (64377312642199841322447494853690262984882841839312108174410012250218150449267, 327629109700000, 81907277430000, 50785800),
   (64383310333908491602235439977038247870987862043382525961409928375668976663145, 30822240000000, 7705560000000, 4777750),
   (64387430237740424574077708339496986898330690720810505206717635070980917683507, 20548160000000, 5137040000000, 3185170),
   (64406990983287536460642042612437609630326129995393386176227657632545736517947, 10479561600000, 2619890400000, 1624440),
   (64429120369411886378137420104366658831914059257022670427981485432332151539746, 24657792000000, 6164448000000, 3822200),
   (64432957018954167766127737245657036129583177105635416956694879327561542049826, 2054816000000000, 513704000000000, 318517000),
   (64442082313768001368257544010445366605076585932129065557854081170712083113771, 169635951300000, 42408987830000, 26295300),
   (64445986259320871856763168474441905438830478878849989785230554707502982573895, 47260768000000, 11815192000000, 7325890),
   (64451744574046527140402323687906659598413815465756925138654043382301625907034, 26712608000000, 6678152000000, 4140720),
   (64479194033908241458074800806287144170677479419649455425075915648712760930346, 14383712000000, 3595928000000, 2229620),
   (64509216235639304626993587022252123413953132658183407935195589587179021001855, 119179328000000, 29794832000000, 18474000),
   (64512947094829784832174301614617981695997116797839248951022329731892340614404, 205481600000000, 51370400000000, 31851700),
   (64518438964597580354676281690405717660321204171797154991751557344362930090063, 339044640000000, 84761160000000, 52555300),
   (64537838669045930527332477773963991836015188814044515149505188113830483931484, 30822240000000, 7705560000000, 4777750),
   (64548734723490501071520379444475431242797272278917661878001835281131744108599, 51370400000000, 12842600000000, 7962920),
   (64556330194214626613040402955125620607347537336032119078030852828761047201384, 10479561600000, 2619890400000, 1624440),
   (64562391494660434938394915467958743151866583293414389765171731567600612783171, 30822240000000, 7705560000000, 4777750),
   (64569188701270509945380443346328695436000819443772872509463582155010506534440, 10274080000000, 2568520000000, 1592580),
   (64582871205274934377079674866859171499386007032211155346529735997354389517377, 51370400000000, 12842600000000, 7962920),
   (64593490738862227470777902664894477762441379725936162972721062405222133458556, 244523104000000, 61130776000000, 37903500),
   (64593831239893225351143125174348077137304783756175144122395866818093497111575, 20548160000000, 5137040000000, 3185170),
   (64621479603534664097296820277569643512479089870856218129554125962104681492509, 102740800000000, 25685200000000, 15925800),
   (64624116972575006227257480588360916332225921844511848591636449300565132310569, 10274080000000, 2568520000000, 1592580),
   (64641147210770653499885358370291984587420674918702838066297824511799056869475, 10274080000000, 2568520000000, 1592580),
   (64645647593391591878630586551563346794063678228215325147646709465376596760914, 41096320000000, 10274080000000, 6370340),
   (64775430905163593308647202791046709204638957428585138768544510003376965719454, 102740800000000, 25685200000000, 15925800),
   (65141489497973798137562664311470930393430213489243815906210636532999845693978, 137672672000000, 34418168000000, 21340600),
   (65143418913066726220820020923108015621229035477142380630497492038345541291305, 82192640000000, 20548160000000, 12740700),
   (65144742836064023475107212624083451777601892270309324177680655910241695681327, 14383712000000, 3595928000000, 2229620),
   (65180434032883457127354809740122991198038276734833381595725219251574608493389, 12328896000000, 3082224000000, 1911100),
   (65243393155556219824457144734175341343397030823768132492381964036490773154917, 102740800000000, 25685200000000, 15925800),
   (65261001954238278300727100839583113942996467869019932469117375118679090844427, 20548160000000, 5137040000000, 3185170),
   (65272502649889239838828249368019984792741412104580091232948452830434745883448, 73973376000000, 18493344000000, 11466600),
   (65278353954548820548725621699658994505808515419142839010473706173097455283826, 143837120000000, 35959280000000, 22296200),
   (65313782452270633606112518905693878066502915897279114775046135229305859493953, 205481600000000, 51370400000000, 31851700),
   (65373834934357036882038770087122610491529185021999738245369637949145894741292, 10274080000000, 2568520000000, 1592580),
   (65378945334740979134096416716896944494429852446039383721146537678511052961841, 28767424000000, 7191856000000, 4459240),
   (65386409051144733466170306899588035561259161277704251428596400593964652562517, 10274080000000, 2568520000000, 1592580),
   (65413587115713569335128204486605419367907735033376035126532514683219724042066, 10274080000000, 2568520000000, 1592580),
   (65443554418810222586924386097877025724282125561904412211173521729395286523183, 277400160000000, 69350040000000, 42999800),
   (65444934654100703446054150589773865347864289740418559027662746580013270980903, 10274080000000, 2568520000000, 1592580),
   (65446813702561028498037198668297733300099330656522702781818255133946032518440, 102740800000000, 25685200000000, 15925800),
   (65470092674002632939649270388632972699943877617704398121166293120860646451260, 34931872000000, 8732968000000, 5414790),
   (65477557488847170967803000474526247205482826931941980928510474940196940671274, 88357088000000, 22089272000000, 13696200),
   (65484547829906861294766825558869887869967131597797130480930682922181309514547, 61644480000000, 15411120000000, 9555510),
   (65494398856763619232586558273545155671067279601963189434254408548898311311212, 51370400000000, 12842600000000, 7962920),
   (65494838472474158269030564016455718640466555992063385114070864927896548824331, 96576352000000, 24144088000000, 14970300),
   (65520956691618478113985076258187058846470043035890141113267333271376745181034, 172604544000000, 43151136000000, 26755400),
   (65521570797553588451169529776992232540191150798983877171713737214349085613627, 41096320000000, 10274080000000, 6370340),
   (65549531321059615190523507046208559890607531099546433836315098612676833018898, 10274080000000, 2568520000000, 1592580),
   (65553394226308522151822814769448359791619399458637661513060337769551208652599, 78083008000000, 19520752000000, 12103600),
   (65577678568461353759450857698481927545349835411081383653234324211473120181784, 41096320000000, 10274080000000, 6370340),
   (66041017550916399439672021640319958608163596169569288447451495753026768344179, 102740800000000, 25685200000000, 15925800),
   (66062199615674010547382253542980748956585392065897068685379729997712227362886, 24657792000000, 6164448000000, 3822200),
   (66090843866254295685110968234443619241491976835789942438149934930474504989555, 174659360000000, 43664840000000, 27073900),
   (66133903784701688048181226622466142097145009179703609608798890095161065581357, 51370400000000, 12842600000000, 7962920),
   (66205139998616218632500180398939291592768282151884732959515161135255371467779, 20548160000000, 5137040000000, 3185170),
   (66217135460178689145597157056296885435769292087060264423967920607457172003390, 71918560000000, 17979640000000, 11148100)]"

definition rewardees_24 :: "rewardee list" where
  "rewardees_24 =
  [(66220433619101907286540711931625595445300443606605404303793449941287400676193, 256852000000000, 64213000000000, 39814600),
   (66224482446290972499063858971870279483123699161537280866068941355356787870478, 12328896000000, 3082224000000, 1911100),
   (66226811563145617210243135336621712101416512179194089346952046546118360220782, 54462898080000, 13615724520000, 8442290),
   (66243119055107802408852564396659496037031810146271666576640159757854568567621, 10274080000000, 2568520000000, 1592580),
   (66262310255490660421943607520600246114702673072932675892469086749805114787168, 1886321088000000, 471580272000000, 292399000),
   (66293064605212977897832588131949842659201791306593218429867384200295136438056, 164147702200000, 41036925540000, 25444500),
   (66331543995782759876093669340242361113428892172021255965141479644879831039779, 287674240000000, 71918560000000, 44592400),
   (66344976035281616764191887226859422616690448895005255062137786166111855048757, 102740800000000, 25685200000000, 15925800),
   (66347771968986270457276331522268856557394228464927369347701992070774003822929, 41096320000000, 10274080000000, 6370340),
   (66365376308940317922748803182723434651110668532478585338912641121049951705408, 102740800000000, 25685200000000, 15925800),
   (66373042437524070006836252395659366255398701248563818808738450787929123699518, 20548160000000, 5137040000000, 3185170),
   (66378097057705557972311114668909820426088612916248926895534346593533673234986, 205481600000000, 51370400000000, 31851700),
   (66433505027975637487958048439047490296359756883671815648429781331206927890451, 14691934400000, 3672983600000, 2277400),
   (66436450143230183407886314918050234320775329437036686076776891898907859117337, 10274080000000, 2568520000000, 1592580),
   (66469517271083944177289142538138868460162800039823967296462473398074505742462, 82192640000000, 20548160000000, 12740700),
   (66488019672309023819003888295222997863235036393503679808272988927198119908386, 30822240000000, 7705560000000, 4777750),
   (66951388298354140594124009991145054603458874221995626990101616680494788011621, 102740800000000, 25685200000000, 15925840),
   (66965561135698096202109042141737468389471766812561276385865913889781058073383, 30822240000000, 7705560000000, 4777750),
   (66966062287484881746163016192132274939333195815326924002375747135617031336311, 42123728000000, 10530932000000, 6529600),
   (66976209445687621379207763192589284120278754583242797352718874548459476126315, 10274080000000, 2568520000000, 1592580),
   (66976624134643182331189813509842339030415348557662684419632194484288839227496, 10274080000000, 2568520000000, 1592580),
   (66981750027191506846538705840031400886988292293047288938338696561865601404729, 10274080000000, 2568520000000, 1592580),
   (66982918772730609957716193780161020048163985708520973526823601753618356644973, 661650752000000, 165412688000000, 102562000),
   (66985970679859455905446422535335420340977233355586524977179713679328748180006, 3088388448000000, 772097112000000, 478731000),
   (67017242055228499162403778756583518358704020921358604107636573697506857648980, 205481600000000, 51370400000000, 31851600),
   (67020633941994831586823501228633817366585403475564669203407673666633317787478, 22335849920000, 5583962480000, 3462280),
   (67021483455275617166339295706293428419295654959156116449601706639920317304350, 102740800000000, 25685200000000, 15925800),
   (67027657887652587986355693115221229381092277814836668673826940044905007148890, 164385280000000, 41096320000000, 25481300),
   (67072146781116057379985815953492506392516917549991352177593403256006614143501, 256852000000000, 64213000000000, 39814600),
   (67082788958992541455239667851485080338487017098978798926548836834744768035108, 410963200000000, 102740800000000, 63703400),
   (67120004491571112075058784816925204254522979706131214266615946612664352419381, 10274080000000, 2568520000000, 1592580),
   (67123315034747469085976564604291970398717285620465249772762917992407738227745, 82192640000000, 20548160000000, 12740700),
   (67162007964903153695661309074861616489294558268041774316286064988882259050766, 10274080000000, 2568520000000, 1592580),
   (67170743568374954855003908678489189339704623820929550101636812350729926180155, 10274080000000, 2568520000000, 1592580),
   (67219062639141953511535105650953072660505366859843621415482383729717955839036, 10274080000000, 2568520000000, 1592580),
   (67220728537344767109237357076055246321073282474675875406614401897355802897010, 10274080000000, 2568520000000, 1592580),
   (67247995431419099916846222246917700369777404241714783474378097909313045526846, 30822240000000, 7705560000000, 4777750),
   (67269782241563776036205945765861884753698772142726701947232728229259099596377, 10274080000000, 2568520000000, 1592580),
   (67270411466448582080459532323405270234837048256198395769834061363529735634267, 61644480000000, 15411120000000, 9555510),
   (67316925310119545588360672633960330357606039564326282024137023261032131146853, 133563040000000, 33390760000000, 20703600),
   (67335906633348927193152294348056750515568443316334232594165737764906025352278, 198327434800000, 49581858700000, 30742700),
   (67350522808007643970990521356138303698813385442183464076190801030288501265505, 53425216000000, 13356304000000, 8281440),
   (67355023736081990226923446295060142125666583226059553590153977099382419292718, 30822240000000, 7705560000000, 4777750),
   (67361948942934901838390243114955499288583288482945637484236344983992902994805, 41096320000000, 10274080000000, 6370340),
   (67369945953356031836758747662728323419625684146204587641617295020515781458296, 82192640000000, 20548160000000, 12740700),
   (67871227549242892659712549593074334615882807950880988107501923453890709029481, 12328896000000, 3082224000000, 1911100),
   (67871799453771996903828345172947910627689776159699984294510300023673879682860, 60904746240000, 15226186560000, 9440840),
   (67898615899633228118651656743772987907477012346205178658375382399295100934150, 41096320000000, 10274080000000, 6370340),
   (67947120875589578740291855880567317773348887464892028854447805953670327838247, 1027408000000000, 256852000000000, 159258000),
   (67967973249570818859188308290640239018004361070827868710565773728756932842807, 1089052480000000, 272263120000000, 168814000),
   (67994879634501132516168756883169279697637851228501946809834975275622784691471, 2054816000000000, 513704000000000, 318517000),
   (68028445538710010840605932977451537742910348770372458034724302888840854604310, 263016448000000, 65754112000000, 40770200),
   (68031103985880662044854655392380472972575071794046767076597777812655388052082, 34931872000000, 8732968000000, 5414790),
   (68035139215742238774637815361211496514697843895860791767940554314867982884417, 22602976000000, 5650744000000, 3503680),
   (68057194020840341310481495090235521565076195370127644229341924858489232465435, 16438528000000, 4109632000000, 2548130),
   (68088550316123691445255784190405579155092089367554157374401607544168582682886, 10274080000000, 2568520000000, 1592580),
   (68094720260238123696474389915442095538556621752278716242093236173665660053065, 10274080000000, 2568520000000, 1592580),
   (68102449060253027463121740698814000614322243905371454846961901319864017774627, 10274080000000, 2568520000000, 1592580),
   (68106615935103040636859598558752180449494729734691930628730317488440413662526, 20548160000000, 5137040000000, 3185170),
   (68129961347915899472929112100497295382241099455177689288880009583369650559558, 10274080000000, 2568520000000, 1592580),
   (68131494237405193025842588297588011931172094297662785882162378397444404580608, 51370400000000, 12842600000000, 7962920),
   (68152424974164749091845593079429081702575395577029560508502024035300591024476, 41096320000000, 10274080000000, 6370340),
   (68164513563471005720520734516999397856721823342128764060731998719013455898170, 41096320000000, 10274080000000, 6370340),
   (68177341595314641237183760287687018803661356037986261907050822292160470253922, 2054816000000000, 513704000000000, 318517000),
   (68188127950618450488492461317917426636084352162148342224102775187995453458500, 20548160000000, 5137040000000, 3185160),
   (68208072438232797921708753780845351030182115957687102443471184435545776690182, 71918560000000, 17979640000000, 11148100),
   (68223246348534003145039897301221551755344555423156707148837474935283674259049, 123288960000000, 30822240000000, 19111000),
   (68228701955811681011226322373984997467161144034367784478119703598168308659326, 11301488000000, 2825372000000, 1751840),
   (68270188387025102114506822281133730642205683373224914942094900063865967815533, 57534848000000, 14383712000000, 8918470),
   (68281278006693067598418055244445369077399797008599201777354093907182374391918, 117124512000000, 29281128000000, 18155500),
   (68765714252262686324757103722675226443196348775737349513801358319202727804242, 102740800000000, 25685200000000, 15925800),
   (68777134897535798349567944313214710288394067391936468027213399210990908364081, 215755680000000, 53938920000000, 33444300),
   (68781856584147337505189226788697480163439028546968438692665081824921199213134, 24657792000000, 6164448000000, 3822200),
   (68785430765653064664055406579570799831369449854843715874912570491246374159937, 16438528000000, 4109632000000, 2548130),
   (68826607842483508715449432101912622589562243732629914198655424356137342951705, 20548160000000, 5137040000000, 3185170),
   (68828678455193036473128908798396948365088638974951173797021036300551217165376, 16438528000000, 4109632000000, 2548130),
   (68828749432383664968273587322236068909238908878779618962157147876322005440585, 53425216000000, 13356304000000, 8281440),
   (68841603437360190415962239027301551055777093308577146015880986724738147212068, 51370400000000, 12842600000000, 7962920),
   (68869254861009822993976257118013772972548117072896224163019221627833169786887, 20548160000000, 5137040000000, 3185170),
   (68893552449332129306461540096466875361738634465271646157061424934171876311363, 69863744000000, 17465936000000, 10829600),
   (68916416769116694373677718385558758554284499803896222829299488904269985083703, 73411178340000, 18352794580000, 11379500),
   (68921162435405727457068026503885376206123356120255235498695773722574033883212, 20548160000000, 5137040000000, 3185170),
   (68927682934049862176427158682203207477475875915810807698696055351891702169955, 16438528000000, 4109632000000, 2548130),
   (68931627538615398930963848636749771742511745488864768374616386539600932153703, 10274080000000, 2568520000000, 1592580),
   (68932866666135260091038314026054065312150919398012988265407827817492748848157, 10274080000000, 2568520000000, 1592580),
   (68941641818404518158512859294911270809281212863329021873012489191275020973398, 73973376000000, 18493344000000, 11466600),
   (68942240570059975753527232138115523514534667858780344865019630527098122747415, 2054816000000000, 513704000000000, 318517000),
   (68950648612084484629847571501073607240286424725941440414190766494563193082371, 2834618672000000, 708654668000000, 439394000),
   (68986393227689907846184657710554288710666500980459086622027970543852583435876, 205481600000000, 51370400000000, 31851700),
   (68991740997560933982253935715427524841915037766621998440802285220376592612400, 267126080000000, 66781520000000, 41407200),
   (69011579622844044295789969164405444610606243591752739268640653983368770236700, 10274080000000, 2568520000000, 1592580)]"

definition rewardees_25 :: "rewardee list" where
  "rewardees_25 =
  [(69026115401461369391117659861581690984427426024992112586181868931051682129737, 41096320000000, 10274080000000, 6370340),
   (69038272324607374694026615150198526297920030683423735834739108507413528453495, 10274080000000, 2568520000000, 1592580),
   (69054004753669351842368894369616984089272635831590466952757504763245520406787, 41096320000000, 10274080000000, 6370340),
   (69062566727275779250276716197890890985951361022708365006081953085451537897565, 10479561600000, 2619890400000, 1624440),
   (69073621910320690407849368161694088922287315871489059634295013626334734398500, 20548160000000, 5137040000000, 3185170),
   (69091530371943530296068645722652491558500400482203058929729636522208556895593, 20548160000000, 5137040000000, 3185170),
   (69096356678194065194078720316216477660471384226303205065861661300804949350773, 10479561600000, 2619890400000, 1624440),
   (69122536832203433403732502759854045698777171662407669878436892845739605964415, 30822240000000, 7705560000000, 4777750),
   (69123420775863392476258124397023942717540820305398865175008723942647332371534, 41301801600000, 10325450400000, 6402190),
   (69163261844985985146336014933272637632291930726192133446307767662471025174047, 12328896000000, 3082224000000, 1911100),
   (69167778195203869702971015911719619125380269735296526187047870038305191828323, 26712608000000, 6678152000000, 4140720),
   (69672327744027299328575328446030740766701949943190603692705970378824276857724, 102740800000000, 25685200000000, 15925800),
   (69686816715300446060481010490322898938882023944928918630328758617570613005125, 82192640000000, 20548160000000, 12740700),
   (69700177450453721555139331513723706303125019524304579731047287522748448104790, 135617856000000, 33904464000000, 21022100),
   (69708790446061017563752702028024042103206119263953854331084732795112081259848, 20548160000000, 5137040000000, 3185170),
   (69723233812347621591152824440884700107732126893008198372053887701657238455572, 57534848000000, 14383712000000, 8918470),
   (69724716413539351485408851711726752144713093153045702366034273807049374660164, 92466720000000, 23116680000000, 14333300),
   (69774397827416241531559410775106988737285953747758321920180836624226412788570, 10274080000000, 2568520000000, 1592580),
   (69781952982389208252193571597085712011622940600757711947340444681816940834566, 17465936000000, 4366484000000, 2707390),
   (69791366839041349636235242701034854543940759934096108418221039523915044874027, 39041504000000, 9760376000000, 6051820),
   (69800519018161296746167440733924358111317376751463530733793460670372946398322, 10274080000000, 2568520000000, 1592580),
   (69814847382243749672328394176708771322301609647053052386288787875184464182064, 41096320000000, 10274080000000, 6370340),
   (69843937047927483354150701801115086639111858146394109991045730793618730582537, 41096320000000, 10274080000000, 6370340),
   (69845451952269564902591872580544588792434826095839395209060255274121515425304, 10274080000000, 2568520000000, 1592580),
   (69862750942798117390855193935306641161460993685686213775452806329961162439181, 30822240000000, 7705560000000, 4777750),
   (69862808534728091681888869156247243331498103860325323035146651533414486943043, 37808614400000, 9452153600000, 5860710),
   (69870944955868813427911369176678131967865694375967111054707161457730889641480, 20548160000000, 5137040000000, 3185170),
   (69889772053368616187717495374040112887454586338333838260638587946524972772427, 10274080000000, 2568520000000, 1592580),
   (69927055338806134902718778463143884494653912898082032399111939618448309264459, 308222400000000, 77055600000000, 47777500),
   (69934314705733476543172152227633171417501955085223961607094763761855273196306, 41096320000000, 10274080000000, 6370340),
   (69953241175366565206030593498383738470045166048592808255064142583852229845818, 575348480000000, 143837120000000, 89184700),
   (69978137104637319132554107157013349694263482626722810479461800564134158026106, 21164604800000, 5291151200000, 3280730),
   (69990685875020522890839532814887428653513001818742715737838783365998264725576, 558909952000000, 139727488000000, 86636600),
   (69998681132452456056738952494232120537342207981464647913141891371605501922926, 10274080000000, 2568520000000, 1592580),
   (70010323104356678780429468678108748822716766216375980065844957261197096944498, 16438528000000, 4109632000000, 2548130),
   (70038637914316752570668798920553943845302270265635498560223298208615494041656, 82192640000000, 20548160000000, 12740700),
   (70045288521302182630616685517504370278700670562469704087321423726902496019047, 102740800000000, 25685200000000, 15925800),
   (70059429548960008147022766884875231395221481746910191816988515267858131981385, 10274080000000, 2568520000000, 1592580),
   (70062498956332176925327553695321293315628476130348374847990205715402673816920, 63699296000000, 15924824000000, 9874020),
   (70088776929435588825681396759656498830971343996154183867369810103804092490762, 18493344000000, 4623336000000, 2866650),
   (70094964574417902048039006161841893893153576147569947926173972709991637304832, 41096320000000, 10274080000000, 6370340),
   (70597620444890351075929192831066837712554214765345026771415524849338824705575, 20548160000000, 5137040000000, 3185170),
   (70603952510857471800711612362450714263859123895929174339192983115372387100740, 61644480000000, 15411120000000, 9555510),
   (70649097527418863031647230449443389586941898530292341530262632732824985221205, 14383712000000, 3595928000000, 2229620),
   (70666197758644129189420201319938562106452120206624815325115618852291540187914, 106850432000000, 26712608000000, 16562900),
   (70691854905719793154898164779149144472158932141075640926146948546078599397652, 10274080000000, 2568520000000, 1592580),
   (70705953584086313261690859472016778947095838534849165340088542306475010346611, 10274080000000, 2568520000000, 1592580),
   (70720744734698145973392541958909201593634189434683696926459615923209930200612, 410963200000000, 102740800000000, 63703400),
   (70720820681425063692365553158573746786860421627586919886809898053822188922370, 41096320000000, 10274080000000, 6370340),
   (70768477890888240930708660932038525809222587675890692961691211538807809974398, 20548160000000, 5137040000000, 3185170),
   (70816023858325379501382007536388831744140402178344626516892384913123148560669, 10274080000000, 2568520000000, 1592580),
   (70830489757762299821989778880442699048631751530209091201359263535555368700719, 90411904000000, 22602976000000, 14014700),
   (70832488297303010105423264564359315153547010847007935086421930979270249578033, 10274080000000, 2568520000000, 1592580),
   (70838344678957451883027414321605010538473008770038681195975036934107783640377, 41096320000000, 10274080000000, 6370340),
   (70883349154908668861128585639277767919564217108447953111131868724099216186702, 226029760000000, 56507440000000, 35036900),
   (70888935288834192303887407153046510134874579846663875654219384672803907155457, 61644480000000, 15411120000000, 9555510),
   (70929043117174189640694064399316364706796383691029240018006724382242144274007, 10274080000000, 2568520000000, 1592580),
   (70946730936691589982148732369774987868941088596288654499201089002236212656238, 73973376000000, 18493344000000, 11466600),
   (70965273774168921797011831218399634267204699779360656296572928775965290737725, 41096320000000, 10274080000000, 6370340),
   (70973613535926127634936902696762490581755284071464940192041369545257024299352, 20548160000000, 5137040000000, 3185170),
   (71000500086226508342786734718547041115265562132779583993059266891956645182810, 222947536000000, 55736884000000, 34559000),
   (71009829661935066605766350574286365806003218194950205643716684229027111117335, 10274080000000, 2568520000000, 1592580),
   (71480392703049198636637949155648505555532157641670236257387060211532521286453, 164385280000000, 41096320000000, 25481300),
   (71481156738552992921705816093063281733391937106408515400503366682255561744465, 203426784000000, 50856696000000, 31533200),
   (71486052985731544864593024738235311852465943558619682937574849561268788527979, 20548160000000, 5137040000000, 3185170),
   (71496620059229357721874395110115186656421058381422449655986438664014056001544, 39452467200000, 9863116800000, 6115520),
   (71537483427466262982110669198755239414971422993170157537451085852350395669623, 20548160000000, 5137040000000, 3185170),
   (71546133216528123549954104491469290946619630978033975776362287081127323115134, 20548160000000, 5137040000000, 3185170),
   (71552983220537884485338595216987360215626272547131793243470361751611597705519, 719185600000000, 179796400000000, 111481000),
   (71562427294161236148349110279148214954399835063294013151257749237579418039391, 410963200000000, 102740800000000, 63703400),
   (71581024246301229127628560268686449798024373511274258951959998578589568384045, 15822083200000, 3955520800000, 2452580),
   (71582427994458589412691026177010677315362147582555857107445792873327218802002, 10274080000000, 2568520000000, 1592580),
   (71585270565871001426978838052764321802080704859902594380584911111217079438601, 13356304000000, 3339076000000, 2070360),
   (71608521945087801688078248845343920272469183101524497243608898627693097495161, 10274080000000, 2568520000000, 1592580),
   (71614596361946484988055656352361179005794882882196604218786923193714899727188, 43151136000000, 10787784000000, 6688850),
   (71615427256001106050910808135691541501252666076034719121690187927328521378677, 44178544000000, 11044636000000, 6848110),
   (71625202606612213342407417110886508864061750413764610973949648424534982429516, 14383712000000, 3595928000000, 2229620),
   (71630837863020412472546074065483160075374849722061153465660319007092211566354, 20548160000000, 5137040000000, 3185170),
   (71661048295956407502637637745075286400583056264398979131999669888813094271278, 102740800000000, 25685200000000, 15925800),
   (71661854648506421680637449537873497062100779057685596046207582372826316518147, 102740800000000, 25685200000000, 15925800),
   (71674451332536160786501276282037662018831558204635251235968970439461203499356, 67808928000000, 16952232000000, 10511100),
   (71680251180066271525201255773170338969322772170680016567745198620122623736611, 513704000000000, 128426000000000, 79629200),
   (71688560910149858591116281049738233665878505268773002424605819539572664620921, 41096320000000, 10274080000000, 6370340),
   (71701688697755644685121505957934520115597811541179451719057159934854931442183, 20548160000000, 5137040000000, 3185170),
   (71712059935532946151296262622853319484836404178996761839236008510483878437750, 16438528000000, 4109632000000, 2548130),
   (71794769509445763403555583457672580879215691301890528929024465994071934266634, 51370400000000, 12842600000000, 7962920),
   (71840676320163856497710371884270308249129086279338399110289645491446444326494, 359592800000000, 89898200000000, 55740500),
   (71856415874039913352956010777522332300381538688931272017995589218593237093127, 3010305440000000, 752576360000000, 466627000),
   (71871042566838974095478396598513292604950657739888617626397454467921405567562, 41096320000000, 10274080000000, 6370340),
   (71890676268076378250174571492063954606171105561737543491250287077908696240415, 1886321088000000, 471580272000000, 292398900),
   (71908659127545486471697056018198477434028986870742688632268818983232687684657, 41096320000000, 10274080000000, 6370340)]"

definition rewardees_26 :: "rewardee list" where
  "rewardees_26 =
  [(72374171900059240100439627754981463297563848411700949093208397924146958463276, 10274080000000, 2568520000000, 1592580),
   (72382022994853409855166265388894718278264930523895162939943144620403030159931, 363702432000000, 90925608000000, 56377500),
   (72428321495910236944977513545191908445458720387080352256237541662963070449435, 20548160000000, 5137040000000, 3185170),
   (72431167039933309988598591929161466970272444638416235124479216360176092618853, 10274080000000, 2568520000000, 1592580),
   (72444961804713232746063478414819338713235098523696327061626496864889989154400, 32877056000000, 8219264000000, 5096270),
   (72445488124904497809523932113355133591299025510408233295901582430056453895736, 20548160000000, 5137040000000, 3185170),
   (72449559735228188826079626655301362068866575793421116856851138599436697454098, 263016448000000, 65754112000000, 40770200),
   (72476491569369013846483097970771901434824226607390686395236012668447884849269, 41096320000000, 10274080000000, 6370340),
   (72492700965441132179144420957947711289248444766587006066361725310692980764281, 469443263200000, 117360815800000, 72768400),
   (72496717612765820697326744219958485611065448967618383009006372810996817417516, 207536416000000, 51884104000000, 32170200),
   (72499952606295970816924134834747456620410342509063499929226593362579367970932, 10274080000000, 2568520000000, 1592580),
   (72506076067931499296435204146560509670989659744393485825296247868707935142924, 129453408000000, 32363352000000, 20066600),
   (72512538353392475437817739250720108275334477475512425997873312855946645486695, 20548160000000, 5137040000000, 3185170),
   (72533029271002985038431584012851331053130565766198821031873449406023067817804, 513704000000000, 128426000000000, 79629200),
   (72540363642452435136484669316804603686665347274490710589447468922523801169413, 199317152000000, 49829288000000, 30896100),
   (72554683902498959614655813080058110506551540343171474710578376026376239495425, 30822240000000, 7705560000000, 4777750),
   (72570130333453487846706176675970555454687166347164999941689053137272692945957, 20548160000000, 5137040000000, 3185170),
   (72585297506401804259496777425409887032319052398901766227869439003204142463280, 415072832000000, 103768208000000, 64340400),
   (72598492670434418011455119811720514799196950256902100928233188772089089972579, 205481600000000, 51370400000000, 31851700),
   (72598975386193699533382692307707097536434193467601488318829046678730667187303, 10274080000000, 2568520000000, 1592580),
   (72602233070378605862467608009819223404960880494758332712829461434589676267342, 30822240000000, 7705560000000, 4777750),
   (72605251003306368005425316668090042132740702652217709876909915251418930574860, 61644480000000, 15411120000000, 9555510),
   (72628963502369082609405567033117097172394889793865298391746293267184192026971, 10274080000000, 2568520000000, 1592580),
   (72634341774523733098106893578417937986994392683471414071390839607664866306879, 10274080000000, 2568520000000, 1592580),
   (72665158943579923787801991637682407638145260667754745827782851113494667455270, 119179328000000, 29794832000000, 18474000),
   (72698932268478096717604284098882885910545400227125035926197186488784839885648, 41096320000000, 10274080000000, 6370340),
   (72704301581495112824395540990924967239064086302018892862275763346001487481387, 61644480000000, 15411120000000, 9555510),
   (72711806795999358564626270738830984697130061587052398127148878801843121579872, 26712608000000, 6678152000000, 4140720),
   (72721774722586296366424204262769528087881076249545317456788195585586219652130, 20548160000000, 5137040000000, 3185170),
   (72747117751244396885932582244010645356337306768107240670858559557239470376281, 102740800000000, 25685200000000, 15925800),
   (72757546020383547989912301205665214220815711184766577001925100058805735487830, 57534848000000, 14383712000000, 8918470),
   (72781910564928087943071114978024071877121351144796179380811941349890855416443, 123288960000000, 30822240000000, 19111000),
   (72785319555897473757343783793736842431347215069782325406967127343502225108760, 30822240000000, 7705560000000, 4777750),
   (72794506398770741306328599760995737806183738736111745029010274149288460082433, 10274080000000, 2568520000000, 1592580),
   (72795340058279185485861977155303120383635752997483194661336666892035297286930, 12328896000000, 3082224000000, 1911100),
   (72812286796928901125910981382210598166191386874629912655149768162381969323630, 205481600000000, 51370400000000, 31851700),
   (72820716803884935138779098090061355175254206120619734800707226088034237517406, 12328896000000, 3082224000000, 1911100),
   (73276233049005522053879468828032112734886927583278977234459997747481912843789, 12328896000000, 3082224000000, 1911100),
   (73280236195947919127057547418623438002276271219424509553790177607932550613546, 205481600000000, 51370400000000, 31851700),
   (73281010536350887335935839510583565570078324540036116623060069129768169788744, 10274080000000, 2568520000000, 1592580),
   (73304925868447026774651324275194985241430289431341258437530144713322651967446, 44010460050000, 11002615010000, 6822060),
   (73364632534588119392975908476351085807142154577374390442146233441866501833219, 267126080000000, 66781520000000, 41407170),
   (73366742846609946594456686920562937948759244017845101804049927862331449424201, 174659360000000, 43664840000000, 27073900),
   (73386062570461310379682507628999435978411178349894342683185816832542285920888, 20548160000000, 5137040000000, 3185170),
   (73386725171917213895531291332473618090479017284380342380853649857262963396691, 10274080000000, 2568520000000, 1592580),
   (73399190865917571680479534496912149815989044370227353515906287142727159339096, 10274080000000, 2568520000000, 1592580),
   (73412193308462536885539539866357951276319980028853120413685553869502250057831, 82192640000000, 20548160000000, 12740680),
   (73418448653611532203457231485384289997816629546683343917159844279188793069897, 10274080000000, 2568520000000, 1592580),
   (73439467110679431646696281793860561921980811046524113489833526774564170329909, 20548160000000, 5137040000000, 3185170),
   (73447894164515958176680630651910140042847008896857348444668500485520921923569, 12328896000000, 3082224000000, 1911100),
   (73466068770892120125930971207739656683810666495023161520024284431267793598837, 61644480000000, 15411120000000, 9555510),
   (73472190518590234676849962812702471876149546396058931569538888597376153247509, 12328896000000, 3082224000000, 1911100),
   (73495821279587934723155467645503313261716162711903892369198705030746932822310, 20548160000000, 5137040000000, 3185170),
   (73514824791405058136252099468227647251090561463135901144310804818463704184080, 10274080000000, 2568520000000, 1592580),
   (73535268296062460632786897678004568772653407714685341638269785316835083735836, 20548160000000, 5137040000000, 3185170),
   (73563798341469234401285510785557938685088376084902325307403624218503220156226, 41096320000000, 10274080000000, 6370340),
   (73587117953968359334120933875617622751352389884407757684779993115964023917940, 82192640000000, 20548160000000, 12740700),
   (73589464832442756922968892285753549301342790532678977617732269750771062461798, 15616601600000, 3904150400000, 2420730),
   (73602121919169335361095989827383481766161176178845062391922255729028706977636, 698637440000000, 174659360000000, 108296000),
   (73606266534855573099151819203295423312493031989576775929727419537631308644141, 102740800000000, 25685200000000, 15925800),
   (73632615644322031755422657476684969608852137532689194355505227143727150059577, 10274080000000, 2568520000000, 1592580),
   (73642973365538616238843989026307668899882589015732812420931183860453875415615, 108675149700000, 27168787420000, 16845700),
   (73643403042001790789856647400375577888344841383720361974517809594498692482607, 20548160000000, 5137040000000, 3185170),
   (73651707535054674173622024573814511164815284947764552360980612803068438523694, 26712608000000, 6678152000000, 4140720),
   (73670646006801252648840466673879524265626441308767678666484395900789451080491, 12534377600000, 3133594400000, 1942950),
   (73712417422026023482968956115525252303909724446940514313664815792102110426118, 205481600000000, 51370400000000, 31851700),
   (74189664810056286442851220476032679085858704023891934846057645910480502449215, 20548160000000, 5137040000000, 3185170),
   (74209444649666465253249341808325738494796976319490913775722890652593933956931, 10274080000000, 2568520000000, 1592580),
   (74266280250147712536775550754041024908526761447622596731070931774961370240279, 102740800000000, 25685200000000, 15925800),
   (74271824880467836601324204037818754146180124129292276285466656445972231684661, 34931872000000, 8732968000000, 5414790),
   (74283836014232432062573753590866331207811350452316229388489527500428719017842, 400689120000000, 100172280000000, 62110800),
   (74329619523303388744780166318861455993303162675773796925357845074302258036534, 312332032000000, 78083008000000, 48414600),
   (74330539176041902925776739292769843044612357316972097426174698473390528142448, 102740800000000, 25685200000000, 15925800),
   (74331924520379644270920207406646123469682285508892946369290786507191584944995, 20548160000000, 5137040000000, 3185170),
   (74346172125195396521235598828595103011353436649388444183157138146045284489305, 20548160000000, 5137040000000, 3185170),
   (74360694620274168717050880835532863845608756344862695503612765641893075802633, 20548160000000, 5137040000000, 3185170),
   (74373861371921968852201007258894111087553009966290621547167929736053703750914, 10274080000000, 2568520000000, 1592580),
   (74380323028502542187468812695328847542053782007193158753302028406483756790850, 205481600000000, 51370400000000, 31851700),
   (74407267885993673722026781135894301669056215463754224482805114092258865355275, 24020799040000, 6005199760000, 3723460),
   (74407763592782351392940071199370346138066078133341385874311377642642723150129, 10274080000000, 2568520000000, 1592580),
   (74430491912490941965204220844305378683079885684681461190128012019404990629184, 36986688000000, 9246672000000, 5733300),
   (74460268616887221384975730910734002147107204281063903300864080192328906893165, 51370400000000, 12842600000000, 7962920),
   (74463952671023761009744067865310569109969752190208496854577367045709112511522, 521923264000000, 130480816000000, 80903300),
   (74470524659058118403986747119477621886893479853986687413990720007048170601504, 41096320000000, 10274080000000, 6370340),
   (74472742022005440185293112841725980455008877735051195084733297247755768091705, 102740800000000, 25685200000000, 15925800),
   (74490080586480897250311998824669933653039168117024539375543927494426312154373, 25972257800000, 6493064449000, 4025960),
   (74497906926800756107093004977015263458809260671231529211609777814002881943814, 71918560000000, 17979640000000, 11148100),
   (74503124764916307379490879288488056225049019703013257128184155315086393393209, 10274080000000, 2568520000000, 1592580),
   (74518237663866306153444466594116965087701490061638118595278438848964086970649, 616444800000000, 154111200000000, 95555100),
   (74534879113043509799280115996491878798715289548072303896399133744063112350250, 12328896000000, 3082224000000, 1911100),
   (74550808686128651475025670934530249665186723537541973460719124666397433749510, 10274080000000, 2568520000000, 1592580)]"

definition rewardees_27 :: "rewardee list" where
  "rewardees_27 =
  [(74550972573994412700578817193835208518380034719893179979460351782866704443933, 10274080000000, 2568520000000, 1592580),
   (74586643560020778732097262271597836449738000502663242870681545129978287497814, 20548160000000, 5137040000000, 3185170),
   (74600403494205306570588725926513445085046482649427374072178473211908949020689, 10274080000000, 2568520000000, 1592580),
   (74605134193002220756326090718883470259831774435881511823195457466891301823267, 10274080000000, 2568520000000, 1592580),
   (74612006391878257145203863754070518397903882194990085239869395615085638207537, 410963200000000, 102740800000000, 63703400),
   (74614141193443085822553543101577510112439193112520546847484103047637048414749, 20548160000000, 5137040000000, 3185170),
   (74624188683307068244355751965200862598495633522033458186449180138909071934511, 10274080000000, 2568520000000, 1592580),
   (74624238288682237477072954904987477240071231401605010696459886362012341146136, 10274080000000, 2568520000000, 1592580),
   (75102028324223538484313960189938031525202602702989162556008261628889365810282, 2054816000000000, 513704000000000, 318517000),
   (75122184332251172363298256671976913548951205669061335843269096287743800586497, 61644480000000, 15411120000000, 9555510),
   (75125418078394360991463432021566997559004968946909484199505616180330844868680, 10274080000000, 2568520000000, 1592580),
   (75136676191638964612837826085465202799157733483902059079816939862703860863613, 18493344000000, 4623336000000, 2866650),
   (75140415009590828213397603381826403647150505411538988719039563022751369846095, 20548160000000, 5137040000000, 3185170),
   (75160673279991132654884483281636992078695938022866145175116031891772757019459, 10479561600000, 2619890400000, 1624440),
   (75165099317950725278850909397381878213554381081728965299145538348541725122859, 205995304000000, 51498826000000, 31931300),
   (75166556383230020515591690466746969150050257539925046191910135630851730296868, 25187909390000, 6296977348000, 3904380),
   (75199978191049401771576920225286494074423322449195127399549241091489470905148, 61644480000000, 15411120000000, 9555510),
   (75260957197454553219406979767606269156358934168183494761209919241596383017327, 20548160000000, 5137040000000, 3185170),
   (75268994022504308046203191607223590798618915551643605312854767762474869836091, 41096320000000, 10274080000000, 6370340),
   (75311758317769669834720355370128817341473517144344700567949529542624298929156, 10274080000000, 2568520000000, 1592580),
   (75312548278200722467581655313087040299538221098574340198341923488917143041551, 246577920000000, 61644480000000, 38222000),
   (75330316520675759913176545579549494844344193344447140039322051156908338975563, 20548160000000, 5137040000000, 3185170),
   (75337805780239407752232268668927075588003080159485571866594043972723496921621, 30822240000000, 7705560000000, 4777750),
   (75343495564097450399902876579883097519323675582458598478900697930308548441163, 226029760000000, 56507440000000, 35036900),
   (75387470597097679869820145549849759020624864071527013233964599333244524538651, 293838688000000, 73459672000000, 45547900),
   (75389846049159443495317373567317674982030797284795196449012219911037418467893, 215755680000000, 53938920000000, 33444300),
   (75397781324370782453992746737487652257957253992948192917879952850127875730015, 2486327360000000, 621581840000000, 385405000),
   (75403767304328837246116845287284743933589058284136210177146163252356002839352, 10274080000000, 2568520000000, 1592580),
   (75424909675645270800753919756569089474486460037720930908291852500545297158153, 20548160000000, 5137040000000, 3185170),
   (75475551627536307380709076518459557771666358476626770396517564713322411598649, 20589256320000, 5147314080000, 3191540),
   (75487155451985443425295602139048547082643697883660996695406958940471210053231, 365757248000000, 91439312000000, 56696000),
   (75517570616313151974558258294532291090349133689097899723679568439167871562849, 20548160000000, 5137040000000, 3185170),
   (75522820703270489973588046715177682547339613577864837022031402154047068086531, 616444800000000, 154111200000000, 95555100),
   (75991108624336306697165808101583026562356418436182900422204656954189445846835, 1027408000000000, 256852000000000, 159258000),
   (76022630853932304880054521814902601010753687408036214238996615482879009560906, 28767424000000, 7191856000000, 4459240),
   (76024456318010830892162477026504059690777406283997695913242006932965106969674, 620554432000000, 155138608000000, 96192100),
   (76039604042905463475618555941875321407425429358286968265659532088536518929979, 10274080000000, 2568520000000, 1592580),
   (76041584057727773173682396663919421376258965153317133024707048370198872547871, 43151136000000, 10787784000000, 6688850),
   (76076782032933231914668179490004837272807962895718686156240526056749241031545, 10274080000000, 2568520000000, 1592580),
   (76097730365173244751533255693761821656179770677805583002694478414651544870682, 82192640000000, 20548160000000, 12740700),
   (76101826546514845353977506200922486822614174794987998608943812154702601178739, 67808928000000, 16952232000000, 10511100),
   (76101899625304937894438167299404389654998467297437729458499669902035569155642, 24657792000000, 6164448000000, 3822200),
   (76110080213762761493223291596740140827607431893409221473481279695953759014435, 10274080000000, 2568520000000, 1592580),
   (76138768790958343233160767115547518666065085162666824127151826930473945146626, 49315584000000, 12328896000000, 7644400),
   (76140149869114091223725194837782962418409512609242248943329236256287518430011, 410963200000000, 102740800000000, 63703400),
   (76176565714120930529807118013971711917155335261149850274338811625125220400461, 102740800000000, 25685200000000, 15925800),
   (76195652787377341785278842760202726947075532875908564934612085300057566933593, 102740800000000, 25685200000000, 15925800),
   (76200592378897502294359732115646150577038126439204295200997943370474095640602, 20548160000000, 5137040000000, 3185170),
   (76204989780554596967058097775568455257722648740363168733432700832087523930885, 51370400000000, 12842600000000, 7962920),
   (76214219219035204409723046126088334768107021188808313979778653326238835360846, 14383712000000, 3595928000000, 2229620),
   (76215034059614038804232782472861291309304475996115085920248460151212181267541, 10274080000000, 2568520000000, 1592580),
   (76303844545646522132863215113734059249415691540989812088582940529103191834217, 4109673096000000, 1027418274000000, 637040000),
   (76316741122674195785440180657739584054562591860553278479898260036619931308357, 267126080000000, 66781520000000, 41407200),
   (76355085410923940145907529447421004969765689266934494913128843843879691186782, 20548160000000, 5137040000000, 3185170),
   (76397213676705029071982322654522536391336449473910828858163151867244660185857, 19520752000000, 4880188000000, 3025910),
   (76418639609857169389377942929908236999391983827045601613376350453506809947940, 41096320000000, 10274080000000, 6370340),
   (76432422458092871131908003312488948038843503386722716381513229301115336429368, 41096320000000, 10274080000000, 6370340),
   (76931772184660613081773519239285658275724420979516183447849294033025133048593, 20548160000000, 5137040000000, 3185170),
   (76935765093891754236069752940971883687184980107736769650961134343931445251682, 82192640000000, 20548160000000, 12740700),
   (76947490046090478418448942717010011034520367711401025735454777733685917235321, 2042487104000000, 510621776000000, 316606000),
   (76969794906452010273292001497822820638530395573225589106697902934273673285381, 10274080000000, 2568520000000, 1592580),
   (76982831257726873241322481227478639564398049916864485209661040537421390148472, 10274080000000, 2568520000000, 1592580),
   (77008009732666587752366359768396878468160702867316959241369317105183334044775, 20548160000000, 5137040000000, 3185170),
   (77019252389350552650725709174125195811587520134320671109433054165235288365846, 14383712000000, 3595928000000, 2229620),
   (77021566860864318367794296024434730659380371796999864995077755865955683893833, 20753641600000, 5188410400000, 3217020),
   (77033283203105312254257538889318001504957849022891808015939877366830824588101, 10274080000000, 2568520000000, 1592580),
   (77059330335688920132160122943517852820762270840326728367337565869612788335459, 41096320000000, 10274080000000, 6370340),
   (77065109010999446018001277840524041644712016026162024635354932112749398958689, 30822240000000, 7705560000000, 4777750),
   (77086918482296068639396593896631997319414439317066521451815369839331615127618, 205481600000000, 51370400000000, 31851700),
   (77090268322749686863824235198441750989552081611950501984524999132006365253232, 2054816000000000, 513704000000000, 318517000),
   (77113854313194282840393730296781931150941257454096938594541298964239449130040, 49122830350000, 12280707590000, 7614530),
   (77135508869576643857318111832750869773797100753063430156014157275513841361721, 10274080000000, 2568520000000, 1592580),
   (77144381476594360602498232774060806310332503897454800335456471406391586887183, 39041504000000, 9760376000000, 6051820),
   (77173327435375502393241998794708164313986395274745931651816395837217550670193, 84247456000000, 21061864000000, 13059200),
   (77178782188621373089536201917022878137118157621534655173739881179370943686483, 20548160000000, 5137040000000, 3185170),
   (77183301440124960371859925286454774438205338751715588762065142902156597517598, 205481600000000, 51370400000000, 31851700),
   (77227650852096606074023727810882500584837746197272370393381031075561978955264, 71918560000000, 17979640000000, 11148100),
   (77236265803789941228841385036675170433062213923256343500058354470167232618787, 10274080000000, 2568520000000, 1592580),
   (77238748476897912357945527345698294845184412499747249479361318572868529339217, 20548160000000, 5137040000000, 3185170),
   (77242293433546324129061602422871584597822286591242295452610669919331913571088, 51370400000000, 12842600000000, 7962920),
   (77260274720783699914534902918501209132356731946114023356017279733444567776081, 10742578050000, 2685644512000, 1665210),
   (77268582172085637931377356178978861187602758492528912569504642067155301276203, 30822240000000, 7705560000000, 4777750),
   (77270568090556517506305341491604769240540301228062314876457566964687191229250, 10274080000000, 2568520000000, 1592580),
   (77277731800762155141718250336920664725087723978593309561340516610708650120974, 10274080000000, 2568520000000, 1592580),
   (77295465136606147047112861823016147113165365148952414631167001238312932670519, 10274080000000, 2568520000000, 1592580),
   (77304147641836544624356597722782480984326473022130846922865583937660711035483, 10274080000000, 2568520000000, 1592580),
   (77310566015937493188183255861415936841074374126926388329033993143679574227325, 20548160000000, 5137040000000, 3185170),
   (77328720231267510091640225467212973071829591371334811577590926851635126828303, 750007840000000, 187501960000000, 116259000),
   (77336816063276587235019680814821714395605953459245104694574143555874446818401, 76028192000000, 19007048000000, 11785100),
   (77800833978930577572453887862989993482635931576487736724130960904427038576455, 145891936000000, 36472984000000, 22614700),
   (77820534424330907430843752542191575584264296087657496868805931923626601977663, 41096320000000, 10274080000000, 6370340)]"

definition rewardees_28 :: "rewardee list" where
  "rewardees_28 =
  [(77885241453927000337498831779604624475791134668050407724790694075786126413854, 20548160000000, 5137040000000, 3185160),
   (77888351174666679306863224567854392796202492112193151431717131418789266215494, 10479561600000, 2619890400000, 1624440),
   (77896720309304950809760659258372531557208349000802306595277388793909841231891, 20548160000000, 5137040000000, 3185170),
   (77900057427443206566404084690562317449153439113217077781267658875205456787788, 10274080000000, 2568520000000, 1592580),
   (77940510564720434403249890611428068187193683644567207542958565712339262313067, 205481600000000, 51370400000000, 31851700),
   (77947897778608818998658975967452436981362273828173046356283427030431536189219, 20548160000000, 5137040000000, 3185170),
   (77959142452980006158655202029521732086612464604401274669478867057533780354175, 309660771200000, 77415192800000, 48000500),
   (77971607079634299485503479136900149095120256000682660136481219345445130568977, 10274080000000, 2568520000000, 1592580),
   (77981316796578141131434376857443214914764303488261487464604214171860238022720, 51575881600000, 12893970400000, 7994770),
   (77985220119512965717872613325744420947214445289940138648168683095596721198350, 73973376000000, 18493344000000, 11466600),
   (77986266736543393964550025485518889574348130809023411512424380503786982620027, 10274080000000, 2568520000000, 1592580),
   (78016894491132111910466210774426951260398226080217692038022400719567056097895, 41096320000000, 10274080000000, 6370340),
   (78075041963424161837917293221938907326211735176539957105528436703825704393322, 205481600000000, 51370400000000, 31851700),
   (78077160174946769410178375487181866830077321859023401744417158633464825996291, 82192640000000, 20548160000000, 12740700),
   (78124691285763645523949025709997484179529280785927590289337981630990328330108, 51370400000000, 12842600000000, 7962920),
   (78149839937627334635483296359463772127990029609960505478375110872160966700041, 30822240000000, 7705560000000, 4777750),
   (78240805603989768399735864468511055170543444616973040517156068934094027574794, 10274080000000, 2568520000000, 1592580),
   (78621478738306189604312991909973527304063881662885605645464331206568130071286, 117124512000000, 29281128000000, 18155500),
   (78725609804425203408253105878452571775723079687582946360802200871498365995623, 10274080000000, 2568520000000, 1592580),
   (78729078029610016637235632853900183675274326428118362432277267033795518179682, 12328896000000, 3082224000000, 1911100),
   (78746069094360120226109811533533705566431963120620026297141989986279700034868, 408942288500000, 102235572100000, 63390100),
   (78779528980848113341786822700151122634388001787845588582938462409601681805139, 20548160000000, 5137040000000, 3185170),
   (78813084431124147158295993391764252592750597278207035820180091940575297405279, 513704000000000, 128426000000000, 79629200),
   (78835320573955266764671196612321947992843240849416202015033082263331074893060, 30822240000000, 7705560000000, 4777750),
   (78850260007586745500486471037324796181715142381787346450650914947560545269256, 14383712000000, 3595928000000, 2229620),
   (78857483861954409709507343241387572837182252502038071152713142469267769072167, 10274080000000, 2568520000000, 1592580),
   (78860293777285329418251635081695535850430801222645036587162617570412826550035, 398223340800000, 99555835200000, 61728600),
   (78884674641097036600162675515981148996048837084462573385836259292184497782844, 61644480000000, 15411120000000, 9555510),
   (78914462363582872242712247375245597787750860642013032304846920793253609508720, 51370400000000, 12842600000000, 7962920),
   (78921535934814512175160789737284144932548307695631380700571780224548128003621, 17465936000000, 4366484000000, 2707390),
   (78922861869771559753246542707376379616319277836723483535514860328989183559028, 53425216000000, 13356304000000, 8281440),
   (78939093319580468071057558793048523082032609133912092583538109173485846351736, 41096320000000, 10274080000000, 6370340),
   (78941612258564120197922822326792570465798722691914269311101671303745546035243, 222695636800000, 55673909210000, 34520000),
   (78944995942922329449089831237613267948532515141652169066515696374021362278525, 205481600000000, 51370400000000, 31851700),
   (78945694768246595866821948413827711572396954683337285705882534694606939871517, 218837904000000, 54709476000000, 33922000),
   (78946109284892123925477400236761789445071547159110447189916992756472018003305, 143837120000000, 35959280000000, 22296200),
   (78950845348138054181291911127723698630451801339739109373821672969425337230686, 102740800000000, 25685200000000, 15925800),
   (78959022776078651129679101988663973621962467905502693784798077432148980646769, 102740800000000, 25685200000000, 15925800),
   (78978045882022533551317785985325276206957561542313756241825885674459539543129, 51370400000000, 12842600000000, 7962920),
   (79013679454127119173601052497807668232579421118335031888975849502931961717293, 125406797100000, 31351699280000, 19439300),
   (79017184612886535376691221370156536760892923753867075488336945131378366606098, 246577920000000, 61644480000000, 38222000),
   (79054608165305690824512498335098658585678906191224603952272971220047363217418, 10274080000000, 2568520000000, 1592580),
   (79104727244645425286505495858173256286267559116942439878356414502170000614248, 10274080000000, 2568520000000, 1592580),
   (79117000407148698174702119333544394353401502711399867827664215048171913824550, 719185600000000, 179796400000000, 111481000),
   (79123249637438999267445078778260438273754928912726434281691636209630177920119, 10274080000000, 2568520000000, 1592580),
   (79123387743416188466883080681123693868016361748683032598815745077283135979111, 102740800000000, 25685200000000, 15925800),
   (79141709060803177467524686479060703312151283685762273797212903650846811929613, 20548160000000, 5137040000000, 3185170),
   (79624417089044899726680546875875262385296577321557936045559909285984476496486, 30822240000000, 7705560000000, 4777750),
   (79642733124745903827462911562426927349219849283382464410356472221205553913146, 32877056000000, 8219264000000, 5096270),
   (79665315265321172630895886881664671647483080302155523910840969757602339581513, 20548160000000, 5137040000000, 3185170),
   (79672383481761114263466582478813694291713926096214403518961420897681215318375, 28767424000000, 7191856000000, 4459240),
   (79688235288240061610105878826801262981474976509532239823044383653339273556564, 41096320000000, 10274080000000, 6370340),
   (79700565329519516819909770119533905579996332100519607242266659759841110231915, 34931872000000, 8732968000000, 5414790),
   (79700869960186547659522239815135406102772394102943823821302857005452414372478, 20548160000000, 5137040000000, 3185170),
   (79720810373093375973980397388598479080987608130482269569032485059045211240257, 205481600000000, 51370400000000, 31851700),
   (79727244632325368533385346959192354365108020454974672057736861293598919114245, 32877056000000, 8219264000000, 5096270),
   (79772865548779098097706041125260585686456088580362731681434493527373506609456, 10274080000000, 2568520000000, 1592580),
   (79798141755100612754333948605713198043650305223708503385003143169366499889439, 10274080000000, 2568520000000, 1592580),
   (79823499151857433565024596368609138078682381434156893513981859039105185684325, 410963200000000, 102740800000000, 63703400),
   (79825688060554325195393755639481884124002367655939613705253852350914466011933, 10274080000000, 2568520000000, 1592580),
   (79826653537847678550116577038154898243371917288518616825589970846345695809066, 20753641600000, 5188410400000, 3217020),
   (79833651470489165243613335153348213916371367139519845838569000689681292794452, 314386848000000, 78596712000000, 48733100),
   (79850737280851221993706691250263612243975502130902408316555105354525858437175, 10274080000000, 2568520000000, 1592580),
   (79863503336613892843225084671992887387055795641690418319308596658371057119396, 102740800000000, 25685200000000, 15925800),
   (79885998315572290440555150336326721364474476573189113155018729388423385920058, 10274080000000, 2568520000000, 1592580),
   (79906522694186401770325716059835382133519830703569816616888560947811463265052, 33698982400000, 8424745600000, 5223680),
   (79922213884360749838359301923734792610143402095392513228090339069940939077999, 924428841300000, 231107210300000, 143296000),
   (79935222843151646661939232910676990381175065858469338988877596806989982441575, 135617856000000, 33904464000000, 21022100),
   (79959224992858263907779416925612160413654103282626798017586890415736397340449, 41096320000000, 10274080000000, 6370340),
   (79980056662081405500975885054632191092097086258366705230429088258715064745312, 12328896000000, 3082224000000, 1911100),
   (80001123633248778896794279282114707963018190043153995042800550978934747924746, 20548160000000, 5137040000000, 3185170),
   (80007035713313570779472102154207524151060720863655060545465154072375102914110, 205481600000000, 51370400000000, 31851700),
   (80017715001802159115514653902817219790016406116319056290120329661556105965937, 760281920000000, 190070480000000, 117851000),
   (80030631981934761302670827127929331713534915235048871409682686589127946603030, 18493344000000, 4623336000000, 2866650),
   (80030969884687515942186450725967781441715414810407915279038949832957936388896, 16233046400000, 4058261600000, 2516280),
   (80039003960004816171989803302130512122509078064346231361899930208422264056439, 10274080000000, 2568520000000, 1592580),
   (80042045268162561470987060206494103187738152993405150707822507088214443783988, 41096320000000, 10274080000000, 6370340),
   (80049265914022279478303345706442691133815019196387207954246972016623951742261, 20548160000000, 5137040000000, 3185170),
   (80511909316078098053875956787374020000799762585949829238644051967340153576283, 10274080000000, 2568520000000, 1592580),
   (80512078488447674740778271355893266192675501869207988668922022688534399292674, 61644480000000, 15411120000000, 9555510),
   (80524265521052840857015209597559159926155756998121090710141726542404567621130, 414867350400000, 103716837600000, 64308600),
   (80536451872167788578888677224368173750829955162815622399306809827490150022759, 20589256320000, 5147314080000, 3191540),
   (80542756298229572022298999357944779495136076915900001738418436650780791449469, 12328896000000, 3082224000000, 1911100),
   (80560117042248141224239679931544522613259463265797117962528649702235532404090, 110960064000000, 27740016000000, 17199900),
   (80565297433107770317730033992584020089783976187126133063282702382661709804339, 4419909216000000, 1104977304000000, 685130000),
   (80568689198740229309044533811648300979374256996228276173815520744666852562501, 22602976000000, 5650744000000, 3503690),
   (80570149981668952482818866962274854153204182877387635461124907353263041100377, 20548160000000, 5137040000000, 3185170),
   (80589741867683140486826780327448148647634832532071793545143528382160877929247, 82192640000000, 20548160000000, 12740700),
   (80603245388353728234221607901511985936840174624897929046778821378879838181486, 10274080000000, 2568520000000, 1592580),
   (80658234307671371034100913495976001897343377694920803305652291063254022544397, 41096320000000, 10274080000000, 6370340),
   (80671608650060925058674076791489294630072722358214706950673681344626083811906, 12328896000000, 3082224000000, 1911100)]"

definition rewardees_29 :: "rewardee list" where
  "rewardees_29 =
  [(80681266027930762925180203614641133318776715370800298646610930153979582159178, 102740800000000, 25685200000000, 15925850),
   (80685661219175762685466953765742153227181633024716581378653620063693822087214, 20548160000000, 5137040000000, 3185170),
   (80704887628987980663168013746835436081394814354931650113705775295124290903348, 10274080000000, 2568520000000, 1592580),
   (80705334319084224433983052314937592743297078660211143317722940559608812961556, 184933440000000, 46233360000000, 28666500),
   (80714067446792759716744487874501310983552654006611864187044226656706054987793, 3082224000000000, 770556000000000, 477775000),
   (80719733517933640444504482296951785298759387379671579430298587692403625988726, 24657792000000, 6164448000000, 3822200),
   (80720086983066502732881243831788696016773435829020136754304556755508257013340, 513704000000000, 128426000000000, 79629200),
   (80728101148537114977671998606706732415287810685942997850170333279555014645339, 205481600000000, 51370400000000, 31851700),
   (80731202618997541136335036021351862054523849427630728031205673925099831520258, 102740800000000, 25685200000000, 15925800),
   (80733349773321892817509738923356832686207799824727895879376019501522042373238, 10274080000000, 2568520000000, 1592580),
   (80810992920970052357231279439927286602369976724460629281882490218702895723308, 41096320000000, 10274080000000, 6370340),
   (80815325066580492382754473983022847898524783265298003357343515930824979244912, 10274080000000, 2568520000000, 1592580),
   (80841492653592179651389304166187715684729743375948871157072056082001406234655, 20548160000000, 5137040000000, 3185170),
   (80847330754924350695607649917345566249101095993018135133068423466872488023044, 146508380800000, 36627095200000, 22710300),
   (80847377439163130968633349135942974751031361837856906462186860352153351134000, 20548160000000, 5137040000000, 3185170),
   (80871483898998746938462119576751118584544751897797553308407271112551069821756, 143837120000000, 35959280000000, 22296200),
   (80888897060119829710338025811243089497987948958247724172963951057867281958164, 10787784000000, 2696946000000, 1672210),
   (80907719771863800931792804400078370683714820940427812926857893447479213699955, 30822240000000, 7705560000000, 4777750),
   (80930432973052152318727231214891529049753911666371073886527232634806874886508, 12534377600000, 3133594400000, 1942950),
   (81420559023203805428491995632608570517953204554322108711001258859259559427447, 13356304000000, 3339076000000, 2070360),
   (81437029573808161073902670628577152301745642848133405998620888901024663647306, 32877056000000, 8219264000000, 5096270),
   (81452063309442361014466520016232169664668183582351173282087231890237168738881, 12328896000000, 3082224000000, 1911100),
   (81480762967770552357513408959584583735853691584185292888189942838663578889575, 10274080000000, 2568520000000, 1592580),
   (81482990868809346048039459304776223197626174932124876862657206119547283115036, 10274080000000, 2568520000000, 1592580),
   (81483760822335783995973316415135915546659126200642273628904552344546140591678, 10274080000000, 2568520000000, 1592580),
   (81488361939512950213920697549267893300940140335591217339326877058883294748687, 651376672000000, 162844168000000, 100969890),
   (81516601014472863695777191532703036927203841632420454098378012339507691022404, 10274080000000, 2568520000000, 1592580),
   (81537544029195197148744168700174050445441105025196747447144887625703361866356, 20548160000000, 5137040000000, 3185170),
   (81548273733777116762984451577297427449700594454579454910558633160564736406389, 20548160000000, 5137040000000, 3185170),
   (81549261992075042194942642769829589921183718503958098705149211802008704565829, 10274080000000, 2568520000000, 1592580),
   (81567436305160178268916404425110540578493030708617966134851474540009632056882, 30822240000000, 7705560000000, 4777750),
   (81596639012433324121099739608065436407097095190802985781691726439891178306144, 177741584000000, 44435396000000, 27551700),
   (81651566176371467481155076557397570784803871567111277024151767357816004320788, 51370400000000, 12842600000000, 7962920),
   (81701422716675112844544643906303348347370617099538678225961013260123665067547, 102740800000000, 25685200000000, 15925800),
   (81725164377187662429067893669535224606703646511083511920605785841097754793745, 10274080000000, 2568520000000, 1592580),
   (81731673922674627690822702059530939625964565656090880882752203100729032820553, 10274080000000, 2568520000000, 1592580),
   (81770823090177231696075778402458254926890541323815509453407266957392835993615, 20548160000000, 5137040000000, 3185170),
   (81772228716489924547808369356116889316616761734449264370499579616751517303859, 20548160000000, 5137040000000, 3185170),
   (81781218308189761899918999470832376303064845157080147700413907396177001425240, 78083008000000, 19520752000000, 12103600),
   (81816555294323378384877737344111335060616990272399401212405185751276167524398, 30822240000000, 7705560000000, 4777750),
   (81822948646376265402490890532240888275881964193136249984198198339213691657480, 121234144000000, 30308536000000, 18792500),
   (81830744346064811747219019396234252709222838386430360586861794449658552607321, 20548160000000, 5137040000000, 3185170),
   (81839653700547901508106528943834608060107713845155875700314504528229858166885, 288701648000000, 72175412000000, 44751600),
   (81854161682597425498688424700657322826011676831416369339540320832864655005186, 20548160000000, 5137040000000, 3185170),
   (81854399531841310298525319652130839689096595330996658567384442861071883020826, 10274080000000, 2568520000000, 1592580),
   (81857967971517230927583439954302660443667470059020539473178493387869627015778, 100685984000000, 25171496000000, 15607300),
   (82274617884010267819347128281148031181745938653074566554511849123418644480440, 230139392000000, 57534848000000, 35673900),
   (82333850881250603975309631218672048914107698059665603122842045000236863218693, 71918560000000, 17979640000000, 11148090),
   (82348370151744733985944699828269704830286623236630053698386054926307946526047, 41096320000000, 10274080000000, 6370340),
   (82372759398027231389953607127370985296428855310948796723644308785274987048026, 20548160000000, 5137040000000, 3185170),
   (82390403379933239844675182125788799839241535489041210723451686351607575070241, 38014096000000, 9503524000000, 5892560),
   (82412450012513631840854232665591916491440861949942562421930099713925169381759, 20548160000000, 5137040000000, 3185170),
   (82416719246123253478054254982594850689772965175915021797620180967791782545440, 205481600000000, 51370400000000, 31851700),
   (82447927727439214003334349658850938402620956002839361431212831994817140152587, 1444946611000000, 361236652800000, 223981000),
   (82450130984676201118250382569514882432553915776834694145395005738365614696735, 10274080000000, 2568520000000, 1592580),
   (82452744408887225794085285072548169289931817630800153221667211776114158092318, 10479561600000, 2619890400000, 1624440),
   (82486056550325537915441390114281374726232247212782725992245360027388501177925, 59589664000000, 14897416000000, 9236990),
   (82495037052466218619200486916529827253202134951699322602052636467793716458867, 41096320000000, 10274080000000, 6370340),
   (82509110777310810684980842482453683447579825004272236766961378652954243046450, 28356460800000, 7089115200000, 4395530),
   (82532258945946330568654519293559056761628669972486213818202240823957673815670, 131508224000000, 32877056000000, 20385100),
   (82533178906772185953025243809603266320238297647647099411118716870888302050848, 12328896000000, 3082224000000, 1911100),
   (82573121809829384687222929617584273326693211449204650586149106764595922873112, 16438528000000, 4109632000000, 2548130),
   (82576139615799329969058533245305500391406430183067663239428847104720170893419, 410963200000000, 102740800000000, 63703400),
   (82580819596744414296791289116960515679665128240918401082723346718279412651782, 1643852800000000, 410963200000000, 254813000),
   (82591390394720551025231383534611296817623720566535490017775134062294698188345, 308222400000000, 77055600000000, 47777500),
   (82610171127571232182465341373497495231958702836031991099854418622697084010038, 57534848000000, 14383712000000, 8918470),
   (82619880762270371263405632343149781010613523868211061418681702299530162568529, 20548160000000, 5137040000000, 3185160),
   (82637306233624485405447063076340845039710279272071919998450287062907817600084, 61644480000000, 15411120000000, 9555510),
   (82646379199963116679453762933718797585300091444843307075314771391636829820477, 20548160000000, 5137040000000, 3185170),
   (82654398013124565530597323102088074538448625305730726187578154768069131084605, 10274080000000, 2568520000000, 1592580),
   (82666862658158996266164343227099132437088952785901947323502621032411057878367, 10274080000000, 2568520000000, 1592580),
   (82687418500419259820237392087909819463960924437817951057429043749066253049637, 10274080000000, 2568520000000, 1592580),
   (82715154705403900462053235383829097032237326683091500593842089063234897965895, 10274080000000, 2568520000000, 1592580),
   (82762329704594819367439264669261883383911674329049159967311121632415615023988, 205481600000000, 51370400000000, 31851700),
   (83238030285324478915842137868934501354480565733479706334590857923969085510237, 20548160000000, 5137040000000, 3185170),
   (83267470347210979096610791669659644281299419464678887383436109483993541342844, 30822240000000, 7705560000000, 4777750),
   (83272529588779450440361458448295578827452666392427501688266139561974920325923, 10274080000000, 2568520000000, 1592580),
   (83281189865921591665835797423989222483944358090802488202949944357081451586842, 30822240000000, 7705560000000, 4777750),
   (83298733593742111927952346732106426772376653271862199757199367180262180770655, 20548160000000, 5137040000000, 3185170),
   (83306860777708394877062900518303952466997796135722849903343996257325491960372, 30822240000000, 7705560000000, 4777750),
   (83330736496356565908449996913450152941861760612958348899113536047524048345719, 10274080000000, 2568520000000, 1592580),
   (83333520518036136450302616965710924726169527201127232786719148109182118133604, 10274080000000, 2568520000000, 1592580),
   (83334137694845058618634463272494861934885868596187765382441879587861311926314, 10274080000000, 2568520000000, 1592580),
   (83373400512224638262205460477261429367211478050470620104768859029821480712196, 20548160000000, 5137040000000, 3185170),
   (83380851992703009500567075729884644475076441600293345279232447875568415252051, 10274080000000, 2568520000000, 1592580),
   (83403023717903060911099058499342809082797009099597036269053718626555433510990, 2054816000000000, 513704000000000, 318517000),
   (83432145149218831609410046679930680037273777499871754897000670465133888592507, 1037682080000000, 259420520000000, 160851000),
   (83447692182201946480568487023950535873441063853881154155162227756406513248860, 14383712000000, 3595928000000, 2229620),
   (83470730319004557150068356716534817862402642810822999050605750395623903708691, 61644480000000, 15411120000000, 9555510),
   (83477286897042047888319767146365524447527857446337122022325026789977554608947, 20548160000000, 5137040000000, 3185170),
   (83510558939564495335929961243213982830646357422059078329510576226120666737979, 205481600000000, 51370400000000, 31851700)]"

definition rewardees_30 :: "rewardee list" where
  "rewardees_30 =
  [(83542536048295425441901196009790989943674664231987734665293347355564357762664, 410963200000000, 102740800000000, 63703400),
   (83544945149537919852118826304686515103760942165958243949447866911012701187114, 61644480000000, 15411120000000, 9555510),
   (83559392706150280473192375602108423203790520019672637147837345145960284975944, 119179328000000, 29794832000000, 18473980),
   (83589936522550588994770048052966050141980339379274815967441059486247096333905, 10274080000000, 2568520000000, 1592580),
   (83595484495182390560914539847093358800389991634684739391137670876874717228892, 41096320000000, 10274080000000, 6370340),
   (83644222173510464007390607485831207156690533563425995296641199655698365208888, 98631168000000, 24657792000000, 15288800),
   (83658609186795915845941025237804380297065071420388302201478641118725284629625, 22602976000000, 5650744000000, 3503690),
   (83665434838253903656576067698221255745318523378371760039490673923122050073662, 52397808000000, 13099452000000, 8122180),
   (84131551320823667599471821712556186753508262136656491117598603822302945925467, 39041504000000, 9760376000000, 6051820),
   (84151081375407230619327491534237743430286273882279290123501874991543539951894, 16582365120000, 4145591280000, 2570430),
   (84167240795253432545819791165987704236171614700237411622875740717138125267253, 102740800000000, 25685200000000, 15925800),
   (84191821325844044158090651410140798452857053479294401712583117456353291099491, 10274080000000, 2568520000000, 1592580),
   (84226069767759762400110584797463028009036336768689743240533714739452649264728, 12328896000000, 3082224000000, 1911100),
   (84262096401159990495900151095485020167312140554959787796481034524947012760392, 1232889600000000, 308222400000000, 191110000),
   (84265773344648611979730688901812939873310443277964217193435311196907048460895, 123288960000000, 30822240000000, 19111000),
   (84293890190659012296324876284927314296142069841775707852813835623419085076542, 226029760000000, 56507440000000, 35036800),
   (84310925942713484849835142169170672186258790354292801033954991448430254684276, 150044282200000, 37511070560000, 23258400),
   (84320095199181347489425598320000678951817339981957220380926037597520529206039, 10274080000000, 2568520000000, 1592580),
   (84328765086059081519670936826426956186121998632356652944236644719736654736686, 46644323200000, 11661080800000, 7230330),
   (84333740613643047602893230589708737793547274107992183656188564489517480869240, 272263120000000, 68065780000000, 42203500),
   (84335749626336836428980024107526820126619783926298834662989066893708694340693, 69423265330000, 17355816330000, 10761300),
   (84342438180801851734579122230543489924771199343361534013762546300855249737557, 92466720000000, 23116680000000, 14333300),
   (84364111377325473221883742341413334989453294076067981335224151942830221695570, 102740800000000, 25685200000000, 15925800),
   (84385346471167880483298526049479270583377757888545126797445125509060707991311, 20548160000000, 5137040000000, 3185170),
   (84404836106976507317178959910907584716162654402933519935970758432867373292609, 1027408000000000, 256852000000000, 159258000),
   (84421318229455624115406946467917823859271794169732420570496065900029633951279, 10274080000000, 2568520000000, 1592580),
   (84430936274098342747596168323421308505580876557537215022332307239803628991816, 20548160000000, 5137040000000, 3185170),
   (84449443893938914159299831218467259044274642883484423282884770145141131001374, 57534848000000, 14383712000000, 8918470),
   (84462091202440705817108916320480807078653953583902641480361785102646745970502, 10274080000000, 2568520000000, 1592580),
   (84464374906654434645999966546482573390185108392410456523546607267706269648710, 20548160000000, 5137040000000, 3185170),
   (84481365138806318601021499836453077858671408734217817395689853133098069347348, 45205952000000, 11301488000000, 7007370),
   (84491664714908475942803278269154509300424316713825339925509434365338465183810, 41096320000000, 10274080000000, 6370340),
   (84502896992841201611759392470099002161907783039179154975933366966405794181980, 534252160000000, 133563040000000, 82814400),
   (84527015902348170332954217240412817425488173772055339473130142264295487714598, 49521065600000, 12380266400000, 7676260),
   (84536918773407473503420316654727524179583216139776679039249439198573660572423, 1841115136000000, 460278784000000, 285391000),
   (84554230145640869701637098910654130002908908804452304835809878848318929072696, 12328896000000, 3082224000000, 1911100),
   (84568031770791654534477428846495895779087080276642889991909528847192025489176, 339044640000000, 84761160000000, 52555300),
   (84569207621543333403095630797413017602195250470359511878802285088088126890321, 20548160000000, 5137040000000, 3185170),
   (85047367377656965005513446816016624426434591718169222497118707461976820609349, 71918560000000, 17979640000000, 11148100),
   (85056449972134664462198601723308788793348447117488663748095938125713268290626, 10274080000000, 2568520000000, 1592580),
   (85087674708938434046880205656052860155298195746077771732833189461038153094469, 195207520000000, 48801880000000, 30259100),
   (85093837184639602928524267120165802379590279074731434609721226340042596515609, 102740800000000, 25685200000000, 15925800),
   (85103970838054924468020112098392071360369407635283682342634320757014064678411, 513704000000000, 128426000000000, 79629200),
   (85132067192960707633101036807562113433777342168120232009447924313336214557452, 14383712000000, 3595928000000, 2229620),
   (85133996020613555779479077848137192557124104270780187600966850261588468153710, 812679728000000, 203169932000000, 125973000),
   (85176237066245469512093108312738848173739183088513916929147527147459787077945, 10274080000000, 2568520000000, 1592580),
   (85185203381747964929306905327521534528170753538299380773369355098606944195339, 10274080000000, 2568520000000, 1592580),
   (85199089292582106579139592387796789989389975157005369458006181014538609517693, 10274080000000, 2568520000000, 1592580),
   (85210776848017385933483022165812445307408536775472966279512494505981738306885, 51370400000000, 12842600000000, 7962920),
   (85257679224152303210774107394630732402258429439943016568510227749109418073634, 20548160000000, 5137040000000, 3185170),
   (85289180445743375485812323670658310171006247380463690535239178645191326502984, 102740800000000, 25685200000000, 15925800),
   (85298734688473396032495048889629630890580767556911540169446120934873777948206, 10274080000000, 2568520000000, 1592580),
   (85300786205382258991904904422643910061043225024966655721042553896244490225778, 10274080000000, 2568520000000, 1592580),
   (85307033215999856375366929228206426453291970153047545599179302249295756714591, 12534377600000, 3133594400000, 1942950),
   (85354707103348400674448201708425100109331768459402512753471687501145824074793, 16438528000000, 4109632000000, 2548130),
   (85358316687672776285808195911434924692720668226789106245837152725598142647924, 10274080000000, 2568520000000, 1592580),
   (85385408935868810368551126755331395851108934234067105461886305689796609337916, 61644480000000, 15411120000000, 9555510),
   (85392634584119555416515022055556160962748445989599475552430394328287270876472, 65754112000000, 16438528000000, 10192500),
   (85405905181357600886379934607993152002856399295779636838194396808970303585067, 1612989464000000, 403247365900000, 250029000),
   (85434074029123175590606954292103873787745165650602063924873813642449713162563, 34931872000000, 8732968000000, 5414790),
   (85443021998664628475151600153405900244141034297485177847189092636953275075966, 150001568000000, 37500392000000, 23251700),
   (85448899012376491412963201713805471563257037532374040382142541789803805101133, 43151136000000, 10787784000000, 6688850),
   (85480140259898867675096978539541324500938686854281461035531437955057626320179, 20548160000000, 5137040000000, 3185170),
   (85484403261267317065885502487353513594357455556099927594999136396111802810406, 30822240000000, 7705560000000, 4777750),
   (85955984017413396439844363406119919356549937674042858513870865753688093954619, 10274080000000, 2568520000000, 1592580),
   (85977400392765361630783271689919112397271351030584964805428163970848282514996, 34931872000000, 8732968000000, 5414790),
   (85985973378265713084447328643282072038471062488461423219719249986913348395549, 2348316260000000, 587079065000000, 364012000),
   (86008745164112365705677437835693561615755552094466411044301100159118838543155, 2054816000000000, 513704000000000, 318517000),
   (86019149877274426996391389443961367380309231454638976962865375751081612717335, 104795616000000, 26198904000000, 16244400),
   (86072707810393405449905336361238653171813647620578004311863604753289591701248, 65754112000000, 16438528000000, 10192500),
   (86099247896833132415552971678319901249441464398631164699028558277606553505394, 230139392000000, 57534848000000, 35673900),
   (86106410283069889754553205560471115965735414707584173312021148231340143547667, 30822240000000, 7705560000000, 4777750),
   (86113200772130404003918226793630976357035587934531495727231731996095664331841, 10274080000000, 2568520000000, 1592580),
   (86118236102182042037091123342042743339619899471038413879990410388418411086933, 20548160000000, 5137040000000, 3185170),
   (86129247505054505991836549846118124483858032243210006047480995163193536671860, 20548160000000, 5137040000000, 3185170),
   (86144322656074883733375370524473618299494635186368226867630177428609708898332, 123288960000000, 30822240000000, 19111000),
   (86156057918219207510370544779556359134269443037596436359288339000365483855909, 90411904000000, 22602976000000, 14014700),
   (86178037442285533869339667565128711863569958056457332124752866797843138805796, 102740800000000, 25685200000000, 15925800),
   (86186370232376256108903647359664046914355510970349854563643554717392520274805, 20548160000000, 5137040000000, 3185170),
   (86215517687115915032906326476135662206139114856724324349760755913042421023102, 20548160000000, 5137040000000, 3185170),
   (86228057863697815013812244995795611589213456609780212683740608160512392293984, 52808771200000, 13202192800000, 8185880),
   (86234894653720019512086508111040908225976894105857220342704867523008716827004, 73973376000000, 18493344000000, 11466600),
   (86277904671998314826739609396063116922322779021831940355434638300861879889258, 22192012800000, 5548003200000, 3439980),
   (86288745679670611818059211669358386497937944444758829252777145875841251263057, 113014880000000, 28253720000000, 17518400),
   (86305774215903529894294070066135188831226568611871780044748521030578030960171, 20548160000000, 5137040000000, 3185170),
   (86327656065127390560199264234339567304619077746849492603461074846595115892487, 410963200000000, 102740800000000, 63703400),
   (86336933651201225094639872765654485203772376375942264649514971591461875945558, 10274080000000, 2568520000000, 1592580),
   (86339564245915047460047431853663949570495875413912598256892936591547655516419, 10274080000000, 2568520000000, 1592580),
   (86342875076311331970598644246547337175247320231809185885884194769075109825839, 12534377600000, 3133594400000, 1942950),
   (86343353915171298941212451718750561528824327724338526359506598652432401532435, 43767580800000, 10941895200000, 6784410),
   (86354708954101447612694925697849087655221382930718162932295227702591521187605, 20548160000000, 5137040000000, 3185170)]"

definition rewardees_31 :: "rewardee list" where
  "rewardees_31 =
  [(86364365843457445428770035347838744912201874681133819680707186780266051109412, 10274080000000, 2568520000000, 1592580),
   (86365062134862742776921490223650761492382838099368491942988275796088922656854, 78083008000000, 19520752000000, 12103640),
   (86380867701722352198630916596372268631942442275355255993322783040937048265040, 37066568470000, 9266642116000, 5745690),
   (86382464162500931381965064773773964414631628977320929976923257560673794611806, 30822240000000, 7705560000000, 4777750),
   (86862879489954923413052578474770493716346623128366051038460834830823981613147, 67808928000000, 16952232000000, 10511100),
   (86931194884669864491203339422790353221483460436015354700993192447686105893242, 922612384000000, 230653096000000, 143014000),
   (86940926245460711685005682520671256532714255422567983816928056247801529131567, 51370400000000, 12842600000000, 7962920),
   (86967804463202654959779323601143382847943768943648544519282254012964658045480, 10274080000000, 2568520000000, 1592580),
   (86979690760612524328069616967262931039851823003950299130323759014766542468684, 20548160000000, 5137040000000, 3185170),
   (87044715605216581439005462494153345452173039593839951288658950985304177143100, 20548160000000, 5137040000000, 3185170),
   (87048917089384443041498589575817867306291316509156223815954149654886454211102, 20548160000000, 5137040000000, 3185170),
   (87060016996135968625062550854884961332391730926998323169474326388560144850302, 184933440000000, 46233360000000, 28666500),
   (87086959956838307240741864668579476236803950374822033098725036630904360498303, 10274080000000, 2568520000000, 1592580),
   (87108556843861784776943311581373361529308329523704233157589648907730278472978, 10274080000000, 2568520000000, 1592580),
   (87110255241788767328730550983943132527278291719884934238013583523334250589815, 616444800000000, 154111200000000, 95555100),
   (87121526435575188088815389650255905231993019261903071659666349951926057344628, 28767424000000, 7191856000000, 4459240),
   (87122269723715524218354748420071419812257090913127754452697282902708289864272, 30822240000000, 7705560000000, 4777750),
   (87124422554843378812796477944532618512638515781338171635446844058219741294379, 115298397000000, 28824599260000, 17872400),
   (87152006535738380481074066371957110142722534804178438550205397377219710148454, 10274080000000, 2568520000000, 1592580),
   (87155193906714286363649608041249264133736204322033369600600745470870285200146, 102740800000000, 25685200000000, 15925800),
   (87172671767459000728169676146988950862489075160504963002538395213722466690635, 20548160000000, 5137040000000, 3185170),
   (87208582433443441843157802757366806466282150318146298591510843457817271975273, 10274080000000, 2568520000000, 1592580),
   (87210925119344135381134329020957611681933781842150656340890379787421963424878, 41712764800000, 10428191200000, 6465890),
   (87211896395670838703038226689651937611792299274289722021248806844568879625731, 10274080000000, 2568520000000, 1592580),
   (87232321720269508553150282903073905971198376277406156419543377376499181787671, 26712608000000, 6678152000000, 4140720),
   (87237525911509758812492419562577974291381823561004185068218645285102930038572, 205481600000000, 51370400000000, 31851700),
   (87239161896634897047478559258740958608860757427273141696298806646584353886483, 410963200000000, 102740800000000, 63703400),
   (87244079043757140233985999252246723682755220689084609368442962716581520849418, 20548160000000, 5137040000000, 3185170),
   (87254265367012448937714482045270966029924686995690970764793014963249147371838, 10274080000000, 2568520000000, 1592580),
   (87261357763762505674640279023871700437876159873430305044399774357787582026080, 21370086400000, 5342521600000, 3312580),
   (87292890699522710481906959955938909123865343209412395545478639041568067596301, 20548160000000, 5137040000000, 3185170),
   (87727685646748063511442301020097288013749482583647809482959364582315195196172, 32370132880000, 8092533221000, 5017690),
   (87759222509867826486624613350874565344209527951156499147239461620075145100890, 10274080000000, 2568520000000, 1592580),
   (87770428744641367338814297385146454958569197921571192776927554996830989810206, 618499616000000, 154624904000000, 95873600),
   (87775871767655770371341840004872769403156277584192276040456845648980994409851, 10274080000000, 2568520000000, 1592580),
   (87789906037079048744582037683104268027925067368640005196151680752963498736163, 20548160000000, 5137040000000, 3185170),
   (87794436306867388808733748034896967054029076414645714238215310416207683229285, 20548160000000, 5137040000000, 3185170),
   (87823461630768942137323504060657753423647855424903513754475479215078996028529, 143837120000000, 35959280000000, 22296200),
   (87835826147839463895098361004358372430639869794375558179013503497259070152193, 41096320000000, 10274080000000, 6370340),
   (87873999295952390886404797016286029711395703165555149184413995193633651272722, 143837120000000, 35959280000000, 22296200),
   (87879129848457601277755360944078331462739035807953506281136957099175572166518, 2856194240000000, 714048560000000, 442738000),
   (87892690696249573404302324257196268531231728786705505296600522555497243674916, 51370400000000, 12842600000000, 7962920),
   (87901640501406240786460293792328536548213702462376013685791723525579908674606, 32260611200000, 8065152800000, 5000710),
   (87909375177918006725568246997208894264660750087776456974245730465418341732423, 14383712000000, 3595928000000, 2229620),
   (87926241396888844511082226294210658452633889955372947872800099973230412791107, 41096320000000, 10274080000000, 6370340),
   (87929609436240389959174143796360889050197509300474090387298674723229313753970, 48288176000000, 12072044000000, 7485150),
   (87932453499479626983708398844736795647814503772667727316441056882352403213357, 30822240000000, 7705560000000, 4777750),
   (87975015030087004613853133062190652637384212919078252099921066929880140147063, 10274080000000, 2568520000000, 1592580),
   (88004227934047959808209878879496256382770322745862064829435492446416832582751, 20548160000000, 5137040000000, 3185170),
   (88011792776427292951174502005567024226536761072741969115307925722284810203237, 10274080000000, 2568520000000, 1592580),
   (88036362538273557447691377017582903007113356081277418638897661020727312181614, 12328896000000, 3082224000000, 1911100),
   (88053875581904297184468563159045014726965012184240761722151859242293729889569, 57534848000000, 14383712000000, 8918470),
   (88091178448386757302194572739779209746142758476771103030960175727102126399281, 102740800000000, 25685200000000, 15925800),
   (88104558456405371368187512319307683985722375182122726568638388327902669895275, 205481600000000, 51370400000000, 31851600),
   (88105069673408635569311536968097126590044827809193649238690775812254233461094, 10274080000000, 2568520000000, 1592580),
   (88129768212780068983157389824875226018129337026650535731560346270625407796332, 739733760000000, 184933440000000, 114666000),
   (88160606764671304880629584046991135605348079190628268244047835782748368183125, 55480032000000, 13870008000000, 8599960),
   (88200890744391259402441081900840260961440272814481991212517115864602784725110, 51370400000000, 12842600000000, 7962920),
   (88655503631114167704539792549753109259748604783006475846348518058343490498585, 879461248000000, 219865312000000, 136325000),
   (88662085832228736515866278483511655675277450427477788060890448786990061205811, 36986688000000, 9246672000000, 5733300),
   (88676598036090207130897510150818580805465053445849534470076494910249873554745, 215755680000000, 53938920000000, 33444280),
   (88696894647115577701092651502054574370265292729632704565364472442971743781135, 20548160000000, 5137040000000, 3185170),
   (88728756521537216461762237987890377249079481730475565322003397402683953329192, 20548160000000, 5137040000000, 3185170),
   (88731313949798646051106578327646317999665030885473950589475998522748921960559, 10274080000000, 2568520000000, 1592580),
   (88733718212102530019890419532721537431614491573336289988169801406532930154247, 151419391000000, 37854847760000, 23471500),
   (88746510721666966163515543585431846613825283071237020259414221426276486426430, 41096320000000, 10274080000000, 6370340),
   (88758692675634391575848725795277048579507031521755754014978368861127803020604, 41096320000000, 10274080000000, 6370340),
   (88788096879649765454352578736503374947108734063351669864809656047740720742957, 20548160000000, 5137040000000, 3185170),
   (88788532154419096785877538871870614796930547001228884367776765680915724962057, 20548160000000, 5137040000000, 3185170),
   (88789924557078076795564516093841657639362880947882841973449300534119428485995, 59589664000000, 14897416000000, 9236990),
   (88812386244438894115516994996659048374066465654064645845148563126408160230936, 236303840000000, 59075960000000, 36629400),
   (88824986254433614355214583025580468525285688912205351616727637872592525772037, 4109632000000000, 1027408000000000, 637034000),
   (88829374331326150378124339263635659326648057786557655773969596267319784803872, 20548160000000, 5137040000000, 3185170),
   (88874891406236872901502550426706539963432819020250905358511014369395421782855, 216577606400000, 54144401600000, 33571700),
   (88878944081804176114791513593634030918462520056977334578676572264435698301052, 10274080000000, 2568520000000, 1592580),
   (88888394513220895022532181986426076656046179905558949097723452983975885719319, 10274080000000, 2568520000000, 1592580),
   (88898842464328293005659967951599914368186880126443271752015463851593727180599, 20548160000000, 5137040000000, 3185170),
   (88910169720195619346314034968427671139050774651248266645077200687731426336307, 10274080000000, 2568520000000, 1592580),
   (88922642964475838959465553383947805528222009989396360226546261002443396459359, 44133338050000, 11033334510000, 6841110),
   (88939490813763689282358212308253647430882346182939050928194595137668164005401, 10274080000000, 2568520000000, 1592580),
   (89006776613203096741881922928204742463713335961405626142674978623762839584837, 205481600000000, 51370400000000, 31851700),
   (89007349020288552986409473185043219291473231813013810921722225029281861914474, 10274080000000, 2568520000000, 1592580),
   (89017998749523434273782481845021558907121270429960938392198918795357385565802, 13972748800000, 3493187200000, 2165910),
   (89018909784697813942219486839193918511852800076406530140784998424316916542467, 616444800000000, 154111200000000, 95555100),
   (89019990942380476534250545504175959994882556628753442331695129866574682321730, 10274080000000, 2568520000000, 1592580),
   (89033885852527478257331341346421826684789941036546953638151550096925903041065, 10274080000000, 2568520000000, 1592580),
   (89071801078114993607319884589452326253967331443182197256772537471430402369881, 61644480000000, 15411120000000, 9555510),
   (89074084747279981656386606763706344667426242969404344570188108803208102431748, 10274080000000, 2568520000000, 1592580),
   (89096045624668798187960219252946146284435469690917065046203708427213316189756, 10274080000000, 2568520000000, 1592580),
   (89560540937326046813942535084921505253640794255408084102687255480404666888481, 20548160000000, 5137040000000, 3185170),
   (89562556204062056165496209651433357879149769940067532586114704141492849748586, 38425059200000, 9606264800000, 5956270)]"

definition rewardees_32 :: "rewardee list" where
  "rewardees_32 =
  [(89592132116956874982600396176254167515426806464090986963505547881460758276932, 297948320000000, 74487080000000, 46184900),
   (89602696450322311611468147331388046061924713757557623055087324224883194281772, 14383712000000, 3595928000000, 2229620),
   (89612100675346716041691315544377802051008725594321933137376840505045420380175, 2854139424000000, 713534856000000, 442420000),
   (89616999784410410827849583640906410224457389933168662127433564722172944944404, 111987472000000, 27996868000000, 17359200),
   (89670321517752299801917591969890926320936423108660720296820719242467649305877, 20548160000000, 5137040000000, 3185170),
   (89678383264097992420101449562557755586471591574147428310775177678601410059558, 10274080000000, 2568520000000, 1592580),
   (89680538482972191175772158252124087671782712363423586806317893689778705673324, 10274080000000, 2568520000000, 1592580),
   (89709503135746520479895636067336375572128691946168969379104613935800394132756, 41096320000000, 10274080000000, 6370340),
   (89722199027058372969356859734645533452197394322039531931364131877743652791318, 10274080000000, 2568520000000, 1592580),
   (89726921487759988809283714495407672765534661696861828808050728326037671647358, 10274080000000, 2568520000000, 1592580),
   (89729466088171332341439646339322631946365021461920318120495190221633983406673, 263016448000000, 65754112000000, 40770200),
   (89732786958917136135177666787333474001679122529550185291680427921146843552839, 71918560000000, 17979640000000, 11148100),
   (89744157674260366236388224189455254101812666568931629009232480005206337361217, 10274080000000, 2568520000000, 1592580),
   (89758795553410446885279650982073630925005562337734277327601189111502128306814, 10274080000000, 2568520000000, 1592580),
   (89791026644419930869154969302646251803757097104554383732402925139713639858743, 71918560000000, 17979640000000, 11148090),
   (89803040827210489586215140175087296639863541328825513606381040801377999557746, 33288019200000, 8322004800000, 5159970),
   (89808393735641162773604439822411903244677223729488615607912991911742353822836, 61644480000000, 15411120000000, 9555510),
   (89820921799323110681063145504941668698168732140287310154656100279999640996909, 41096320000000, 10274080000000, 6370340),
   (89840459609438951365141946223722983759237745387319566532614218400322206225004, 61644480000000, 15411120000000, 9555510),
   (89851776853384851550646146403556256987426582161520645326226900279087469728343, 10274080000000, 2568520000000, 1592580),
   (89863511960154210549590911191900066364233198968820983834420497499575902116659, 45205952000000, 11301488000000, 7007370),
   (89865538132958008731607879731870382406030478413029155784399411643038044889680, 220070793600000, 55017698400000, 34113200),
   (89865567301109409680031477687773486426605300868498681155091255933883270649873, 228084576000000, 57021144000000, 35355400),
   (89871268413613385136843491031671634876600005645873443275746637008946289246504, 30822240000000, 7705560000000, 4777750),
   (89876574383943194303822758735740645970643950846576149224238843834970472945719, 208232587700000, 52058146910000, 32278100),
   (89920995807828155375925500927913786028742934085666027709854841216897169864266, 61644480000000, 15411120000000, 9555510),
   (89938737483287975469250818758779705757357752566838794635745608382432195056758, 30822240000000, 7705560000000, 4777750),
   (89939194831679184403406565233847100943494591920554697743156040816551791493142, 336989824000000, 84247456000000, 52236800),
   (89952861537155962610084460598013117852512426589696247034283744669659147434065, 20548160000000, 5137040000000, 3185170),
   (89963340595722538331079182236020245329127086029342445303089147555864127549253, 61644480000000, 15411120000000, 9555510),
   (89969990104057027242004700586528608746750872864763133708313166704238155043605, 10274080000000, 2568520000000, 1592580),
   (89995300110998548382271876758064325697898342530864546073151603901370013306453, 51370400000000, 12842600000000, 7962920),
   (90004158516255638500783348736988893297372570623335297553290136693884290012968, 20548160000000, 5137040000000, 3185170),
   (90005608143518219871833496620216971178263596632493462197623742810035146998051, 20548160000000, 5137040000000, 3185170),
   (90008139572649971650320795051277608076542345848944113187721154978115300960104, 61644480000000, 15411120000000, 9555510),
   (90471906586253988741935318995688578522641282533100839650893667647244392889946, 10274080000000, 2568520000000, 1592580),
   (90493478156092884858240886200766915133050647940581750990906942921578389672764, 20548160000000, 5137040000000, 3185170),
   (90510515115807250992891407818179716334994683563091361774344546325879936509994, 10274080000000, 2568520000000, 1592580),
   (90530064050238572868811777838088961233996647002068171180553443887220897079091, 41096320000000, 10274080000000, 6370340),
   (90536496517006442500008754646498748775567367913991354612836438282059672225024, 10498789700000, 2624697426000, 1627420),
   (90549609789017141435412045088004151798970992061696527074636883701635455439375, 410963200000000, 102740800000000, 63703400),
   (90549654272226938964900256194024214123652101014295123263322708029589365818736, 17465936000000, 4366484000000, 2707390),
   (90571415857300438873039926132613500150274737032644065989674303114835199103831, 10274080000000, 2568520000000, 1592580),
   (90588298265946677442447827151122167203203130775641070080088701327641880705622, 20548160000000, 5137040000000, 3185170),
   (90609827837191430547154227121436097115705267999171966596541088365611310454787, 308222400000000, 77055600000000, 47777500),
   (90614633409354984905949301382869173603287641849885635813196347635198492325721, 18493344000000, 4623336000000, 2866650),
   (90635355657155736540122204241309114904658990041824935147376187067335517654034, 20548160000000, 5137040000000, 3185170),
   (90663669117786595476377073610417252295730091766618630464500237046365892761202, 332880192000000, 83220048000000, 51599700),
   (90713421956816242512599627773802489028179158331839364065597896946255283965954, 10274080000000, 2568520000000, 1592580),
   (90713566301183144677876121117656534247208686342642932481444442851557177275426, 41096320000000, 10274080000000, 6370340),
   (90715406516337746646655496465730092316331746059443812531781325115820342001193, 51370400000000, 12842600000000, 7962920),
   (90721905987313181639552208685801533962709835583248571374671205603996541288452, 10274080000000, 2568520000000, 1592580),
   (90729788374551540740426071466470050986024045761329106861368660790689312005712, 133069884200000, 33267471040000, 20627200),
   (90746730141518175539630459846540737171457749045790880690792419820592969161485, 41096320000000, 10274080000000, 6370340),
   (90758253779935546230409557872935481184939665508654178636600023139695553629270, 10274080000000, 2568520000000, 1592580),
   (90773228240151718410401350754778404504586613769921434678415876828883707614046, 27740016000000, 6935004000000, 4299980),
   (90793605812184586772174162344126437477581083880274372838145010076239924999543, 18493344000000, 4623336000000, 2866650),
   (90824642983662801128927297948147233581891960239592579515989058649119452605445, 20548160000000, 5137040000000, 3185170),
   (90850966327627768492641786819808772998144617038764407576780402633777287154207, 271235712000000, 67808928000000, 42044200),
   (91372975127775318277287797225245284757172855975926682180296583092025381374767, 23630384000000, 5907596000000, 3662940),
   (91377371507937988595007393051735294678514346625518179749600854976196329779737, 10274080000000, 2568520000000, 1592580),
   (91381474866103750691631227030497021825103157607152927150612933086196787484694, 45205952000000, 11301488000000, 7007370),
   (91408938941856989883494186845904342794399404945338190084817287547663796534350, 168494912000000, 42123728000000, 26118400),
   (91443450633511501102577785840759728890829143927429473984935965767092482995518, 10274080000000, 2568520000000, 1592580),
   (91457511833992384547280445217297238361459538661785227268867272885283477242692, 133563040000000, 33390760000000, 20703600),
   (91499612394910074889689662257499416015448627652612054066650530623554000658989, 18493344000000, 4623336000000, 2866650),
   (91530488699947548204620202461777308106906483183748350607194500234879404533771, 10274080000000, 2568520000000, 1592580),
   (91537135572097259977307884521984955135959303919000391146422201130425259168010, 36986688000000, 9246672000000, 5733300),
   (91551363897428471198742227169098774395502071537160867944496312850341404279667, 30822240000000, 7705560000000, 4777750),
   (91561330179609421292942638708687950470666477975754036827339213595012760416804, 20548160000000, 5137040000000, 3185170),
   (91601714803396486587474611741148797208509513911571868254680678992590381399150, 28767424000000, 7191856000000, 4459240),
   (91605385725637131245188032744460143585685281466871241615603417028536342751092, 10274080000000, 2568520000000, 1592580),
   (91619873647875436526517450778976867853403292345843601859283403911403879043615, 10274080000000, 2568520000000, 1592580),
   (91645380684859093894321892385384112877055297696036935592522519293160528014610, 10274080000000, 2568520000000, 1592580),
   (91658707261141867825433869845014951081029542783566952499868104302344737001078, 10274080000000, 2568520000000, 1592580),
   (91698501280001183169153109342290719016743761710041732118244318067111733117963, 20548160000000, 5137040000000, 3185170),
   (91700538177021530878813965635648274405382037382977192867898944376622972740392, 61644480000000, 15411120000000, 9555510),
   (91711232339474232985295439677837386127642505427978722925192815319465182051698, 10274080000000, 2568520000000, 1592580),
   (91726776297094401895475470177784820332116050479602885335663337092310068456256, 205481600000000, 51370400000000, 31851700),
   (91727499469530957758444784474904261045817908386660364897027650641434089211238, 11506969600000, 2876742400000, 1783690),
   (91728184884979372442286419322686526518170753822022269210958095377151955407416, 26712608000000, 6678152000000, 4140720),
   (91743802310836631536738084547649876418310660599513123059898384305299423097423, 30822240000000, 7705560000000, 4777750),
   (91758496406885534668256004247529889010066366755388955157385774533369584991552, 61604416300000, 15401104080000, 9549300),
   (91761556256723267898624182970883973817232765498649136703082962162010714215221, 113014880000000, 28253720000000, 17518400),
   (91769579086670411416668033106725230417294630503118944694175497004451002684787, 201705794000000, 50426448490000, 31266400),
   (91804104287166104193846057969262319345058696312957247830619625729771266221625, 123288960000000, 30822240000000, 19111000),
   (91808432728042314037909895693612903770542202548200181518121477875153512329037, 45205952000000, 11301488000000, 7007370),
   (92278554962958577379184817545671809908200474768828618568896810110721665864299, 82192640000000, 20548160000000, 12740700),
   (92289979794528224017153692466621944132864131251761805642625850154486849566733, 20548160000000, 5137040000000, 3185170),
   (92293446250294501329446178012524572712688944436209279053883762311862454364951, 30822240000000, 7705560000000, 4777750),
   (92359326088131846400988801106478202537707923640850851916728934171095696432930, 41096320000000, 10274080000000, 6370340)]"

definition rewardees_33 :: "rewardee list" where
  "rewardees_33 =
  [(92378439933624495801513719901607106016946852615153156413796191929987812672847, 16438528000000, 4109632000000, 2548130),
   (92388862577976449177316071290883344059651232192606027682601035031827360928118, 29157839040000, 7289459760000, 4519750),
   (92412111211278958383163525148262519713987471482050937866373998663678725967402, 16438528000000, 4109632000000, 2548130),
   (92446553586346014366656024853822627647190956252074834173597255063201707533676, 125754739200000, 31438684800000, 19493200),
   (92457390520677587413081055473193436237123168533539348079603106392046128795665, 10274080000000, 2568520000000, 1592580),
   (92511529430164155490704435486859850122775663874050286967140373004242397988461, 205481600000000, 51370400000000, 31851700),
   (92512411344486129290700723638344748140343008627371279327854262688655435998525, 22602976000000, 5650744000000, 3503690),
   (92515255464347808407495156613893050801981849703442460054636846088891463758163, 12328896000000, 3082224000000, 1911100),
   (92524655700060537781613193196969446986458603510069149649862504690927274860342, 10274080000000, 2568520000000, 1592580),
   (92526913535514211335778364798540479468505394952361646005201988102779242811451, 43151136000000, 10787784000000, 6688850),
   (92534593243220160598796518561968453949830461094043822310715627122913126911313, 22602976000000, 5650744000000, 3503690),
   (92546671973721915433458753536849941085306417863195594779052889326079849114196, 12328896000000, 3082224000000, 1911100),
   (92569447091726461557835389471547317659844349996263770887298572153676940045605, 1027408000000000, 256852000000000, 159258000),
   (92592946976089230441021488959795797343855973218432854097451804668059593852760, 14383712000000, 3595928000000, 2229620),
   (92606560294239548285703824321038492065103530133285403096299912623083455326990, 61644480000000, 15411120000000, 9555510),
   (92625335164752738647619850722789857234214491755311592406878440960668330474363, 61644480000000, 15411120000000, 9555510),
   (92651754904150629551621683896193118695899223813977023094715267584092324568323, 1027408000000000, 256852000000000, 159258000),
   (92689490417528632956219253263488522738822720875417262780613330042532847781938, 10274080000000, 2568520000000, 1592580),
   (92697177465033365780844551025630389574435246994976313808430451389986150059095, 2054816000000000, 513704000000000, 318517000),
   (92714574214291647730899852463105923347783977788693287369126020733584083185501, 14178230400000, 3544557600000, 2197770),
   (93197923961629780596434745643723655937210813024378074386803563725988690636343, 33082537600000, 8270634400000, 5128120),
   (93261402187234239798927121641144249858454038209417288271550195062022117762655, 30822240000000, 7705560000000, 4777750),
   (93285301511278200726363020462042241087484631837580788745738851848156540102264, 43151136000000, 10787784000000, 6688850),
   (93300221968080668653419939128848071202067414440919019840854677767387367151658, 20548160000000, 5137040000000, 3185170),
   (93302348159372733762830208704260706625169936017283745620998115901922677116428, 143837120000000, 35959280000000, 22296200),
   (93302795943657729705453680378922820141598947624843638828992638832912245226250, 20548160000000, 5137040000000, 3185170),
   (93349774780815947253740625699492426328456675093429143640338750917755447335984, 82192640000000, 20548160000000, 12740700),
   (93386453693742184201095433568643188414153118052034264000549401898267056261435, 12328896000000, 3082224000000, 1911100),
   (93397145182526570311339386053960094174291811947071555951804249650214413346125, 14383712000000, 3595928000000, 2229620),
   (93416133035473891403768725845346351496389460448886537171960056887881679598358, 30822240000000, 7705560000000, 4777750),
   (93447535280803095116333079147584704944561499356233986232632180719707461742089, 250687552000000, 62671888000000, 38859100),
   (93454272332209642557217508930263335430286265935990818484816159792270093730173, 10274080000000, 2568520000000, 1592580),
   (93464033450669840064543136922387392112259844936184636542778707048138326580253, 413018016000000, 103254504000000, 64021900),
   (93523443185292000360304373279369306180445481294133940039533783470547666834044, 102740800000000, 25685200000000, 15925800),
   (93526347789109454175679322003723898772242973179499957867724527011669137797423, 36986688000000, 9246672000000, 5733300),
   (93539903983853241492275417930314880509707574729529850274478411266108593783637, 30822240000000, 7705560000000, 4777750),
   (93544102626683822745888657363202029926774940083203024026811313255905015494168, 10274080000000, 2568520000000, 1592580),
   (93585739001272173717442878481771437843731179899288109216381204441226312454015, 10274080000000, 2568520000000, 1592580),
   (93590954898893136999974823405787780368506496976072102939196393777456290103062, 226851686400000, 56712921600000, 35164200),
   (93613374533882914121626611724771674116751027514282315285394711332582072833841, 1849334400000000, 462333600000000, 286665000),
   (93616755801595373483931460503387670426817809411905901311177882225585207613730, 20548160000000, 5137040000000, 3185170),
   (93622006005120072867802330467079245904863417010973569961725908659025846268973, 20548160000000, 5137040000000, 3185170),
   (93626988748919794234602714450783801014205100685324260244904191319035935152241, 20548160000000, 5137040000000, 3185170),
   (94129565630928500810387508731824492548287936314253936720456582328941195332422, 205481600000000, 51370400000000, 31851700),
   (94141974483957358507320434535917947592070860499360186233029587398429909474573, 20548160000000, 5137040000000, 3185160),
   (94149090066302926103280466674147321637356214150839907865586078687614537974141, 10274080000000, 2568520000000, 1592580),
   (94195212722367857299379228763371369775912228922856177109662211805386611909396, 20548160000000, 5137040000000, 3185170),
   (94214480535917477189460265955758207300884264957731397077695789950396043838314, 10274080000000, 2568520000000, 1592580),
   (94246872225502782421998064167495528077437918999704666944143579567695228554500, 41096320000000, 10274080000000, 6370340),
   (94266552845543607778773045189213249207637175131089555207926069871429163794496, 205481600000000, 51370400000000, 31851700),
   (94292878002235297545105382409025715529392583429168960643670979098682011258651, 61644480000000, 15411120000000, 9555510),
   (94301365750355264230302294901020556507836374969469651230047012243844340355430, 10274080000000, 2568520000000, 1592580),
   (94317190098244983493026183474444479156366340774948426981298683527257573666053, 10274080000000, 2568520000000, 1592580),
   (94320330493133835940292271427665136025360621206707580625195443909847921032056, 10274080000000, 2568520000000, 1592580),
   (94340451831407606643501827154235522743675696165110059409636375514184886376809, 30822240000000, 7705560000000, 4777750),
   (94359580077508206963390651082154839904836442828824534989139894184381407052869, 51370400000000, 12842600000000, 7962920),
   (94360478169155198709293963115505665927037812965832153372887651601445379102214, 10274080000000, 2568520000000, 1592580),
   (94381897120674534688746433297213586243443800563113612830740868691455825261582, 10274080000000, 2568520000000, 1592580),
   (94431946948581144106095827028070390844667065462879886656717251558462866482732, 10274080000000, 2568520000000, 1592580),
   (94472248486123039528318498194958991730141069732034514403161162584994262392683, 20548160000000, 5137040000000, 3185170),
   (94478329869336636319120552133561460671610087192322144859807619077727442744597, 408908384000000, 102227096000000, 63384900),
   (94999713966416948667866100140464131757670368503774504903135479019024020093782, 10274080000000, 2568520000000, 1592580),
   (95010386036284885132853145973715212436168923564295998528027043278946149802538, 10274080000000, 2568520000000, 1592580),
   (95024921949492528937494790213914234137717251705265156968125555084889653266502, 10274080000000, 2568520000000, 1592580),
   (95056518671315624164449074103675016645512951734596319676912537653707804306737, 10274080000000, 2568520000000, 1592580),
   (95070364741458680384923441370133017718839965930120695379807877884884201445656, 20548160000000, 5137040000000, 3185170),
   (95081706894348043638394139007330408859115599614110990127484774117017442066691, 10274080000000, 2568520000000, 1592580),
   (95085172929031983131926542183265169124970513007612193638151740236123537238108, 20548160000000, 5137040000000, 3185170),
   (95101705277629675442715568145717566859597381387260441591905135937248876303718, 10274080000000, 2568520000000, 1592580),
   (95108145973104553807992739778833799879366470843838999720624066731675437200440, 328770560000000, 82192640000000, 50962700),
   (95124786846931283588463390973668503128671943509115980178160514860402313573664, 205481600000000, 51370400000000, 31851700),
   (95166940728412388970094508007294015833549295467159018786145666906894499592504, 14383712000000, 3595928000000, 2229620),
   (95193125476225514828452718251849373642554280281416960906495868833850708647982, 102740800000000, 25685200000000, 15925800),
   (95217382713610141893755028547594771459955974286857734112808466063708184432985, 205481600000000, 51370400000000, 31851700),
   (95240299826345570889631858816239836520225662796829195591061582748904342706291, 821926400000000, 205481600000000, 127407000),
   (95244961301666683307762146932767779510607210878537635863424277077164137775897, 61644480000000, 15411120000000, 9555510),
   (95279898811579224085749827423461391801930430795298858360585748084356556362269, 10274080000000, 2568520000000, 1592580),
   (95283388845121866009604978409409594751907491769582434992559391424370071258944, 14383712000000, 3595928000000, 2229620),
   (95339376628097302062866910321946129426190389293148432641368627692310616718177, 14383712000000, 3595928000000, 2229620),
   (95355473527034251404496092767057312904858033174736750252663390946223239589970, 17465936000000, 4366484000000, 2707390),
   (95366355860481924943008937023312943904787229910742100787516635487425950048221, 10274080000000, 2568520000000, 1592580),
   (95379190222333500398525236173945582564561502056928456443962848708598135408672, 123288960000000, 30822240000000, 19111000),
   (95435384451308742115698144897702626828328520239683644134608781764296382476927, 10274080000000, 2568520000000, 1592580),
   (95877467477181535546536857549481319925941467074092201591481453197287686311184, 124762153200000, 31190538300000, 19339400),
   (95909368268048177603947427499730753815990789103875708080396282154607098566414, 944598915200000, 236149728800000, 146422000),
   (95930599013802477716547574371640286742887108946372771753177726525780391403604, 10274080000000, 2568520000000, 1592580),
   (95938581215965560324019659428269281175048162287875628260290163916200561914719, 10274080000000, 2568520000000, 1592580),
   (95957703587911968176809381209186209188120661839044755419193533965248391418676, 41096320000000, 10274080000000, 6370340),
   (95980944012603868182837586812953014885397764620499266147634635067030676517382, 2379476928000000, 594869232000000, 368842650),
   (96027676844816092303797996505238866383801774958663944987386066475827955555376, 110960064000000, 27740016000000, 17199900),
   (96035191391430973227822308632658880058563237298784929966664542251137649955597, 102740800000000, 25685200000000, 15925800)]"

definition rewardees_34 :: "rewardee list" where
  "rewardees_34 =
  [(96047636641000926417456666635531108881877175449715328140982221278886155315071, 205481600000000, 51370400000000, 31851700),
   (96084144836102313756653814360667683310999313234353958394568506190357411366755, 61644480000000, 15411120000000, 9555510),
   (96085955114060676095487890019938066231590661533139391838978118028886285059145, 1241108864000000, 310277216000000, 192383900),
   (96089352673652107249486943702222345868760148888599229030584786480920486379129, 10274080000000, 2568520000000, 1592580),
   (96095336843013705209607045463590147941959053517503227703438169090809007710311, 10274080000000, 2568520000000, 1592580),
   (96101034181074110761324916803892541550444070752505386822020997694047934366987, 10274080000000, 2568520000000, 1592580),
   (96122140559250814147482032919139415819192467595833414571541916722884535790430, 10274080000000, 2568520000000, 1592580),
   (96123802442326244889010677257999929827748154872450387220954210122534443764522, 12328896000000, 3082224000000, 1911100),
   (96128123600183931605080348024889621645667535769836258465805915644562150599964, 1027408000000000, 256852000000000, 159258000),
   (96130356488436630842998450695510263978883271993976707540734051005927242964335, 51370400000000, 12842600000000, 7962920),
   (96137094831432268603929813905331526263315874629372230730926387824584577159781, 61644480000000, 15411120000000, 9555510),
   (96151877789483026604584949782435581098100289314731631893184922252428019971867, 10274080000000, 2568520000000, 1592580),
   (96160504702491779980226115695283469005163690400840601269833935370600673367353, 63699296000000, 15924824000000, 9874020),
   (96186449821392426247647087042631772747917114637199694523327490135568372817506, 10274080000000, 2568520000000, 1592580),
   (96205591840875919555105250821110695390896611954659635910781377588020077947225, 51370400000000, 12842600000000, 7962920),
   (96208870515370285080174153037102315113055973477951497088369231125072571146357, 10274080000000, 2568520000000, 1592580),
   (96212656408913568448288944049666842626746477917378051147686266134726234595182, 10274080000000, 2568520000000, 1592580),
   (96219798019272180594920993125174576009284322432217997901187195110417930293323, 102740800000000, 25685200000000, 15925800),
   (96222918537517662196220073628649871403101164158855353619965407538602039147806, 20548160000000, 5137040000000, 3185170),
   (96240167804880630961329349761815087924469552693327227049367176861491173396301, 274317936000000, 68579484000000, 42522000),
   (96272230577713242754623305707206996637093966396409227170311276544651104800052, 30822240000000, 7705560000000, 4777750),
   (96291677936657518273946155554047655293544172262818979859461445919670006284900, 10274080000000, 2568520000000, 1592580),
   (96296959938719101856808234378404154457606353352632602301517291865529917153301, 41096320000000, 10274080000000, 6370340),
   (96301555445326792515940570777252036624047678315624378948717521898049415943281, 10274080000000, 2568520000000, 1592580),
   (96319295857003999943038176887814038779429105903288056839293184138664288072057, 12328896000000, 3082224000000, 1911100),
   (96827889470771344066560947608289068271325559046156699698148406957134611850264, 725350048000000, 181337512000000, 112436000),
   (96845732701376669337232694560259237185551788789024492575056650121458814807925, 30822240000000, 7705560000000, 4777750),
   (96890978466747669987781805329535667921504683480059767844019021511480295051883, 205481600000000, 51370400000000, 31851700),
   (96946375031241461205774836214168920894172755270488740837556876873044612819201, 11097424150000, 2774356037000, 1720210),
   (96953409582976395851520942164812997664061521187467284249363870085830466589471, 10274080000000, 2568520000000, 1592580),
   (96955904609966077046985816245572578823672005044664245559133089173938963576380, 1820566976000000, 455141744000000, 282206000),
   (96962344704503157493702972430168587530818383724866861516505600851273108558705, 43151136000000, 10787784000000, 6688850),
   (96967844720306900220225347883148008813695951970093841965727758777026064536840, 55952639680000, 13988159920000, 8673210),
   (96991749890854421574450507771229274427540490726900855381480325653915957566543, 20548160000000, 5137040000000, 3185170),
   (96995455653088109903253144099086069244116594097298313844347782029968825509670, 205481600000000, 51370400000000, 31851700),
   (97016261693756150533544661693982264197628810028756385661531786460369595996219, 207536416000000, 51884104000000, 32170200),
   (97039077838886252412554659665698219816806932733210250146180445691264550889267, 10274080000000, 2568520000000, 1592580),
   (97075982579007998743112471039052217835610587230422329989960480369838707446812, 21575568000000, 5393892000000, 3344430),
   (97077607711854221423900588561288223076984252885736349399351254967928561907317, 10274080000000, 2568520000000, 1592580),
   (97104956523109777424060300994305059240195345762434321807939889883363657010500, 20548160000000, 5137040000000, 3185170),
   (97115216224054075123690570363904865220663244702328052588849182542674260099636, 20548160000000, 5137040000000, 3185170),
   (97151054182999345666558783363689637303336310689155645225419451206482275983674, 10274080000000, 2568520000000, 1592580),
   (97151804167460793853984301685133960925348679520658250160023269374851825904220, 20548160000000, 5137040000000, 3185170),
   (97197029477146245697535922039209583349592160660194955380395644199803828693526, 10274080000000, 2568520000000, 1592580),
   (97207265387442510221544086047400956432152219960956384239322657143508503593060, 10274080000000, 2568520000000, 1592580),
   (97212829934834061859253094489113424843070371034627642098952397624338002072366, 10274080000000, 2568520000000, 1592580),
   (97235101151045132124890698767336561353234103272533495491619885547275210633046, 45205952000000, 11301488000000, 7007370),
   (97236343652485289954032450433521630585705353371797178838806948507490468252534, 57534848000000, 14383712000000, 8918470),
   (97239696502707070832760988717250006035650087822178768046693054195618952734796, 30822240000000, 7705560000000, 4777750),
   (97705021941114528248496962828843912643702606063606797480373314254422297492072, 49521065600000, 12380266400000, 7676260),
   (97718417211065940253862806646452938916167665522674925698525375534776346958080, 51370400000000, 12842600000000, 7962920),
   (97720709065304734629905038234011541061883002544598169567513273890855382555465, 20548160000000, 5137040000000, 3185170),
   (97755292306205895786921600350113611083590290103122554120391178629266162346292, 20548160000000, 5137040000000, 3185170),
   (97762563106210890695443591384719967784780375619158783074644720487923556952442, 41096320000000, 10274080000000, 6370340),
   (97769085609431709617284058987123653224965912156455394926257873951352847937621, 20548160000000, 5137040000000, 3185170),
   (97770366118451168989480374600392908684733975327009956805899257266808036861764, 136748004800000, 34187001200000, 21197300),
   (97771761498283308532667191023020498023934793808544631466645142057567215909439, 76028192000000, 19007048000000, 11785100),
   (97804521238573138016362934754511707683840523118771321005338388535457356164165, 1621249824000000, 405312456000000, 251310000),
   (97811896543849789096320312215291948884477002465139988074791817359725629480038, 20548160000000, 5137040000000, 3185170),
   (97835992244961776496239848744176686377967577531612667067474167622749800183146, 205481600000000, 51370400000000, 31851700),
   (97861924226984814622871681423615246473033393268105001025670582242200912666659, 20548160000000, 5137040000000, 3185170),
   (97865882779447888012335412651764333740390096204311464473749389984778223023189, 10274080000000, 2568520000000, 1592580),
   (97892761248811423498369846315637242341680393880211792425113500314266068206606, 63699296000000, 15924824000000, 9874020),
   (97894318646840547504891218883888978416587660138541482692934670373751256849420, 20548160000000, 5137040000000, 3185170),
   (97896715726108394550642314292883956332741741885893024563497741152059036502380, 279065999300000, 69766499830000, 43258000),
   (97906182784695836872931582683914856804499201769663660230426303666422471727650, 10274080000000, 2568520000000, 1592580),
   (97919417306315352497580418752257943602590736200657371836747090827452024662113, 10274080000000, 2568520000000, 1592580),
   (97929516493000925751256691810268416362902189150433184361810455272878531449976, 308222400000000, 77055600000000, 47777500),
   (97948370431160327877876170627251470466082334509873832377204020725750833556084, 65754112000000, 16438528000000, 10192500),
   (97952215445341654821638233305219937860707526937311099200599151554991558524198, 10274080000000, 2568520000000, 1592580),
   (97953852308927991460364422228638819705263356093083627733327928780725165851223, 16438528000000, 4109632000000, 2548130),
   (97955152828289105314664452465697594947535927928046922676828918050649990285658, 102740800000000, 25685200000000, 15925800),
   (97961982929752324676561031244487551046421888440980818965469118271845089221727, 10274080000000, 2568520000000, 1592580),
   (97979863961742885115469416456695695927704141149503773744761764931623549203278, 205481600000000, 51370400000000, 31851700),
   (97984895155646820300927877883489526901397661165531233876428571539691451710979, 10274080000000, 2568520000000, 1592580),
   (97998470626140931677240540747096038767167865120117890249021829233021100698651, 55480032000000, 13870008000000, 8599960),
   (98019729476716765552865755202387101705822834517840440591760196952525321804868, 43151136000000, 10787784000000, 6688850),
   (98031048056577452982681786743645475111335392168918904586050060853897888371035, 102740800000000, 25685200000000, 15925800),
   (98032629762468385294005216940956450223152086125841872343320198772981792195120, 20548160000000, 5137040000000, 3185170),
   (98046058597153835604339110374919713534153143984300225737361675381460787222812, 410963200000000, 102740800000000, 63703400),
   (98060087234099936752159153032640127587491782946320812802725480019550547641657, 308222400000000, 77055600000000, 47777500),
   (98101312624108073832583104697734377234017258254759116152063619262029114279447, 2054816000000000, 513704000000000, 318517000),
   (98138262608181423979948836367577961775988371549227180729580939676815558024478, 16438528000000, 4109632000000, 2548130),
   (98142253976405835076956880782924871495355262468002278575549659568414021884195, 258906816000000, 64726704000000, 40133100),
   (98605455481316368624765398365923888756864392691367565129189986941667009575547, 226029760000000, 56507440000000, 35036870),
   (98608328778972073053684947091355371691678083217867915475901234330094720098152, 10274080000000, 2568520000000, 1592580),
   (98615965888555314270417276252035105204287653644433892347557987886909710413176, 24657792000000, 6164448000000, 3822200),
   (98624311160817023520958372321914716611154751699496638078190127245281902129696, 61644480000000, 15411120000000, 9555510),
   (98644318188353998499260591797946196130860294648497866084245239685327290289945, 10274080000000, 2568520000000, 1592580),
   (98646281607198425402936089119355910819310085511791379855480859686577868972651, 73973376000000, 18493344000000, 11466600),
   (98653600065083595713513522812953461322539795270762445607977435688908164371997, 205481600000000, 51370400000000, 31851700)]"

definition rewardees_35 :: "rewardee list" where
  "rewardees_35 =
  [(98683470508770592965238799250256127161311691453819708685279348061862880550772, 30822240000000, 7705560000000, 4777750),
   (98790172006279873472935786271230932808214286640457605873759510557807275148154, 41096320000000, 10274080000000, 6370340),
   (98790637025914307079527645413864420104033281932968748331593692537064441315177, 205481600000000, 51370400000000, 31851700),
   (98827989148413349403222499311901365861482275656179069262757906466037171847474, 12328896000000000, 3082224000000000, 1911101000),
   (98856265059100243447383253652973272525417896696270229612755531565672010799147, 20548160000000, 5137040000000, 3185170),
   (98874110226909230067983720418378405737688966386571326071284789080553999447901, 16849491200000, 4212372800000, 2611840),
   (98883644486743406176832705271020649773170231194381827944452622666253033116469, 18493344000000, 4623336000000, 2866650),
   (98905300324207332737330867237244138226383211094427603485333804890309452626958, 41096320000000, 10274080000000, 6370340),
   (98922160567106059619203673571524219838544128452790002668747928708540711378179, 20548160000000, 5137040000000, 3185170),
   (98964448063454706080250026105427203816099908082665512738895540659272250053897, 11301488000000, 2825372000000, 1751840),
   (98991930168802761088952864988179621797242126059971368310866527453881454397002, 69863744000000, 17465936000000, 10829600),
   (99049143168041277188814800418594721842762295808452070733402500708555922774611, 41096320000000, 10274080000000, 6370340),
   (99511544688838338121998110589134197228056607927423291569487539882246778202636, 102740800000000, 25685200000000, 15925800),
   (99523800336150579130196218450354569447590033665109793855057813279809333031474, 10274080000000, 2568520000000, 1592580),
   (99555441427120872697668331718429410207676879059969119926532577672854200864049, 61644480000000, 15411120000000, 9555510),
   (99582012765142267098250294417524448439437061859627833916256453409443124557115, 41096320000000, 10274080000000, 6370340),
   (99679969821564605404263361970472225841438783004754704892883728688004198608129, 49315584000000, 12328896000000, 7644400),
   (99684691480047188963950709102024204069836210969686013994226351153391174359900, 17465936000000, 4366484000000, 2707390),
   (99691485615436612760079651031108834190821855037591362483505110155737096035888, 25685200000000, 6421300000000, 3981460),
   (99721226791434471441662179858182969066667221498432928811731050615783365980280, 51370400000000, 12842600000000, 7962920),
   (99737920779815868038429258357171842393117383558184967601192008006488180098687, 8219264000000000, 2054816000000000, 1274067000),
   (99748014819706011987977365930839978119181005291834954351769687263394820375560, 10274080000000, 2568520000000, 1592580),
   (99754626411717745899135429002527747240436684688548922847355671610050568180309, 51370400000000, 12842600000000, 7962920),
   (99767598776612804229384345008790961544379109723253246517851523775532249242965, 10274080000000, 2568520000000, 1592580),
   (99797289947777284089883408383582658073463897632244550126560855632305186950779, 51370400000000, 12842600000000, 7962920),
   (99798803606142265889741999399101310925676358584259328813009165790253725213548, 205481600000000, 51370400000000, 31851700),
   (99813276298798738575780271534196701533210946796934505593289082125215904132627, 215755680000000, 53938920000000, 33444300),
   (99818221358037996787778342883262633249869675723915440393894491503416150445407, 10274080000000, 2568520000000, 1592580),
   (99822338586225868618427018521727335775317165983286396709736926934662381354543, 10274080000000, 2568520000000, 1592580),
   (99843147071914114142493158370981949131721716623517278564295417281325805651787, 10274080000000, 2568520000000, 1592580),
   (99860114559287383451543075665774437530354883786016388384820922812540816465664, 61644480000000, 15411120000000, 9555510),
   (99874466799377907576951164696339452337741647587884743722484461369328616572505, 143837120000000, 35959280000000, 22296200),
   (99886315125520485180225703482797641725178824877011117828131023444455119364128, 30822240000000, 7705560000000, 4777750),
   (99904548735610413590279214117674946820077014825492277836500683793265398949209, 10274080000000, 2568520000000, 1592580),
   (99911927042261468810781883224623657652047497583569463170203082225075615881011, 154111200000000, 38527800000000, 23888800),
   (99919779331915527709554916316535594934448540023995519526838891629891851429999, 10274080000000, 2568520000000, 1592580),
   (99932934669856367176758514241035792854883168519234976163409463106840484202051, 10274080000000, 2568520000000, 1592580),
   (99951596579102793327882175533092354435268673672975342269495163306134561602087, 114864214400000, 28716053600000, 17805100),
   (100437619906200426455324154911858609691610015861624164062331698368577432753484, 184933440000000, 46233360000000, 28666500),
   (100452414354691860982589934607018017518089918969238990116344063734233311494461, 25685200000000, 6421300000000, 3981460),
   (100459001208318461402373208001962630684291036121901784109062129516752207109951, 14383712000000, 3595928000000, 2229620),
   (100479182483141217288266315185864800511344422767444929640039593671790667523849, 22376946240000, 5594236560000, 3468650),
   (100487413760104388678481891985979422116696637718265460540621622881911347877427, 41096320000000, 10274080000000, 6370340),
   (100499292345114826627331195014795975212856852072308215267748910193086958617204, 61644480000000, 15411120000000, 9555510),
   (100510826018191634841849280742192107867868276982920237662332759497204385360952, 10274080000000, 2568520000000, 1592580),
   (100512392320962345011496923883517261227034936896613123698538031278669365655648, 20548160000000, 5137040000000, 3185170),
   (100521879691266300515831280359847844574712581858550852935658645421805855815427, 10274080000000, 2568520000000, 1592580),
   (100533752266646855143890605918543662455277396759414880090823783134440588000572, 51370400000000, 12842600000000, 7962920),
   (100535855181288628144692582617807966319443105937622227317339192817308180730144, 102740800000000, 25685200000000, 15925800),
   (100538208685617748178076802865080190277194788676529395504731193885646406867997, 10274080000000, 2568520000000, 1592580),
   (100574619862122214302755782799250695365972294253513453408577068447643509887244, 10274080000000, 2568520000000, 1592580),
   (100597385273180132858696256791452425562418700225068379433109241463232137619750, 308222400000000, 77055600000000, 47777500),
   (100633267653283488924353231222133960968877333830764525181885827338754338218774, 22602976000000, 5650744000000, 3503690),
   (100639905636453643481248136792420999404589169820280149184024250355911767745827, 12328896000000, 3082224000000, 1911100),
   (100652840302461949690712227954475837628368282672590446835770906232680988744759, 28767424000000, 7191856000000, 4459240),
   (100665929221671202295674582728305625556175378964051307882765360888604211630630, 62671888000000, 15667972000000, 9714760),
   (100667952190085033308319141718723704046531667015885623828206932900051279878260, 10274080000000, 2568520000000, 1592580),
   (100674714282638371097977987706807050734596872786932203569050053892362140339065, 15205638400000, 3801409600000, 2357020),
   (100693941455007504423263716913216806165470923414140656491689996026623775168870, 20548160000000, 5137040000000, 3185170),
   (100715331107083560915096844416918673192239505475856451923199786970488436121369, 10274080000000, 2568520000000, 1592580),
   (100740252185336412716033981722317261072678018487956744337447121916518815742790, 109932656000000, 27483164000000, 17040700),
   (100741802498066538436814923399287609020301751004040281665164212835635022180223, 10274080000000, 2568520000000, 1592580),
   (100757721251185391976443994285123663567947719824138661691750274512083014712885, 216577606400000, 54144401600000, 33571700),
   (100782400950266652108196577612774672171735403799755100978574298468984197404691, 410963200000000, 102740800000000, 63703400),
   (100787708179639781689687215637251798221638880677443191351849595240384828748360, 10274080000000, 2568520000000, 1592580),
   (100790442232422623612742214238757170819669434234186157938853243849706829510975, 188221145600000, 47055286400000, 29176100),
   (100812865956645222421311998764044153387599904620997788227015386929102616641852, 41096320000000, 10274080000000, 6370340),
   (100825513670855910290209783203025491412754879863146593582232714661061464803109, 10274080000000, 2568520000000, 1592580),
   (100827455128020305426004517933544640501667339851239932850949568421502187861543, 10274080000000, 2568520000000, 1592580),
   (100841457934201987607914607656482681890432085426062704590047905528316524139841, 10890524800000, 2722631200000, 1688140),
   (100845418320716491812968032875262587124682831516228473313482664264141803536466, 195207520000000, 48801880000000, 30259100),
   (100853625637631224430738579043614529690882508058329552758526455211139005385992, 55480032000000, 13870008000000, 8599960),
   (100854915430252923975749509006389631852636142208513122896279079854767236107308, 51370400000000, 12842600000000, 7962920),
   (101321465918182185259680687369171785948438065613920749281844781756216970362642, 376031328000000, 94007832000000, 58288600),
   (101330631164547863655706937482434762694503386563872929117112909227033032688151, 102740800000000, 25685200000000, 15925800),
   (101349145871685742104436605486915778426598887849221219597443162345915262865508, 20548160000000, 5137040000000, 3185170),
   (101352363418089865625106213115688706460794013123976284712240183756958726230825, 30822240000000, 7705560000000, 4777750),
   (101352503489225712961923851653991767272938828905057982099975393055110368594730, 10274080000000, 2568520000000, 1592580),
   (101374623472542849168635508082514947211765670849167972450428514528441200020738, 123288960000000, 30822240000000, 19111000),
   (101398152774118179889267517192661501602293148521026751035921456236527043794749, 16438528000000, 4109632000000, 2548130),
   (101414852874748301727380762175522174674807843231611565924360279124535411883129, 10274080000000, 2568520000000, 1592580),
   (101428186665863831329967542804893296354916780157127313380402472827377940543008, 41096320000000, 10274080000000, 6370340),
   (101436200842962413077244453805037142598864079610638828146694021360863604509237, 164385280000000, 41096320000000, 25481300),
   (101436256138190277378980726923012793497962846867830813591295514956589716189798, 10274080000000, 2568520000000, 1592580),
   (101439443751279242875566739290174870981067109646209482667236621137817704420212, 195207520000000, 48801880000000, 30259100),
   (101529040595263137580889358542177968459034153647854276691016128763394186485035, 61644480000000, 15411120000000, 9555510),
   (101539646322201946113725517021167900680058622029259681218917120679896782514212, 20548160000000, 5137040000000, 3185170),
   (101553005411792811358415938270654524826785477445592131107275684677670095207541, 57534848000000, 14383712000000, 8918470),
   (101567991629507678162582082529397612447322791904080476607844645109766350657558, 10274080000000, 2568520000000, 1592580),
   (101576669721639943089467522807289310979154978519780036446257872975050434334488, 16438528000000, 4109632000000, 2548130),
   (101608642854598016982409451490251019243934121805463235054963239819163653536358, 102740800000000, 25685200000000, 15925800)]"

definition rewardees_36 :: "rewardee list" where
  "rewardees_36 =
  [(101616996716618324186924303139283414892691466841919056597854043387763271459449, 349318720000000, 87329680000000, 54147900),
   (101617263842818275709612893924215418661257090653213979830981726065001470110271, 57495970880000, 14373992720000, 8912450),
   (101622005506094030489414971033711929919133940855456458715475209346351953055272, 61644480000000000, 15411120000000000, 9555506000),
   (101724744770063684685358111615500789750225712990091346974475970776920830591548, 15411120000000, 3852780000000, 2388880),
   (101741730969541499690280047308160802691791242402921147678043329378336748055365, 154111200000000, 38527800000000, 23888800),
   (102249019496154200516998890375655761277716322385237686128169065825068192705078, 10274080000000, 2568520000000, 1592580),
   (102262661103285006500515269167239898740785433445730297805940741848341310115101, 102740800000000, 25685200000000, 15925800),
   (102265191624777535507593591604625502624128699817401962595026979044815448772730, 134795929600000, 33698982400000, 20894700),
   (102268862917502434042862884173165819659360765088949658116679783580264886167813, 256852000000000, 64213000000000, 39814600),
   (102270239286869949555850754485166136581300450989957431598678222429809177514558, 71918560000000, 17979640000000, 11148100),
   (102281667824801782300001322301140349309427990328543674075272028639740344099113, 41096320000000, 10274080000000, 6370340),
   (102291438111377490134819102338473052680651140984292942585105966773110985574184, 11301488000000, 2825372000000, 1751840),
   (102302208114595339853291500790029809392423139583250928771662000998346318746969, 41096320000000, 10274080000000, 6370340),
   (102306751530580662382591307212129599935698526416578519484558717218738255467056, 10274080000000, 2568520000000, 1592580),
   (102332163002140116296656832437541656609997119206783825707541234385585199136770, 151028976000000, 37757244000000, 23411000),
   (102357052862204811663309410578081524648215940955624221116085567444859386739774, 47260768000000, 11815192000000, 7325890),
   (102367821004641695976327889909710124546070088547588934381440167641439930719555, 14511110590000000, 3627777648000000, 2249366000),
   (102375255831811957971552135837074153542246968250494406890581145898083892421193, 205481600000000, 51370400000000, 31851700),
   (102402911346497013305404718238826362446614893844332912118283746536915975258924, 20548160000000, 5137040000000, 3185170),
   (102403785166666294577317049313041416090331233655085668369596821137777367534089, 102740800000000, 25685200000000, 15925800),
   (102429533745228651967317819718109346628074486138323994873402608409494664063512, 9452153600000000, 2363038400000000, 1465178000),
   (102431555828187863378848896299006605321851918406242683631967932698573870643277, 14383712000000, 3595928000000, 2229620),
   (102439013351117595316776305627372326774169793905283064947741349304858055070991, 51370400000000, 12842600000000, 7962920),
   (102473987389130571802048233498977072829867111396645224001601227943294548395023, 20548160000000, 5137040000000, 3185170),
   (102492033370026590677817640123498548508441818686761888202063769593713907409207, 20548160000000, 5137040000000, 3185170),
   (102501327520316848078349036242994665687161292092500157774734260087347506514720, 205481600000000, 51370400000000, 31851700),
   (102519894144114698816086288020477158349100869363936666508207907705124357039139, 20548160000000, 5137040000000, 3185170),
   (102554923141876951585723720534814317524429760814855853158277241936353429451549, 10274080000000, 2568520000000, 1592580),
   (102579232066360365143580809620781742962022820347830409219763022868269943921704, 267126080000000, 66781520000000, 41407200),
   (102582223732236157250604723383169409821441434018891099235311079831948538073647, 71918560000000, 17979640000000, 11148100),
   (102610448425061683432007516133555944561182583238852143331212601792088524004365, 102740800000000, 25685200000000, 15925800),
   (102617648588239629768536545703317600073416514328612653603671167329100026483720, 10274080000000, 2568520000000, 1592580),
   (102636642149197868816524229289935976290214114144139036173814085523195254582285, 20548160000000, 5137040000000, 3185170),
   (102648807711249020851187099305651254987600227495272898447027859456107123605763, 102740800000000, 25685200000000, 15925800),
   (102655341985150313745461669614606997703575758032301361327916753314245454739277, 82192640000000, 20548160000000, 12740680),
   (102670956888183684467505119219459577670388083435599623598503974330224906467613, 102740800000000, 25685200000000, 15925800),
   (103199849471335304406899547406448468778971736894025917499549279623402716498023, 20548160000000, 5137040000000, 3185170),
   (103210982763954715776387532298737708506421358335769777776729497316796304202011, 2054816000000000, 513704000000000, 318517000),
   (103225312421678487196209087323652845892427250650228856571515653062900937750140, 10274080000000, 2568520000000, 1592580),
   (103241101821223727266018482699682127598294658939238817774947667609738056008219, 10274080000000, 2568520000000, 1592580),
   (103259191752779007571755912634496186117921557473041844758714743385596071489114, 10274080000000, 2568520000000, 1592580),
   (103269653522148122919476510783929244531343371733090807716727404798017430469495, 164385280000000, 41096320000000, 25481300),
   (103273274968182982460709857391463196605558293549546901023868177657293528091757, 102740800000000, 25685200000000, 15925800),
   (103274351804712182037496381300458175413775148042997904575220493889272359931662, 10274080000000, 2568520000000, 1592580),
   (103281433611410485936966013105351776322754913446247725994513854415771308201830, 20548160000000, 5137040000000, 3185170),
   (103284337618843022347208297400709209134451679105119494561969834144642992291441, 67808928000000, 16952232000000, 10511100),
   (103329813421966900770678580609723224870555104261226584233491807345993149525114, 20548160000000, 5137040000000, 3185170),
   (103339941102889092948447021664148835414673151520751428136931078925490890034979, 15411120000000, 3852780000000, 2388880),
   (103347739435690497223965878650138647092593046656152150507018223559727952615033, 26712608000000, 6678152000000, 4140720),
   (103350094302395710541526839508988274727598483897967927729354508873635382796569, 20548160000000, 5137040000000, 3185170),
   (103382645737516006026741582234349109924811193743153834512241403560794199997289, 20548160000000, 5137040000000, 3185170),
   (103386794593049627585942405228990713702578724761482876087657568920564958932762, 390415040000000, 97603760000000, 60518200),
   (103393675594847593370838320771832782304733572175995618088345568910556053728848, 102740800000000, 25685200000000, 15925800),
   (103397629341329498121248532653234339086908705309329626391800699010395321537825, 20548160000000, 5137040000000, 3185170),
   (103440850322375288517759373835351948935775252536109093349293512969261169111393, 410963200000000, 102740800000000, 63703400),
   (103441059677106369117516955004908323054303166570487079426670110064890676236080, 20548160000000, 5137040000000, 3185170),
   (103457074330031226321830219593705120095784733460564792424636005841199553388896, 52397808000000, 13099452000000, 8122180),
   (103458513258081015092176528514528866483765655959957626631343878747901539486533, 51370400000000, 12842600000000, 7962920),
   (103508592830956201450566966993364655463652182981288480798928936450532085742619, 20548160000000, 5137040000000, 3185170),
   (103514961083679022408094635185777652257795313506285987619795513075910299238234, 205481600000000, 51370400000000, 31851700),
   (103516976905223904253623915023568727173982536030791807472566911027635984854901, 10274080000000, 2568520000000, 1592580),
   (103530151007269124526368287141898692155696143408680798157258047205719738659196, 616444800000000, 154111200000000, 95555100),
   (103530328149049354454879197008483302842594670837016345969049202122645556693329, 34538778800000, 8634694700000, 5353850),
   (103549715266135435308426821981877381623780503172638499339243740175263748140853, 10274080000000, 2568520000000, 1592580),
   (103550008000117148770963666402927340138850996685531751811831242073443124560444, 497265472000000, 124316368000000, 77081100),
   (104053258968270443922396377480146860238153612317941800346224002621284513702159, 102740800000000, 25685200000000, 15925800),
   (104064073397832907930351513086210735781584466446354702362548210677379156942431, 2054816000000000, 513704000000000, 318517000),
   (104083370508593012533701574184918307863238281920596033359657244827388287467080, 12328896000000, 3082224000000, 1911100),
   (104089055753804900335039243676222090153457166325550013686540211787835073969975, 82192640000000, 20548160000000, 12740700),
   (104089879032525524281418388768334254891090696874358234624449086277104198211893, 143837120000000, 35959280000000, 22296200),
   (104092118533143145393343381207209332933731645996404128820674438281541217291388, 71918560000000, 17979640000000, 11148100),
   (104095001310743716672161093294066884384608079836401103864985165539523161890386, 10274080000000, 2568520000000, 1592580),
   (104103725592872827400669587455125737587200027815110913722545256145595187963479, 20548160000000, 5137040000000, 3185170),
   (104106186420731386543830355939490735892052394889470156271898998582201544658223, 31335944000000, 7833986000000, 4857380),
   (104113555787278857308756094945752263409199089826972139866634246698661647951147, 20548160000000, 5137040000000, 3185170),
   (104116496867038429815501869017967769005456355879964238495564660297956903419185, 256852000000000, 64213000000000, 39814600),
   (104126686068044229803031110702082812772363721960565711265472975356164995010363, 10274080000000, 2568520000000, 1592580),
   (104137394550386662186015221122353485715829232954900825876652311700266337535591, 215755680000000, 53938920000000, 33444300),
   (104141123160841244472723246481726206234124672779991986048416793366244045075805, 285619424000000, 71404856000000, 44273800),
   (104180271743221948237822445893663611397058180850440931717471364752558879666762, 205481600000000, 51370400000000, 31851700),
   (104191218425016543087819180845227538293073316072644223695743238606979578700141, 20548160000000, 5137040000000, 3185170),
   (104221893893229626990113134652570307134002509806666589747100282947769970170155, 410963200000000, 102740800000000, 63703400),
   (104228799108694488684569116401992273746369295943970694139999540793657005938510, 30822240000000, 7705560000000, 4777750),
   (104235420834985520069158078262748860617856014526011234530320512715872190569298, 20548160000000, 5137040000000, 3185170),
   (104265884250072084005386559694225441766324299512434896218273921113638734911861, 10274080000000, 2568520000000, 1592580),
   (104266504717002688093431338803467753787346926663511792816502652232645847347574, 20548160000000, 5137040000000, 3185170),
   (104281546033731689291892844726647229363672863620974299303091027216801839242290, 14383712000000, 3595928000000, 2229620),
   (104315485231736624831998525254207831707023169443814840323232424219513218243932, 210104936000000, 52526234000000, 32568300),
   (104356545160946335287374977531733098542576116409178681513980783965633927807556, 20548160000000, 5137040000000, 3185170),
   (104358948766083001708307431243570233263175762246646581048641175308109213088378, 10274080000000, 2568520000000, 1592580),
   (104365793367743989853266280890706318399479998058007121502132205498804450476956, 61644480000000, 15411120000000, 9555510)]"

definition rewardees_37 :: "rewardee list" where
  "rewardees_37 =
  [(104374079436870058503810163287002762116012644040657088362375697382693230277200, 102740800000000, 25685200000000, 15925800),
   (104394113011431415298315447104337071683164690514265942839708828319745760117618, 41096320000000, 10274080000000, 6370340),
   (104411310799569218661361330325653895777827991340546782422537096617870514511989, 10274080000000, 2568520000000, 1592580),
   (104422501403945410011093550969213239688086782076385485523361085180449255892233, 10274080000000, 2568520000000, 1592580),
   (104450150132766897956167920836544756659472484333127749847745379453264672867419, 10274080000000, 2568520000000, 1592580),
   (104942098179790134254226949447240311612592821547870866700336400744609634657052, 20548160000000, 5137040000000, 3185170),
   (105017062697123724998035851033781378187450610441076805627770448290506929196405, 20548160000000, 5137040000000, 3185170),
   (105017283887249160860227111685815368370273469315356082242939986033497415041563, 20548160000000, 5137040000000, 3185170),
   (105055076386359294587022800281684746263718790229406456946879091050651245238380, 20548160000000, 5137040000000, 3185170),
   (105056258987037243310559327915262598987016732313844467203682299811896218205009, 20548160000000, 5137040000000, 3185170),
   (105102087598399786752320373141868412350338187066869786746820832351709448884559, 24657792000000, 6164448000000, 3822200),
   (105141640916982814545555344839795472756174342918648321681795417254057947515704, 51370400000000, 12842600000000, 7962920),
   (105155460469048161216753742101012185262725779618337379524225737023661401146746, 41096320000000, 10274080000000, 6370340),
   (105163782450808273155823572524087962037596380310170015521491788250074954330454, 20548160000000, 5137040000000, 3185170),
   (105167075180718675103859404086552669470591385800852895534179321514383970002245, 20548160000000, 5137040000000, 3185170),
   (105201126318794565359630929414686081718161015971849279996925587240564564429689, 10274080000000, 2568520000000, 1592580),
   (105207820372670550714554288385297619350697602502621399159059766779060984496959, 10274080000000, 2568520000000, 1592580),
   (105242431494812538806370344928244711277876040783650654530652172946117870285098, 10274080000000, 2568520000000, 1592580),
   (105243661762964646369389742487137544870292757529012094795674190107658524338773, 102740800000000, 25685200000000, 15925800),
   (105251873998173463335132069311544672581010722093246884857929139303042108235065, 1894540352000000, 473635088000000, 293673000),
   (105280435487469108249547844411103830330798748918154414269980124772819180676431, 206509008000000, 51627252000000, 32010900),
   (105308297228226233128347586911858517333952748950891764774055775851122537940255, 330825376000000, 82706344000000, 51281200),
   (105319945402065204965553693985255165435246190427040945713195026204121495024760, 72945968000000, 18236492000000, 11307300),
   (105321402586388987264442073520389844710764890730251782520729417287923073173822, 71918560000000, 17979640000000, 11148100),
   (105336511248203384474354940834285787017685707358424905246477268089950034366591, 133563040000000, 33390760000000, 20703600),
   (105362136434304924699266748595456748551020942983162989180263413500160357199917, 43151136000000, 10787784000000, 6688850),
   (105367015388502015566481473799342974193521565489209585235809421074410231584040, 10274080000000, 2568520000000, 1592580),
   (105367583378835357653257400779102667602587843670778700111420146343062289460509, 41096320000000, 10274080000000, 6370340),
   (105369555025519137143245672324357945817919837348087095479613653062427118834226, 12328896000000, 3082224000000, 1911100),
   (105375211860554963612786975338765645641256807150737956752516096277286637541752, 30822240000000, 7705560000000, 4777750),
   (105383708252252084915735322842571616773601120959254097489342616020677928976931, 211646048000000, 52911512000000, 32807200),
   (105873018753584719933491675454711853708832214144758885839128812888069509474637, 20548160000000, 5137040000000, 3185170),
   (105876024849392894372106221646894207587322074155708487037931887106573721620306, 39041504000000, 9760376000000, 6051820),
   (105888101931495202191197750689623700562384121015051941781724241419633938062203, 283461867200000, 70865466800000, 43939400),
   (105888377714816739413570576431504028824135467928779857801687845841381079639383, 41096320000000, 10274080000000, 6370340),
   (105900025746308801770209898464684652344780830546978519740523100900700860954720, 30822240000000, 7705560000000, 4777750),
   (105900190381748514952080118376633496845299123065751595086940271641595345973357, 10274080000000, 2568520000000, 1592580),
   (105921111520246235318591809077071303559430352691170861563092731857299034240610, 51370400000000, 12842600000000, 7962920),
   (105923149555324375064416168171390816601773505172184819265052775558114051274061, 1023298368000000, 255824592000000, 158621000),
   (105961088468194300042867134647058145315884606464779831243201342384024269359669, 49315584000000, 12328896000000, 7644400),
   (105984975734530240870506784529811801094751768076312968595842662815470100435500, 205481600000000, 51370400000000, 31851700),
   (106058020565002548597711937861653378913526143119512890112917106824399000481082, 57534848000000, 14383712000000, 8918470),
   (106058436696806465930548196638102207574951253062873251607098404700020826714405, 20548160000000, 5137040000000, 3185170),
   (106070699519546621409244113573063606592081340019722681872242876292124792623374, 16438528000000, 4109632000000, 2548130),
   (106079343415379021682526961245707688913575371506689731025374811176431034418209, 30822240000000, 7705560000000, 4777750),
   (106081270748984096248710062843573509331961482657449782650224103848092841347195, 513704000000000, 128426000000000, 79629200),
   (106082441494119299971699493960395557442402549878480601892326885512794790604146, 205481600000000, 51370400000000, 31851700),
   (106088614385066290765249352677491738907582098818003148793703473163219247461223, 41096320000000, 10274080000000, 6370340),
   (106096833826193223290831513812240923542257438469996463143261392302904219232270, 20753641600000, 5188410400000, 3217020),
   (106168376084749639614198326410102794694175308339278865183157011862817749532529, 51370400000000, 12842600000000, 7962920),
   (106186487148274423152702333466200522692270557413539172373288579474279373309269, 10274080000000, 2568520000000, 1592580),
   (106201091270892482580500121112922837775102323729178089750393696578292586024575, 102740800000000, 25685200000000, 15925800),
   (106233557717911831486498163128784799610694873820139997350431644674923832283151, 10274080000000000, 2568520000000000, 1592584000),
   (106236094010877964865961534750189394731670382737968779245468929724512941083415, 10274080000000, 2568520000000, 1592580),
   (106273123829101151395310851425581405593470225134628188751377381398645845472885, 10274080000000, 2568520000000, 1592580),
   (106288542342286377681164776700456408768441399290879012549745760551572973539127, 10274080000000, 2568520000000, 1592580),
   (106288573113178946703764634576636733067725742471328063130996254055700695442504, 10274080000000, 2568520000000, 1592580),
   (106747679042887762358207803741868472012872851196380805421721004374075081971729, 12328896000000, 3082224000000, 1911100),
   (106774094162909677761896156445920280058459957380509699972378330135138993387552, 61644480000000, 15411120000000, 9555510),
   (106782953388537574594278625454603935799127110420586654857305378445860354555711, 203426784000000, 50856696000000, 31533200),
   (106786670493525412950977414273055828569705734792279880635745227984293405323339, 410963200000000, 102740800000000, 63703400),
   (106794074456853442102387849139427239947368563516733055985303350322915750709338, 205481600000000, 51370400000000, 31851700),
   (106796508502444016776741266682532266949811730601275170219515384638488509348653, 20548160000000, 5137040000000, 3185170),
   (106798531442214034946670282898265260033884704484120305487515180729171467276669, 16623461440000, 4155865360000, 2576800),
   (106803417742231113781076570643179273425484695483635944499847181036022096333079, 20548160000000, 5137040000000, 3185170),
   (106832829970249240785164987044330240476875430848521891613592448848969311085865, 83220048000000, 20805012000000, 12899900),
   (106840295402749214141235803358396056429179228318952855143553559942440241330709, 20548160000000, 5137040000000, 3185170),
   (106864145145970059584739617763318814689586204145901343992456983847048532386126, 39041504000000, 9760376000000, 6051820),
   (106866976655388424846247933824423847976857892296051999760956322095155291373619, 123288960000000, 30822240000000, 19111000),
   (106887274491269848908988176074385460193448521604816047573290780792776783813715, 41096320000000, 10274080000000, 6370340),
   (106889339657653375104780841787302076723077021932487390301705577298397347191676, 51370400000000, 12842600000000, 7962920),
   (106891754584882073753898513250985699483526250143350064626935278378375546399336, 20548160000000, 5137040000000, 3185170),
   (106893678744314879260119269311720340830725615001139312961956755343299606351622, 20548160000000, 5137040000000, 3185170),
   (106917534968702112933564762148260665564524580266041176205315775939423629720398, 3546612416000000, 886653104000000, 549760000),
   (106936539984738026692929033707359873378118439842801477649344823860353076126248, 219865312000000, 54966328000000, 34081330),
   (106937445652979666871789108764103589947311005965905635763986122390966425292399, 782884896000000, 195721224000000, 121355000),
   (106941858950958381305165187342578267098655276803436172920171627227302545428482, 12328896000000, 3082224000000, 1911100),
   (106983548423438107200516975817800819027997815719492599474321765984227729720835, 10274080000000, 2568520000000, 1592580),
   (106998581466267574595684991009867930990358455850874013220748096992123072719476, 20548160000000, 5137040000000, 3185170),
   (107003718692769174538904000856179593640821132812086559358216324778007429464065, 20548160000000, 5137040000000, 3185170),
   (107008502726020163665311679285139261038479361169162031786179994890511488466034, 55603320960000, 13900830240000, 8619070),
   (107014624403960261017740167505325499608355436363109660912480306596036188955485, 41096320000000, 10274080000000, 6370340),
   (107024438633798266375121928293807569414038326344015524423187595680964134253841, 20548160000000, 5137040000000, 3185170),
   (107028821856877936909054483738334655733256111115173054936619470813580578282777, 2054816000000000, 513704000000000, 318517000),
   (107030828893072491981857631982135047832818849956644397901018144469246418635108, 41096320000000, 10274080000000, 6370340),
   (107031716116155751934602499717131272278017988849110356490144330667297624701208, 20548160000000, 5137040000000, 3185170),
   (107032288216767090203615467471920049018326290483429782229727413548536370364996, 339044640000000, 84761160000000, 52555300),
   (107079890727418822039887169965742312881006042815500507268701199098757112679522, 10479561600000, 2619890400000, 1624440),
   (107084235319376450259414281750589423550283260830886149479901720836073292441463, 18493344000000, 4623336000000, 2866650),
   (107087102631438424755903748158182881263338400723881808159713757320495517813807, 205481600000000, 51370400000000, 31851700),
   (107100238988995163835637183158285010865107133163819500209919080243690060725783, 41096320000000, 10274080000000, 6370340)]"

definition rewardees_38 :: "rewardee list" where
  "rewardees_38 =
  [(107101019949985953551921965803604861914510319482524129432387362825848153706289, 41096320000000, 10274080000000, 6370340),
   (107122938258117135729392861408133060539258002369868959103644466236600174896743, 10274080000000, 2568520000000, 1592580),
   (107147709460538594726321808512361982577473757244581594137834515515732295827466, 164385280000000, 41096320000000, 25481300),
   (107168512945797612192352956950735095945714641936952929954541224046178430969885, 20548160000000, 5137040000000, 3185170),
   (107675146388127139083932826093293241950406811442560988210913563551711532608366, 41096320000000, 10274080000000, 6370340),
   (107675919098250864030708197694807977609242863990740182075597066688552187492886, 49315584000000, 12328896000000, 7644400),
   (107677184846943930504342680149722263215503929106166033696941125003132531485809, 308222400000000, 77055600000000, 47777500),
   (107684878864772629783323743287205162398653678096159323044808858229815145168704, 20548160000000, 5137040000000, 3185170),
   (107689369970450313091302056456066190650077376342010682859521689393307517725777, 143837120000000, 35959280000000, 22296200),
   (107697331096480693853869632777166088858542478089621694331161915593097851832933, 207536416000000, 51884104000000, 32170200),
   (107701100426261614411670920949197980630420103853721362437022544947188857558909, 16438528000000, 4109632000000, 2548130),
   (107704659899834835489272911652268909812270487476606511812928855198490237672755, 51370400000000, 12842600000000, 7962920),
   (107708417816041164675657025006402189909520628039285531442947158807348987184487, 170549728000000, 42637432000000, 26436900),
   (107747763966691100138338235630655594586428405727367239442606101972884924343096, 10274080000000, 2568520000000, 1592580),
   (107826721425647762070047141826410048329216510363918945177858669197646207717922, 349318720000000, 87329680000000, 54147900),
   (107831413704971662078539806416107326345281642481393955388035344612182073881897, 20548160000000, 5137040000000, 3185170),
   (107847673232020653110068273808259105092818474985659980345830085263223663417682, 205481600000000, 51370400000000, 31851700),
   (107880978449163281196032061307993343206505381663686062418306286575492360663933, 10274080000000, 2568520000000, 1592580),
   (107921443006729135979664618171051569966834891784807013936387013322748669971005, 20548160000000, 5137040000000, 3185170),
   (107924385272268060246812971670892604389467492416256656584394541859974600961911, 61644480000000, 15411120000000, 9555510),
   (107939497756618465853831736328094038488648112077320524030366828199469322022678, 102740800000000, 25685200000000, 15925800),
   (107941133917187051839902394632105055801817291516257525498883242287863714253060, 1027408000000000, 256852000000000, 159258000),
   (107945484524463238188188719975836879348122835965010770791159384550516140690521, 1027408000000000, 256852000000000, 159258000),
   (107950937750010067532469690976503135718036252016409733721532197460284271180561, 10274080000000, 2568520000000, 1592580),
   (107951252853177173792674502383904924937561885445414093476414741178683198749765, 13972748800000, 3493187200000, 2165910),
   (107954458930904965619924943833599191213693701478491045285419678570504853475888, 24657792000000, 6164448000000, 3822200),
   (107993662421516159481149349915333603904856672559739722787041767568351115166259, 22602976000000, 5650744000000, 3503690),
   (107999682557995050098094386034420589472278556543246208771177964355760857341185, 63699296000000, 15924824000000, 9874020),
   (108001522788787734077575168296611725447910923849508974370605338200482466902824, 61644480000000, 15411120000000, 9555510),
   (108028155593756548595454042029327246588537068016619204721180257878090810231103, 10274080000000, 2568520000000, 1592580),
   (108070415811968151497934026830013390940487601498077615154054903550343037183798, 23219420800000, 5804855200000, 3599240),
   (108072036486879950625130321063397869360252677684901352601573158912579000619265, 148254974400000, 37063743600000, 22981000),
   (108084397076996053620545058297851061521405084579026462511258943486313343528263, 387291719700000, 96822929920000, 60034100),
   (108087275093579519881968931838084008958056195157363993462064685895896694933039, 20548160000000, 5137040000000, 3185170),
   (108098688650586088753484024518261138675807234656459359486965115193607184399992, 61644480000000, 15411120000000, 9555510),
   (108592598971636898124245483563571194619234667776214440969684979117133566299729, 61644480000000, 15411120000000, 9555510),
   (108599200072401940636397332672151551198372375164620704718849886139439383039286, 20548160000000, 5137040000000, 3185170),
   (108604364610063389451400085797380547201270649322328987426320745057583405089634, 61644480000000, 15411120000000, 9555510),
   (108630471823424731348148289193798600463315253342400803007187936581677326593044, 513704000000000, 128426000000000, 79629200),
   (108638117060659023357616564531784774244512021733919755035789045388657840566651, 484936576000000, 121234144000000, 75170000),
   (108671582131975077318057302245555875724359858897675236215691152053372653364086, 20548160000000, 5137040000000, 3185170),
   (108686304395635370589913448373243194984749435643016841757575476644952808107624, 61644480000000, 15411120000000, 9555510),
   (108700458225769942274813275314314672907134225975134444193841259339464950255912, 31849648000000, 7962412000000, 4937010),
   (108703181991751207829949917165311040628864630790822813924972737487757646786120, 20548160000000, 5137040000000, 3185170),
   (108704112769068549208794610871268457279518817523732670020840973820340987431983, 10274080000000, 2568520000000, 1592580),
   (108721070393209664713178564494218605466846796415038290841662560462938614888487, 205481600000000, 51370400000000, 31851700),
   (108726283803253254202744341588708280981613942999273866827338545974765956291918, 58973219200000, 14743304800000, 9141430),
   (108733327712307308391248930890678840096915172008660600426898299347826512305743, 308222400000000, 77055600000000, 47777500),
   (108742237812775409937782187213471917426727908960396346747437678182021345184515, 123288960000000, 30822240000000, 19111000),
   (108750404167817565290191124883504269166917601073737762931449303600442742838873, 246577920000000, 61644480000000, 38222000),
   (108758366896713348476843805923948798018161512504150224525745416668696610580995, 71918560000000, 17979640000000, 11148100),
   (108791920075271327547225333362129995612322289592479391320216579190919667692844, 20548160000000, 5137040000000, 3185170),
   (108797666882911892586280929865826155355466526524141287406223593333702083480411, 65754112000000, 16438528000000, 10192500),
   (108809475699220054037757964234103860240538368073717289899979969353108807666285, 20548160000000, 5137040000000, 3185170),
   (108832998122549369126096701737610021696324613853486729504302541172767860629792, 82192640000000, 20548160000000, 12740700),
   (108896125828475140099521423258560473218961330855068480419266362914332815318079, 71918560000000, 17979640000000, 11148100),
   (108953796543284805546612973934946357307675992444346268177281262465172042046995, 39041504000000, 9760376000000, 6051820),
   (108954262549266885274022121492667691602207637913813452631596106153427662835732, 20548160000000, 5137040000000, 3185170),
   (108958489254611606405765794662078987383577390541891031601498436492642380589359, 20548160000000, 5137040000000, 3185170),
   (108968987133525976893388517612447553456425784136613110493957851741839454344309, 30822240000000, 7705560000000, 4777750),
   (108994273718966078748221537672777631695603790321341915422185679373480269349922, 28767424000000, 7191856000000, 4459240),
   (109001733007927959768545176026458572827141789183446437836785030294301313547895, 154111200000000, 38527800000000, 23888800),
   (109464685937757182185204797763985405392107610815443832341687333173405565412107, 205481600000000, 51370400000000, 31851700),
   (109498276712643468830009500868638734588258860336878863400241465952626373549891, 1027408000000000, 256852000000000, 159258000),
   (109502384446441818715949162613867994303367890815960100535279687828797782660666, 20548160000000, 5137040000000, 3185170),
   (109525937190377631120908502017354712088820766431072209002439490051116399430186, 51370400000000000, 12842600000000000, 7962922000),
   (109531830053669001721950056434569328079797786755690153936709377064179053204570, 18493344000000, 4623336000000, 2866650),
   (109551357502292945496096521024188253457143940413603296382840597391128695841280, 41096320000000, 10274080000000, 6370340),
   (109554761702166786747124090948101986036361463612353914634181670405187619355229, 102740800000000, 25685200000000, 15925800),
   (109569120146098639254960854728710113936822060475259776218854422910924516530214, 10274080000000, 2568520000000, 1592580),
   (109587624603253103893121245780035631820288794969015593107032259055462307619415, 10274080000000, 2568520000000, 1592580),
   (109599139665777727426661794822335446963806156435896250953481705643191050093066, 20548160000000, 5137040000000, 3185170),
   (109606468183808143377620905759923957416220378158691724980751164642411682292232, 41096320000000, 10274080000000, 6370340),
   (109640754612110285527182533302236552238661739059473424127735966298800786393118, 20548160000000, 5137040000000, 3185170),
   (109668443630822297664425514539939364048219423561499332189595506528441644710708, 102740800000000, 25685200000000, 15925800),
   (109687756812981203887907560204794630495308092320889626720139389182042449106949, 61644480000000, 15411120000000, 9555510),
   (109694613951383904494035950951296806609608223787691732758296651094206325946114, 41096320000000, 10274080000000, 6370340),
   (109701668168756073100897300426052610136496808592931227083968741033358093688087, 287674240000000, 71918560000000, 44592400),
   (109705388211146996162196062329144219148294136233732591907031045453677121286990, 20548160000000, 5137040000000, 3185170),
   (109707610637026534785891441109600123278782833663285300794095409482045074628150, 102740800000000, 25685200000000, 15925800),
   (109715358445597038576760878872980703364071813125562358357256660177285147612748, 52397808000000, 13099452000000, 8122180),
   (109722842022554371626327895765535996861678298986566122611457561227025647433322, 14383712000000, 3595928000000, 2229620),
   (109732146764609390950777242020755061290364508491729777869362868699812354893904, 195207520000000, 48801880000000, 30259100),
   (109745505233208011634030574169583595243203087291871821866098795274156365966717, 41096320000000, 10274080000000, 6370340),
   (109763494361396399228378614085505450696139693424567746503799293671190581294921, 205481600000000, 51370400000000, 31851700),
   (109786025468946552597206127517983524800130177456003165014572258260756728906052, 20548160000000, 5137040000000, 3185170),
   (109792149424327652090109450599976207962749378980870443822568468547416083403017, 41096320000000, 10274080000000, 6370340),
   (109800565370451089216144329284392465961348761263413147031889514718958535845745, 24657792000000, 6164448000000, 3822200),
   (109802465638503988211108401155128819816947613051939361704794492257312728820326, 20548160000000, 5137040000000, 3185170),
   (109816556031959173787011646911664025811450230078114299906763558636436087712346, 306167584000000, 76541896000000, 47459000),
   (109827557890169148135278188428934725606830150865805242479029334448198197088016, 1432206752000000, 358051688000000, 222006000)]"

definition rewardees_39 :: "rewardee list" where
  "rewardees_39 =
  [(109832588310069047825678466170859778057763006149714686392633274254882192863496, 82192640000000, 20548160000000, 12740700),
   (109845077933702101561643216073546458742260460300131817034393289615067196891650, 29014001920000, 7253500480000, 4497460),
   (109857699149636489519615852189520055214447087594004725596935508258442598692180, 10274080000000, 2568520000000, 1592580),
   (109858515435982713385948814870863510748577322459015129127132421615349508466958, 12328896000000, 3082224000000, 1911100),
   (109859218826322791775432494738170458484790071851718018465759372774573200712029, 61644480000000, 15411120000000, 9555510),
   (109864826887317272516659598175784906357562558453978480567049068518399874930002, 51370400000000, 12842600000000, 7962920),
   (109897001835590297005064240805336658110857079585473464889902997031563136470335, 76028192000000, 19007048000000, 11785100),
   (110380745125819361426541135666811983937021588053188119504408905370118273967706, 10274080000000, 2568520000000, 1592580),
   (110381625266307349410348212968851207543774835519575249660156852191176826348323, 91644793600000, 22911198400000, 14205900),
   (110418920820076184776049522447629483930214869349558006371664350346777788327511, 10274080000000, 2568520000000, 1592580),
   (110420355901060107195348641154653979650147958469261882589406015980163939539226, 429456544000000, 107364136000000, 66570000),
   (110425718647831997078328810207015263423097046512240818346343883238725758051141, 1027408000000000, 256852000000000, 159258000),
   (110426618259484097979726830559660013455508496456360404827601934546673367114510, 13356304000000, 3339076000000, 2070360),
   (110454868949363259563329733858907758171806099730394361364114171077654956336430, 20548160000000, 5137040000000, 3185170),
   (110456980025671271020645783219901813150665367005622090970980334089217772520039, 61644480000000, 15411120000000, 9555510),
   (110473728846633532869645096415217877646102881216299987859988732335435668906789, 12328896000000, 3082224000000, 1911100),
   (110484278520989752172691583832235095725760130280543114556480452061760920898313, 154111200000000, 38527800000000, 23888800),
   (110498230170672482431519464075820149222224503003082460813099596900970312480770, 10274080000000, 2568520000000, 1592580),
   (110505205700880953578611162484991088125189435238702269579422961928335530833513, 24657792000000, 6164448000000, 3822200),
   (110544600709427019856950775824121915449996742379403597969813879338257671978573, 18493344000000, 4623336000000, 2866650),
   (110552600260023439906534960114680847058810929821729732368454239422915692975458, 211010061900000, 52752515470000, 32708700),
   (110586501195587888127640549356679098359827681934483262341664380120750316018036, 2054590587000000, 513647646700000, 318482000),
   (110626515036146122907142643699529006958714359735041506225353191672068330111287, 20589256320000, 5147314080000, 3191540),
   (110627930787187660067953787223486105558492048282881658737503319235292941572202, 20548160000000, 5137040000000, 3185170),
   (110661493797307369653140024372014860877443360558251678055914104628720722631022, 22602976000000, 5650744000000, 3503690),
   (110681249704238456076662352120549155183643836822792384234925394058388331051569, 20548160000000, 5137040000000, 3185170),
   (110685372643745389808900527496142897476728570026011923783692595064416616193085, 246577920000000, 61644480000000, 38222000),
   (110691087020112931600167407051516439168326826119764042548798935901233043653384, 207536416000000, 51884104000000, 32170200),
   (110746031686122035079776732143780736994246353778239074017042839615953653134653, 10274080000000, 2568520000000, 1592580),
   (110748530586942115348605890897881924261672840491363252312345733020898281405293, 41096320000000, 10274080000000, 6370340),
   (110758708690024492354272906891236313615091561439286553560152057057137197218941, 39041504000000, 9760376000000, 6051820),
   (110771296609948374164194244199768494830413249094867019815408600465556728084068, 82192640000000, 20548160000000, 12740700),
   (110799227690048182543519346018536068761970519914832178597546204639008602063467, 215755680000000, 53938920000000, 33444300),
   (111274129941676258303223304970541176371029025049142844266671465856137079161903, 41096320000000, 10274080000000, 6370340),
   (111296050415453601611541673546503345292296438828278618122959928786894999963514, 71918560000000, 17979640000000, 11148100),
   (111302774224623462855722127821084741009992970314913954234436617188404559420209, 302057952000000, 75514488000000, 46822000),
   (111316378143368817778432509606260591187447393691837164846482792360458452172567, 172604544000000, 43151136000000, 26755400),
   (111322858064990749404255154400389145968249038815390896145023991460355597566253, 41096320000000, 10274080000000, 6370340),
   (111326455681689540174871301530926978406277624238487260860758377085830135874876, 61644480000000, 15411120000000, 9555510),
   (111381401491344284905197590519826760534177541648276362368372013880119099902538, 10274080000000, 2568520000000, 1592580),
   (111390595250010408714358802011295279889882463161216330758913073544320104546666, 12328896000000, 3082224000000, 1911100),
   (111393714431929977983224000343699436795596080985707419776461762047458565029382, 10274080000000, 2568520000000, 1592580),
   (111393800712100562975718352352062327734841992873046370789830888949030843446830, 73973376000000, 18493344000000, 11466600),
   (111395255442730485318459554177401312789272245331567675610016291926958995947817, 51370400000000, 12842600000000, 7962920),
   (111406043308978514803504882514923115654871486856958995937675166894209676675147, 237331248000000, 59332812000000, 36788700),
   (111413431309844532044547610677655214314666889561655305354719364985448060435267, 10274080000000, 2568520000000, 1592580),
   (111422151294598044899912793741256468143965569484760782980924154039757604884087, 10274080000000, 2568520000000, 1592580),
   (111466706171771618083740583688618006674025199864837009448175784280993730297947, 1027408000000000, 256852000000000, 159258000),
   (111486225204093508377943948525485204874805351064991499271461883207621522668619, 20548160000000, 5137040000000, 3185170),
   (111486897329256796219182961516011960140020317150231279559057440141191861836289, 51370400000000, 12842600000000, 7962920),
   (111553543239017800578345351411783955803869910194489725676924536152652814277199, 359592800000000, 89898200000000, 55740500),
   (111582695682722939540978232740119556013851146151436805524254960690694506267398, 1407548960000000, 351887240000000, 218184000),
   (111621486296968614329203151179367877424555739927839211138379885063268960960603, 230139392000000, 57534848000000, 35673900),
   (111674493277876096673700994500336141762221423459027124911882114069190050262539, 12328896000000, 3082224000000, 1911100),
   (111872598183034446802021869616170566063440021321784926851585380666432563930952, 100647106900000, 25161776720000, 15601300),
   (112188913299884888222569543462155097421320685216221038218502341807700827680016, 10274080000000, 2568520000000, 1592580),
   (112218025692399018664390645051987740705885537346819294599886088691331289928228, 20548160000000, 5137040000000, 3185170),
   (112248332472150403648424993931213865508624604573851051619448910071209032614193, 47260768000000, 11815192000000, 7325890),
   (112265008765518736523899323470232216518908073076572690765765701383756500555349, 30822240000000, 7705560000000, 4777750),
   (112268424722607663934066457437052091662972627996012033641816526335935079469088, 10274080000000, 2568520000000, 1592580),
   (112269910539826677822125318467072297858393580024528131562104970233439816674639, 246577920000000, 61644480000000, 38222000),
   (112290513891792527022565943490069978786087619233281253413700831899303778640151, 10274080000000, 2568520000000, 1592580),
   (112319057478838207184174970357582610783465213361273438167226437543608398197867, 205481600000000, 51370400000000, 31851700),
   (112322884113787778655481110845042936666414787297100322835150355917744062630155, 30822240000000, 7705560000000, 4777750),
   (112339552220402506649608116500227908857498518652146937607264079930202008357949, 20548160000000, 5137040000000, 3185170),
   (112339989871601818714942668887140077861304981705365272025256077067573722010480, 10274080000000, 2568520000000, 1592580),
   (112348550740366753072288541280356020555612112216148119315567774862589465426227, 205481600000000, 51370400000000, 31851700),
   (112352097275855147720421832694258660062720361667772093138149909526583390851133, 26712608000000, 6678152000000, 4140720),
   (112364546186463637967419647759311295024240580110113964974853926999229809016617, 18493344000000, 4623336000000, 2866650),
   (112382907716253768283363342783697748525412223098072478829827995462589691355694, 71918560000000, 17979640000000, 11148100),
   (112392254239751064681193275385761751272971461487674499561552917057562606107481, 102740800000000, 25685200000000, 15925800),
   (112403534971277034872999610213725445203656688622366869384123859577277112322627, 10274080000000, 2568520000000, 1592580),
   (112405942631760181078361051095537965653449613844668259177153373276476084611119, 1037682080000000, 259420520000000, 160851000),
   (112418176334555645434999922683022606665247502692195980617969824166385873205761, 20548160000000, 5137040000000, 3185170),
   (112438924353429798732362079105980954233859954364962633568740250426118314917515, 3719216960000000, 929804240000000, 576516000),
   (112455378672619303947545564333096273755769388734611463468013638314100843308912, 61644480000000, 15411120000000, 9555510),
   (112466045692785251099067894523736897109640681230987359539312438272060667394828, 316441664000000, 79110416000000, 49051600),
   (112515465125722136235641176696807960916028776769157964684606743863741679619091, 20548160000000, 5137040000000, 3185170),
   (112518786299171740652636886423431285398620783237063853700950180569314875319378, 410963200000000, 102740800000000, 63703400),
   (112525775536320601321120350606851506694172530362147620298083851430847177999376, 123288960000000, 30822240000000, 19111000),
   (112531100605021044991427249433738217392872544720270976432769364154367860600945, 20753641600000, 5188410400000, 3217020),
   (112539757385610580794159657422759736127770656285439771311506955035344215387756, 10274080000000, 2568520000000, 1592580),
   (112572799502010695848568629172621921622774162383175845064551625973937554057013, 14383712000000, 3595928000000, 2229620),
   (113080022370075432140867578207394948613597518062834970315228912011906464963694, 102740800000000, 25685200000000, 15925800),
   (113121219563640989118033417035575970716561204336062151659517730900090478936320, 12328896000000, 3082224000000, 1911100),
   (113142347390438626410142173292669074741974350911874586676789890619404376634484, 935249502400000, 233812375600000, 144973000),
   (113151968960908076324023283701347165132473662993619400696513351442656773196080, 308222400000000, 77055600000000, 47777500),
   (113157977476257963972342964912684262710149761082228851481780936481475502315862, 20548160000000, 5137040000000, 3185170),
   (113193133981277791560089288099981749670846259735226279416768841481091644087299, 117329993600000, 29332498400000, 18187300),
   (113213566715800155711449325269341703610541953348931232170533765046742447386473, 205481600000000, 51370400000000, 31851700),
   (113229179155996721048675084769967784972008550369368338227851476966678168809043, 205481600000000, 51370400000000, 31851700)]"

definition rewardees_40 :: "rewardee list" where
  "rewardees_40 =
  [(113231424315768596447852005668636415849175204820353669783750394585103089955615, 10274080000000, 2568520000000, 1592580),
   (113257967954268927290198912257428391092784750208910611191862631910830654882049, 10274080000000, 2568520000000, 1592580),
   (113280011276141997897060174361066086462681301605905621569584725572482339636010, 20548160000000, 5137040000000, 3185170),
   (113281218458958394911410012224788004982443839928558944637772119909067440437007, 10274080000000, 2568520000000, 1592580),
   (113308232380343495111924883225025210389702296106992947592707359403142966233167, 10274080000000, 2568520000000, 1592580),
   (113316721117533426554850718560484225055357003216088912513466223889952590697512, 6160338368000000, 1540084592000000, 954914000),
   (113332752712610790699625873081040215897257954499120648448620217403592706586983, 10274080000000, 2568520000000, 1592580),
   (113366123549272523167993286061851010512439937015320512547151835646891372678660, 26712608000000, 6678152000000, 4140720),
   (113370595449893892952804969193510237001056670437266604316119963194080198248293, 24657792000000, 6164448000000, 3822200),
   (113383187243495088161138725533711774875312834554473908564024614967794213515125, 41096320000000, 10274080000000, 6370340),
   (113418037590290521112330939479379766732769025072113507925861559227701557139541, 16438528000000, 4109632000000, 2548130),
   (113431178450450486196774012703332515608082228403637047057847878635524868985901, 35959280000000, 8989820000000, 5574050),
   (113439891837668409638286017276723551989313198619048417430152228365783503758100, 61644480000000, 15411120000000, 9555510),
   (113445983933872272564325320457836817318537336407076650678843557325388556447088, 10274080000000, 2568520000000, 1592580),
   (113481190886172877365842418774422539586163251726657723190430179838948311807600, 10274080000000, 2568520000000, 1592580),
   (113489852289815770072376596044567003554912974276475211393973362035899252536417, 22602976000000, 5650744000000, 3503680),
   (113491433104364288638289037413128512041739798397933299535951974868787486120025, 41096320000000, 10274080000000, 6370340),
   (113508829576381869280903176600697300897144572948991220915370198143575812364314, 20548160000000000, 5137040000000000, 3185169000),
   (113987418442446913444828105781728754136330813670746856715282734136685680345663, 102740800000000, 25685200000000, 15925800),
   (113995015811998367954508495145213543167653294753279030354537830922663266504965, 410963200000000, 102740800000000, 63703400),
   (114001599579661175743536851833302048866279497104167759042753245047722091753233, 10274080000000, 2568520000000, 1592580),
   (114004906140943674828967230543236427675992796832187322164904627394092824871487, 20548160000000, 5137040000000, 3185170),
   (114026525627813772807572850085239323615675039892289296106351589897619102474300, 35342835200000, 8835708800000, 5478490),
   (114052543885721545897557498360629669552958733997723839605897444612854562452242, 205481600000000, 51370400000000, 31851700),
   (114052625610789135428298801982454594935174972242529520734289201764337667258650, 821926400000000, 205481600000000, 127407000),
   (114091723297808195991791937383090137491185533739631619680672833252138874261001, 10274080000000, 2568520000000, 1592580),
   (114101006961066291922806234813984730984468865471398406504011762617204630875409, 45205952000000, 11301488000000, 7007370),
   (114118842418735261933863073039431793375415791518637995214547841299686109175341, 78083008000000, 19520752000000, 12103680),
   (114120431395074017180773707997803272748213290100368209359836231510696839655972, 205481600000000, 51370400000000, 31851700),
   (114150309458355362411325251785134874226970274671612454312372879231550408840278, 41096320000000, 10274080000000, 6370340),
   (114155185206147935916257008441650622451455491413907512403987563929482468710448, 10274080000000, 2568520000000, 1592580),
   (114169544096786063277365049630751379260771549440452177922479452975916140884856, 257016385300000, 64254096320000, 39840100),
   (114176946568461885924838867391039996764303672049821117253023414292030676717355, 41096320000000, 10274080000000, 6370340),
   (114179119277366870685111346327052193803421719590213645009721041617972182514289, 51370400000000, 12842600000000, 7962920),
   (114179284511161590652948489189965431573574387611997872072035694776169812420684, 10274080000000, 2568520000000, 1592580),
   (114205862029305070025603997711331136118575233381770463478454721677013270591755, 1335630400000000, 333907600000000, 207036000),
   (114211719399617508888784676083473124070544143904684337896865202384565753462371, 789049344000000, 197262336000000, 122310000),
   (114258996093802124449958131295127274576774799661325370432665872239099892222251, 17712513920000, 4428128480000, 2745620),
   (114272608452088597714885538626999056562423339618607334087582605378413037384041, 10274080000000, 2568520000000, 1592580),
   (114279690081082222572202340926242682427377596294841877072898588610115393140297, 10274080000000, 2568520000000, 1592580),
   (114293531085960628648389743807262234832796093824843780100844467311489114457346, 10274080000000, 2568520000000, 1592580),
   (114293636922927495532072528518378228970929592408145701279990960628711917251158, 20548160000000, 5137040000000, 3185170),
   (114304800921962590660838540797695946337327151182462849068319623964858078328649, 211646048000000, 52911512000000, 32807200),
   (114304871511188135375865939237817557791901472505081299040054469272129851769171, 10274080000000, 2568520000000, 1592580),
   (114305007945771766215212918952900520120238829217453836698393509265719670083646, 207536416000000, 51884104000000, 32170200),
   (114305152945307808479735253960510581628924200628837232458373096714029726725190, 51370400000000, 12842600000000, 7962920),
   (114343198109764256967764649076293026436618255529013191013753092723173498157405, 10274080000000, 2568520000000, 1592580),
   (114344457934266839801118177658026920938937845442839899782897563483641818394167, 51370400000000, 12842600000000, 7962920),
   (114367926795396455047977350191830792009371055938974882658870258844057542796041, 102740800000000, 25685200000000, 15925800),
   (114394467169511701170197470602915193410896752690489521754670638921184476769647, 109316211200000, 27329052800000, 16945100),
   (114406366460357309387722096699470946736456412619889246215543529261088415758367, 14383712000000, 3595928000000, 2229620),
   (114406432028026695094216963547844775736399526783754461524084604576120916935511, 410963200000000, 102740800000000, 63703400),
   (114423329889932292075701267628818704084653572589568044502440413123632400099604, 5159642976000000, 1289910744000000, 799796000),
   (114425966846244106631811478972032574608414296462607994898325907037584636328718, 20548160000000, 5137040000000, 3185170),
   (114428620790699024965054304468896873159693066850990879555285537278886731600677, 10274080000000, 2568520000000, 1592580),
   (114434313662818160647246145459268884945618275811411226880007499969217422852990, 9283658688000000, 2320914672000000, 1439059000),
   (114434511455044885056721581878048524010508521329469933007607303193326528641370, 10274080000000, 2568520000000, 1592580),
   (114891263257706972925004648495788377217888129505898044373718179676561790859583, 10274080000000, 2568520000000, 1592580),
   (114917543066537115416654180331175679512709127268552768401208703299333309955602, 20548160000000, 5137040000000, 3185170),
   (114937268228646590394924181205805506599425420492079641963759112553802062916948, 51370400000000, 12842600000000, 7962920),
   (114955974682630976401592672670507290618148339079584489207074717901013760571454, 10274080000000, 2568520000000, 1592580),
   (114964075036910825303735289042159591705577280061030035235777379610955461226263, 20548160000000, 5137040000000, 3185170),
   (114978139992982892517907645857225158410625869314012876710479765887655664122424, 45205952000000, 11301488000000, 7007370),
   (115000674446600593745399762936645977954772547820777328466834356266114620397930, 153083792000000, 38270948000000, 23729500),
   (115015778103763983553613349447257608018369081666031344996088909245571344534813, 12328896000000, 3082224000000, 1911100),
   (115075928297624290954330425592149862262349858699769118067383989956208447760142, 73973376000000, 18493344000000, 11466600),
   (115082567505629402867329610945417641250061656550280333725523444067125949096465, 410963200000000, 102740800000000, 63703400),
   (115126337802347828676737025632038909031651565505193535318422342918458195099763, 20548160000000, 5137040000000, 3185170),
   (115139841604853741410446509695915739571224810019582290212809200654964418203961, 20548160000000, 5137040000000, 3185170),
   (115140738937084493530538263586790416648599408915492952769105122972484326868850, 20548160000000, 5137040000000, 3185170),
   (115160046407564336263572979400972999380561493092920386009992674443517011586167, 102740800000000, 25685200000000, 15925800),
   (115172823712989740386871437032061402598113478798638626198732516690122056409661, 41096320000000, 10274080000000, 6370340),
   (115182207853901423491159477376136542558584310781142354678580450864376812644217, 102740800000000, 25685200000000, 15925800),
   (115216247501352474081156339029870856126117652157597461425782007315279806556014, 41096320000000, 10274080000000, 6370340),
   (115219747852060911092089423462586006965709779943440219648476755734073501207339, 10274080000000, 2568520000000, 1592580),
   (115220418783957954513973155735516276461080861213981378548040316777351363686722, 417127648000000, 104281912000000, 64658900),
   (115226763121342960450379810152966863763672211170057046512334954415590039780217, 205481600000000, 51370400000000, 31851700),
   (115238187488415062266120717418578406136593079954382147966847098304186250995266, 102740800000000, 25685200000000, 15925800),
   (115277438843194319369691761495026229637916678781197158760894436616294032393524, 20548160000000, 5137040000000, 3185170),
   (115296642186127832356413162222408684359254682435537696743034880273707690113364, 154111200000000, 38527800000000, 23888800),
   (115311197645141863928897168932491512605141451615736570768565515527571718877464, 205481600000000, 51370400000000, 31851700),
   (115317401208027276614349237405035572724957929454942686329170679194997804964359, 10274080000000, 2568520000000, 1592580)]"

definition rewardee_table :: "rewardee list" where
  "rewardee_table = concat
    [rewardees_1, rewardees_2, rewardees_3, rewardees_4, rewardees_5, rewardees_6,
     rewardees_7, rewardees_8, rewardees_9, rewardees_10, rewardees_11, rewardees_12,
     rewardees_13, rewardees_14, rewardees_15, rewardees_16, rewardees_17, rewardees_18,
     rewardees_19, rewardees_20, rewardees_21, rewardees_22, rewardees_23, rewardees_24,
     rewardees_25, rewardees_26, rewardees_27, rewardees_28, rewardees_29, rewardees_30,
     rewardees_31, rewardees_32, rewardees_33, rewardees_34, rewardees_35, rewardees_36,
     rewardees_37, rewardees_38, rewardees_39, rewardees_40]"

subsection \<open>The audit\<close>

text \<open>
  What the rewards pallet relies on: a row is worth more than one token (the least amount that can be
  initialised), and the part claimable at the start plus the reward per block over 4838379 blocks
  (336 days of six-second blocks) does not exceed its total. The rows are ordered by account.
  \<open>audited lo acc hi tot rows\<close> checks this in one pass over rows with accounts above \<open>lo\<close>; \<open>hi\<close> is the
  last account and \<open>tot\<close> the sum of \<open>acc\<close> and the totals.
\<close>

fun row_ok :: "rewardee \<Rightarrow> bool" where
  "row_ok (a, t, i, f) \<longleftrightarrow> 1000000000000 < t \<and> 0 < i \<and> 0 < f \<and> i + f * 4838379 \<le> t"

fun audited :: "int \<Rightarrow> int \<Rightarrow> int \<Rightarrow> int \<Rightarrow> rewardee list \<Rightarrow> bool" where
  "audited lo acc hi tot [] \<longleftrightarrow> lo = hi \<and> acc = tot"
| "audited lo acc hi tot (r # rows) \<longleftrightarrow> lo < fst r \<and> row_ok r \<and> audited (fst r) (acc + fst (snd r)) hi tot rows"

lemma audited_append: "audited lo acc m u xs \<Longrightarrow> audited m u hi tot ys \<Longrightarrow> audited lo acc hi tot (xs @ ys)"
  by (induction lo acc m u xs rule: audited.induct) auto

lemma auditedD:
  assumes "audited lo acc hi tot rows"
  shows "list_all row_ok rows" "sorted_wrt (<) (map fst rows)" "list_all (\<lambda>r. lo < fst r \<and> fst r \<le> hi) rows"
    "lo \<le> hi" "acc + (\<Sum>r\<leftarrow>rows. fst (snd r)) = tot"
  using assms by (induction lo acc hi tot rows rule: audited.induct) (auto simp: list_all_iff)

lemma rewardees_audited_a:
  "audited (- 1) 0
    2249050327362171408769577612789894753883645104272232000156680146582161127442 10032198772930000 rewardees_1"
  "audited 2249050327362171408769577612789894753883645104272232000156680146582161127442 10032198772930000
    4755634423787488348282634513021847090238831196526378142004234233724125224749 24869986348470000 rewardees_2"
  "audited 4755634423787488348282634513021847090238831196526378142004234233724125224749 24869986348470000
    7656217781906505783286563597905474960996826076942469070055382734225415915079 47707274810390000 rewardees_3"
  "audited 7656217781906505783286563597905474960996826076942469070055382734225415915079 47707274810390000
    10881539507207823649914005806246760677077114762451499301793664586041320110893 78803265938670000 rewardees_4"
  "audited 10881539507207823649914005806246760677077114762451499301793664586041320110893 78803265938670000
    13660011006877959335088629695548132246811163228134480593572307498222897064566 193908344383760000 rewardees_5"
  "audited 13660011006877959335088629695548132246811163228134480593572307498222897064566 193908344383760000
    15824361496759942128599287073588712871071607676726064134407629698239546840111 291023222561040000 rewardees_6"
  "audited 15824361496759942128599287073588712871071607676726064134407629698239546840111 291023222561040000
    19106722775021156378838823748443265614790317654243939618124993831336573823513 325820985976610000 rewardees_7"
  "audited 19106722775021156378838823748443265614790317654243939618124993831336573823513 325820985976610000
    21906755599821995340012416609308325792854963375474873726812053335455371102793 824883982416870000 rewardees_8"
  "audited 21906755599821995340012416609308325792854963375474873726812053335455371102793 824883982416870000
    24619394930921202170072464784308558923576941345245478291568304677401667435828 868039722008100000 rewardees_9"
  "audited 24619394930921202170072464784308558923576941345245478291568304677401667435828 868039722008100000
    27461115079018816808581596676347094576741355146767742448874524581632745728324 880310493222380000 rewardees_10"
  by (simp_all add:
    rewardees_1_def rewardees_2_def rewardees_3_def rewardees_4_def rewardees_5_def
    rewardees_6_def rewardees_7_def rewardees_8_def rewardees_9_def rewardees_10_def)

lemma rewardees_audited_b:
  "audited 27461115079018816808581596676347094576741355146767742448874524581632745728324 880310493222380000
    30162000128038749358879273908400962444657582078571332938515282811225895375670 902640921099350000 rewardees_11"
  "audited 30162000128038749358879273908400962444657582078571332938515282811225895375670 902640921099350000
    33729428480363383052046102527121762314292965977831274615042951708255677923628 937566534335660000 rewardees_12"
  "audited 33729428480363383052046102527121762314292965977831274615042951708255677923628 937566534335660000
    36589476620645793451947313080964769493330556246824355158975813998829902183983 1001698623966580000 rewardees_13"
  "audited 36589476620645793451947313080964769493330556246824355158975813998829902183983 1001698623966580000
    39965021283692823284515142254186352764397698207695930433931634337044184544579 1018811014490070000 rewardees_14"
  "audited 39965021283692823284515142254186352764397698207695930433931634337044184544579 1018811014490070000
    42847161271229198090641594868319606124246875851639481144508956501331327220275 1193094051147070000 rewardees_15"
  "audited 42847161271229198090641594868319606124246875851639481144508956501331327220275 1193094051147070000
    46256568587022508428757389249421915591221203943303155647052100839735947681116 1312740600657280000 rewardees_16"
  "audited 46256568587022508428757389249421915591221203943303155647052100839735947681116 1312740600657280000
    49075803599498678332026970253466327811829588430344738755626411033681160097056 1407928899882090000 rewardees_17"
  "audited 49075803599498678332026970253466327811829588430344738755626411033681160097056 1407928899882090000
    51733086725208642769101094039917720890278309759598615514308320538931422385721 1442098209120330000 rewardees_18"
  "audited 51733086725208642769101094039917720890278309759598615514308320538931422385721 1442098209120330000
    54556084090260789416852152069960092477586148483967828678069045403285735394869 1459506933289650000 rewardees_19"
  "audited 54556084090260789416852152069960092477586148483967828678069045403285735394869 1459506933289650000
    57146502435887977702992377777537610775344312912411135566764989832385973775186 1501148293237650000 rewardees_20"
  by (simp_all add:
    rewardees_11_def rewardees_12_def rewardees_13_def rewardees_14_def rewardees_15_def
    rewardees_16_def rewardees_17_def rewardees_18_def rewardees_19_def rewardees_20_def)

lemma rewardees_audited_c:
  "audited 57146502435887977702992377777537610775344312912411135566764989832385973775186 1501148293237650000
    60666553143091093752245021343808809198765898104226610200255606160414466107166 1523099586973350000 rewardees_21"
  "audited 60666553143091093752245021343808809198765898104226610200255606160414466107166 1523099586973350000
    63508745910296074725373480357465842915293123931777810938792891075419426737952 1542048150853810000 rewardees_22"
  "audited 63508745910296074725373480357465842915293123931777810938792891075419426737952 1542048150853810000
    66217135460178689145597157056296885435769292087060264423967920607457172003390 1552435450804410000 rewardees_23"
  "audited 66217135460178689145597157056296885435769292087060264423967920607457172003390 1552435450804410000
    69011579622844044295789969164405444610606243591752739268640653983368770236700 1575056497108390000 rewardees_24"
  "audited 69011579622844044295789969164405444610606243591752739268640653983368770236700 1575056497108390000
    71908659127545486471697056018198477434028986870742688632268818983232687684657 1587473544714790000 rewardees_25"
  "audited 71908659127545486471697056018198477434028986870742688632268818983232687684657 1587473544714790000
    74550808686128651475025670934530249665186723537541973460719124666397433749510 1596532809111780000 rewardees_26"
  "audited 74550808686128651475025670934530249665186723537541973460719124666397433749510 1596532809111780000
    77820534424330907430843752542191575584264296087657496868805931923626601977663 1617581074713090000 rewardees_27"
  "audited 77820534424330907430843752542191575584264296087657496868805931923626601977663 1617581074713090000
    80671608650060925058674076791489294630072722358214706950673681344626083811906 1631628472061110000 rewardees_28"
  "audited 80671608650060925058674076791489294630072722358214706950673681344626083811906 1631628472061110000
    83510558939564495335929961243213982830646357422059078329510576226120666737979 1646973324244910000 rewardees_29"
  "audited 83510558939564495335929961243213982830646357422059078329510576226120666737979 1646973324244910000
    86354708954101447612694925697849087655221382930718162932295227702591521187605 1664433078790360000 rewardees_30"
  by (simp_all add:
    rewardees_21_def rewardees_22_def rewardees_23_def rewardees_24_def rewardees_25_def
    rewardees_26_def rewardees_27_def rewardees_28_def rewardees_29_def rewardees_30_def)

lemma rewardees_audited_d:
  "audited 86354708954101447612694925697849087655221382930718162932295227702591521187605 1664433078790360000
    89562556204062056165496209651433357879149769940067532586114704141492849748586 1680217911206560000 rewardees_31"
  "audited 89562556204062056165496209651433357879149769940067532586114704141492849748586 1680217911206560000
    92359326088131846400988801106478202537707923640850851916728934171095696432930 1689175370156860000 rewardees_32"
  "audited 92359326088131846400988801106478202537707923640850851916728934171095696432930 1689175370156860000
    96035191391430973227822308632658880058563237298784929966664542251137649955597 1704324926353900000 rewardees_33"
  "audited 96035191391430973227822308632658880058563237298784929966664542251137649955597 1704324926353900000
    98653600065083595713513522812953461322539795270762445607977435688908164371997 1718591701631430000 rewardees_34"
  "audited 98653600065083595713513522812953461322539795270762445607977435688908164371997 1718591701631430000
    101608642854598016982409451490251019243934121805463235054963239819163653536358 1744876270910470000 rewardees_35"
  "audited 101608642854598016982409451490251019243934121805463235054963239819163653536358 1744876270910470000
    104365793367743989853266280890706318399479998058007121502132205498804450476956 1842745903091750000 rewardees_36"
  "audited 104365793367743989853266280890706318399479998058007121502132205498804450476956 1842745903091750000
    107100238988995163835637183158285010865107133163819500209919080243690060725783 1868327951328550000 rewardees_37"
  "audited 107100238988995163835637183158285010865107133163819500209919080243690060725783 1868327951328550000
    109827557890169148135278188428934725606830150865805242479029334448198197088016 1931972650867450000 rewardees_38"
  "audited 109827557890169148135278188428934725606830150865805242479029334448198197088016 1931972650867450000
    113229179155996721048675084769967784972008550369368338227851476966678168809043 1950430347652690000 rewardees_39"
  "audited 113229179155996721048675084769967784972008550369368338227851476966678168809043 1950430347652690000
    115317401208027276614349237405035572724957929454942686329170679194997804964359 2000000934318310000 rewardees_40"
  by (simp_all add:
    rewardees_31_def rewardees_32_def rewardees_33_def rewardees_34_def rewardees_35_def
    rewardees_36_def rewardees_37_def rewardees_38_def rewardees_39_def rewardees_40_def)

lemmas rewardees_audited = rewardees_audited_a rewardees_audited_b rewardees_audited_c rewardees_audited_d

lemma rewardee_table_audited:
  "audited (- 1) 0
    115317401208027276614349237405035572724957929454942686329170679194997804964359
    2000000934318310000 rewardee_table"
  unfolding rewardee_table_def concat.simps by (rule audited_append, rule rewardees_audited)+ simp

end
