(* ===== verification/Rewards.thy ===== *)
theory Rewards
  imports Lockable Saturating Crowdloan_Table Ocex_Snapshot
begin

text \<open>
  The crowdloan rewards pallet, \<^verbatim>\<open>pallets/rewards/src/lib.rs\<close>: governance opens a reward cycle, a
  contributor of the table initialises the reward (a transfer from the pallet account under a lock)
  and claims it (the lock is removed).
\<close>

subsection \<open>State\<close>

datatype rewards_error =
    DuplicateId
  | InvalidBlocksRange
  | InvalidInitialPercentage
  | RewardIdNotRegister
  | UserNotEligible
  | UserHasNotInitializeClaimRewards
  | RewardsCannotBeUnlockYet
  | RewardsAlreadyInitialized
  | AmountToLowtoInitializeRewards

datatype rewards_event =
    RewardCycleCreated u32 u32 u32
  | UserUnlockedReward account u32
  | UserClaimedReward account u32 u128

record RewardInfo =
  ri_start_block :: u32
  ri_end_block :: u32
  ri_initial_percentage :: u32

record RewardInfoForAccount =
  ra_total_reward_amount :: u128
  ra_claim_amount :: u128
  ra_is_initial_rewards_claimed :: bool
  ra_is_initialized :: bool
  ra_lock_id :: lock_id
  ra_last_block_rewards_claim :: u32
  ra_initial_rewards_claimable :: u128
  ra_factor :: u128

datatype ExchangePayloadAction = Initialize | Claim

record ExchangePayload =
  ep_reward_id :: u32
  ep_action :: ExchangePayloadAction
  ep_user :: account

record RewardsInfoByAccount =
  rb_claimed :: u128
  rb_unclaimed :: u128
  rb_claimable :: u128

record 'w rewards_config =
  rc_currency :: "'w lockable"
  rc_governance :: "origin \<Rightarrow> bool"
  rc_pallet_account :: account
  rc_json :: "ExchangePayload \<Rightarrow> bytes option"
  rc_verify :: "bytes \<Rightarrow> bytes \<Rightarrow> account \<Rightarrow> bool"

record 'w rewards =
  rw_cycles :: "u32 \<rightharpoonup> RewardInfo"
  rw_distributor :: "u32 \<Rightarrow> account \<Rightarrow> RewardInfoForAccount option"
  rw_now :: u32
  rw_events :: "rewards_event list"
  rw_world :: 'w

definition MIN_REWARDS_CLAIMABLE_AMOUNT :: u128 where
  "MIN_REWARDS_CLAIMABLE_AMOUNT = 1000000000000"

definition REWARDS_LOCK_ID :: lock_id where
  "REWARDS_LOCK_ID = string_bytes ''REWARDID''"

definition HASHMAP :: "(account \<times> u128 \<times> u128 \<times> u128) list" where
  "HASHMAP = map (\<lambda>(a, t, i, f). (word_of_int a, word_of_int t, word_of_int i, word_of_int f)) rewardee_table"

definition rewards_emit :: "rewards_event \<Rightarrow> 'w rewards \<Rightarrow> 'w rewards" where
  "rewards_emit e s = s \<lparr> rw_events := rw_events s @ [e] \<rparr>"

subsection \<open>Operations\<close>

definition create_reward_cycle :: "'w rewards_config \<Rightarrow> origin \<Rightarrow> u32 \<Rightarrow> u32 \<Rightarrow> u32 \<Rightarrow> u32 \<Rightarrow> 'w rewards \<Rightarrow>
    rewards_error fault + 'w rewards" where
  "create_reward_cycle C orig start_block end_block initial_percentage reward_id s =
    ensure (rc_governance C orig) NotAllowed
    (ensure (rw_cycles s reward_id = None) (Fault DuplicateId)
    (ensure (start_block < end_block) (Fault InvalidBlocksRange)
    (ensure (initial_percentage \<le> 100 \<and> 0 < initial_percentage) (Fault InvalidInitialPercentage)
    (Inr (rewards_emit (RewardCycleCreated start_block end_block reward_id)
      (s \<lparr> rw_cycles := (rw_cycles s) (reward_id \<mapsto> \<lparr> ri_start_block = start_block, ri_end_block = end_block,
        ri_initial_percentage = initial_percentage \<rparr>) \<rparr>))))))"

definition transfer_pdex_rewards :: "'w rewards_config \<Rightarrow> account \<Rightarrow> account \<Rightarrow> u128 \<Rightarrow> 'w \<Rightarrow> rewards_error fault + 'w" where
  "transfer_pdex_rewards C payer payee amount w = map_err Foreign (lk_transfer (rc_currency C) payer payee amount Preserve w)"

definition do_initialize_claim_rewards :: "'w rewards_config \<Rightarrow> account \<Rightarrow> u32 \<Rightarrow> 'w rewards \<Rightarrow> rewards_error fault + 'w rewards" where
  "do_initialize_claim_rewards C user reward_id s =
    bind_res (ok_or (Fault RewardIdNotRegister) (rw_cycles s reward_id)) (\<lambda>reward_info.
    ensure (ri_start_block reward_info \<le> rw_now s) (Fault RewardsCannotBeUnlockYet)
    (ensure (rw_distributor s reward_id user = None) (Fault RewardsAlreadyInitialized)
    (bind_res (ok_or (Fault UserNotEligible) (map_of HASHMAP user)) (\<lambda>(total_rewards, initial_rewards, factor).
     ensure (MIN_REWARDS_CLAIMABLE_AMOUNT < total_rewards) (Fault AmountToLowtoInitializeRewards)
     (bind_res (transfer_pdex_rewards C (rc_pallet_account C) user total_rewards (rw_world s)) (\<lambda>w.
      let w = lk_set_lock (rc_currency C) REWARDS_LOCK_ID user total_rewards w;
          info = \<lparr> ra_total_reward_amount = total_rewards, ra_claim_amount = 0, ra_is_initial_rewards_claimed = False,
            ra_is_initialized = True, ra_lock_id = REWARDS_LOCK_ID, ra_last_block_rewards_claim = ri_start_block reward_info,
            ra_initial_rewards_claimable = initial_rewards, ra_factor = factor \<rparr>
      in Inr (rewards_emit (UserUnlockedReward user reward_id)
        (s \<lparr> rw_world := w, rw_distributor := put2 reward_id user (Some info) (rw_distributor s) \<rparr>))))))))"

definition do_claim :: "'w rewards_config \<Rightarrow> account \<Rightarrow> u32 \<Rightarrow> 'w rewards \<Rightarrow> rewards_error fault + 'w rewards" where
  "do_claim C user reward_id s =
    bind_res (ok_or (Fault RewardIdNotRegister) (rw_cycles s reward_id)) (\<lambda>_.
    bind_res (ok_or (Fault UserNotEligible) (rw_distributor s reward_id user)) (\<lambda>info.
    ensure (ra_is_initialized info) (Fault UserHasNotInitializeClaimRewards)
    (let rewards_claimable = (if ra_is_initial_rewards_claimed info then 0 else ra_initial_rewards_claimable info);
         rewards_claimable = sat_add rewards_claimable (sat_sub (ra_total_reward_amount info) (ra_claim_amount info));
         info = info \<lparr> ra_last_block_rewards_claim := rw_now s, ra_is_initial_rewards_claimed := True,
           ra_claim_amount := ra_total_reward_amount info \<rparr>
     in Inr (rewards_emit (UserClaimedReward user reward_id rewards_claimable)
       (s \<lparr> rw_world := lk_remove_lock (rc_currency C) (ra_lock_id info) user (rw_world s),
            rw_distributor := put2 reward_id user (Some info) (rw_distributor s) \<rparr>)))))"

definition initialize_claim_rewards :: "'w rewards_config \<Rightarrow> origin \<Rightarrow> u32 \<Rightarrow> 'w rewards \<Rightarrow> rewards_error fault + 'w rewards" where
  "initialize_claim_rewards C orig reward_id s = bind_res (signed_by orig) (\<lambda>user. do_initialize_claim_rewards C user reward_id s)"

definition claim :: "'w rewards_config \<Rightarrow> origin \<Rightarrow> u32 \<Rightarrow> 'w rewards \<Rightarrow> rewards_error fault + 'w rewards" where
  "claim C orig reward_id s = bind_res (signed_by orig) (\<lambda>user. do_claim C user reward_id s)"

definition unsigned_initialize_claim_rewards :: "'w rewards_config \<Rightarrow> origin \<Rightarrow> ExchangePayload \<Rightarrow> 'w rewards \<Rightarrow>
    rewards_error fault + 'w rewards" where
  "unsigned_initialize_claim_rewards C orig payload s =
    bind_res (by_none orig) (\<lambda>_. do_initialize_claim_rewards C (ep_user payload) (ep_reward_id payload) s)"

definition unsigned_claim :: "'w rewards_config \<Rightarrow> origin \<Rightarrow> ExchangePayload \<Rightarrow> 'w rewards \<Rightarrow> rewards_error fault + 'w rewards" where
  "unsigned_claim C orig payload s = bind_res (by_none orig) (\<lambda>_. do_claim C (ep_user payload) (ep_reward_id payload) s)"

subsection \<open>Unsigned transactions\<close>

definition validate_unsigned_claim :: "'w rewards_config \<Rightarrow> ExchangePayload \<Rightarrow> bytes \<Rightarrow> 'w rewards \<Rightarrow> validity" where
  "validate_unsigned_claim C payload signature s =
    (case rw_distributor s (ep_reward_id payload) (ep_user payload) of
      None \<Rightarrow> Custom 1
    | Some info \<Rightarrow>
        if sat_sub (ra_total_reward_amount info) (ra_claim_amount info) < 1000000000000 then Custom 2
        else case rc_json C payload of
          None \<Rightarrow> Custom 1
        | Some encoded \<Rightarrow> if rc_verify C signature encoded (ep_user payload) then Valid else Custom 3)"

definition validate_unsigned_initialize_claim_rewards :: "'w rewards_config \<Rightarrow> ExchangePayload \<Rightarrow> bytes \<Rightarrow> validity" where
  "validate_unsigned_initialize_claim_rewards C payload signature =
    (case rc_json C payload of
      None \<Rightarrow> Custom 1
    | Some encoded \<Rightarrow>
        if \<not> rc_verify C signature encoded (ep_user payload) then Custom 2
        else if list_ex (\<lambda>a. fst a = ep_user payload) HASHMAP then Valid else Custom 4)"

subsection \<open>The view of an account\<close>

definition account_info :: "account \<Rightarrow> u32 \<Rightarrow> 'w rewards \<Rightarrow> rewards_error fault + RewardsInfoByAccount" where
  "account_info acc reward_id s =
    (case (rw_distributor s reward_id acc, rw_cycles s reward_id) of
      (Some info, Some cycle) \<Rightarrow>
        let rewards_claimable = (if ra_is_initial_rewards_claimed info then 0 else ra_initial_rewards_claimable info);
            unclaimed_blocks = sat_sub (ucast (min (rw_now s) (ri_end_block cycle)) :: u128) (ucast (ra_last_block_rewards_claim info))
        in Inr \<lparr> rb_claimed = ra_claim_amount info,
             rb_unclaimed = sat_sub (ra_total_reward_amount info) (ra_claim_amount info),
             rb_claimable = sat_add rewards_claimable (sat_mul (ra_factor info) unclaimed_blocks) \<rparr>
    | _ \<Rightarrow> Inl (Fault UserNotEligible))"

subsection \<open>The table\<close>

lemma rewardee_rowD:
  assumes "(a, t, i, f) \<in> set rewardee_table"
  shows "0 \<le> a" "a < 2 ^ 256" "1000000000000 < t" "t \<le> 2000000934318310000" "0 < i" "0 < f" "i + f * 4838379 \<le> t"
proof -
  note audit = auditedD [OF rewardee_table_audited]
  have row: "row_ok (a, t, i, f)" "- 1 < a"
      "a \<le> 115317401208027276614349237405035572724957929454942686329170679194997804964359"
    using audit(1,3) assms by (auto simp: list_all_iff)
  from row show "0 \<le> a" "a < 2 ^ 256" "1000000000000 < t" "0 < i" "0 < f" "i + f * 4838379 \<le> t"
    by simp_all
  have "\<forall>r\<in>set rewardee_table. 0 \<le> fst (snd r)"
    using audit(1) by (force simp: list_all_iff)
  then have "t \<le> (\<Sum>r\<leftarrow>rewardee_table. fst (snd r))"
    using assms by (intro member_le_sum_list) force+
  then show "t \<le> 2000000934318310000" using audit(5) by simp
qed

lemma uint_row:
  assumes "(a, t, i, f) \<in> set rewardee_table"
  shows "uint (word_of_int a :: 256 word) = a" "uint (word_of_int t :: u128) = t" "uint (word_of_int i :: u128) = i"
    "uint (word_of_int f :: u128) = f"
proof -
  note row = rewardee_rowD [OF assms]
  have "i < 2 ^ 128" "f < 2 ^ 128" "t < 2 ^ 128" using row(4-7) by auto
  then show "uint (word_of_int a :: 256 word) = a" "uint (word_of_int t :: u128) = t" "uint (word_of_int i :: u128) = i"
    "uint (word_of_int f :: u128) = f"
    using row by (simp_all add: uint_word_of_int)
qed

lemma HASHMAP_sorted: "sorted_wrt (<) (map fst HASHMAP)"
proof -
  have "sorted_wrt (\<lambda>a b. (word_of_int a :: account) < word_of_int b) (map fst rewardee_table)"
    using auditedD(2) [OF rewardee_table_audited]
    by (rule sorted_wrt_mono_rel [rotated]) (auto simp: word_less_def uint_row)
  then show ?thesis
    by (simp add: HASHMAP_def sorted_wrt_map case_prod_beta)
qed

lemma HASHMAP_distinct: "distinct (map fst HASHMAP)"
  using HASHMAP_sorted by (simp add: strict_sorted_iff)

lemma HASHMAP_rows:
  assumes "(u, t, i, f) \<in> set HASHMAP"
  shows "MIN_REWARDS_CLAIMABLE_AMOUNT < t" "unat i + unat f * 4838379 \<le> unat t" "0 < i" "0 < f"
proof -
  from assms obtain a t' i' f' where r: "(a, t', i', f') \<in> set rewardee_table" "t = word_of_int t'" "i = word_of_int i'" "f = word_of_int f'"
    by (auto simp: HASHMAP_def)
  note row = rewardee_rowD [OF r(1)] and u = uint_row [OF r(1)]
  show "MIN_REWARDS_CLAIMABLE_AMOUNT < t" "0 < i" "0 < f"
    using row by (simp_all add: r word_less_def u MIN_REWARDS_CLAIMABLE_AMOUNT_def)
  have "int (unat i + unat f * 4838379) \<le> int (unat t)"
    using row by (simp add: r u)
  then show "unat i + unat f * 4838379 \<le> unat t" by linarith
qed

lemma HASHMAP_total: "(\<Sum>(u, t, i, f)\<leftarrow>HASHMAP. unat t) = 2000000934318310000"
proof -
  have "int (\<Sum>(u, t, i, f)\<leftarrow>HASHMAP. unat t) = (\<Sum>(a, t, i, f)\<leftarrow>rewardee_table. uint (word_of_int t :: u128))"
    by (simp add: HASHMAP_def comp_def case_prod_unfold flip: sum_list_of_nat)
  also have "\<dots> = (\<Sum>r\<leftarrow>rewardee_table. fst (snd r))"
    by (intro arg_cong [of _ _ sum_list] map_cong) (auto simp: uint_row)
  finally show ?thesis
    using auditedD(5) [OF rewardee_table_audited] by simp
qed

text \<open>A sum over a finite type of the values of a table with distinct keys.\<close>

lemma sum_map_of:
  fixes xs :: "('k::finite \<times> 'v) list"
  assumes "distinct (map fst xs)"
  shows "(\<Sum>k\<in>UNIV. case map_of xs k of None \<Rightarrow> 0 | Some v \<Rightarrow> h v) = (\<Sum>(k, v)\<leftarrow>xs. (h v :: nat))"
  using assms
proof (induction xs)
  case (Cons x xs)
  obtain k v where x: "x = (k, v)" by force
  let ?g = "\<lambda>k. case map_of xs k of None \<Rightarrow> 0 | Some v \<Rightarrow> h v"
  have "map_of xs k = None" using Cons.prems by (simp add: x map_of_eq_None_iff)
  then have "?g k = 0" by simp
  moreover have "(\<lambda>l. case map_of (x # xs) l of None \<Rightarrow> 0 | Some v \<Rightarrow> h v) = ?g (k := h v)"
    by (auto simp: x fun_eq_iff)
  ultimately show ?case
    using Cons.IH Cons.prems sum_fun_upd [of ?g k "h v"] by (simp only: x) simp
qed simp

subsection \<open>Runs\<close>

datatype rewards_call =
    CreateRewardCycle u32 u32 u32 u32
  | InitializeClaimRewards u32
  | ClaimRewards u32
  | UnsignedInitialize ExchangePayload
  | UnsignedClaim ExchangePayload
  | NextBlock u32

fun rewards_dispatch :: "'w rewards_config \<Rightarrow> origin \<Rightarrow> rewards_call \<Rightarrow> 'w rewards \<Rightarrow> rewards_error fault + 'w rewards" where
  "rewards_dispatch C orig (CreateRewardCycle b e p i) s = create_reward_cycle C orig b e p i s"
| "rewards_dispatch C orig (InitializeClaimRewards i) s = initialize_claim_rewards C orig i s"
| "rewards_dispatch C orig (ClaimRewards i) s = claim C orig i s"
| "rewards_dispatch C orig (UnsignedInitialize p) s = unsigned_initialize_claim_rewards C orig p s"
| "rewards_dispatch C orig (UnsignedClaim p) s = unsigned_claim C orig p s"
| "rewards_dispatch C orig (NextBlock b) s = Inr (s \<lparr> rw_now := b \<rparr>)"

definition rewards_genesis :: "'w \<Rightarrow> 'w rewards" where
  "rewards_genesis w = \<lparr> rw_cycles = Map.empty, rw_distributor = (\<lambda>_ _. None), rw_now = 0, rw_events = [], rw_world = w \<rparr>"

inductive rewards_reachable :: "'w rewards_config \<Rightarrow> 'w \<Rightarrow> 'w rewards \<Rightarrow> bool" for C w where
  genesis: "rewards_reachable C w (rewards_genesis w)"
| call: "rewards_reachable C w s \<Longrightarrow> rewards_dispatch C orig c s = Inr s' \<Longrightarrow> rewards_reachable C w s'"

lemma HASHMAP_claimable: "map_of HASHMAP u = Some (t, i, f) \<Longrightarrow> MIN_REWARDS_CLAIMABLE_AMOUNT < t"
  by (drule map_of_SomeD) (rule HASHMAP_rows(1))

lemma do_initialize_Inr:
  "do_initialize_claim_rewards C user i s = Inr s' \<longleftrightarrow>
    (\<exists>cycle t ini f w. rw_cycles s i = Some cycle \<and> ri_start_block cycle \<le> rw_now s \<and> rw_distributor s i user = None \<and>
      map_of HASHMAP user = Some (t, ini, f) \<and>
      lk_transfer (rc_currency C) (rc_pallet_account C) user t Preserve (rw_world s) = Inr w \<and>
      s' = rewards_emit (UserUnlockedReward user i)
        (s \<lparr> rw_world := lk_set_lock (rc_currency C) REWARDS_LOCK_ID user t w,
             rw_distributor := put2 i user (Some \<lparr> ra_total_reward_amount = t, ra_claim_amount = 0,
               ra_is_initial_rewards_claimed = False, ra_is_initialized = True, ra_lock_id = REWARDS_LOCK_ID,
               ra_last_block_rewards_claim = ri_start_block cycle, ra_initial_rewards_claimable = ini, ra_factor = f \<rparr>)
               (rw_distributor s) \<rparr>))"
  using HASHMAP_claimable [of user]
  by (auto simp: do_initialize_claim_rewards_def transfer_pdex_rewards_def res_simps Let_def)

lemma rewards_do_claim_Inr:
  "do_claim C user i s = Inr s' \<longleftrightarrow>
    (\<exists>cycle info. rw_cycles s i = Some cycle \<and> rw_distributor s i user = Some info \<and> ra_is_initialized info \<and>
      s' = rewards_emit (UserClaimedReward user i (sat_add (if ra_is_initial_rewards_claimed info then 0 else ra_initial_rewards_claimable info)
          (sat_sub (ra_total_reward_amount info) (ra_claim_amount info))))
        (s \<lparr> rw_world := lk_remove_lock (rc_currency C) (ra_lock_id info) user (rw_world s),
             rw_distributor := put2 i user (Some (info \<lparr> ra_last_block_rewards_claim := rw_now s,
               ra_is_initial_rewards_claimed := True, ra_claim_amount := ra_total_reward_amount info \<rparr>)) (rw_distributor s) \<rparr>))"
  by (cases "rw_cycles s i"; cases "rw_distributor s i user") (simp_all add: do_claim_def ensure_def Let_def eq_commute [of s'])

text \<open>Every stored reward is the one of the table, initialised, and claimed either not at all or completely.\<close>

definition entry_ok :: "account \<Rightarrow> RewardInfoForAccount \<Rightarrow> bool" where
  "entry_ok user info \<longleftrightarrow>
    map_of HASHMAP user = Some (ra_total_reward_amount info, ra_initial_rewards_claimable info, ra_factor info) \<and>
    ra_is_initialized info \<and> ra_lock_id info = REWARDS_LOCK_ID \<and>
    ra_claim_amount info = (if ra_is_initial_rewards_claimed info then ra_total_reward_amount info else 0)"

definition distributor_inv :: "'w rewards \<Rightarrow> bool" where
  "distributor_inv s \<longleftrightarrow> (\<forall>i user info. rw_distributor s i user = Some info \<longrightarrow> entry_ok user info)"

lemma distributor_inv_put:
  "distributor_inv s \<Longrightarrow> entry_ok user info \<Longrightarrow>
    distributor_inv (rewards_emit e (s \<lparr> rw_world := w, rw_distributor := put2 i user (Some info) (rw_distributor s) \<rparr>))"
  by (auto simp: distributor_inv_def rewards_emit_def put2_apply split: if_splits)

lemma distributor_inv_initialize:
  "distributor_inv s \<Longrightarrow> do_initialize_claim_rewards C user i s = Inr s' \<Longrightarrow> distributor_inv s'"
  by (auto simp: do_initialize_Inr entry_ok_def intro!: distributor_inv_put)

lemma distributor_inv_claim: "distributor_inv s \<Longrightarrow> do_claim C user i s = Inr s' \<Longrightarrow> distributor_inv s'"
  by (auto simp: rewards_do_claim_Inr intro!: distributor_inv_put) (auto simp: distributor_inv_def entry_ok_def)

lemma distributor_inv_frame [simp]:
  "distributor_inv (s \<lparr> rw_now := b \<rparr>) = distributor_inv s"
  "distributor_inv (rewards_emit e (s \<lparr> rw_cycles := c \<rparr>)) = distributor_inv s"
  by (simp_all add: distributor_inv_def rewards_emit_def)

lemmas rewards_calls = create_reward_cycle_def initialize_claim_rewards_def claim_def
  unsigned_initialize_claim_rewards_def unsigned_claim_def

lemma distributor_inv_reachable: "rewards_reachable C w s \<Longrightarrow> distributor_inv s"
proof (induction rule: rewards_reachable.induct)
  case (call s orig c s')
  then show ?case
    by (cases c) (auto simp: res_simps rewards_calls dest: distributor_inv_initialize distributor_inv_claim)
qed (simp add: distributor_inv_def rewards_genesis_def)

subsection \<open>Claims\<close>

definition initialised_total :: "u32 \<Rightarrow> 'w rewards \<Rightarrow> nat" where
  "initialised_total i s = (\<Sum>user\<in>UNIV. case rw_distributor s i user of None \<Rightarrow> 0 | Some info \<Rightarrow> unat (ra_total_reward_amount info))"

lemma initialised_total_le:
  assumes "distributor_inv s"
  shows "initialised_total i s \<le> 2000000934318310000"
proof -
  have "initialised_total i s \<le> (\<Sum>user\<in>UNIV. case map_of HASHMAP user of None \<Rightarrow> 0 | Some (t, _) \<Rightarrow> unat t)"
    unfolding initialised_total_def using assms
    by (intro sum_mono) (auto simp: distributor_inv_def entry_ok_def split: option.split)
  also have "\<dots> = (\<Sum>(u, t, ini, f)\<leftarrow>HASHMAP. unat t)"
    using sum_map_of [OF HASHMAP_distinct, of "\<lambda>(t, _). unat t"] by (simp add: case_prod_unfold)
  finally show ?thesis by (simp add: HASHMAP_total)
qed


text \<open>C20: what a cycle pays out. In every reachable state the rewards initialised in a cycle sum up to at
  most the total of the table, every one is the amount of the table for its account, and the claimed
  amount never exceeds it; a reward that is stored cannot be initialised again.\<close>

theorem rewards_payout_bounded:
  assumes "rewards_reachable C w s"
  shows "initialised_total i s \<le> 2000000934318310000 \<and>
    (\<forall>user info. rw_distributor s i user = Some info \<longrightarrow>
      map_of HASHMAP user = Some (ra_total_reward_amount info, ra_initial_rewards_claimable info, ra_factor info) \<and>
      ra_claim_amount info \<le> ra_total_reward_amount info \<and>
      \<not> is_ok (do_initialize_claim_rewards C user i s))"
  using initialised_total_le [OF distributor_inv_reachable [OF assms]] distributor_inv_reachable [OF assms]
  by (auto simp: distributor_inv_def entry_ok_def is_ok_iff do_initialize_Inr)

lemma account_info_claimed:
  assumes "rw_cycles s i = Some cycle" and "rw_distributor s i user = Some info" and "ra_is_initial_rewards_claimed info"
    and "ra_claim_amount info = ra_total_reward_amount info" and "ra_last_block_rewards_claim info < rw_now s"
    and "rw_now s \<le> ri_end_block cycle" and "0 < ra_factor info"
  shows "\<exists>v. account_info user i s = Inr v \<and> rb_unclaimed v = 0 \<and> 0 < rb_claimable v"
proof -
  let ?blocks = "sat_sub (ucast (rw_now s) :: u128) (ucast (ra_last_block_rewards_claim info))"
  have up: "unat (ucast x :: u128) = unat x" for x :: u32
    using unat_less_exp [of x] by (simp add: unsigned_ucast_eq take_bit_nat_eq_self)
  have "0 < unat ?blocks"
    using assms(5) by (simp add: unat_sat_sub up word_less_nat_alt)
  then have "0 < unat (sat_mul (ra_factor info) ?blocks)"
    using assms(7) by (simp add: unat_sat_mul unat_gt_0 word_neq_0_conv)
  then have "0 < unat (sat_add 0 (sat_mul (ra_factor info) ?blocks))"
    by (simp add: unat_sat_add)
  then show ?thesis
    using assms by (simp add: account_info_def Let_def sat_sub_def min_def word_gt_0 unat_gt_0)
qed

text \<open>C21: the vesting is not enforced. Whoever has just initialised a reward can claim at once, before the end
  of the cycle: the whole lock is removed, the event reports the part claimable at the start on top of the
  total, and in a later block before the end of the cycle the account view shows a positive claimable
  amount although nothing is left to claim.\<close>

theorem claim_ignores_vesting:
  assumes "lockable_laws (rc_currency C) fb" and "do_initialize_claim_rewards C user i s = Inr s1"
  shows "\<exists>t ini f s2. map_of HASHMAP user = Some (t, ini, f) \<and>
    fb (rw_world s1) = adjusted (adjusted (fb (rw_world s)) (rc_pallet_account C) (- int (unat t))) user (int (unat t)) \<and>
    lock_of (rc_currency C) REWARDS_LOCK_ID (rw_world s1) user = unat t \<and>
    do_claim C user i s1 = Inr s2 \<and> fb (rw_world s2) = fb (rw_world s1) \<and>
    lock_of (rc_currency C) REWARDS_LOCK_ID (rw_world s2) user = 0 \<and>
    last (rw_events s2) = UserClaimedReward user i (sat_add ini t) \<and>
    (\<forall>cycle b. rw_cycles s i = Some cycle \<longrightarrow> rw_now s < b \<longrightarrow> b \<le> ri_end_block cycle \<longrightarrow>
      (\<exists>v. account_info user i (s2 \<lparr> rw_now := b \<rparr>) = Inr v \<and> rb_unclaimed v = 0 \<and> 0 < rb_claimable v))"
proof -
  note law = lockable_lawsD [OF assms(1)]
  from assms(2) obtain cycle t ini f w where c: "rw_cycles s i = Some cycle" and row: "map_of HASHMAP user = Some (t, ini, f)"
    and tr: "lk_transfer (rc_currency C) (rc_pallet_account C) user t Preserve (rw_world s) = Inr w"
    and s1: "s1 = rewards_emit (UserUnlockedReward user i)
        (s \<lparr> rw_world := lk_set_lock (rc_currency C) REWARDS_LOCK_ID user t w,
             rw_distributor := put2 i user (Some \<lparr> ra_total_reward_amount = t, ra_claim_amount = 0,
               ra_is_initial_rewards_claimed = False, ra_is_initialized = True, ra_lock_id = REWARDS_LOCK_ID,
               ra_last_block_rewards_claim = ri_start_block cycle, ra_initial_rewards_claimable = ini, ra_factor = f \<rparr>)
               (rw_distributor s) \<rparr>)"
    by (auto simp: do_initialize_Inr)
  obtain s2 where s2: "do_claim C user i s1 = Inr s2"
    using c by (simp add: do_claim_def s1 rewards_emit_def Let_def)
  have t0: "t \<noteq> 0" using HASHMAP_claimable [OF row] by (auto simp: MIN_REWARDS_CLAIMABLE_AMOUNT_def)
  have f0: "0 < f" using HASHMAP_rows(4) [OF map_of_SomeD [OF row]] .
  from s2 c have s2': "rw_world s2 = lk_remove_lock (rc_currency C) REWARDS_LOCK_ID user (rw_world s1)"
      "last (rw_events s2) = UserClaimedReward user i (sat_add ini t)" "rw_cycles s2 = rw_cycles s"
      "\<exists>info. rw_distributor s2 i user = Some info \<and> ra_is_initial_rewards_claimed info \<and> ra_factor info = f \<and>
        ra_claim_amount info = ra_total_reward_amount info \<and> ra_last_block_rewards_claim info = rw_now s"
    by (auto simp: rewards_do_claim_Inr s1 rewards_emit_def sat_sub_def)
  have "\<exists>v. account_info user i (s2 \<lparr> rw_now := b \<rparr>) = Inr v \<and> rb_unclaimed v = 0 \<and> 0 < rb_claimable v"
    if "rw_now s < b" "b \<le> ri_end_block cycle" for b
    using s2'(3,4) c f0 that by (auto intro!: account_info_claimed)
  then show ?thesis
    using row c s2 s2'(2) t0
    by (auto simp: s2'(1) law(8-11) law(2) [OF tr] s1 rewards_emit_def)
qed

subsection \<open>Witnesses\<close>

definition sample_rewardee :: account where
  "sample_rewardee = word_of_int 13570136076083284257796235342286378767279334798454035872325238951093112579"

lemma sample_rewardee_row: "map_of HASHMAP sample_rewardee = Some (10274080000000, 2568520000000, 1592580)"
proof -
  have "(13570136076083284257796235342286378767279334798454035872325238951093112579, 10274080000000, 2568520000000, 1592580) \<in> set rewardees_1"
    by (simp add: rewardees_1_def)
  then have "(13570136076083284257796235342286378767279334798454035872325238951093112579, 10274080000000, 2568520000000, 1592580) \<in> set rewardee_table"
    by (simp add: rewardee_table_def)
  from imageI [OF this, of "\<lambda>(a, t, i, f). (word_of_int a, word_of_int t, word_of_int i, word_of_int f)"]
  have "(sample_rewardee, 10274080000000, 2568520000000, 1592580) \<in> set HASHMAP"
    by (simp only: HASHMAP_def sample_rewardee_def set_map prod.case word_of_int_numeral)
  then show ?thesis
    using HASHMAP_distinct by simp
qed

definition sample_rewards_config :: "ledger rewards_config" where
  "sample_rewards_config = \<lparr> rc_currency = ledger_currency, rc_governance = (\<lambda>orig. orig = Root), rc_pallet_account = 1,
    rc_json = (\<lambda>_. Some []), rc_verify = (\<lambda>sig _ _. sig = [1]) \<rparr>"

definition sample_fund :: ledger where
  "sample_fund = \<lparr> lg_free = (\<lambda>_. 3000000000000000000), lg_locks = (\<lambda>_. []) \<rparr>"

definition sample_cycle :: "ledger rewards" where
  "sample_cycle = (rewards_genesis sample_fund)
    \<lparr> rw_cycles := [4 \<mapsto> \<lparr> ri_start_block = 0, ri_end_block = 100, ri_initial_percentage = 25 \<rparr>],
      rw_events := [RewardCycleCreated 0 100 4] \<rparr>"

lemma sample_cycle_reachable: "rewards_reachable sample_rewards_config sample_fund sample_cycle"
proof (rule rewards_reachable.call [OF rewards_reachable.genesis])
  show "rewards_dispatch sample_rewards_config Root (CreateRewardCycle 0 100 25 4) (rewards_genesis sample_fund) = Inr sample_cycle"
    by (simp add: create_reward_cycle_def sample_rewards_config_def sample_cycle_def rewards_genesis_def rewards_emit_def)
qed

lemma sample_initialised: "is_ok (do_initialize_claim_rewards sample_rewards_config sample_rewardee 4 sample_cycle)"
  by (simp add: do_initialize_claim_rewards_def sample_cycle_def rewards_genesis_def sample_rewardee_row transfer_pdex_rewards_def
      MIN_REWARDS_CLAIMABLE_AMOUNT_def sample_rewards_config_def ledger_currency_def sample_fund_def Let_def)

theorem rewards_payout_bounded_witness:
  "\<exists>s. rewards_reachable sample_rewards_config sample_fund s \<and>
    rw_distributor s 4 sample_rewardee \<noteq> None \<and> initialised_total 4 s \<le> 2000000934318310000 \<and>
    \<not> is_ok (do_initialize_claim_rewards sample_rewards_config sample_rewardee 4 s)"
proof -
  obtain s where s: "do_initialize_claim_rewards sample_rewards_config sample_rewardee 4 sample_cycle = Inr s"
    using sample_initialised by (auto simp: is_ok_iff)
  then have "rewards_dispatch sample_rewards_config (Signed sample_rewardee) (InitializeClaimRewards 4) sample_cycle = Inr s"
    by (simp add: initialize_claim_rewards_def)
  with sample_cycle_reachable have r: "rewards_reachable sample_rewards_config sample_fund s"
    by (rule rewards_reachable.call)
  have "rw_distributor s 4 sample_rewardee \<noteq> None"
    using s by (auto simp: do_initialize_Inr rewards_emit_def)
  then show ?thesis
    using r rewards_payout_bounded [OF r, of 4] by blast
qed

theorem claim_ignores_vesting_witness:
  "\<exists>s1 s2 v. do_initialize_claim_rewards sample_rewards_config sample_rewardee 4 sample_cycle = Inr s1 \<and>
    do_claim sample_rewards_config sample_rewardee 4 s1 = Inr s2 \<and>
    lock_of ledger_currency REWARDS_LOCK_ID (rw_world s2) sample_rewardee = 0 \<and>
    account_info sample_rewardee 4 (s2 \<lparr> rw_now := 50 \<rparr>) = Inr v \<and> rb_unclaimed v = 0 \<and> 0 < rb_claimable v"
proof -
  obtain s where s: "do_initialize_claim_rewards sample_rewards_config sample_rewardee 4 sample_cycle = Inr s"
    using sample_initialised by (auto simp: is_ok_iff)
  have "lockable_laws (rc_currency sample_rewards_config) lg_free"
    by (simp add: sample_rewards_config_def ledger_currency_laws)
  from claim_ignores_vesting [OF this s] obtain s2 where s2: "do_claim sample_rewards_config sample_rewardee 4 s = Inr s2"
      "lock_of ledger_currency REWARDS_LOCK_ID (rw_world s2) sample_rewardee = 0"
      "\<forall>cycle b. rw_cycles sample_cycle 4 = Some cycle \<longrightarrow> rw_now sample_cycle < b \<longrightarrow> b \<le> ri_end_block cycle \<longrightarrow>
        (\<exists>v. account_info sample_rewardee 4 (s2 \<lparr> rw_now := b \<rparr>) = Inr v \<and> rb_unclaimed v = 0 \<and> 0 < rb_claimable v)"
    by (auto simp: sample_rewards_config_def)
  from s2(3) [rule_format, of _ 50]
  have "\<exists>v. account_info sample_rewardee 4 (s2 \<lparr> rw_now := 50 \<rparr>) = Inr v \<and> rb_unclaimed v = 0 \<and> 0 < rb_claimable v"
    by (simp add: sample_cycle_def rewards_genesis_def)
  with s s2(1,2) show ?thesis by blast
qed

end
