(* ===== verification/Spec2Isabelle.thy ===== *)
theory Spec2Isabelle
  imports Ocex_System Worker_Runs Ocex_Views Thea_Theorems Xcm_Queue Lmp_Pools Pdex_Migration Rewards
begin

text \<open>
  \<^bold>\<open>A verification of the pallets of the Polkadex node.\<close>

  \<^bold>\<open>The program.\<close> Polkadex is a blockchain node with an order book. The matching engine runs outside
  the chain. Users register and deposit on chain (\<^verbatim>\<open>pallets/ocex\<close>); every such call leaves an ingress
  message in the queue of its block. The off-chain worker of each validator replays the batches of
  the engine on its own trie of balances (\<^verbatim>\<open>validator.rs\<close>, \<^verbatim>\<open>settlement.rs\<close>, \<^verbatim>\<open>storage.rs\<close>) and signs a
  summary of the result. A summary with enough signatures is accepted on chain as a snapshot, which
  pays withdrawals and executes the engine's egress messages. Around it stand a bridge
  (\<^verbatim>\<open>pallets/thea\<close>, \<^verbatim>\<open>pallets/xcm-helper\<close>), crowd-sourced liquidity mining
  (\<^verbatim>\<open>pallets/liquidity-mining\<close>), the migration from Ethereum (\<^verbatim>\<open>pallets/pdex-migration\<close>) and the
  crowdloan rewards (\<^verbatim>\<open>pallets/rewards\<close>).

  \<^bold>\<open>Conventions.\<close> Machine integers are words, with the saturating operations of Rust in \<open>Prelude\<close> and
  \<open>Saturating\<close>; plain additions wrap, as in a release build. A dispatchable is a function from a
  configuration, an origin, its arguments and the storage record to an error or the new storage; an
  error carries no storage because the runtime rolls back. Hooks and the off-chain worker are not
  rolled back and return the storage next to their result. A panic is an error value of its own.
  \<open>BTreeMap\<close> is an association list in ascending order (\<open>BTree_Map\<close>, locale \<open>ordered_dict\<close>).

  \<^bold>\<open>Parameters.\<close> Code outside the repository is an argument of the definitions: \<^verbatim>\<open>rust_decimal\<close>
  (\<open>decimal_ops\<close>, laws \<open>decimal_laws\<close>), the trie of sp-trie (\<open>trie_ops\<close>, laws \<open>trie_laws\<close>), SCALE codecs and
  signature schemes (\<open>codec\<close>, \<open>crypto\<close>, laws \<open>codec_laws\<close> and \<open>key_laws\<close>), currencies and assets
  (\<open>currency_laws\<close>, \<open>fungible_laws\<close>, \<open>lockable_laws\<close>, \<open>payout_laws\<close>). The laws are hypotheses where a
  property needs them; concrete instances (exact rationals, an association list as trie, ledgers)
  satisfy them and serve in the witnesses.

  \<^bold>\<open>Primitives.\<close> \<open>Assets\<close> (\<^verbatim>\<open>polkadex/src/assets.rs\<close>), \<open>Orders\<close> and \<open>Messages\<close> (\<^verbatim>\<open>orderbook/src\<close>): asset
  identifiers, trading pairs, orders and their priority, signatures, messages and snapshots. Shown:
  printing and parsing of pairs round-trip, book keys follow price-time priority.

  \<^bold>\<open>Off-chain state.\<close> \<open>Offchain_State\<close> models the cache over the trie and the reference-counted node
  store of \<^verbatim>\<open>storage.rs\<close>. The locale \<open>kv_store\<close> is its contract: it refines a finite map. A read after a
  removal is the exception and is stated as such. \<open>Settlement\<close> models \<^verbatim>\<open>settlement.rs\<close>; the locale \<open>ledger\<close>
  sums balances over accounts, and settling a trade of opposite sides conserves every asset up to
  rounding dust. \<open>Offchain_Lmp\<close> models the statistics of \<^verbatim>\<open>lmp.rs\<close>, with the locale \<open>tally\<close> for its counters.
  \<open>Ocex_Validator\<close> models the processing of a whole batch and shows that no batch withdraws or
  releases more than was held and deposited.

  \<^bold>\<open>The worker.\<close> \<open>Ocex_Worker\<close> models \<^verbatim>\<open>run_on_chain_validation\<close>: lock, keys, recovery, checkpoint, missing
  batches, next batch and the signed summary. \<open>node_store\<close> is what survives a run, \<open>node_env\<close> holds the
  key store and the answers of the aggregator. \<open>Worker_Runs\<close> shows what a run does: the binary search
  for keys agrees with a filter when the keys are sorted, the lock is held for the whole run, and at
  most one summary is sent. \<open>Ocex_Views\<close> has the read-only functions behind the RPC calls.

  \<^bold>\<open>The orderbook pallet.\<close> \<open>Ocex_Types\<close> and \<open>Ocex_State\<close> have its storage, configuration and shared
  operations (locale \<open>block_queue\<close> for the bounded ingress queue). \<open>Ocex_Accounts\<close>, \<open>Ocex_Markets\<close>,
  \<open>Ocex_Withdrawals\<close> (locale \<open>payout\<close>), \<open>Ocex_Lmp\<close>, \<open>Ocex_Egress\<close>, \<open>Ocex_Snapshot\<close> and \<open>Ocex_Auction\<close> have one
  group of calls each, with the effect of the operations and the invariant they keep. \<open>Ocex_System\<close>
  composes them to a transition system over calls, validated snapshots, blocks, sessions and
  arbitrary changes elsewhere on the chain, and proves the combined invariant for every reachable
  state. For snapshots: the exact condition of acceptance, no replay, each withdrawal paid or kept.

  \<^bold>\<open>The bridge.\<close> \<open>Thea_Types\<close> and \<open>Thea\<close> model messages, signatures, stakes, calls, hooks and rotation of
  authorities. The threshold is an instance of the locale \<open>byzantine_quorums\<close>. \<open>Thea_Safety\<close> has the
  invariant of the outgoing side, \<open>Thea_Theorems\<close> what follows: finality needs a quorum of verified
  signatures, sent messages are never overwritten. \<open>Resolver\<close> (locale \<open>vault\<close>, instances for locking
  and minting) and \<open>Xcm_Helper\<close> model the execution of transfers, \<open>Xcm_Queue\<close> shows that the queue drains.

  \<^bold>\<open>The other pallets.\<close> \<open>Liquidity_Mining\<close> has the calls and callbacks of the pools, on top of the interface
  the orderbook pallet implements; \<open>Lmp_Pools\<close> has its reachable states and the rewards of providers.
  \<open>Pdex_Migration\<close> shows that the supply stays capped and that minting needs three relayers. \<open>Rewards\<close>
  shows that a cycle pays at most the table; \<open>Crowdloan_Table\<close> holds all 3631 rows of the table, in
  forty pieces that are audited one by one. \<open>Lockable\<close> is the currency with named locks of both.

  \<^bold>\<open>Loops.\<close> No definition uses fuel. Loops over stored collections are structural recursion or folds;
  the binary search has a termination proof. The three attempts to take the lock are a
  recursion with the bound of the source.

  \<^bold>\<open>Not modelled.\<close> Weights, benchmarks and tests; the RPC servers and the node binary (input and output);
  the configuration of the runtime and its migrations; the vendored copies of upstream pallets and
  of the client database; the BLS wrapper; the HTTP client of the aggregator, of which only the
  answers appear; the off-chain worker of the bridge, whose submission is commented out.
\<close>

end
